(* ===== verification/Prelude.thy ===== *)
theory Prelude
  imports Main "HOL-Library.State_Monad" "HOL-Library.AList" "HOL-Library.List_Lexorder"
    "HOL-Library.Char_ord"
begin

section \<open>Prelude: conventions and lemmas the components share\<close>

text \<open>
  The conventions of the development.
  \<^item> A Go \<open>string\<close> and a \<open>[]byte\<close> are both a \<open>string\<close> of HOL: a list of bytes.
    Go's \<open>==\<close> is equality, \<open>cmp.Compare\<close> on strings is the bytewise lexicographic
    order (\<open>List_Lexorder\<close> over \<open>Char_ord\<close>).
  \<^item> A Go map is an association list with distinct keys; \<open>map_of\<close> looks a key up,
    \<open>AList.update\<close> stores, \<open>AList.delete\<close> deletes, \<open>length\<close> is Go's \<open>len\<close>.
  \<^item> A pointer that may be nil is an \<open>option\<close>.
  \<^item> An operation that returns an \<open>error\<close> has a sum type, \<open>Inl\<close> the error.
  \<^item> A \<open>time.Time\<close> is the number of nanoseconds since Go's zero time, as an \<open>int\<close>.
  \<^item> An operation with effects is a state monad over the list of events it has caused so
    far (oldest first). What the outside world answers is a function of that list, an
    argument of the model: a theorem that holds for every such function holds for every
    behaviour of the API server, of the Talos nodes and of concurrent writers.
\<close>

named_theorems emit_rules \<open>which events an operation can cause\<close>
named_theorems hoare_rules \<open>pre/post rules of the event monad\<close>

subsection \<open>Go maps and results\<close>

type_synonym ('k, 'v) gomap = "('k \<times> 'v) list"

text \<open>Reading a key of a \<open>map[string]string\<close>: the zero value when it is missing.\<close>

definition map_get :: "('k, string) gomap \<Rightarrow> 'k \<Rightarrow> string" where
  "map_get m k = (case map_of m k of None \<Rightarrow> [] | Some v \<Rightarrow> v)"

lemma map_get_Nil [simp]: "map_get [] k = []"
  by (simp add: map_get_def)

lemma map_get_Cons [simp]: "map_get ((k', v) # m) k = (if k' = k then v else map_get m k)"
  by (simp add: map_get_def)

lemma map_get_update: "map_get (AList.update k v m) j = (if k = j then v else map_get m j)"
  by (simp add: map_get_def update_conv')

lemma map_get_delete: "map_get (AList.delete k m) j = (if k = j then [] else map_get m j)"
  by (simp add: map_get_def delete_conv')

lemma map_get_nonempty: "map_get m k \<noteq> [] \<Longrightarrow> \<exists>v. map_of m k = Some v \<and> v \<noteq> []"
  by (auto simp: map_get_def split: option.splits)

definition is_ok :: "'e + 'a \<Rightarrow> bool" where
  "is_ok r = (case r of Inl _ \<Rightarrow> False | Inr _ \<Rightarrow> True)"

lemma is_ok_simps [simp]: "is_ok (Inr x)" "\<not> is_ok (Inl e)"
  by (simp_all add: is_ok_def)

lemma is_ok_iff: "is_ok r \<longleftrightarrow> (\<exists>x. r = Inr x)"
  by (cases r) auto

subsection \<open>Time\<close>

type_synonym time = int      \<comment> \<open>nanoseconds since the zero time\<close>
type_synonym duration = int  \<comment> \<open>nanoseconds, in the range of an \<open>int64\<close>\<close>

definition second :: duration where "second = 1000000000"
definition minute :: duration where "minute = 60 * second"

definition max_int64 :: int where "max_int64 = 2 ^ 63 - 1"
definition min_int64 :: int where "min_int64 = - (2 ^ 63)"

definition time_is_zero :: "time \<Rightarrow> bool" where "time_is_zero t \<longleftrightarrow> t = 0"

text \<open>\<open>t.Sub(u)\<close> saturates at the bounds of a duration.\<close>

definition time_sub :: "time \<Rightarrow> time \<Rightarrow> duration" where
  "time_sub t u = max min_int64 (min max_int64 (t - u))"

lemma time_sub_ge: "d \<le> max_int64 \<Longrightarrow> min_int64 < d \<Longrightarrow> d \<le> time_sub t u \<longleftrightarrow> d \<le> t - u"
  by (auto simp: time_sub_def)

subsection \<open>Sorting with a comparison\<close>

text \<open>
  \<open>slices.SortFunc\<close> and \<open>slices.SortStableFunc\<close>, as an insertion sort that keeps the
  order of elements the comparison does not separate. (Go does not fix that order for
  \<open>SortFunc\<close>; the code only sorts by comparisons that end in a unique name.)
\<close>

fun insert_by :: "('a \<Rightarrow> 'a \<Rightarrow> bool) \<Rightarrow> 'a \<Rightarrow> 'a list \<Rightarrow> 'a list" where
  "insert_by le x [] = [x]"
| "insert_by le x (y # ys) = (if le x y then x # y # ys else y # insert_by le x ys)"

definition sort_by :: "('a \<Rightarrow> 'a \<Rightarrow> bool) \<Rightarrow> 'a list \<Rightarrow> 'a list" where
  "sort_by le xs = foldr (insert_by le) xs []"

lemma sort_by_Nil [simp]: "sort_by le [] = []"
  by (simp add: sort_by_def)

lemma sort_by_Cons [simp]: "sort_by le (x # xs) = insert_by le x (sort_by le xs)"
  by (simp add: sort_by_def)

lemma set_insert_by [simp]: "set (insert_by le x xs) = insert x (set xs)"
  by (induction xs) auto

lemma set_sort_by [simp]: "set (sort_by le xs) = set xs"
  by (induction xs) auto

lemma length_insert_by [simp]: "length (insert_by le x xs) = Suc (length xs)"
  by (induction xs) auto

lemma length_sort_by [simp]: "length (sort_by le xs) = length xs"
  by (induction xs) auto

lemma sort_by_eq_Nil [simp]: "sort_by le xs = [] \<longleftrightarrow> xs = []"
  by (metis length_0_conv length_sort_by)

lemma sorted_insert_by:
  assumes total: "\<And>x y. le x y \<or> le y x" and trans: "\<And>x y z. le x y \<Longrightarrow> le y z \<Longrightarrow> le x z"
  shows "sorted_wrt le xs \<Longrightarrow> sorted_wrt le (insert_by le x xs)"
proof (induction xs)
  case Nil
  show ?case by simp
next
  case (Cons y ys)
  then show ?case using total[of x y] by (auto intro: trans)
qed

lemma sorted_sort_by:
  assumes "\<And>x y. le x y \<or> le y x" and "\<And>x y z. le x y \<Longrightarrow> le y z \<Longrightarrow> le x z"
  shows "sorted_wrt le (sort_by le xs)"
  by (induction xs) (simp_all add: sorted_insert_by[OF assms])

lemma hd_sort_by_le:
  assumes "\<And>x y. le x y \<or> le y x" and "\<And>x y z. le x y \<Longrightarrow> le y z \<Longrightarrow> le x z"
    and "y \<in> set xs"
  shows "le (hd (sort_by le xs)) y"
proof -
  have s: "sorted_wrt le (sort_by le xs)" by (rule sorted_sort_by) (use assms in blast)+
  from assms(3) have "y \<in> set (sort_by le xs)" by simp
  with s show ?thesis using assms(1)[of y y] by (cases "sort_by le xs") auto
qed

lemma hd_sort_by_in: "xs \<noteq> [] \<Longrightarrow> hd (sort_by le xs) \<in> set xs"
  by (metis hd_in_set set_sort_by sort_by_eq_Nil)

subsection \<open>Operations with effects\<close>

text \<open>
  \<open>emit\<close> records an event; \<open>query\<close> reads from the environment, which may depend on all
  that happened before; \<open>call\<close> records an event and returns what the environment
  answers to it.
\<close>

type_synonym ('e, 'a) io = "('e list, 'a) state"

definition emit :: "'e \<Rightarrow> ('e, unit) io" where
  "emit e = State (\<lambda>tr. ((), tr @ [e]))"

definition query :: "('e list \<Rightarrow> 'a) \<Rightarrow> ('e, 'a) io" where
  "query f = State (\<lambda>tr. (f tr, tr))"

definition call :: "'e \<Rightarrow> ('e list \<Rightarrow> 'a) \<Rightarrow> ('e, 'a) io" where
  "call e f = State (\<lambda>tr. (f tr, tr @ [e]))"

lemma run_emit [simp]: "run_state (emit e) tr = ((), tr @ [e])"
  by (simp add: emit_def)

lemma run_query [simp]: "run_state (query f) tr = (f tr, tr)"
  by (simp add: query_def)

lemma run_call [simp]: "run_state (call e f) tr = (f tr, tr @ [e])"
  by (simp add: call_def)

text \<open>The events an operation can cause are among \<open>E\<close>.\<close>

definition emits :: "('e, 'a) io \<Rightarrow> 'e set \<Rightarrow> bool" where
  "emits m E \<longleftrightarrow> (\<forall>tr. \<exists>new. snd (run_state m tr) = tr @ new \<and> set new \<subseteq> E)"

lemma emits_return [emit_rules]: "emits (State_Monad.return x) E"
  by (simp add: emits_def)

lemma emits_query [emit_rules]: "emits (query f) E"
  by (simp add: emits_def)

lemma emits_emit [emit_rules]: "e \<in> E \<Longrightarrow> emits (emit e) E"
  by (simp add: emits_def)

lemma emits_call [emit_rules]: "e \<in> E \<Longrightarrow> emits (call e f) E"
  by (simp add: emits_def)

lemma emits_bind [emit_rules]:
  assumes "emits m E" and "\<And>x. emits (f x) E"
  shows "emits (State_Monad.bind m f) E"
  unfolding emits_def
proof
  fix tr
  obtain x t1 where m: "run_state m tr = (x, t1)" by fastforce
  obtain new1 where 1: "t1 = tr @ new1" "set new1 \<subseteq> E"
    using assms(1) m unfolding emits_def by (metis snd_conv)
  obtain new2 where 2: "snd (run_state (f x) t1) = t1 @ new2" "set new2 \<subseteq> E"
    using assms(2)[of x] unfolding emits_def by blast
  show "\<exists>new. snd (run_state (State_Monad.bind m f) tr) = tr @ new \<and> set new \<subseteq> E"
    using m 1 2 by (intro exI[of _ "new1 @ new2"]) auto
qed

lemma emits_if [emit_rules]: "(b \<Longrightarrow> emits m E) \<Longrightarrow> (\<not> b \<Longrightarrow> emits n E) \<Longrightarrow> emits (if b then m else n) E"
  by simp

lemma emits_case_option [emit_rules]:
  "(x = None \<Longrightarrow> emits m E) \<Longrightarrow> (\<And>y. x = Some y \<Longrightarrow> emits (f y) E) \<Longrightarrow> emits (case x of None \<Rightarrow> m | Some y \<Rightarrow> f y) E"
  by (cases x) simp_all

lemma emits_case_sum [emit_rules]:
  "(\<And>y. x = Inl y \<Longrightarrow> emits (f y) E) \<Longrightarrow> (\<And>y. x = Inr y \<Longrightarrow> emits (g y) E) \<Longrightarrow> emits (case x of Inl y \<Rightarrow> f y | Inr y \<Rightarrow> g y) E"
  by (cases x) simp_all

lemma emits_case_bool [emit_rules]:
  "(b \<Longrightarrow> emits m E) \<Longrightarrow> (\<not> b \<Longrightarrow> emits n E) \<Longrightarrow> emits (case b of True \<Rightarrow> m | False \<Rightarrow> n) E"
  by (cases b) simp_all

lemma emits_case_prod [emit_rules]:
  "(\<And>y z. x = (y, z) \<Longrightarrow> emits (f y z) E) \<Longrightarrow> emits (case x of (y, z) \<Rightarrow> f y z) E"
  by (cases x) simp

lemma emits_let [emit_rules]: "emits (f x) E \<Longrightarrow> emits (let y = x in f y) E"
  by simp

lemma emits_mono: "emits m D \<Longrightarrow> D \<subseteq> E \<Longrightarrow> emits m E"
  by (fastforce simp: emits_def)

lemma emitsD: "emits m E \<Longrightarrow> run_state m tr = (x, tr') \<Longrightarrow> \<exists>new. tr' = tr @ new \<and> set new \<subseteq> E"
  by (metis emits_def snd_conv)

text \<open>An operation that emits nothing leaves the trace as it is.\<close>

lemma emits_nothing: "emits m {} \<Longrightarrow> \<exists>x. run_state m tr = (x, tr)"
  unfolding emits_def by (metis append_Nil2 prod.collapse set_empty subset_empty)

text \<open>An event of a pass was emitted by one of its steps.\<close>

lemma emits_new:
  "emits m S \<Longrightarrow> run_state m tr = (x, tr @ new) \<Longrightarrow> set new \<subseteq> S"
  by (drule (1) emitsD) auto

lemma emits_bind_post:
  assumes "emits m S" and "\<And>tr x tr'. run_state m tr = (x, tr') \<Longrightarrow> P x" and "\<And>x. P x \<Longrightarrow> emits (f x) S"
  shows "emits (m \<bind> f) S"
  unfolding emits_def
proof
  fix tr
  obtain x tr' where r: "run_state m tr = (x, tr')" by fastforce
  from emitsD[OF assms(1) r] obtain es where es: "tr' = tr @ es" "set es \<subseteq> S" by blast
  obtain y tr'' where s: "run_state (f x) tr' = (y, tr'')" by fastforce
  from emitsD[OF assms(3) s] assms(2)[OF r] obtain fs where "tr'' = tr' @ fs" "set fs \<subseteq> S" by blast
  with es r s show "\<exists>new. snd (run_state (m \<bind> f) tr) = tr @ new \<and> set new \<subseteq> S" by auto
qed

text \<open>
  Pre- and postconditions: from a trace that satisfies \<open>P\<close>, the operation ends with a
  result and a trace that satisfy \<open>Q\<close>.
\<close>

definition triple :: "('e list \<Rightarrow> bool) \<Rightarrow> ('e, 'a) io \<Rightarrow> ('a \<Rightarrow> 'e list \<Rightarrow> bool) \<Rightarrow> bool" where
  "triple P m Q \<longleftrightarrow> (\<forall>tr. P tr \<longrightarrow> (case run_state m tr of (x, tr') \<Rightarrow> Q x tr'))"

lemma triple_return: "(\<And>tr. P tr \<Longrightarrow> Q x tr) \<Longrightarrow> triple P (State_Monad.return x) Q"
  by (simp add: triple_def)

lemma triple_bind [hoare_rules]:
  "triple P m R \<Longrightarrow> (\<And>x. triple (R x) (f x) Q) \<Longrightarrow> triple P (State_Monad.bind m f) Q"
  by (fastforce simp: triple_def split: prod.splits)

lemma tripleD: "triple P m Q \<Longrightarrow> P tr \<Longrightarrow> run_state m tr = (x, tr') \<Longrightarrow> Q x tr'"
  by (fastforce simp: triple_def)

end
