(* ===== verification/Quorum.thy ===== *)
theory Quorum
  imports Prelude
begin

section \<open>Etcd quorum\<close>

text \<open>
  \<open>domain/controlplane/quorum.go\<close>: whether a member can be removed from, or taken down
  within, an etcd cluster. The code works with counts; the specification is about sets of
  members: a set of members that work is a quorum when it is a majority. The two lemmas
  \<open>CanRemoveMember_iff\<close> and \<open>CanTemporarilyDisruptMember_iff\<close> relate them.
\<close>

record RemovalObservation =
  obs_memberCount :: int
  obs_healthyMemberCount :: int
  obs_targetHealthy :: bool
  obs_targetHealthObserved :: bool

text \<open>Go's division truncates towards zero.\<close>

definition quorumSize :: "int \<Rightarrow> int" where
  "quorumSize memberCount = (if memberCount < 0 then - (- memberCount div 2) else memberCount div 2) + 1"

definition CanRemoveMember :: "RemovalObservation \<Rightarrow> bool" where
  "CanRemoveMember ob =
     (if obs_memberCount ob < 2 \<or> \<not> obs_targetHealthObserved ob then False
      else if obs_healthyMemberCount ob < 0 \<or> obs_healthyMemberCount ob > obs_memberCount ob then False
      else if obs_targetHealthy ob \<and> obs_healthyMemberCount ob = 0 then False
      else if \<not> obs_targetHealthy ob \<and> obs_healthyMemberCount ob = obs_memberCount ob then False
      else if obs_healthyMemberCount ob < quorumSize (obs_memberCount ob) then False
      else
        (let remainingMembers = obs_memberCount ob - 1;
             remainingHealthy = obs_healthyMemberCount ob - (if obs_targetHealthy ob then 1 else 0)
         in remainingHealthy \<ge> quorumSize remainingMembers))"

definition CanTemporarilyDisruptMember :: "RemovalObservation \<Rightarrow> bool" where
  "CanTemporarilyDisruptMember ob =
     (if obs_memberCount ob < 1 \<or> \<not> obs_targetHealthObserved ob \<or> \<not> obs_targetHealthy ob then False
      else if obs_healthyMemberCount ob < 0 \<or> obs_healthyMemberCount ob > obs_memberCount ob then False
      else if obs_memberCount ob = 1 then obs_healthyMemberCount ob = 1
      else if obs_healthyMemberCount ob < quorumSize (obs_memberCount ob) then False
      else obs_healthyMemberCount ob - 1 \<ge> quorumSize (obs_memberCount ob))"

subsection \<open>The specification on sets of members\<close>

definition majority :: "'m set \<Rightarrow> 'm set \<Rightarrow> bool" where
  "majority Q members \<longleftrightarrow> Q \<subseteq> members \<and> card members < 2 * card Q"

definition observe :: "'m set \<Rightarrow> 'm set \<Rightarrow> 'm \<Rightarrow> RemovalObservation" where
  "observe members healthy target =
     \<lparr>obs_memberCount = int (card members), obs_healthyMemberCount = int (card healthy),
      obs_targetHealthy = (target \<in> healthy), obs_targetHealthObserved = True\<rparr>"

lemma quorumSize_less: "0 \<le> n \<Longrightarrow> k < quorumSize n \<longleftrightarrow> 2 * k \<le> n"
  and quorumSize_le: "0 \<le> n \<Longrightarrow> quorumSize n \<le> k \<longleftrightarrow> n < 2 * k"
  and quorumSize_lt: "0 \<le> n \<Longrightarrow> quorumSize n < k \<longleftrightarrow> n < 2 * (k - 1)"
  by (auto simp: quorumSize_def)

lemma CanRemoveMember_counts:
  "CanRemoveMember \<lparr>obs_memberCount = int m, obs_healthyMemberCount = int k, obs_targetHealthy = t,
      obs_targetHealthObserved = True\<rparr> \<longleftrightarrow>
     1 < m \<and> k \<le> m \<and> (t \<longrightarrow> 0 < k) \<and> (\<not> t \<longrightarrow> k < m) \<and> m < 2 * k \<and>
     m - 1 < 2 * (k - (if t then 1 else 0))"
  by (cases t) (auto simp: CanRemoveMember_def Let_def quorumSize_less quorumSize_le quorumSize_lt)

lemma CanTemporarilyDisruptMember_counts:
  "CanTemporarilyDisruptMember \<lparr>obs_memberCount = int m, obs_healthyMemberCount = int k,
      obs_targetHealthy = t, obs_targetHealthObserved = True\<rparr> \<longleftrightarrow>
     t \<and> 0 < m \<and> k \<le> m \<and> (if m = 1 then k = 1 else m < 2 * (k - 1))"
  by (cases t) (auto simp: CanTemporarilyDisruptMember_def quorumSize_less quorumSize_le quorumSize_lt)

text \<open>Two majorities of the same members meet: what makes a majority a quorum.\<close>

lemma majorities_meet:
  assumes "finite members" "majority Q members" "majority R members"
  shows "Q \<inter> R \<noteq> {}"
proof
  assume "Q \<inter> R = {}"
  moreover from assms have "finite Q" "finite R" by (auto simp: majority_def intro: finite_subset)
  ultimately have "card Q + card R = card (Q \<union> R)" by (simp add: card_Un_disjoint)
  also have "\<dots> \<le> card members" using assms by (intro card_mono) (auto simp: majority_def)
  finally show False using assms by (auto simp: majority_def)
qed

text \<open>The counts of a set of members, a set of healthy ones among them, and a target.\<close>

lemma member_counts:
  assumes fin: "finite members" and sub: "healthy \<subseteq> members" and target: "target \<in> members"
  shows "card healthy \<le> card members" "0 < card members"
    "card (members - {target}) = card members - 1"
    "card (healthy - {target}) = card healthy - (if target \<in> healthy then 1 else 0)"
    "target \<in> healthy \<Longrightarrow> 0 < card healthy"
    "target \<notin> healthy \<Longrightarrow> card healthy < card members"
proof -
  have fh: "finite healthy" using fin sub finite_subset by blast
  show "card healthy \<le> card members" using fin sub by (rule card_mono)
  show "0 < card members" using fin target by (auto simp: card_gt_0_iff)
  show "card (members - {target}) = card members - 1" using fin target by simp
  show "card (healthy - {target}) = card healthy - (if target \<in> healthy then 1 else 0)"
    using fh by simp
  show "target \<in> healthy \<Longrightarrow> 0 < card healthy" using fh by (auto simp: card_gt_0_iff)
  show "target \<notin> healthy \<Longrightarrow> card healthy < card members"
    using fin sub target by (auto intro: psubset_card_mono)
qed

lemma CanRemoveMember_iff:
  assumes "finite members" "healthy \<subseteq> members" "target \<in> members"
  shows "CanRemoveMember (observe members healthy target) \<longleftrightarrow>
     1 < card members \<and> majority healthy members \<and> majority (healthy - {target}) (members - {target})"
  using assms(2) member_counts[OF assms]
  by (auto simp: observe_def CanRemoveMember_counts majority_def)

lemma CanTemporarilyDisruptMember_iff:
  assumes "finite members" "healthy \<subseteq> members" "target \<in> members"
  shows "CanTemporarilyDisruptMember (observe members healthy target) \<longleftrightarrow>
     target \<in> healthy \<and> (members = {target} \<or> majority (healthy - {target}) members)"
proof -
  have single: "members = {target} \<longleftrightarrow> card members = 1"
    using assms(3) by (auto simp: card_1_singleton_iff)
  have "members = {target} \<Longrightarrow> target \<in> healthy \<Longrightarrow> healthy = {target}"
    using assms(2) by blast
  then show ?thesis
    using assms(2) single member_counts[OF assms]
    by (auto simp: observe_def CanTemporarilyDisruptMember_counts majority_def)
qed

end
