(* ===== verification/CATrust.thy ===== *)
theory CATrust
  imports Prelude
begin

section \<open>The stages of a CA rotation\<close>

text \<open>
  \<open>domain/controlplane/rotation.go\<close>: the stage of a machine's CA rotation is recomputed
  from the CA it issues with and the CAs it accepts. \<open>caStage_cases\<close> says what each stage
  means; \<open>adjacent_trust\<close> is why the rotation goes through all of them: two machines at
  most one stage apart trust each other's certificates, two stages apart they may not.
\<close>

datatype CATrustStage =
    CATrustStageStable | CATrustStageDualTrust | CATrustStageCutover | CATrustStageRotated
  | CATrustStageUnknown

text \<open>\<open>x509.PEMEncodedCertificateAndKey\<close>; an accepted certificate is its PEM text.\<close>

record pem_pair =
  pem_crt :: string
  pem_key :: string

record CertBundle =
  cb_machine :: "pem_pair option"
  cb_kubernetesAPI :: "pem_pair option"
  cb_kubernetesAggregator :: "pem_pair option"

definition sameCertificate :: "pem_pair option \<Rightarrow> pem_pair option \<Rightarrow> bool" where
  "sameCertificate observed expected =
     (case (observed, expected) of (Some o', Some e) \<Rightarrow> pem_crt o' = pem_crt e | _ \<Rightarrow> False)"

definition acceptedCertificatesKnown :: "string option list \<Rightarrow> pem_pair option \<Rightarrow> pem_pair option \<Rightarrow> bool" where
  "acceptedCertificatesKnown accepted active pending =
     list_all (\<lambda>c. \<not> (case c of None \<Rightarrow> True
        | Some crt \<Rightarrow>
            (case active of None \<Rightarrow> True | Some a \<Rightarrow> crt \<noteq> pem_crt a) \<and>
            (case pending of None \<Rightarrow> True | Some p \<Rightarrow> crt \<noteq> pem_crt p))) accepted"

definition containsAcceptedCertificate :: "string option list \<Rightarrow> pem_pair option \<Rightarrow> bool" where
  "containsAcceptedCertificate accepted expected =
     (case expected of None \<Rightarrow> False
      | Some e \<Rightarrow> list_ex (\<lambda>c. case c of None \<Rightarrow> False | Some crt \<Rightarrow> crt = pem_crt e) accepted)"

definition caStage :: "pem_pair option \<Rightarrow> string option list \<Rightarrow> pem_pair option \<Rightarrow> pem_pair option \<Rightarrow> CATrustStage" where
  "caStage issuing accepted active pending =
     (if \<not> acceptedCertificatesKnown accepted active pending then CATrustStageUnknown
      else
        (let issuingActive = sameCertificate issuing active;
             issuingPending = sameCertificate issuing pending;
             pendingAccepted = containsAcceptedCertificate accepted pending;
             activeAccepted = containsAcceptedCertificate accepted active
         in if issuingActive \<and> \<not> pendingAccepted then CATrustStageStable
            else if issuingActive \<and> pendingAccepted then CATrustStageDualTrust
            else if issuingPending \<and> activeAccepted then CATrustStageCutover
            else if issuingPending \<and> \<not> activeAccepted then CATrustStageRotated
            else CATrustStageUnknown))"

definition workerCAStage :: "string option list \<Rightarrow> pem_pair option \<Rightarrow> pem_pair option \<Rightarrow> CATrustStage" where
  "workerCAStage accepted active pending =
     (if \<not> acceptedCertificatesKnown accepted active pending then CATrustStageUnknown
      else
        (let activeAccepted = containsAcceptedCertificate accepted active;
             pendingAccepted = containsAcceptedCertificate accepted pending
         in if activeAccepted \<and> \<not> pendingAccepted then CATrustStageStable
            else if activeAccepted \<and> pendingAccepted then CATrustStageDualTrust
            else if pendingAccepted \<and> \<not> activeAccepted then CATrustStageRotated
            else CATrustStageUnknown))"

definition ObserveStage ::
  "pem_pair option \<Rightarrow> string option list \<Rightarrow> pem_pair option \<Rightarrow> string option list \<Rightarrow>
   pem_pair option \<Rightarrow> string option list \<Rightarrow> CertBundle \<Rightarrow> CertBundle \<Rightarrow> CATrustStage" where
  "ObserveStage issuingMachine acceptedMachine issuingAPI acceptedAPI issuingAggregator acceptedAggregator active pending =
     (let machineStage = caStage issuingMachine acceptedMachine (cb_machine active) (cb_machine pending);
          apiStage = caStage issuingAPI acceptedAPI (cb_kubernetesAPI active) (cb_kubernetesAPI pending);
          aggregatorStage = caStage issuingAggregator acceptedAggregator (cb_kubernetesAggregator active) (cb_kubernetesAggregator pending)
      in if machineStage = apiStage \<and> apiStage = aggregatorStage then machineStage else CATrustStageUnknown)"

definition ObserveStageWithoutAggregator ::
  "pem_pair option \<Rightarrow> string option list \<Rightarrow> pem_pair option \<Rightarrow> string option list \<Rightarrow>
   CertBundle \<Rightarrow> CertBundle \<Rightarrow> CATrustStage" where
  "ObserveStageWithoutAggregator issuingMachine acceptedMachine issuingAPI acceptedAPI active pending =
     (let machineStage = caStage issuingMachine acceptedMachine (cb_machine active) (cb_machine pending);
          apiStage0 = workerCAStage acceptedAPI (cb_kubernetesAPI active) (cb_kubernetesAPI pending);
          apiStage = (if machineStage = CATrustStageCutover \<and> apiStage0 = CATrustStageDualTrust
                      then CATrustStageCutover else apiStage0)
      in if machineStage = apiStage then machineStage else CATrustStageUnknown)"

subsection \<open>What a stage says about trust\<close>

text \<open>What a machine with this configuration trusts: its issuer and the accepted CAs.\<close>

definition trusted_crts :: "pem_pair option \<Rightarrow> string option list \<Rightarrow> string set" where
  "trusted_crts issuing accepted = (pem_crt ` set_option issuing) \<union> {c. Some c \<in> set accepted}"

lemma contains_iff:
  "containsAcceptedCertificate accepted (Some e) \<longleftrightarrow> Some (pem_crt e) \<in> set accepted"
  by (auto simp: containsAcceptedCertificate_def list_ex_iff split: option.splits)

lemma known_iff:
  "acceptedCertificatesKnown accepted (Some a) (Some p) \<longleftrightarrow>
     set accepted \<subseteq> {Some (pem_crt a), Some (pem_crt p)}"
  by (auto simp: acceptedCertificatesKnown_def list_all_iff split: option.splits)

lemma same_iff: "sameCertificate obs (Some e) \<longleftrightarrow> (\<exists>o'. obs = Some o' \<and> pem_crt o' = pem_crt e)"
  by (auto simp: sameCertificate_def split: option.splits)

lemmas stage_simps = caStage_def workerCAStage_def Let_def contains_iff known_iff same_iff

lemma caStage_cases:
  assumes "pem_crt a \<noteq> pem_crt p"
  shows
    "caStage issuing accepted (Some a) (Some p) = CATrustStageStable \<longleftrightarrow>
       map_option pem_crt issuing = Some (pem_crt a) \<and> set accepted \<subseteq> {Some (pem_crt a)}"
    "caStage issuing accepted (Some a) (Some p) = CATrustStageDualTrust \<longleftrightarrow>
       map_option pem_crt issuing = Some (pem_crt a) \<and> Some (pem_crt p) \<in> set accepted \<and>
       set accepted \<subseteq> {Some (pem_crt a), Some (pem_crt p)}"
    "caStage issuing accepted (Some a) (Some p) = CATrustStageCutover \<longleftrightarrow>
       map_option pem_crt issuing = Some (pem_crt p) \<and> Some (pem_crt a) \<in> set accepted \<and>
       set accepted \<subseteq> {Some (pem_crt a), Some (pem_crt p)}"
    "caStage issuing accepted (Some a) (Some p) = CATrustStageRotated \<longleftrightarrow>
       map_option pem_crt issuing = Some (pem_crt p) \<and> set accepted \<subseteq> {Some (pem_crt p)}"
  using assms by (cases issuing; auto simp: stage_simps)+

text \<open>The order of the stages is that of their constants.\<close>

fun stage_index :: "CATrustStage \<Rightarrow> nat" where
  "stage_index CATrustStageStable = 0"
| "stage_index CATrustStageDualTrust = 1"
| "stage_index CATrustStageCutover = 2"
| "stage_index CATrustStageRotated = 3"
| "stage_index CATrustStageUnknown = 4"

text \<open>At a known stage: who issues, and what is trusted.\<close>

definition trusts_stage :: "pem_pair \<Rightarrow> pem_pair \<Rightarrow> CATrustStage \<Rightarrow> string set" where
  "trusts_stage a p s =
     (case s of CATrustStageStable \<Rightarrow> {pem_crt a} | CATrustStageRotated \<Rightarrow> {pem_crt p}
      | CATrustStageUnknown \<Rightarrow> {} | _ \<Rightarrow> {pem_crt a, pem_crt p})"

definition issuer_stage :: "pem_pair \<Rightarrow> pem_pair \<Rightarrow> CATrustStage \<Rightarrow> string" where
  "issuer_stage a p s = (if stage_index s \<le> 1 then pem_crt a else pem_crt p)"

lemma issuer_at:
  assumes "pem_crt a \<noteq> pem_crt p" "caStage (Some i) accepted (Some a) (Some p) = s" "s \<noteq> CATrustStageUnknown"
  shows "pem_crt i = issuer_stage a p s"
  using assms(2,3) caStage_cases[OF assms(1), of "Some i" accepted]
  by (cases s) (simp_all add: issuer_stage_def)

lemma trusted_at:
  assumes "pem_crt a \<noteq> pem_crt p" "caStage (Some i) accepted (Some a) (Some p) = s" "s \<noteq> CATrustStageUnknown"
  shows "trusted_crts (Some i) accepted = trusts_stage a p s"
  using assms(2,3) caStage_cases[OF assms(1), of "Some i" accepted]
  by (cases s) (auto simp: trusts_stage_def trusted_crts_def)

lemma adjacent_stage:
  assumes "s \<noteq> CATrustStageUnknown" "t \<noteq> CATrustStageUnknown"
    and "stage_index s \<le> Suc (stage_index t)" "stage_index t \<le> Suc (stage_index s)"
  shows "issuer_stage a p t \<in> trusts_stage a p s"
  using assms by (cases s; cases t) (simp_all add: issuer_stage_def trusts_stage_def)

lemma adjacent_trust:
  assumes "pem_crt a \<noteq> pem_crt p"
    and "caStage (Some i) acc (Some a) (Some p) = s" "s \<noteq> CATrustStageUnknown"
    and "caStage (Some j) bcc (Some a) (Some p) = t" "t \<noteq> CATrustStageUnknown"
    and "stage_index s \<le> Suc (stage_index t)" "stage_index t \<le> Suc (stage_index s)"
  shows "pem_crt j \<in> trusted_crts (Some i) acc \<and> pem_crt i \<in> trusted_crts (Some j) bcc"
  using adjacent_stage[OF assms(3,5,6,7)] adjacent_stage[OF assms(5,3,7,6)]
  by (simp add: issuer_at[OF assms(1,2,3)] issuer_at[OF assms(1,4,5)]
      trusted_at[OF assms(1,2,3)] trusted_at[OF assms(1,4,5)])

lemma ObserveStage_known:
  "ObserveStage im am ia aa ig ag active pending = s \<Longrightarrow> s \<noteq> CATrustStageUnknown \<Longrightarrow>
     caStage im am (cb_machine active) (cb_machine pending) = s \<and>
     caStage ia aa (cb_kubernetesAPI active) (cb_kubernetesAPI pending) = s \<and>
     caStage ig ag (cb_kubernetesAggregator active) (cb_kubernetesAggregator pending) = s"
  by (auto simp: ObserveStage_def Let_def split: if_splits)

end
