(* ===== verification/GoStrings.thy ===== *)
theory GoStrings
  imports Prelude
begin

section \<open>The string functions of Go's standard library that the code uses\<close>

text \<open>
  \<open>strings.TrimSpace\<close>, \<open>ToLower\<close>, \<open>EqualFold\<close>, \<open>strconv.FormatInt\<close>,
  \<open>ParseUint\<close>, \<open>Quote\<close> and \<open>Unquote\<close>, and hexadecimal digits, on byte strings.
  \<open>TrimSpace\<close> is exact for every byte string: it strips the UTF-8 encodings of all the
  runes of Unicode's White Space property. \<open>ToLower\<close> and \<open>EqualFold\<close> map ASCII
  letters; \<open>Quote\<close> keeps bytes above 127 as they are (what Go does with printable text).
\<close>

subsection \<open>TrimSpace\<close>

definition ws_runes :: "string list" where
  "ws_runes =
     [[CHR 0x20], [CHR 0x09], [CHR 0x0A], [CHR 0x0B], [CHR 0x0C], [CHR 0x0D],
      [CHR 0xC2, CHR 0x85], [CHR 0xC2, CHR 0xA0], [CHR 0xE1, CHR 0x9A, CHR 0x80],
      [CHR 0xE2, CHR 0x80, CHR 0x80], [CHR 0xE2, CHR 0x80, CHR 0x81], [CHR 0xE2, CHR 0x80, CHR 0x82],
      [CHR 0xE2, CHR 0x80, CHR 0x83], [CHR 0xE2, CHR 0x80, CHR 0x84], [CHR 0xE2, CHR 0x80, CHR 0x85],
      [CHR 0xE2, CHR 0x80, CHR 0x86], [CHR 0xE2, CHR 0x80, CHR 0x87], [CHR 0xE2, CHR 0x80, CHR 0x88],
      [CHR 0xE2, CHR 0x80, CHR 0x89], [CHR 0xE2, CHR 0x80, CHR 0x8A], [CHR 0xE2, CHR 0x80, CHR 0xA8],
      [CHR 0xE2, CHR 0x80, CHR 0xA9], [CHR 0xE2, CHR 0x80, CHR 0xAF], [CHR 0xE2, CHR 0x81, CHR 0x9F],
      [CHR 0xE3, CHR 0x80, CHR 0x80]]"

fun has_prefix :: "string \<Rightarrow> string \<Rightarrow> bool" where
  "has_prefix s [] \<longleftrightarrow> True"
| "has_prefix [] (p # ps) \<longleftrightarrow> False"
| "has_prefix (c # s) (p # ps) \<longleftrightarrow> c = p \<and> has_prefix s ps"

text \<open>The length of the first of the words \<open>ws\<close> that \<open>s\<close> starts with, or 0.\<close>

definition lead :: "string list \<Rightarrow> string \<Rightarrow> nat" where
  "lead ws s = (case find (has_prefix s) ws of None \<Rightarrow> 0 | Some w \<Rightarrow> length w)"

lemma has_prefix_iff: "has_prefix s p \<longleftrightarrow> (\<exists>t. s = p @ t)"
  by (induction s p rule: has_prefix.induct) auto

lemma lead_le: "lead ws s \<le> length s"
  by (auto simp: lead_def has_prefix_iff find_Some_iff split: option.splits)

lemma lead_Nil [simp]: "lead ws [] = 0"
  using lead_le[of ws "[]"] by simp

function strip :: "string list \<Rightarrow> string \<Rightarrow> string" where
  "strip ws s = (if lead ws s = 0 then s else strip ws (drop (lead ws s) s))"
  by pat_completeness auto
termination
proof (relation "measure (\<lambda>(ws, s). length s)")
  fix ws s
  assume "lead ws s \<noteq> 0"
  moreover from this have "s \<noteq> []" using lead_Nil by metis
  ultimately show "((ws, drop (lead ws s) s), ws, s) \<in> measure (\<lambda>(ws, s). length s)"
    by simp
qed simp

declare strip.simps [simp del]

definition trim_left :: "string \<Rightarrow> string" where
  "trim_left s = strip ws_runes s"

definition trim_right :: "string \<Rightarrow> string" where
  "trim_right s = rev (strip (map rev ws_runes) (rev s))"

definition trim_space :: "string \<Rightarrow> string" where
  "trim_space s = trim_right (trim_left s)"

text \<open>The test the code writes most often: nothing but white space.\<close>

abbreviation blank :: "string \<Rightarrow> bool" where
  "blank s \<equiv> trim_space s = []"

lemma lead_strip: "lead ws (strip ws s) = 0"
  by (induction ws s rule: strip.induct) (metis strip.simps)

lemma strip_id: "lead ws s = 0 \<Longrightarrow> strip ws s = s"
  by (simp add: strip.simps)

lemma strip_Nil [simp]: "strip ws [] = []"
  by (simp add: strip_id)

lemma strip_suffix: "\<exists>p. s = p @ strip ws s"
proof (induction ws s rule: strip.induct)
  case (1 ws s)
  show ?case
  proof (cases "lead ws s = 0")
    case True
    then show ?thesis by (simp add: strip_id)
  next
    case False
    then obtain p where "drop (lead ws s) s = p @ strip ws s"
      using "1.IH" by (metis strip.simps)
    then have "s = (take (lead ws s) s @ p) @ strip ws s"
      by (metis append.assoc append_take_drop_id)
    then show ?thesis by blast
  qed
qed

lemma lead_zero_iff:
  assumes "\<forall>w \<in> set ws. w \<noteq> []"
  shows "lead ws s = 0 \<longleftrightarrow> (\<forall>w \<in> set ws. \<not> has_prefix s w)"
proof (cases "find (has_prefix s) ws")
  case None
  then have "\<forall>w \<in> set ws. \<not> has_prefix s w" by (auto simp: find_None_iff)
  then show ?thesis using None by (simp add: lead_def)
next
  case (Some w)
  then have "w \<in> set ws" "has_prefix s w" by (auto simp: find_Some_iff)
  with assms Some show ?thesis by (auto simp: lead_def)
qed

text \<open>A word that leads a prefix leads the whole string.\<close>

lemma lead_append_zero:
  "\<forall>w \<in> set ws. w \<noteq> [] \<Longrightarrow> lead ws (p @ q) = 0 \<Longrightarrow> lead ws p = 0"
  by (auto simp: lead_zero_iff has_prefix_iff)

lemma ws_runes_nonempty: "\<forall>w \<in> set ws_runes. w \<noteq> []" "\<forall>w \<in> set (map rev ws_runes). w \<noteq> []"
  by (simp_all add: ws_runes_def)

lemma trim_right_prefix: "\<exists>q. s = trim_right s @ q"
proof -
  obtain p where "rev s = p @ strip (map rev ws_runes) (rev s)" using strip_suffix by blast
  then have "s = trim_right s @ rev p" by (metis rev_append rev_rev_ident trim_right_def)
  then show ?thesis by blast
qed

lemma trim_space_idem [simp]: "trim_space (trim_space s) = trim_space s"
proof -
  let ?l = "trim_left s"
  have l0: "lead ws_runes ?l = 0" by (simp add: trim_left_def lead_strip)
  obtain q where "?l = trim_right ?l @ q" using trim_right_prefix by blast
  with l0 have "lead ws_runes (trim_right ?l) = 0"
    using lead_append_zero ws_runes_nonempty(1) by metis
  then have "trim_left (trim_right ?l) = trim_right ?l" by (simp add: trim_left_def strip_id)
  moreover have "trim_right (trim_right ?l) = trim_right ?l"
    by (simp add: trim_right_def strip_id lead_strip)
  ultimately show ?thesis by (simp add: trim_space_def)
qed

text \<open>A string that starts and ends with a byte that neither starts nor ends the encoding
  of a white space rune is not changed.\<close>

definition graphic :: "char \<Rightarrow> bool" where
  "graphic c \<longleftrightarrow> (33 :: nat) \<le> of_char c \<and> of_char c < (127 :: nat)"

lemma lead_graphic:
  assumes "s = [] \<or> graphic (hd s)" and "ws = ws_runes \<or> ws = map rev ws_runes"
  shows "lead ws s = 0"
proof (cases s)
  case Nil
  then show ?thesis by simp
next
  case (Cons c t)
  with assms(1) have g: "graphic c" by simp
  have "\<not> has_prefix s w" if "w \<in> set ws" for w
  proof -
    from that assms(2) obtain x y where "w = x # y" and "\<not> graphic x"
      by (auto simp: ws_runes_def graphic_def)
    with g Cons show ?thesis by auto
  qed
  then have "find (has_prefix s) ws = None" by (auto simp: find_None_iff)
  then show ?thesis by (simp add: lead_def)
qed

lemma trim_space_graphic:
  assumes "s = [] \<or> graphic (hd s) \<and> graphic (last s)"
  shows "trim_space s = s"
proof -
  have "trim_left s = s"
    using assms by (auto simp: trim_left_def intro!: strip_id lead_graphic)
  moreover have "trim_right s = s"
    using assms by (auto simp: trim_right_def hd_rev intro!: strip_id[THEN arg_cong[where f = rev], THEN trans] lead_graphic)
  ultimately show ?thesis by (simp add: trim_space_def)
qed

lemma trim_space_Nil [simp]: "trim_space [] = []"
  by (rule trim_space_graphic) simp

subsection \<open>Digits and numbers\<close>

definition digit_char :: "nat \<Rightarrow> char" where
  "digit_char d = char_of (48 + d)"

definition digit_val :: "char \<Rightarrow> nat option" where
  "digit_val c = (let k = of_char c :: nat in if 48 \<le> k \<and> k \<le> 57 then Some (k - 48) else None)"

definition hex_char :: "nat \<Rightarrow> char" where
  "hex_char d = (if d < 10 then char_of (48 + d) else char_of (87 + d))"

definition hex_val :: "char \<Rightarrow> nat option" where
  "hex_val c =
     (let k = of_char c :: nat
      in if 48 \<le> k \<and> k \<le> 57 then Some (k - 48)
         else if 97 \<le> k \<and> k \<le> 102 then Some (k - 87)
         else if 65 \<le> k \<and> k \<le> 70 then Some (k - 55) else None)"

lemma digit_val_char [simp]: "d < 10 \<Longrightarrow> digit_val (digit_char d) = Some d"
  by (simp add: digit_val_def digit_char_def)

lemma hex_val_char [simp]: "d < 16 \<Longrightarrow> hex_val (hex_char d) = Some d"
  by (simp add: hex_val_def hex_char_def)

lemma graphic_digit_char [simp]: "d < 10 \<Longrightarrow> graphic (digit_char d)"
  by (simp add: graphic_def digit_char_def)

lemma graphic_hex_char [simp]: "d < 16 \<Longrightarrow> graphic (hex_char d)"
  by (simp add: graphic_def hex_char_def)

text \<open>\<open>mapM\<close> for options: all digits, or nothing.\<close>

fun all_some :: "('a \<Rightarrow> 'b option) \<Rightarrow> 'a list \<Rightarrow> 'b list option" where
  "all_some f [] = Some []"
| "all_some f (x # xs) =
     (case f x of None \<Rightarrow> None
      | Some y \<Rightarrow> (case all_some f xs of None \<Rightarrow> None | Some ys \<Rightarrow> Some (y # ys)))"

lemma all_some_map: "(\<And>x. x \<in> set xs \<Longrightarrow> f (g x) = Some x) \<Longrightarrow> all_some f (map g xs) = Some xs"
  by (induction xs) auto

lemma all_some_length: "all_some f xs = Some ys \<Longrightarrow> length ys = length xs"
  by (induction xs arbitrary: ys) (auto split: option.splits)

definition from_base :: "nat \<Rightarrow> nat list \<Rightarrow> nat" where
  "from_base b ds = foldl (\<lambda>a d. a * b + d) 0 ds"

lemma from_base_snoc [simp]: "from_base b (ds @ [d]) = from_base b ds * b + d"
  by (simp add: from_base_def)

lemma from_base_Nil [simp]: "from_base b [] = 0"
  by (simp add: from_base_def)

text \<open>\<open>strconv.FormatUint\<close> and \<open>FormatInt\<close> in base 10.\<close>

fun dec_digits :: "nat \<Rightarrow> nat list" where
  "dec_digits n = (if n < 10 then [n] else dec_digits (n div 10) @ [n mod 10])"

declare dec_digits.simps [simp del]

definition format_uint :: "nat \<Rightarrow> string" where
  "format_uint n = map digit_char (dec_digits n)"

definition format_int :: "int \<Rightarrow> string" where
  "format_int i = (if i < 0 then CHR ''-'' # format_uint (nat (- i)) else format_uint (nat i))"

text \<open>\<open>strconv.ParseUint(s, 10, bits)\<close> and \<open>ParseInt(s, 10, bits)\<close>; \<open>None\<close> is the error.\<close>

definition parse_uint :: "nat \<Rightarrow> string \<Rightarrow> nat option" where
  "parse_uint bits s =
     (if s = [] then None
      else case all_some digit_val s of None \<Rightarrow> None
           | Some ds \<Rightarrow> if from_base 10 ds < 2 ^ bits then Some (from_base 10 ds) else None)"

definition parse_int :: "nat \<Rightarrow> string \<Rightarrow> int option" where
  "parse_int bits s =
     (case s of [] \<Rightarrow> None
      | c # t \<Rightarrow>
          (let neg = (c = CHR ''-'');
               u = (if c = CHR ''-'' \<or> c = CHR ''+'' then t else s)
           in if u = [] then None
              else case all_some digit_val u of None \<Rightarrow> None
                   | Some ds \<Rightarrow>
                       (let v = int (from_base 10 ds)
                        in if neg then (if v \<le> 2 ^ (bits - 1) then Some (- v) else None)
                           else if v < 2 ^ (bits - 1) then Some v else None)))"

lemma dec_digits_small: "d \<in> set (dec_digits n) \<Longrightarrow> d < 10"
proof (induction n rule: dec_digits.induct)
  case (1 n)
  then show ?case
    by (cases "n < 10") (auto simp: dec_digits.simps[of n])
qed

lemma from_base_dec_digits [simp]: "from_base 10 (dec_digits n) = n"
proof (induction n rule: dec_digits.induct)
  case (1 n)
  show ?case
  proof (cases "n < 10")
    case True
    then have "dec_digits n = [] @ [n]" by (simp add: dec_digits.simps[of n])
    then show ?thesis using from_base_snoc[of 10 "[]" n] by simp
  next
    case False
    with "1.IH" show ?thesis by (simp add: dec_digits.simps[of n])
  qed
qed

lemma dec_digits_nonempty [simp]: "dec_digits n \<noteq> []"
  by (simp add: dec_digits.simps)

lemma format_uint_nonempty [simp]: "format_uint n \<noteq> []"
  by (simp add: format_uint_def)

lemma all_digits_format [simp]: "all_some digit_val (format_uint n) = Some (dec_digits n)"
  unfolding format_uint_def by (rule all_some_map) (simp add: dec_digits_small)

lemma parse_format_uint: "n < 2 ^ bits \<Longrightarrow> parse_uint bits (format_uint n) = Some n"
  by (simp add: parse_uint_def)

lemma format_uint_inj: "format_uint m = format_uint n \<Longrightarrow> m = n"
  by (metis all_digits_format from_base_dec_digits option.inject)

lemma format_uint_head: "\<exists>d t. d < 10 \<and> format_uint n = digit_char d # t"
proof (cases "dec_digits n")
  case (Cons d ds)
  then have "d < 10" using dec_digits_small[of d n] by simp
  with Cons show ?thesis by (auto simp: format_uint_def)
qed simp

lemma parse_format_int:
  assumes "0 \<le> i" "i < 2 ^ (bits - 1)"
  shows "parse_int bits (format_int i) = Some i"
proof -
  obtain d t where d: "d < 10" "format_uint (nat i) = digit_char d # t"
    using format_uint_head by blast
  from d(1) have ne: "digit_char d \<noteq> CHR ''-''" "digit_char d \<noteq> CHR ''+''"
    using digit_val_char[of d] by (auto simp: digit_val_def simp del: digit_val_char)
  from assms(1) have f: "format_int i = digit_char d # t" by (simp add: format_int_def d(2))
  have "all_some digit_val (digit_char d # t) = Some (dec_digits (nat i))"
    using all_digits_format[of "nat i"] by (simp only: d(2))
  with ne assms show ?thesis by (simp add: parse_int_def f del: all_some.simps)
qed

subsection \<open>Case\<close>

definition lower_char :: "char \<Rightarrow> char" where
  "lower_char c = (let k = of_char c :: nat in if 65 \<le> k \<and> k \<le> 90 then char_of (k + 32) else c)"

definition to_lower :: "string \<Rightarrow> string" where
  "to_lower s = map lower_char s"

definition equal_fold :: "string \<Rightarrow> string \<Rightarrow> bool" where
  "equal_fold s t \<longleftrightarrow> to_lower s = to_lower t"

lemma lower_char_idem [simp]: "lower_char (lower_char c) = lower_char c"
  by (auto simp: lower_char_def Let_def)

lemma to_lower_idem [simp]: "to_lower (to_lower s) = to_lower s"
  by (simp add: to_lower_def)

lemma equal_fold_refl [simp]: "equal_fold s s"
  by (simp add: equal_fold_def)

lemma equal_fold_sym: "equal_fold s t = equal_fold t s"
  by (auto simp: equal_fold_def)

subsection \<open>Quote and Unquote\<close>

definition quote_char :: "char \<Rightarrow> string" where
  "quote_char c =
     (let k = of_char c :: nat
      in if c = CHR 0x22 then [CHR 0x5C, CHR 0x22]
         else if c = CHR 0x5C then [CHR 0x5C, CHR 0x5C]
         else if k = 7 then [CHR 0x5C, CHR ''a'']
         else if k = 8 then [CHR 0x5C, CHR ''b'']
         else if k = 12 then [CHR 0x5C, CHR ''f'']
         else if k = 10 then [CHR 0x5C, CHR ''n'']
         else if k = 13 then [CHR 0x5C, CHR ''r'']
         else if k = 9 then [CHR 0x5C, CHR ''t'']
         else if k = 11 then [CHR 0x5C, CHR ''v'']
         else if k < 32 \<or> k = 127 then [CHR 0x5C, CHR ''x'', hex_char (k div 16), hex_char (k mod 16)]
         else [c])"

definition go_quote :: "string \<Rightarrow> string" where
  "go_quote s = [CHR 0x22] @ concat (map quote_char s) @ [CHR 0x22]"

definition utf8_encode :: "nat \<Rightarrow> string" where
  "utf8_encode k =
     (if k < 128 then [char_of k]
      else if k < 2048 then [char_of (192 + k div 64), char_of (128 + k mod 64)]
      else if k < 65536 then
        [char_of (224 + k div 4096), char_of (128 + k div 64 mod 64), char_of (128 + k mod 64)]
      else
        [char_of (240 + k div 262144), char_of (128 + k div 4096 mod 64),
         char_of (128 + k div 64 mod 64), char_of (128 + k mod 64)])"

definition valid_rune :: "nat \<Rightarrow> bool" where
  "valid_rune k \<longleftrightarrow> k < 55296 \<or> 57344 \<le> k \<and> k \<le> 1114111"

definition hex_number :: "nat \<Rightarrow> string \<Rightarrow> (nat \<times> string) option" where
  "hex_number n s =
     (if length s < n then None
      else case all_some hex_val (take n s) of None \<Rightarrow> None
           | Some ds \<Rightarrow> Some (from_base 16 ds, drop n s))"

definition octal_val :: "char \<Rightarrow> nat option" where
  "octal_val c = (case digit_val c of None \<Rightarrow> None | Some d \<Rightarrow> if d < 8 then Some d else None)"

text \<open>
  \<open>strconv.UnquoteChar\<close>: the bytes of the next character, and the rest. \<open>q\<close> is the
  enclosing quote; the other quote character may not be escaped.
\<close>

definition unquote_escape :: "char \<Rightarrow> char \<Rightarrow> string \<Rightarrow> (string \<times> string) option" where
  "unquote_escape q c t =
     (if c = CHR ''a'' then Some ([CHR 0x07], t)
      else if c = CHR ''b'' then Some ([CHR 0x08], t)
      else if c = CHR ''f'' then Some ([CHR 0x0C], t)
      else if c = CHR ''n'' then Some ([CHR 0x0A], t)
      else if c = CHR ''r'' then Some ([CHR 0x0D], t)
      else if c = CHR ''t'' then Some ([CHR 0x09], t)
      else if c = CHR ''v'' then Some ([CHR 0x0B], t)
      else if c = CHR ''x'' then map_option (\<lambda>(k, r). ([char_of k], r)) (hex_number 2 t)
      else if c = CHR ''u'' \<or> c = CHR ''U'' then
        (case hex_number (if c = CHR ''u'' then 4 else 8) t of None \<Rightarrow> None
         | Some (k, r) \<Rightarrow> if valid_rune k then Some (utf8_encode k, r) else None)
      else if octal_val c \<noteq> None then
        (case (octal_val c, all_some octal_val (take 2 t)) of
           (Some d, Some [e, f]) \<Rightarrow>
             if 64 * d + 8 * e + f \<le> 255 then Some ([char_of (64 * d + 8 * e + f)], drop 2 t) else None
         | _ \<Rightarrow> None)
      else if c = CHR 0x5C then Some ([c], t)
      else if c = CHR 0x27 \<or> c = CHR 0x22 then (if c = q then Some ([c], t) else None)
      else None)"

fun unquote_char :: "char \<Rightarrow> string \<Rightarrow> (string \<times> string) option" where
  "unquote_char q [] = None"
| "unquote_char q [c] = (if c = q \<or> c = CHR 0x5C then None else Some ([c], []))"
| "unquote_char q (c # d # t) =
     (if c = q then None
      else if c = CHR 0x5C then unquote_escape q d t
      else Some ([c], d # t))"

lemma unquote_escape_shrinks: "unquote_escape q c t = Some (u, r) \<Longrightarrow> length r \<le> length t"
  by (auto simp: unquote_escape_def hex_number_def split: if_splits option.splits list.splits)

lemma unquote_char_shrinks: "unquote_char q s = Some (u, r) \<Longrightarrow> length r < length s"
  by (cases "(q, s)" rule: unquote_char.cases)
     (auto split: if_splits dest!: unquote_escape_shrinks)

text \<open>The body of a double-quoted string, up to and including the closing quote.\<close>

function unquote_body :: "string \<Rightarrow> (string \<times> string) option" where
  "unquote_body s =
     (case s of [] \<Rightarrow> None
      | c # t \<Rightarrow>
          if c = CHR 0x22 then Some ([], t)
          else if c = CHR 0x0A then None
          else (case unquote_char (CHR 0x22) s of None \<Rightarrow> None
                | Some (u, r) \<Rightarrow> map_option (\<lambda>(v, w). (u @ v, w)) (unquote_body r)))"
  by pat_completeness auto
termination
  by (relation "measure length") (auto dest: unquote_char_shrinks)

declare unquote_body.simps [simp del]

definition go_unquote :: "string \<Rightarrow> string option" where
  "go_unquote s =
     (case s of [] \<Rightarrow> None
      | c # t \<Rightarrow>
          if t = [] then None
          else if c = CHR 0x60 then
            (if last t = CHR 0x60 \<and> CHR 0x60 \<notin> set (butlast t)
             then Some (filter (\<lambda>d. d \<noteq> CHR 0x0D) (butlast t)) else None)
          else if c = CHR 0x22 then
            (case unquote_body t of Some (u, []) \<Rightarrow> Some u | _ \<Rightarrow> None)
          else if c = CHR 0x27 then
            (if hd t = CHR 0x0A then None
             else case unquote_char (CHR 0x27) t of Some (u, [d]) \<Rightarrow> if d = CHR 0x27 then Some u else None
                  | _ \<Rightarrow> None)
          else None)"

lemma char_of_escaped:
  "char_of (7 :: nat) = CHR 0x07" "char_of (8 :: nat) = CHR 0x08" "char_of (9 :: nat) = CHR 0x09"
  "char_of (10 :: nat) = CHR 0x0A" "char_of (11 :: nat) = CHR 0x0B" "char_of (12 :: nat) = CHR 0x0C"
  "char_of (13 :: nat) = CHR 0x0D" "char_of (34 :: nat) = CHR 0x22" "char_of (92 :: nat) = CHR 0x5C"
  by (rule of_char_eq_iff[where 'a = nat, THEN iffD1], simp)+

lemma char_code_cases:
  obtains (plain) "quote_char c = [c]" "c \<noteq> CHR 0x22" "c \<noteq> CHR 0x5C" "c \<noteq> CHR 0x0A"
  | (escape) d u where "quote_char c = CHR 0x5C # d # u" "\<And>t. unquote_escape (CHR 0x22) d (u @ t) = Some ([c], t)"
proof (cases "quote_char c = [c]")
  case True
  then have "c \<noteq> CHR 0x22" "c \<noteq> CHR 0x5C" "c \<noteq> CHR 0x0A"
    by (auto simp: quote_char_def)
  with True plain show ?thesis by blast
next
  case False
  let ?k = "of_char c :: nat"
  have k: "c = char_of ?k" by simp
  have hx: "unquote_escape (CHR 0x22) (CHR ''x'') ([hex_char (?k div 16), hex_char (?k mod 16)] @ t) = Some ([c], t)" for t
  proof -
    have "?k div 16 < 16" by (simp add: less_mult_imp_div_less)
    then show ?thesis
      by (simp add: unquote_escape_def hex_number_def from_base_def numeral_2_eq_2)
  qed
  from False have "?k \<in> {7, 8, 9, 10, 11, 12, 13, 34, 92} \<or> (quote_char c = [CHR 0x5C, CHR ''x'', hex_char (?k div 16), hex_char (?k mod 16)])"
    by (auto simp: quote_char_def Let_def split: if_splits)
  then show ?thesis
  proof
    assume "?k \<in> {7, 8, 9, 10, 11, 12, 13, 34, 92}"
    then have "c \<in> {CHR 0x07, CHR 0x08, CHR 0x09, CHR 0x0A, CHR 0x0B, CHR 0x0C, CHR 0x0D, CHR 0x22, CHR 0x5C}"
      using imageI[of ?k "{7, 8, 9, 10, 11, 12, 13, 34, 92}" char_of] k by (simp add: char_of_escaped)
    then show ?thesis
      by (elim insertE emptyE; hypsubst)
         (rule escape, simp add: quote_char_def, simp add: unquote_escape_def octal_val_def digit_val_def)+
  qed (use hx in \<open>auto intro!: escape\<close>)
qed

lemma unquote_body_quote:
  "unquote_body (concat (map quote_char s) @ [CHR 0x22]) = Some (s, [])"
proof (induction s)
  case Nil
  show ?case by (simp add: unquote_body.simps)
next
  case (Cons c s)
  let ?r = "concat (map quote_char s) @ [CHR 0x22]"
  show ?case
  proof (cases c rule: char_code_cases)
    case plain
    then have "unquote_char (CHR 0x22) (c # ?r) = Some ([c], ?r)"
      by (cases ?r) auto
    with plain Cons show ?thesis by (subst unquote_body.simps) simp
  next
    case (escape d u)
    then have "unquote_char (CHR 0x22) (quote_char c @ ?r) = Some ([c], ?r)"
      by simp
    with escape(1) Cons show ?thesis by (subst unquote_body.simps) simp
  qed
qed

text \<open>Reading back what was quoted.\<close>

lemma unquote_quote: "go_unquote (go_quote s) = Some s"
  by (simp add: go_unquote_def go_quote_def unquote_body_quote)

lemma go_quote_not_null: "go_quote s \<noteq> ''null''"
  by (simp add: go_quote_def)

end
