(* ===== verification/Identifiers.thy ===== *)
theory Identifiers
  imports GoStrings "HOL-Library.Word"
begin

section \<open>Identities of hosts and clusters\<close>

text \<open>
  \<open>domain/cluster/id.go\<close>, \<open>domain/host/id.go\<close>, \<open>domain/host/provider_id.go\<close>,
  \<open>domain/network/mac_address.go\<close> and \<open>domain/textmarshal/textmarshal.go\<close>. A UUID is a
  128-bit word; the four textual forms of the standard \<open>uuid\<close> package are accepted. A
  MAC address is a 48-bit word with the \<open>set\<close> flag of the struct. The locale
  \<open>text_codec\<close> states what \<open>MarshalText\<close> and \<open>UnmarshalText\<close> of a value object
  promise each other; every value object of this theory is an instance.
\<close>

subsection \<open>Fixed-width hexadecimal\<close>

fun nibbles :: "nat \<Rightarrow> nat \<Rightarrow> nat list" where
  "nibbles 0 n = []"
| "nibbles (Suc k) n = nibbles k (n div 16) @ [n mod 16]"

lemma length_nibbles [simp]: "length (nibbles k n) = k"
  by (induction k arbitrary: n) auto

lemma nibbles_small: "d \<in> set (nibbles k n) \<Longrightarrow> d < 16"
  by (induction k arbitrary: n) auto

lemma from_base_nibbles [simp]: "from_base 16 (nibbles k n) = n mod 16 ^ k"
  by (induction k arbitrary: n) (simp_all add: mod_mult2_eq mult.commute)

definition hex_of :: "nat \<Rightarrow> nat \<Rightarrow> string" where
  "hex_of k n = map hex_char (nibbles k n)"

lemma length_hex_of [simp]: "length (hex_of k n) = k"
  by (simp add: hex_of_def)

lemma hex_of_digits: "all_some hex_val (hex_of k n) = Some (nibbles k n)"
  unfolding hex_of_def by (rule all_some_map) (simp add: nibbles_small)

lemma graphic_hex_of: "c \<in> set (hex_of k n) \<Longrightarrow> graphic c"
  by (auto simp: hex_of_def dest: nibbles_small)

subsection \<open>UUID\<close>

type_synonym uuid = "128 word"

definition uuid_nil :: uuid where "uuid_nil = 0"

definition uuid_string :: "uuid \<Rightarrow> string" where
  "uuid_string u =
     (let h = hex_of 32 (unat u)
      in take 8 h @ ''-'' @ take 4 (drop 8 h) @ ''-'' @ take 4 (drop 12 h) @ ''-'' @
         take 4 (drop 16 h) @ ''-'' @ drop 20 h)"

definition uuid_of_hex :: "string \<Rightarrow> uuid option" where
  "uuid_of_hex s =
     (if length s \<noteq> 32 then None
      else case all_some hex_val s of None \<Rightarrow> None | Some ds \<Rightarrow> Some (word_of_nat (from_base 16 ds)))"

definition uuid_parse_canonical :: "string \<Rightarrow> uuid option" where
  "uuid_parse_canonical s =
     (if length s = 36 \<and> s ! 8 = CHR ''-'' \<and> s ! 13 = CHR ''-'' \<and> s ! 18 = CHR ''-'' \<and> s ! 23 = CHR ''-''
      then uuid_of_hex (take 8 s @ take 4 (drop 9 s) @ take 4 (drop 14 s) @ take 4 (drop 19 s) @ drop 24 s)
      else None)"

text \<open>Canonical, 32 digits, in braces, and as a URN.\<close>

definition uuid_parse :: "string \<Rightarrow> uuid option" where
  "uuid_parse s =
     (if length s = 36 then uuid_parse_canonical s
      else if length s = 32 then uuid_of_hex s
      else if length s = 38 then
        (if hd s = CHR ''{'' \<and> last s = CHR ''}'' then uuid_parse_canonical (butlast (tl s)) else None)
      else if length s = 45 then
        (if equal_fold (take 9 s) ''urn:uuid:'' then uuid_parse_canonical (drop 9 s) else None)
      else None)"

lemma length_uuid_string [simp]: "length (uuid_string u) = 36"
  by (simp add: uuid_string_def Let_def)

lemma uuid_of_hex_of: "uuid_of_hex (hex_of 32 (unat u)) = Some u"
proof -
  have "unat u < 16 ^ 32" using unsigned_less[of u] by simp
  then show ?thesis by (simp add: uuid_of_hex_def hex_of_digits)
qed

lemma take_drop_chain: "take m (drop k h) @ drop (k + m) h = drop k h"
  by (metis add.commute append_take_drop_id drop_drop)

lemma uuid_groups:
  "take 8 h @ take 4 (drop 8 h) @ take 4 (drop 12 h) @ take 4 (drop 16 h) @ drop 20 h = h"
  using take_drop_chain[of 4 8 h] take_drop_chain[of 4 12 h] take_drop_chain[of 4 16 h]
  by simp

lemma uuid_parse_string [simp]: "uuid_parse (uuid_string u) = Some u"
proof -
  let ?h = "hex_of 32 (unat u)"
  have "uuid_parse_canonical (uuid_string u) = uuid_of_hex ?h"
    by (simp add: uuid_parse_canonical_def uuid_string_def Let_def nth_append uuid_groups)
  then show ?thesis by (simp add: uuid_parse_def uuid_of_hex_of)
qed

lemma graphic_uuid_string: "c \<in> set (uuid_string u) \<Longrightarrow> graphic c"
  by (auto simp: uuid_string_def Let_def graphic_def[of "CHR ''-''"]
      dest!: in_set_takeD in_set_dropD intro: graphic_hex_of)

lemma uuid_string_nonempty [simp]: "uuid_string u \<noteq> []"
  by (metis length_uuid_string list.size(3) zero_neq_numeral)

lemma trim_uuid_string [simp]: "trim_space (uuid_string u) = uuid_string u"
  by (rule trim_space_graphic)
     (use graphic_uuid_string hd_in_set last_in_set uuid_string_nonempty in blast)

lemma uuid_string_inj: "uuid_string u = uuid_string v \<longleftrightarrow> u = v"
  by (metis option.inject uuid_parse_string)

subsection \<open>JSON literals of value objects\<close>

text \<open>
  \<open>textmarshal.JSON\<close> is \<open>strconv.AppendQuote\<close>; \<open>textmarshal.UnmarshalJSON\<close> decodes a
  Go string literal and hands it to \<open>UnmarshalText\<close>, \<open>null\<close> as no bytes at all.
\<close>

datatype value_error =
    ErrInvalidID string
  | ErrInvalidProviderID
  | ErrInvalidMACAddress string
  | ErrLiteralSyntax

definition textmarshal_JSON :: "string \<Rightarrow> string" where
  "textmarshal_JSON s = go_quote s"

definition textmarshal_UnmarshalJSON ::
  "string \<Rightarrow> (string \<Rightarrow> value_error + 'a) \<Rightarrow> value_error + 'a" where
  "textmarshal_UnmarshalJSON v unmarshal_text =
     (if v = ''null'' then unmarshal_text []
      else case go_unquote v of None \<Rightarrow> Inl ErrLiteralSyntax | Some t \<Rightarrow> unmarshal_text t)"

text \<open>
  The contract the comment on \<open>UnmarshalText\<close> states: what \<open>MarshalText\<close> writes can
  always be read back, and the empty text is the zero value. Every value object's JSON
  methods are these two functions around its text methods, so the JSON round trip and
  \<open>null\<close> follow once and for all.
\<close>

locale text_codec =
  fixes marshal :: "'a \<Rightarrow> string" and unmarshal :: "string \<Rightarrow> value_error + 'a"
    and zero :: 'a and valid :: "'a \<Rightarrow> bool"
  assumes unmarshal_marshal: "valid x \<Longrightarrow> unmarshal (marshal x) = Inr x"
    and unmarshal_empty: "unmarshal [] = Inr zero"
begin

lemma json_round_trip:
  "valid x \<Longrightarrow> textmarshal_UnmarshalJSON (textmarshal_JSON (marshal x)) unmarshal = Inr x"
  by (simp add: textmarshal_UnmarshalJSON_def textmarshal_JSON_def unquote_quote
      go_quote_not_null unmarshal_marshal)

lemma json_null: "textmarshal_UnmarshalJSON ''null'' unmarshal = Inr zero"
  by (simp add: textmarshal_UnmarshalJSON_def unmarshal_empty)

lemma marshal_inj: "valid x \<Longrightarrow> valid y \<Longrightarrow> marshal x = marshal y \<Longrightarrow> x = y"
  by (metis sum.inject(2) unmarshal_marshal)

end

subsection \<open>ClusterID\<close>

datatype ClusterID = ClusterID (cluster_uuid: uuid)

definition ParseClusterID :: "string \<Rightarrow> value_error + ClusterID" where
  "ParseClusterID value =
     (case uuid_parse (trim_space value) of None \<Rightarrow> Inl (ErrInvalidID value)
      | Some parsed \<Rightarrow>
          if parsed = uuid_nil then Inl (ErrInvalidID value) else Inr (ClusterID parsed))"

definition ClusterID_String :: "ClusterID \<Rightarrow> string" where
  "ClusterID_String i = uuid_string (cluster_uuid i)"

definition ClusterID_IsZero :: "ClusterID \<Rightarrow> bool" where
  "ClusterID_IsZero i \<longleftrightarrow> cluster_uuid i = uuid_nil"

text \<open>\<open>v4\<close> is what \<open>uuid.NewV4\<close> returned; \<open>None\<close> is the panic.\<close>

definition NewClusterID :: "uuid \<Rightarrow> ClusterID option" where
  "NewClusterID v4 = (case ParseClusterID (uuid_string v4) of Inl _ \<Rightarrow> None | Inr i \<Rightarrow> Some i)"

definition ClusterID_MarshalText :: "ClusterID \<Rightarrow> string" where
  "ClusterID_MarshalText i = ClusterID_String i"

definition ClusterID_UnmarshalText :: "string \<Rightarrow> value_error + ClusterID" where
  "ClusterID_UnmarshalText value =
     (if length value = 0 then Inr (ClusterID uuid_nil)
      else case uuid_parse (trim_space value) of None \<Rightarrow> Inl (ErrInvalidID value)
           | Some parsed \<Rightarrow> Inr (ClusterID parsed))"

definition ClusterID_MarshalJSON :: "ClusterID \<Rightarrow> string" where
  "ClusterID_MarshalJSON i = textmarshal_JSON (ClusterID_String i)"

definition ClusterID_UnmarshalJSON :: "string \<Rightarrow> value_error + ClusterID" where
  "ClusterID_UnmarshalJSON value = textmarshal_UnmarshalJSON value ClusterID_UnmarshalText"

interpretation cluster_id: text_codec ClusterID_MarshalText ClusterID_UnmarshalText "ClusterID uuid_nil" "\<lambda>_. True"
  by unfold_locales
     (simp_all add: ClusterID_MarshalText_def ClusterID_UnmarshalText_def ClusterID_String_def)

lemma ClusterID_String_inj: "ClusterID_String i = ClusterID_String j \<longleftrightarrow> i = j"
  by (cases i; cases j) (simp add: ClusterID_String_def uuid_string_inj)

lemma ParseClusterID_nonzero: "ParseClusterID s = Inr i \<Longrightarrow> \<not> ClusterID_IsZero i"
  by (auto simp: ParseClusterID_def ClusterID_IsZero_def split: option.splits if_splits)

subsection \<open>HostID\<close>

datatype HostID = HostID (host_uuid: uuid)

definition ParseHostID :: "string \<Rightarrow> value_error + HostID" where
  "ParseHostID value =
     (case uuid_parse (trim_space value) of None \<Rightarrow> Inl (ErrInvalidID value)
      | Some parsed \<Rightarrow>
          if parsed = uuid_nil then Inl (ErrInvalidID value) else Inr (HostID parsed))"

definition HostID_String :: "HostID \<Rightarrow> string" where
  "HostID_String i = uuid_string (host_uuid i)"

definition HostID_IsZero :: "HostID \<Rightarrow> bool" where
  "HostID_IsZero i \<longleftrightarrow> host_uuid i = uuid_nil"

definition NewHostID :: "uuid \<Rightarrow> HostID option" where
  "NewHostID v4 = (case ParseHostID (uuid_string v4) of Inl _ \<Rightarrow> None | Inr i \<Rightarrow> Some i)"

definition HostID_MarshalText :: "HostID \<Rightarrow> string" where
  "HostID_MarshalText i = HostID_String i"

definition HostID_UnmarshalText :: "string \<Rightarrow> value_error + HostID" where
  "HostID_UnmarshalText value =
     (if length value = 0 then Inr (HostID uuid_nil)
      else case uuid_parse (trim_space value) of None \<Rightarrow> Inl (ErrInvalidID value)
           | Some parsed \<Rightarrow> Inr (HostID parsed))"

definition HostID_MarshalJSON :: "HostID \<Rightarrow> string" where
  "HostID_MarshalJSON i = textmarshal_JSON (HostID_String i)"

definition HostID_UnmarshalJSON :: "string \<Rightarrow> value_error + HostID" where
  "HostID_UnmarshalJSON value = textmarshal_UnmarshalJSON value HostID_UnmarshalText"

interpretation host_id: text_codec HostID_MarshalText HostID_UnmarshalText "HostID uuid_nil" "\<lambda>_. True"
  by unfold_locales
     (simp_all add: HostID_MarshalText_def HostID_UnmarshalText_def HostID_String_def)

lemma HostID_String_inj: "HostID_String i = HostID_String j \<longleftrightarrow> i = j"
  by (cases i; cases j) (simp add: HostID_String_def uuid_string_inj)

lemma ParseHostID_String: "\<not> HostID_IsZero i \<Longrightarrow> ParseHostID (HostID_String i) = Inr i"
  by (cases i) (simp add: ParseHostID_def HostID_IsZero_def HostID_String_def)

lemma ParseHostID_nonzero: "ParseHostID s = Inr i \<Longrightarrow> \<not> HostID_IsZero i"
  by (auto simp: ParseHostID_def HostID_IsZero_def split: option.splits if_splits)

subsection \<open>ProviderID\<close>

datatype ProviderID = ProviderID (provider_text: string)

definition provider_prefix :: string where
  "provider_prefix = ''tart://host/''"

definition NewProviderID :: "HostID \<Rightarrow> value_error + ProviderID" where
  "NewProviderID i =
     (if HostID_IsZero i then Inl ErrInvalidProviderID
      else Inr (ProviderID (provider_prefix @ HostID_String i)))"

definition ParseProviderID :: "string \<Rightarrow> value_error + ProviderID" where
  "ParseProviderID value =
     (let value = trim_space value
      in if \<not> has_prefix value provider_prefix then Inl ErrInvalidProviderID
         else case ParseHostID (drop (length provider_prefix) value) of
                Inl _ \<Rightarrow> Inl ErrInvalidProviderID
              | Inr i \<Rightarrow> NewProviderID i)"

definition ProviderID_IsZero :: "ProviderID \<Rightarrow> bool" where
  "ProviderID_IsZero p \<longleftrightarrow> provider_text p = []"

definition ProviderID_String :: "ProviderID \<Rightarrow> string" where
  "ProviderID_String p = provider_text p"

definition ProviderID_MarshalText :: "ProviderID \<Rightarrow> string" where
  "ProviderID_MarshalText p = ProviderID_String p"

definition ProviderID_UnmarshalText :: "string \<Rightarrow> value_error + ProviderID" where
  "ProviderID_UnmarshalText value =
     (if length value = 0 then Inr (ProviderID []) else ParseProviderID value)"

definition ProviderID_MarshalJSON :: "ProviderID \<Rightarrow> string" where
  "ProviderID_MarshalJSON p = textmarshal_JSON (ProviderID_String p)"

definition ProviderID_UnmarshalJSON :: "string \<Rightarrow> value_error + ProviderID" where
  "ProviderID_UnmarshalJSON value = textmarshal_UnmarshalJSON value ProviderID_UnmarshalText"

text \<open>The values the constructors can build: unset, or of a host with an ID.\<close>

definition provider_id_wf :: "ProviderID \<Rightarrow> bool" where
  "provider_id_wf p \<longleftrightarrow>
     ProviderID_IsZero p \<or> (\<exists>i. \<not> HostID_IsZero i \<and> NewProviderID i = Inr p)"

lemma NewProviderID_wf: "NewProviderID i = Inr p \<Longrightarrow> provider_id_wf p"
  by (auto simp: provider_id_wf_def NewProviderID_def split: if_splits)

lemma trim_provider: "trim_space (provider_prefix @ HostID_String i) = provider_prefix @ HostID_String i"
proof (rule trim_space_graphic, intro disjI2 conjI)
  show "graphic (hd (provider_prefix @ HostID_String i))"
    by (simp add: provider_prefix_def graphic_def)
  show "graphic (last (provider_prefix @ HostID_String i))"
    using graphic_uuid_string[OF last_in_set[OF uuid_string_nonempty]]
    by (simp add: HostID_String_def)
qed

lemma ParseProviderID_New:
  "NewProviderID i = Inr p \<Longrightarrow> ParseProviderID (ProviderID_String p) = Inr p"
  by (auto simp: NewProviderID_def ParseProviderID_def ProviderID_String_def trim_provider
      has_prefix_iff ParseHostID_String split: if_splits)

lemma NewProviderID_inj: "NewProviderID i = Inr p \<Longrightarrow> NewProviderID j = Inr p \<Longrightarrow> i = j"
  by (auto simp: NewProviderID_def HostID_String_inj split: if_splits)

interpretation provider_id: text_codec ProviderID_MarshalText ProviderID_UnmarshalText "ProviderID []" provider_id_wf
proof unfold_locales
  fix p
  assume "provider_id_wf p"
  then consider "p = ProviderID []" | i where "NewProviderID i = Inr p" "provider_text p \<noteq> []"
    by (cases p) (auto simp: provider_id_wf_def ProviderID_IsZero_def NewProviderID_def provider_prefix_def)
  then show "ProviderID_UnmarshalText (ProviderID_MarshalText p) = Inr p"
    by cases (simp_all add: ProviderID_MarshalText_def ProviderID_UnmarshalText_def
        ProviderID_String_def ParseProviderID_New[unfolded ProviderID_String_def])
qed (simp add: ProviderID_UnmarshalText_def)

lemma ParseProviderID_wf: "ParseProviderID s = Inr p \<Longrightarrow> provider_id_wf p"
  by (auto simp: ParseProviderID_def Let_def intro: NewProviderID_wf split: if_splits sum.splits)

subsection \<open>MAC addresses\<close>

text \<open>
  \<open>net.ParseMAC\<close>: pairs of hexadecimal digits with one separator throughout, or groups of
  four digits separated by dots; 6, 8 or 20 bytes. The result is the list of its digits.
\<close>

fun hex_groups2 :: "char \<Rightarrow> string \<Rightarrow> nat list option" where
  "hex_groups2 e [a, b] = all_some hex_val [a, b]"
| "hex_groups2 e (a # b # c # t) =
     (if c \<noteq> e then None
      else case (all_some hex_val [a, b], hex_groups2 e t) of
             (Some x, Some y) \<Rightarrow> Some (x @ y) | _ \<Rightarrow> None)"
| "hex_groups2 e s = None"

fun hex_groups4 :: "string \<Rightarrow> nat list option" where
  "hex_groups4 [a, b, c, d] = all_some hex_val [a, b, c, d]"
| "hex_groups4 (a # b # c # d # e # t) =
     (if e \<noteq> CHR ''.'' then None
      else case (all_some hex_val [a, b, c, d], hex_groups4 t) of
             (Some x, Some y) \<Rightarrow> Some (x @ y) | _ \<Rightarrow> None)"
| "hex_groups4 s = None"

definition net_parse_mac :: "string \<Rightarrow> nat list option" where
  "net_parse_mac s =
     (case (if length s < 14 then None
            else if s ! 2 = CHR '':'' \<or> s ! 2 = CHR ''-'' then hex_groups2 (s ! 2) s
            else if s ! 4 = CHR ''.'' then hex_groups4 s
            else None) of
        None \<Rightarrow> None
      | Some ds \<Rightarrow> if length ds \<in> {12, 16, 40} then Some ds else None)"

text \<open>The six bytes as one 48-bit word, and the flag \<open>set\<close>.\<close>

record MACAddress =
  mac_value :: "48 word"
  mac_set :: bool

definition MAC_zero :: MACAddress where
  "MAC_zero = \<lparr>mac_value = 0, mac_set = False\<rparr>"

definition ParseMACAddress :: "string \<Rightarrow> value_error + MACAddress" where
  "ParseMACAddress value =
     (case net_parse_mac value of None \<Rightarrow> Inl (ErrInvalidMACAddress value)
      | Some ds \<Rightarrow>
          if length ds \<noteq> 12 then Inl (ErrInvalidMACAddress value)
          else Inr \<lparr>mac_value = word_of_nat (from_base 16 ds), mac_set = True\<rparr>)"

definition MAC_IsZero :: "MACAddress \<Rightarrow> bool" where
  "MAC_IsZero a \<longleftrightarrow> \<not> mac_set a"

fun colons :: "string \<Rightarrow> string" where
  "colons (a # b # c # t) = a # b # CHR '':'' # colons (c # t)"
| "colons s = s"

definition MAC_String :: "MACAddress \<Rightarrow> string" where
  "MAC_String a = (if MAC_IsZero a then [] else colons (hex_of 12 (unat (mac_value a))))"

definition MAC_Bytes :: "MACAddress \<Rightarrow> nat list option" where
  "MAC_Bytes a =
     (if MAC_IsZero a then None
      else Some (map (\<lambda>i. unat (mac_value a) div 256 ^ (5 - i) mod 256) [0..<6]))"

definition MAC_MarshalText :: "MACAddress \<Rightarrow> string" where
  "MAC_MarshalText a = MAC_String a"

definition MAC_UnmarshalText :: "string \<Rightarrow> value_error + MACAddress" where
  "MAC_UnmarshalText value = (if length value = 0 then Inr MAC_zero else ParseMACAddress value)"

definition MAC_MarshalJSON :: "MACAddress \<Rightarrow> string" where
  "MAC_MarshalJSON a = textmarshal_JSON (MAC_String a)"

definition MAC_UnmarshalJSON :: "string \<Rightarrow> value_error + MACAddress" where
  "MAC_UnmarshalJSON value = textmarshal_UnmarshalJSON value MAC_UnmarshalText"

text \<open>The struct's invariant: an unset address has no bytes.\<close>

definition mac_wf :: "MACAddress \<Rightarrow> bool" where
  "mac_wf a \<longleftrightarrow> mac_set a \<or> a = MAC_zero"

lemma hex_groups2_colons:
  "hex_groups2 (CHR '':'') (colons (a # b # t)) = all_some hex_val (a # b # t)" if "even (length t)" for a b t
  using that
proof (induction t arbitrary: a b rule: length_induct)
  case (1 t)
  show ?case
  proof (cases t)
    case (Cons c u)
    with "1.prems" obtain d v where u: "u = d # v" by (cases u) auto
    with "1.IH" "1.prems" Cons have "hex_groups2 (CHR '':'') (colons (c # d # v)) = all_some hex_val (c # d # v)"
      by auto
    with Cons u show ?thesis by (auto split: option.splits)
  qed simp
qed

lemma ParseMACAddress_String:
  assumes "mac_set a"
  shows "ParseMACAddress (MAC_String a) = Inr a"
proof -
  let ?h = "hex_of 12 (unat (mac_value a))"
  have lt: "unat (mac_value a) < 16 ^ 12" using unsigned_less[of "mac_value a"] by simp
  have split: "\<exists>x y t. h = x # y # t \<and> length t = 10 \<and> length (colons h) = 17 \<and> colons h ! 2 = CHR '':''"
    if "length h = 12" for h
    using that by (auto simp: length_Suc_conv numeral_eq_Suc)
  obtain x y t where h: "?h = x # y # t" "length t = 10"
    and len: "length (colons ?h) = 17" "colons ?h ! 2 = CHR '':''"
    using split[OF length_hex_of] by blast
  have "hex_groups2 (CHR '':'') (colons ?h) = Some (nibbles 12 (unat (mac_value a)))"
    using hex_groups2_colons[of t x y] h by (simp add: hex_of_digits[symmetric] del: all_some.simps)
  then show ?thesis
    using assms lt len by (simp add: ParseMACAddress_def MAC_String_def MAC_IsZero_def net_parse_mac_def)
qed

lemma MAC_String_nonempty: "mac_set a \<Longrightarrow> MAC_String a \<noteq> []"
  using ParseMACAddress_String[of a] by (auto simp: ParseMACAddress_def net_parse_mac_def)

interpretation mac_address: text_codec MAC_MarshalText MAC_UnmarshalText MAC_zero mac_wf
  by unfold_locales
     (auto simp: MAC_MarshalText_def MAC_UnmarshalText_def mac_wf_def ParseMACAddress_String
       MAC_String_nonempty, simp add: MAC_String_def MAC_IsZero_def MAC_zero_def)

lemma MAC_String_inj: "mac_wf a \<Longrightarrow> mac_wf b \<Longrightarrow> MAC_String a = MAC_String b \<longleftrightarrow> a = b"
  using mac_address.marshal_inj by (metis MAC_MarshalText_def)

lemma ParseMACAddress_wf: "ParseMACAddress s = Inr a \<Longrightarrow> mac_wf a \<and> \<not> MAC_IsZero a"
  by (auto simp: ParseMACAddress_def mac_wf_def MAC_IsZero_def split: option.splits if_splits)

end
