(* ===== verification/ApiTypes.thy ===== *)
theory ApiTypes
  imports Identifiers
begin

section \<open>The API objects and the Kubernetes helpers the code calls\<close>

text \<open>
  The types of \<open>api/infrastructure/v1alpha1\<close> and the Kubernetes and Cluster API types
  their fields have. A string type with a \<open>+kubebuilder:validation:Enum\<close> is a datatype of
  its constants, with one more constructor for any other string (the unset one is
  \<open>Other []\<close>): nothing in the code relies on the admission schema. The functions of
  \<open>k8s.io/apimachinery\<close> that the code calls are not under \<open>src/\<close>: they are the
  fields of a record \<open>k8s_lib\<close> that every definition using them takes, and
  \<open>conditions_law\<close> is what their documentation promises.
\<close>

text \<open>The errors of the API server that the code tells apart.\<close>

datatype api_error =
    ApiConflict | ApiNotFound | ApiAlreadyExists
  | ApiTooManyRequests
  | ApiNotRegistered  \<comment> \<open>the kind is not in the scheme\<close>
  | ApiOther string

subsection \<open>Metadata and references\<close>

record owner_reference =
  own_apiVersion :: string
  own_kind :: string
  own_name :: string
  own_uid :: string
  own_controller :: "bool option"

record object_meta =
  mt_name :: string
  mt_namespace :: string
  mt_uid :: string
  mt_generation :: int
  mt_resourceVersion :: nat  \<comment> \<open>opaque to the code; compared by the API server\<close>
  mt_labels :: "(string, string) gomap"
  mt_annotations :: "(string, string) gomap"
  mt_finalizers :: "string list"
  mt_owners :: "owner_reference list"
  mt_deletionTimestamp :: "time option"

text \<open>\<open>corev1.ObjectReference\<close>; two references are equal when all seven fields are.\<close>

record object_reference =
  ref_kind :: string
  ref_namespace :: string
  ref_name :: string
  ref_uid :: string
  ref_apiVersion :: string
  ref_resourceVersion :: string
  ref_fieldPath :: string

subsection \<open>Conditions\<close>

datatype condition_status = ConditionTrue | ConditionFalse | ConditionUnknown

record condition =
  cond_type :: string
  cond_status :: condition_status
  cond_observedGeneration :: int
  cond_lastTransitionTime :: time
  cond_reason :: string
  cond_message :: string

record label_selector =
  sel_matchLabels :: "(string, string) gomap"
  sel_matchExpressions :: "(string \<times> string \<times> string list) list"  \<comment> \<open>key, operator, values\<close>

record k8s_lib =
  lib_find_condition :: "condition list \<Rightarrow> string \<Rightarrow> condition option"
  lib_set_condition :: "time \<Rightarrow> condition list \<Rightarrow> condition \<Rightarrow> condition list"
  lib_selector_matches :: "label_selector \<Rightarrow> ((string, string) gomap \<Rightarrow> bool) option"
  lib_is_dns1123_subdomain :: "string \<Rightarrow> bool"
  lib_has_paused :: "(string, string) gomap \<Rightarrow> bool"
  lib_contains_finalizer :: "string list \<Rightarrow> string \<Rightarrow> bool"
  lib_add_finalizer :: "string list \<Rightarrow> string \<Rightarrow> string list"
  lib_remove_finalizer :: "string list \<Rightarrow> string \<Rightarrow> string list"
  lib_capi_group_version :: string            \<comment> \<open>\<open>clusterv1.GroupVersion.String()\<close>\<close>
  lib_machine_deleting_condition :: string    \<comment> \<open>\<open>clusterv1.MachineDeletingCondition\<close>\<close>
  lib_drain_done_reasons :: "string list"     \<comment> \<open>the four reasons of \<open>usecase/machine/binding.go\<close>\<close>
  lib_control_plane_label :: string           \<comment> \<open>\<open>clusterv1.MachineControlPlaneLabel\<close>\<close>
  lib_cluster_name_label :: string            \<comment> \<open>\<open>clusterv1.ClusterNameLabel\<close>\<close>
  lib_update_in_progress :: string            \<comment> \<open>\<open>clusterv1.UpdateInProgressAnnotation\<close>\<close>
  lib_machine_ready :: string                 \<comment> \<open>\<open>clusterv1.MachineReadyCondition\<close>\<close>
  lib_mirror_annotation :: string             \<comment> \<open>\<open>corev1.MirrorPodAnnotationKey\<close>\<close>

text \<open>
  \<open>meta.SetStatusCondition\<close> stores a condition under its type, leaves the other types
  alone, and moves \<open>LastTransitionTime\<close> to the current time exactly when the status
  changes (the caller of this code never sets that field).
\<close>

definition conditions_law :: "k8s_lib \<Rightarrow> bool" where
  "conditions_law L \<longleftrightarrow>
     (\<forall>now cs c. cond_lastTransitionTime c = 0 \<longrightarrow>
        lib_find_condition L (lib_set_condition L now cs c) (cond_type c) =
          Some (c\<lparr>cond_lastTransitionTime :=
                   (case lib_find_condition L cs (cond_type c) of
                      None \<Rightarrow> now
                    | Some old \<Rightarrow> if cond_status old = cond_status c then cond_lastTransitionTime old else now)\<rparr>)) \<and>
     (\<forall>now cs c t. t \<noteq> cond_type c \<longrightarrow>
        lib_find_condition L (lib_set_condition L now cs c) t = lib_find_condition L cs t)"

lemma find_set_condition:
  assumes "conditions_law L" "cond_lastTransitionTime c = 0"
  shows "lib_find_condition L (lib_set_condition L now cs c) t =
     (if t = cond_type c
      then Some (c\<lparr>cond_lastTransitionTime :=
                   (case lib_find_condition L cs t of
                      None \<Rightarrow> now
                    | Some old \<Rightarrow> if cond_status old = cond_status c then cond_lastTransitionTime old else now)\<rparr>)
      else lib_find_condition L cs t)"
  using assms by (simp add: conditions_law_def)

text \<open>The \<open>controllerutil\<close> helpers on finalizers.\<close>

definition finalizers_law :: "k8s_lib \<Rightarrow> bool" where
  "finalizers_law L \<longleftrightarrow>
     (\<forall>fs f. lib_contains_finalizer L fs f \<longleftrightarrow> f \<in> set fs) \<and>
     (\<forall>fs f. set (lib_add_finalizer L fs f) = insert f (set fs)) \<and>
     (\<forall>fs f. set (lib_remove_finalizer L fs f) = set fs - {f})"

text \<open>An implementation with that behaviour, to show that the laws can hold.\<close>

definition ref_find_condition :: "condition list \<Rightarrow> string \<Rightarrow> condition option" where
  "ref_find_condition cs t = find (\<lambda>c. cond_type c = t) cs"

fun ref_set_condition :: "time \<Rightarrow> condition list \<Rightarrow> condition \<Rightarrow> condition list" where
  "ref_set_condition now [] c = [c\<lparr>cond_lastTransitionTime := now\<rparr>]"
| "ref_set_condition now (old # cs) c =
     (if cond_type old = cond_type c
      then c\<lparr>cond_lastTransitionTime :=
               (if cond_status old = cond_status c then cond_lastTransitionTime old else now)\<rparr> # cs
      else old # ref_set_condition now cs c)"

definition k8s_reference :: k8s_lib where
  "k8s_reference =
     \<lparr>lib_find_condition = ref_find_condition,
      lib_set_condition = ref_set_condition,
      lib_selector_matches = (\<lambda>s. Some (\<lambda>ls. \<forall>(k, v) \<in> set (sel_matchLabels s). map_of ls k = Some v)),
      lib_is_dns1123_subdomain = (\<lambda>s. s \<noteq> [] \<and> length s \<le> 253),
      lib_has_paused = (\<lambda>as. map_of as ''cluster.x-k8s.io/paused'' \<noteq> None),
      lib_contains_finalizer = (\<lambda>fs f. f \<in> set fs),
      lib_add_finalizer = (\<lambda>fs f. if f \<in> set fs then fs else fs @ [f]),
      lib_remove_finalizer = (\<lambda>fs f. filter (\<lambda>g. g \<noteq> f) fs),
      lib_capi_group_version = ''cluster.x-k8s.io/v1beta2'',
      lib_machine_deleting_condition = ''Deleting'',
      lib_drain_done_reasons = [''WaitingForInfrastructureDeletion'', ''WaitingForBootstrapDeletion'',
        ''DeletingNode'', ''DeletionCompleted''],
      lib_control_plane_label = ''cluster.x-k8s.io/control-plane'',
      lib_cluster_name_label = ''cluster.x-k8s.io/cluster-name'',
      lib_update_in_progress = ''in-place-updates.internal.cluster.x-k8s.io/update-in-progress'',
      lib_machine_ready = ''Ready'',
      lib_mirror_annotation = ''kubernetes.io/config.mirror''\<rparr>"

lemma k8s_reference_conditions: "conditions_law k8s_reference"
proof -
  have same: "ref_find_condition (ref_set_condition now cs c) (cond_type c) =
      Some (c\<lparr>cond_lastTransitionTime :=
               (case ref_find_condition cs (cond_type c) of None \<Rightarrow> now
                | Some old \<Rightarrow> if cond_status old = cond_status c then cond_lastTransitionTime old else now)\<rparr>)" for now cs c
    by (induction now cs c rule: ref_set_condition.induct) (auto simp: ref_find_condition_def)
  have other: "t \<noteq> cond_type c \<Longrightarrow> ref_find_condition (ref_set_condition now cs c) t = ref_find_condition cs t" for now cs c t
    by (induction now cs c rule: ref_set_condition.induct) (auto simp: ref_find_condition_def)
  show ?thesis using same other by (auto simp: conditions_law_def k8s_reference_def)
qed

lemma k8s_reference_finalizers: "finalizers_law k8s_reference"
  by (auto simp: finalizers_law_def k8s_reference_def)

subsection \<open>Cluster API objects\<close>

record contract_ref =
  cr_apiGroup :: string
  cr_kind :: string
  cr_name :: string

text \<open>Of \<open>clusterv1.Machine\<close>: the fields the code reads or writes. The slices that the
  code compares with \<open>reflect.DeepEqual\<close> are options, as a nil slice is not an empty one;
  \<open>cm_kubeletVersion\<close> is that of \<open>Status.NodeInfo\<close>, empty when there is none.\<close>

record readiness_gate =
  rg_conditionType :: string
  rg_polarity :: string

record machine_taint =
  mtn_key :: string
  mtn_value :: string
  mtn_effect :: string
  mtn_propagation :: string

record machine_deletion =
  md_drainTimeout :: "int option"
  md_volumeDetachTimeout :: "int option"
  md_nodeDeletionTimeout :: "int option"

record capi_machine =
  cm_meta :: object_meta
  cm_clusterName :: string
  cm_configRef :: contract_ref
  cm_infrastructureRef :: contract_ref
  cm_providerID :: string
  cm_failureDomain :: string
  cm_version :: string
  cm_nodeRef :: string
  cm_conditions :: "condition list"
  cm_readinessGates :: "readiness_gate list option"
  cm_taints :: "machine_taint list option"
  cm_deletion :: machine_deletion
  cm_kubeletVersion :: string

record capi_cluster =
  cl_meta :: object_meta
  cl_infrastructureRef :: contract_ref
  cl_endpoint_host :: string
  cl_endpoint_port :: int
  cl_controlPlaneInitialized :: "bool option"

subsection \<open>TartHost\<close>

datatype ReusePolicy = ReusePolicyRetain | ReusePolicyAllowReuse | ReusePolicyOther string

datatype ReuseMode = ReuseModeAdopt | ReuseModeReprovision | ReuseModeOther string

datatype PowerBackend =
    PowerBackendRedfish | PowerBackendWakeOnLAN | PowerBackendIntelManageability
  | PowerBackendManual | PowerBackendOther string

text \<open>A \<open>ManagementNamespaceSecretReference\<close> is the name of the Secret; the URL and
  address types of the power configurations are their texts.\<close>

record RedfishPowerConfig =
  rf_address :: string
  rf_systemID :: string
  rf_credentialSecretRef :: string
  rf_caSecretRef :: "string option"
  rf_insecureSkipVerify :: bool

record WakeOnLANPowerConfig = wol_broadcastAddress :: string

record IntelManageabilityPowerConfig =
  im_address :: string
  im_credentialSecretRef :: string
  im_caSecretRef :: "string option"
  im_insecureSkipVerify :: bool

record PowerSpec =
  pw_backend :: PowerBackend
  pw_redfish :: "RedfishPowerConfig option"
  pw_wakeOnLAN :: "WakeOnLANPowerConfig option"
  pw_intelManageability :: "IntelManageabilityPowerConfig option"

record PreviousConsumerRef =
  prev_namespace :: string
  prev_name :: string
  prev_uid :: string
  prev_clusterID :: ClusterID

record ReuseApproval = appr_previousConsumerUID :: string

record ShutdownConfirmation =
  sc_consumerUID :: string
  sc_hostID :: HostID
  sc_bootID :: string

record DeletionApproval =
  da_consumerUID :: string
  da_previousConsumerUID :: string

record TartHostSpec =
  hs_hostID :: HostID
  hs_macAddress :: MACAddress
  hs_talosAPIAddress :: string
  hs_architecture :: string
  hs_failureDomain :: string
  hs_power :: PowerSpec
  hs_consumerRef :: "object_reference option"
  hs_previousConsumerRef :: "PreviousConsumerRef option"
  hs_reusePolicy :: ReusePolicy
  hs_reuseApproval :: "ReuseApproval option"
  hs_reuseMode :: ReuseMode
  hs_deletionApproval :: "DeletionApproval option"
  hs_shutdownConfirmation :: "ShutdownConfirmation option"

record DiskInventory =
  disk_sizeBytes :: "64 word"
  disk_devicePath :: string
  disk_model :: string
  disk_serial :: string
  disk_wwid :: string
  disk_busPath :: string
  disk_transport :: string
  disk_rotational :: bool
  disk_readOnly :: bool
  disk_symlinks :: "string list"
  disk_stableSelector :: string

record NetworkInterfaceInventory =
  nic_name :: string
  nic_macAddress :: MACAddress
  nic_linkState :: string
  nic_driver :: string
  nic_busPath :: string
  nic_addresses :: "string list"

record HostInventory =
  inv_bootID :: string
  inv_systemUUID :: string
  inv_architecture :: string
  inv_disks :: "DiskInventory list"
  inv_networkInterfaces :: "NetworkInterfaceInventory list"

record BootAttempt =
  ba_bootID :: string
  ba_firstObservedAt :: time
  ba_lastObservedAt :: time
  ba_systemUUID :: string
  ba_endpoint :: string

record TalosIdentityReference =
  tid_clusterID :: ClusterID
  tid_recoverySecretRef :: string
  tid_boundAt :: time

record PowerOnAttemptStatus =
  po_count :: int
  po_lastAttemptAt :: time

datatype MachineAddressType =
    MachineInternalIP | MachineExternalIP | MachineHostName | MachineAddressOther string

record MachineAddress =
  addr_type :: MachineAddressType
  addr_address :: string

record TartHostStatus =
  hst_currentTalosIdentityRef :: "TalosIdentityReference option"
  hst_inventory :: "HostInventory option"
  hst_bootAttempts :: "BootAttempt list"
  hst_addresses :: "MachineAddress list"
  hst_powerOnAttempts :: "PowerOnAttemptStatus option"
  hst_observedGeneration :: int
  hst_conditions :: "condition list"

record TartHost =
  h_meta :: object_meta
  h_spec :: TartHostSpec
  h_status :: TartHostStatus

abbreviation h_name :: "TartHost \<Rightarrow> string" where
  "h_name h \<equiv> mt_name (h_meta h)"

subsection \<open>TartMachine\<close>

record TalosImageSpec =
  img_version :: string
  img_schematicID :: string

record HostSelector =
  hsel_architecture :: string
  hsel_selector :: label_selector

record TartMachineSpec =
  ms_hostRef :: "string option"
  ms_hostSelector :: "HostSelector option"
  ms_image :: TalosImageSpec
  ms_providerID :: ProviderID

record TartMachineStatus =
  mst_provisioned :: "bool option"
  mst_addresses :: "MachineAddress list"
  mst_failureDomain :: string
  mst_hostRef :: "string option"
  mst_talosVersion :: string
  mst_talosSchematicID :: string
  mst_observedControlPlaneEndpoint :: string
  mst_observedConfigurationDigest :: string
  mst_observedGeneration :: int
  mst_conditions :: "condition list"

record TartMachine =
  m_meta :: object_meta
  m_spec :: TartMachineSpec
  m_status :: TartMachineStatus

subsection \<open>TartCluster\<close>

datatype DisruptionPolicy = DisruptionPolicyBlock | DisruptionPolicyAllowDowntime | DisruptionPolicyOther string

record FailureDomain =
  fd_name :: string
  fd_controlPlane :: "bool option"

record TartClusterSpec =
  cs_clusterID :: ClusterID
  cs_disruptionPolicy :: DisruptionPolicy
  cs_caRotationRequestedGeneration :: "int option"

record TartClusterStatus =
  cst_provisioned :: "bool option"
  cst_failureDomains :: "FailureDomain list"
  cst_activeSecretGeneration :: int
  cst_observedGeneration :: int
  cst_conditions :: "condition list"

record TartCluster =
  tc_meta :: object_meta
  tc_spec :: TartClusterSpec
  tc_status :: TartClusterStatus

subsection \<open>TartBootstrapConfig\<close>

datatype ConfigurationApplyStrategy =
    ConfigurationApplyStrategyStagedReboot | ConfigurationApplyStrategyApplyOnly
  | ConfigurationApplyStrategyOther string

record TartBootstrapConfigSpec =
  bcs_configPatchesSecretRef :: "string option"
  bcs_updatePolicy :: ConfigurationApplyStrategy

definition EffectiveConfigurationApplyStrategy :: "TartBootstrapConfigSpec \<Rightarrow> ConfigurationApplyStrategy" where
  "EffectiveConfigurationApplyStrategy s =
     (if bcs_updatePolicy s = ConfigurationApplyStrategyOther []
      then ConfigurationApplyStrategyStagedReboot else bcs_updatePolicy s)"

record TartBootstrapConfigStatus =
  bcst_dataSecretCreated :: "bool option"
  bcst_dataSecretName :: string
  bcst_configurationDigest :: string
  bcst_observedGeneration :: int
  bcst_conditions :: "condition list"

record TartBootstrapConfig =
  bc_meta :: object_meta
  bc_spec :: TartBootstrapConfigSpec
  bc_status :: TartBootstrapConfigStatus

text \<open>Constants of \<open>tarthost_types.go\<close> that the controllers compare or report.\<close>

definition TartHostReadyCondition :: string where "TartHostReadyCondition = ''Ready''"
definition TartHostAvailableCondition :: string where "TartHostAvailableCondition = ''Available''"
definition TartMachineReadyCondition :: string where "TartMachineReadyCondition = ''Ready''"
definition TartMachineTalosReachableCondition :: string where "TartMachineTalosReachableCondition = ''TalosReachable''"
definition TartMachineProvisionedCondition :: string where "TartMachineProvisionedCondition = ''Provisioned''"
definition TartMachineTalosUpToDateCondition :: string where "TartMachineTalosUpToDateCondition = ''TalosUpToDate''"
definition TartMachineConfigurationUpToDateCondition :: string where
  "TartMachineConfigurationUpToDateCondition = ''ConfigurationUpToDate''"

end
