(* ===== verification/ControllerCommon.thy ===== *)
theory ControllerCommon
  imports ApiTypes "HOL-Library.Monad_Syntax"
begin

section \<open>What the controllers share\<close>

text \<open>
  \<open>controller/{conditions,hosttalos,ownership,capi_machine}.go\<close>: conditions, the Talos
  endpoint of a host, ownership of provider objects, and the CAPI Machine that refers to a
  provider object. The reads of the API server that \<open>findCAPIMachine\<close> makes are arguments.
\<close>

subsection \<open>Conditions\<close>

definition SetCondition ::
  "k8s_lib \<Rightarrow> time \<Rightarrow> condition list \<Rightarrow> string \<Rightarrow> condition_status \<Rightarrow> string \<Rightarrow> string \<Rightarrow> int \<Rightarrow> condition list" where
  "SetCondition L now conditions conditionType status reason message generation =
     lib_set_condition L now conditions
       \<lparr>cond_type = conditionType, cond_status = status, cond_observedGeneration = generation,
        cond_lastTransitionTime = 0, cond_reason = reason, cond_message = message\<rparr>"

definition IsPaused :: "k8s_lib \<Rightarrow> object_meta \<Rightarrow> bool" where
  "IsPaused L m = lib_has_paused L (mt_annotations m)"

definition SetPausedCondition :: "k8s_lib \<Rightarrow> time \<Rightarrow> condition list \<Rightarrow> bool \<Rightarrow> int \<Rightarrow> condition list" where
  "SetPausedCondition L now conditions paused generation =
     (if paused
      then SetCondition L now conditions ''Paused'' ConditionTrue ''Paused''
             ''Reconciliation is paused by the cluster.x-k8s.io/paused annotation.'' generation
      else SetCondition L now conditions ''Paused'' ConditionFalse ''NotPaused''
             ''Reconciliation is not paused.'' generation)"

text \<open>What a condition says after it was set, read through the two fields that decide.\<close>

definition cond_reason_of :: "k8s_lib \<Rightarrow> condition list \<Rightarrow> string \<Rightarrow> string" where
  "cond_reason_of L cs t = (case lib_find_condition L cs t of None \<Rightarrow> [] | Some c \<Rightarrow> cond_reason c)"

lemma find_SetCondition:
  assumes "conditions_law L"
  shows "lib_find_condition L (SetCondition L now cs t st r msg g) t' =
     (if t' = t
      then Some \<lparr>cond_type = t, cond_status = st, cond_observedGeneration = g,
                 cond_lastTransitionTime =
                   (case lib_find_condition L cs t of None \<Rightarrow> now
                    | Some old \<Rightarrow> if cond_status old = st then cond_lastTransitionTime old else now),
                 cond_reason = r, cond_message = msg\<rparr>
      else lib_find_condition L cs t')"
  using find_set_condition[OF assms, of "\<lparr>cond_type = t, cond_status = st, cond_observedGeneration = g,
      cond_lastTransitionTime = 0, cond_reason = r, cond_message = msg\<rparr>" now cs t']
  by (simp add: SetCondition_def split: option.splits)

lemma cond_reason_SetCondition:
  "conditions_law L \<Longrightarrow>
     cond_reason_of L (SetCondition L now cs t st r msg g) t' = (if t' = t then r else cond_reason_of L cs t')"
  by (simp add: cond_reason_of_def find_SetCondition)

subsection \<open>The Talos endpoint of a host\<close>

definition HostTalosEndpoint :: "TartHost \<Rightarrow> string" where
  "HostTalosEndpoint h =
     (if hs_talosAPIAddress (h_spec h) \<noteq> [] then hs_talosAPIAddress (h_spec h)
      else
        (let usable = (\<lambda>t. find (\<lambda>a. addr_type a = t \<and> trim_space (addr_address a) \<noteq> []) (hst_addresses (h_status h)))
         in case usable MachineInternalIP of Some a \<Rightarrow> trim_space (addr_address a)
            | None \<Rightarrow> (case usable MachineExternalIP of Some a \<Rightarrow> trim_space (addr_address a)
            | None \<Rightarrow> (case usable MachineHostName of Some a \<Rightarrow> trim_space (addr_address a)
            | None \<Rightarrow> []))))"

subsection \<open>Ownership\<close>

record OwnershipFailure =
  of_reason :: string
  of_message :: string

definition HasControllerOwner :: "owner_reference list \<Rightarrow> object_meta \<Rightarrow> string \<Rightarrow> string \<Rightarrow> bool" where
  "HasControllerOwner owners owner apiVersion kind \<longleftrightarrow>
     list_ex (\<lambda>r. own_apiVersion r = apiVersion \<and> own_kind r = kind \<and> own_name r = mt_name owner \<and>
       own_uid r = mt_uid owner \<and> own_controller r = Some True) owners"

definition ValidateProviderOwner :: "object_meta \<Rightarrow> object_meta \<Rightarrow> string \<Rightarrow> string \<Rightarrow> OwnershipFailure option" where
  "ValidateProviderOwner object machine apiVersion kind =
     (if length (mt_owners object) \<noteq> 1 \<or> \<not> HasControllerOwner (mt_owners object) machine apiVersion kind
      then Some \<lparr>of_reason = ''MachineOwnershipMismatch'',
                 of_message = ''A provider resource is not owned by its corresponding CAPI Machine.''\<rparr>
      else None)"

lemma ValidateProviderOwner_ok:
  "ValidateProviderOwner object machine v k = None \<longleftrightarrow>
     (\<exists>r. mt_owners object = [r] \<and> own_apiVersion r = v \<and> own_kind r = k \<and>
        own_name r = mt_name machine \<and> own_uid r = mt_uid machine \<and> own_controller r = Some True)"
  by (auto simp: ValidateProviderOwner_def HasControllerOwner_def length_Suc_conv)

subsection \<open>The CAPI Machine of a provider object\<close>

datatype capi_error =
    ErrCAPIMachineUnavailable | ErrCAPIMachineIdentityMismatch | ErrCAPIMachineReferenceMismatch
  | ErrCAPIMachineAmbiguous | CAPIApi api_error

definition infra_group :: string where "infra_group = ''infrastructure.cluster.x-k8s.io''"
definition bootstrap_group :: string where "bootstrap_group = ''bootstrap.cluster.x-k8s.io''"
definition TartMachineKind :: string where "TartMachineKind = ''TartMachine''"
definition TartClusterKind :: string where "TartClusterKind = ''TartCluster''"
definition TartBootstrapConfigKind :: string where "TartBootstrapConfigKind = ''TartBootstrapConfig''"
definition CAPIMachineKind :: string where "CAPIMachineKind = ''Machine''"

text \<open>\<open>get\<close> reads a Machine by name and \<open>list\<close> all of them, in the object's namespace.\<close>

definition findCAPIMachine ::
  "k8s_lib \<Rightarrow> (string \<Rightarrow> api_error + capi_machine) \<Rightarrow> (api_error + capi_machine list) \<Rightarrow>
   object_meta \<Rightarrow> (capi_machine \<Rightarrow> bool) \<Rightarrow> capi_error + capi_machine" where
  "findCAPIMachine L get list object matches =
     (case find (\<lambda>owner. own_apiVersion owner = lib_capi_group_version L \<and> own_kind owner = CAPIMachineKind)
             (mt_owners object) of
        Some owner \<Rightarrow>
          (case get (own_name owner) of
             Inl ApiNotFound \<Rightarrow> Inl ErrCAPIMachineUnavailable
           | Inl e \<Rightarrow> Inl (CAPIApi e)
           | Inr machine \<Rightarrow>
               if own_uid owner \<noteq> [] \<and> mt_uid (cm_meta machine) \<noteq> own_uid owner
               then Inl ErrCAPIMachineIdentityMismatch
               else if \<not> matches machine then Inl ErrCAPIMachineReferenceMismatch
               else Inr machine)
      | None \<Rightarrow>
          (case list of
             Inl ApiNotRegistered \<Rightarrow> Inl ErrCAPIMachineUnavailable
           | Inl e \<Rightarrow> Inl (CAPIApi e)
           | Inr machines \<Rightarrow>
               (case filter matches machines of
                  [] \<Rightarrow> Inl ErrCAPIMachineUnavailable
                | [m] \<Rightarrow> Inr m
                | _ \<Rightarrow> Inl ErrCAPIMachineAmbiguous)))"

definition refers_to_infrastructure :: "string \<Rightarrow> capi_machine \<Rightarrow> bool" where
  "refers_to_infrastructure name m \<longleftrightarrow>
     (let ref = cm_infrastructureRef m
      in cr_apiGroup ref = infra_group \<and> cr_kind ref = TartMachineKind \<and> cr_name ref = name)"

definition FindCAPIMachineForInfrastructure ::
  "k8s_lib \<Rightarrow> (string \<Rightarrow> api_error + capi_machine) \<Rightarrow> (api_error + capi_machine list) \<Rightarrow>
   object_meta \<Rightarrow> capi_error + capi_machine" where
  "FindCAPIMachineForInfrastructure L get list object =
     findCAPIMachine L get list object (refers_to_infrastructure (mt_name object))"

definition refers_to_bootstrap :: "string \<Rightarrow> capi_machine \<Rightarrow> bool" where
  "refers_to_bootstrap name m \<longleftrightarrow>
     (let ref = cm_configRef m
      in cr_apiGroup ref = bootstrap_group \<and> cr_kind ref = TartBootstrapConfigKind \<and> cr_name ref = name)"

definition FindCAPIMachineForBootstrap ::
  "k8s_lib \<Rightarrow> (string \<Rightarrow> api_error + capi_machine) \<Rightarrow> (api_error + capi_machine list) \<Rightarrow>
   object_meta \<Rightarrow> capi_error + capi_machine" where
  "FindCAPIMachineForBootstrap L get list object =
     findCAPIMachine L get list object (refers_to_bootstrap (mt_name object))"

text \<open>Whatever path found it, the Machine refers to the object, and an owner reference
  with a UID is honoured.\<close>

lemma findCAPIMachine_matches:
  "findCAPIMachine L get list object matches = Inr m \<Longrightarrow> matches m"
  by (auto simp: findCAPIMachine_def filter_eq_Cons_iff
      split: option.splits sum.splits if_splits api_error.splits list.splits)

lemma findCAPIMachine_owner:
  "findCAPIMachine L get list object matches = Inr m \<Longrightarrow>
     find (\<lambda>owner. own_apiVersion owner = lib_capi_group_version L \<and> own_kind owner = CAPIMachineKind)
       (mt_owners object) = Some owner \<Longrightarrow> own_uid owner \<noteq> [] \<Longrightarrow> mt_uid (cm_meta m) = own_uid owner"
  by (auto simp: findCAPIMachine_def split: sum.splits if_splits api_error.splits)

end
