(* ===== verification/Sha256.thy ===== *)
theory Sha256
  imports GoStrings "HOL-Library.Word"
begin

section \<open>SHA-256\<close>

text \<open>
  \<open>crypto/sha256.Sum256\<close> of the standard library (FIPS 180-4), on byte strings, and
  \<open>encoding/hex.EncodeToString\<close>. The code uses the digest to score hosts, to name
  leases and to compare configurations.
\<close>

type_synonym word32 = "32 word"

text \<open>
  The constants of the standard are the first 32 bits of the fractional parts of the cube
  roots of the first 64 primes, and of the square roots of the first 8: the low 32 bits of
  \<open>\<lfloor>(p * 2 ^ (32 * k)) ^ (1/k)\<rfloor>\<close>. \<open>root_bits\<close> finds an integer root bit by bit.
\<close>

fun root_bits :: "nat \<Rightarrow> nat \<Rightarrow> nat \<Rightarrow> nat \<Rightarrow> nat" where
  "root_bits k n 0 r = r"
| "root_bits k n (Suc b) r =
     (let r' = r + 2 ^ b in root_bits k n b (if r' ^ k \<le> n then r' else r))"

definition sha_primes :: "nat list" where
  "sha_primes = filter (\<lambda>p. list_all (\<lambda>d. p mod d \<noteq> 0) [2..<p]) [2..<312]"

definition sha_constant :: "nat \<Rightarrow> nat \<Rightarrow> word32" where
  "sha_constant k p = word_of_nat (root_bits k (p * 2 ^ (32 * k)) 40 0)"

definition sha_k :: "word32 list" where
  "sha_k = map (sha_constant 3) sha_primes"

definition sha_h0 :: "word32 list" where
  "sha_h0 = map (sha_constant 2) (take 8 sha_primes)"

text \<open>A number as \<open>n\<close> big-endian bytes, and four bytes as a word.\<close>

fun be_bytes :: "nat \<Rightarrow> nat \<Rightarrow> nat list" where
  "be_bytes 0 x = []"
| "be_bytes (Suc n) x = be_bytes n (x div 256) @ [x mod 256]"

lemma length_be_bytes [simp]: "length (be_bytes n x) = n"
  by (induction n arbitrary: x) auto

definition sha_pad :: "nat list \<Rightarrow> nat list" where
  "sha_pad m = m @ [128] @ replicate ((119 - length m mod 64) mod 64) 0 @ be_bytes 8 (8 * length m)"

fun be_words :: "nat list \<Rightarrow> word32 list" where
  "be_words (a # b # c # d # t) = word_of_nat (((a * 256 + b) * 256 + c) * 256 + d) # be_words t"
| "be_words _ = []"

definition ror :: "nat \<Rightarrow> word32 \<Rightarrow> word32" where
  "ror n w = or (drop_bit n w) (push_bit (32 - n) w)"

text \<open>The message schedule, the words of the block first; \<open>n\<close> words are added.\<close>

fun sha_schedule :: "nat \<Rightarrow> word32 list \<Rightarrow> word32 list" where
  "sha_schedule 0 w = w"
| "sha_schedule (Suc n) w =
     (let t = length w;
          a = w ! (t - 15); b = w ! (t - 2);
          s0 = xor (xor (ror 7 a) (ror 18 a)) (drop_bit 3 a);
          s1 = xor (xor (ror 17 b) (ror 19 b)) (drop_bit 10 b)
      in sha_schedule n (w @ [w ! (t - 16) + s0 + w ! (t - 7) + s1]))"

fun sha_round :: "word32 list \<Rightarrow> word32 \<times> word32 \<Rightarrow> word32 list" where
  "sha_round [a, b, c, d, e, f, g, h] (k, w) =
     (let s1 = xor (xor (ror 6 e) (ror 11 e)) (ror 25 e);
          ch = xor (and e f) (and (not e) g);
          t1 = h + s1 + ch + k + w;
          s0 = xor (xor (ror 2 a) (ror 13 a)) (ror 22 a);
          maj = xor (xor (and a b) (and a c)) (and b c)
      in [t1 + s0 + maj, a, b, c, d + t1, e, f, g])"
| "sha_round s _ = s"

definition sha_block :: "word32 list \<Rightarrow> word32 list \<Rightarrow> word32 list" where
  "sha_block hs w = map2 (+) hs (foldl sha_round hs (zip sha_k (sha_schedule 48 w)))"

fun sha_blocks :: "nat \<Rightarrow> word32 list \<Rightarrow> word32 list \<Rightarrow> word32 list" where
  "sha_blocks 0 hs ws = hs"
| "sha_blocks (Suc n) hs ws = sha_blocks n (sha_block hs (take 16 ws)) (drop 16 ws)"

definition sha256_bytes :: "nat list \<Rightarrow> nat list" where
  "sha256_bytes m =
     (let p = sha_pad m
      in concat (map (\<lambda>w. be_bytes 4 (unat w)) (sha_blocks (length p div 64) sha_h0 (be_words p))))"

definition sha256 :: "string \<Rightarrow> nat list" where
  "sha256 s = sha256_bytes (map of_char s)"

definition hex_encode :: "nat list \<Rightarrow> string" where
  "hex_encode bs = concat (map (\<lambda>b. [hex_char (b div 16), hex_char (b mod 16)]) bs)"

lemma pad_gap:
  assumes "r < (64 :: nat)"
  shows "(r + (9 + (119 - r) mod 64)) mod 64 = 0"
proof (cases "r \<le> 55")
  case True
  then have "119 - r = (55 - r) + 64" by simp
  then have "(119 - r) mod 64 = 55 - r" by (simp only: mod_add_self2) simp
  with True show ?thesis by simp
next
  case False
  then have "(119 - r) mod 64 = 119 - r" using assms by simp
  with assms show ?thesis by simp
qed

lemma sha_pad_blocks: "length (sha_pad m) mod 64 = 0"
proof -
  have "(length m + (9 + (119 - length m mod 64) mod 64)) mod 64 = 0"
    using pad_gap[of "length m mod 64"] by (simp only: mod_add_left_eq)
  moreover have "length (sha_pad m) = length m + (9 + (119 - length m mod 64) mod 64)"
    by (simp add: sha_pad_def)
  ultimately show ?thesis by simp
qed

lemma length_sha_round: "length (sha_round hs kw) = length hs"
  by (induction hs kw rule: sha_round.induct) (simp_all add: Let_def)

lemma length_sha_schedule: "length (sha_schedule n w) = length w + n"
  by (induction n w rule: sha_schedule.induct) (simp_all add: Let_def)

lemma length_sha_block: "length (sha_block hs w) = length hs"
proof -
  have "length (foldl sha_round hs xs) = length hs" for xs
    by (induction xs arbitrary: hs) (simp_all add: length_sha_round)
  then show ?thesis by (simp add: sha_block_def)
qed

lemma length_sha_blocks: "length (sha_blocks n hs ws) = length hs"
  by (induction n hs ws rule: sha_blocks.induct) (simp_all add: length_sha_block)

lemma length_sha_h0: "length sha_h0 = 8"
proof -
  let ?prime = "\<lambda>p :: nat. list_all (\<lambda>d. p mod d \<noteq> 0) [2..<p]"
  have "[2..<312] = [2..<20] @ [20..<(312 :: nat)]"
    using upt_add_eq_append[of 2 20 292] by (simp del: upt_rec_numeral)
  then have "sha_primes = filter ?prime [2..<20] @ filter ?prime [20..<312]"
    by (simp add: sha_primes_def del: upt_rec_numeral)
  moreover have "length (filter ?prime [2..<20]) = 8" by simp
  ultimately obtain xs ys where "sha_primes = xs @ ys" "length xs = 8" by blast
  then have "length sha_primes = 8 + length ys" by (metis length_append)
  then show ?thesis by (simp add: sha_h0_def)
qed

lemma length_sha256 [simp]: "length (sha256 s) = 32"
proof -
  have "length (concat (map (\<lambda>w. be_bytes 4 (unat w)) xs)) = 4 * length xs" for xs :: "word32 list"
    by (induction xs) auto
  then show ?thesis by (simp add: sha256_def sha256_bytes_def Let_def length_sha_blocks length_sha_h0)
qed

lemma length_hex_encode [simp]: "length (hex_encode bs) = 2 * length bs"
  by (induction bs) (simp_all add: hex_encode_def)

end
