(* ===== verification/HostClaims.thy ===== *)
theory HostClaims
  imports ApiTypes Sha256
begin

section \<open>Which host a machine may claim\<close>

text \<open>
  \<open>domain/host/state.go\<close> and \<open>usecase/host\<close>: the eligibility of a host
  (\<open>eligibility.go\<close>), the preconditions of a claim and of a retention
  (\<open>claimdecision.go\<close>), placement constraints (\<open>selector.go\<close>), the deterministic choice
  of a fresh host (\<open>selection.go\<close>), the failure domains (\<open>failure_domain.go\<close>) and
  identity conflicts in the inventory (\<open>identity.go\<close>).
\<close>

subsection \<open>Eligibility\<close>

datatype Eligibility = Available | Claimed | Retained | Reusable

definition validReuseMode :: "ReuseMode \<Rightarrow> bool" where
  "validReuseMode mode \<longleftrightarrow> mode = ReuseModeAdopt \<or> mode = ReuseModeReprovision"

definition Classify :: "TartHostSpec \<Rightarrow> Eligibility" where
  "Classify spec =
     (if hs_consumerRef spec \<noteq> None then Claimed
      else case hs_previousConsumerRef spec of None \<Rightarrow> Available
      | Some prev \<Rightarrow>
          (case hs_reuseApproval spec of None \<Rightarrow> Retained
           | Some appr \<Rightarrow>
               if hs_reusePolicy spec = ReusePolicyAllowReuse \<and> prev_uid prev \<noteq> [] \<and>
                  appr_previousConsumerUID appr \<noteq> [] \<and>
                  appr_previousConsumerUID appr = prev_uid prev \<and> validReuseMode (hs_reuseMode spec)
               then Reusable else Retained))"

definition ReprovisionApproved :: "TartHostSpec \<Rightarrow> bool" where
  "ReprovisionApproved spec \<longleftrightarrow>
     hs_reusePolicy spec = ReusePolicyAllowReuse \<and> hs_reuseMode spec = ReuseModeReprovision \<and>
     (case (hs_previousConsumerRef spec, hs_reuseApproval spec) of
        (Some prev, Some appr) \<Rightarrow>
          prev_uid prev \<noteq> [] \<and> appr_previousConsumerUID appr \<noteq> [] \<and>
          appr_previousConsumerUID appr = prev_uid prev
      | _ \<Rightarrow> False)"

lemma Classify_Claimed [simp]: "Classify spec = Claimed \<longleftrightarrow> hs_consumerRef spec \<noteq> None"
  by (auto simp: Classify_def split: option.splits)

lemma Classify_Available [simp]:
  "Classify spec = Available \<longleftrightarrow> hs_consumerRef spec = None \<and> hs_previousConsumerRef spec = None"
  by (auto simp: Classify_def split: option.splits)

lemma Classify_Reusable:
  "Classify spec = Reusable \<longleftrightarrow>
     hs_consumerRef spec = None \<and> hs_reusePolicy spec = ReusePolicyAllowReuse \<and>
     validReuseMode (hs_reuseMode spec) \<and>
     (\<exists>prev appr. hs_previousConsumerRef spec = Some prev \<and> hs_reuseApproval spec = Some appr \<and>
        prev_uid prev \<noteq> [] \<and> appr_previousConsumerUID appr = prev_uid prev)"
  by (auto simp: Classify_def split: option.splits)

lemma Classify_Retained:
  "Classify spec = Retained \<longleftrightarrow>
     hs_consumerRef spec = None \<and> hs_previousConsumerRef spec \<noteq> None \<and> Classify spec \<noteq> Reusable"
  by (cases "Classify spec") (auto simp: Classify_Reusable, simp_all add: Classify_def split: option.splits if_splits)

lemma ReprovisionApproved_iff:
  "ReprovisionApproved spec \<longleftrightarrow>
     hs_reuseMode spec = ReuseModeReprovision \<and> Classify (spec\<lparr>hs_consumerRef := None\<rparr>) = Reusable"
  by (auto simp: ReprovisionApproved_def Classify_Reusable validReuseMode_def split: option.splits)

subsection \<open>Placement constraints\<close>

definition MatchesForFailureDomain ::
  "k8s_lib \<Rightarrow> (string, string) gomap \<Rightarrow> TartHostSpec \<Rightarrow> HostSelector option \<Rightarrow> string \<Rightarrow> bool" where
  "MatchesForFailureDomain L hostLabels spec selector failureDomain =
     (if failureDomain \<noteq> [] \<and> hs_failureDomain spec \<noteq> failureDomain then False
      else case selector of None \<Rightarrow> True
      | Some s \<Rightarrow>
          if hsel_architecture s \<noteq> [] \<and> hsel_architecture s \<noteq> hs_architecture spec then False
          else case lib_selector_matches L (hsel_selector s) of None \<Rightarrow> False
               | Some matches \<Rightarrow> matches hostLabels)"

subsection \<open>Claim and retention decisions\<close>

datatype claim_error =
    ErrClaimConflict | ErrInvalidClaim | ErrInvalidRetention | ErrHostNoLongerEligible
  | ErrReuseApprovalRequired | ErrHostIdentityChanged | ErrHostSelectionMismatch

datatype ClaimDecision = ClaimNoop | ClaimApply

datatype ClaimMode = ClaimFreshAutomatic | ClaimExplicitReusable | ClaimModeOther int

record ClaimRequest =
  req_consumer :: object_reference
  req_expectedHostID :: HostID
  req_selector :: "HostSelector option"
  req_failureDomain :: string
  req_mode :: ClaimMode

definition ValidConsumerReference :: "object_reference \<Rightarrow> bool" where
  "ValidConsumerReference c \<longleftrightarrow>
     ref_apiVersion c \<noteq> [] \<and> ref_kind c \<noteq> [] \<and> ref_namespace c \<noteq> [] \<and> ref_name c \<noteq> [] \<and> ref_uid c \<noteq> []"

definition DecideClaim :: "TartHostSpec \<Rightarrow> object_reference \<Rightarrow> claim_error + ClaimDecision" where
  "DecideClaim spec consumer =
     (if \<not> ValidConsumerReference consumer then Inl ErrInvalidClaim
      else case hs_consumerRef spec of
             None \<Rightarrow> Inr ClaimApply
           | Some c \<Rightarrow> if c \<noteq> consumer then Inl ErrClaimConflict else Inr ClaimNoop)"

definition DecideRetention ::
  "TartHostSpec \<Rightarrow> object_reference \<Rightarrow> PreviousConsumerRef \<Rightarrow> claim_error + ClaimDecision" where
  "DecideRetention spec consumer previous =
     (if \<not> ValidConsumerReference consumer \<or> prev_uid previous = [] \<or> prev_uid previous \<noteq> ref_uid consumer
      then Inl ErrInvalidRetention
      else case hs_consumerRef spec of
             None \<Rightarrow>
               (case hs_previousConsumerRef spec of
                  Some p \<Rightarrow> if prev_uid p = prev_uid previous then Inr ClaimNoop else Inl ErrClaimConflict
                | None \<Rightarrow> Inl ErrClaimConflict)
           | Some c \<Rightarrow> if c \<noteq> consumer then Inl ErrClaimConflict else Inr ClaimApply)"

text \<open>\<open>None\<close> for the host is the nil pointer; \<open>None\<close> as result is the nil error.\<close>

definition ValidateClaimCandidate ::
  "k8s_lib \<Rightarrow> TartHost option \<Rightarrow> ClaimRequest \<Rightarrow> claim_error option" where
  "ValidateClaimCandidate L host_opt req =
     (case host_opt of None \<Rightarrow> Some ErrInvalidClaim
      | Some h \<Rightarrow>
          if \<not> HostID_IsZero (req_expectedHostID req) \<and> hs_hostID (h_spec h) \<noteq> req_expectedHostID req
          then Some ErrHostIdentityChanged
          else
            (case (case req_mode req of
                     ClaimFreshAutomatic \<Rightarrow>
                       if Classify (h_spec h) \<noteq> Available then Some ErrHostNoLongerEligible
                       else if hs_previousConsumerRef (h_spec h) \<noteq> None then Some ErrReuseApprovalRequired
                       else None
                   | ClaimExplicitReusable \<Rightarrow>
                       if Classify (h_spec h) \<noteq> Reusable then Some ErrReuseApprovalRequired else None
                   | ClaimModeOther _ \<Rightarrow> Some ErrInvalidClaim) of
               Some e \<Rightarrow> Some e
             | None \<Rightarrow>
                 if \<not> MatchesForFailureDomain L (mt_labels (h_meta h)) (h_spec h) (req_selector req) (req_failureDomain req)
                 then Some ErrHostSelectionMismatch else None))"

lemma DecideClaim_apply:
  "DecideClaim spec consumer = Inr ClaimApply \<longleftrightarrow> ValidConsumerReference consumer \<and> hs_consumerRef spec = None"
  by (auto simp: DecideClaim_def split: option.splits)

lemma DecideClaim_noop:
  "DecideClaim spec consumer = Inr ClaimNoop \<longleftrightarrow> ValidConsumerReference consumer \<and> hs_consumerRef spec = Some consumer"
  by (auto simp: DecideClaim_def split: option.splits)

lemma DecideRetention_apply:
  "DecideRetention spec consumer previous = Inr ClaimApply \<longleftrightarrow>
     ValidConsumerReference consumer \<and> prev_uid previous = ref_uid consumer \<and> hs_consumerRef spec = Some consumer"
  by (auto simp: DecideRetention_def ValidConsumerReference_def split: option.splits)

lemma DecideRetention_noop:
  "DecideRetention spec consumer previous = Inr ClaimNoop \<longleftrightarrow>
     ValidConsumerReference consumer \<and> prev_uid previous = ref_uid consumer \<and> hs_consumerRef spec = None \<and>
     (\<exists>p. hs_previousConsumerRef spec = Some p \<and> prev_uid p = prev_uid previous)"
  by (auto simp: DecideRetention_def ValidConsumerReference_def split: option.splits)

lemma ValidateClaimCandidate_ok:
  "ValidateClaimCandidate L (Some h) req = None \<longleftrightarrow>
     (HostID_IsZero (req_expectedHostID req) \<or> hs_hostID (h_spec h) = req_expectedHostID req) \<and>
     (req_mode req = ClaimFreshAutomatic \<and> Classify (h_spec h) = Available \<or>
      req_mode req = ClaimExplicitReusable \<and> Classify (h_spec h) = Reusable) \<and>
     MatchesForFailureDomain L (mt_labels (h_meta h)) (h_spec h) (req_selector req) (req_failureDomain req)"
  by (cases "req_mode req") (auto simp: ValidateClaimCandidate_def)

lemma ValidateClaimCandidate_unclaimed:
  "ValidateClaimCandidate L (Some h) req = None \<Longrightarrow> hs_consumerRef (h_spec h) = None"
  by (auto simp: ValidateClaimCandidate_ok Classify_Reusable)

subsection \<open>Choosing a fresh host\<close>

definition hostScore :: "string \<Rightarrow> HostID \<Rightarrow> nat list" where
  "hostScore machineUID hostID = sha256 (machineUID @ [CHR 0x00] @ HostID_String hostID)"

text \<open>The comparison functions of the two sorts: by name, and highest score first.\<close>

definition name_le :: "TartHost \<Rightarrow> TartHost \<Rightarrow> bool" where
  "name_le l r \<longleftrightarrow> h_name l \<le> h_name r"

definition score_le :: "string \<Rightarrow> TartHost \<Rightarrow> TartHost \<Rightarrow> bool" where
  "score_le machineUID l r \<longleftrightarrow>
     (let ls = hostScore machineUID (hs_hostID (h_spec l)); rs = hostScore machineUID (hs_hostID (h_spec r))
      in if ls \<noteq> rs then rs < ls else h_name l \<le> h_name r)"

definition fresh_candidate :: "k8s_lib \<Rightarrow> HostSelector option \<Rightarrow> string \<Rightarrow> TartHost \<Rightarrow> bool" where
  "fresh_candidate L selector failureDomain h \<longleftrightarrow>
     Classify (h_spec h) = Available \<and> \<not> HostID_IsZero (hs_hostID (h_spec h)) \<and>
     MatchesForFailureDomain L (mt_labels (h_meta h)) (h_spec h) selector failureDomain"

text \<open>\<open>None\<close> is \<open>ErrNoEligibleHost\<close>.\<close>

definition SelectFreshForFailureDomainWithRendezvous ::
  "k8s_lib \<Rightarrow> TartHost list \<Rightarrow> HostSelector option \<Rightarrow> string \<Rightarrow> string \<Rightarrow> TartHost option" where
  "SelectFreshForFailureDomainWithRendezvous L hosts selector failureDomain machineUID =
     (let candidates = filter (fresh_candidate L selector failureDomain) hosts
      in if candidates = [] then None
         else if machineUID = [] then Some (hd (sort_by name_le candidates))
         else Some (hd (sort_by (score_le machineUID) candidates)))"

lemma name_le_total: "name_le x y \<or> name_le y x"
  and name_le_trans: "name_le x y \<Longrightarrow> name_le y z \<Longrightarrow> name_le x z"
  by (auto simp: name_le_def)

lemma score_le_total: "score_le u x y \<or> score_le u y x"
  and score_le_trans: "score_le u x y \<Longrightarrow> score_le u y z \<Longrightarrow> score_le u x z"
  by (auto simp: score_le_def Let_def split: if_splits)

lemma name_le_antisym: "name_le x y \<Longrightarrow> name_le y x \<Longrightarrow> h_name x = h_name y"
  and score_le_antisym: "score_le u x y \<Longrightarrow> score_le u y x \<Longrightarrow> h_name x = h_name y"
  by (auto simp: name_le_def score_le_def Let_def split: if_splits)

text \<open>The host a sort puts first is determined by the set of candidates.\<close>

lemma hd_sort_by_unique:
  assumes total: "\<And>x y. le x y \<or> le y x" and trans: "\<And>x y z. le x y \<Longrightarrow> le y z \<Longrightarrow> le x z"
    and anti: "\<And>x y. le x y \<Longrightarrow> le y x \<Longrightarrow> key x = key y"
    and inj: "inj_on key (set xs)" and "set xs = set ys" "xs \<noteq> []"
  shows "hd (sort_by le xs) = hd (sort_by le ys)"
proof -
  let ?x = "hd (sort_by le xs)" and ?y = "hd (sort_by le ys)"
  have "ys \<noteq> []" using assms(5,6) by auto
  then have in_xs: "?x \<in> set xs" "?y \<in> set xs"
    using assms(5,6) hd_sort_by_in by metis+
  have "le ?x ?y" using hd_sort_by_le[of le, OF total trans in_xs(2)] by simp
  moreover have "?x \<in> set ys" using in_xs(1) assms(5) by simp
  then have "le ?y ?x" using hd_sort_by_le[of le, OF total trans] by simp
  ultimately show ?thesis using anti inj in_xs by (meson inj_onD)
qed

subsection \<open>Failure domains\<close>

definition FailureDomains :: "TartHost list \<Rightarrow> FailureDomain list" where
  "FailureDomains hosts =
     (let names = filter (\<lambda>n. n \<noteq> []) (map (\<lambda>h. hs_failureDomain (h_spec h)) hosts)
      in map (\<lambda>n. \<lparr>fd_name = n, fd_controlPlane = Some True\<rparr>) (sort (remdups names)))"

subsection \<open>Identity conflicts\<close>

definition sameMACAddress :: "MACAddress \<Rightarrow> MACAddress \<Rightarrow> bool" where
  "sameMACAddress l r \<longleftrightarrow> \<not> MAC_IsZero l \<and> \<not> MAC_IsZero r \<and> l = r"

definition sameIdentity :: "string \<Rightarrow> string \<Rightarrow> bool" where
  "sameIdentity l r =
     (case (uuid_parse l, uuid_parse r) of
        (Some u, Some v) \<Rightarrow> u \<noteq> uuid_nil \<and> u = v | _ \<Rightarrow> False)"

definition sameDiskIdentity :: "DiskInventory \<Rightarrow> DiskInventory \<Rightarrow> bool" where
  "sameDiskIdentity l r =
     (let lw = trim_space (disk_wwid l); rw = trim_space (disk_wwid r);
          lser = trim_space (disk_serial l); rser = trim_space (disk_serial r)
      in if lw \<noteq> [] \<and> rw \<noteq> [] \<and> equal_fold lw rw then True
         else lser \<noteq> [] \<and> rser \<noteq> [] \<and> lser = rser)"

definition diskIdentityConflict :: "DiskInventory list \<Rightarrow> DiskInventory list \<Rightarrow> bool" where
  "diskIdentityConflict left right \<longleftrightarrow> list_ex (\<lambda>l. list_ex (sameDiskIdentity l) right) left"

fun diskIdentityConflictWithin :: "DiskInventory list \<Rightarrow> bool" where
  "diskIdentityConflictWithin [] = False"
| "diskIdentityConflictWithin (d # ds) =
     (if diskIdentityConflict [d] ds then True else diskIdentityConflictWithin ds)"

definition same_object :: "TartHost \<Rightarrow> TartHost \<Rightarrow> bool" where
  "same_object h k \<longleftrightarrow> mt_name (h_meta k) = mt_name (h_meta h) \<and> mt_namespace (h_meta k) = mt_namespace (h_meta h)"

text \<open>What \<open>HasIdentityConflict\<close> compares of two different hosts.\<close>

definition identity_clash :: "TartHost \<Rightarrow> TartHost \<Rightarrow> bool" where
  "identity_clash h k =
     (if sameMACAddress (hs_macAddress (h_spec h)) (hs_macAddress (h_spec k)) then True
      else case (hst_inventory (h_status h), hst_inventory (h_status k)) of
             (Some i, Some j) \<Rightarrow>
               sameIdentity (inv_systemUUID i) (inv_systemUUID j) \<or>
               diskIdentityConflict (inv_disks i) (inv_disks j)
           | _ \<Rightarrow> False)"

definition HasIdentityConflict :: "TartHost \<Rightarrow> TartHost list \<Rightarrow> bool" where
  "HasIdentityConflict h hosts \<longleftrightarrow> list_ex (\<lambda>k. \<not> same_object h k \<and> identity_clash h k) hosts"

definition disks_within_conflict :: "TartHost \<Rightarrow> bool" where
  "disks_within_conflict h =
     (case hst_inventory (h_status h) of None \<Rightarrow> False | Some i \<Rightarrow> diskIdentityConflictWithin (inv_disks i))"

definition HasDiskIdentityConflict :: "TartHost \<Rightarrow> TartHost list \<Rightarrow> bool" where
  "HasDiskIdentityConflict h hosts \<longleftrightarrow>
     disks_within_conflict h \<or>
     list_ex (\<lambda>k. \<not> same_object h k \<and>
       (case (hst_inventory (h_status h), hst_inventory (h_status k)) of
          (Some i, Some j) \<Rightarrow> diskIdentityConflict (inv_disks i) (inv_disks j) | _ \<Rightarrow> False)) hosts"

text \<open>\<open>before\<close> is \<open>hosts[:index]\<close>, in the order of the list.\<close>

fun identity_conflict_scan :: "TartHost list \<Rightarrow> TartHost list \<Rightarrow> bool" where
  "identity_conflict_scan before [] = False"
| "identity_conflict_scan before (c # after) =
     (if disks_within_conflict c then True
      else if HasIdentityConflict c after \<or> HasIdentityConflict c before then True
      else identity_conflict_scan (before @ [c]) after)"

definition HasIdentityConflictForAny :: "TartHost list \<Rightarrow> bool" where
  "HasIdentityConflictForAny hosts \<longleftrightarrow> identity_conflict_scan [] hosts"

lemma sameDiskIdentity_sym: "sameDiskIdentity l r = sameDiskIdentity r l"
  by (auto simp: sameDiskIdentity_def Let_def equal_fold_sym)

lemma diskIdentityConflict_sym: "diskIdentityConflict xs ys = diskIdentityConflict ys xs"
  unfolding diskIdentityConflict_def list_ex_iff using sameDiskIdentity_sym by blast

lemma sameIdentity_sym: "sameIdentity l r = sameIdentity r l"
  by (auto simp: sameIdentity_def split: option.splits)

lemma sameMACAddress_sym: "sameMACAddress l r = sameMACAddress r l"
  by (auto simp: sameMACAddress_def)

lemma identity_clash_sym: "identity_clash h k = identity_clash k h"
  by (auto simp: identity_clash_def sameMACAddress_sym sameIdentity_sym diskIdentityConflict_sym
      split: option.splits)

lemma same_object_sym: "same_object h k = same_object k h"
  by (auto simp: same_object_def)

lemma same_object_refl [simp]: "same_object h h"
  by (simp add: same_object_def)

lemma identity_conflict_scan_iff:
  "identity_conflict_scan before hosts \<longleftrightarrow>
     (\<exists>h \<in> set hosts. disks_within_conflict h \<or> HasIdentityConflict h (before @ hosts))"
proof (induction before hosts rule: identity_conflict_scan.induct)
  case (2 before c after)
  then show ?case by (auto simp: HasIdentityConflict_def)
qed simp

lemma HasIdentityConflictForAny_iff:
  "HasIdentityConflictForAny hosts \<longleftrightarrow>
     (\<exists>h \<in> set hosts. disks_within_conflict h \<or> HasIdentityConflict h hosts)"
  by (simp add: HasIdentityConflictForAny_def identity_conflict_scan_iff)

lemma HasIdentityConflict_set: "set hosts = set hosts' \<Longrightarrow> HasIdentityConflict h hosts = HasIdentityConflict h hosts'"
  by (simp add: HasIdentityConflict_def list_ex_iff)

text \<open>A host that clashes with another makes the other clash with it.\<close>

lemma HasIdentityConflict_sym:
  assumes "h \<in> set hosts" "HasIdentityConflict h hosts"
  obtains k where "k \<in> set hosts" "\<not> same_object h k" "identity_clash h k" "HasIdentityConflict k hosts"
  using assms unfolding HasIdentityConflict_def list_ex_iff
  by (metis identity_clash_sym same_object_sym)

end
