(* ===== verification/HostRepository.thy ===== *)
theory HostRepository
  imports HostClaims "HOL-Library.Monad_Syntax"
begin

section \<open>The repository: claiming and retaining with compare-and-swap\<close>

text \<open>
  \<open>adapter/kubernetes/tarthostrepository.go\<close>. Both operations decide on the copy of the
  host they hold, write it back with its \<open>resourceVersion\<close>, and on a conflict read the
  host again and decide anew, three times at most. The API server is an environment: what
  it answers may depend on everything that happened before. The result is the error, if
  any, and the host the caller's pointer refers to afterwards.

  The locale \<open>cas_loop\<close> states what the two loops share; the step relation at the end
  composes any number of clients running these loops with a server that compares versions
  and with users who edit the host, and shows that a claim is exclusive.
\<close>

datatype host_event = HostUpdate TartHost | HostGet string

record host_env =
  he_update :: "host_event list \<Rightarrow> TartHost \<Rightarrow> api_error + TartHost"
  he_get :: "host_event list \<Rightarrow> string \<Rightarrow> api_error + TartHost"

datatype repo_error =
    Refused claim_error      \<comment> \<open>returned by a decision\<close>
  | ApiFailed api_error      \<comment> \<open>returned by the client\<close>
  | ConflictExhausted        \<comment> \<open>\<open>ErrClaimConflict\<close> around the last conflict\<close>

definition claimAttempts :: nat where "claimAttempts = 3"

definition set_consumer :: "object_reference \<Rightarrow> TartHost \<Rightarrow> TartHost" where
  "set_consumer c h = h\<lparr>h_spec := (h_spec h)\<lparr>hs_consumerRef := Some c\<rparr>\<rparr>"

definition set_retained :: "PreviousConsumerRef \<Rightarrow> TartHost \<Rightarrow> TartHost" where
  "set_retained p h = h\<lparr>h_spec := (h_spec h)\<lparr>hs_consumerRef := None, hs_previousConsumerRef := Some p\<rparr>\<rparr>"

subsection \<open>The two loops\<close>

fun claim_loop ::
  "k8s_lib \<Rightarrow> host_env \<Rightarrow> ClaimRequest \<Rightarrow> nat \<Rightarrow> TartHost \<Rightarrow> (host_event, repo_error option \<times> TartHost) io" where
  "claim_loop L E req 0 h = State_Monad.return (Some ConflictExhausted, h)"
| "claim_loop L E req (Suc n) h =
     (case DecideClaim (h_spec h) (req_consumer req) of
        Inl e \<Rightarrow> State_Monad.return (Some (Refused e), h)
      | Inr ClaimNoop \<Rightarrow> State_Monad.return (None, h)
      | Inr ClaimApply \<Rightarrow>
          (case ValidateClaimCandidate L (Some h) req of
             Some e \<Rightarrow> State_Monad.return (Some (Refused e), h)
           | None \<Rightarrow> do {
               r \<leftarrow> call (HostUpdate (set_consumer (req_consumer req) h))
                      (\<lambda>tr. he_update E tr (set_consumer (req_consumer req) h));
               (case r of
                  Inr stored \<Rightarrow> State_Monad.return (None, stored)
                | Inl e \<Rightarrow>
                    if e \<noteq> ApiConflict then State_Monad.return (Some (ApiFailed e), h)
                    else if n = 0 then State_Monad.return (Some ConflictExhausted, h)
                    else do {
                      g \<leftarrow> call (HostGet (h_name h)) (\<lambda>tr. he_get E tr (h_name h));
                      (case g of
                         Inl e \<Rightarrow> State_Monad.return (Some (ApiFailed e), h)
                       | Inr refreshed \<Rightarrow> claim_loop L E req n refreshed)
                    })
             }))"

text \<open>\<open>None\<close> for the host is the nil pointer; the caller passes a client.\<close>

definition ClaimHostWithRequest ::
  "k8s_lib \<Rightarrow> host_env \<Rightarrow> TartHost option \<Rightarrow> ClaimRequest \<Rightarrow> (host_event, repo_error option \<times> TartHost option) io" where
  "ClaimHostWithRequest L E host_opt req =
     (case host_opt of None \<Rightarrow> State_Monad.return (Some (Refused ErrInvalidClaim), None)
      | Some h \<Rightarrow>
          if h_name h = [] then State_Monad.return (Some (Refused ErrInvalidClaim), Some h)
          else do {
            let req = (if HostID_IsZero (req_expectedHostID req)
                       then req\<lparr>req_expectedHostID := hs_hostID (h_spec h)\<rparr> else req);
            (err, h') \<leftarrow> claim_loop L E req claimAttempts h;
            State_Monad.return (err, Some h')
          })"

fun retain_loop ::
  "host_env \<Rightarrow> object_reference \<Rightarrow> PreviousConsumerRef \<Rightarrow> nat \<Rightarrow> TartHost \<Rightarrow> (host_event, repo_error option \<times> TartHost) io" where
  "retain_loop E consumer previous 0 h = State_Monad.return (Some ConflictExhausted, h)"
| "retain_loop E consumer previous (Suc n) h =
     (case DecideRetention (h_spec h) consumer previous of
        Inl e \<Rightarrow> State_Monad.return (Some (Refused e), h)
      | Inr ClaimNoop \<Rightarrow> State_Monad.return (None, h)
      | Inr ClaimApply \<Rightarrow> do {
          r \<leftarrow> call (HostUpdate (set_retained previous h)) (\<lambda>tr. he_update E tr (set_retained previous h));
          (case r of
             Inr stored \<Rightarrow> State_Monad.return (None, stored)
           | Inl e \<Rightarrow>
               if e \<noteq> ApiConflict then State_Monad.return (Some (ApiFailed e), h)
               else if n = 0 then State_Monad.return (Some ConflictExhausted, h)
               else do {
                 g \<leftarrow> call (HostGet (h_name h)) (\<lambda>tr. he_get E tr (h_name h));
                 (case g of
                    Inl e \<Rightarrow> State_Monad.return (Some (ApiFailed e), h)
                  | Inr refreshed \<Rightarrow> retain_loop E consumer previous n refreshed)
               })
        })"

definition RetainHost ::
  "host_env \<Rightarrow> TartHost option \<Rightarrow> object_reference \<Rightarrow> PreviousConsumerRef \<Rightarrow> (host_event, repo_error option \<times> TartHost option) io" where
  "RetainHost E host_opt consumer previous =
     (case host_opt of None \<Rightarrow> State_Monad.return (Some (Refused ErrInvalidRetention), None)
      | Some h \<Rightarrow>
          if h_name h = [] then State_Monad.return (Some (Refused ErrInvalidRetention), Some h)
          else do {
            (err, h') \<leftarrow> retain_loop E consumer previous claimAttempts h;
            State_Monad.return (err, Some h')
          })"

subsection \<open>What the loops share\<close>

text \<open>
  \<open>verdict\<close> is the decision on one copy of the host, \<open>edited\<close> the copy that is sent
  back. \<open>stored\<close> is the server's copy before a request: an update commits only against
  the stored version, a read returns the stored copy, and a version is never reused.
\<close>

abbreviation rv :: "TartHost \<Rightarrow> nat" where
  "rv h \<equiv> mt_resourceVersion (h_meta h)"

definition versioned :: "host_env \<Rightarrow> (host_event list \<Rightarrow> TartHost) \<Rightarrow> bool" where
  "versioned E stored \<longleftrightarrow>
     (\<forall>tr obj obj'. he_update E tr obj = Inr obj' \<longrightarrow> rv obj = rv (stored tr)) \<and>
     (\<forall>tr n obj. he_get E tr n = Inr obj \<longrightarrow> obj = stored tr) \<and>
     (\<forall>tr ext. rv (stored tr) = rv (stored (tr @ ext)) \<longrightarrow> stored tr = stored (tr @ ext))"

text \<open>A copy that was read from the server at some time up to \<open>tr\<close>.\<close>

definition coherent :: "(host_event list \<Rightarrow> TartHost) \<Rightarrow> host_event list \<Rightarrow> TartHost \<Rightarrow> bool" where
  "coherent stored tr h \<longleftrightarrow> (\<forall>ext. rv h = rv (stored (tr @ ext)) \<longrightarrow> h = stored (tr @ ext))"

definition is_update :: "host_event \<Rightarrow> bool" where
  "is_update e = (case e of HostUpdate _ \<Rightarrow> True | HostGet _ \<Rightarrow> False)"

lemma is_update_simps [simp]: "is_update (HostUpdate h)" "\<not> is_update (HostGet n)"
  by (simp_all add: is_update_def)

lemma coherent_mono: "coherent stored tr h \<Longrightarrow> coherent stored (tr @ ext) h"
  by (simp add: coherent_def)

lemma coherent_get:
  assumes "versioned E stored" "he_get E tr n = Inr h"
  shows "coherent stored (tr @ ext) h"
proof -
  from assms have "h = stored tr" unfolding versioned_def by blast
  with assms(1) show ?thesis unfolding versioned_def coherent_def by (metis append.assoc)
qed

lemma coherent_update:
  assumes "versioned E stored" "coherent stored tr h" "he_update E tr h2 = Inr h'" "rv h2 = rv h"
  shows "h = stored tr"
  using assms unfolding versioned_def coherent_def by (metis append_Nil2)

locale cas_loop =
  fixes E :: host_env
    and verdict :: "TartHost \<Rightarrow> claim_error + ClaimDecision"
    and edited :: "TartHost \<Rightarrow> TartHost"
    and loop :: "nat \<Rightarrow> TartHost \<Rightarrow> (host_event, repo_error option \<times> TartHost) io"
  assumes loop_0: "loop 0 h = State_Monad.return (Some ConflictExhausted, h)"
    and loop_refused: "verdict h = Inl e \<Longrightarrow> loop (Suc n) h = State_Monad.return (Some (Refused e), h)"
    and loop_noop: "verdict h = Inr ClaimNoop \<Longrightarrow> loop (Suc n) h = State_Monad.return (None, h)"
    and loop_apply: "verdict h = Inr ClaimApply \<Longrightarrow>
      run_state (loop (Suc n) h) tr =
        (case he_update E tr (edited h) of
           Inr stored \<Rightarrow> ((None, stored), tr @ [HostUpdate (edited h)])
         | Inl e \<Rightarrow>
             if e \<noteq> ApiConflict then ((Some (ApiFailed e), h), tr @ [HostUpdate (edited h)])
             else if n = 0 then ((Some ConflictExhausted, h), tr @ [HostUpdate (edited h)])
             else (case he_get E (tr @ [HostUpdate (edited h)]) (h_name h) of
                     Inl e \<Rightarrow> ((Some (ApiFailed e), h), tr @ [HostUpdate (edited h), HostGet (h_name h)])
                   | Inr refreshed \<Rightarrow>
                       run_state (loop n refreshed) (tr @ [HostUpdate (edited h), HostGet (h_name h)])))"
    and edited_rv: "rv (edited h) = rv h"
begin

text \<open>One induction serves every property of a run: the first iteration, then the rest.\<close>

lemma loop_cases [consumes 1, case_names none refused noop committed failed exhausted unread again]:
  assumes "run_state (loop n h) tr = ((err, h'), tr')"
  obtains "n = 0" "err = Some ConflictExhausted" "h' = h" "tr' = tr"
  | e m where "n = Suc m" "verdict h = Inl e" "err = Some (Refused e)" "h' = h" "tr' = tr"
  | m where "n = Suc m" "verdict h = Inr ClaimNoop" "err = None" "h' = h" "tr' = tr"
  | m where "n = Suc m" "verdict h = Inr ClaimApply" "he_update E tr (edited h) = Inr h'" "err = None"
      "tr' = tr @ [HostUpdate (edited h)]"
  | e m where "n = Suc m" "verdict h = Inr ClaimApply" "err = Some (ApiFailed e)" "h' = h"
      "tr' = tr @ [HostUpdate (edited h)]" "he_update E tr (edited h) = Inl e"
  | "n = 1" "verdict h = Inr ClaimApply" "err = Some ConflictExhausted" "h' = h"
      "tr' = tr @ [HostUpdate (edited h)]" "he_update E tr (edited h) = Inl ApiConflict"
  | e m where "n = Suc m" "verdict h = Inr ClaimApply" "err = Some (ApiFailed e)" "h' = h"
      "tr' = tr @ [HostUpdate (edited h), HostGet (h_name h)]" "he_update E tr (edited h) = Inl ApiConflict"
  | m r where "n = Suc m" "verdict h = Inr ClaimApply" "he_update E tr (edited h) = Inl ApiConflict"
      "he_get E (tr @ [HostUpdate (edited h)]) (h_name h) = Inr r"
      "run_state (loop m r) (tr @ [HostUpdate (edited h), HostGet (h_name h)]) = ((err, h'), tr')"
proof (cases n)
  case 0
  then show ?thesis using assms that(1) by (simp add: loop_0)
next
  case (Suc m)
  consider (l) e where "verdict h = Inl e" | (n) "verdict h = Inr ClaimNoop" | (a) "verdict h = Inr ClaimApply"
    by (metis ClaimDecision.exhaust sum.exhaust)
  then show ?thesis
  proof cases
    case (l e)
    with assms Suc have "err = Some (Refused e)" "h' = h" "tr' = tr" by (simp_all add: loop_refused)
    with that(2) Suc l show ?thesis by blast
  next
    case n
    with assms Suc have "err = None" "h' = h" "tr' = tr" by (simp_all add: loop_noop)
    with that(3) Suc n show ?thesis by blast
  next
    case a
    note run = assms[unfolded Suc loop_apply[OF a]]
    show ?thesis
    proof (cases "he_update E tr (edited h)")
      case (Inr stored)
      with run have "err = None" "h' = stored" "tr' = tr @ [HostUpdate (edited h)]" by auto
      with that(4) Suc a Inr show ?thesis by blast
    next
      case (Inl e)
      show ?thesis
      proof (cases "e = ApiConflict")
        case False
        with run Inl have "err = Some (ApiFailed e)" "h' = h" "tr' = tr @ [HostUpdate (edited h)]" by auto
        with that(5) Suc a Inl show ?thesis by blast
      next
        case conflict: True
        show ?thesis
        proof (cases "m = 0")
          case True
          with run Inl conflict have "err = Some ConflictExhausted" "h' = h" "tr' = tr @ [HostUpdate (edited h)]"
            by auto
          with that(6) Suc True a Inl conflict show ?thesis by simp
        next
          case False
          show ?thesis
          proof (cases "he_get E (tr @ [HostUpdate (edited h)]) (h_name h)")
            case (Inl e')
            with run \<open>he_update E tr (edited h) = Inl e\<close> conflict False
            have "err = Some (ApiFailed e')" "h' = h" "tr' = tr @ [HostUpdate (edited h), HostGet (h_name h)]"
              by auto
            with that(7) Suc a \<open>he_update E tr (edited h) = Inl e\<close> conflict show ?thesis by blast
          next
            case (Inr r)
            with run \<open>he_update E tr (edited h) = Inl e\<close> conflict False
            have "run_state (loop m r) (tr @ [HostUpdate (edited h), HostGet (h_name h)]) = ((err, h'), tr')"
              by simp
            with that(8) Suc a \<open>he_update E tr (edited h) = Inl e\<close> conflict Inr show ?thesis by blast
          qed
        qed
      qed
    qed
  qed
qed

lemma loop_emits:
  "run_state (loop n h) tr = ((err, h'), tr') \<Longrightarrow>
     \<exists>new. tr' = tr @ new \<and> length (filter is_update new) \<le> n \<and>
       (\<forall>k. HostUpdate k \<in> set new \<longrightarrow> (\<exists>j. verdict j = Inr ClaimApply \<and> k = edited j))"
proof (induction n arbitrary: h tr)
  case 0
  then show ?case by (auto simp: loop_0)
next
  case (Suc n)
  from Suc.prems show ?case
  proof (cases rule: loop_cases)
    case (again m r)
    with Suc.IH[of r] obtain new where
      "tr' = (tr @ [HostUpdate (edited h), HostGet (h_name h)]) @ new" "length (filter is_update new) \<le> n"
      "\<forall>k. HostUpdate k \<in> set new \<longrightarrow> (\<exists>j. verdict j = Inr ClaimApply \<and> k = edited j)" by blast
    then show ?thesis using again(2)
      by (intro exI[of _ "HostUpdate (edited h) # HostGet (h_name h) # new"]) auto
  qed (auto intro!: exI)
qed

text \<open>A run without error found nothing to do, or its last request committed a write that
  the verdict on the version it replaced had justified.\<close>

lemma loop_success:
  assumes V: "versioned E stored"
  shows "coherent stored tr h \<Longrightarrow> run_state (loop n h) tr = ((None, h'), tr') \<Longrightarrow>
    verdict h' = Inr ClaimNoop \<and> coherent stored tr' h' \<or>
    (\<exists>tr0. tr' = tr0 @ [HostUpdate (edited (stored tr0))] \<and> verdict (stored tr0) = Inr ClaimApply \<and>
       he_update E tr0 (edited (stored tr0)) = Inr h')"
proof (induction n arbitrary: h tr)
  case 0
  then show ?case by (simp add: loop_0)
next
  case (Suc n)
  from Suc.prems(2) show ?case
  proof (cases rule: loop_cases)
    case (committed m)
    then have "h = stored tr" using coherent_update[OF V Suc.prems(1)] edited_rv by blast
    with committed show ?thesis by auto
  next
    case (again m r)
    then have "coherent stored (tr @ [HostUpdate (edited h), HostGet (h_name h)]) r"
      using coherent_get[OF V, of "tr @ [HostUpdate (edited h)]" _ r "[HostGet (h_name h)]"] by simp
    with again Suc.IH show ?thesis by blast
  qed (use Suc.prems(1) in auto)
qed

text \<open>Giving up because of conflicts takes as many conflicts as there are attempts.\<close>

lemma loop_exhausted:
  "run_state (loop n h) tr = ((Some ConflictExhausted, h'), tr') \<Longrightarrow>
     \<exists>new. tr' = tr @ new \<and> length (filter is_update new) = n"
proof (induction n arbitrary: h tr)
  case 0
  then show ?case by (simp add: loop_0)
next
  case (Suc n)
  from Suc.prems show ?case
  proof (cases rule: loop_cases)
    case (again m r)
    with Suc.IH obtain new where "tr' = (tr @ [HostUpdate (edited h), HostGet (h_name h)]) @ new"
      "length (filter is_update new) = n" by blast
    then show ?thesis by (intro exI[of _ "HostUpdate (edited h) # HostGet (h_name h) # new"]) simp
  qed auto
qed

end

subsection \<open>Both operations are such loops\<close>

definition claim_verdict :: "k8s_lib \<Rightarrow> ClaimRequest \<Rightarrow> TartHost \<Rightarrow> claim_error + ClaimDecision" where
  "claim_verdict L req h =
     (case DecideClaim (h_spec h) (req_consumer req) of
        Inr ClaimApply \<Rightarrow>
          (case ValidateClaimCandidate L (Some h) req of Some e \<Rightarrow> Inl e | None \<Rightarrow> Inr ClaimApply)
      | v \<Rightarrow> v)"

lemma claim_loop_cas:
  "cas_loop E (claim_verdict L req) (set_consumer (req_consumer req)) (claim_loop L E req)"
  by unfold_locales
     (auto simp: claim_verdict_def set_consumer_def split: sum.splits ClaimDecision.splits option.splits)

interpretation claim: cas_loop E "claim_verdict L req" "set_consumer (req_consumer req)" "claim_loop L E req"
  for E L req
  by (rule claim_loop_cas)

interpretation retain: cas_loop E "\<lambda>h. DecideRetention (h_spec h) consumer previous" "set_retained previous"
    "retain_loop E consumer previous"
  for E consumer previous
  by unfold_locales
     (auto simp: set_retained_def split: sum.splits ClaimDecision.splits)

lemma claim_verdict_apply:
  "claim_verdict L req h = Inr ClaimApply \<longleftrightarrow>
     ValidConsumerReference (req_consumer req) \<and> ValidateClaimCandidate L (Some h) req = None"
  by (auto simp: claim_verdict_def DecideClaim_def split: option.splits
      dest: ValidateClaimCandidate_unclaimed)

lemma claim_verdict_noop:
  "claim_verdict L req h = Inr ClaimNoop \<longleftrightarrow>
     ValidConsumerReference (req_consumer req) \<and> hs_consumerRef (h_spec h) = Some (req_consumer req)"
  by (auto simp: claim_verdict_def DecideClaim_def split: option.splits)

end
