(* ===== verification/MachineBinding.thy ===== *)
theory MachineBinding
  imports ApiTypes
begin

section \<open>The binding between a machine and its host\<close>

text \<open>
  \<open>domain/machine\<close> and \<open>usecase/machine/binding.go\<close>: which host a machine has claimed, how
  far the deletion of the CAPI Machine has come, and whether a requested shutdown has been
  given enough time. \<open>now\<close> is \<open>time.Now()\<close>.
\<close>

datatype claim_lookup_error = ErrAmbiguousClaim

definition IsBoundTo :: "string \<Rightarrow> string \<Rightarrow> bool" where
  "IsBoundTo hostConsumerUID machineUID \<longleftrightarrow>
     hostConsumerUID \<noteq> [] \<and> machineUID \<noteq> [] \<and> hostConsumerUID = machineUID"

record HostClaimCandidate =
  cand_name :: string
  cand_consumerUID :: string

fun find_claimed :: "string \<Rightarrow> string \<Rightarrow> HostClaimCandidate list \<Rightarrow> claim_lookup_error + string" where
  "find_claimed machineUID claimed [] = Inr claimed"
| "find_claimed machineUID claimed (c # cs) =
     (if \<not> IsBoundTo (cand_consumerUID c) machineUID then find_claimed machineUID claimed cs
      else if claimed \<noteq> [] \<and> claimed \<noteq> cand_name c then Inl ErrAmbiguousClaim
      else find_claimed machineUID (cand_name c) cs)"

definition FindClaimedHostName :: "HostClaimCandidate list \<Rightarrow> string \<Rightarrow> claim_lookup_error + string" where
  "FindClaimedHostName candidates machineUID = find_claimed machineUID [] candidates"

definition consumer_uid :: "TartHost \<Rightarrow> string" where
  "consumer_uid h = (case hs_consumerRef (h_spec h) of None \<Rightarrow> [] | Some c \<Rightarrow> ref_uid c)"

definition FindClaimedHost :: "TartHost list \<Rightarrow> string \<Rightarrow> claim_lookup_error + TartHost option" where
  "FindClaimedHost hosts machineUID =
     (case FindClaimedHostName (map (\<lambda>h. \<lparr>cand_name = h_name h, cand_consumerUID = consumer_uid h\<rparr>) hosts) machineUID of
        Inl e \<Rightarrow> Inl e
      | Inr name \<Rightarrow> if name = [] then Inr None else Inr (find (\<lambda>h. h_name h = name) hosts))"

definition DrainComplete :: "bool \<Rightarrow> bool \<Rightarrow> string \<Rightarrow> string list \<Rightarrow> bool" where
  "DrainComplete hasDeletionTimestamp deletingConditionTrue reason completionReasons =
     (if \<not> hasDeletionTimestamp \<or> \<not> deletingConditionTrue then False
      else reason \<in> set completionReasons)"

definition DeletionDrainComplete :: "k8s_lib \<Rightarrow> capi_machine option \<Rightarrow> bool" where
  "DeletionDrainComplete L machine_opt =
     (case machine_opt of None \<Rightarrow> False
      | Some m \<Rightarrow>
          (let condition = lib_find_condition L (cm_conditions m) (lib_machine_deleting_condition L);
               conditionTrue = (case condition of None \<Rightarrow> False | Some c \<Rightarrow> cond_status c = ConditionTrue);
               reason = (case condition of None \<Rightarrow> [] | Some c \<Rightarrow> cond_reason c)
           in DrainComplete (mt_deletionTimestamp (cm_meta m) \<noteq> None) conditionTrue reason (lib_drain_done_reasons L)))"

definition IsProvisioned :: "TartMachine \<Rightarrow> bool" where
  "IsProvisioned machine \<longleftrightarrow> mst_provisioned (m_status machine) = Some True"

definition ShutdownRequestedReason :: string where
  "ShutdownRequestedReason = ''ShutdownRequested''"

definition IsShutdownRequested :: "string \<Rightarrow> bool" where
  "IsShutdownRequested reason \<longleftrightarrow> reason = ShutdownRequestedReason"

definition IsShutdownSettled :: "string \<Rightarrow> time \<Rightarrow> time \<Rightarrow> duration \<Rightarrow> bool" where
  "IsShutdownSettled reason transitionedAt now delay =
     (if \<not> IsShutdownRequested reason then False
      else if time_is_zero transitionedAt then False
      else delay \<le> time_sub now transitionedAt)"

definition HasShutdownRequest :: "k8s_lib \<Rightarrow> TartMachine \<Rightarrow> bool" where
  "HasShutdownRequest L machine =
     (case lib_find_condition L (mst_conditions (m_status machine)) TartMachineReadyCondition of
        None \<Rightarrow> False | Some c \<Rightarrow> IsShutdownRequested (cond_reason c))"

definition ShutdownRequestSettled :: "k8s_lib \<Rightarrow> time \<Rightarrow> TartMachine \<Rightarrow> duration \<Rightarrow> bool" where
  "ShutdownRequestSettled L now machine delay =
     (case lib_find_condition L (mst_conditions (m_status machine)) TartMachineReadyCondition of
        None \<Rightarrow> False
      | Some c \<Rightarrow> IsShutdownSettled (cond_reason c) (cond_lastTransitionTime c) now delay)"

subsection \<open>Lookup of the claimed host\<close>

lemma find_claimed_keep: "find_claimed u n cs = Inr m \<Longrightarrow> n \<noteq> [] \<Longrightarrow>
     m = n \<and> (\<forall>c \<in> set cs. IsBoundTo (cand_consumerUID c) u \<longrightarrow> cand_name c = n)"
proof (induction cs)
  case (Cons c cs)
  show ?case
  proof (cases "IsBoundTo (cand_consumerUID c) u")
    case True
    with Cons.prems have eq: "n = cand_name c" by (metis Inl_Inr_False find_claimed.simps(2))
    with True Cons.prems have "find_claimed u n cs = Inr m" by simp
    with Cons eq show ?thesis by simp
  next
    case False
    with Cons show ?thesis by simp
  qed
qed simp

lemma find_claimed_iff:
  "\<forall>c \<in> set cs. cand_name c \<noteq> [] \<Longrightarrow> find_claimed u [] cs = Inr m \<Longrightarrow>
     (if m = [] then \<forall>c \<in> set cs. \<not> IsBoundTo (cand_consumerUID c) u
      else (\<exists>c \<in> set cs. IsBoundTo (cand_consumerUID c) u \<and> cand_name c = m) \<and>
           (\<forall>c \<in> set cs. IsBoundTo (cand_consumerUID c) u \<longrightarrow> cand_name c = m))"
proof (induction cs)
  case (Cons c cs)
  show ?case
  proof (cases "IsBoundTo (cand_consumerUID c) u")
    case True
    with Cons.prems have "find_claimed u (cand_name c) cs = Inr m" "cand_name c \<noteq> []" by auto
    with find_claimed_keep[of u "cand_name c" cs m] True show ?thesis by auto
  next
    case False
    with Cons show ?thesis by (auto split: if_splits)
  qed
qed simp

lemma FindClaimedHost_ok:
  assumes "FindClaimedHost hosts u = Inr r" "\<forall>h \<in> set hosts. h_name h \<noteq> []" "inj_on h_name (set hosts)"
  shows "case r of None \<Rightarrow> \<forall>h \<in> set hosts. \<not> IsBoundTo (consumer_uid h) u
     | Some h \<Rightarrow> h \<in> set hosts \<and> IsBoundTo (consumer_uid h) u \<and>
         (\<forall>k \<in> set hosts. IsBoundTo (consumer_uid k) u \<longrightarrow> k = h)"
proof -
  let ?cs = "map (\<lambda>h. \<lparr>cand_name = h_name h, cand_consumerUID = consumer_uid h\<rparr>) hosts"
  from assms(1) obtain m where m: "find_claimed u [] ?cs = Inr m"
    and r: "r = (if m = [] then None else find (\<lambda>h. h_name h = m) hosts)"
    by (auto simp: FindClaimedHost_def FindClaimedHostName_def split: sum.splits if_splits)
  from assms(2) have "\<forall>c \<in> set ?cs. cand_name c \<noteq> []" by simp
  note facts = find_claimed_iff[OF this m]
  show ?thesis
  proof (cases "m = []")
    case True
    with facts r show ?thesis by simp
  next
    case False
    with facts obtain h where h: "h \<in> set hosts" "IsBoundTo (consumer_uid h) u" "h_name h = m" by auto
    have all: "k = h" if "k \<in> set hosts" "h_name k = m" for k
      using that h assms(3) by (auto dest: inj_onD)
    obtain k where k: "find (\<lambda>h. h_name h = m) hosts = Some k"
      using h by (cases "find (\<lambda>h. h_name h = m) hosts") (auto simp: find_None_iff)
    then have "k \<in> set hosts" "h_name k = m" by (auto simp: find_Some_iff)
    with all have kh: "k = h" by blast
    have "\<forall>k \<in> set hosts. IsBoundTo (consumer_uid k) u \<longrightarrow> h_name k = m" using facts False by simp
    with all have others: "\<forall>k \<in> set hosts. IsBoundTo (consumer_uid k) u \<longrightarrow> k = h" by blast
    have rh: "r = Some h" unfolding r k kh using False by (rule if_not_P)
    show ?thesis unfolding rh option.case using h(1,2) others by blast
  qed
qed

lemma FindClaimedHost_ambiguous:
  assumes "h \<in> set hosts" "k \<in> set hosts" "h_name h \<noteq> h_name k"
    and "IsBoundTo (consumer_uid h) u" "IsBoundTo (consumer_uid k) u" "\<forall>h \<in> set hosts. h_name h \<noteq> []"
  shows "FindClaimedHost hosts u = Inl ErrAmbiguousClaim"
proof -
  let ?cs = "map (\<lambda>h. \<lparr>cand_name = h_name h, cand_consumerUID = consumer_uid h\<rparr>) hosts"
  from assms(6) have ne: "\<forall>c \<in> set ?cs. cand_name c \<noteq> []" by simp
  show ?thesis
  proof (cases "find_claimed u [] ?cs")
    case (Inl e)
    then show ?thesis
      by (cases e) (simp add: FindClaimedHost_def FindClaimedHostName_def)
  next
    case (Inr m)
    have bound: "\<exists>c \<in> set ?cs. IsBoundTo (cand_consumerUID c) u" using assms(1,4) by auto
    with find_claimed_iff[OF ne Inr] have "\<forall>c \<in> set ?cs. IsBoundTo (cand_consumerUID c) u \<longrightarrow> cand_name c = m"
      by (metis (no_types, lifting))
    then have "\<forall>h \<in> set hosts. IsBoundTo (consumer_uid h) u \<longrightarrow> h_name h = m" by simp
    then have "h_name h = h_name k" using assms(1,2,4,5) by metis
    with assms(3) show ?thesis by blast
  qed
qed

lemma IsShutdownSettled_iff:
  "0 < delay \<Longrightarrow> delay \<le> max_int64 \<Longrightarrow>
     IsShutdownSettled reason t now delay \<longleftrightarrow> reason = ShutdownRequestedReason \<and> t \<noteq> 0 \<and> delay \<le> now - t"
  by (auto simp: IsShutdownSettled_def IsShutdownRequested_def time_is_zero_def time_sub_ge min_int64_def)

end
