(* ===== verification/SecretContracts.thy ===== *)
theory SecretContracts
  imports ApiTypes Sha256 CATrust
begin

section \<open>The Secrets and their contracts\<close>

text \<open>
  \<open>domain/controlplane/bundle.go\<close> (the secret bundle of a cluster, one Secret per
  generation) and \<open>usecase/bootstrap/secret.go\<close> (the CAPI bootstrap Secret); the recovery
  Secret of \<open>usecase/recovery\<close> is in the theory \<open>Recovery\<close>.
  Each has a function that builds the Secret and one that checks a Secret found in the
  cluster. The locale \<open>secret_contract\<close> is what the two promise each other and what the
  callers, which all get or create such a Secret, rely on.
\<close>

datatype SecretType = SecretTypeOpaque | SecretTypeCAPI | SecretTypeOther string

record Secret =
  sec_name :: string
  sec_namespace :: string
  sec_labels :: "(string, string) gomap"
  sec_type :: SecretType
  sec_immutable :: "bool option"
  sec_owners :: "owner_reference list"
  sec_data :: "(string, string) gomap"
  sec_creationTimestamp :: time
  sec_deletionTimestamp :: "time option"

datatype secret_error =
    ErrInvalidClusterIdentity | ErrInvalidBundleGeneration | ErrBundleDataIncomplete
  | ErrBundleOwnerIncomplete | ErrBundleOwnerInvalid | ErrBundleSecretInvalid
  | ErrMissingConfigSecret | ErrConfigSecretNotImmutable | ErrConfigSecretEmpty
  | ErrInvalidSecretMetadata | ErrOwnerReferenceIncomplete | ErrOwnerReferenceInvalid
  | ErrCompleteConfigurationEmpty
  | ErrSecretInvalid | ErrCertificateAuthorityMissing | ErrConfigurationEmpty | ErrConfigurationUnreadable
  | ErrClientCertificate

definition infra_group_version :: string where
  "infra_group_version = ''infrastructure.cluster.x-k8s.io/v1alpha1''"

definition bootstrap_group_version :: string where
  "bootstrap_group_version = ''bootstrap.cluster.x-k8s.io/v1alpha1''"

definition immutable :: "Secret \<Rightarrow> bool" where
  "immutable s \<longleftrightarrow> sec_immutable s = Some True"

definition zero_secret :: Secret where
  "zero_secret = \<lparr>sec_name = [], sec_namespace = [], sec_labels = [], sec_type = SecretTypeOther [],
     sec_immutable = None, sec_owners = [], sec_data = [], sec_creationTimestamp = 0,
     sec_deletionTimestamp = None\<rparr>"

subsection \<open>Building and checking\<close>

text \<open>
  \<open>build p\<close> makes the Secret of the parameters \<open>p\<close>, \<open>accepts p\<close> checks a Secret that was
  found. A Secret that was built is accepted, and only immutable Secrets are accepted: the
  API server then refuses every change of the data that was checked. \<open>get_or_create\<close> is
  what every caller does: it takes the Secret of another process over, or its own.
\<close>

definition get_or_create ::
  "Secret option \<Rightarrow> (secret_error + Secret) \<Rightarrow> (Secret \<Rightarrow> bool) \<Rightarrow> secret_error + Secret" where
  "get_or_create existing built accepts =
     (case existing of
        Some s \<Rightarrow> if accepts s then Inr s else Inl ErrSecretInvalid
      | None \<Rightarrow> built)"

locale secret_contract =
  fixes build :: "'p \<Rightarrow> secret_error + Secret" and accepts :: "'p \<Rightarrow> Secret \<Rightarrow> bool"
  assumes build_accepted: "build p = Inr s \<Longrightarrow> accepts p s"
    and accepted_immutable: "accepts p s \<Longrightarrow> immutable s"
begin

lemma built_immutable: "build p = Inr s \<Longrightarrow> immutable s"
  by (blast intro: build_accepted accepted_immutable)

text \<open>Whoever creates the Secret first, all that get or create it end with one that
  satisfies the contract.\<close>

lemma get_or_create_accepted: "get_or_create existing (build p) (accepts p) = Inr s \<Longrightarrow> accepts p s"
  by (auto simp: get_or_create_def build_accepted split: option.splits if_splits)

lemma get_or_create_again:
  "get_or_create existing (build p) (accepts p) = Inr s \<Longrightarrow>
     get_or_create (Some s) (build p) (accepts p) = Inr s"
  using get_or_create_accepted[of existing p s] by (simp add: get_or_create_def)

end

subsection \<open>The bundle of a cluster\<close>

definition ClusterNameLabel :: string where "ClusterNameLabel = ''cluster.x-k8s.io/cluster-name''"
definition ClusterIDLabel :: string where "ClusterIDLabel = ''tart.cluster.x-k8s.io/cluster-id''"
definition GenerationLabel :: string where "GenerationLabel = ''tart.cluster.x-k8s.io/secret-generation''"
definition BundleStateLabel :: string where "BundleStateLabel = ''tart.cluster.x-k8s.io/bundle-state''"
definition BundleStatePending :: string where "BundleStatePending = ''Pending''"
definition BundleStateActive :: string where "BundleStateActive = ''Active''"
definition BundleStateRetired :: string where "BundleStateRetired = ''Retired''"
definition BundleDataKey :: string where "BundleDataKey = ''bundle''"

lemmas label_defs = ClusterNameLabel_def ClusterIDLabel_def GenerationLabel_def BundleStateLabel_def
  BundleStatePending_def BundleStateActive_def BundleStateRetired_def

definition max_int32 :: int where "max_int32 = 2 ^ 31 - 1"

definition NextGeneration :: "int \<Rightarrow> secret_error + int" where
  "NextGeneration current =
     (if current < 0 \<or> current = max_int32 then Inl ErrInvalidBundleGeneration
      else if current = 0 then Inr 1 else Inr (current + 1))"

definition BundleName :: "k8s_lib \<Rightarrow> string \<Rightarrow> ClusterID \<Rightarrow> int \<Rightarrow> secret_error + string" where
  "BundleName L clusterName clusterID generation =
     (if \<not> lib_is_dns1123_subdomain L clusterName then Inl ErrInvalidClusterIdentity
      else if ClusterID_IsZero clusterID then Inl ErrInvalidClusterIdentity
      else if generation < 1 then Inl ErrInvalidBundleGeneration
      else
        (let name = clusterName @ ''-talos-secrets-'' @ ClusterID_String clusterID @ ''-g'' @ format_int generation
         in if \<not> lib_is_dns1123_subdomain L name then Inl ErrInvalidClusterIdentity else Inr name))"

definition cloneCompleteData :: "(string, string) gomap \<Rightarrow> secret_error + (string, string) gomap" where
  "cloneCompleteData data =
     (if length data = 0 then Inl ErrBundleDataIncomplete
      else if list_ex (\<lambda>(k, v). k = [] \<or> length v = 0) data then Inl ErrBundleDataIncomplete
      else Inr data)"

text \<open>\<open>None\<close> as result is the nil error.\<close>

definition ValidateBundleSecretContract ::
  "k8s_lib \<Rightarrow> Secret option \<Rightarrow> string \<Rightarrow> string \<Rightarrow> ClusterID \<Rightarrow> int \<Rightarrow> string \<Rightarrow> string \<Rightarrow> secret_error option" where
  "ValidateBundleSecretContract L secret_opt namespace clusterName clusterID generation state ownerUID =
     (case secret_opt of None \<Rightarrow> Some ErrBundleSecretInvalid
      | Some s \<Rightarrow>
          if namespace = [] \<or> sec_namespace s \<noteq> namespace then Some ErrBundleSecretInvalid
          else (case BundleName L clusterName clusterID generation of Inl _ \<Rightarrow> Some ErrBundleSecretInvalid
          | Inr expectedName \<Rightarrow>
              if sec_name s \<noteq> expectedName \<or> sec_type s \<noteq> SecretTypeOpaque \<or> \<not> immutable s
              then Some ErrBundleSecretInvalid
              else if map_get (sec_labels s) ClusterNameLabel \<noteq> clusterName \<or>
                      map_get (sec_labels s) ClusterIDLabel \<noteq> ClusterID_String clusterID \<or>
                      map_get (sec_labels s) GenerationLabel \<noteq> format_int generation \<or>
                      map_get (sec_labels s) BundleStateLabel \<noteq> state
              then Some ErrBundleSecretInvalid
              else if state \<noteq> BundleStatePending \<and> state \<noteq> BundleStateActive \<and> state \<noteq> BundleStateRetired
              then Some ErrBundleSecretInvalid
              else if \<not> is_ok (cloneCompleteData (sec_data s)) then Some ErrBundleSecretInvalid
              else (case sec_owners s of
                      [owner] \<Rightarrow>
                        if own_apiVersion owner \<noteq> infra_group_version \<or> own_kind owner \<noteq> ''TartCluster'' \<or>
                           own_name owner \<noteq> clusterName \<or> own_uid owner = [] \<or> own_controller owner \<noteq> Some True
                        then Some ErrBundleSecretInvalid
                        else if ownerUID \<noteq> [] \<and> own_uid owner \<noteq> ownerUID then Some ErrBundleSecretInvalid
                        else None
                    | _ \<Rightarrow> Some ErrBundleSecretInvalid)))"

definition buildBundleSecret ::
  "k8s_lib \<Rightarrow> string \<Rightarrow> string \<Rightarrow> ClusterID \<Rightarrow> int \<Rightarrow> string \<Rightarrow> owner_reference \<Rightarrow> (string, string) gomap \<Rightarrow> secret_error + Secret" where
  "buildBundleSecret L namespace clusterName clusterID generation state owner data =
     (case BundleName L clusterName clusterID generation of Inl e \<Rightarrow> Inl e
      | Inr name \<Rightarrow>
          if state \<noteq> BundleStatePending \<and> state \<noteq> BundleStateActive then Inl ErrBundleSecretInvalid
          else if namespace = [] \<or> own_apiVersion owner = [] \<or> own_kind owner = [] \<or> own_name owner = [] \<or> own_uid owner = []
          then Inl ErrBundleOwnerIncomplete
          else if own_apiVersion owner \<noteq> infra_group_version \<or> own_kind owner \<noteq> ''TartCluster'' \<or> own_name owner \<noteq> clusterName
          then Inl ErrBundleOwnerInvalid
          else (case cloneCompleteData data of Inl e \<Rightarrow> Inl e
          | Inr cloned \<Rightarrow>
              Inr (zero_secret\<lparr>
                sec_name := name, sec_namespace := namespace,
                sec_labels := [(ClusterNameLabel, clusterName), (ClusterIDLabel, ClusterID_String clusterID),
                               (GenerationLabel, format_int generation), (BundleStateLabel, state)],
                sec_owners := [\<lparr>own_apiVersion = own_apiVersion owner, own_kind = own_kind owner,
                                 own_name = own_name owner, own_uid = own_uid owner, own_controller = Some True\<rparr>],
                sec_type := SecretTypeOpaque, sec_immutable := Some True, sec_data := cloned\<rparr>)))"

definition BuildPendingSecret ::
  "k8s_lib \<Rightarrow> string \<Rightarrow> string \<Rightarrow> ClusterID \<Rightarrow> int \<Rightarrow> owner_reference \<Rightarrow> (string, string) gomap \<Rightarrow> secret_error + Secret" where
  "BuildPendingSecret L namespace clusterName clusterID generation owner data =
     buildBundleSecret L namespace clusterName clusterID generation BundleStatePending owner data"

definition BuildActiveSecret ::
  "k8s_lib \<Rightarrow> string \<Rightarrow> string \<Rightarrow> ClusterID \<Rightarrow> int \<Rightarrow> owner_reference \<Rightarrow> (string, string) gomap \<Rightarrow> secret_error + Secret" where
  "BuildActiveSecret L namespace clusterName clusterID generation owner data =
     buildBundleSecret L namespace clusterName clusterID generation BundleStateActive owner data"

record bundle_params =
  bp_namespace :: string
  bp_cluster :: string
  bp_clusterID :: ClusterID
  bp_generation :: int
  bp_state :: string
  bp_owner :: owner_reference
  bp_data :: "(string, string) gomap"

definition bundle_build :: "k8s_lib \<Rightarrow> bundle_params \<Rightarrow> secret_error + Secret" where
  "bundle_build L p =
     buildBundleSecret L (bp_namespace p) (bp_cluster p) (bp_clusterID p) (bp_generation p) (bp_state p) (bp_owner p) (bp_data p)"

definition bundle_accepts :: "k8s_lib \<Rightarrow> bundle_params \<Rightarrow> Secret \<Rightarrow> bool" where
  "bundle_accepts L p s \<longleftrightarrow>
     ValidateBundleSecretContract L (Some s) (bp_namespace p) (bp_cluster p) (bp_clusterID p) (bp_generation p)
       (bp_state p) (own_uid (bp_owner p)) = None"

lemma ValidateBundleSecretContract_ok:
  "ValidateBundleSecretContract L (Some s) namespace clusterName clusterID generation state ownerUID = None \<longleftrightarrow>
     namespace \<noteq> [] \<and> sec_namespace s = namespace \<and>
     BundleName L clusterName clusterID generation = Inr (sec_name s) \<and>
     sec_type s = SecretTypeOpaque \<and> immutable s \<and>
     map_get (sec_labels s) ClusterNameLabel = clusterName \<and>
     map_get (sec_labels s) ClusterIDLabel = ClusterID_String clusterID \<and>
     map_get (sec_labels s) GenerationLabel = format_int generation \<and>
     map_get (sec_labels s) BundleStateLabel = state \<and>
     state \<in> {BundleStatePending, BundleStateActive, BundleStateRetired} \<and>
     is_ok (cloneCompleteData (sec_data s)) \<and>
     (\<exists>owner. sec_owners s = [owner] \<and> own_apiVersion owner = infra_group_version \<and>
        own_kind owner = ''TartCluster'' \<and> own_name owner = clusterName \<and> own_uid owner \<noteq> [] \<and>
        own_controller owner = Some True \<and> (ownerUID = [] \<or> own_uid owner = ownerUID))"
  by (auto simp: ValidateBundleSecretContract_def split: sum.splits list.splits)

lemma buildBundleSecret_ok:
  "buildBundleSecret L namespace clusterName clusterID generation state owner data = Inr s \<Longrightarrow>
     ValidateBundleSecretContract L (Some s) namespace clusterName clusterID generation state (own_uid owner) = None \<and>
     sec_data s = data \<and> state \<noteq> BundleStateRetired"
  by (auto simp: buildBundleSecret_def ValidateBundleSecretContract_ok label_defs immutable_def
      cloneCompleteData_def zero_secret_def split: sum.splits if_splits)

interpretation bundle_secret: secret_contract "bundle_build L" "bundle_accepts L" for L
  by unfold_locales
     (auto simp: bundle_build_def bundle_accepts_def dest: buildBundleSecret_ok
       simp: ValidateBundleSecretContract_ok)

text \<open>A bundle is accepted for one cluster and one generation only.\<close>

lemma bundle_identity:
  assumes "ValidateBundleSecretContract L (Some s) ns c i g st u = None"
    and "ValidateBundleSecretContract L (Some s) ns' c' i' g' st' u' = None"
  shows "ns = ns' \<and> c = c' \<and> i = i' \<and> g = g' \<and> st = st'"
proof -
  from assms have "format_int g = format_int g'" "ClusterID_String i = ClusterID_String i'"
      "0 < g" "0 < g'"
    by (auto simp: ValidateBundleSecretContract_ok BundleName_def split: if_splits)
  then have "g = g'" "i = i'"
    by (auto simp: format_int_def ClusterID_String_inj dest!: format_uint_inj)
  with assms show ?thesis by (simp add: ValidateBundleSecretContract_ok)
qed

lemma NextGeneration_iff:
  "0 \<le> g \<Longrightarrow> g \<le> max_int32 \<Longrightarrow> NextGeneration g = Inr n \<longleftrightarrow> n = g + 1 \<and> n \<le> max_int32"
  by (auto simp: NextGeneration_def max_int32_def)

subsection \<open>The bootstrap Secret\<close>

definition BootstrapSecretKey :: string where "BootstrapSecretKey = ''value''"
definition ConfigurationPatchesKey :: string where "ConfigurationPatchesKey = ''patches''"

definition ValidateConfigSecret :: "Secret option \<Rightarrow> secret_error option" where
  "ValidateConfigSecret secret_opt =
     (case secret_opt of None \<Rightarrow> Some ErrMissingConfigSecret
      | Some s \<Rightarrow>
          if sec_immutable s = None \<or> sec_immutable s = Some False then Some ErrConfigSecretNotImmutable
          else if length (trim_space (map_get (sec_data s) ConfigurationPatchesKey)) = 0 then Some ErrConfigSecretEmpty
          else None)"

definition BuildBootstrapSecret ::
  "string \<Rightarrow> string \<Rightarrow> string \<Rightarrow> owner_reference \<Rightarrow> string \<Rightarrow> secret_error + Secret" where
  "BuildBootstrapSecret namespace name clusterName owner completeConfiguration =
     (if namespace = [] \<or> name = [] \<or> clusterName = [] then Inl ErrInvalidSecretMetadata
      else if own_apiVersion owner = [] \<or> own_kind owner = [] \<or> own_name owner = [] \<or> own_uid owner = []
      then Inl ErrOwnerReferenceIncomplete
      else if own_apiVersion owner \<noteq> bootstrap_group_version \<or> own_kind owner \<noteq> ''TartBootstrapConfig''
      then Inl ErrOwnerReferenceInvalid
      else if length (trim_space completeConfiguration) = 0 then Inl ErrCompleteConfigurationEmpty
      else Inr (zero_secret\<lparr>
             sec_name := name, sec_namespace := namespace, sec_labels := [(ClusterNameLabel, clusterName)],
             sec_owners := [owner\<lparr>own_controller := Some True\<rparr>], sec_type := SecretTypeCAPI,
             sec_immutable := Some True, sec_data := [(BootstrapSecretKey, completeConfiguration)]\<rparr>))"

definition IsContractSecret :: "Secret option \<Rightarrow> string \<Rightarrow> string \<Rightarrow> bool" where
  "IsContractSecret secret_opt clusterName ownerUID =
     (case secret_opt of None \<Rightarrow> False
      | Some s \<Rightarrow>
          if sec_type s \<noteq> SecretTypeCAPI \<or> \<not> immutable s \<or> clusterName = [] then False
          else if length (sec_data s) \<noteq> 1 \<or> length (map_get (sec_data s) BootstrapSecretKey) = 0 then False
          else if map_get (sec_labels s) ClusterNameLabel \<noteq> clusterName then False
          else (case sec_owners s of
                  [owner] \<Rightarrow>
                    if own_apiVersion owner \<noteq> bootstrap_group_version \<or> own_kind owner \<noteq> ''TartBootstrapConfig'' \<or>
                       own_name owner = [] \<or> own_uid owner = [] \<or> own_controller owner \<noteq> Some True
                    then False
                    else ownerUID = [] \<or> own_uid owner = ownerUID
                | _ \<Rightarrow> False))"

record bootstrap_params =
  bs_namespace :: string
  bs_name :: string
  bs_cluster :: string
  bs_owner :: owner_reference
  bs_configuration :: string

definition bootstrap_build :: "bootstrap_params \<Rightarrow> secret_error + Secret" where
  "bootstrap_build p =
     BuildBootstrapSecret (bs_namespace p) (bs_name p) (bs_cluster p) (bs_owner p) (bs_configuration p)"

definition bootstrap_accepts :: "bootstrap_params \<Rightarrow> Secret \<Rightarrow> bool" where
  "bootstrap_accepts p s \<longleftrightarrow> IsContractSecret (Some s) (bs_cluster p) (own_uid (bs_owner p))"

lemma BuildBootstrapSecret_ok:
  "BuildBootstrapSecret namespace name clusterName owner cfg = Inr s \<Longrightarrow>
     IsContractSecret (Some s) clusterName (own_uid owner) \<and> map_get (sec_data s) BootstrapSecretKey = cfg"
  by (cases "cfg = []")
     (auto simp: BuildBootstrapSecret_def IsContractSecret_def immutable_def zero_secret_def split: if_splits)

interpretation bootstrap_secret: secret_contract bootstrap_build bootstrap_accepts
  by unfold_locales
     (auto simp: bootstrap_build_def bootstrap_accepts_def dest: BuildBootstrapSecret_ok,
      auto simp: IsContractSecret_def split: if_splits)

end
