(* ===== verification/Recovery.thy ===== *)
theory Recovery
  imports SecretContracts
begin

section \<open>Recovery identities and the target of a reset\<close>

text \<open>
  \<open>usecase/recovery/{secret,retention,identity}.go\<close> and \<open>domain/recovery/identity.go\<close>: the
  Secret that keeps the Talos API CA of an installation, when it may be deleted, and the
  check that the node which is about to be erased is the approved host with the approved
  old installation. Talos' configuration loader and certificate generator are parameters.
\<close>

subsection \<open>The recovery Secret\<close>

definition SecretTypeLabel :: string where "SecretTypeLabel = ''tart.cluster.x-k8s.io/secret-type''"
definition SecretTypeRecovery :: string where "SecretTypeRecovery = ''talos-recovery''"
definition CACertificateKey :: string where "CACertificateKey = ''os-ca.crt''"
definition CAKeyKey :: string where "CAKeyKey = ''os-ca.key''"
definition ClusterIDKey :: string where "ClusterIDKey = ''clusterID''"
definition SecretNamePrefix :: string where "SecretNamePrefix = ''tart-talos-recovery-''"
definition ClientCertificateTTL :: duration where "ClientCertificateTTL = 10 * minute"
definition CreationGracePeriod :: duration where "CreationGracePeriod = 30 * minute"

lemmas recovery_keys = SecretTypeLabel_def SecretTypeRecovery_def CACertificateKey_def CAKeyKey_def
  ClusterIDKey_def ClusterIDLabel_def

record Material =
  mat_clusterID :: ClusterID
  mat_ca :: "pem_pair option"

definition CertificateAuthorityFingerprint :: "pem_pair option \<Rightarrow> secret_error + string" where
  "CertificateAuthorityFingerprint ca =
     (case ca of None \<Rightarrow> Inl ErrCertificateAuthorityMissing
      | Some c \<Rightarrow>
          if length (trim_space (pem_crt c)) = 0 then Inl ErrCertificateAuthorityMissing
          else Inr (hex_encode (take 8 (sha256 (trim_space (pem_crt c))))))"

definition SecretName :: "k8s_lib \<Rightarrow> ClusterID \<Rightarrow> pem_pair option \<Rightarrow> secret_error + string" where
  "SecretName L clusterID ca =
     (if ClusterID_IsZero clusterID then Inl ErrInvalidClusterIdentity
      else case CertificateAuthorityFingerprint ca of Inl e \<Rightarrow> Inl e
      | Inr fingerprint \<Rightarrow>
          (let name = SecretNamePrefix @ ClusterID_String clusterID @ ''-'' @ fingerprint
           in if \<not> lib_is_dns1123_subdomain L name then Inl ErrInvalidClusterIdentity else Inr name))"

text \<open>Of \<open>secrets.Bundle\<close>: the ID of its cluster and the CAs of the OS, of Kubernetes and
  of its aggregator, where the pointers to them are set.\<close>

record talos_bundle =
  tb_clusterID :: "string option"
  tb_os :: "pem_pair option"
  tb_k8s :: "pem_pair option"
  tb_aggregator :: "pem_pair option"

text \<open>\<open>certbuilder.DecodeBundleData\<close>; \<open>unmarshal\<close> is \<open>yaml.Unmarshal\<close> and \<open>valid\<close> is
  \<open>Bundle.Validate\<close>. \<open>None\<close> is an error.\<close>

definition DecodeBundleData ::
  "(string \<Rightarrow> 'b talos_bundle_scheme option) \<Rightarrow> ('b talos_bundle_scheme \<Rightarrow> bool) \<Rightarrow> (string, string) gomap \<Rightarrow> ClusterID \<Rightarrow>
   'b talos_bundle_scheme option" where
  "DecodeBundleData unmarshal valid data clusterID =
     (if ClusterID_IsZero clusterID then None
      else case map_of data BundleDataKey of None \<Rightarrow> None
      | Some encoded \<Rightarrow>
          if length encoded = 0 \<or> length data \<noteq> 1 then None
          else (case unmarshal encoded of None \<Rightarrow> None
          | Some bundle \<Rightarrow>
              if tb_clusterID bundle \<noteq> Some (ClusterID_String clusterID) then None
              else if \<not> valid bundle then None
              else Some bundle))"

definition MaterialFromBundle :: "talos_bundle option \<Rightarrow> secret_error + Material" where
  "MaterialFromBundle bundle =
     (case bundle of None \<Rightarrow> Inl ErrInvalidClusterIdentity
      | Some b \<Rightarrow>
          (case tb_clusterID b of None \<Rightarrow> Inl ErrInvalidClusterIdentity
           | Some cid \<Rightarrow>
               if trim_space cid = [] then Inl ErrInvalidClusterIdentity
               else (case tb_os b of None \<Rightarrow> Inl ErrCertificateAuthorityMissing
               | Some os \<Rightarrow>
                   if length (pem_crt os) = 0 \<or> length (pem_key os) = 0 then Inl ErrCertificateAuthorityMissing
                   else (case ParseClusterID cid of Inl _ \<Rightarrow> Inl ErrInvalidClusterIdentity
                         | Inr i \<Rightarrow> Inr \<lparr>mat_clusterID = i, mat_ca = Some \<lparr>pem_crt = pem_crt os, pem_key = pem_key os\<rparr>\<rparr>))))"

text \<open>\<open>load\<close> is \<open>configloader.NewFromBytes\<close> followed by \<open>DiscoveryIdentityConfig\<close>: an
  error, no identity document, or its cluster ID.\<close>

definition ObservedClusterID :: "(string \<Rightarrow> string option option) \<Rightarrow> string \<Rightarrow> secret_error + ClusterID" where
  "ObservedClusterID load configuration =
     (if length (trim_space configuration) = 0 then Inl ErrConfigurationEmpty
      else case load configuration of None \<Rightarrow> Inl ErrConfigurationUnreadable
      | Some None \<Rightarrow> Inl ErrInvalidClusterIdentity
      | Some (Some cid) \<Rightarrow>
          (case ParseClusterID cid of Inl _ \<Rightarrow> Inl ErrInvalidClusterIdentity | Inr i \<Rightarrow> Inr i))"

definition BuildRecoverySecret :: "k8s_lib \<Rightarrow> string \<Rightarrow> Material \<Rightarrow> secret_error + Secret" where
  "BuildRecoverySecret L namespace material =
     (if trim_space namespace = [] then Inl ErrSecretInvalid
      else case mat_ca material of None \<Rightarrow> Inl ErrCertificateAuthorityMissing
      | Some ca \<Rightarrow>
          if length (pem_crt ca) = 0 \<or> length (pem_key ca) = 0 then Inl ErrCertificateAuthorityMissing
          else (case SecretName L (mat_clusterID material) (mat_ca material) of Inl e \<Rightarrow> Inl e
          | Inr name \<Rightarrow>
              Inr (zero_secret\<lparr>
                sec_name := name, sec_namespace := namespace,
                sec_labels := [(ClusterIDLabel, ClusterID_String (mat_clusterID material)),
                               (SecretTypeLabel, SecretTypeRecovery)],
                sec_type := SecretTypeOpaque, sec_immutable := Some True,
                sec_data := [(ClusterIDKey, ClusterID_String (mat_clusterID material)),
                             (CACertificateKey, pem_crt ca), (CAKeyKey, pem_key ca)]\<rparr>)))"

definition IsRecoverySecret :: "Secret option \<Rightarrow> bool" where
  "IsRecoverySecret secret_opt =
     (case secret_opt of None \<Rightarrow> False
      | Some s \<Rightarrow> map_get (sec_labels s) SecretTypeLabel = SecretTypeRecovery)"

definition DecodeSecret :: "k8s_lib \<Rightarrow> Secret option \<Rightarrow> ClusterID \<Rightarrow> secret_error + Material" where
  "DecodeSecret L secret_opt expectedClusterID =
     (case secret_opt of None \<Rightarrow> Inl ErrSecretInvalid
      | Some s \<Rightarrow>
          if \<not> IsRecoverySecret (Some s) \<or> sec_type s \<noteq> SecretTypeOpaque then Inl ErrSecretInvalid
          else if \<not> immutable s then Inl ErrSecretInvalid
          else (case ParseClusterID (trim_space (map_get (sec_data s) ClusterIDKey)) of
            Inl _ \<Rightarrow> Inl ErrSecretInvalid
          | Inr parsed \<Rightarrow>
              if map_get (sec_labels s) ClusterIDLabel \<noteq> ClusterID_String parsed then Inl ErrSecretInvalid
              else if \<not> ClusterID_IsZero expectedClusterID \<and> expectedClusterID \<noteq> parsed then Inl ErrSecretInvalid
              else
                (let certificate = map_get (sec_data s) CACertificateKey; key = map_get (sec_data s) CAKeyKey
                 in if length (trim_space certificate) = 0 \<or> length (trim_space key) = 0
                    then Inl ErrCertificateAuthorityMissing
                    else
                      (let material = \<lparr>mat_clusterID = parsed, mat_ca = Some \<lparr>pem_crt = certificate, pem_key = key\<rparr>\<rparr>
                       in case SecretName L (mat_clusterID material) (mat_ca material) of Inl e \<Rightarrow> Inl e
                          | Inr expectedName \<Rightarrow>
                              if sec_name s \<noteq> expectedName then Inl ErrSecretInvalid else Inr material))))"

text \<open>\<open>generate\<close> is \<open>GenerateTalosAPIClientCertificateWithTTL\<close> for the role \<open>os:admin\<close>.\<close>

definition ClientCertificate ::
  "(pem_pair \<Rightarrow> duration \<Rightarrow> pem_pair option) \<Rightarrow> Material \<Rightarrow> duration \<Rightarrow> secret_error + pem_pair" where
  "ClientCertificate generate m ttl =
     (case mat_ca m of None \<Rightarrow> Inl ErrCertificateAuthorityMissing
      | Some ca \<Rightarrow>
          if length (pem_crt ca) = 0 \<or> length (pem_key ca) = 0 then Inl ErrCertificateAuthorityMissing
          else
            (let ttl = (if ttl \<le> 0 \<or> ttl > ClientCertificateTTL then ClientCertificateTTL else ttl)
             in case generate ca ttl of None \<Rightarrow> Inl ErrClientCertificate | Some c \<Rightarrow> Inr c))"

lemma ParseClusterID_String [simp]: "\<not> ClusterID_IsZero i \<Longrightarrow> ParseClusterID (ClusterID_String i) = Inr i"
  by (cases i) (simp add: ParseClusterID_def ClusterID_String_def ClusterID_IsZero_def)

lemma trim_ClusterID_String [simp]: "trim_space (ClusterID_String i) = ClusterID_String i"
  by (simp add: ClusterID_String_def)

lemma SecretName_nonzero: "SecretName L i ca = Inr n \<Longrightarrow> \<not> ClusterID_IsZero i"
  by (auto simp: SecretName_def)

text \<open>What a build guarantees of the material that a later decode reads back.\<close>

lemma decode_built:
  assumes "BuildRecoverySecret L namespace m = Inr s" and "mat_ca m = Some ca" and "\<not> blank (pem_key ca)"
    and "ClusterID_IsZero expected \<or> expected = mat_clusterID m"
  shows "DecodeSecret L (Some s) expected = Inr \<lparr>mat_clusterID = mat_clusterID m, mat_ca = Some \<lparr>pem_crt = pem_crt ca, pem_key = pem_key ca\<rparr>\<rparr>"
proof -
  from assms(1,2) obtain name where name: "SecretName L (mat_clusterID m) (Some ca) = Inr name"
    and s: "s = zero_secret\<lparr>
                sec_name := name, sec_namespace := namespace,
                sec_labels := [(ClusterIDLabel, ClusterID_String (mat_clusterID m)), (SecretTypeLabel, SecretTypeRecovery)],
                sec_type := SecretTypeOpaque, sec_immutable := Some True,
                sec_data := [(ClusterIDKey, ClusterID_String (mat_clusterID m)),
                             (CACertificateKey, pem_crt ca), (CAKeyKey, pem_key ca)]\<rparr>"
    by (auto simp: BuildRecoverySecret_def split: if_splits sum.splits)
  then have nz: "\<not> ClusterID_IsZero (mat_clusterID m)" by (simp add: SecretName_nonzero)
  from name have crt: "\<not> blank (pem_crt ca)" and name': "SecretName L (mat_clusterID m) (Some \<lparr>pem_crt = pem_crt ca, pem_key = pem_key ca\<rparr>) = Inr name"
    by (auto simp: SecretName_def CertificateAuthorityFingerprint_def split: if_splits)
  show ?thesis
    using assms(3,4) nz crt name' unfolding s
    by (auto simp: DecodeSecret_def IsRecoverySecret_def immutable_def recovery_keys Let_def)
qed

text \<open>What can be decoded: the identity the caller expects, kept in an immutable Secret
  whose name is determined by that identity and the CA.\<close>

lemma DecodeSecret_ok:
  "DecodeSecret L (Some s) expected = Inr m \<Longrightarrow>
     IsRecoverySecret (Some s) \<and> immutable s \<and> SecretName L (mat_clusterID m) (mat_ca m) = Inr (sec_name s) \<and>
     (ClusterID_IsZero expected \<or> mat_clusterID m = expected) \<and> \<not> ClusterID_IsZero (mat_clusterID m) \<and>
     (\<exists>ca. mat_ca m = Some ca \<and> \<not> blank (pem_crt ca) \<and> \<not> blank (pem_key ca))"
  by (auto simp: DecodeSecret_def Let_def dest: ParseClusterID_nonzero split: if_splits sum.splits)

subsection \<open>Retention\<close>

definition IsReferencedBy :: "TartHost \<Rightarrow> string \<Rightarrow> bool" where
  "IsReferencedBy h secretName =
     (case hst_currentTalosIdentityRef (h_status h) of None \<Rightarrow> False
      | Some reference \<Rightarrow>
          (let name = trim_space (tid_recoverySecretRef reference)
           in name \<noteq> [] \<and> name = trim_space secretName))"

text \<open>A nil or zero deletion timestamp is \<open>None\<close>.\<close>

definition ShouldDelete :: "Secret option \<Rightarrow> TartHost list \<Rightarrow> time \<Rightarrow> duration \<Rightarrow> bool" where
  "ShouldDelete secret_opt hosts now grace =
     (case secret_opt of None \<Rightarrow> False
      | Some s \<Rightarrow>
          if \<not> IsRecoverySecret (Some s) \<or> sec_deletionTimestamp s \<noteq> None then False
          else if trim_space (map_get (sec_labels s) ClusterIDLabel) = [] then False
          else
            (let grace = (if grace < 0 then 0 else grace); created = sec_creationTimestamp s
             in if \<not> time_is_zero created \<and> time_sub now created < grace then False
                else \<not> list_ex (\<lambda>h. IsReferencedBy h (sec_name s)) hosts))"

lemma ShouldDelete_iff:
  "ShouldDelete (Some s) hosts now grace \<longleftrightarrow>
     IsRecoverySecret (Some s) \<and> sec_deletionTimestamp s = None \<and>
     \<not> blank (map_get (sec_labels s) ClusterIDLabel) \<and>
     (sec_creationTimestamp s = 0 \<or> max 0 grace \<le> time_sub now (sec_creationTimestamp s)) \<and>
     (\<forall>h \<in> set hosts. \<not> IsReferencedBy h (sec_name s))"
  by (auto simp: ShouldDelete_def Let_def time_is_zero_def list_ex_iff)

subsection \<open>The target of a reset\<close>

datatype identity_error =
    ErrEndpointUnknown | ErrClusterIdentityMismatch | ErrHostIdentityMismatch | ErrHostIdentityUnverifiable

record ExpectedIdentity =
  exp_clusterID :: ClusterID
  exp_macAddress :: MACAddress
  exp_systemUUID :: string
  exp_endpoint :: string

record ObservedIdentity =
  obsd_clusterID :: ClusterID
  obsd_macAddresses :: "MACAddress list"
  obsd_systemUUID :: string
  obsd_endpoint :: string

definition normalizedUUID :: "string \<Rightarrow> string" where
  "normalizedUUID value =
     (let normalized = to_lower (trim_space value)
      in if normalized = ''00000000-0000-0000-0000-000000000000'' then [] else normalized)"

definition VerifyResetTarget :: "ExpectedIdentity \<Rightarrow> ObservedIdentity \<Rightarrow> identity_error option" where
  "VerifyResetTarget expected observed =
     (if ClusterID_IsZero (exp_clusterID expected) then Some ErrClusterIdentityMismatch
      else if ClusterID_IsZero (obsd_clusterID observed) \<or> obsd_clusterID observed \<noteq> exp_clusterID expected
      then Some ErrClusterIdentityMismatch
      else if trim_space (exp_endpoint expected) = [] \<or> exp_endpoint expected \<noteq> trim_space (obsd_endpoint observed)
      then Some ErrEndpointUnknown
      else if MAC_IsZero (exp_macAddress expected) \<or> exp_macAddress expected \<notin> set (obsd_macAddresses observed)
      then Some ErrHostIdentityMismatch
      else
        (let expectedUUID = normalizedUUID (exp_systemUUID expected);
             observedUUID = normalizedUUID (obsd_systemUUID observed)
         in if expectedUUID \<noteq> [] then
              (if observedUUID = [] then Some ErrHostIdentityUnverifiable
               else if observedUUID \<noteq> expectedUUID then Some ErrHostIdentityMismatch else None)
            else None))"

definition ExpectedIdentityForHost :: "TartHost option \<Rightarrow> ClusterID \<Rightarrow> string \<Rightarrow> ExpectedIdentity" where
  "ExpectedIdentityForHost host_opt clusterID endpoint =
     (let expected = \<lparr>exp_clusterID = clusterID, exp_macAddress = MAC_zero, exp_systemUUID = [],
                      exp_endpoint = trim_space endpoint\<rparr>
      in case host_opt of None \<Rightarrow> expected
         | Some h \<Rightarrow>
             expected\<lparr>exp_macAddress := hs_macAddress (h_spec h),
               exp_systemUUID := (case hst_inventory (h_status h) of None \<Rightarrow> []
                 | Some i \<Rightarrow> trim_space (inv_systemUUID i))\<rparr>)"

lemma VerifyResetTarget_iff:
  "VerifyResetTarget expected observed = None \<longleftrightarrow>
     \<not> ClusterID_IsZero (exp_clusterID expected) \<and> obsd_clusterID observed = exp_clusterID expected \<and>
     \<not> blank (exp_endpoint expected) \<and> exp_endpoint expected = trim_space (obsd_endpoint observed) \<and>
     \<not> MAC_IsZero (exp_macAddress expected) \<and> exp_macAddress expected \<in> set (obsd_macAddresses observed) \<and>
     (normalizedUUID (exp_systemUUID expected) \<noteq> [] \<longrightarrow>
        normalizedUUID (obsd_systemUUID observed) = normalizedUUID (exp_systemUUID expected))"
  by (auto simp: VerifyResetTarget_def Let_def)

end
