(* ===== verification/TalosConfig.thy ===== *)
theory TalosConfig
  imports GoStrings
begin

section \<open>Edits of a Talos machine configuration\<close>

text \<open>
  \<open>adapter/talos/configmutate.go\<close> and \<open>ValidateUpgrade\<close> of \<open>adapter/talos/client.go\<close>.
  A configuration is its bytes. Talos' loader, patcher and version tables and the semver
  package are the parameter \<open>talos_lib\<close>: \<open>tl_load\<close> is \<open>configloader.NewFromBytes\<close> with
  what the code reads of the provider, \<open>tl_patch\<close> builds a patch container, applies it and
  encodes the result.
\<close>

record talos_provider =
  tp_unattended :: bool                              \<comment> \<open>has an \<open>UnattendedInstallConfig\<close>\<close>
  tp_has_kubelet :: bool                             \<comment> \<open>\<open>provider.Has(KubeletConfig)\<close>\<close>
  tp_kubelet :: "(string \<times> string list) option"      \<comment> \<open>image and values of \<open>provider-id\<close>\<close>

datatype talos_patch =
    PatchInstallerImage string
  | PatchKubeletProviderID string string             \<comment> \<open>kubelet image, provider ID\<close>

record talos_lib =
  tl_load :: "string \<Rightarrow> talos_provider option"
  tl_patch :: "string \<Rightarrow> talos_patch \<Rightarrow> string option"
  tl_semver_valid :: "string \<Rightarrow> bool"                \<comment> \<open>\<open>semver.ParseTolerant\<close> succeeds\<close>
  tl_semver_lt :: "string \<Rightarrow> string \<Rightarrow> bool"
  tl_semver_eq :: "string \<Rightarrow> string \<Rightarrow> bool"
  tl_upgradeable :: "string \<Rightarrow> string \<Rightarrow> bool"       \<comment> \<open>desired, current; both parse as Talos versions\<close>

datatype config_error = ErrProviderIDConflict | ErrConfigurationOther

definition schematic_character :: "char \<Rightarrow> bool" where
  "schematic_character c \<longleftrightarrow>
     (let n = (of_char c :: nat)
      in 97 \<le> n \<and> n \<le> 122 \<or> 65 \<le> n \<and> n \<le> 90 \<or> 48 \<le> n \<and> n \<le> 57 \<or> c = CHR ''.'' \<or> c = CHR ''_'' \<or> c = CHR ''-'')"

definition InstallerImage :: "talos_lib \<Rightarrow> string \<Rightarrow> string \<Rightarrow> string option" where
  "InstallerImage T version0 schematicID0 =
     (let version = trim_space version0; schematicID = trim_space schematicID0
      in if version = [] then None
         else if \<not> has_prefix version ''v'' then None
         else if \<not> tl_semver_valid T version then None
         else if schematicID = [] then None
         else if \<not> list_all schematic_character schematicID then None
         else Some (''factory.talos.dev/metal-installer/'' @ schematicID @ '':'' @ version))"

definition SetInstallerImage :: "talos_lib \<Rightarrow> string \<Rightarrow> string \<Rightarrow> string \<Rightarrow> string option" where
  "SetInstallerImage T configuration version schematicID =
     (if length (trim_space configuration) = 0 then None
      else case InstallerImage T version schematicID of None \<Rightarrow> None
      | Some img \<Rightarrow>
          (case tl_load T configuration of None \<Rightarrow> None
           | Some provider \<Rightarrow>
               if \<not> tp_unattended provider then None
               else tl_patch T configuration (PatchInstallerImage img)))"

definition SetProviderID :: "talos_lib \<Rightarrow> string \<Rightarrow> string \<Rightarrow> config_error + string" where
  "SetProviderID T configuration providerID0 =
     (if length (trim_space configuration) = 0 then Inl ErrConfigurationOther
      else
        (let providerID = trim_space providerID0
         in if providerID = [] then Inl ErrConfigurationOther
            else case tl_load T configuration of None \<Rightarrow> Inl ErrConfigurationOther
            | Some provider \<Rightarrow>
                if \<not> tp_has_kubelet provider then Inl ErrConfigurationOther
                else case tp_kubelet provider of None \<Rightarrow> Inl ErrConfigurationOther
                | Some (img, values) \<Rightarrow>
                    if length values > 0 \<and> (length values \<noteq> 1 \<or> hd values \<noteq> providerID) then Inl ErrProviderIDConflict
                    else (case tl_patch T configuration (PatchKubeletProviderID img providerID) of
                            None \<Rightarrow> Inl ErrConfigurationOther
                          | Some c \<Rightarrow> Inr c)))"

text \<open>\<open>True\<close>: no error.\<close>

definition ValidateUpgrade :: "talos_lib \<Rightarrow> string \<Rightarrow> string \<Rightarrow> bool" where
  "ValidateUpgrade T current0 desired0 =
     (let current = trim_space current0; desired = trim_space desired0
      in if current = [] \<or> desired = [] then False
         else if \<not> tl_semver_valid T current then False
         else if \<not> tl_semver_valid T desired then False
         else if tl_semver_lt T desired current then False
         else if tl_semver_eq T desired current then True
         else if tl_semver_lt T current ''1.14.0'' then False
         else tl_upgradeable T desired current)"

text \<open>What a patch promises: the patched configuration loads, and has the provider ID it was
  given, everything else being as before.\<close>

definition talos_patch_law :: "talos_lib \<Rightarrow> bool" where
  "talos_patch_law T \<longleftrightarrow>
     (\<forall>c c' img pid p. tl_patch T c (PatchKubeletProviderID img pid) = Some c' \<longrightarrow> tl_load T c = Some p \<longrightarrow>
        \<not> blank c' \<and> tl_load T c' = Some (p\<lparr>tp_kubelet := Some (img, [pid])\<rparr>)) \<and>
     (\<forall>c c' img p. tl_patch T c (PatchInstallerImage img) = Some c' \<longrightarrow> tl_load T c = Some p \<longrightarrow>
        \<not> blank c' \<and> tl_load T c' = Some p)"

lemma SetProviderID_ok:
  assumes "SetProviderID T c pid = Inr c'"
  obtains p img vs where "tl_load T c = Some p" "tp_kubelet p = Some (img, vs)"
    "vs \<in> {[], [trim_space pid]}" "tl_patch T c (PatchKubeletProviderID img (trim_space pid)) = Some c'"
    "trim_space pid \<noteq> []" "tp_has_kubelet p"
proof -
  from assms obtain p img vs where
    f: "tl_load T c = Some p" "tp_has_kubelet p" "tp_kubelet p = Some (img, vs)"
      "\<not> (length vs > 0 \<and> (length vs \<noteq> 1 \<or> hd vs \<noteq> trim_space pid))" "trim_space pid \<noteq> []"
      "tl_patch T c (PatchKubeletProviderID img (trim_space pid)) = Some c'"
    by (auto simp: SetProviderID_def Let_def split: if_splits option.splits)
  from f(4) have "vs \<in> {[], [trim_space pid]}" by (cases vs) auto
  with f that show ?thesis by blast
qed

text \<open>A configuration that names another host is refused, and the ID that was set stays: the
  same ID can be set again, another one cannot.\<close>

lemma SetProviderID_stays:
  assumes "talos_patch_law T" and "SetProviderID T c pid = Inr c'"
  shows "SetProviderID T c' pid \<noteq> Inl ErrProviderIDConflict \<and>
    (\<forall>other. \<not> blank other \<longrightarrow> trim_space other \<noteq> trim_space pid \<longrightarrow> SetProviderID T c' other = Inl ErrProviderIDConflict)"
proof -
  from assms(2) obtain p img vs where "tl_load T c = Some p" "tp_has_kubelet p" "trim_space pid \<noteq> []"
    "tl_patch T c (PatchKubeletProviderID img (trim_space pid)) = Some c'"
    by (rule SetProviderID_ok)
  then have "\<not> blank c'" "tl_load T c' = Some (p\<lparr>tp_kubelet := Some (img, [trim_space pid])\<rparr>)" "tp_has_kubelet p"
    using assms(1) by (auto simp: talos_patch_law_def)
  then show ?thesis by (auto simp: SetProviderID_def Let_def split: option.splits)
qed

lemma ValidateUpgrade_no_downgrade:
  "ValidateUpgrade T current desired \<Longrightarrow> \<not> tl_semver_lt T (trim_space desired) (trim_space current)"
  by (auto simp: ValidateUpgrade_def Let_def split: if_splits)

end
