(* ===== verification/UpdatePolicy.thy ===== *)
theory UpdatePolicy
  imports ApiTypes
begin

section \<open>Whether and how a configuration change is applied\<close>

text \<open>
  \<open>domain/update\<close> and \<open>usecase/update/evaluate.go\<close>. The classifier is a parameter (its
  implementation reads Talos documents); the string types are their known values and the
  rest.
\<close>

datatype ChangeClass =
    ChangeNone | ChangeUpdatable | ChangeControlPlaneEndpoint | ChangeReprovisionRequired
  | ChangeInvariantConflict | ChangeClassOther string

datatype ApplyMode = ApplyModeUnset | ApplyModeApplyOnly | ApplyModeStagedReboot

record Decision =
  dec_class :: ChangeClass
  dec_applyMode :: ApplyMode
  dec_reason :: string

datatype update_error = ErrPolicyUnknown | ErrUnrecognizedClass ChangeClass | ErrClassifier

definition ResolveApplyMode :: "ConfigurationApplyStrategy \<Rightarrow> update_error + ApplyMode" where
  "ResolveApplyMode strategy =
     (case strategy of
        ConfigurationApplyStrategyStagedReboot \<Rightarrow> Inr ApplyModeStagedReboot
      | ConfigurationApplyStrategyApplyOnly \<Rightarrow> Inr ApplyModeApplyOnly
      | ConfigurationApplyStrategyOther s \<Rightarrow> if s = [] then Inr ApplyModeStagedReboot else Inl ErrPolicyUnknown)"

definition Decide :: "ChangeClass \<Rightarrow> string \<Rightarrow> ConfigurationApplyStrategy \<Rightarrow> update_error + Decision" where
  "Decide change_class reason strategy =
     (let resolved = (case ResolveApplyMode strategy of Inl e \<Rightarrow> Inl e
        | Inr mode \<Rightarrow> Inr \<lparr>dec_class = change_class, dec_applyMode = mode, dec_reason = reason\<rparr>)
      in case change_class of
        ChangeNone \<Rightarrow> Inr \<lparr>dec_class = ChangeNone, dec_applyMode = ApplyModeUnset, dec_reason = []\<rparr>
      | ChangeInvariantConflict \<Rightarrow> Inr \<lparr>dec_class = change_class, dec_applyMode = ApplyModeUnset, dec_reason = reason\<rparr>
      | ChangeReprovisionRequired \<Rightarrow> Inr \<lparr>dec_class = change_class, dec_applyMode = ApplyModeUnset, dec_reason = reason\<rparr>
      | ChangeUpdatable \<Rightarrow> resolved
      | ChangeControlPlaneEndpoint \<Rightarrow> resolved
      | ChangeClassOther _ \<Rightarrow> Inl (ErrUnrecognizedClass change_class))"

definition Evaluate ::
  "(string \<Rightarrow> string \<Rightarrow> (ChangeClass \<times> string) option) \<Rightarrow> ConfigurationApplyStrategy \<Rightarrow> string \<Rightarrow> string \<Rightarrow>
     update_error + Decision" where
  "Evaluate classify strategy active desired =
     (case classify active desired of None \<Rightarrow> Inl ErrClassifier
      | Some (change_class, reason) \<Rightarrow> Decide change_class reason strategy)"

text \<open>A mode to apply a change with exists only for the two classes that keep data and
  identity, and only under a known strategy.\<close>

lemma Decide_applies_iff:
  "(\<exists>d. Decide c reason strategy = Inr d \<and> dec_applyMode d = mode) \<and> mode \<noteq> ApplyModeUnset \<longleftrightarrow>
     c \<in> {ChangeUpdatable, ChangeControlPlaneEndpoint} \<and>
     (mode = ApplyModeApplyOnly \<and> strategy = ConfigurationApplyStrategyApplyOnly \<or>
      mode = ApplyModeStagedReboot \<and>
        strategy \<in> {ConfigurationApplyStrategyStagedReboot, ConfigurationApplyStrategyOther []})"
  by (cases c; cases strategy; cases mode) (auto simp: Decide_def ResolveApplyMode_def Let_def)

lemma Decide_class: "Decide c reason strategy = Inr d \<Longrightarrow> dec_class d = c"
  by (cases c) (auto simp: Decide_def Let_def split: sum.splits)

lemma Decide_other: "Decide (ChangeClassOther s) reason strategy = Inl (ErrUnrecognizedClass (ChangeClassOther s))"
  by (simp add: Decide_def Let_def)

end
