(* ===== verification/MachineEnv.thy ===== *)
theory MachineEnv
  imports ControllerCommon HostRepository MachineBinding Recovery TalosConfig UpdatePolicy
begin

section \<open>The TartMachine reconciler: environment and reports\<close>

text \<open>
  What the reconciler of \<open>controller/tartmachine\<close> does to the outside world is a trace of
  \<open>tm_event\<close>s; what it sees of it is the record \<open>tm_env\<close>, whose functions take the trace
  (and the request) and are arbitrary: they stand for the API server, the Talos nodes, the
  power backends (\<open>adapter/power\<close>, \<open>adapter/talos\<close>) and the clock. Closing a
  connection, time limits and logging are not modelled. The repository operations of
  \<open>HostRepository\<close> run inside these traces through \<open>repo_call\<close>.
\<close>

text \<open>\<open>talos.Inventory\<close>.\<close>

record Inventory =
  ti_bootID :: string
  ti_systemUUID :: uuid
  ti_architecture :: string
  ti_macAddresses :: "MACAddress list"
  ti_disks :: "DiskInventory list"
  ti_networkInterfaces :: "NetworkInterfaceInventory list"

definition HasMAC :: "Inventory \<Rightarrow> MACAddress \<Rightarrow> bool" where
  "HasMAC i expected = (if MAC_IsZero expected then False else expected \<in> set (ti_macAddresses i))"

text \<open>How a connection to a Talos endpoint is authenticated: with the credentials of a
  machine configuration, with the CA of a recovery identity, or not at all.\<close>

datatype talos_auth = AuthConfiguration string | AuthRecovery Material | AuthNone

datatype apply_mode = ApplyNoReboot | ApplyStaged

datatype talos_rpc =
    RpcInventory | RpcActiveConfiguration | RpcVersion | RpcSchematic
  | RpcEtcdMembers | RpcEtcdStatus | RpcBootTime | RpcServicesHealthy
  | RpcShutdown | RpcReset | RpcReboot | RpcApply apply_mode string | RpcUpgrade string

text \<open>\<open>talos.EtcdStatus\<close> and \<open>talos.EtcdMember\<close>.\<close>

record EtcdStatus =
  es_memberID :: "64 word"
  es_leader :: "64 word"
  es_errors :: "string list"

record EtcdMember =
  em_id :: "64 word"
  em_learner :: bool

text \<open>Of the Nodes and Pods of a workload cluster: what the code reads or writes.\<close>

record workload_node =
  nd_name :: string
  nd_providerID :: string
  nd_unschedulable :: bool
  nd_annotations :: "(string, string) gomap"
  nd_conditions :: "(string \<times> condition_status) list"
  nd_kubeletVersion :: string

record workload_pod =
  pd_namespace :: string
  pd_name :: string
  pd_deleting :: bool
  pd_annotations :: "(string, string) gomap"
  pd_owner_kinds :: "string list"

text \<open>\<open>coordinationv1.Lease\<close>; \<open>ls_renewTime\<close> with the zero time is \<open>Some 0\<close>.\<close>

record Lease =
  ls_name :: string
  ls_namespace :: string
  ls_holderIdentity :: "string option"
  ls_durationSeconds :: "int option"
  ls_renewTime :: "time option"

datatype tm_event =
    MachineStatusPatch TartMachine
  | MachinePatch TartMachine
  | HostStatusPatch TartHost
  | CapiMachinePatch capi_machine
  | SecretCreate Secret
  | HostRepo host_event
  | Dial string talos_auth           \<comment> \<open>endpoint\<close>
  | Rpc string talos_auth talos_rpc
  | NodeUpdate string workload_node     \<comment> \<open>kubeconfig of the workload cluster\<close>
  | PodEvict string string string         \<comment> \<open>kubeconfig, namespace, name\<close>
  | PodGet string string string
  | LeaseCreate Lease
  | LeasePatch Lease
  | Tick                                  \<comment> \<open>the wait of a polling loop\<close>
  | PowerOffRequest TartHost
  | PowerStateRequest TartHost

datatype dial_error = DialInvalid \<comment> \<open>\<open>ErrTalosConfigurationInvalid\<close>, \<open>ErrEndpointEmpty\<close>\<close> | DialFailed

datatype rpc_error = RpcUnavailable | RpcFailed

datatype PowerState = PowerStateOn | PowerStateOff | PowerStateUnknown

record tm_env =
  te_now :: "tm_event list \<Rightarrow> time"
  te_list_hosts :: "tm_event list \<Rightarrow> api_error + TartHost list"
  te_get_host :: "tm_event list \<Rightarrow> string \<Rightarrow> api_error + TartHost"
  te_get_capi_machine :: "tm_event list \<Rightarrow> string \<Rightarrow> string \<Rightarrow> api_error + capi_machine"
  te_list_capi_machines :: "tm_event list \<Rightarrow> string \<Rightarrow> api_error + capi_machine list"
  te_get_cluster :: "tm_event list \<Rightarrow> string \<Rightarrow> string \<Rightarrow> api_error + capi_cluster"
  te_get_tart_cluster :: "tm_event list \<Rightarrow> string \<Rightarrow> string \<Rightarrow> api_error + TartCluster"
  te_get_tart_machine :: "tm_event list \<Rightarrow> string \<Rightarrow> string \<Rightarrow> api_error + TartMachine"
  te_get_bootstrap_config :: "tm_event list \<Rightarrow> string \<Rightarrow> string \<Rightarrow> api_error + TartBootstrapConfig"
  te_get_secret :: "tm_event list \<Rightarrow> string \<Rightarrow> string \<Rightarrow> api_error + Secret"
  te_write :: "tm_event list \<Rightarrow> tm_event \<Rightarrow> api_error option"     \<comment> \<open>of a patch or create\<close>
  te_host_update :: "tm_event list \<Rightarrow> TartHost \<Rightarrow> api_error + TartHost"
  te_host_get :: "tm_event list \<Rightarrow> string \<Rightarrow> api_error + TartHost"
  te_dial :: "tm_event list \<Rightarrow> tm_event \<Rightarrow> dial_error option"
  te_rpc :: "tm_event list \<Rightarrow> tm_event \<Rightarrow> rpc_error option"
  te_inventory :: "tm_event list \<Rightarrow> tm_event \<Rightarrow> rpc_error + Inventory"
  te_text :: "tm_event list \<Rightarrow> tm_event \<Rightarrow> rpc_error + string"   \<comment> \<open>configuration, version, schematic\<close>
  te_power_state :: "tm_event list \<Rightarrow> tm_event \<Rightarrow> unit + PowerState"
  te_power_off :: "tm_event list \<Rightarrow> tm_event \<Rightarrow> bool"
  te_ctx_done :: "tm_event list \<Rightarrow> bool"                     \<comment> \<open>a deadline has passed\<close>
  te_etcd_members :: "tm_event list \<Rightarrow> tm_event \<Rightarrow> rpc_error + EtcdMember list"
  te_etcd_status :: "tm_event list \<Rightarrow> tm_event \<Rightarrow> rpc_error + EtcdStatus"
  te_boot_time :: "tm_event list \<Rightarrow> tm_event \<Rightarrow> rpc_error + 64 word"
  te_kubeconfig_valid :: "string \<Rightarrow> bool"
  te_list_nodes :: "tm_event list \<Rightarrow> string \<Rightarrow> api_error + workload_node list"
  te_list_pods :: "tm_event list \<Rightarrow> string \<Rightarrow> string \<Rightarrow> api_error + workload_pod list"  \<comment> \<open>of a node\<close>
  te_get_lease :: "tm_event list \<Rightarrow> string \<Rightarrow> string \<Rightarrow> api_error + Lease"
  te_talos :: talos_lib
  te_control_plane_endpoint :: "string \<Rightarrow> string option"     \<comment> \<open>\<open>configbuilder.ControlPlaneEndpoint\<close>\<close>
  te_configuration_digest :: "string \<Rightarrow> string option"       \<comment> \<open>\<open>configbuilder.DigestEffectiveConfiguration\<close>\<close>
  te_configuration_valid :: "string \<Rightarrow> bool"                \<comment> \<open>\<open>configbuilder.ValidateMachineConfiguration\<close>\<close>
  te_classify_change :: "string \<Rightarrow> string \<Rightarrow> (ChangeClass \<times> string) option"
                                                          \<comment> \<open>\<open>configbuilder.ClassifyConfigurationChange\<close>\<close>
  te_parse_ip :: "string \<Rightarrow> bool"                           \<comment> \<open>\<open>net.ParseIP\<close> succeeds\<close>
  te_load_cluster_id :: "string \<Rightarrow> string option option"      \<comment> \<open>see \<open>ObservedClusterID\<close>\<close>
  te_decode_bundle :: "string \<Rightarrow> talos_bundle option"     \<comment> \<open>\<open>yaml.Unmarshal\<close> of a \<open>secrets.Bundle\<close>\<close>
  te_bundle_valid :: "talos_bundle \<Rightarrow> bool"               \<comment> \<open>\<open>Bundle.Validate\<close>\<close>

type_synonym 'a tm = "(tm_event, 'a) io"

definition api_write :: "tm_env \<Rightarrow> tm_event \<Rightarrow> api_error option tm" where
  "api_write E e = call e (\<lambda>tr. te_write E tr e)"

definition dial :: "tm_env \<Rightarrow> string \<Rightarrow> talos_auth \<Rightarrow> dial_error option tm" where
  "dial E endpoint auth = call (Dial endpoint auth) (\<lambda>tr. te_dial E tr (Dial endpoint auth))"

definition rpc :: "tm_env \<Rightarrow> string \<Rightarrow> talos_auth \<Rightarrow> talos_rpc \<Rightarrow> rpc_error option tm" where
  "rpc E endpoint auth r = call (Rpc endpoint auth r) (\<lambda>tr. te_rpc E tr (Rpc endpoint auth r))"

definition rpc_inventory :: "tm_env \<Rightarrow> string \<Rightarrow> talos_auth \<Rightarrow> (rpc_error + Inventory) tm" where
  "rpc_inventory E endpoint auth =
     call (Rpc endpoint auth RpcInventory) (\<lambda>tr. te_inventory E tr (Rpc endpoint auth RpcInventory))"

definition rpc_text :: "tm_env \<Rightarrow> string \<Rightarrow> talos_auth \<Rightarrow> talos_rpc \<Rightarrow> (rpc_error + string) tm" where
  "rpc_text E endpoint auth r = call (Rpc endpoint auth r) (\<lambda>tr. te_text E tr (Rpc endpoint auth r))"

text \<open>The repository's requests, as events of this trace.\<close>

definition repo_env :: "tm_env \<Rightarrow> tm_event list \<Rightarrow> host_env" where
  "repo_env E tr =
     \<lparr>he_update = (\<lambda>htr h. te_host_update E (tr @ map HostRepo htr) h),
      he_get = (\<lambda>htr n. te_host_get E (tr @ map HostRepo htr) n)\<rparr>"

definition repo_call :: "tm_env \<Rightarrow> (host_env \<Rightarrow> (host_event, 'a) io) \<Rightarrow> 'a tm" where
  "repo_call E m =
     State (\<lambda>tr. case run_state (m (repo_env E tr)) [] of (x, htr) \<Rightarrow> (x, tr @ map HostRepo htr))"

subsection \<open>Results and reports\<close>

datatype recon_error =
    ReconApi api_error | ReconCapi capi_error | ReconRepo repo_error | ReconBootstrapConfiguration
  | ReconClaimUnresolved

text \<open>\<open>ctrl.Result\<close> is its \<open>RequeueAfter\<close>; 0 asks for none.\<close>

type_synonym recon_result = "duration \<times> recon_error option"

definition requeue_30s :: duration where "requeue_30s = 30 * second"

definition set_machine_condition ::
  "k8s_lib \<Rightarrow> time \<Rightarrow> string \<Rightarrow> condition_status \<Rightarrow> string \<Rightarrow> string \<Rightarrow> TartMachine \<Rightarrow> TartMachine" where
  "set_machine_condition L now t st reason message machine =
     machine\<lparr>m_status := (m_status machine)\<lparr>mst_conditions :=
       SetCondition L now (mst_conditions (m_status machine)) t st reason message (mt_generation (m_meta machine))\<rparr>\<rparr>"

definition set_observed_generation :: "TartMachine \<Rightarrow> TartMachine" where
  "set_observed_generation machine =
     machine\<lparr>m_status := (m_status machine)\<lparr>mst_observedGeneration := mt_generation (m_meta machine)\<rparr>\<rparr>"

definition report ::
  "k8s_lib \<Rightarrow> tm_env \<Rightarrow> TartMachine \<Rightarrow> string \<Rightarrow> string \<Rightarrow> recon_error option tm" where
  "report L E machine reason message = do {
     now \<leftarrow> query (te_now E);
     let machine = set_observed_generation
       (set_machine_condition L now TartMachineReadyCondition ConditionFalse reason message machine);
     r \<leftarrow> api_write E (MachineStatusPatch machine);
     State_Monad.return (map_option ReconApi r)
   }"

definition reportAndRequeue ::
  "k8s_lib \<Rightarrow> tm_env \<Rightarrow> TartMachine \<Rightarrow> string \<Rightarrow> string \<Rightarrow> duration \<Rightarrow> recon_result tm" where
  "reportAndRequeue L E machine reason message after = do {
     err \<leftarrow> report L E machine reason message;
     State_Monad.return (after, err)
   }"

subsection \<open>Reading the CAPI Machine and the bootstrap configuration\<close>

definition find_capi_machine :: "k8s_lib \<Rightarrow> tm_env \<Rightarrow> TartMachine \<Rightarrow> (capi_error + capi_machine) tm" where
  "find_capi_machine L E machine =
     query (\<lambda>tr. FindCAPIMachineForInfrastructure L
       (te_get_capi_machine E tr (mt_namespace (m_meta machine)))
       (te_list_capi_machines E tr (mt_namespace (m_meta machine))) (m_meta machine))"

datatype boot_error = ErrBootstrapDataUnavailable | BootOther recon_error

definition BootstrapConfiguration :: "k8s_lib \<Rightarrow> tm_env \<Rightarrow> TartMachine \<Rightarrow> (boot_error + string) tm" where
  "BootstrapConfiguration L E machine = do {
     found \<leftarrow> find_capi_machine L E machine;
     (case found of
        Inl ErrCAPIMachineUnavailable \<Rightarrow> State_Monad.return (Inl ErrBootstrapDataUnavailable)
      | Inl e \<Rightarrow> State_Monad.return (Inl (BootOther (ReconCapi e)))
      | Inr clusterMachine \<Rightarrow>
          (let ref = cm_configRef clusterMachine; ns = mt_namespace (m_meta machine)
           in if cr_name ref = [] \<or> cr_kind ref \<noteq> TartBootstrapConfigKind \<or> cr_apiGroup ref \<noteq> bootstrap_group
              then State_Monad.return (Inl ErrBootstrapDataUnavailable)
              else do {
                config_result \<leftarrow> query (\<lambda>tr. te_get_bootstrap_config E tr ns (cr_name ref));
                (case config_result of
                   Inl ApiNotFound \<Rightarrow> State_Monad.return (Inl ErrBootstrapDataUnavailable)
                 | Inl e \<Rightarrow> State_Monad.return (Inl (BootOther (ReconApi e)))
                 | Inr config \<Rightarrow>
                     if trim_space (bcst_dataSecretName (bc_status config)) = []
                     then State_Monad.return (Inl ErrBootstrapDataUnavailable)
                     else do {
                       secret_result \<leftarrow> query (\<lambda>tr. te_get_secret E tr ns (bcst_dataSecretName (bc_status config)));
                       (case secret_result of
                          Inl ApiNotFound \<Rightarrow> State_Monad.return (Inl ErrBootstrapDataUnavailable)
                        | Inl e \<Rightarrow> State_Monad.return (Inl (BootOther (ReconApi e)))
                        | Inr secret \<Rightarrow>
                            if \<not> IsContractSecret (Some secret) (map_get (mt_labels (bc_meta config)) ClusterNameLabel)
                                   (mt_uid (bc_meta config))
                            then State_Monad.return (Inl ErrBootstrapDataUnavailable)
                            else (case map_of (sec_data secret) BootstrapSecretKey of
                                    None \<Rightarrow> State_Monad.return (Inl ErrBootstrapDataUnavailable)
                                  | Some configuration \<Rightarrow>
                                      if length (trim_space configuration) = 0
                                      then State_Monad.return (Inl ErrBootstrapDataUnavailable)
                                      else if \<not> ProviderID_IsZero (ms_providerID (m_spec machine))
                                      then (case SetProviderID (te_talos E) configuration (ProviderID_String (ms_providerID (m_spec machine))) of
                                              Inl _ \<Rightarrow> State_Monad.return (Inl (BootOther ReconBootstrapConfiguration))
                                            | Inr c \<Rightarrow> State_Monad.return (Inr c))
                                      else State_Monad.return (Inr configuration)))
                     })
              }))
   }"

lemma emits_api_write [emit_rules]: "e \<in> S \<Longrightarrow> emits (api_write E e) S"
  by (simp add: api_write_def emits_call)

lemma emits_dial [emit_rules]: "Dial ep a \<in> S \<Longrightarrow> emits (dial E ep a) S"
  by (simp add: dial_def emits_call)

lemma emits_rpc [emit_rules]: "Rpc ep a r \<in> S \<Longrightarrow> emits (rpc E ep a r) S"
  by (simp add: rpc_def emits_call)

lemma emits_rpc_inventory [emit_rules]: "Rpc ep a RpcInventory \<in> S \<Longrightarrow> emits (rpc_inventory E ep a) S"
  by (simp add: rpc_inventory_def emits_call)

lemma emits_rpc_text [emit_rules]: "Rpc ep a r \<in> S \<Longrightarrow> emits (rpc_text E ep a r) S"
  by (simp add: rpc_text_def emits_call)

lemma emits_repo_call [emit_rules]: "range HostRepo \<subseteq> S \<Longrightarrow> emits (repo_call E m) S"
  by (auto simp: emits_def repo_call_def split: prod.splits)

lemma emits_report [emit_rules]: "range MachineStatusPatch \<subseteq> S \<Longrightarrow> emits (report L E machine r msg) S"
  unfolding report_def Let_def by (intro emit_rules) auto

lemma emits_reportAndRequeue [emit_rules]:
  "range MachineStatusPatch \<subseteq> S \<Longrightarrow> emits (reportAndRequeue L E machine r msg d) S"
  unfolding reportAndRequeue_def by (intro emit_rules)

lemma emits_find_capi_machine [emit_rules]: "emits (find_capi_machine L E machine) S"
  unfolding find_capi_machine_def by (intro emit_rules)

lemma emits_case_api [emit_rules]:
  "(e = ApiNotFound \<Longrightarrow> emits m S) \<Longrightarrow> (\<And>x. emits n S) \<Longrightarrow>
     emits (case e of ApiNotFound \<Rightarrow> m | _ \<Rightarrow> n) S"
  by (cases e) simp_all

text \<open>Reading the bootstrap configuration changes nothing.\<close>

lemma BootstrapConfiguration_reads: "\<exists>r. run_state (BootstrapConfiguration L E machine) tr = (r, tr)"
  unfolding BootstrapConfiguration_def find_capi_machine_def
  by (auto simp: Let_def split: sum.splits capi_error.splits api_error.splits option.splits)

lemma emits_BootstrapConfiguration [emit_rules]: "emits (BootstrapConfiguration L E machine) S"
  unfolding emits_def using BootstrapConfiguration_reads[of L E machine] by (metis append_Nil2 empty_set empty_subsetI snd_conv)

end
