(* ===== verification/MachineReprovision.thy ===== *)
theory MachineReprovision
  imports MachineEnv HostClaims
begin

section \<open>Reprovisioning a retained host\<close>

text \<open>
  \<open>controller/tartmachine/reprovision.go\<close> and the status reports of
  \<open>talos_reconcile.go\<close>: the binding of a host to the recovery identity of its Talos
  installation, and the reset of the old installation of a host whose reuse was approved
  with mode \<open>Reprovision\<close>. The mutated \<open>*TartHost\<close> is returned.
\<close>

subsection \<open>Status reports\<close>

definition provisioned_status :: "condition_status \<Rightarrow> TartMachine \<Rightarrow> TartMachine" where
  "provisioned_status st machine =
     (if st = ConditionTrue
      then machine\<lparr>m_status := (m_status machine)\<lparr>mst_provisioned := Some True\<rparr>\<rparr> else machine)"

definition observed_image :: "string \<Rightarrow> string \<Rightarrow> TartMachine \<Rightarrow> TartMachine" where
  "observed_image talosVersion talosSchematicID machine =
     machine\<lparr>m_status := (m_status machine)\<lparr>
       mst_talosVersion := (if talosVersion \<noteq> [] then talosVersion else mst_talosVersion (m_status machine)),
       mst_talosSchematicID := (if talosSchematicID \<noteq> [] then talosSchematicID else mst_talosSchematicID (m_status machine))\<rparr>\<rparr>"

text \<open>A condition to report: status, reason and message.\<close>

type_synonym verdict = "condition_status \<times> string \<times> string"

definition put_condition :: "k8s_lib \<Rightarrow> time \<Rightarrow> string \<Rightarrow> verdict \<Rightarrow> TartMachine \<Rightarrow> TartMachine" where
  "put_condition L now t v machine =
     (case v of (st, reason, message) \<Rightarrow> set_machine_condition L now t st reason message machine)"

definition reportTalosStatusWithVersion ::
  "k8s_lib \<Rightarrow> tm_env \<Rightarrow> TartMachine \<Rightarrow> string \<Rightarrow> string \<Rightarrow> verdict \<Rightarrow> verdict \<Rightarrow> verdict \<Rightarrow> verdict \<Rightarrow> duration \<Rightarrow> recon_result tm" where
  "reportTalosStatusWithVersion L E machine talosVersion talosSchematicID reachable provisioned upToDate ready requeueAfter = do {
     now \<leftarrow> query (te_now E);
     let machine = set_observed_generation
       (put_condition L now ''Ready'' ready
         (put_condition L now ''TalosUpToDate'' upToDate
           (put_condition L now ''Provisioned'' provisioned
             (put_condition L now ''TalosReachable'' reachable
               (provisioned_status (fst provisioned) (observed_image talosVersion talosSchematicID machine))))));
     err \<leftarrow> api_write E (MachineStatusPatch machine);
     State_Monad.return (case err of Some e \<Rightarrow> (0, Some (ReconApi e)) | None \<Rightarrow> (requeueAfter, None))
   }"

definition reportTalosStatus ::
  "k8s_lib \<Rightarrow> tm_env \<Rightarrow> TartMachine \<Rightarrow> verdict \<Rightarrow> verdict \<Rightarrow> string \<times> string \<Rightarrow> string \<times> string \<Rightarrow> duration \<Rightarrow> recon_result tm" where
  "reportTalosStatus L E machine reachable provisioned upToDate ready requeueAfter =
     reportTalosStatusWithVersion L E machine [] [] reachable provisioned
       (ConditionFalse, upToDate) (ConditionFalse, ready) requeueAfter"

lemma emits_reportTalosStatusWithVersion [emit_rules]:
  "range MachineStatusPatch \<subseteq> S \<Longrightarrow> emits (reportTalosStatusWithVersion L E machine v sid a b c d q) S"
  unfolding reportTalosStatusWithVersion_def Let_def by (intro emit_rules) auto

lemma emits_reportTalosStatus [emit_rules]:
  "range MachineStatusPatch \<subseteq> S \<Longrightarrow> emits (reportTalosStatus L E machine a b c d q) S"
  unfolding reportTalosStatus_def by (intro emit_rules)

subsection \<open>The bundle of the machine's cluster\<close>

text \<open>\<open>ns\<close> is the reconciler's management namespace. \<open>None\<close> is any error.\<close>

definition activeSecretsBundle :: "k8s_lib \<Rightarrow> tm_env \<Rightarrow> TartMachine \<Rightarrow> talos_bundle option tm" where
  "activeSecretsBundle L E machine = do {
     found \<leftarrow> find_capi_machine L E machine;
     (case found of
        Inl _ \<Rightarrow> State_Monad.return None
      | Inr capiMachine \<Rightarrow> do {
          cluster \<leftarrow> query (\<lambda>tr. te_get_cluster E tr (mt_namespace (cm_meta capiMachine)) (cm_clusterName capiMachine));
          (case cluster of
             Inl _ \<Rightarrow> State_Monad.return None
           | Inr c \<Rightarrow>
               (let ref = cl_infrastructureRef c
                in if cr_apiGroup ref \<noteq> infra_group \<or> cr_kind ref \<noteq> TartClusterKind \<or> cr_name ref = []
                   then State_Monad.return None
                   else do {
                     tart \<leftarrow> query (\<lambda>tr. te_get_tart_cluster E tr (mt_namespace (cl_meta c)) (cr_name ref));
                     (case tart of
                        Inl _ \<Rightarrow> State_Monad.return None
                      | Inr t \<Rightarrow>
                          (let generation = cst_activeSecretGeneration (tc_status t);
                               clusterID = cs_clusterID (tc_spec t);
                               name = mt_name (tc_meta t); namespace = mt_namespace (tc_meta t)
                           in if generation < 1 then State_Monad.return None
                              else (case BundleName L name clusterID generation of
                                      Inl _ \<Rightarrow> State_Monad.return None
                                    | Inr secretName \<Rightarrow> do {
                                        secret \<leftarrow> query (\<lambda>tr. te_get_secret E tr namespace secretName);
                                        State_Monad.return
                                          (case secret of
                                             Inl _ \<Rightarrow> None
                                           | Inr s \<Rightarrow>
                                               if ValidateBundleSecretContract L (Some s) namespace name clusterID generation
                                                    BundleStateActive (mt_uid (tc_meta t)) \<noteq> None
                                               then None else DecodeBundleData (te_decode_bundle E) (te_bundle_valid E) (sec_data s) clusterID)
                                      })))
                   }))
        })
   }"

subsection \<open>Binding a host to its recovery identity\<close>

definition shouldRebindTalosIdentity :: "TalosIdentityReference option \<Rightarrow> ClusterID \<Rightarrow> string \<Rightarrow> bool" where
  "shouldRebindTalosIdentity current clusterID secretName =
     (case current of None \<Rightarrow> True
      | Some c \<Rightarrow> if tid_clusterID c \<noteq> clusterID then False else tid_recoverySecretRef c \<noteq> secretName)"

definition bind_identity :: "TalosIdentityReference option \<Rightarrow> TartHost \<Rightarrow> TartHost" where
  "bind_identity i h = h\<lparr>h_status := (h_status h)\<lparr>hst_currentTalosIdentityRef := i\<rparr>\<rparr>"

text \<open>Whether there was an error, and the host afterwards.\<close>

definition ensureTalosIdentityBinding ::
  "k8s_lib \<Rightarrow> tm_env \<Rightarrow> string \<Rightarrow> TartMachine \<Rightarrow> TartHost \<Rightarrow> (bool \<times> TartHost) tm" where
  "ensureTalosIdentityBinding L E ns machine selected =
     (if ns = [] then State_Monad.return (True, selected)
      else do {
        let current = hst_currentTalosIdentityRef (h_status selected);
        bundle \<leftarrow> activeSecretsBundle L E machine;
        (case bundle of
           None \<Rightarrow> State_Monad.return (current = None, selected)
         | Some b \<Rightarrow>
             (case MaterialFromBundle (Some b) of
                Inl _ \<Rightarrow> State_Monad.return (True, selected)
              | Inr material \<Rightarrow>
                  (case BuildRecoverySecret L ns material of
                     Inl _ \<Rightarrow> State_Monad.return (True, selected)
                   | Inr secret \<Rightarrow>
                       if \<not> shouldRebindTalosIdentity current (mat_clusterID material) (sec_name secret)
                       then State_Monad.return (False, selected)
                       else do {
                         created \<leftarrow> api_write E (SecretCreate secret);
                         (if created \<noteq> None \<and> created \<noteq> Some ApiAlreadyExists
                          then State_Monad.return (True, selected)
                          else do {
                            now \<leftarrow> query (te_now E);
                            let selected = bind_identity (Some \<lparr>tid_clusterID = mat_clusterID material,
                              tid_recoverySecretRef = sec_name secret, tid_boundAt = now\<rparr>) selected;
                            err \<leftarrow> api_write E (HostStatusPatch selected);
                            State_Monad.return (err \<noteq> None, selected)
                          })
                       })))
      })"

subsection \<open>The reset\<close>

definition ReasonReprovisioning :: string where "ReasonReprovisioning = ''Reprovisioning''"
definition ReasonIdentityConflict :: string where "ReasonIdentityConflict = ''IdentityConflict''"
definition ReasonRecoveryIdentityUnavailable :: string where
  "ReasonRecoveryIdentityUnavailable = ''RecoveryIdentityUnavailable''"

definition recoveryMaterial :: "k8s_lib \<Rightarrow> tm_env \<Rightarrow> string \<Rightarrow> TalosIdentityReference \<Rightarrow> Material option tm" where
  "recoveryMaterial L E ns identity =
     (if ns = [] \<or> tid_recoverySecretRef identity = [] then State_Monad.return None
      else do {
        secret \<leftarrow> query (\<lambda>tr. te_get_secret E tr ns (tid_recoverySecretRef identity));
        State_Monad.return
          (case secret of Inl _ \<Rightarrow> None
           | Inr s \<Rightarrow> (case DecodeSecret L (Some s) (tid_clusterID identity) of Inl _ \<Rightarrow> None | Inr m \<Rightarrow> Some m))
      })"

definition observeResetTarget :: "tm_env \<Rightarrow> string \<Rightarrow> talos_auth \<Rightarrow> ObservedIdentity option tm" where
  "observeResetTarget E endpoint auth = do {
     configuration \<leftarrow> rpc_text E endpoint auth RpcActiveConfiguration;
     (case configuration of
        Inl _ \<Rightarrow> State_Monad.return None
      | Inr c \<Rightarrow>
          (case ObservedClusterID (te_load_cluster_id E) c of
             Inl _ \<Rightarrow> State_Monad.return None
           | Inr clusterID \<Rightarrow> do {
               inventory \<leftarrow> rpc_inventory E endpoint auth;
               State_Monad.return
                 (case inventory of
                    Inl _ \<Rightarrow> None
                  | Inr i \<Rightarrow> Some \<lparr>obsd_clusterID = clusterID, obsd_macAddresses = ti_macAddresses i,
                                   obsd_systemUUID = uuid_string (ti_systemUUID i), obsd_endpoint = endpoint\<rparr>)
             }))
   }"

text \<open>\<open>Some r\<close>: the reconciliation ends with \<open>r\<close> (\<open>handled\<close>); \<open>None\<close>: it goes on.\<close>

definition confirmReprovisionCompleted ::
  "k8s_lib \<Rightarrow> tm_env \<Rightarrow> TartMachine \<Rightarrow> TartHost \<Rightarrow> string \<Rightarrow> (((duration \<times> recon_error option) option) \<times> TartHost) tm" where
  "confirmReprovisionCompleted L E machine selected endpoint = do {
     err \<leftarrow> dial E endpoint AuthNone;
     (case err of
        Some _ \<Rightarrow> do {
          r \<leftarrow> reportTalosStatus L E machine
            (ConditionFalse, ReasonReprovisioning, ''Neither the previous Talos installation nor the maintenance API is reachable.'')
            (ConditionFalse, ReasonReprovisioning, ''Reprovision is waiting for the Host to return to maintenance mode.'')
            (ReasonReprovisioning, ''Talos version cannot be verified before the Host returns to maintenance mode.'')
            (ReasonReprovisioning, ''The Host has not returned to maintenance mode yet.'') requeue_30s;
          State_Monad.return (Some r, selected)
        }
      | None \<Rightarrow> do {
          inventory \<leftarrow> rpc_inventory E endpoint AuthNone;
          (if (case inventory of Inl _ \<Rightarrow> True | Inr i \<Rightarrow> \<not> HasMAC i (hs_macAddress (h_spec selected)))
           then do {
             let reason = (if is_ok inventory then ReasonIdentityConflict else ReasonReprovisioning);
             let message = (if is_ok inventory
               then ''The maintenance endpoint reports a different Host identity than the Reprovision target.''
               else ''The maintenance identity of the reset Host could not be observed.'');
             r \<leftarrow> reportTalosStatus L E machine
               (ConditionFalse, reason, message)
               (ConditionFalse, reason, ''Reprovision is stopped until the reset Host identity is confirmed.'')
               (reason, ''Talos version cannot be verified before the Host identity is confirmed.'')
               (reason, message) requeue_30s;
             State_Monad.return (Some r, selected)
           }
           else do {
             let selected = bind_identity None selected;
             err \<leftarrow> api_write E (HostStatusPatch selected);
             State_Monad.return (case err of Some e \<Rightarrow> Some (0, Some (ReconApi e)) | None \<Rightarrow> None, selected)
           })
        })
   }"

definition reconcileReprovision ::
  "k8s_lib \<Rightarrow> tm_env \<Rightarrow> string \<Rightarrow> TartMachine \<Rightarrow> TartHost \<Rightarrow> string \<Rightarrow> (((duration \<times> recon_error option) option) \<times> TartHost) tm" where
  "reconcileReprovision L E ns machine selected endpoint =
     (case hst_currentTalosIdentityRef (h_status selected) of
        None \<Rightarrow> State_Monad.return (None, selected)
      | Some identity \<Rightarrow>
          if \<not> ReprovisionApproved (h_spec selected) then State_Monad.return (None, selected)
          else do {
            material \<leftarrow> recoveryMaterial L E ns identity;
            (case material of
               None \<Rightarrow> do {
                 r \<leftarrow> reportTalosStatus L E machine
                   (ConditionFalse, ReasonRecoveryIdentityUnavailable, ''The recovery identity of the previous Talos installation could not be resolved.'')
                   (ConditionFalse, ReasonRecoveryIdentityUnavailable, ''Reprovision is stopped because the previous Talos installation cannot be authenticated.'')
                   (ReasonRecoveryIdentityUnavailable, ''Talos version cannot be verified before the previous installation is reset.'')
                   (ReasonRecoveryIdentityUnavailable, ''The recovery Secret for the previous Talos installation is unavailable.'') requeue_30s;
                 State_Monad.return (Some r, selected)
               }
             | Some m \<Rightarrow> do {
                 err \<leftarrow> dial E endpoint (AuthRecovery m);
                 (case err of
                    Some _ \<Rightarrow> confirmReprovisionCompleted L E machine selected endpoint
                  | None \<Rightarrow> do {
                      observed \<leftarrow> observeResetTarget E endpoint (AuthRecovery m);
                      (case observed of
                         None \<Rightarrow> confirmReprovisionCompleted L E machine selected endpoint
                       | Some ob \<Rightarrow>
                           if VerifyResetTarget (ExpectedIdentityForHost (Some selected) (tid_clusterID identity) endpoint) ob \<noteq> None
                           then do {
                             r \<leftarrow> reportTalosStatus L E machine
                               (ConditionFalse, ReasonIdentityConflict, ''The Talos endpoint identity does not match the approved Reprovision target.'')
                               (ConditionFalse, ReasonIdentityConflict, ''Reprovision is stopped because the reset target identity could not be confirmed.'')
                               (ReasonIdentityConflict, ''Talos version cannot be trusted for a different Host or cluster.'')
                               (ReasonIdentityConflict, ''The previous Talos installation belongs to a different Host or cluster identity.'') 0;
                             State_Monad.return (Some r, selected)
                           }
                           else do {
                             rerr \<leftarrow> rpc E endpoint (AuthRecovery m) RpcReset;
                             r \<leftarrow> (case rerr of
                               Some _ \<Rightarrow> reportTalosStatus L E machine
                                 (ConditionFalse, ReasonReprovisioning, ''The Talos reset request was rejected by the previous installation.'')
                                 (ConditionFalse, ReasonReprovisioning, ''Reprovision is waiting for the previous Talos installation to be reset.'')
                                 (ReasonReprovisioning, ''Talos version cannot be verified before the previous installation is reset.'')
                                 (ReasonReprovisioning, ''The previous Talos installation has not been reset yet.'') requeue_30s
                             | None \<Rightarrow> reportTalosStatus L E machine
                                 (ConditionFalse, ReasonReprovisioning, ''Talos reset was requested on the verified previous installation.'')
                                 (ConditionFalse, ReasonReprovisioning, ''Reprovision is waiting for the Host to return to maintenance mode.'')
                                 (ReasonReprovisioning, ''Talos version cannot be verified before the Host returns to maintenance mode.'')
                                 (ReasonReprovisioning, ''The Host is being reset back to maintenance mode.'') requeue_30s);
                             State_Monad.return (Some r, selected)
                           })
                    })
               })
          })"

subsection \<open>What has to hold before a reset\<close>

text \<open>The requests of a pass that resets, up to the reset.\<close>

definition reset_requests :: "string \<Rightarrow> Material \<Rightarrow> tm_event list" where
  "reset_requests endpoint m =
     [Dial endpoint (AuthRecovery m), Rpc endpoint (AuthRecovery m) RpcActiveConfiguration,
      Rpc endpoint (AuthRecovery m) RpcInventory]"

text \<open>The node that answered these requests is the approved host with the approved old
  installation.\<close>

definition reset_authorised ::
  "k8s_lib \<Rightarrow> tm_env \<Rightarrow> string \<Rightarrow> TartHost \<Rightarrow> string \<Rightarrow> Material \<Rightarrow> tm_event list \<Rightarrow> bool" where
  "reset_authorised L E ns h endpoint m tr \<longleftrightarrow>
     ReprovisionApproved (h_spec h) \<and>
     (\<exists>identity s c i.
        hst_currentTalosIdentityRef (h_status h) = Some identity \<and>
        te_get_secret E tr ns (tid_recoverySecretRef identity) = Inr s \<and>
        DecodeSecret L (Some s) (tid_clusterID identity) = Inr m \<and>
        te_text E (tr @ take 1 (reset_requests endpoint m)) (Rpc endpoint (AuthRecovery m) RpcActiveConfiguration) = Inr c \<and>
        ObservedClusterID (te_load_cluster_id E) c = Inr (tid_clusterID identity) \<and>
        te_inventory E (tr @ take 2 (reset_requests endpoint m)) (Rpc endpoint (AuthRecovery m) RpcInventory) = Inr i \<and>
        \<not> MAC_IsZero (hs_macAddress (h_spec h)) \<and> hs_macAddress (h_spec h) \<in> set (ti_macAddresses i) \<and>
        (\<forall>known. hst_inventory (h_status h) = Some known \<and> normalizedUUID (trim_space (inv_systemUUID known)) \<noteq> [] \<longrightarrow>
           normalizedUUID (uuid_string (ti_systemUUID i)) = normalizedUUID (trim_space (inv_systemUUID known))))"

lemma emits_confirmReprovisionCompleted [emit_rules]:
  "range MachineStatusPatch \<union> range HostStatusPatch \<union> {Dial endpoint AuthNone, Rpc endpoint AuthNone RpcInventory} \<subseteq> S \<Longrightarrow>
     emits (confirmReprovisionCompleted L E machine selected endpoint) S"
  unfolding confirmReprovisionCompleted_def Let_def by (intro emit_rules) auto

lemma run_recoveryMaterial:
  "run_state (recoveryMaterial L E ns identity) tr =
     (if ns = [] \<or> tid_recoverySecretRef identity = [] then None
      else case te_get_secret E tr ns (tid_recoverySecretRef identity) of Inl _ \<Rightarrow> None
        | Inr s \<Rightarrow> (case DecodeSecret L (Some s) (tid_clusterID identity) of Inl _ \<Rightarrow> None | Inr m \<Rightarrow> Some m), tr)"
  by (simp add: recoveryMaterial_def)

lemma observeResetTarget_Some:
  assumes "run_state (observeResetTarget E endpoint auth) tr = (Some ob, tr')"
  obtains c i where
    "te_text E tr (Rpc endpoint auth RpcActiveConfiguration) = Inr c"
    "ObservedClusterID (te_load_cluster_id E) c = Inr (obsd_clusterID ob)"
    "te_inventory E (tr @ [Rpc endpoint auth RpcActiveConfiguration]) (Rpc endpoint auth RpcInventory) = Inr i"
    "ob = \<lparr>obsd_clusterID = obsd_clusterID ob, obsd_macAddresses = ti_macAddresses i,
            obsd_systemUUID = uuid_string (ti_systemUUID i), obsd_endpoint = endpoint\<rparr>"
    "tr' = tr @ [Rpc endpoint auth RpcActiveConfiguration, Rpc endpoint auth RpcInventory]"
  using assms
  by (auto simp: observeResetTarget_def rpc_text_def rpc_inventory_def split: sum.splits)

lemma confirm_no_reset:
  "run_state (confirmReprovisionCompleted L E machine selected endpoint) tr = (r, tr') \<Longrightarrow>
     \<exists>new. tr' = tr @ new \<and> Rpc ep auth RpcReset \<notin> set new"
  using emitsD[OF emits_confirmReprovisionCompleted[OF order_refl]] by blast

definition reported :: "k8s_lib \<Rightarrow> tm_env \<Rightarrow> TartMachine \<Rightarrow> tm_event list \<Rightarrow> tm_event list \<Rightarrow> bool" where
  "reported L E machine t t' \<longleftrightarrow> (\<exists>a b c d q r. run_state (reportTalosStatus L E machine a b c d q) t = (r, t'))"

lemma reportedI: "run_state (reportTalosStatus L E machine a b c d q) t = (r, t') \<Longrightarrow> reported L E machine t t'"
  unfolding reported_def by blast

lemma reported_only: "reported L E machine t t' \<Longrightarrow> \<exists>new. t' = t @ new \<and> set new \<subseteq> range MachineStatusPatch"
  using emitsD[OF emits_reportTalosStatus[OF order_refl]] unfolding reported_def by metis

lemma report_no_reset: "reported L E machine t t' \<Longrightarrow> \<exists>new. t' = t @ new \<and> Rpc ep auth RpcReset \<notin> set new"
  using reported_only by blast

lemma reset_authorisedI:
  assumes "hst_currentTalosIdentityRef (h_status h) = Some identity" "ReprovisionApproved (h_spec h)"
    "run_state (recoveryMaterial L E ns identity) tr = (Some m, tr)"
    "run_state (observeResetTarget E endpoint (AuthRecovery m)) (tr @ [Dial endpoint (AuthRecovery m)]) = (Some ob, tr')"
    "VerifyResetTarget (ExpectedIdentityForHost (Some h) (tid_clusterID identity) endpoint) ob = None"
  shows "reset_authorised L E ns h endpoint m tr \<and> tr' = tr @ reset_requests endpoint m"
proof -
  from assms(4) obtain c i where
    o: "te_text E (tr @ [Dial endpoint (AuthRecovery m)]) (Rpc endpoint (AuthRecovery m) RpcActiveConfiguration) = Inr c"
      "ObservedClusterID (te_load_cluster_id E) c = Inr (obsd_clusterID ob)"
      "te_inventory E ((tr @ [Dial endpoint (AuthRecovery m)]) @ [Rpc endpoint (AuthRecovery m) RpcActiveConfiguration])
         (Rpc endpoint (AuthRecovery m) RpcInventory) = Inr i"
      "ob = \<lparr>obsd_clusterID = obsd_clusterID ob, obsd_macAddresses = ti_macAddresses i,
             obsd_systemUUID = uuid_string (ti_systemUUID i), obsd_endpoint = endpoint\<rparr>"
      "tr' = (tr @ [Dial endpoint (AuthRecovery m)]) @ [Rpc endpoint (AuthRecovery m) RpcActiveConfiguration, Rpc endpoint (AuthRecovery m) RpcInventory]"
    by (rule observeResetTarget_Some)
  have fields: "obsd_macAddresses ob = ti_macAddresses i" "obsd_systemUUID ob = uuid_string (ti_systemUUID i)"
    by (subst o(4), simp)+
  from assms(5) have v: "obsd_clusterID ob = tid_clusterID identity" "\<not> MAC_IsZero (hs_macAddress (h_spec h))"
    "hs_macAddress (h_spec h) \<in> set (ti_macAddresses i)"
    "\<And>known. hst_inventory (h_status h) = Some known \<Longrightarrow> normalizedUUID (trim_space (inv_systemUUID known)) \<noteq> [] \<Longrightarrow>
       normalizedUUID (uuid_string (ti_systemUUID i)) = normalizedUUID (trim_space (inv_systemUUID known))"
    by (simp_all add: VerifyResetTarget_iff ExpectedIdentityForHost_def Let_def fields)
  from assms(3) obtain s where s: "te_get_secret E tr ns (tid_recoverySecretRef identity) = Inr s"
    "DecodeSecret L (Some s) (tid_clusterID identity) = Inr m"
    by (auto simp: run_recoveryMaterial split: if_splits sum.splits)
  show ?thesis
    unfolding reset_authorised_def
  proof (intro conjI exI)
    show "ReprovisionApproved (h_spec h)" "hst_currentTalosIdentityRef (h_status h) = Some identity" by (rule assms)+
    show "te_get_secret E tr ns (tid_recoverySecretRef identity) = Inr s"
      "DecodeSecret L (Some s) (tid_clusterID identity) = Inr m" by (rule s)+
    show "te_text E (tr @ take 1 (reset_requests endpoint m)) (Rpc endpoint (AuthRecovery m) RpcActiveConfiguration) = Inr c"
      using o(1) by (simp add: reset_requests_def)
    show "te_inventory E (tr @ take 2 (reset_requests endpoint m)) (Rpc endpoint (AuthRecovery m) RpcInventory) = Inr i"
      using o(3) by (simp add: reset_requests_def)
    show "ObservedClusterID (te_load_cluster_id E) c = Inr (tid_clusterID identity)" using o(2) v(1) by simp
    show "tr' = tr @ reset_requests endpoint m" using o(5) by (simp add: reset_requests_def)
  qed (use v in blast)+
qed

text \<open>The requests that only read, up to the one that resets.\<close>

definition reset_reads :: "string \<Rightarrow> tm_event set" where
  "reset_reads endpoint = {e. \<exists>m. e \<in> set (reset_requests endpoint m)}"

lemma reconcileReprovision_cases:
  assumes run: "run_state (reconcileReprovision L E ns machine selected endpoint) tr = ((r, h'), tr')"
  obtains (none) "hst_currentTalosIdentityRef (h_status selected) = None \<or> \<not> ReprovisionApproved (h_spec selected)"
      "r = None" "h' = selected" "tr' = tr"
  | (reports) pre where "set pre \<subseteq> reset_reads endpoint" "reported L E machine (tr @ pre) tr'" "r \<noteq> None" "h' = selected"
  | (confirm) pre where "set pre \<subseteq> reset_reads endpoint"
      "run_state (confirmReprovisionCompleted L E machine selected endpoint) (tr @ pre) = ((r, h'), tr')"
  | (reset) m where "reset_authorised L E ns selected endpoint m tr" "r \<noteq> None" "h' = selected"
      "reported L E machine (tr @ reset_requests endpoint m @ [Rpc endpoint (AuthRecovery m) RpcReset]) tr'"
proof (cases "hst_currentTalosIdentityRef (h_status selected)")
  case None
  with run show ?thesis by (intro none) (auto simp: reconcileReprovision_def)
next
  case identity: (Some identity)
  show ?thesis
  proof (cases "ReprovisionApproved (h_spec selected)")
    case False
    with run identity show ?thesis by (intro none) (auto simp: reconcileReprovision_def)
  next
    case approved: True
    obtain material where material: "run_state (recoveryMaterial L E ns identity) tr = (material, tr)"
      by (simp add: run_recoveryMaterial)
    note simps = reconcileReprovision_def identity approved material dial_def rpc_def
    show ?thesis
    proof (cases material)
      case None
      with run show ?thesis by (intro reports[of "[]"]) (auto simp: simps intro: reportedI split: prod.splits)
    next
      case m: (Some m)
      let ?d = "Dial endpoint (AuthRecovery m)"
      have d: "?d \<in> reset_reads endpoint" by (auto simp: reset_reads_def reset_requests_def)
      show ?thesis
      proof (cases "te_dial E tr ?d")
        case (Some e)
        with run m d show ?thesis by (intro confirm[of "[?d]"]) (auto simp: simps)
      next
        case dialled: None
        obtain observed t1 where ob: "run_state (observeResetTarget E endpoint (AuthRecovery m)) (tr @ [?d]) = (observed, t1)"
          by fastforce
        have "emits (observeResetTarget E endpoint (AuthRecovery m)) (reset_reads endpoint)"
          unfolding observeResetTarget_def by (intro emit_rules) (auto simp: reset_reads_def reset_requests_def)
        from emitsD[OF this ob] d obtain pre where pre: "t1 = tr @ pre" "set pre \<subseteq> reset_reads endpoint"
          by (metis append.assoc append_Cons append_Nil insert_subset list.set(2))
        show ?thesis
        proof (cases observed)
          case None
          with run m dialled ob pre show ?thesis by (intro confirm[of pre]) (auto simp: simps)
        next
          case obs: (Some x)
          show ?thesis
          proof (cases "VerifyResetTarget (ExpectedIdentityForHost (Some selected) (tid_clusterID identity) endpoint) x")
            case (Some e)
            with run m dialled ob obs pre show ?thesis
              by (intro reports[of pre]) (auto simp: simps intro: reportedI split: prod.splits)
          next
            case verified: None
            have auth: "reset_authorised L E ns selected endpoint m tr" "t1 = tr @ reset_requests endpoint m"
              using reset_authorisedI[OF identity approved _ _ verified] material ob obs m by blast+
            have "reported L E machine (t1 @ [Rpc endpoint (AuthRecovery m) RpcReset]) tr'" "r \<noteq> None" "h' = selected"
              using run m dialled ob obs verified
              by (auto simp: simps intro: reportedI split: prod.splits option.splits)
            with auth show ?thesis by (intro reset[of m]) simp_all
          qed
        qed
      qed
    qed
  qed
qed

lemma reset_only_authorised:
  assumes run: "run_state (reconcileReprovision L E ns machine selected endpoint) tr = ((r, h'), tr @ new)"
    and reset: "Rpc ep auth RpcReset \<in> set new"
  shows "\<exists>m. ep = endpoint \<and> auth = AuthRecovery m \<and> reset_authorised L E ns selected endpoint m tr \<and>
     (\<exists>rest. new = reset_requests endpoint m @ Rpc endpoint (AuthRecovery m) RpcReset # rest \<and>
        set rest \<subseteq> range MachineStatusPatch)"
  using run
proof (cases rule: reconcileReprovision_cases)
  case none
  then show ?thesis using reset by simp
next
  case (reports pre)
  with report_no_reset[OF reports(2), of ep auth] reset show ?thesis
    by (auto simp: reset_reads_def reset_requests_def)
next
  case (confirm pre)
  with confirm_no_reset[OF confirm(2), of ep auth] reset show ?thesis
    by (auto simp: reset_reads_def reset_requests_def)
next
  case (reset m)
  from reported_only[OF reset(4)] obtain rest where
    new: "new = reset_requests endpoint m @ Rpc endpoint (AuthRecovery m) RpcReset # rest" "set rest \<subseteq> range MachineStatusPatch"
    by auto
  with \<open>Rpc ep auth RpcReset \<in> set new\<close> have "ep = endpoint \<and> auth = AuthRecovery m" by (auto simp: reset_requests_def)
  with new reset(1) show ?thesis by blast
qed

subsection \<open>What a binding is\<close>

text \<open>The Secret is created before the host names it; an existing binding is only replaced
  by one of the same cluster.\<close>

lemma activeSecretsBundle_reads: "\<exists>b. run_state (activeSecretsBundle L E machine) tr = (b, tr)"
  unfolding activeSecretsBundle_def find_capi_machine_def
  by (auto simp: Let_def split: sum.splits option.splits)

lemma ensure_cases:
  assumes run: "run_state (ensureTalosIdentityBinding L E ns machine h) tr = ((err, h'), tr')"
  obtains (kept) "tr' = tr" "h' = h" "err \<or> hst_currentTalosIdentityRef (h_status h) \<noteq> None"
  | (refused) secret where "tr' = tr @ [SecretCreate secret]" "h' = h" "err"
  | (bound) b material secret where "run_state (activeSecretsBundle L E machine) tr = (Some b, tr)"
      "MaterialFromBundle (Some b) = Inr material" "BuildRecoverySecret L ns material = Inr secret"
      "shouldRebindTalosIdentity (hst_currentTalosIdentityRef (h_status h)) (mat_clusterID material) (sec_name secret)"
      "te_write E tr (SecretCreate secret) \<in> {None, Some ApiAlreadyExists}"
      "h' = bind_identity (Some \<lparr>tid_clusterID = mat_clusterID material, tid_recoverySecretRef = sec_name secret,
         tid_boundAt = te_now E (tr @ [SecretCreate secret])\<rparr>) h"
      "tr' = tr @ [SecretCreate secret, HostStatusPatch h']"
      "err \<longleftrightarrow> te_write E (tr @ [SecretCreate secret]) (HostStatusPatch h') \<noteq> None"
proof (cases "ns = []")
  case True
  with run show ?thesis by (intro kept) (auto simp: ensureTalosIdentityBinding_def)
next
  case ns: False
  obtain b where b: "run_state (activeSecretsBundle L E machine) tr = (b, tr)" using activeSecretsBundle_reads by blast
  note simps = ensureTalosIdentityBinding_def ns b Let_def
  show ?thesis
  proof (cases b)
    case None
    with run show ?thesis by (intro kept) (auto simp: simps)
  next
    case bnd: (Some bd)
    show ?thesis
    proof (cases "MaterialFromBundle (Some bd)")
      case (Inl e)
      with run bnd show ?thesis by (intro kept) (auto simp: simps)
    next
      case mat: (Inr material)
      show ?thesis
      proof (cases "BuildRecoverySecret L ns material")
        case (Inl e)
        with run bnd mat show ?thesis by (intro kept) (auto simp: simps)
      next
        case sec: (Inr secret)
        show ?thesis
        proof (cases "shouldRebindTalosIdentity (hst_currentTalosIdentityRef (h_status h)) (mat_clusterID material) (sec_name secret)")
          case False
          with run bnd mat sec show ?thesis
            by (intro kept) (auto simp: simps shouldRebindTalosIdentity_def split: option.splits)
        next
          case rebind: True
          show ?thesis
          proof (cases "te_write E tr (SecretCreate secret) \<in> {None, Some ApiAlreadyExists}")
            case False
            with run bnd mat sec rebind show ?thesis by (intro refused[of secret]) (auto simp: simps api_write_def)
          next
            case True
            with run bnd mat sec rebind b show ?thesis
              by (intro bound[of bd material secret]) (auto simp: simps api_write_def)
          qed
        qed
      qed
    qed
  qed
qed

lemma bound_ref [simp]: "hst_currentTalosIdentityRef (h_status (bind_identity i h)) = i"
  by (simp add: bind_identity_def)

lemma bind_identity_spec [simp]: "h_spec (bind_identity i h) = h_spec h" "h_meta (bind_identity i h) = h_meta h"
  "hst_inventory (h_status (bind_identity i h)) = hst_inventory (h_status h)"
  by (simp_all add: bind_identity_def)

lemma ensure_binds:
  "run_state (ensureTalosIdentityBinding L E ns machine h) tr = ((False, h'), tr') \<Longrightarrow>
     hst_currentTalosIdentityRef (h_status h') \<noteq> None \<and> h_spec h' = h_spec h"
  by (erule ensure_cases) auto

text \<open>A binding to another cluster survives.\<close>

lemma ensure_keeps_foreign:
  assumes "run_state (ensureTalosIdentityBinding L E ns machine h) tr = ((err, h'), tr')"
    and "hst_currentTalosIdentityRef (h_status h) = Some c"
  shows "\<exists>c'. hst_currentTalosIdentityRef (h_status h') = Some c' \<and> tid_clusterID c' = tid_clusterID c \<and>
     (\<forall>k. HostStatusPatch k \<in> set (drop (length tr) tr') \<longrightarrow>
        (\<exists>d. hst_currentTalosIdentityRef (h_status k) = Some d \<and> tid_clusterID d = tid_clusterID c))"
  using assms(1)
proof (cases rule: ensure_cases)
  case kept
  then show ?thesis using assms(2) by simp
next
  case (refused secret)
  then show ?thesis using assms(2) by simp
next
  case (bound b material secret)
  from bound(4) assms(2) have "mat_clusterID material = tid_clusterID c"
    by (auto simp: shouldRebindTalosIdentity_def split: if_splits)
  then show ?thesis using bound(6,7) by simp
qed

text \<open>The binding goes only after the same host answered in maintenance mode.\<close>

lemma confirm_unbinds:
  assumes "run_state (confirmReprovisionCompleted L E machine selected endpoint) tr = ((r, h'), tr')"
  shows "(\<exists>new. tr' = tr @ new \<and> (\<forall>k. HostStatusPatch k \<notin> set new)) \<and> h' = selected \<and> r \<noteq> None \<or>
    (\<exists>i. te_dial E tr (Dial endpoint AuthNone) = None \<and>
       te_inventory E (tr @ [Dial endpoint AuthNone]) (Rpc endpoint AuthNone RpcInventory) = Inr i \<and>
       HasMAC i (hs_macAddress (h_spec selected)) \<and> h' = bind_identity None selected \<and>
       tr' = tr @ [Dial endpoint AuthNone, Rpc endpoint AuthNone RpcInventory, HostStatusPatch h'])"
proof -
  have quiet: "\<exists>new. t' = t @ new \<and> (\<forall>k. HostStatusPatch k \<notin> set new)" if "reported L E machine t t'" for t t'
    using reported_only[OF that] by blast
  show ?thesis
  proof (cases "te_dial E tr (Dial endpoint AuthNone)")
    case (Some e)
    with assms have "reported L E machine (tr @ [Dial endpoint AuthNone]) tr'" "h' = selected" "r \<noteq> None"
      by (auto simp: confirmReprovisionCompleted_def dial_def intro: reportedI split: prod.splits)
    then obtain new where "tr' = (tr @ [Dial endpoint AuthNone]) @ new" "\<forall>k. HostStatusPatch k \<notin> set new" using quiet by blast
    then have "tr' = tr @ (Dial endpoint AuthNone # new) \<and> (\<forall>k. HostStatusPatch k \<notin> set (Dial endpoint AuthNone # new))"
      by simp
    with \<open>h' = selected\<close> \<open>r \<noteq> None\<close> show ?thesis by blast
  next
    case None
    let ?t = "tr @ [Dial endpoint AuthNone]" and ?e = "Rpc endpoint AuthNone RpcInventory"
    show ?thesis
    proof (cases "\<exists>i. te_inventory E ?t ?e = Inr i \<and> HasMAC i (hs_macAddress (h_spec selected))")
      case True
      then show ?thesis using assms None
        by (auto simp: confirmReprovisionCompleted_def dial_def rpc_inventory_def api_write_def Let_def)
    next
      case False
      with assms None have "reported L E machine (?t @ [?e]) tr'" "h' = selected" "r \<noteq> None"
        by (auto simp: confirmReprovisionCompleted_def dial_def rpc_inventory_def Let_def is_ok_def
            intro: reportedI split: prod.splits sum.splits if_splits)
      then obtain new where "tr' = (?t @ [?e]) @ new" "\<forall>k. HostStatusPatch k \<notin> set new" using quiet by blast
      then have "tr' = tr @ ([Dial endpoint AuthNone, ?e] @ new) \<and>
          (\<forall>k. HostStatusPatch k \<notin> set ([Dial endpoint AuthNone, ?e] @ new))" by simp
      with \<open>h' = selected\<close> \<open>r \<noteq> None\<close> show ?thesis by blast
    qed
  qed
qed

lemma unbound_only_in_maintenance:
  assumes run: "run_state (reconcileReprovision L E ns machine selected endpoint) tr = ((r, h'), tr @ new)"
    and patch: "HostStatusPatch k \<in> set new"
  shows "\<exists>pre i. new = pre @ [Dial endpoint AuthNone, Rpc endpoint AuthNone RpcInventory, HostStatusPatch k] \<and>
     te_inventory E (tr @ pre @ [Dial endpoint AuthNone]) (Rpc endpoint AuthNone RpcInventory) = Inr i \<and>
     HasMAC i (hs_macAddress (h_spec selected)) \<and> k = bind_identity None selected \<and> h' = k"
  using run
proof (cases rule: reconcileReprovision_cases)
  case none
  then show ?thesis using patch by simp
next
  case (reports pre)
  with reported_only[OF reports(2)] patch show ?thesis by (auto simp: reset_reads_def reset_requests_def)
next
  case (confirm pre)
  have pre: "HostStatusPatch k \<notin> set pre" using confirm(1) by (auto simp: reset_reads_def reset_requests_def)
  from confirm_unbinds[OF confirm(2)] patch pre obtain i where
    "te_inventory E ((tr @ pre) @ [Dial endpoint AuthNone]) (Rpc endpoint AuthNone RpcInventory) = Inr i"
    "HasMAC i (hs_macAddress (h_spec selected))" "h' = bind_identity None selected"
    "tr @ new = (tr @ pre) @ [Dial endpoint AuthNone, Rpc endpoint AuthNone RpcInventory, HostStatusPatch h']"
    by (auto simp: append_assoc)
  with patch pre show ?thesis by (intro exI[of _ pre] exI[of _ i]) auto
next
  case (reset m)
  with reported_only[OF reset(4)] patch show ?thesis by (auto simp: reset_requests_def)
qed

subsection \<open>The reset of the new installation\<close>

text \<open>What a node of the host answers after the installation of a cluster.\<close>

definition installed_node :: "tm_env \<Rightarrow> tm_event list \<Rightarrow> TartHost \<Rightarrow> string \<Rightarrow> Material \<Rightarrow> bool" where
  "installed_node E tr h endpoint m \<longleftrightarrow>
     te_dial E tr (Dial endpoint (AuthRecovery m)) = None \<and>
     (\<exists>c i. te_text E (tr @ take 1 (reset_requests endpoint m)) (Rpc endpoint (AuthRecovery m) RpcActiveConfiguration) = Inr c \<and>
        ObservedClusterID (te_load_cluster_id E) c = Inr (mat_clusterID m) \<and>
        te_inventory E (tr @ take 2 (reset_requests endpoint m)) (Rpc endpoint (AuthRecovery m) RpcInventory) = Inr i \<and>
        hs_macAddress (h_spec h) \<in> set (ti_macAddresses i) \<and>
        (\<forall>known. hst_inventory (h_status h) = Some known \<longrightarrow>
           normalizedUUID (uuid_string (ti_systemUUID i)) = normalizedUUID (trim_space (inv_systemUUID known))))"

lemma normalizedUUID_Nil [simp]: "normalizedUUID [] = []"
  by (simp add: normalizedUUID_def to_lower_def)

lemma installed_node_reset:
  assumes node: "installed_node E tr h endpoint m" and approved: "ReprovisionApproved (h_spec h)"
    and identity: "hst_currentTalosIdentityRef (h_status h) = Some identity" "tid_clusterID identity = mat_clusterID m"
    and material: "run_state (recoveryMaterial L E ns identity) tr = (Some m, tr)"
    and ids: "\<not> MAC_IsZero (hs_macAddress (h_spec h))" "\<not> ClusterID_IsZero (mat_clusterID m)" "\<not> blank endpoint" "trim_space endpoint = endpoint"
  shows "\<exists>r rest. run_state (reconcileReprovision L E ns machine h endpoint) tr =
     (r, tr @ reset_requests endpoint m @ Rpc endpoint (AuthRecovery m) RpcReset # rest)"
proof -
  from node obtain c i where o: "te_dial E tr (Dial endpoint (AuthRecovery m)) = None"
    "te_text E (tr @ [Dial endpoint (AuthRecovery m)]) (Rpc endpoint (AuthRecovery m) RpcActiveConfiguration) = Inr c"
    "ObservedClusterID (te_load_cluster_id E) c = Inr (mat_clusterID m)"
    "te_inventory E (tr @ [Dial endpoint (AuthRecovery m), Rpc endpoint (AuthRecovery m) RpcActiveConfiguration])
       (Rpc endpoint (AuthRecovery m) RpcInventory) = Inr i"
    "hs_macAddress (h_spec h) \<in> set (ti_macAddresses i)"
    "\<forall>known. hst_inventory (h_status h) = Some known \<longrightarrow>
       normalizedUUID (uuid_string (ti_systemUUID i)) = normalizedUUID (trim_space (inv_systemUUID known))"
    by (auto simp: installed_node_def reset_requests_def)
  define ob where "ob = \<lparr>obsd_clusterID = mat_clusterID m, obsd_macAddresses = ti_macAddresses i,
    obsd_systemUUID = uuid_string (ti_systemUUID i), obsd_endpoint = endpoint\<rparr>"
  have v: "VerifyResetTarget (ExpectedIdentityForHost (Some h) (mat_clusterID m) endpoint) ob = None"
    using o(5,6) ids by (auto simp: VerifyResetTarget_iff ExpectedIdentityForHost_def Let_def ob_def split: option.splits)
  have obs: "run_state (observeResetTarget E endpoint (AuthRecovery m)) (tr @ [Dial endpoint (AuthRecovery m)]) =
     (Some ob, tr @ reset_requests endpoint m)"
    using o by (simp add: observeResetTarget_def rpc_text_def rpc_inventory_def reset_requests_def ob_def)
  let ?t = "tr @ reset_requests endpoint m @ [Rpc endpoint (AuthRecovery m) RpcReset]"
  obtain r t' where run: "run_state (reconcileReprovision L E ns machine h endpoint) tr = (r, t')" by fastforce
  then have "reported L E machine ?t t'"
    using o(1) obs v approved identity material
    by (auto simp: reconcileReprovision_def dial_def rpc_def intro: reportedI split: prod.splits option.splits)
  from reported_only[OF this] run show ?thesis by auto
qed

text \<open>The binding made for the new installation authorises its reset as the binding of the old
  one did: the approval of the reuse is still there.\<close>

lemma rebound_host_reset:
  assumes bind: "run_state (ensureTalosIdentityBinding L E ns machine h) tr = ((False, h'), tr')"
    and fresh: "hst_currentTalosIdentityRef (h_status h) = None" and approved: "ReprovisionApproved (h_spec h)"
    and identity: "hst_currentTalosIdentityRef (h_status h') = Some identity"
    and material: "run_state (recoveryMaterial L E ns identity) tr2 = (Some m, tr2)"
    and node: "installed_node E tr2 h' endpoint m"
    and ids: "\<not> MAC_IsZero (hs_macAddress (h_spec h))" "\<not> blank endpoint" "trim_space endpoint = endpoint"
  shows "\<exists>r rest. run_state (reconcileReprovision L E ns machine h' endpoint) tr2 =
     (r, tr2 @ reset_requests endpoint m @ Rpc endpoint (AuthRecovery m) RpcReset # rest)"
proof -
  from bind have "tid_clusterID identity = mat_clusterID m \<and> \<not> ClusterID_IsZero (mat_clusterID m) \<and> h_spec h' = h_spec h"
  proof (cases rule: ensure_cases)
    case (bound b mat secret)
    then have "tid_clusterID identity = mat_clusterID mat" using identity by auto
    moreover have "\<not> ClusterID_IsZero (mat_clusterID mat)"
      using bound(3) by (auto simp: BuildRecoverySecret_def SecretName_def split: option.splits if_splits)
    moreover from material obtain s where "DecodeSecret L (Some s) (tid_clusterID identity) = Inr m"
      by (auto simp: run_recoveryMaterial split: if_splits sum.splits)
    ultimately show ?thesis using DecodeSecret_ok bound(6) by fastforce
  qed (use fresh in auto)
  with installed_node_reset[OF node _ identity _ material] approved ids show ?thesis by simp
qed

end
