(* ===== verification/Drain.thy ===== *)
theory Drain
  imports MachineEnv
begin

section \<open>Draining a node before it restarts\<close>

text \<open>
  \<open>controller/runtimeextension/drain.go\<close>: the node of a machine in its workload cluster is
  cordoned and its pods are evicted before Talos restarts; afterwards the cordon that the
  provider set is taken back. A workload cluster is its kubeconfig. The reads answer with
  what the API server holds at that point of the trace.
\<close>

definition updateCordonAnnotation :: string where
  "updateCordonAnnotation = ''update.tart.walnuts.dev/cordoned''"

definition errDrainContextUnavailable :: api_error where
  "errDrainContextUnavailable = ApiOther ''workload drain context is unavailable''"

record drainOutcome =
  evictedAll :: bool
  pdbBlockedOnly :: bool

type_synonym gate = "bool \<times> string"        \<comment> \<open>proceed, message\<close>

text \<open>\<open>Inr\<close>: the kubeconfig of the client that was built.\<close>

definition workloadClientForMachine :: "tm_env \<Rightarrow> capi_machine \<Rightarrow> (api_error + string) tm" where
  "workloadClientForMachine E machine =
     (if mt_namespace (cm_meta machine) = [] \<or> cm_clusterName machine = []
      then State_Monad.return (Inl errDrainContextUnavailable)
      else do {
        secret \<leftarrow> query (\<lambda>tr. te_get_secret E tr (mt_namespace (cm_meta machine)) (cm_clusterName machine @ ''-kubeconfig''));
        State_Monad.return
          (case secret of Inl e \<Rightarrow> Inl e
           | Inr s \<Rightarrow>
               (let kubeconfig = map_get (sec_data s) ''value''
                in if length kubeconfig = 0 then Inl errDrainContextUnavailable
                   else if \<not> te_kubeconfig_valid E kubeconfig then Inl (ApiOther ''workload Kubernetes client'')
                   else Inr kubeconfig))
      })"

definition findNodeByProviderID :: "tm_env \<Rightarrow> string \<Rightarrow> string \<Rightarrow> (api_error + workload_node) tm" where
  "findNodeByProviderID E kubeconfig providerID =
     (if providerID = [] then State_Monad.return (Inl (ApiOther ''provider ID is empty''))
      else do {
        nodes \<leftarrow> query (\<lambda>tr. te_list_nodes E tr kubeconfig);
        State_Monad.return
          (case nodes of
             Inl e \<Rightarrow> Inl e
           | Inr ns \<Rightarrow> (case find (\<lambda>n. nd_providerID n = providerID) ns of None \<Rightarrow> Inl ApiNotFound | Some n \<Rightarrow> Inr n))
      })"

text \<open>The code wraps the errors of its reads with \<open>%w\<close>; \<open>apierrors.IsNotFound\<close> looks
  through the wrapping, so a wrapped error is the error itself.\<close>

definition cordonNode :: "tm_env \<Rightarrow> string \<Rightarrow> workload_node \<Rightarrow> api_error option tm" where
  "cordonNode E kubeconfig node =
     (if nd_unschedulable node then State_Monad.return None
      else api_write E (NodeUpdate kubeconfig
        (node\<lparr>nd_unschedulable := True,
              nd_annotations := AList.update updateCordonAnnotation ''true'' (nd_annotations node)\<rparr>)))"

definition uncordonNode :: "tm_env \<Rightarrow> string \<Rightarrow> workload_node \<Rightarrow> api_error option tm" where
  "uncordonNode E kubeconfig node =
     api_write E (NodeUpdate kubeconfig
       (node\<lparr>nd_unschedulable := False,
             nd_annotations := AList.delete updateCordonAnnotation (nd_annotations node)\<rparr>))"

definition podRequiresEviction :: "k8s_lib \<Rightarrow> workload_pod \<Rightarrow> bool" where
  "podRequiresEviction L pod =
     (if pd_deleting pod then False
      else if map_of (pd_annotations pod) (lib_mirror_annotation L) \<noteq> None then False
      else \<not> list_ex (\<lambda>k. k = ''DaemonSet'') (pd_owner_kinds pod))"

type_synonym evictedPod = "string \<times> string"    \<comment> \<open>namespace, name\<close>

text \<open>The loop over the pods: an eviction that fails for another reason, or the evicted pods
  and whether one was refused with 429.\<close>

fun evict_pods ::
  "k8s_lib \<Rightarrow> tm_env \<Rightarrow> string \<Rightarrow> workload_pod list \<Rightarrow> evictedPod list \<Rightarrow> bool \<Rightarrow> (api_error + evictedPod list \<times> bool) tm" where
  "evict_pods L E kubeconfig [] evicted sawPDB = State_Monad.return (Inr (evicted, sawPDB))"
| "evict_pods L E kubeconfig (pod # pods) evicted sawPDB =
     (if \<not> podRequiresEviction L pod then evict_pods L E kubeconfig pods evicted sawPDB
      else do {
        err \<leftarrow> api_write E (PodEvict kubeconfig (pd_namespace pod) (pd_name pod));
        (case err of
           None \<Rightarrow> evict_pods L E kubeconfig pods (evicted @ [(pd_namespace pod, pd_name pod)]) sawPDB
         | Some ApiTooManyRequests \<Rightarrow> evict_pods L E kubeconfig pods evicted True
         | Some ApiNotFound \<Rightarrow> evict_pods L E kubeconfig pods evicted sawPDB
         | Some e \<Rightarrow> State_Monad.return (Inl e))
      })"

text \<open>One pass over the pending pods (Go ranges over the map in any order; the order only
  decides which error is met first): the ones still there, or an error.\<close>

fun observe_pending :: "tm_env \<Rightarrow> string \<Rightarrow> evictedPod list \<Rightarrow> (api_error + evictedPod list) tm" where
  "observe_pending E kubeconfig [] = State_Monad.return (Inr [])"
| "observe_pending E kubeconfig ((ns, name) # pods) = do {
     found \<leftarrow> api_write E (PodGet kubeconfig ns name);
     (case found of
        Some ApiNotFound \<Rightarrow> observe_pending E kubeconfig pods
      | Some e \<Rightarrow> State_Monad.return (Inl e)
      | None \<Rightarrow> do {
          rest \<leftarrow> observe_pending E kubeconfig pods;
          State_Monad.return (case rest of Inl e \<Rightarrow> Inl e | Inr ps \<Rightarrow> Inr ((ns, name) # ps))
        })
   }"

text \<open>The context of the drain lives for 45 seconds and the ticker fires every half second:
  after 90 ticks the context is done, so 91 rounds are all there can be.\<close>

definition drainPolls :: nat where "drainPolls = 91"

fun wait_pending :: "nat \<Rightarrow> tm_env \<Rightarrow> string \<Rightarrow> evictedPod list \<Rightarrow> api_error option tm" where
  "wait_pending 0 E kubeconfig pending =
     State_Monad.return (if pending = [] then None else Some (ApiOther ''context deadline exceeded''))"
| "wait_pending (Suc n) E kubeconfig pending =
     (if pending = [] then State_Monad.return None
      else do {
        left \<leftarrow> observe_pending E kubeconfig pending;
        (case left of
           Inl e \<Rightarrow> State_Monad.return (Some e)
         | Inr [] \<Rightarrow> State_Monad.return None
         | Inr ps \<Rightarrow> do {
             done \<leftarrow> query (te_ctx_done E);
             if done then State_Monad.return (Some (ApiOther ''context deadline exceeded''))
             else do { emit Tick; wait_pending n E kubeconfig ps }
           })
      })"

definition waitForEvictedPods :: "tm_env \<Rightarrow> string \<Rightarrow> evictedPod list \<Rightarrow> api_error option tm" where
  "waitForEvictedPods E kubeconfig evicted =
     (if length evicted = 0 then State_Monad.return None
      else wait_pending drainPolls E kubeconfig (remdups evicted))"

definition drainNode :: "k8s_lib \<Rightarrow> tm_env \<Rightarrow> string \<Rightarrow> string \<Rightarrow> (api_error + drainOutcome) tm" where
  "drainNode L E kubeconfig nodeName = do {
     pods \<leftarrow> query (\<lambda>tr. te_list_pods E tr kubeconfig nodeName);
     (case pods of
        Inl e \<Rightarrow> State_Monad.return (Inl e)
      | Inr ps \<Rightarrow> do {
          evicted \<leftarrow> evict_pods L E kubeconfig ps [] False;
          (case evicted of
             Inl e \<Rightarrow> State_Monad.return (Inl e)
           | Inr (pending, sawPDB) \<Rightarrow> do {
               err \<leftarrow> waitForEvictedPods E kubeconfig pending;
               State_Monad.return
                 (case err of
                    Some e \<Rightarrow> Inl e
                  | None \<Rightarrow>
                      if sawPDB then Inr \<lparr>evictedAll = False, pdbBlockedOnly = True\<rparr>
                      else Inr \<lparr>evictedAll = True, pdbBlockedOnly = False\<rparr>)
             })
        })
   }"

definition getUpdateTartCluster :: "tm_env \<Rightarrow> capi_machine \<Rightarrow> (api_error + TartCluster) tm" where
  "getUpdateTartCluster E machine =
     (let namespace = mt_namespace (cm_meta machine)
      in if namespace = [] \<or> cm_clusterName machine = [] then State_Monad.return (Inl errDrainContextUnavailable)
         else do {
           cluster \<leftarrow> query (\<lambda>tr. te_get_cluster E tr namespace (cm_clusterName machine));
           (case cluster of
              Inl e \<Rightarrow> State_Monad.return (Inl e)
            | Inr c \<Rightarrow>
                (let ref = cl_infrastructureRef c
                 in if cr_apiGroup ref \<noteq> infra_group \<or> cr_kind ref \<noteq> TartClusterKind \<or> cr_name ref = []
                    then State_Monad.return (Inl (ApiOther ''the CAPI Cluster does not reference a TartCluster infrastructure resource''))
                    else query (\<lambda>tr. te_get_tart_cluster E tr namespace (cr_name ref))))
         })"

definition enforceDrainPolicy :: "k8s_lib \<Rightarrow> tm_env \<Rightarrow> capi_machine \<Rightarrow> string \<Rightarrow> gate tm" where
  "enforceDrainPolicy L E machine providerID = do {
     clientset \<leftarrow> workloadClientForMachine E machine;
     (case clientset of
        Inl e \<Rightarrow> State_Monad.return
          (if e = ApiNotFound then (True, [])
           else (False, ''The workload cluster Kubernetes client is not available while attempting to drain the Node before the Talos restart.''))
      | Inr kubeconfig \<Rightarrow> do {
          found \<leftarrow> findNodeByProviderID E kubeconfig providerID;
          (case found of
             Inl e \<Rightarrow> State_Monad.return
               (if e = ApiNotFound then (True, [])
                else (False, ''The workload cluster Node could not be observed while attempting to drain it before the Talos restart.''))
           | Inr node \<Rightarrow> do {
               cordoned \<leftarrow> cordonNode E kubeconfig node;
               (if cordoned \<noteq> None
                then State_Monad.return (False, ''The workload cluster Node could not be cordoned before the Talos restart.'')
                else do {
                  outcome \<leftarrow> drainNode L E kubeconfig (nd_name node);
                  (case outcome of
                     Inl _ \<Rightarrow> State_Monad.return (False, ''The workload cluster Node drain failed for a reason unrelated to availability or PodDisruptionBudget; waiting before the restart.'')
                   | Inr out \<Rightarrow>
                       if evictedAll out then State_Monad.return (True, [])
                       else do {
                         cluster \<leftarrow> getUpdateTartCluster E machine;
                         State_Monad.return
                           (case cluster of
                              Inl _ \<Rightarrow> (False, ''The TartCluster update policy could not be observed while a Node drain failure is pending.'')
                            | Inr tartCluster \<Rightarrow>
                                if cs_disruptionPolicy (tc_spec tartCluster) = DisruptionPolicyAllowDowntime then (True, [])
                                else (False, ''The Node drain was blocked by PodDisruptionBudget or availability constraints; the update is paused until allowDowntime is enabled or the workload becomes evictable.''))
                       })
                })
             })
        })
   }"

text \<open>The first ready condition decides; \<open>messages\<close> are those of the caller: no uncordon, not ready.\<close>

definition recover_node :: "tm_env \<Rightarrow> string \<Rightarrow> workload_node \<Rightarrow> string \<times> string \<Rightarrow> gate tm" where
  "recover_node E kubeconfig node messages =
     (if list_ex (\<lambda>(t, s). t = ''Ready'' \<and> s = ConditionTrue) (nd_conditions node)
      then if nd_unschedulable node \<and> map_get (nd_annotations node) updateCordonAnnotation \<noteq> []
           then do {
             err \<leftarrow> uncordonNode E kubeconfig node;
             State_Monad.return (if err \<noteq> None then (False, fst messages) else (True, []))
           }
           else State_Monad.return (True, [])
      else State_Monad.return (False, snd messages))"

definition nodeReadyForMachine :: "tm_env \<Rightarrow> capi_machine \<Rightarrow> string \<Rightarrow> gate tm" where
  "nodeReadyForMachine E machine providerID = do {
     clientset \<leftarrow> workloadClientForMachine E machine;
     (case clientset of
        Inl e \<Rightarrow> State_Monad.return
          (if e = ApiNotFound then (True, [])
           else (False, ''The workload cluster Kubernetes client is not available while verifying the Node after the machine configuration update.''))
      | Inr kubeconfig \<Rightarrow> do {
          found \<leftarrow> findNodeByProviderID E kubeconfig providerID;
          (case found of
             Inl e \<Rightarrow> State_Monad.return
               (if e = ApiNotFound then (True, [])
                else (False, ''The workload cluster Node could not be observed while verifying it after the machine configuration update.''))
           | Inr node \<Rightarrow> recover_node E kubeconfig node
               (''The workload cluster Node could not be uncordoned after the machine configuration update.'',
                ''The workload cluster Node is not Ready yet after the machine configuration update.''))
        })
   }"

definition FinalizeImageUpgrade :: "tm_env \<Rightarrow> capi_machine \<Rightarrow> string \<Rightarrow> gate tm" where
  "FinalizeImageUpgrade E machine providerID = do {
     clientset \<leftarrow> workloadClientForMachine E machine;
     (case clientset of
        Inl e \<Rightarrow> State_Monad.return
          (False, ''The workload cluster Kubernetes client is not available while finalizing the Talos image update.'')
      | Inr kubeconfig \<Rightarrow> do {
          found \<leftarrow> findNodeByProviderID E kubeconfig providerID;
          (case found of
             Inl e \<Rightarrow> State_Monad.return
               (False, ''The workload cluster Node could not be observed while finalizing the Talos image update.'')
           | Inr node \<Rightarrow> recover_node E kubeconfig node
               (''The workload cluster Node could not be uncordoned after the Talos image update.'',
                ''The workload cluster Node is not Ready yet after the Talos image update.''))
        })
   }"

definition trim_prefix :: "string \<Rightarrow> string \<Rightarrow> string" where
  "trim_prefix s p = (if has_prefix s p then drop (length p) s else s)"

definition kubernetesVersionConverged :: "string \<Rightarrow> string \<Rightarrow> bool" where
  "kubernetesVersionConverged observed desired =
     (let normalize = (\<lambda>value. trim_prefix (trim_space value) ''v''); desiredVersion = normalize desired
      in if desiredVersion = [] then False else normalize observed = desiredVersion)"

definition nodeKubernetesVersionConverged :: "tm_env \<Rightarrow> capi_machine \<Rightarrow> string \<Rightarrow> string \<Rightarrow> gate tm" where
  "nodeKubernetesVersionConverged E machine providerID desiredVersion =
     (if desiredVersion = []
      then State_Monad.return (False, ''The desired Kubernetes version of the Machine is empty; the in-place update is waiting for a valid desired state.'')
      else do {
        clientset \<leftarrow> workloadClientForMachine E machine;
        (case clientset of
           Inl e \<Rightarrow> State_Monad.return
             (False, ''The workload cluster Kubernetes client is not available while verifying the Kubernetes version of the Node.'')
         | Inr kubeconfig \<Rightarrow> do {
             found \<leftarrow> findNodeByProviderID E kubeconfig providerID;
             State_Monad.return
               (case found of
                  Inl e \<Rightarrow> (False, ''The workload cluster Node could not be observed while verifying its Kubernetes version.'')
                | Inr node \<Rightarrow>
                    if \<not> kubernetesVersionConverged (nd_kubeletVersion node) desiredVersion
                    then (False, ''The workload cluster Node has not converged to the desired Kubernetes version yet; waiting for the cluster-wide Kubernetes upgrade owned by the TartControlPlane.'')
                    else (True, []))
           })
      })"

subsection \<open>What a drain promises\<close>

lemma emits_evict_pods [emit_rules]:
  "{e. \<exists>a b. e = PodEvict k a b} \<subseteq> S \<Longrightarrow> emits (evict_pods L E k pods evicted saw) S"
proof (induction pods arbitrary: evicted saw)
  case (Cons pod pods)
  then show ?case by (auto intro!: emit_rules split: api_error.splits option.splits)
qed (simp add: emits_return)

lemma emits_observe_pending [emit_rules]:
  "{e. \<exists>a b. e = PodGet k a b} \<subseteq> S \<Longrightarrow> emits (observe_pending E k pods) S"
proof (induction E k pods rule: observe_pending.induct)
  case (2 E k ns name pods)
  then show ?case by (auto intro!: emit_rules split: api_error.splits option.splits)
qed (simp add: emits_return)

lemma emits_wait_pending [emit_rules]:
  "insert Tick {e. \<exists>a b. e = PodGet k a b} \<subseteq> S \<Longrightarrow> emits (wait_pending n E k pods) S"
proof (induction n arbitrary: pods)
  case (Suc n)
  then show ?case by (auto intro!: emit_rules split: sum.splits list.splits)
qed (simp add: emits_return)

text \<open>A pod that is seen is gone when the observation no longer returns it.\<close>

definition pod_gone :: "tm_env \<Rightarrow> string \<Rightarrow> tm_event list \<Rightarrow> tm_event list \<Rightarrow> evictedPod \<Rightarrow> bool" where
  "pod_gone E k tr new p \<longleftrightarrow>
     (\<exists>pre post. new = pre @ PodGet k (fst p) (snd p) # post \<and>
        te_write E (tr @ pre) (PodGet k (fst p) (snd p)) = Some ApiNotFound)"

lemma pod_gone_pre: "pod_gone E k (tr @ a) b p \<Longrightarrow> pod_gone E k tr (a @ b) p"
  unfolding pod_gone_def by (metis append.assoc)

lemma pod_gone_post: "pod_gone E k tr a p \<Longrightarrow> pod_gone E k tr (a @ b) p"
  unfolding pod_gone_def by (metis append.assoc append_Cons)

lemma observe_pending_gone:
  "run_state (observe_pending E k pods) tr = (Inr left, tr @ new) \<Longrightarrow>
     \<forall>p \<in> set pods. p \<in> set left \<or> pod_gone E k tr new p"
proof (induction pods arbitrary: tr left new)
  case (Cons pod pods)
  obtain ns name where pod: "pod = (ns, name)" by fastforce
  let ?g = "PodGet k ns name"
  obtain r t1 where sub: "run_state (observe_pending E k pods) (tr @ [?g]) = (r, t1)" by fastforce
  from emitsD[OF emits_observe_pending[OF order_refl] sub] obtain n1 where t1: "t1 = (tr @ [?g]) @ n1" by blast
  have new: "new = ?g # n1" if "tr @ new = t1" using that t1 by simp
  show ?case
  proof (cases "te_write E tr ?g")
    case None
    with Cons.prems pod sub obtain ps where "r = Inr ps" "left = (ns, name) # ps" "tr @ new = t1"
      by (cases r) (auto simp: api_write_def)
    then have "\<forall>p \<in> set pods. p \<in> set ps \<or> pod_gone E k (tr @ [?g]) n1 p"
      using Cons.IH[of "tr @ [?g]" ps n1] sub t1 by simp
    with \<open>left = (ns, name) # ps\<close> pod_gone_pre[of E k tr "[?g]" n1] new[OF \<open>tr @ new = t1\<close>] pod
    show ?thesis by auto
  next
    case (Some e)
    show ?thesis
    proof (cases "e = ApiNotFound")
      case True
      with Cons.prems pod Some sub have "r = Inr left" "tr @ new = t1" by (auto simp: api_write_def)
      with Cons.IH[of "tr @ [?g]" left n1] sub t1 have "\<forall>p \<in> set pods. p \<in> set left \<or> pod_gone E k (tr @ [?g]) n1 p" by simp
      moreover have "pod_gone E k tr new (ns, name)"
        using Some True new \<open>tr @ new = t1\<close> unfolding pod_gone_def
        by - (rule exI[of _ "[]"], rule exI[of _ n1], simp)
      ultimately show ?thesis using pod_gone_pre[of E k tr "[?g]" n1] new \<open>tr @ new = t1\<close> pod by auto
    next
      case False
      with Cons.prems pod Some show ?thesis by (cases e) (auto simp: api_write_def)
    qed
  qed
qed simp

lemma wait_pending_gone:
  "run_state (wait_pending n E k pods) tr = (None, tr @ new) \<Longrightarrow> \<forall>p \<in> set pods. pod_gone E k tr new p"
proof (induction n arbitrary: pods tr new)
  case 0
  then show ?case by (auto split: if_splits)
next
  case (Suc n)
  show ?case
  proof (cases "pods = []")
    case False
    obtain r t1 where ob: "run_state (observe_pending E k pods) tr = (r, t1)" by fastforce
    from emitsD[OF emits_observe_pending[OF order_refl] ob] obtain n1 where t1: "t1 = tr @ n1" by blast
    from Suc.prems False ob obtain left where r: "r = Inr left" by (cases r) auto
    from observe_pending_gone[of E k pods tr left n1] ob t1 r
    have seen: "\<forall>p \<in> set pods. p \<in> set left \<or> pod_gone E k tr n1 p" by simp
    show ?thesis
    proof (cases left)
      case Nil
      with Suc.prems False ob r t1 have "new = n1" by simp
      with seen Nil show ?thesis by simp
    next
      case (Cons q qs)
      with Suc.prems False ob r t1
      have run: "run_state (wait_pending n E k left) ((tr @ n1) @ [Tick]) = (None, tr @ new)" by (auto split: if_splits)
      from emitsD[OF emits_wait_pending[OF order_refl] run] obtain n2 where n2: "new = n1 @ Tick # n2" by auto
      from Suc.IH[of left "(tr @ n1) @ [Tick]" n2] run n2
      have "\<forall>p \<in> set left. pod_gone E k ((tr @ n1) @ [Tick]) n2 p" by simp
      then have "\<forall>p \<in> set left. pod_gone E k tr new p"
        using pod_gone_pre[of E k tr "n1 @ [Tick]" n2] n2 by simp
      moreover have "\<forall>p. pod_gone E k tr n1 p \<longrightarrow> pod_gone E k tr new p"
        using pod_gone_post n2 by blast
      ultimately show ?thesis using seen by blast
    qed
  qed simp
qed

text \<open>The answer to the eviction of a pod.\<close>

definition evict_answered :: "tm_env \<Rightarrow> string \<Rightarrow> tm_event list \<Rightarrow> tm_event list \<Rightarrow> workload_pod \<Rightarrow> api_error option \<Rightarrow> bool" where
  "evict_answered E k tr new pod a \<longleftrightarrow>
     (\<exists>pre post. new = pre @ PodEvict k (pd_namespace pod) (pd_name pod) # post \<and>
        te_write E (tr @ pre) (PodEvict k (pd_namespace pod) (pd_name pod)) = a)"

lemma evict_answered_Cons:
  "evict_answered E k (tr @ [e]) new pod a \<Longrightarrow> evict_answered E k tr (e # new) pod a"
  unfolding evict_answered_def by (metis append.assoc append_Cons append_Nil)

lemma evict_pods_ok:
  "run_state (evict_pods L E k pods evicted saw) tr = (Inr (out, saw'), tr @ new) \<Longrightarrow>
     set evicted \<subseteq> set out \<and> (saw \<longrightarrow> saw') \<and>
     (\<forall>pod \<in> set pods. podRequiresEviction L pod \<longrightarrow>
        (pd_namespace pod, pd_name pod) \<in> set out \<or>
        evict_answered E k tr new pod (Some ApiNotFound) \<or>
        saw' \<and> evict_answered E k tr new pod (Some ApiTooManyRequests))"
proof (induction pods arbitrary: evicted saw tr new)
  case (Cons pod pods)
  let ?e = "PodEvict k (pd_namespace pod) (pd_name pod)"
  show ?case
  proof (cases "podRequiresEviction L pod")
    case False
    with Cons show ?thesis by auto
  next
    case True
    have step: "set ev \<subseteq> set out \<and> (sw \<longrightarrow> saw') \<and>
        (\<forall>p \<in> set pods. podRequiresEviction L p \<longrightarrow> (pd_namespace p, pd_name p) \<in> set out \<or>
           evict_answered E k tr new p (Some ApiNotFound) \<or> saw' \<and> evict_answered E k tr new p (Some ApiTooManyRequests)) \<and>
        (\<exists>n1. new = ?e # n1)"
      if run: "run_state (evict_pods L E k pods ev sw) (tr @ [?e]) = (Inr (out, saw'), tr @ new)" for ev sw
    proof -
      from emitsD[OF emits_evict_pods[OF order_refl] run] obtain n1 where n1: "new = ?e # n1" by auto
      with Cons.IH[of ev sw "tr @ [?e]" n1] run show ?thesis
        using evict_answered_Cons[of E k tr ?e n1] by (fastforce simp: n1)
    qed
    have here: "evict_answered E k tr new pod a" if "te_write E tr ?e = a" "\<exists>n1. new = ?e # n1" for a
      using that unfolding evict_answered_def by (metis append_Nil append_Nil2)
    consider "te_write E tr ?e = None" | "te_write E tr ?e = Some ApiTooManyRequests" | "te_write E tr ?e = Some ApiNotFound"
      using Cons.prems True by (auto simp: api_write_def split: option.splits api_error.splits)
    then show ?thesis
    proof cases
      case 1
      with Cons.prems True
      have "run_state (evict_pods L E k pods (evicted @ [(pd_namespace pod, pd_name pod)]) saw) (tr @ [?e]) = (Inr (out, saw'), tr @ new)"
        by (simp add: api_write_def)
      from step[OF this] show ?thesis by auto
    next
      case 2
      with Cons.prems True have "run_state (evict_pods L E k pods evicted True) (tr @ [?e]) = (Inr (out, saw'), tr @ new)"
        by (simp add: api_write_def)
      from step[OF this] here[OF 2] show ?thesis by auto
    next
      case 3
      with Cons.prems True have "run_state (evict_pods L E k pods evicted saw) (tr @ [?e]) = (Inr (out, saw'), tr @ new)"
        by (simp add: api_write_def)
      from step[OF this] here[OF 3] show ?thesis by auto
    qed
  qed
qed simp

lemma pod_gone_mid: "pod_gone E k (tr @ a) b p \<Longrightarrow> pod_gone E k tr (a @ b @ c) p"
  using pod_gone_pre pod_gone_post by (metis append.assoc)

lemma evict_answered_mid:
  "evict_answered E k (tr @ a) b pod x \<Longrightarrow> evict_answered E k tr (a @ b @ c) pod x"
  unfolding evict_answered_def by (metis append.assoc append_Cons)

text \<open>What became of a pod of the node.\<close>

definition pod_settled :: "k8s_lib \<Rightarrow> tm_env \<Rightarrow> string \<Rightarrow> tm_event list \<Rightarrow> tm_event list \<Rightarrow> bool \<Rightarrow> workload_pod \<Rightarrow> bool" where
  "pod_settled L E k tr new downtime pod \<longleftrightarrow>
     (podRequiresEviction L pod \<longrightarrow>
        pod_gone E k tr new (pd_namespace pod, pd_name pod) \<or>
        evict_answered E k tr new pod (Some ApiNotFound) \<or>
        downtime \<and> evict_answered E k tr new pod (Some ApiTooManyRequests))"

lemma drainNode_settles:
  assumes run: "run_state (drainNode L E k nodeName) tr = (Inr out, tr')"
  shows "\<exists>ps new. tr' = tr @ new \<and> te_list_pods E tr k nodeName = Inr ps \<and>
     (\<forall>pod \<in> set ps. pod_settled L E k tr new (\<not> evictedAll out) pod)"
proof -
  from run obtain ps where ps: "te_list_pods E tr k nodeName = Inr ps"
    by (cases "te_list_pods E tr k nodeName") (auto simp: drainNode_def)
  obtain r t1 where ev: "run_state (evict_pods L E k ps [] False) tr = (r, t1)" by fastforce
  from emitsD[OF emits_evict_pods[OF order_refl] ev] obtain n1 where t1: "t1 = tr @ n1" by blast
  from run ps ev obtain pending saw where r: "r = Inr (pending, saw)" by (cases r) (auto simp: drainNode_def)
  obtain w where w: "run_state (waitForEvictedPods E k pending) t1 = (w, tr')"
    using run ps ev r by (auto simp: drainNode_def split: prod.splits)
  from run ps ev r w have wN: "w = None" and out: "evictedAll out \<longleftrightarrow> \<not> saw"
    by (auto simp: drainNode_def split: option.splits if_splits)
  have "\<exists>n2. tr' = t1 @ n2 \<and> (\<forall>p \<in> set pending. pod_gone E k t1 n2 p)"
  proof (cases "pending = []")
    case True
    with w show ?thesis by (auto simp: waitForEvictedPods_def)
  next
    case False
    with w wN have wp: "run_state (wait_pending drainPolls E k (remdups pending)) t1 = (None, tr')"
      by (simp add: waitForEvictedPods_def)
    from emitsD[OF emits_wait_pending[OF order_refl] wp] obtain n2 where "tr' = t1 @ n2" by blast
    with wait_pending_gone[of drainPolls E k "remdups pending" t1 n2] wp show ?thesis by auto
  qed
  then obtain n2 where n2: "tr' = t1 @ n2" "\<forall>p \<in> set pending. pod_gone E k t1 n2 p" by blast
  from evict_pods_ok[of L E k ps "[]" False tr pending saw n1] ev r t1
  have e: "\<forall>pod \<in> set ps. podRequiresEviction L pod \<longrightarrow> (pd_namespace pod, pd_name pod) \<in> set pending \<or>
      evict_answered E k tr n1 pod (Some ApiNotFound) \<or> saw \<and> evict_answered E k tr n1 pod (Some ApiTooManyRequests)"
    by simp
  have "pod_settled L E k tr (n1 @ n2) (\<not> evictedAll out) pod" if "pod \<in> set ps" for pod
    using e that n2(2) out pod_gone_pre[of E k tr n1 n2] evict_answered_mid[of E k tr "[]" n1 _ _ n2]
    unfolding pod_settled_def t1 by fastforce
  with ps n2(1) t1 show ?thesis by auto
qed

text \<open>Where a restart may go on: there is nothing to drain, or the node was cordoned and every
  pod is settled.\<close>

definition nothing_to_drain :: "tm_env \<Rightarrow> tm_event list \<Rightarrow> capi_machine \<Rightarrow> string \<Rightarrow> bool" where
  "nothing_to_drain E tr machine providerID \<longleftrightarrow>
     run_state (workloadClientForMachine E machine) tr = (Inl ApiNotFound, tr) \<or>
     (\<exists>k. run_state (workloadClientForMachine E machine) tr = (Inr k, tr) \<and>
        run_state (findNodeByProviderID E k providerID) tr = (Inl ApiNotFound, tr))"

definition node_drained ::
  "k8s_lib \<Rightarrow> tm_env \<Rightarrow> tm_event list \<Rightarrow> tm_event list \<Rightarrow> capi_machine \<Rightarrow> string \<Rightarrow> bool" where
  "node_drained L E tr new machine providerID \<longleftrightarrow>
     (\<exists>k node pre evictions ps downtime.
        run_state (workloadClientForMachine E machine) tr = (Inr k, tr) \<and>
        run_state (findNodeByProviderID E k providerID) tr = (Inr node, tr) \<and>
        run_state (cordonNode E k node) tr = (None, tr @ pre) \<and> new = pre @ evictions \<and>
        te_list_pods E (tr @ pre) k (nd_name node) = Inr ps \<and>
        (\<forall>pod \<in> set ps. pod_settled L E k (tr @ pre) evictions downtime pod) \<and>
        (downtime \<longrightarrow> (\<exists>c. run_state (getUpdateTartCluster E machine) (tr @ new) = (Inr c, tr @ new) \<and>
           cs_disruptionPolicy (tc_spec c) = DisruptionPolicyAllowDowntime)))"

lemma workloadClient_reads: "\<exists>r. run_state (workloadClientForMachine E machine) tr = (r, tr)"
  by (simp add: workloadClientForMachine_def)

lemma findNode_reads: "\<exists>r. run_state (findNodeByProviderID E k p) tr = (r, tr)"
  by (simp add: findNodeByProviderID_def)

lemma getUpdateTartCluster_reads: "\<exists>r. run_state (getUpdateTartCluster E machine) tr = (r, tr)"
  by (auto simp: getUpdateTartCluster_def Let_def split: sum.splits)

lemma enforceDrainPolicy_proceeds:
  assumes run: "run_state (enforceDrainPolicy L E machine providerID) tr = ((True, msg), tr')"
  shows "tr' = tr \<and> nothing_to_drain E tr machine providerID \<or>
     (\<exists>new. tr' = tr @ new \<and> node_drained L E tr new machine providerID)"
proof -
  obtain w where w: "run_state (workloadClientForMachine E machine) tr = (w, tr)" using workloadClient_reads by blast
  show ?thesis
  proof (cases w)
    case (Inl e)
    with run w show ?thesis by (auto simp: enforceDrainPolicy_def nothing_to_drain_def split: if_splits)
  next
    case k: (Inr k)
    obtain f where f: "run_state (findNodeByProviderID E k providerID) tr = (f, tr)" using findNode_reads by blast
    show ?thesis
    proof (cases f)
      case (Inl e)
      with run w k f show ?thesis by (auto simp: enforceDrainPolicy_def nothing_to_drain_def split: if_splits)
    next
      case node: (Inr node)
      have "emits (cordonNode E k node) UNIV" unfolding cordonNode_def by (intro emit_rules) auto
      then obtain c pre where c: "run_state (cordonNode E k node) tr = (c, tr @ pre)"
        unfolding emits_def by (metis prod.collapse)
      from run w k f node c have cN: "c = None" by (cases c) (auto simp: enforceDrainPolicy_def)
      obtain d t2 where d: "run_state (drainNode L E k (nd_name node)) (tr @ pre) = (d, t2)" by fastforce
      from run w k f node c cN d obtain out where out: "d = Inr out"
        by (cases d) (auto simp: enforceDrainPolicy_def)
      from drainNode_settles[OF d[unfolded out]] obtain ps ev where
        ev: "t2 = (tr @ pre) @ ev" "te_list_pods E (tr @ pre) k (nd_name node) = Inr ps"
          "\<forall>pod \<in> set ps. pod_settled L E k (tr @ pre) ev (\<not> evictedAll out) pod" by blast
      obtain g where g: "run_state (getUpdateTartCluster E machine) t2 = (g, t2)" using getUpdateTartCluster_reads by blast
      have t': "tr' = tr @ (pre @ ev)" and down: "\<not> evictedAll out \<Longrightarrow> \<exists>x. g = Inr x \<and>
          cs_disruptionPolicy (tc_spec x) = DisruptionPolicyAllowDowntime"
        using run w k f node c cN d out ev(1) g
        by (auto simp: enforceDrainPolicy_def split: if_splits sum.splits)
      have "node_drained L E tr (pre @ ev) machine providerID"
        unfolding node_drained_def
      proof (intro exI conjI)
        show "run_state (workloadClientForMachine E machine) tr = (Inr k, tr)" using w k by simp
        show "run_state (findNodeByProviderID E k providerID) tr = (Inr node, tr)" using f node by simp
        show "run_state (cordonNode E k node) tr = (None, tr @ pre)" using c cN by simp
        show "te_list_pods E (tr @ pre) k (nd_name node) = Inr ps" by (rule ev)
        show "\<forall>pod \<in> set ps. pod_settled L E k (tr @ pre) ev (\<not> evictedAll out) pod" by (rule ev)
        show "\<not> evictedAll out \<longrightarrow> (\<exists>c. run_state (getUpdateTartCluster E machine) (tr @ pre @ ev) = (Inr c, tr @ pre @ ev) \<and>
           cs_disruptionPolicy (tc_spec c) = DisruptionPolicyAllowDowntime)"
          using down g ev(1) by auto
      qed simp
      with t' show ?thesis by blast
    qed
  qed
qed

text \<open>A pod that is terminating already is neither evicted nor waited for.\<close>

lemma terminating_pods_skipped:
  assumes "te_list_pods E tr k nodeName = Inr ps" "\<forall>pod \<in> set ps. pd_deleting pod"
  shows "run_state (drainNode L E k nodeName) tr = (Inr \<lparr>evictedAll = True, pdbBlockedOnly = False\<rparr>, tr)"
proof -
  have "run_state (evict_pods L E k ps [] False) tr = (Inr ([], False), tr)"
    using assms(2) by (induction ps) (simp_all add: podRequiresEviction_def)
  with assms(1) show ?thesis by (simp add: drainNode_def waitForEvictedPods_def)
qed

end
