(* ===== verification/UpdateGate.thy ===== *)
theory UpdateGate
  imports Drain Quorum
begin

section \<open>The etcd gate of a restart\<close>

text \<open>
  The control-plane part of \<open>controller/runtimeextension/update.go\<close>: before a control-plane
  node restarts, every other control-plane machine of the cluster has to be ready and every
  etcd member has to be one of these machines, observed healthy. Errors are \<open>False\<close> or
  \<open>None\<close>: the caller only asks whether there is one.
\<close>

definition isControlPlaneMachine :: "k8s_lib \<Rightarrow> capi_machine \<Rightarrow> bool" where
  "isControlPlaneMachine L machine \<longleftrightarrow> map_of (mt_labels (cm_meta machine)) (lib_control_plane_label L) \<noteq> None"

definition rpc_etcd_status :: "tm_env \<Rightarrow> string \<Rightarrow> talos_auth \<Rightarrow> (rpc_error + EtcdStatus) tm" where
  "rpc_etcd_status E endpoint auth =
     call (Rpc endpoint auth RpcEtcdStatus) (\<lambda>tr. te_etcd_status E tr (Rpc endpoint auth RpcEtcdStatus))"

definition rpc_etcd_members :: "tm_env \<Rightarrow> string \<Rightarrow> talos_auth \<Rightarrow> (rpc_error + EtcdMember list) tm" where
  "rpc_etcd_members E endpoint auth =
     call (Rpc endpoint auth RpcEtcdMembers) (\<lambda>tr. te_etcd_members E tr (Rpc endpoint auth RpcEtcdMembers))"

fun survivors_scan :: "k8s_lib \<Rightarrow> capi_machine \<Rightarrow> capi_machine list \<Rightarrow> capi_machine list \<Rightarrow> bool \<Rightarrow> capi_machine list option" where
  "survivors_scan L target [] acc targetFound = (if \<not> targetFound then None else Some acc)"
| "survivors_scan L target (machine # machines) acc targetFound =
     (if cm_clusterName machine \<noteq> cm_clusterName target \<or> \<not> isControlPlaneMachine L machine
      then survivors_scan L target machines acc targetFound
      else if mt_deletionTimestamp (cm_meta machine) \<noteq> None then None
      else if mt_uid (cm_meta machine) = mt_uid (cm_meta target)
      then if targetFound then None else survivors_scan L target machines acc True
      else if map_get (mt_annotations (cm_meta machine)) (lib_update_in_progress L) \<noteq> [] then None
      else if (case lib_find_condition L (cm_conditions machine) (lib_machine_ready L) of
                 None \<Rightarrow> True | Some c \<Rightarrow> cond_status c \<noteq> ConditionTrue) then None
      else survivors_scan L target machines (acc @ [machine]) targetFound)"

definition controlPlaneUpgradeSurvivors :: "k8s_lib \<Rightarrow> tm_env \<Rightarrow> capi_machine \<Rightarrow> capi_machine list option tm" where
  "controlPlaneUpgradeSurvivors L E target = do {
     listed \<leftarrow> query (\<lambda>tr. te_list_capi_machines E tr (mt_namespace (cm_meta target)));
     State_Monad.return
       (case listed of Inl _ \<Rightarrow> None | Inr machines \<Rightarrow> survivors_scan L target machines [] False)
   }"

fun member_ids :: "EtcdMember list \<Rightarrow> 64 word list \<Rightarrow> 64 word list option" where
  "member_ids [] ids = Some ids"
| "member_ids (m # ms) ids =
     (if em_id m = 0 \<or> em_learner m then None
      else if em_id m \<in> set ids then None
      else member_ids ms (em_id m # ids))"

definition validateControlPlaneEtcdMembers :: "EtcdMember list \<Rightarrow> 64 word list option" where
  "validateControlPlaneEtcdMembers members =
     (case member_ids members [] of None \<Rightarrow> None
      | Some ids \<Rightarrow> if length ids = 0 then None else Some ids)"

definition controlPlaneEtcdHealthy :: "EtcdStatus \<Rightarrow> bool" where
  "controlPlaneEtcdHealthy status \<longleftrightarrow> es_memberID status \<noteq> 0 \<and> es_leader status \<noteq> 0 \<and> length (es_errors status) = 0"

definition validateUpdateProviderOwner :: "k8s_lib \<Rightarrow> TartMachine \<Rightarrow> capi_machine \<Rightarrow> bool" where
  "validateUpdateProviderOwner L providerMachine machine \<longleftrightarrow>
     (let mm = cm_meta machine; owners = mt_owners (m_meta providerMachine)
      in \<not> (mt_namespace mm = [] \<or> mt_name mm = [] \<or> mt_uid mm = []) \<and>
         mt_namespace (m_meta providerMachine) = mt_namespace mm \<and>
         (case owners of
            [owner] \<Rightarrow> own_apiVersion owner = lib_capi_group_version L \<and> own_kind owner = CAPIMachineKind \<and>
              own_name owner = mt_name mm \<and> own_uid owner = mt_uid mm \<and> own_controller owner = Some True
          | _ \<Rightarrow> False))"

datatype update_bootstrap_error =
    errUpdateBootstrapUnavailable | errUpdateBootstrapContractInvalid | UpdateBootstrapApi api_error

definition bootstrapConfigurationWithPolicy ::
  "tm_env \<Rightarrow> capi_machine \<Rightarrow> (update_bootstrap_error + TartBootstrapConfig \<times> string) tm" where
  "bootstrapConfigurationWithPolicy E machine =
     (let ref = cm_configRef machine; ns = mt_namespace (cm_meta machine)
      in if cr_apiGroup ref \<noteq> bootstrap_group \<or> cr_kind ref \<noteq> TartBootstrapConfigKind \<or> cr_name ref = []
         then State_Monad.return (Inl errUpdateBootstrapUnavailable)
         else do {
           found \<leftarrow> query (\<lambda>tr. te_get_bootstrap_config E tr ns (cr_name ref));
           (case found of
              Inl e \<Rightarrow> State_Monad.return (Inl (if e = ApiNotFound then errUpdateBootstrapUnavailable else UpdateBootstrapApi e))
            | Inr config \<Rightarrow>
                if trim_space (bcst_dataSecretName (bc_status config)) = []
                then State_Monad.return (Inl errUpdateBootstrapUnavailable)
                else do {
                  secret \<leftarrow> query (\<lambda>tr. te_get_secret E tr ns (bcst_dataSecretName (bc_status config)));
                  State_Monad.return
                    (case secret of
                       Inl e \<Rightarrow> Inl (if e = ApiNotFound then errUpdateBootstrapUnavailable else UpdateBootstrapApi e)
                     | Inr s \<Rightarrow>
                         if \<not> IsContractSecret (Some s) (map_get (mt_labels (bc_meta config)) ClusterNameLabel) (mt_uid (bc_meta config))
                         then Inl errUpdateBootstrapContractInvalid
                         else Inr (config, map_get (sec_data s) BootstrapSecretKey))
                })
         })"

text \<open>The observation of a machine through its own Talos endpoint; \<open>None\<close> is an error.\<close>

definition observeControlPlaneEtcdStatus :: "k8s_lib \<Rightarrow> tm_env \<Rightarrow> capi_machine \<Rightarrow> EtcdStatus option tm" where
  "observeControlPlaneEtcdStatus L E machine =
     (let ref = cm_infrastructureRef machine; ns = mt_namespace (cm_meta machine)
      in if cr_apiGroup ref \<noteq> infra_group \<or> cr_kind ref \<noteq> TartMachineKind \<or> cr_name ref = []
         then State_Monad.return None
         else do {
           found \<leftarrow> query (\<lambda>tr. te_get_tart_machine E tr ns (cr_name ref));
           (case found of
              Inl _ \<Rightarrow> State_Monad.return None
            | Inr providerMachine \<Rightarrow>
                if \<not> validateUpdateProviderOwner L providerMachine machine then State_Monad.return None
                else (case mst_hostRef (m_status providerMachine) of
                  None \<Rightarrow> State_Monad.return None
                | Some hostName \<Rightarrow>
                    if hostName = [] then State_Monad.return None
                    else do {
                      foundHost \<leftarrow> query (\<lambda>tr. te_get_host E tr hostName);
                      (case foundHost of
                         Inl _ \<Rightarrow> State_Monad.return None
                       | Inr providerHost \<Rightarrow>
                           if (case hs_consumerRef (h_spec providerHost) of
                                 None \<Rightarrow> True | Some c \<Rightarrow> ref_uid c \<noteq> mt_uid (m_meta providerMachine))
                           then State_Monad.return None
                           else
                             (let endpoint = HostTalosEndpoint providerHost
                              in if endpoint = [] then State_Monad.return None
                                 else do {
                                   boot \<leftarrow> bootstrapConfigurationWithPolicy E machine;
                                   (case boot of
                                      Inl _ \<Rightarrow> State_Monad.return None
                                    | Inr (_, configuration) \<Rightarrow> do {
                                        err \<leftarrow> dial E endpoint (AuthConfiguration configuration);
                                        (case err of
                                           Some _ \<Rightarrow> State_Monad.return None
                                         | None \<Rightarrow> do {
                                             status \<leftarrow> rpc_etcd_status E endpoint (AuthConfiguration configuration);
                                             State_Monad.return (case status of Inl _ \<Rightarrow> None | Inr s \<Rightarrow> Some s)
                                           })
                                      })
                                 }))
                    }))
         })"

text \<open>The loop over the survivors: the IDs that were observed, and how many are healthy.\<close>

fun check_survivors ::
  "k8s_lib \<Rightarrow> tm_env \<Rightarrow> 64 word list \<Rightarrow> capi_machine list \<Rightarrow> 64 word list \<Rightarrow> int \<Rightarrow> (64 word list \<times> int) option tm" where
  "check_survivors L E memberIDs [] observed healthy = State_Monad.return (Some (observed, healthy))"
| "check_survivors L E memberIDs (machine # machines) observed healthy = do {
     status \<leftarrow> observeControlPlaneEtcdStatus L E machine;
     (case status of
        None \<Rightarrow> State_Monad.return None
      | Some s \<Rightarrow>
          if \<not> controlPlaneEtcdHealthy s then State_Monad.return None
          else if es_memberID s \<notin> set memberIDs then State_Monad.return None
          else if es_memberID s \<in> set observed then State_Monad.return None
          else check_survivors L E memberIDs machines (es_memberID s # observed) (healthy + 1))
   }"

text \<open>\<open>True\<close>: no error. \<open>endpoint\<close> and \<open>auth\<close> are those of \<open>targetClient\<close>.\<close>

definition controlPlaneUpgradeSafe ::
  "k8s_lib \<Rightarrow> tm_env \<Rightarrow> capi_machine \<Rightarrow> string \<Rightarrow> talos_auth \<Rightarrow> bool tm" where
  "controlPlaneUpgradeSafe L E target endpoint auth =
     (let meta = cm_meta target
      in if mt_namespace meta = [] \<or> mt_name meta = [] \<or> mt_uid meta = [] \<or> cm_clusterName target = []
         then State_Monad.return False
         else do {
           survivors \<leftarrow> controlPlaneUpgradeSurvivors L E target;
           (case survivors of
              None \<Rightarrow> State_Monad.return False
            | Some controlPlaneMachines \<Rightarrow> do {
                listed \<leftarrow> rpc_etcd_members E endpoint auth;
                (case listed of
                   Inl _ \<Rightarrow> State_Monad.return False
                 | Inr members \<Rightarrow>
                     (case validateControlPlaneEtcdMembers members of
                        None \<Rightarrow> State_Monad.return False
                      | Some memberIDs \<Rightarrow>
                          if length members \<noteq> length controlPlaneMachines + 1 then State_Monad.return False
                          else do {
                            status \<leftarrow> rpc_etcd_status E endpoint auth;
                            (case status of
                               Inl _ \<Rightarrow> State_Monad.return False
                             | Inr targetStatus \<Rightarrow>
                                 if es_memberID targetStatus \<notin> set memberIDs then State_Monad.return False
                                 else if \<not> controlPlaneEtcdHealthy targetStatus then State_Monad.return False
                                 else do {
                                   checked \<leftarrow> check_survivors L E memberIDs controlPlaneMachines [es_memberID targetStatus] 1;
                                   State_Monad.return
                                     (case checked of None \<Rightarrow> False
                                      | Some (_, healthyMembers) \<Rightarrow>
                                          CanTemporarilyDisruptMember
                                            \<lparr>obs_memberCount = int (length members), obs_healthyMemberCount = healthyMembers,
                                             obs_targetHealthy = True, obs_targetHealthObserved = True\<rparr>)
                                 })
                          }))
              })
         })"

subsection \<open>What the gate proves\<close>

lemma member_ids_Some:
  "member_ids ms ids = Some out \<Longrightarrow> distinct ids \<Longrightarrow>
     out = rev (map em_id ms) @ ids \<and> distinct out \<and> (\<forall>m \<in> set ms. em_id m \<noteq> 0 \<and> \<not> em_learner m)"
proof (induction ms arbitrary: ids)
  case (Cons m ms)
  from Cons.prems(1) have ok: "em_id m \<noteq> 0" "\<not> em_learner m" "em_id m \<notin> set ids" "member_ids ms (em_id m # ids) = Some out"
    by (auto split: if_splits)
  with Cons.IH[OF ok(4)] Cons.prems(2) show ?case by (fastforce simp: disjoint_iff)
qed simp

lemma validate_members:
  "validateControlPlaneEtcdMembers ms = Some ids \<Longrightarrow>
     set ids = set (map em_id ms) \<and> distinct (map em_id ms) \<and> ms \<noteq> [] \<and> (\<forall>m \<in> set ms. em_id m \<noteq> 0 \<and> \<not> em_learner m)"
  using member_ids_Some[of ms "[]"]
  by (auto simp: validateControlPlaneEtcdMembers_def split: option.splits if_splits)

text \<open>The survivors are the ready control-plane machines of the cluster other than the target,
  none of which is being updated or deleted.\<close>

definition cluster_peers :: "k8s_lib \<Rightarrow> capi_machine \<Rightarrow> capi_machine list \<Rightarrow> capi_machine list" where
  "cluster_peers L target machines =
     filter (\<lambda>m. cm_clusterName m = cm_clusterName target \<and> isControlPlaneMachine L m) machines"

definition peer_idle :: "k8s_lib \<Rightarrow> capi_machine \<Rightarrow> bool" where
  "peer_idle L m \<longleftrightarrow>
     map_get (mt_annotations (cm_meta m)) (lib_update_in_progress L) = [] \<and>
     (\<exists>c. lib_find_condition L (cm_conditions m) (lib_machine_ready L) = Some c \<and> cond_status c = ConditionTrue)"

lemma survivors_scan_Cons:
  "survivors_scan L target (m # ms) acc found =
     (if cm_clusterName m \<noteq> cm_clusterName target \<or> \<not> isControlPlaneMachine L m then survivors_scan L target ms acc found
      else if mt_deletionTimestamp (cm_meta m) \<noteq> None then None
      else if mt_uid (cm_meta m) = mt_uid (cm_meta target)
      then if found then None else survivors_scan L target ms acc True
      else if \<not> peer_idle L m then None else survivors_scan L target ms (acc @ [m]) found)"
  by (simp add: peer_idle_def split: option.splits)

lemma survivors_scan_Some:
  "survivors_scan L target machines acc found = Some out \<Longrightarrow>
     out = acc @ filter (\<lambda>m. mt_uid (cm_meta m) \<noteq> mt_uid (cm_meta target)) (cluster_peers L target machines) \<and>
     (\<forall>m \<in> set (cluster_peers L target machines). mt_deletionTimestamp (cm_meta m) = None \<and>
        (mt_uid (cm_meta m) \<noteq> mt_uid (cm_meta target) \<longrightarrow> peer_idle L m)) \<and>
     length (filter (\<lambda>m. mt_uid (cm_meta m) = mt_uid (cm_meta target)) (cluster_peers L target machines)) = (if found then 0 else 1)"
proof (induction machines arbitrary: acc found)
  case Nil
  then show ?case by (simp add: cluster_peers_def split: if_splits)
next
  case (Cons m ms)
  note prem = Cons.prems[unfolded survivors_scan_Cons]
  show ?case
  proof (cases "cm_clusterName m \<noteq> cm_clusterName target \<or> \<not> isControlPlaneMachine L m")
    case True
    then have peers: "cluster_peers L target (m # ms) = cluster_peers L target ms" by (auto simp: cluster_peers_def)
    from prem True have "survivors_scan L target ms acc found = Some out" by (simp split: if_splits)
    from Cons.IH[OF this] show ?thesis unfolding peers .
  next
    case False
    then have peers: "cluster_peers L target (m # ms) = m # cluster_peers L target ms" by (simp add: cluster_peers_def)
    from prem False have alive: "mt_deletionTimestamp (cm_meta m) = None" by (simp split: if_splits)
    show ?thesis
    proof (cases "mt_uid (cm_meta m) = mt_uid (cm_meta target)")
      case True
      with prem False alive have "\<not> found" "survivors_scan L target ms acc True = Some out" by (simp_all split: if_splits)
      with Cons.IH[OF this(2)] True alive show ?thesis unfolding peers by simp
    next
      case other: False
      with prem False alive have "peer_idle L m" "survivors_scan L target ms (acc @ [m]) found = Some out"
        by (simp_all split: if_splits)
      with Cons.IH[OF this(2)] other alive show ?thesis unfolding peers by simp
    qed
  qed
qed

text \<open>A machine answered, through its own endpoint, that it is this healthy member.\<close>

definition seen_healthy :: "k8s_lib \<Rightarrow> tm_env \<Rightarrow> capi_machine \<Rightarrow> 64 word \<Rightarrow> bool" where
  "seen_healthy L E m i \<longleftrightarrow>
     (\<exists>t t' s. run_state (observeControlPlaneEtcdStatus L E m) t = (Some s, t') \<and>
        controlPlaneEtcdHealthy s \<and> es_memberID s = i)"

lemma check_survivors_Some:
  "run_state (check_survivors L E mids ms seen h) tr = (Some (seen', h'), tr') \<Longrightarrow> distinct seen \<Longrightarrow>
     \<exists>ids. list_all2 (seen_healthy L E) ms ids \<and> seen' = rev ids @ seen \<and> distinct seen' \<and>
       set ids \<subseteq> set mids \<and> h' = h + int (length ms)"
proof (induction ms arbitrary: seen h tr)
  case (Cons m ms)
  obtain st t1 where ob: "run_state (observeControlPlaneEtcdStatus L E m) tr = (st, t1)" by fastforce
  from Cons.prems(1) ob obtain s where s: "st = Some s" by (cases st) auto
  with Cons.prems(1) ob have ok: "controlPlaneEtcdHealthy s" "es_memberID s \<in> set mids" "es_memberID s \<notin> set seen"
      "run_state (check_survivors L E mids ms (es_memberID s # seen) (h + 1)) t1 = (Some (seen', h'), tr')"
    by (auto split: if_splits)
  from Cons.IH[OF ok(4)] ok(3) Cons.prems(2) obtain ids where
    "list_all2 (seen_healthy L E) ms ids" "seen' = rev ids @ es_memberID s # seen" "distinct seen'"
    "set ids \<subseteq> set mids" "h' = h + 1 + int (length ms)" by auto
  moreover have "seen_healthy L E m (es_memberID s)" using ob s ok(1) unfolding seen_healthy_def by blast
  ultimately show ?case using ok(2) by (intro exI[of _ "es_memberID s # ids"]) auto
qed simp

lemma controlPlaneUpgradeSafe_proves:
  assumes run: "run_state (controlPlaneUpgradeSafe L E target endpoint auth) tr = (True, tr')"
  shows "\<exists>machines members tid ids.
     te_list_capi_machines E tr (mt_namespace (cm_meta target)) = Inr machines \<and>
     (\<forall>m \<in> set (cluster_peers L target machines). mt_deletionTimestamp (cm_meta m) = None) \<and>
     te_etcd_members E tr (Rpc endpoint auth RpcEtcdMembers) = Inr members \<and>
     (\<forall>m \<in> set members. em_id m \<noteq> 0 \<and> \<not> em_learner m) \<and>
     distinct (map em_id members) \<and> set (map em_id members) = set (tid # ids) \<and> distinct (tid # ids) \<and>
     list_all2 (\<lambda>m i. peer_idle L m \<and> seen_healthy L E m i)
       (filter (\<lambda>m. mt_uid (cm_meta m) \<noteq> mt_uid (cm_meta target)) (cluster_peers L target machines)) ids \<and>
     (length members = 1 \<or> 3 \<le> length members)"
proof -
  define t1 where "t1 = tr @ [Rpc endpoint auth RpcEtcdMembers]"
  define t2 where "t2 = t1 @ [Rpc endpoint auth RpcEtcdStatus]"
  from run obtain machines where ms: "te_list_capi_machines E tr (mt_namespace (cm_meta target)) = Inr machines"
    by (cases "te_list_capi_machines E tr (mt_namespace (cm_meta target))")
       (auto simp: controlPlaneUpgradeSafe_def controlPlaneUpgradeSurvivors_def Let_def split: if_splits)
  note simps = controlPlaneUpgradeSafe_def controlPlaneUpgradeSurvivors_def Let_def ms rpc_etcd_members_def rpc_etcd_status_def
  from run obtain peers where peers: "survivors_scan L target machines [] False = Some peers"
    by (cases "survivors_scan L target machines [] False") (auto simp: simps split: if_splits)
  from run peers obtain members where mem: "te_etcd_members E tr (Rpc endpoint auth RpcEtcdMembers) = Inr members"
    by (cases "te_etcd_members E tr (Rpc endpoint auth RpcEtcdMembers)") (auto simp: simps split: if_splits)
  from run peers mem obtain mids where mids: "validateControlPlaneEtcdMembers members = Some mids"
    by (cases "validateControlPlaneEtcdMembers members") (auto simp: simps split: if_splits)
  from run peers mem mids have len: "length members = length peers + 1" by (auto simp: simps split: if_splits)
  from run peers mem mids len obtain st where st: "te_etcd_status E t1 (Rpc endpoint auth RpcEtcdStatus) = Inr st"
    by (cases "te_etcd_status E t1 (Rpc endpoint auth RpcEtcdStatus)") (auto simp: simps t1_def split: if_splits)
  from run peers mem mids len st have tgt: "es_memberID st \<in> set mids" by (auto simp: simps t1_def split: if_splits)
  obtain c t3 where c: "run_state (check_survivors L E mids peers [es_memberID st] 1) t2 = (c, t3)" by fastforce
  from run peers mem mids len st tgt c obtain seen h where ch: "c = Some (seen, h)"
      and can: "CanTemporarilyDisruptMember \<lparr>obs_memberCount = int (length members), obs_healthyMemberCount = h,
        obs_targetHealthy = True, obs_targetHealthObserved = True\<rparr>"
    by (cases c) (auto simp: simps t1_def t2_def split: if_splits)
  from check_survivors_Some[OF c[unfolded ch]] obtain ids where ids: "list_all2 (seen_healthy L E) peers ids"
    "distinct (rev ids @ [es_memberID st])" "set ids \<subseteq> set mids" "h = 1 + int (length peers)" by auto
  from validate_members[OF mids] have vm: "set mids = set (map em_id members)" "distinct (map em_id members)"
    "\<forall>m \<in> set members. em_id m \<noteq> 0 \<and> \<not> em_learner m" by blast+
  have dist: "distinct (es_memberID st # ids)" using ids(2) by auto
  have "set (es_memberID st # ids) = set (map em_id members)"
  proof (rule card_subset_eq)
    show "set (es_memberID st # ids) \<subseteq> set (map em_id members)" using ids(3) tgt vm(1) by auto
    show "card (set (es_memberID st # ids)) = card (set (map em_id members))"
      using distinct_card[OF dist] distinct_card[OF vm(2)] list_all2_lengthD[OF ids(1)] len by simp
  qed simp
  moreover from survivors_scan_Some[OF peers] have scan:
    "peers = filter (\<lambda>m. mt_uid (cm_meta m) \<noteq> mt_uid (cm_meta target)) (cluster_peers L target machines)"
    "\<forall>m \<in> set (cluster_peers L target machines). mt_deletionTimestamp (cm_meta m) = None \<and>
       (mt_uid (cm_meta m) \<noteq> mt_uid (cm_meta target) \<longrightarrow> peer_idle L m)" by simp_all
  then have "\<forall>m \<in> set peers. peer_idle L m" by auto
  then have "list_all2 (\<lambda>m i. peer_idle L m \<and> seen_healthy L E m i) peers ids"
    using ids(1) by (auto simp: list_all2_conv_all_nth)
  moreover have "length members = 1 \<or> 3 \<le> length members"
    using can len ids(4) by (auto simp: CanTemporarilyDisruptMember_def quorumSize_def split: if_splits)
  ultimately show ?thesis using ms mem vm(2,3) dist scan by auto
qed

end
