(* ===== verification/UpdateEngine.thy ===== *)
theory UpdateEngine
  imports UpdateGate
begin

section \<open>In-place updates of a running node\<close>

text \<open>
  \<open>controller/runtimeextension/updateapply.go\<close>: the application of a changed machine
  configuration and of a new installer image. \<open>endpoint\<close> and \<open>auth\<close> are those of the Talos
  client; the time limits of the calls are not modelled (a call that runs into one answers
  with an error).
\<close>

record ConfigurationUpdateOutcome =
  out_done :: bool
  out_retry :: string
  out_failure :: string

definition outcome_retry :: "string \<Rightarrow> ConfigurationUpdateOutcome" where
  "outcome_retry msg = \<lparr>out_done = False, out_retry = msg, out_failure = []\<rparr>"

definition outcome_failure :: "string \<Rightarrow> ConfigurationUpdateOutcome" where
  "outcome_failure msg = \<lparr>out_done = False, out_retry = [], out_failure = msg\<rparr>"

definition outcome_done :: ConfigurationUpdateOutcome where
  "outcome_done = \<lparr>out_done = True, out_retry = [], out_failure = []\<rparr>"

text \<open>A nil gate is \<open>None\<close>; the two durations of the reboot observation are 0 for their defaults.\<close>

record configurationUpdate =
  cu_endpoint :: string
  cu_auth :: talos_auth
  cu_strategy :: ConfigurationApplyStrategy
  cu_desired :: string
  cu_rebootGate :: "gate tm option"
  cu_nodeReady :: "gate tm option"
  cu_endpointGate :: "gate tm option"
  cu_rebootTimeout :: duration
  cu_rebootInterval :: duration

definition defaultRebootObservationTimeout :: duration where "defaultRebootObservationTimeout = 90 * second"
definition defaultRebootObservationInterval :: duration where "defaultRebootObservationInterval = 5 * second"

definition rpc_boot_time :: "tm_env \<Rightarrow> string \<Rightarrow> talos_auth \<Rightarrow> (rpc_error + 64 word) tm" where
  "rpc_boot_time E endpoint auth =
     call (Rpc endpoint auth RpcBootTime) (\<lambda>tr. te_boot_time E tr (Rpc endpoint auth RpcBootTime))"

text \<open>The polling of the boot time. Each round but the last waits for the interval, so that
  after \<open>timeout / interval\<close> rounds the deadline has passed: that many rounds and two more are
  the fuel.\<close>

fun reboot_polls :: "nat \<Rightarrow> tm_env \<Rightarrow> string \<Rightarrow> talos_auth \<Rightarrow> 64 word \<Rightarrow> time \<Rightarrow> bool tm" where
  "reboot_polls 0 E endpoint auth previousBootTime deadline = State_Monad.return False"
| "reboot_polls (Suc n) E endpoint auth previousBootTime deadline = do {
     bootTime \<leftarrow> rpc_boot_time E endpoint auth;
     (if (case bootTime of Inl _ \<Rightarrow> False | Inr b \<Rightarrow> b \<noteq> previousBootTime) then State_Monad.return True
      else do {
        now \<leftarrow> query (te_now E);
        (if deadline < now then State_Monad.return False
         else do {
           done \<leftarrow> query (te_ctx_done E);
           if done then State_Monad.return False
           else do { emit Tick; reboot_polls n E endpoint auth previousBootTime deadline }
         })
      })
   }"

definition observeReboot :: "tm_env \<Rightarrow> configurationUpdate \<Rightarrow> 64 word \<Rightarrow> bool tm" where
  "observeReboot E updater previousBootTime = do {
     let timeout = (if cu_rebootTimeout updater \<le> 0 then defaultRebootObservationTimeout else cu_rebootTimeout updater);
     let interval = (if cu_rebootInterval updater \<le> 0 then defaultRebootObservationInterval else cu_rebootInterval updater);
     now \<leftarrow> query (te_now E);
     reboot_polls (nat (timeout div interval) + 2) E (cu_endpoint updater) (cu_auth updater) previousBootTime (now + timeout)
   }"

definition run_gate :: "gate tm option \<Rightarrow> gate tm" where
  "run_gate g = (case g of None \<Rightarrow> State_Monad.return (True, []) | Some m \<Rightarrow> m)"

definition verifyConfigurationRecovered :: "tm_env \<Rightarrow> configurationUpdate \<Rightarrow> ConfigurationUpdateOutcome tm" where
  "verifyConfigurationRecovered E updater = do {
     err \<leftarrow> rpc E (cu_endpoint updater) (cu_auth updater) RpcServicesHealthy;
     (if err \<noteq> None
      then State_Monad.return (outcome_retry ''The Talos services are not healthy yet after the machine configuration update.'')
      else do {
        (ready, message) \<leftarrow> run_gate (cu_nodeReady updater);
        State_Monad.return (if \<not> ready then outcome_retry message else outcome_done)
      })
   }"

text \<open>From the point where the change is to be applied (lines 110 to 135).\<close>

definition apply_change :: "tm_env \<Rightarrow> configurationUpdate \<Rightarrow> ApplyMode \<Rightarrow> ConfigurationUpdateOutcome tm" where
  "apply_change E updater mode =
     (let endpoint = cu_endpoint updater; auth = cu_auth updater
      in if mode = ApplyModeApplyOnly
         then do {
           err \<leftarrow> rpc E endpoint auth (RpcApply ApplyNoReboot (cu_desired updater));
           State_Monad.return
             (if err \<noteq> None
              then outcome_failure ''The ApplyOnly machine configuration apply failed; the update is stopped without falling back to a reboot.''
              else outcome_retry ''The machine configuration was applied without a reboot; waiting for the node to report the desired configuration.'')
         }
         else do {
           (proceed, message) \<leftarrow> run_gate (cu_rebootGate updater);
           (if \<not> proceed then State_Monad.return (outcome_retry message)
            else do {
              bootTime \<leftarrow> rpc_boot_time E endpoint auth;
              err \<leftarrow> rpc E endpoint auth (RpcApply ApplyStaged (cu_desired updater));
              (if err \<noteq> None
               then State_Monad.return (outcome_failure ''The Talos API rejected the machine configuration apply; the Machine remains stopped for safety.'')
               else do {
                 rerr \<leftarrow> rpc E endpoint auth RpcReboot;
                 (if rerr \<noteq> None
                  then State_Monad.return (outcome_failure ''The Talos API rejected the reboot after the machine configuration apply; the Machine remains stopped for safety.'')
                  else do {
                    observed \<leftarrow> (case bootTime of Inl _ \<Rightarrow> State_Monad.return True
                      | Inr b \<Rightarrow> observeReboot E updater b);
                    State_Monad.return
                      (if \<not> observed
                       then outcome_retry ''The machine configuration was applied; waiting for the node to reboot into the desired configuration.''
                       else outcome_retry ''The machine configuration was applied and the node rebooted; waiting for the desired configuration and Node readiness to be observed.'')
                  })
               })
            })
         })"

definition ApplyConfigurationUpdate :: "tm_env \<Rightarrow> configurationUpdate \<Rightarrow> ConfigurationUpdateOutcome tm" where
  "ApplyConfigurationUpdate E updater =
     (if length (cu_desired updater) = 0
      then State_Monad.return (outcome_failure ''The desired machine configuration is unavailable; the in-place update is stopped.'')
      else do {
        observed \<leftarrow> rpc_text E (cu_endpoint updater) (cu_auth updater) RpcActiveConfiguration;
        (case observed of
           Inl _ \<Rightarrow> State_Monad.return (outcome_retry ''The active Talos machine configuration could not be observed while the in-place update is being prepared.'')
         | Inr active \<Rightarrow>
             (case Evaluate (te_classify_change E) (cu_strategy updater) active (cu_desired updater) of
                Inl _ \<Rightarrow> State_Monad.return (outcome_failure ''The machine configuration difference could not be evaluated safely; the in-place update is stopped.'')
              | Inr decision \<Rightarrow>
                  (case dec_class decision of
                     ChangeInvariantConflict \<Rightarrow> State_Monad.return (outcome_failure (dec_reason decision))
                   | ChangeReprovisionRequired \<Rightarrow> State_Monad.return (outcome_failure (''ReprovisionRequired: '' @ dec_reason decision))
                   | ChangeNone \<Rightarrow> verifyConfigurationRecovered E updater
                   | ChangeUpdatable \<Rightarrow> apply_change E updater (dec_applyMode decision)
                   | ChangeControlPlaneEndpoint \<Rightarrow> do {
                       (proceed, message) \<leftarrow> run_gate (cu_endpointGate updater);
                       if \<not> proceed then State_Monad.return (outcome_retry message)
                       else apply_change E updater (dec_applyMode decision)
                     }
                   | ChangeClassOther _ \<Rightarrow> State_Monad.return (outcome_failure ''The machine configuration difference could not be classified into a recognized change class; the in-place update is stopped.''))))
      })"

definition restart_gate :: "k8s_lib \<Rightarrow> tm_env \<Rightarrow> capi_machine \<Rightarrow> string \<Rightarrow> string \<Rightarrow> talos_auth \<Rightarrow> string \<Rightarrow> gate tm" where
  "restart_gate L E machine providerID endpoint auth message = do {
     safe \<leftarrow> (if isControlPlaneMachine L machine then controlPlaneUpgradeSafe L E machine endpoint auth
              else State_Monad.return True);
     if \<not> safe then State_Monad.return (False, message)
     else enforceDrainPolicy L E machine providerID
   }"

definition PerformConfigurationUpdate ::
  "k8s_lib \<Rightarrow> tm_env \<Rightarrow> capi_machine \<Rightarrow> string \<Rightarrow> string \<Rightarrow> ConfigurationApplyStrategy \<Rightarrow> string \<Rightarrow> talos_auth \<Rightarrow>
     gate tm option \<Rightarrow> ConfigurationUpdateOutcome tm" where
  "PerformConfigurationUpdate L E machine providerID desired strategy endpoint auth endpointGate =
     ApplyConfigurationUpdate E
       \<lparr>cu_endpoint = endpoint, cu_auth = auth, cu_strategy = strategy, cu_desired = desired,
        cu_rebootGate = Some (restart_gate L E machine providerID endpoint auth
          ''The control-plane etcd quorum could not be proven safe for a Talos restart; waiting before the machine configuration reboot.''),
        cu_nodeReady = Some (nodeReadyForMachine E machine providerID),
        cu_endpointGate = endpointGate, cu_rebootTimeout = 0, cu_rebootInterval = 0\<rparr>"

definition PerformImageUpgrade ::
  "k8s_lib \<Rightarrow> tm_env \<Rightarrow> capi_machine \<Rightarrow> string \<Rightarrow> string \<Rightarrow> string \<Rightarrow> talos_auth \<Rightarrow> ConfigurationUpdateOutcome tm" where
  "PerformImageUpgrade L E machine providerID img endpoint auth = do {
     (proceed, retryMessage) \<leftarrow> restart_gate L E machine providerID endpoint auth
       ''The control-plane etcd quorum could not be proven safe for a Talos restart; waiting before the upgrade.'';
     (if \<not> proceed then State_Monad.return (outcome_retry retryMessage)
      else do {
        err \<leftarrow> rpc E endpoint auth (RpcUpgrade img);
        State_Monad.return
          (if err \<noteq> None then outcome_failure ''The Talos API rejected the requested image upgrade; the Machine remains stopped for safety.''
           else outcome_retry ''The Talos image upgrade was requested; waiting for the node to reboot and report the desired version and schematic.'')
      })
   }"

subsection \<open>Which events an update can cause\<close>

text \<open>The events of the gates: reads, cordons and evictions; with the lease of the endpoint
  those of every gate. None of them restarts or reconfigures a node.\<close>

definition drain_events :: "tm_event set" where
  "drain_events = {e. case e of NodeUpdate _ _ \<Rightarrow> True | PodEvict _ _ _ \<Rightarrow> True | PodGet _ _ _ \<Rightarrow> True | Tick \<Rightarrow> True
     | Dial _ _ \<Rightarrow> True
     | Rpc _ _ r \<Rightarrow> r \<in> {RpcInventory, RpcActiveConfiguration, RpcVersion, RpcSchematic, RpcEtcdMembers, RpcEtcdStatus,
         RpcBootTime, RpcServicesHealthy}
     | _ \<Rightarrow> False}"

definition lease_events :: "tm_event set" where "lease_events = range LeaseCreate \<union> range LeasePatch"

definition gate_events :: "tm_event set" where "gate_events = drain_events \<union> lease_events"

lemma drain_events_simps [simp]:
  "NodeUpdate k n \<in> drain_events" "PodEvict k a b \<in> drain_events" "PodGet k a b \<in> drain_events" "Tick \<in> drain_events"
  "Dial ep au \<in> drain_events" "Rpc ep au RpcEtcdStatus \<in> drain_events" "Rpc ep au RpcEtcdMembers \<in> drain_events"
  "Rpc ep au RpcBootTime \<in> drain_events" "Rpc ep au RpcServicesHealthy \<in> drain_events"
  "Rpc ep au RpcActiveConfiguration \<in> drain_events"
  "LeaseCreate l \<notin> drain_events" "LeasePatch l \<notin> drain_events"
  by (auto simp: drain_events_def)

lemma gate_events_simps [simp]:
  "Rpc ep au RpcServicesHealthy \<in> gate_events" "Rpc ep au RpcActiveConfiguration \<in> gate_events"
  "LeaseCreate l \<in> gate_events" "LeasePatch l \<in> gate_events"
  "Rpc ep au RpcReboot \<notin> gate_events" "Rpc ep au (RpcUpgrade i) \<notin> gate_events" "Rpc ep au (RpcApply md c) \<notin> gate_events"
  "Rpc ep au RpcReset \<notin> gate_events" "Rpc ep au RpcShutdown \<notin> gate_events"
  by (auto simp: gate_events_def drain_events_def lease_events_def)

lemma drain_gate: "drain_events \<subseteq> gate_events"
  by (simp add: gate_events_def)

lemma drains_drain: "emits (enforceDrainPolicy L E machine p) drain_events"
  unfolding enforceDrainPolicy_def workloadClientForMachine_def findNodeByProviderID_def cordonNode_def drainNode_def
    waitForEvictedPods_def getUpdateTartCluster_def Let_def
  by (intro emit_rules) auto

lemma drains_etcd_status: "emits (observeControlPlaneEtcdStatus L E m) drain_events"
  unfolding observeControlPlaneEtcdStatus_def bootstrapConfigurationWithPolicy_def rpc_etcd_status_def Let_def
  by (intro emit_rules) auto

lemma drains_check_survivors: "emits (check_survivors L E mids ms seen h) drain_events"
proof (induction ms arbitrary: seen h)
  case (Cons m ms)
  then show ?case by (auto intro!: emit_rules drains_etcd_status split: option.splits)
qed (simp add: emits_return)

lemma drains_safe: "emits (controlPlaneUpgradeSafe L E machine ep au) drain_events"
  unfolding controlPlaneUpgradeSafe_def controlPlaneUpgradeSurvivors_def rpc_etcd_members_def rpc_etcd_status_def Let_def
  by (intro emit_rules drains_check_survivors) auto

lemma drains_restart_gate: "emits (restart_gate L E machine p ep au msg) drain_events"
  unfolding restart_gate_def by (intro emit_rules drains_safe drains_drain)

lemma drains_nodeReady: "emits (nodeReadyForMachine E machine p) drain_events"
  unfolding nodeReadyForMachine_def workloadClientForMachine_def findNodeByProviderID_def recover_node_def uncordonNode_def Let_def
  by (intro emit_rules) auto

lemma drains_reboot_polls: "emits (reboot_polls n E ep au b d) drain_events"
  by (induction n) (auto intro!: emit_rules simp: rpc_boot_time_def)

lemma drains_observeReboot: "emits (observeReboot E u b) drain_events"
  unfolding observeReboot_def Let_def by (intro emit_rules drains_reboot_polls)

lemmas emits_safe = emits_mono[OF drains_safe drain_gate]
lemmas emits_restart_gate = emits_mono[OF drains_restart_gate drain_gate]
lemmas emits_nodeReady = emits_mono[OF drains_nodeReady drain_gate]
lemmas emits_observeReboot = emits_mono[OF drains_observeReboot drain_gate]

subsection \<open>What has to hold before a restart\<close>

definition restart_safe :: "k8s_lib \<Rightarrow> tm_env \<Rightarrow> capi_machine \<Rightarrow> string \<Rightarrow> string \<Rightarrow> talos_auth \<Rightarrow> tm_event list \<Rightarrow> tm_event list \<Rightarrow> bool" where
  "restart_safe L E machine providerID endpoint auth tr new \<longleftrightarrow>
     (\<exists>pre mid. new = pre @ mid \<and>
        (if isControlPlaneMachine L machine
         then run_state (controlPlaneUpgradeSafe L E machine endpoint auth) tr = (True, tr @ pre) else pre = []) \<and>
        (mid = [] \<and> nothing_to_drain E (tr @ pre) machine providerID \<or>
         node_drained L E (tr @ pre) mid machine providerID))"

lemma restart_gate_proceeds:
  assumes run: "run_state (restart_gate L E machine p ep au msg) tr = ((True, m), tr')"
  shows "\<exists>new. tr' = tr @ new \<and> restart_safe L E machine p ep au tr new"
proof -
  let ?safe = "if isControlPlaneMachine L machine then controlPlaneUpgradeSafe L E machine ep au else State_Monad.return True"
  obtain s t1 where s: "run_state ?safe tr = (s, t1)" by fastforce
  have "emits ?safe gate_events" by (intro emit_rules emits_safe)
  from emitsD[OF this s] obtain pre where pre: "t1 = tr @ pre" by blast
  from run s have "s" and d: "run_state (enforceDrainPolicy L E machine p) t1 = ((True, m), tr')"
    by (auto simp: restart_gate_def split: if_splits)
  from enforceDrainPolicy_proceeds[OF d] obtain mid where mid: "tr' = t1 @ mid"
    "mid = [] \<and> nothing_to_drain E t1 machine p \<or> node_drained L E t1 mid machine p" by (metis append_Nil2)
  have "restart_safe L E machine p ep au tr (pre @ mid)"
    unfolding restart_safe_def using s \<open>s\<close> pre mid(2) by (intro exI[of _ pre] exI[of _ mid]) (auto split: if_splits)
  with mid(1) pre show ?thesis by auto
qed

lemma upgrade_only_when_safe:
  assumes run: "run_state (PerformImageUpgrade L E machine p img ep au) tr = (r, tr @ new)"
    and up: "Rpc a b (RpcUpgrade i) \<in> set new"
  shows "\<exists>pre. new = pre @ [Rpc ep au (RpcUpgrade img)] \<and> restart_safe L E machine p ep au tr pre"
proof -
  obtain g m t1 where g: "run_state (restart_gate L E machine p ep au
       ''The control-plane etcd quorum could not be proven safe for a Talos restart; waiting before the upgrade.'') tr = ((g, m), t1)"
    by (metis prod.exhaust)
  from emitsD[OF emits_restart_gate g] obtain pre where pre: "t1 = tr @ pre" "set pre \<subseteq> gate_events" by blast
  have "Rpc a b (RpcUpgrade i) \<notin> set pre" using pre(2) by auto
  with run g pre up have "g" by (cases g) (auto simp: PerformImageUpgrade_def)
  with run g pre have "new = pre @ [Rpc ep au (RpcUpgrade img)]" by (auto simp: PerformImageUpgrade_def rpc_def split: if_splits)
  with restart_gate_proceeds[of L E machine p ep au _ tr m t1] g \<open>g\<close> pre show ?thesis by auto
qed

text \<open>A gate of the endpoint that only reads.\<close>

definition quiet_gate :: "gate tm option \<Rightarrow> bool" where
  "quiet_gate g \<longleftrightarrow> (\<forall>m. g = Some m \<longrightarrow> emits m gate_events)"

lemma emits_run_gate: "quiet_gate g \<Longrightarrow> emits (run_gate g) gate_events"
  by (auto simp: quiet_gate_def run_gate_def intro: emit_rules split: option.splits)

lemma emits_recovered: "quiet_gate (cu_nodeReady u) \<Longrightarrow> emits (verifyConfigurationRecovered E u) gate_events"
  unfolding verifyConfigurationRecovered_def by (intro emit_rules emits_run_gate) auto

text \<open>What a change does to the node under each mode.\<close>

lemma apply_change_run:
  assumes run: "run_state (apply_change E u mode) tr = (r, tr')" and quiet: "quiet_gate (cu_rebootGate u)"
  obtains (only) "mode = ApplyModeApplyOnly" "tr' = tr @ [Rpc (cu_endpoint u) (cu_auth u) (RpcApply ApplyNoReboot (cu_desired u))]"
  | (refused) pre where "mode \<noteq> ApplyModeApplyOnly" "tr' = tr @ pre" "set pre \<subseteq> gate_events"
  | (staged) pre m post where "mode \<noteq> ApplyModeApplyOnly" "run_state (run_gate (cu_rebootGate u)) tr = ((True, m), tr @ pre)"
      "set pre \<subseteq> gate_events"
      "tr' = tr @ pre @ [Rpc (cu_endpoint u) (cu_auth u) RpcBootTime,
         Rpc (cu_endpoint u) (cu_auth u) (RpcApply ApplyStaged (cu_desired u))] @ post"
      "post = [] \<or> (\<exists>rest. post = Rpc (cu_endpoint u) (cu_auth u) RpcReboot # rest \<and> set rest \<subseteq> gate_events)"
proof (cases "mode = ApplyModeApplyOnly")
  case True
  with run have "tr' = tr @ [Rpc (cu_endpoint u) (cu_auth u) (RpcApply ApplyNoReboot (cu_desired u))]"
    by (auto simp: apply_change_def Let_def rpc_def)
  with True only show ?thesis by blast
next
  case mode: False
  obtain g m t1 where g: "run_state (run_gate (cu_rebootGate u)) tr = ((g, m), t1)" by (metis prod.exhaust)
  from emitsD[OF emits_run_gate[OF quiet] g] obtain pre where pre: "t1 = tr @ pre" "set pre \<subseteq> gate_events" by blast
  show ?thesis
  proof (cases g)
    case False
    with run mode g pre show ?thesis by (intro refused) (auto simp: apply_change_def Let_def)
  next
    case True
    define t2 where "t2 = t1 @ [Rpc (cu_endpoint u) (cu_auth u) RpcBootTime, Rpc (cu_endpoint u) (cu_auth u) (RpcApply ApplyStaged (cu_desired u))]"
    let ?e = "Rpc (cu_endpoint u) (cu_auth u) RpcReboot"
    have "\<exists>rest. tr' = t2 @ rest \<and> (rest = [] \<or> (\<exists>r. rest = ?e # r \<and> set r \<subseteq> gate_events))"
    proof (cases "te_rpc E (t1 @ [Rpc (cu_endpoint u) (cu_auth u) RpcBootTime]) (Rpc (cu_endpoint u) (cu_auth u) (RpcApply ApplyStaged (cu_desired u))) = None")
      case False
      with run mode g \<open>g\<close> show ?thesis by (auto simp: apply_change_def Let_def rpc_def rpc_boot_time_def t2_def)
    next
      case ok: True
      show ?thesis
      proof (cases "te_rpc E t2 ?e = None")
        case False
        with run mode g \<open>g\<close> ok show ?thesis by (auto simp: apply_change_def Let_def rpc_def rpc_boot_time_def t2_def)
      next
        case ok2: True
        let ?obs = "case te_boot_time E t1 (Rpc (cu_endpoint u) (cu_auth u) RpcBootTime) of
          Inl _ \<Rightarrow> State_Monad.return True | Inr b \<Rightarrow> observeReboot E u b"
        have "emits ?obs gate_events" by (intro emit_rules emits_observeReboot)
        then obtain x rest where o: "run_state ?obs (t2 @ [?e]) = (x, (t2 @ [?e]) @ rest)" "set rest \<subseteq> gate_events"
          unfolding emits_def by (metis prod.collapse)
        with run mode g \<open>g\<close> ok ok2 have "tr' = (t2 @ [?e]) @ rest"
          by (auto simp: apply_change_def Let_def rpc_def rpc_boot_time_def t2_def)
        with o(2) show ?thesis by auto
      qed
    qed
    then obtain post where "tr' = t2 @ post" "post = [] \<or> (\<exists>r. post = ?e # r \<and> set r \<subseteq> gate_events)" by blast
    with staged[of m pre post] mode g \<open>g\<close> pre show ?thesis by (simp add: t2_def)
  qed
qed

lemma ApplyConfigurationUpdate_run:
  assumes run: "run_state (ApplyConfigurationUpdate E u) tr = (r, tr')"
    and quiet: "quiet_gate (cu_nodeReady u)" "quiet_gate (cu_endpointGate u)"
  obtains (unchanged) pre where "tr' = tr @ pre" "set pre \<subseteq> gate_events"
  | (change) active c reason d pre where
      "te_text E tr (Rpc (cu_endpoint u) (cu_auth u) RpcActiveConfiguration) = Inr active"
      "te_classify_change E active (cu_desired u) = Some (c, reason)" "c \<in> {ChangeUpdatable, ChangeControlPlaneEndpoint}"
      "Decide c reason (cu_strategy u) = Inr d" "set pre \<subseteq> gate_events"
      "run_state (apply_change E u (dec_applyMode d)) (tr @ pre) = (r, tr')"
proof (cases "cu_desired u = []")
  case True
  with run show ?thesis by (intro unchanged[of "[]"]) (auto simp: ApplyConfigurationUpdate_def)
next
  case ne: False
  define e where "e = Rpc (cu_endpoint u) (cu_auth u) RpcActiveConfiguration"
  have e: "e \<in> gate_events" by (simp add: e_def)
  note simps = ApplyConfigurationUpdate_def ne rpc_text_def e_def[symmetric]
  show ?thesis
  proof (cases "te_text E tr e")
    case (Inl x)
    with run e show ?thesis by (intro unchanged[of "[e]"]) (auto simp: simps)
  next
    case act: (Inr active)
    show ?thesis
    proof (cases "Evaluate (te_classify_change E) (cu_strategy u) active (cu_desired u)")
      case (Inl x)
      with run e act show ?thesis by (intro unchanged[of "[e]"]) (auto simp: simps)
    next
      case ev: (Inr d)
      then obtain c reason where c: "te_classify_change E active (cu_desired u) = Some (c, reason)"
        "Decide c reason (cu_strategy u) = Inr d" by (auto simp: Evaluate_def split: option.splits)
      from Decide_class[OF this(2)] have dc: "dec_class d = c" .
      show ?thesis
      proof (cases c)
        case ChangeNone
        with run act ev dc have v: "run_state (verifyConfigurationRecovered E u) (tr @ [e]) = (r, tr')" by (simp add: simps)
        from emitsD[OF emits_recovered[OF quiet(1)] v] obtain rest where "tr' = tr @ (e # rest)" "set rest \<subseteq> gate_events" by auto
        with unchanged[of "e # rest"] e show ?thesis by simp
      next
        case ChangeUpdatable
        with run act ev dc have v: "run_state (apply_change E u (dec_applyMode d)) (tr @ [e]) = (r, tr')" by (simp add: simps)
        with change[of active c reason d "[e]"] act c ChangeUpdatable e show ?thesis by (simp add: e_def)
      next
        case ChangeControlPlaneEndpoint
        obtain g m t1 where g: "run_state (run_gate (cu_endpointGate u)) (tr @ [e]) = ((g, m), t1)" by (metis prod.exhaust)
        from emitsD[OF emits_run_gate[OF quiet(2)] g] obtain pre where pre: "t1 = tr @ e # pre" "set pre \<subseteq> gate_events" by auto
        show ?thesis
        proof (cases g)
          case False
          with run act ev dc ChangeControlPlaneEndpoint g pre e show ?thesis
            by (intro unchanged[of "e # pre"]) (auto simp: simps)
        next
          case True
          with run act ev dc ChangeControlPlaneEndpoint g
          have "run_state (apply_change E u (dec_applyMode d)) t1 = (r, tr')" by (simp add: simps)
          with change[of active c reason d "e # pre"] act c ChangeControlPlaneEndpoint pre e show ?thesis by (simp add: e_def)
        qed
      qed (use run e act ev dc in \<open>auto intro!: unchanged[of "[e]"] simp: simps\<close>)
    qed
  qed
qed

text \<open>A configuration reaches the node only as a change of one of the two classes that keep
  data and identity, with the mode the strategy asks for, and a node restarts only after the
  whole gate has passed, and never under \<open>ApplyOnly\<close>.\<close>

definition wanted_change :: "tm_env \<Rightarrow> configurationUpdate \<Rightarrow> tm_event list \<Rightarrow> bool" where
  "wanted_change E u tr \<longleftrightarrow>
     (\<exists>active c reason. te_text E tr (Rpc (cu_endpoint u) (cu_auth u) RpcActiveConfiguration) = Inr active \<and>
        te_classify_change E active (cu_desired u) = Some (c, reason) \<and> c \<in> {ChangeUpdatable, ChangeControlPlaneEndpoint})"

lemma Decide_mode:
  "Decide c reason strategy = Inr d \<Longrightarrow> c \<in> {ChangeUpdatable, ChangeControlPlaneEndpoint} \<Longrightarrow>
     dec_applyMode d = ApplyModeApplyOnly \<longleftrightarrow> strategy = ConfigurationApplyStrategyApplyOnly"
  by (auto simp: Decide_def ResolveApplyMode_def Let_def split: ConfigurationApplyStrategy.splits if_splits)

lemma configuration_applied:
  assumes run: "run_state (ApplyConfigurationUpdate E u) tr = (r, tr @ new)"
    and quiet: "quiet_gate (cu_nodeReady u)" "quiet_gate (cu_endpointGate u)" "quiet_gate (cu_rebootGate u)"
    and e: "Rpc ep au (RpcApply md c) \<in> set new"
  shows "c = cu_desired u \<and> ep = cu_endpoint u \<and> au = cu_auth u \<and> wanted_change E u tr \<and>
    (md = ApplyNoReboot \<longleftrightarrow> cu_strategy u = ConfigurationApplyStrategyApplyOnly)"
  using run quiet(1,2)
proof (cases rule: ApplyConfigurationUpdate_run)
  case (unchanged pre)
  then show ?thesis using e by auto
next
  case (change active cl reason d pre)
  then have w: "wanted_change E u tr" unfolding wanted_change_def by blast
  from change(6) quiet(3) show ?thesis
  proof (cases rule: apply_change_run)
    case only
    then show ?thesis using e change(3,5) w Decide_mode[OF change(4,3)] by auto
  next
    case (refused pre')
    then show ?thesis using e change(5) by auto
  next
    case (staged pre' m post)
    then show ?thesis using e change(5) w Decide_mode[OF change(4,3)] by auto
  qed
qed

lemma reboot_gated:
  assumes run: "run_state (ApplyConfigurationUpdate E u) tr = (r, tr @ new)"
    and quiet: "quiet_gate (cu_nodeReady u)" "quiet_gate (cu_endpointGate u)" "quiet_gate (cu_rebootGate u)"
    and e: "Rpc ep au RpcReboot \<in> set new"
  shows "cu_strategy u \<noteq> ConfigurationApplyStrategyApplyOnly \<and> wanted_change E u tr \<and>
    (\<exists>pre gate m post. run_state (run_gate (cu_rebootGate u)) (tr @ pre) = ((True, m), tr @ pre @ gate) \<and>
       new = pre @ gate @ [Rpc ep au RpcBootTime, Rpc ep au (RpcApply ApplyStaged (cu_desired u)), Rpc ep au RpcReboot] @ post)"
  using run quiet(1,2)
proof (cases rule: ApplyConfigurationUpdate_run)
  case (unchanged pre)
  then show ?thesis using e by auto
next
  case (change active cl reason d pre)
  then have w: "wanted_change E u tr" unfolding wanted_change_def by blast
  from change(6) quiet(3) show ?thesis
  proof (cases rule: apply_change_run)
    case only
    then show ?thesis using e change(5) by auto
  next
    case (refused pre')
    then show ?thesis using e change(5) by auto
  next
    case (staged pre' m post)
    then have "Rpc ep au RpcReboot \<in> set post" using e change(5) by auto
    with staged(5) obtain rest where rest: "post = Rpc (cu_endpoint u) (cu_auth u) RpcReboot # rest" "set rest \<subseteq> gate_events"
      by auto
    from rest(2) have "Rpc ep au RpcReboot \<notin> set rest" by auto
    with rest(1) \<open>Rpc ep au RpcReboot \<in> set post\<close> have "ep = cu_endpoint u" "au = cu_auth u" by auto
    with rest(1) staged w Decide_mode[OF change(4,3)] show ?thesis
      by (intro conjI exI[of _ pre] exI[of _ pre'] exI[of _ m] exI[of _ rest]) auto
  qed
qed

text \<open>For the update the machine controller performs.\<close>

lemma machine_reboot_safe:
  assumes run: "run_state (PerformConfigurationUpdate L E machine p desired strategy ep au g) tr = (r, tr @ new)"
    and quiet: "quiet_gate g" and e: "Rpc ep' au' RpcReboot \<in> set new"
  shows "strategy \<noteq> ConfigurationApplyStrategyApplyOnly \<and>
    (\<exists>pre gate post. restart_safe L E machine p ep au (tr @ pre) gate \<and>
       new = pre @ gate @ [Rpc ep au RpcBootTime, Rpc ep au (RpcApply ApplyStaged desired), Rpc ep au RpcReboot] @ post)"
proof -
  let ?u = "\<lparr>cu_endpoint = ep, cu_auth = au, cu_strategy = strategy, cu_desired = desired,
        cu_rebootGate = Some (restart_gate L E machine p ep au
          ''The control-plane etcd quorum could not be proven safe for a Talos restart; waiting before the machine configuration reboot.''),
        cu_nodeReady = Some (nodeReadyForMachine E machine p),
        cu_endpointGate = g, cu_rebootTimeout = 0, cu_rebootInterval = 0\<rparr>"
  have q: "quiet_gate (cu_nodeReady ?u)" "quiet_gate (cu_endpointGate ?u)" "quiet_gate (cu_rebootGate ?u)"
    using quiet emits_restart_gate emits_nodeReady by (simp_all add: quiet_gate_def)
  from reboot_gated[OF run[unfolded PerformConfigurationUpdate_def] q e] obtain pre gate m post where
    c: "strategy \<noteq> ConfigurationApplyStrategyApplyOnly" and
    g: "run_state (restart_gate L E machine p ep au
          ''The control-plane etcd quorum could not be proven safe for a Talos restart; waiting before the machine configuration reboot.'')
        (tr @ pre) = ((True, m), (tr @ pre) @ gate)" and
    new: "new = pre @ gate @ [Rpc ep' au' RpcBootTime, Rpc ep' au' (RpcApply ApplyStaged desired), Rpc ep' au' RpcReboot] @ post"
    by (auto simp: run_gate_def)
  have "Rpc ep' au' (RpcApply ApplyStaged desired) \<in> set new" using new by simp
  from configuration_applied[OF run[unfolded PerformConfigurationUpdate_def] q this] have "ep' = ep" "au' = au" by simp_all
  with c restart_gate_proceeds[OF g] new show ?thesis by (intro conjI exI[of _ pre] exI[of _ gate] exI[of _ post]) auto
qed

end
