(* ===== verification/EndpointLease.thy ===== *)
theory EndpointLease
  imports UpdateEngine Sha256
begin

section \<open>The order of control-plane endpoint updates\<close>

text \<open>
  The lease and the cluster-wide gate of \<open>controller/tartmachine/configuration_update.go\<close>:
  one machine of a cluster at a time moves to a new control-plane endpoint, the control
  planes in the order of their names and the workers after all of them.
\<close>

definition endpointLeaseDuration :: int where "endpointLeaseDuration = 15 * 60"
definition endpointLeasePrefix :: string where "endpointLeasePrefix = ''tart-control-plane-endpoint-''"

definition endpointLeaseName :: "string \<Rightarrow> string" where
  "endpointLeaseName clusterName = endpointLeasePrefix @ take 16 (hex_encode (sha256 clusterName))"

definition leaseExpired :: "Lease \<Rightarrow> time \<Rightarrow> bool" where
  "leaseExpired lease now =
     (case (ls_renewTime lease, ls_durationSeconds lease) of
        (Some renewed, Some seconds) \<Rightarrow> renewed + seconds * second < now
      | _ \<Rightarrow> True)"

definition held_lease :: "Lease \<Rightarrow> string \<Rightarrow> time \<Rightarrow> Lease" where
  "held_lease lease uid now =
     lease\<lparr>ls_holderIdentity := Some uid, ls_durationSeconds := Some endpointLeaseDuration, ls_renewTime := Some now\<rparr>"

definition acquireEndpointLease :: "tm_env \<Rightarrow> capi_machine \<Rightarrow> (api_error + bool) tm" where
  "acquireEndpointLease E machine =
     (let uid = mt_uid (cm_meta machine); namespace = mt_namespace (cm_meta machine)
      in if uid = [] \<or> cm_clusterName machine = []
         then State_Monad.return (Inl (ApiOther ''control-plane endpoint lease identity is incomplete''))
         else do {
           let name = endpointLeaseName (cm_clusterName machine);
           now \<leftarrow> query (te_now E);
           found \<leftarrow> query (\<lambda>tr. te_get_lease E tr namespace name);
           (case found of
              Inl e \<Rightarrow>
                if e = ApiNotFound
                then do {
                  err \<leftarrow> api_write E (LeaseCreate (held_lease
                    \<lparr>ls_name = name, ls_namespace = namespace, ls_holderIdentity = None, ls_durationSeconds = None,
                     ls_renewTime = None\<rparr> uid now));
                  State_Monad.return
                    (case err of None \<Rightarrow> Inr True
                     | Some e \<Rightarrow> if e = ApiAlreadyExists then Inr False else Inl e)
                }
                else State_Monad.return (Inl e)
            | Inr lease \<Rightarrow>
                if (case ls_holderIdentity lease of None \<Rightarrow> False
                    | Some holder \<Rightarrow> holder \<noteq> [] \<and> holder \<noteq> uid \<and> \<not> leaseExpired lease now)
                then State_Monad.return (Inr False)
                else do {
                  err \<leftarrow> api_write E (LeasePatch (held_lease lease uid now));
                  State_Monad.return
                    (case err of None \<Rightarrow> Inr True
                     | Some e \<Rightarrow> if e = ApiConflict then Inr False else Inl e)
                })
         })"

definition releaseEndpointLease :: "tm_env \<Rightarrow> capi_machine \<Rightarrow> api_error option tm" where
  "releaseEndpointLease E machine =
     (if mt_uid (cm_meta machine) = [] then State_Monad.return None
      else do {
        found \<leftarrow> query (\<lambda>tr. te_get_lease E tr (mt_namespace (cm_meta machine)) (endpointLeaseName (cm_clusterName machine)));
        (case found of
           Inl e \<Rightarrow> State_Monad.return (if e = ApiNotFound then None else Some e)
         | Inr lease \<Rightarrow>
             if ls_holderIdentity lease \<noteq> Some (mt_uid (cm_meta machine)) then State_Monad.return None
             else api_write E (LeasePatch (lease\<lparr>ls_holderIdentity := None, ls_renewTime := None\<rparr>)))
      })"

definition isControlPlaneMachineForEndpoint :: "k8s_lib \<Rightarrow> capi_machine \<Rightarrow> bool" where
  "isControlPlaneMachineForEndpoint L machine \<longleftrightarrow> map_of (mt_labels (cm_meta machine)) (lib_control_plane_label L) \<noteq> None"

definition machineEndpointConverged :: "k8s_lib \<Rightarrow> tm_env \<Rightarrow> capi_machine \<Rightarrow> string \<Rightarrow> bool tm" where
  "machineEndpointConverged L E machine endpoint =
     (if \<not> isControlPlaneMachineForEndpoint L machine then State_Monad.return False
      else if (case lib_find_condition L (cm_conditions machine) (lib_machine_ready L) of
                 None \<Rightarrow> True | Some ready \<Rightarrow> cond_status ready \<noteq> ConditionTrue)
      then State_Monad.return False
      else
        (let ref = cm_infrastructureRef machine
         in if cr_apiGroup ref \<noteq> infra_group \<or> cr_kind ref \<noteq> TartMachineKind \<or> cr_name ref = []
            then State_Monad.return False
            else do {
              found \<leftarrow> query (\<lambda>tr. te_get_tart_machine E tr (mt_namespace (cm_meta machine)) (cr_name ref));
              State_Monad.return
                (case found of Inl _ \<Rightarrow> False
                 | Inr provider \<Rightarrow>
                     (let condition = lib_find_condition L (mst_conditions (m_status provider)) TartMachineConfigurationUpToDateCondition
                      in mst_observedControlPlaneEndpoint (m_status provider) = endpoint \<and>
                         (case condition of None \<Rightarrow> False | Some c \<Rightarrow> cond_status c = ConditionTrue)))
            }))"

text \<open>The two loops of the gate: up to the target, and over all.\<close>

datatype preceding = TargetFound | TargetMissing | PrecedingBehind

fun preceding_converged :: "k8s_lib \<Rightarrow> tm_env \<Rightarrow> string \<Rightarrow> string \<Rightarrow> capi_machine list \<Rightarrow> preceding tm" where
  "preceding_converged L E uid endpoint [] = State_Monad.return TargetMissing"
| "preceding_converged L E uid endpoint (candidate # cs) =
     (if mt_uid (cm_meta candidate) = uid then State_Monad.return TargetFound
      else do {
        converged \<leftarrow> machineEndpointConverged L E candidate endpoint;
        if \<not> converged then State_Monad.return PrecedingBehind
        else preceding_converged L E uid endpoint cs
      })"

fun all_converged :: "k8s_lib \<Rightarrow> tm_env \<Rightarrow> string \<Rightarrow> capi_machine list \<Rightarrow> bool tm" where
  "all_converged L E endpoint [] = State_Monad.return True"
| "all_converged L E endpoint (candidate # cs) = do {
     converged \<leftarrow> machineEndpointConverged L E candidate endpoint;
     if \<not> converged then State_Monad.return False else all_converged L E endpoint cs
   }"

definition control_planes :: "k8s_lib \<Rightarrow> capi_machine \<Rightarrow> capi_machine list \<Rightarrow> capi_machine list" where
  "control_planes L machine machines =
     sort_by (\<lambda>l r. mt_name (cm_meta l) \<le> mt_name (cm_meta r))
       (filter (\<lambda>c. cm_clusterName c = cm_clusterName machine \<and> mt_deletionTimestamp (cm_meta c) = None \<and>
            isControlPlaneMachineForEndpoint L c)
          (filter (\<lambda>c. map_of (mt_labels (cm_meta c)) (lib_cluster_name_label L) = Some (cm_clusterName machine)) machines))"

definition endpointUpdateGate :: "k8s_lib \<Rightarrow> tm_env \<Rightarrow> capi_machine \<Rightarrow> string \<Rightarrow> gate tm" where
  "endpointUpdateGate L E machine desiredEndpoint =
     (if cm_clusterName machine = [] \<or> desiredEndpoint = []
      then State_Monad.return (False, ''The control-plane endpoint update context is incomplete; waiting for observed cluster state.'')
      else do {
        listed \<leftarrow> query (\<lambda>tr. te_list_capi_machines E tr (mt_namespace (cm_meta machine)));
        (case listed of
           Inl _ \<Rightarrow> State_Monad.return (False, ''The cluster Machine inventory could not be observed before the control-plane endpoint update.'')
         | Inr machines \<Rightarrow>
             (let controlPlanes = control_planes L machine machines
              in if length controlPlanes = 0
                 then State_Monad.return (False, ''No control-plane Machines are available for the endpoint update.'')
                 else if isControlPlaneMachineForEndpoint L machine
                 then do {
                   r \<leftarrow> preceding_converged L E (mt_uid (cm_meta machine)) desiredEndpoint controlPlanes;
                   State_Monad.return
                     (case r of
                        PrecedingBehind \<Rightarrow> (False, ''A preceding control-plane Machine has not recovered on the new control-plane endpoint.'')
                      | TargetMissing \<Rightarrow> (False, ''The target control-plane Machine is not present in the observed cluster inventory.'')
                      | TargetFound \<Rightarrow> (True, []))
                 }
                 else do {
                   ok \<leftarrow> all_converged L E desiredEndpoint controlPlanes;
                   State_Monad.return
                     (if \<not> ok then (False, ''All control-plane Machines must converge on the new control-plane endpoint before a worker update.'')
                      else (True, []))
                 }))
      })"

subsection \<open>What the lease and the gate promise\<close>

text \<open>A lease that another machine may not take.\<close>

definition taken_by_other :: "Lease \<Rightarrow> string \<Rightarrow> time \<Rightarrow> bool" where
  "taken_by_other lease uid now \<longleftrightarrow>
     (\<exists>holder. ls_holderIdentity lease = Some holder \<and> holder \<noteq> [] \<and> holder \<noteq> uid) \<and> \<not> leaseExpired lease now"

lemma acquire_True:
  assumes run: "run_state (acquireEndpointLease E machine) tr = (Inr True, tr')"
  defines "uid \<equiv> mt_uid (cm_meta machine)" and "name \<equiv> endpointLeaseName (cm_clusterName machine)"
  shows "uid \<noteq> [] \<and>
    (te_get_lease E tr (mt_namespace (cm_meta machine)) name = Inl ApiNotFound \<and>
       (\<exists>l. tr' = tr @ [LeaseCreate l] \<and> ls_holderIdentity l = Some uid \<and> te_write E tr (LeaseCreate l) = None) \<or>
     (\<exists>lease. te_get_lease E tr (mt_namespace (cm_meta machine)) name = Inr lease \<and>
        \<not> taken_by_other lease uid (te_now E tr) \<and>
        tr' = tr @ [LeasePatch (held_lease lease uid (te_now E tr))] \<and>
        te_write E tr (LeasePatch (held_lease lease uid (te_now E tr))) = None))"
  using run
  by (auto simp: acquireEndpointLease_def Let_def uid_def name_def api_write_def taken_by_other_def held_lease_def
      split: if_splits sum.splits option.splits)

lemma acquire_taken:
  assumes "te_get_lease E tr (mt_namespace (cm_meta machine)) (endpointLeaseName (cm_clusterName machine)) = Inr lease"
    and "taken_by_other lease (mt_uid (cm_meta machine)) (te_now E tr)"
    and "mt_uid (cm_meta machine) \<noteq> []" "cm_clusterName machine \<noteq> []"
  shows "run_state (acquireEndpointLease E machine) tr = (Inr False, tr)"
  using assms by (auto simp: acquireEndpointLease_def Let_def taken_by_other_def)

text \<open>A lease that was just taken is taken for 15 minutes.\<close>

lemma held_lease_taken:
  "taken_by_other (held_lease lease uid t) other now \<longleftrightarrow> uid \<noteq> [] \<and> uid \<noteq> other \<and> now \<le> t + 900 * second"
  by (auto simp: taken_by_other_def held_lease_def leaseExpired_def endpointLeaseDuration_def)

text \<open>When a control plane counts as converged on an endpoint: it is Ready, and the \<open>TartMachine\<close> it
  names has this endpoint in its status and its configuration up to date.\<close>

definition converged_on :: "k8s_lib \<Rightarrow> tm_env \<Rightarrow> tm_event list \<Rightarrow> string \<Rightarrow> capi_machine \<Rightarrow> bool" where
  "converged_on L E tr endpoint m \<longleftrightarrow>
     isControlPlaneMachineForEndpoint L m \<and>
     (\<exists>ready. lib_find_condition L (cm_conditions m) (lib_machine_ready L) = Some ready \<and> cond_status ready = ConditionTrue) \<and>
     cr_apiGroup (cm_infrastructureRef m) = infra_group \<and> cr_kind (cm_infrastructureRef m) = TartMachineKind \<and>
     cr_name (cm_infrastructureRef m) \<noteq> [] \<and>
     (\<exists>provider c. te_get_tart_machine E tr (mt_namespace (cm_meta m)) (cr_name (cm_infrastructureRef m)) = Inr provider \<and>
        mst_observedControlPlaneEndpoint (m_status provider) = endpoint \<and>
        lib_find_condition L (mst_conditions (m_status provider)) TartMachineConfigurationUpToDateCondition = Some c \<and>
        cond_status c = ConditionTrue)"

lemma machineEndpointConverged_run:
  "run_state (machineEndpointConverged L E m endpoint) tr = (converged_on L E tr endpoint m, tr)"
  by (auto simp: machineEndpointConverged_def converged_on_def Let_def split: option.splits sum.splits)

lemma emits_machineEndpointConverged: "emits (machineEndpointConverged L E m endpoint) {}"
  unfolding machineEndpointConverged_def Let_def by (intro emit_rules)

lemma emits_preceding_converged: "emits (preceding_converged L E uid endpoint cs) {}"
  by (induction cs) (auto intro!: emit_rules emits_machineEndpointConverged)

lemma emits_all_converged: "emits (all_converged L E endpoint cs) {}"
  by (induction cs) (auto intro!: emit_rules emits_machineEndpointConverged)

lemma emits_endpointUpdateGate: "emits (endpointUpdateGate L E machine endpoint) {}"
  unfolding endpointUpdateGate_def Let_def
  by (intro emit_rules emits_preceding_converged emits_all_converged)

lemmas machineEndpointConverged_reads = emits_nothing[OF emits_machineEndpointConverged]
lemmas preceding_converged_reads = emits_nothing[OF emits_preceding_converged]
lemmas all_converged_reads = emits_nothing[OF emits_all_converged]

lemma preceding_found:
  "run_state (preceding_converged L E uid endpoint cs) tr = (TargetFound, tr') \<Longrightarrow>
     \<exists>before target after. cs = before @ target # after \<and> mt_uid (cm_meta target) = uid \<and>
       (\<forall>m \<in> set before. converged_on L E tr endpoint m)"
proof (induction cs)
  case (Cons c cs)
  show ?case
  proof (cases "mt_uid (cm_meta c) = uid")
    case True
    then show ?thesis by (intro exI[of _ "[]"]) auto
  next
    case False
    with Cons.prems have "converged_on L E tr endpoint c" "run_state (preceding_converged L E uid endpoint cs) tr = (TargetFound, tr')"
      by (auto simp: machineEndpointConverged_run split: if_splits)
    from this(1) Cons.IH[OF this(2)] show ?thesis by (metis append_Cons set_ConsD)
  qed
qed simp

lemma all_converged_True:
  "run_state (all_converged L E endpoint cs) tr = (True, tr') \<Longrightarrow> \<forall>m \<in> set cs. converged_on L E tr endpoint m"
  by (induction cs) (auto simp: machineEndpointConverged_run split: if_splits)

lemma control_planes_sorted:
  "sorted_wrt (\<lambda>l r. mt_name (cm_meta l) \<le> mt_name (cm_meta r)) (control_planes L machine machines)"
  unfolding control_planes_def by (rule sorted_sort_by) auto

text \<open>The control planes whose order counts: those of the machine's cluster, by label and by
  spec, that are not being deleted.\<close>

definition endpoint_peer :: "k8s_lib \<Rightarrow> capi_machine \<Rightarrow> capi_machine \<Rightarrow> bool" where
  "endpoint_peer L machine m \<longleftrightarrow>
     map_of (mt_labels (cm_meta m)) (lib_cluster_name_label L) = Some (cm_clusterName machine) \<and>
     cm_clusterName m = cm_clusterName machine \<and> mt_deletionTimestamp (cm_meta m) = None \<and>
     isControlPlaneMachineForEndpoint L m"

lemma set_control_planes: "set (control_planes L machine machines) = {m \<in> set machines. endpoint_peer L machine m}"
  by (auto simp: control_planes_def endpoint_peer_def)

lemma control_planes_before:
  assumes cs: "control_planes L machine machines = before @ target # after"
    and m: "m \<in> set machines" "endpoint_peer L machine m" "mt_name (cm_meta m) < mt_name (cm_meta target)"
  shows "m \<in> set before"
proof -
  from m have "m \<in> set before \<union> {target} \<union> set after" using set_control_planes[of L machine machines] cs by auto
  moreover from control_planes_sorted[of L machine machines] cs
  have "mt_name (cm_meta target) \<le> mt_name (cm_meta x)" if "x \<in> set after" for x
    using that by (auto simp: sorted_wrt_append)
  ultimately show ?thesis using m(3) by fastforce
qed

text \<open>A control plane waits for all that come before it in the order of names, a worker for all
  control planes.\<close>

lemma endpointUpdateGate_order:
  assumes run: "run_state (endpointUpdateGate L E machine endpoint) tr = ((True, msg), tr')"
  shows "tr' = tr \<and> (\<exists>machines. te_list_capi_machines E tr (mt_namespace (cm_meta machine)) = Inr machines \<and>
     (if isControlPlaneMachineForEndpoint L machine
      then \<exists>target \<in> set machines. endpoint_peer L machine target \<and> mt_uid (cm_meta target) = mt_uid (cm_meta machine) \<and>
             (\<forall>m \<in> set machines. endpoint_peer L machine m \<and> mt_name (cm_meta m) < mt_name (cm_meta target) \<longrightarrow>
                converged_on L E tr endpoint m)
      else (\<exists>m \<in> set machines. endpoint_peer L machine m) \<and>
           (\<forall>m \<in> set machines. endpoint_peer L machine m \<longrightarrow> converged_on L E tr endpoint m)))"
proof -
  from run obtain machines where ms: "te_list_capi_machines E tr (mt_namespace (cm_meta machine)) = Inr machines"
    by (cases "te_list_capi_machines E tr (mt_namespace (cm_meta machine))")
       (auto simp: endpointUpdateGate_def Let_def split: if_splits)
  let ?cs = "control_planes L machine machines"
  note peers = set_control_planes[of L machine machines]
  obtain p where p: "run_state (preceding_converged L E (mt_uid (cm_meta machine)) endpoint ?cs) tr = (p, tr)"
    using preceding_converged_reads by blast
  obtain a where a: "run_state (all_converged L E endpoint ?cs) tr = (a, tr)"
    using all_converged_reads by blast
  note simps = endpointUpdateGate_def Let_def ms
  show ?thesis
  proof (cases "isControlPlaneMachineForEndpoint L machine")
    case True
    from run have ne: "cm_clusterName machine \<noteq> []" "endpoint \<noteq> []" "?cs \<noteq> []"
      by (simp_all add: simps split: if_splits)
    with run p True have "p = TargetFound" "tr' = tr" by (cases p; simp add: simps)+
    from preceding_found[OF p[unfolded \<open>p = TargetFound\<close>]] obtain before target after where
      t: "?cs = before @ target # after" "mt_uid (cm_meta target) = mt_uid (cm_meta machine)"
      "\<forall>m \<in> set before. converged_on L E tr endpoint m" by blast
    then have "target \<in> set machines" "endpoint_peer L machine target" using peers by auto
    with True ms t control_planes_before[OF t(1)] \<open>tr' = tr\<close> show ?thesis by auto
  next
    case False
    from run have ne: "cm_clusterName machine \<noteq> []" "endpoint \<noteq> []" "?cs \<noteq> []"
      by (simp_all add: simps split: if_splits)
    with run a False have "a" "tr' = tr" by (cases a; simp add: simps)+
    moreover from ne(3) peers have "\<exists>m \<in> set machines. endpoint_peer L machine m"
      by (metis (mono_tags, lifting) list.set_intros(1) mem_Collect_eq neq_Nil_conv)
    ultimately show ?thesis using all_converged_True[of L E endpoint ?cs tr tr] a False ms peers by auto
  qed
qed

end
