(* ===== verification/MachineConfiguration.thy ===== *)
theory MachineConfiguration
  imports EndpointLease
begin

section \<open>The machine configuration of a running node\<close>

text \<open>
  \<open>reconcileMachineConfiguration\<close> of \<open>controller/tartmachine/configuration_update.go\<close>: the
  active configuration is observed, compared by its digest, and changed in place under the
  lease when it moves the control-plane endpoint. The mutated \<open>*TartMachine\<close> is returned.
  The gate of the endpoint releases the lease when it refuses; the update then ends with a
  retry, so the releases after \<open>Done\<close> and after a failure never run a second time and the
  flag \<open>released\<close> of the source needs no state.
\<close>

definition setConfigurationCondition ::
  "k8s_lib \<Rightarrow> tm_env \<Rightarrow> TartMachine \<Rightarrow> condition_status \<Rightarrow> string \<Rightarrow> string \<Rightarrow> TartMachine tm" where
  "setConfigurationCondition L E machine status reason message = do {
     now \<leftarrow> query (te_now E);
     State_Monad.return (set_machine_condition L now TartMachineConfigurationUpToDateCondition status reason message machine)
   }"

definition configurationUpdateFailure ::
  "k8s_lib \<Rightarrow> tm_env \<Rightarrow> TartMachine \<Rightarrow> string \<Rightarrow> string \<Rightarrow> (ConfigurationUpdateOutcome \<times> TartMachine) tm" where
  "configurationUpdateFailure L E machine reason message = do {
     machine \<leftarrow> setConfigurationCondition L E machine ConditionFalse reason message;
     State_Monad.return (outcome_failure message, machine)
   }"

definition bootstrapConfigForMachine :: "k8s_lib \<Rightarrow> tm_env \<Rightarrow> TartMachine \<Rightarrow> (capi_machine \<times> TartBootstrapConfig) option tm" where
  "bootstrapConfigForMachine L E machine = do {
     found \<leftarrow> find_capi_machine L E machine;
     (case found of
        Inl _ \<Rightarrow> State_Monad.return None
      | Inr capiMachine \<Rightarrow>
          (let ref = cm_configRef capiMachine
           in if cr_apiGroup ref \<noteq> bootstrap_group \<or> cr_kind ref \<noteq> TartBootstrapConfigKind \<or> cr_name ref = []
              then State_Monad.return None
              else do {
                config \<leftarrow> query (\<lambda>tr. te_get_bootstrap_config E tr (mt_namespace (cm_meta capiMachine)) (cr_name ref));
                State_Monad.return (case config of Inl _ \<Rightarrow> None | Inr c \<Rightarrow> Some (capiMachine, c))
              }))
   }"

definition desiredEndpoint :: "tm_env \<Rightarrow> string \<Rightarrow> string" where
  "desiredEndpoint E configuration =
     (case te_control_plane_endpoint E configuration of None \<Rightarrow> [] | Some endpoint \<Rightarrow> endpoint)"

text \<open>The gate the update is given; \<open>locked\<close> says whether the lease is held.\<close>

definition change_gate :: "k8s_lib \<Rightarrow> tm_env \<Rightarrow> capi_machine \<Rightarrow> string \<Rightarrow> ChangeClass \<Rightarrow> gate tm" where
  "change_gate L E capiMachine desired change_class =
     (if change_class \<noteq> ChangeControlPlaneEndpoint then State_Monad.return (True, [])
      else do {
        (allowed, message) \<leftarrow> endpointUpdateGate L E capiMachine (desiredEndpoint E desired);
        _ \<leftarrow> (if \<not> allowed then releaseEndpointLease E capiMachine else State_Monad.return None);
        State_Monad.return (allowed, message)
      })"

text \<open>The condition after an outcome; \<open>release\<close> runs where the source calls it.\<close>

definition conclude ::
  "k8s_lib \<Rightarrow> tm_env \<Rightarrow> TartMachine \<Rightarrow> ConfigurationUpdateOutcome \<Rightarrow> string \<Rightarrow> api_error option tm \<Rightarrow>
     (ConfigurationUpdateOutcome \<times> TartMachine) tm" where
  "conclude L E machine outcome converged release =
     (if out_done outcome
      then do {
        machine \<leftarrow> setConfigurationCondition L E machine ConditionTrue ''ConfigurationConverged'' converged;
        _ \<leftarrow> release;
        State_Monad.return (outcome, machine)
      }
      else if out_failure outcome \<noteq> []
      then do {
        machine \<leftarrow> setConfigurationCondition L E machine ConditionFalse ''ConfigurationUpdateFailed'' (out_failure outcome);
        _ \<leftarrow> release;
        State_Monad.return (outcome, machine)
      }
      else do {
        machine \<leftarrow> setConfigurationCondition L E machine ConditionFalse ''ConfigurationUpdatePending'' (out_retry outcome);
        State_Monad.return (outcome, machine)
      })"

text \<open>The active configuration has the desired digest (lines 53 to 72).\<close>

definition configuration_converged ::
  "k8s_lib \<Rightarrow> tm_env \<Rightarrow> TartMachine \<Rightarrow> string \<Rightarrow> talos_auth \<Rightarrow> string \<Rightarrow> (ConfigurationUpdateOutcome \<times> TartMachine) tm" where
  "configuration_converged L E machine endpoint auth desired =
     (if (case lib_find_condition L (mst_conditions (m_status machine)) TartMachineConfigurationUpToDateCondition of
            None \<Rightarrow> False | Some previous \<Rightarrow> cond_status previous = ConditionFalse)
      then do {
        found \<leftarrow> bootstrapConfigForMachine L E machine;
        (case found of
           None \<Rightarrow> configurationUpdateFailure L E machine ''BootstrapDataUnavailable'' ''The individual BootstrapConfig for this Machine is not available.''
         | Some (capiMachine, config) \<Rightarrow> do {
             outcome \<leftarrow> PerformConfigurationUpdate L E capiMachine (ProviderID_String (ms_providerID (m_spec machine))) desired
               (EffectiveConfigurationApplyStrategy (bc_spec config)) endpoint auth None;
             conclude L E machine outcome ''The active Talos machine configuration matches the desired configuration and the Node recovered.''
               (State_Monad.return None)
           })
      }
      else do {
        machine \<leftarrow> setConfigurationCondition L E machine ConditionTrue ''ConfigurationConverged'' ''The active Talos machine configuration matches the desired configuration.'';
        State_Monad.return (outcome_done, machine)
      })"

text \<open>The configurations differ (lines 73 to 125).\<close>

definition configuration_changed ::
  "k8s_lib \<Rightarrow> tm_env \<Rightarrow> TartMachine \<Rightarrow> string \<Rightarrow> talos_auth \<Rightarrow> string \<Rightarrow> string \<Rightarrow> (ConfigurationUpdateOutcome \<times> TartMachine) tm" where
  "configuration_changed L E machine endpoint auth active desired = do {
     found \<leftarrow> bootstrapConfigForMachine L E machine;
     (case found of
        None \<Rightarrow> configurationUpdateFailure L E machine ''BootstrapDataUnavailable'' ''The individual BootstrapConfig for this Machine is not available.''
      | Some (capiMachine, config) \<Rightarrow>
          (case te_classify_change E active desired of
             None \<Rightarrow> configurationUpdateFailure L E machine ''ConfigurationInvalid'' ''The machine configuration difference could not be evaluated safely.''
           | Some (change_class, _) \<Rightarrow> do {
               acquired \<leftarrow> (if change_class = ChangeControlPlaneEndpoint then acquireEndpointLease E capiMachine
                             else State_Monad.return (Inr True));
               (case acquired of
                  Inl _ \<Rightarrow> configurationUpdateFailure L E machine ''EndpointUpdateLockUnavailable'' ''The control-plane endpoint update lock could not be observed.''
                | Inr False \<Rightarrow> do {
                    machine \<leftarrow> setConfigurationCondition L E machine ConditionFalse ''EndpointUpdateInProgress'' ''Another Machine is updating the control-plane endpoint.'';
                    State_Monad.return (outcome_retry ''Another Machine is updating the control-plane endpoint.'', machine)
                  }
                | Inr True \<Rightarrow> do {
                    outcome \<leftarrow> PerformConfigurationUpdate L E capiMachine (ProviderID_String (ms_providerID (m_spec machine))) desired
                      (EffectiveConfigurationApplyStrategy (bc_spec config)) endpoint auth
                      (Some (change_gate L E capiMachine desired change_class));
                    conclude L E machine outcome ''The Talos machine configuration was applied and the Node recovered.''
                      (if change_class = ChangeControlPlaneEndpoint then releaseEndpointLease E capiMachine
                       else State_Monad.return None)
                  })
             }))
   }"

definition reconcileMachineConfiguration ::
  "k8s_lib \<Rightarrow> tm_env \<Rightarrow> TartMachine \<Rightarrow> string \<Rightarrow> talos_auth \<Rightarrow> string \<Rightarrow> (ConfigurationUpdateOutcome \<times> TartMachine) tm" where
  "reconcileMachineConfiguration L E machine endpoint auth desired = do {
     observed \<leftarrow> rpc_text E endpoint auth RpcActiveConfiguration;
     (case observed of
        Inl _ \<Rightarrow> configurationUpdateFailure L E machine ''ConfigurationObservationFailed'' ''The active Talos machine configuration could not be observed safely.''
      | Inr active \<Rightarrow>
          (case te_control_plane_endpoint E active of
             None \<Rightarrow> configurationUpdateFailure L E machine ''ConfigurationObservationFailed'' ''The active Talos machine configuration has no observable control-plane endpoint.''
           | Some activeEndpoint \<Rightarrow>
               (case te_configuration_digest E active of
                  None \<Rightarrow> configurationUpdateFailure L E machine ''ConfigurationObservationFailed'' ''The active Talos machine configuration digest could not be observed safely.''
                | Some activeDigest \<Rightarrow>
                    (let machine = machine\<lparr>m_status := (m_status machine)\<lparr>mst_observedControlPlaneEndpoint := activeEndpoint,
                       mst_observedConfigurationDigest := activeDigest\<rparr>\<rparr>
                     in case te_configuration_digest E desired of
                          None \<Rightarrow> configurationUpdateFailure L E machine ''ConfigurationInvalid'' ''The desired Talos machine configuration digest could not be calculated safely.''
                        | Some desiredDigest \<Rightarrow>
                            if activeDigest = desiredDigest then configuration_converged L E machine endpoint auth desired
                            else configuration_changed L E machine endpoint auth active desired))))
   }"

subsection \<open>The lease around a change of the endpoint\<close>

lemma emits_releaseEndpointLease: "range LeasePatch \<subseteq> S \<Longrightarrow> emits (releaseEndpointLease E m) S"
  unfolding releaseEndpointLease_def by (intro emit_rules) auto

lemma emits_bootstrapConfigForMachine: "emits (bootstrapConfigForMachine L E m) {}"
  unfolding bootstrapConfigForMachine_def find_capi_machine_def Let_def by (intro emit_rules)

lemmas bootstrapConfigForMachine_reads = emits_nothing[OF emits_bootstrapConfigForMachine]

lemma emits_conclude: "emits release S \<Longrightarrow> emits (conclude L E machine outcome msg release) S"
  unfolding conclude_def setConfigurationCondition_def by (intro emit_rules)

lemma emits_configurationUpdateFailure: "emits (configurationUpdateFailure L E machine r m) {}"
  unfolding configurationUpdateFailure_def setConfigurationCondition_def by (intro emit_rules)

text \<open>An update whose endpoint gate leaves the lease alone leaves it alone.\<close>

lemma emits_ApplyConfigurationUpdate:
  assumes "emits (run_gate (cu_rebootGate u)) S" "emits (run_gate (cu_nodeReady u)) S" "emits (run_gate (cu_endpointGate u)) S"
    and "drain_events \<subseteq> S" "Rpc (cu_endpoint u) (cu_auth u) RpcReboot \<in> S"
    and "\<And>m c. Rpc (cu_endpoint u) (cu_auth u) (RpcApply m c) \<in> S"
  shows "emits (ApplyConfigurationUpdate E u) S"
proof -
  note observe = emits_mono[OF drains_observeReboot assms(4)]
  have reads: "Rpc (cu_endpoint u) (cu_auth u) RpcBootTime \<in> S" "Rpc (cu_endpoint u) (cu_auth u) RpcActiveConfiguration \<in> S"
    "Rpc (cu_endpoint u) (cu_auth u) RpcServicesHealthy \<in> S" using assms(4) by auto
  have apply_it: "emits (apply_change E u mode) S" for mode
    unfolding apply_change_def rpc_boot_time_def Let_def by (intro emit_rules observe assms reads)
  have recovered: "emits (verifyConfigurationRecovered E u) S"
    unfolding verifyConfigurationRecovered_def by (intro emit_rules assms reads)
  show ?thesis
    unfolding ApplyConfigurationUpdate_def
    by (auto intro!: emit_rules apply_it recovered assms reads split: ChangeClass.splits)
qed

lemma emits_PerformConfigurationUpdate:
  assumes "emits (run_gate g) S" "drain_events \<subseteq> S" "Rpc ep au RpcReboot \<in> S" "\<And>m c. Rpc ep au (RpcApply m c) \<in> S"
  shows "emits (PerformConfigurationUpdate L E machine p desired strategy ep au g) S"
  unfolding PerformConfigurationUpdate_def
  by (rule emits_ApplyConfigurationUpdate)
     (use assms in \<open>simp_all add: run_gate_def emits_mono[OF drains_restart_gate] emits_mono[OF drains_nodeReady]\<close>)

text \<open>The pass that finds the desired configuration active never gives the lease back, although
  it is the pass that completes a change of the endpoint whose node had to reboot.\<close>

lemma converged_keeps_lease:
  "emits (configuration_converged L E machine ep au desired) (- lease_events)"
proof -
  have "drain_events \<subseteq> - lease_events" by (auto simp: lease_events_def)
  then have up: "emits (PerformConfigurationUpdate L E c p desired s ep au None) (- lease_events)" for c p s
    by (intro emits_PerformConfigurationUpdate) (auto simp: run_gate_def emits_return lease_events_def)
  show ?thesis
    unfolding configuration_converged_def setConfigurationCondition_def
    by (intro emit_rules up emits_conclude emits_mono[OF emits_bootstrapConfigForMachine] emits_mono[OF emits_configurationUpdateFailure]) auto
qed

text \<open>A change of the endpoint is applied by the machine that took the lease first.\<close>

lemma emits_acquireEndpointLease: "emits (acquireEndpointLease E m) lease_events"
  unfolding acquireEndpointLease_def Let_def by (intro emit_rules) (auto simp: lease_events_def)

lemma emits_change_gate: "emits (change_gate L E m desired c) gate_events"
  unfolding change_gate_def
  by (intro emit_rules emits_mono[OF emits_endpointUpdateGate] emits_releaseEndpointLease) auto

lemma endpoint_change_locked:
  assumes run: "run_state (configuration_changed L E machine ep au active desired) tr = (r, tr @ new)"
    and cls: "te_classify_change E active desired = Some (ChangeControlPlaneEndpoint, reason)"
    and apply_event: "Rpc ep' au' (RpcApply md c) \<in> set new"
  shows "\<exists>capiMachine config e rest. run_state (bootstrapConfigForMachine L E machine) tr = (Some (capiMachine, config), tr) \<and>
    run_state (acquireEndpointLease E capiMachine) tr = (Inr True, tr @ [e]) \<and> new = e # rest"
proof -
  obtain b where b: "run_state (bootstrapConfigForMachine L E machine) tr = (b, tr)" using bootstrapConfigForMachine_reads by blast
  show ?thesis
  proof (cases b)
    case None
    with run b have "run_state (configurationUpdateFailure L E machine ''BootstrapDataUnavailable''
        ''The individual BootstrapConfig for this Machine is not available.'') tr = (r, tr @ new)" by (simp add: configuration_changed_def)
    from emitsD[OF emits_configurationUpdateFailure this] apply_event show ?thesis by simp
  next
    case (Some x)
    obtain capi config where x: "x = (capi, config)" by fastforce
    obtain a t1 where a: "run_state (acquireEndpointLease E capi) tr = (a, t1)" by fastforce
    from emitsD[OF emits_acquireEndpointLease a] obtain n1 where n1: "t1 = tr @ n1" "set n1 \<subseteq> lease_events" by blast
    have noapply: "Rpc ep' au' (RpcApply md c) \<notin> lease_events" by (auto simp: lease_events_def)
    show ?thesis
    proof (cases "a = Inr True")
      case True
      from acquire_True[OF a[unfolded True]] obtain e where e: "t1 = tr @ [e]" by blast
      have up: "emits (PerformConfigurationUpdate L E capi p desired s ep au (Some (change_gate L E capi desired ch))) UNIV" for p s ch
        by (rule emits_PerformConfigurationUpdate) (simp_all add: run_gate_def emits_mono[OF emits_change_gate])
      have con: "emits (conclude L E machine outcome msg (releaseEndpointLease E capi)) UNIV" for outcome msg
        by (rule emits_conclude, rule emits_releaseEndpointLease) simp
      have em: "emits (do { outcome \<leftarrow> PerformConfigurationUpdate L E capi (ProviderID_String (ms_providerID (m_spec machine))) desired
                      (EffectiveConfigurationApplyStrategy (bc_spec config)) ep au
                      (Some (change_gate L E capi desired ChangeControlPlaneEndpoint));
                    conclude L E machine outcome ''The Talos machine configuration was applied and the Node recovered.''
                      (releaseEndpointLease E capi) }) UNIV" (is "emits ?m UNIV")
        by (rule emits_bind[OF up con])
      have "run_state ?m t1 = (r, tr @ new)" using run b Some x a True by (simp add: configuration_changed_def cls)
      from emitsD[OF em this] obtain rest where "tr @ new = t1 @ rest" by blast
      with e have "new = e # rest" by simp
      with b Some x a True e show ?thesis by (intro exI[of _ capi] exI[of _ config] exI[of _ e] exI[of _ rest]) simp
    next
      case False
      have "\<exists>n2. tr @ new = t1 @ n2 \<and> set n2 \<subseteq> {}"
      proof (cases a)
        case (Inl y)
        with run b Some x a have "run_state (configurationUpdateFailure L E machine ''EndpointUpdateLockUnavailable''
            ''The control-plane endpoint update lock could not be observed.'') t1 = (r, tr @ new)" by (simp add: configuration_changed_def cls)
        from emitsD[OF emits_configurationUpdateFailure this] show ?thesis .
      next
        case (Inr y)
        with False run b Some x a show ?thesis by (cases y) (auto simp: configuration_changed_def cls setConfigurationCondition_def)
      qed
      then have "new = n1" using n1 by simp
      with n1 noapply apply_event show ?thesis by blast
    qed
  qed
qed

text \<open>The events of a pass over the configuration: those of the gates, and on the node itself
  the application of a configuration and a reboot.\<close>

definition configuration_events :: "string \<Rightarrow> talos_auth \<Rightarrow> tm_event set" where
  "configuration_events ep au =
     gate_events \<union> {Rpc ep au RpcReboot} \<union> {Rpc ep au (RpcApply m c) | m c. True}"

lemma configuration_events_simps [simp]:
  "Rpc ep' au' (RpcUpgrade i) \<notin> configuration_events ep au" "Rpc ep' au' RpcReset \<notin> configuration_events ep au"
  "Rpc ep' au' RpcShutdown \<notin> configuration_events ep au" "HostStatusPatch h \<notin> configuration_events ep au"
  by (auto simp: configuration_events_def gate_events_def drain_events_def lease_events_def)

lemma emits_reconcileMachineConfiguration:
  "emits (reconcileMachineConfiguration L E machine ep au desired) (configuration_events ep au)"
proof -
  have gates: "gate_events \<subseteq> configuration_events ep au" by (auto simp: configuration_events_def)
  have up: "emits (PerformConfigurationUpdate L E c p desired s ep au g) (configuration_events ep au)"
    if "emits (run_gate g) gate_events" for c p s g
    by (rule emits_PerformConfigurationUpdate)
       (use that drain_gate gates in \<open>auto intro: emits_mono simp: configuration_events_def\<close>)
  note parts = emits_mono[OF emits_bootstrapConfigForMachine empty_subsetI] emits_mono[OF emits_configurationUpdateFailure empty_subsetI]
  have lease: "lease_events \<subseteq> configuration_events ep au" using gates by (auto simp: gate_events_def)
  have release: "emits (releaseEndpointLease E c) (configuration_events ep au)" for c
    by (rule emits_releaseEndpointLease) (use lease in \<open>auto simp: lease_events_def\<close>)
  have "emits (configuration_converged L E machine ep au desired) (configuration_events ep au)" for machine
    unfolding configuration_converged_def setConfigurationCondition_def
    by (intro emit_rules parts up emits_conclude) (simp add: run_gate_def emits_return)
  moreover have "emits (configuration_changed L E machine ep au active desired) (configuration_events ep au)" for machine active
    unfolding configuration_changed_def setConfigurationCondition_def
    by (intro emit_rules parts up emits_conclude release emits_mono[OF emits_acquireEndpointLease lease])
       (simp_all add: run_gate_def emits_change_gate)
  moreover have "Rpc ep au RpcActiveConfiguration \<in> configuration_events ep au" using gates by auto
  ultimately show ?thesis
    unfolding reconcileMachineConfiguration_def Let_def by (intro emit_rules parts)
qed

end
