(* ===== verification/MachineTalos.thy ===== *)
theory MachineTalos
  imports MachineReprovision MachineConfiguration
begin

section \<open>Bringing a claimed host to its Talos version\<close>

text \<open>
  \<open>controller/tartmachine/talos_reconcile.go\<close>: a host with approved reuse is reset first;
  then the recovery identity of the installation is bound to the host; then the
  authenticated API is tried with the desired configuration, and the maintenance API where
  that fails. A configuration reaches a host in maintenance mode only there.
\<close>

definition talosRequeue :: duration where "talosRequeue = 30 * second"

definition ReasonRolledBack :: string where "ReasonRolledBack = ''RolledBack''"

definition talos_reachable :: verdict where
  "talos_reachable = (ConditionTrue, ''TalosReachable'', ''The authenticated Talos API is reachable.'')"

definition talos_provisioned :: verdict where
  "talos_provisioned = (ConditionTrue, ''Provisioned'', ''Talos installation has completed and the node is running.'')"

definition talos_up_to_date :: verdict where
  "talos_up_to_date = (ConditionTrue, ''UpToDate'', ''The observed Talos version and schematic match the desired image.'')"

text \<open>The report of a node whose authenticated API answered.\<close>

definition report_running ::
  "k8s_lib \<Rightarrow> tm_env \<Rightarrow> TartMachine \<Rightarrow> string \<Rightarrow> string \<Rightarrow> verdict \<Rightarrow> verdict \<Rightarrow> duration \<Rightarrow> recon_result tm" where
  "report_running L E machine version schematicID upToDate ready requeueAfter =
     reportTalosStatusWithVersion L E machine version schematicID talos_reachable talos_provisioned upToDate ready requeueAfter"

definition wasImageUpgradePending :: "condition option \<Rightarrow> bool" where
  "wasImageUpgradePending c_opt =
     (case c_opt of None \<Rightarrow> False
      | Some c \<Rightarrow> cond_status c = ConditionFalse \<and> (cond_reason c = ''VersionMismatch'' \<or> cond_reason c = ''SchematicMismatch''))"

definition finalizeObservedImageUpgrade ::
  "k8s_lib \<Rightarrow> tm_env \<Rightarrow> TartMachine \<Rightarrow> string \<Rightarrow> string \<Rightarrow> bool \<Rightarrow> (duration \<times> recon_error option) option tm" where
  "finalizeObservedImageUpgrade L E machine version schematicID pending =
     (if \<not> pending then State_Monad.return None
      else do {
        found \<leftarrow> find_capi_machine L E machine;
        (case found of
           Inl _ \<Rightarrow> do {
             r \<leftarrow> report_running L E machine version schematicID talos_up_to_date
               (ConditionFalse, ''NodeRecoveryUnavailable'', ''The owning CAPI Machine could not be observed while finalizing the Talos image update.'') talosRequeue;
             State_Monad.return (Some r)
           }
         | Inr clusterMachine \<Rightarrow> do {
             (ready, message) \<leftarrow> FinalizeImageUpgrade E clusterMachine (ProviderID_String (ms_providerID (m_spec machine)));
             (if \<not> ready
              then do {
                r \<leftarrow> report_running L E machine version schematicID talos_up_to_date
                  (ConditionFalse, ''NodeRecoveryPending'', message) talosRequeue;
                State_Monad.return (Some r)
              }
              else State_Monad.return None)
           })
      })"

definition reconcileConvergedTalos ::
  "k8s_lib \<Rightarrow> tm_env \<Rightarrow> TartMachine \<Rightarrow> string \<Rightarrow> string \<Rightarrow> string \<Rightarrow> string \<Rightarrow> bool \<Rightarrow> recon_result tm" where
  "reconcileConvergedTalos L E machine endpoint configuration version schematicID imageUpgradePending = do {
     finalized \<leftarrow> finalizeObservedImageUpgrade L E machine version schematicID imageUpgradePending;
     (case finalized of
        Some r \<Rightarrow> State_Monad.return r
      | None \<Rightarrow> do {
          (outcome, machine) \<leftarrow> reconcileMachineConfiguration L E machine endpoint (AuthConfiguration configuration) configuration;
          (if out_failure outcome \<noteq> []
           then report_running L E machine version schematicID talos_up_to_date
             (ConditionFalse, ''ConfigurationUpdateFailed'', out_failure outcome) 0
           else if out_retry outcome \<noteq> []
           then report_running L E machine version schematicID talos_up_to_date
             (ConditionFalse, ''ConfigurationUpdatePending'', out_retry outcome) talosRequeue
           else report_running L E machine version schematicID talos_up_to_date
             (ConditionTrue, ''Ready'', ''The Host is running the desired Talos version and schematic.'') 0)
        })
   }"

definition applyTalosUpgrade ::
  "k8s_lib \<Rightarrow> tm_env \<Rightarrow> TartMachine \<Rightarrow> string \<Rightarrow> string \<Rightarrow> talos_auth \<Rightarrow> ConfigurationUpdateOutcome tm" where
  "applyTalosUpgrade L E machine observedVersion endpoint auth =
     (let img = ms_image (m_spec machine)
      in if \<not> ValidateUpgrade (te_talos E) observedVersion (img_version img)
         then State_Monad.return (outcome_failure ''The requested Talos version transition is not supported; the in-place update is stopped.'')
         else (case InstallerImage (te_talos E) (img_version img) (img_schematicID img) of
           None \<Rightarrow> State_Monad.return (outcome_failure ''The desired Talos installer image is invalid; the in-place update is stopped.'')
         | Some installer \<Rightarrow> do {
             found \<leftarrow> find_capi_machine L E machine;
             (case found of
                Inl _ \<Rightarrow> State_Monad.return (outcome_retry ''The owning CAPI Machine could not be observed while the Talos in-place update is being prepared.'')
              | Inr clusterMachine \<Rightarrow>
                  PerformImageUpgrade L E clusterMachine (ProviderID_String (ms_providerID (m_spec machine))) installer endpoint auth)
           }))"

text \<open>From the point where version and schematic are known not to be the desired ones
  (lines 122 to 188).\<close>

definition reconcileMismatchedTalos ::
  "k8s_lib \<Rightarrow> tm_env \<Rightarrow> TartMachine \<Rightarrow> string \<Rightarrow> talos_auth \<Rightarrow> condition option \<Rightarrow> string \<Rightarrow> string \<Rightarrow> recon_result tm" where
  "reconcileMismatchedTalos L E machine endpoint auth previousUpToDate version schematicID =
     (let img = ms_image (m_spec machine);
          schematicOnly = (version = img_version img \<and> schematicID \<noteq> img_schematicID img);
          mismatchReason = (if schematicOnly then ''SchematicMismatch'' else ''VersionMismatch'');
          mismatchMessage = (if schematicOnly then ''The observed Talos schematic does not match the desired schematic.''
            else ''The observed Talos version does not match the desired version.'');
          readyMessage = (if schematicOnly then ''The Host is running the desired Talos version, but not the desired schematic.''
            else ''The Host is running Talos, but not the desired version or schematic.'')
      in if (case previousUpToDate of None \<Rightarrow> False
             | Some p \<Rightarrow> cond_status p = ConditionFalse \<and> cond_reason p = ReasonRolledBack \<and>
                 cond_observedGeneration p = mt_generation (m_meta machine))
         then report_running L E machine version schematicID
           (ConditionFalse, ReasonRolledBack, ''The previously observed desired Talos image rolled back; a new Machine generation is required before another upgrade is attempted.'')
           (ConditionFalse, ReasonRolledBack, ''Automatic image upgrades remain stopped after an observed Talos image rollback.'') 0
         else if (case previousUpToDate of None \<Rightarrow> False | Some p \<Rightarrow> cond_status p = ConditionTrue) \<and>
             mst_talosVersion (m_status machine) = img_version img \<and> mst_talosSchematicID (m_status machine) = img_schematicID img
         then report_running L E machine version schematicID
           (ConditionFalse, ReasonRolledBack, ''The previously observed Talos image is no longer running; automatic rollback recovery is stopped.'')
           (ConditionFalse, ReasonRolledBack, ''The Host no longer reports the previously observed desired Talos image.'') 0
         else do {
           outcome \<leftarrow> applyTalosUpgrade L E machine version endpoint auth;
           (if out_failure outcome \<noteq> []
            then report_running L E machine version schematicID
              (ConditionFalse, mismatchReason, out_failure outcome) (ConditionFalse, mismatchReason, readyMessage) 0
            else report_running L E machine version schematicID
              (ConditionFalse, mismatchReason, if out_retry outcome = [] then mismatchMessage else out_retry outcome)
              (ConditionFalse, mismatchReason, readyMessage) talosRequeue)
         })"

text \<open>\<open>None\<close>: not handled, the maintenance API is tried.\<close>

definition reconcileAuthenticatedTalos ::
  "k8s_lib \<Rightarrow> tm_env \<Rightarrow> TartMachine \<Rightarrow> string \<Rightarrow> string \<Rightarrow> (duration \<times> recon_error option) option tm" where
  "reconcileAuthenticatedTalos L E machine endpoint configuration =
     (let auth = AuthConfiguration configuration; img = ms_image (m_spec machine)
      in do {
        authErr \<leftarrow> dial E endpoint auth;
        (case authErr of
           Some DialInvalid \<Rightarrow> do {
             r \<leftarrow> reportTalosStatus L E machine
               (ConditionFalse, ''TalosCredentialInvalid'', ''The Talos machine configuration cannot be used to establish an authenticated connection.'')
               (ConditionFalse, ''TalosCredentialInvalid'', ''Talos installation is stopped until the machine configuration is valid.'')
               (''TalosCredentialInvalid'', ''The desired Talos credentials cannot be verified.'')
               (''TalosCredentialInvalid'', ''The Talos machine configuration is invalid for authenticated access.'') talosRequeue;
             State_Monad.return (Some r)
           }
         | Some DialFailed \<Rightarrow> State_Monad.return None
         | None \<Rightarrow> do {
             observed \<leftarrow> rpc_text E endpoint auth RpcVersion;
             (case observed of
                Inl RpcUnavailable \<Rightarrow> State_Monad.return None
              | Inl RpcFailed \<Rightarrow> do {
                  r \<leftarrow> reportTalosStatus L E machine
                    (ConditionFalse, ''TalosUnreachable'', ''The authenticated Talos API could not be queried.'')
                    (ConditionFalse, ''TalosUnreachable'', ''Talos provisioning has not been confirmed.'')
                    (''TalosUnreachable'', ''The desired Talos version cannot be verified.'')
                    (''TalosUnreachable'', ''The authenticated Talos API is not reachable.'') talosRequeue;
                  State_Monad.return (Some r)
                }
              | Inr version \<Rightarrow> do {
                  schematic \<leftarrow> rpc_text E endpoint auth RpcSchematic;
                  r \<leftarrow> (case schematic of
                     Inl _ \<Rightarrow> report_running L E machine version []
                       (ConditionFalse, ''SchematicUnavailable'', ''The Talos schematic identity could not be observed.'')
                       (ConditionFalse, ''SchematicUnavailable'', ''The desired Talos image cannot be verified without its schematic identity.'') talosRequeue
                   | Inr schematicID \<Rightarrow>
                       (let previousUpToDate = lib_find_condition L (mst_conditions (m_status machine)) TartMachineTalosUpToDateCondition
                        in if img_version img \<noteq> [] \<and> version = img_version img \<and> schematicID = img_schematicID img
                           then reconcileConvergedTalos L E machine endpoint configuration version schematicID (wasImageUpgradePending previousUpToDate)
                           else reconcileMismatchedTalos L E machine endpoint auth previousUpToDate version schematicID));
                  State_Monad.return (Some r)
                })
           })
      })"

definition reportMaintenanceConfigurationError ::
  "k8s_lib \<Rightarrow> tm_env \<Rightarrow> TartMachine \<Rightarrow> string \<Rightarrow> string \<Rightarrow> string \<Rightarrow> recon_result tm" where
  "reportMaintenanceConfigurationError L E machine reason message readyMessage =
     reportTalosStatus L E machine
       (ConditionFalse, reason, message)
       (ConditionFalse, reason, ''Talos installation has not been confirmed.'')
       (reason, ''Talos version cannot be verified before installation.'')
       (reason, readyMessage) talosRequeue"

text \<open>The configuration for the installation: with the desired installer image and the provider
  ID of the host, or what the report of the failure says (reason, message, ready message).\<close>

definition prepare_configuration :: "tm_env \<Rightarrow> TartMachine \<Rightarrow> string \<Rightarrow> (string \<times> string \<times> string) + string" where
  "prepare_configuration E machine configuration =
     (let img = ms_image (m_spec machine)
      in case SetInstallerImage (te_talos E) configuration (img_version img) (img_schematicID img) of
           None \<Rightarrow> Inl (''ConfigurationInvalid'', ''The Talos machine configuration could not be prepared for the desired installer image.'',
             ''The desired Talos installer image could not be applied to the machine configuration.'')
         | Some c \<Rightarrow>
             (case SetProviderID (te_talos E) c (ProviderID_String (ms_providerID (m_spec machine))) of
                Inl e \<Rightarrow>
                  (let reason = (if e = ErrProviderIDConflict then ''ConfigurationConflict'' else ''ConfigurationInvalid'');
                       message = (if e = ErrProviderIDConflict
                         then ''The Talos machine configuration contains a ProviderID that conflicts with the allocated Host.''
                         else ''The Talos machine configuration could not be prepared with the allocated ProviderID.'')
                   in Inl (reason, message, message))
              | Inr effective \<Rightarrow>
                  if \<not> te_configuration_valid E effective
                  then Inl (''ConfigurationInvalid'', ''The complete Talos machine configuration failed client-side validation.'',
                    ''The complete Talos machine configuration is invalid.'')
                  else Inr effective))"

definition reconcileMaintenanceTalos ::
  "k8s_lib \<Rightarrow> tm_env \<Rightarrow> TartMachine \<Rightarrow> TartHost \<Rightarrow> string \<Rightarrow> string \<Rightarrow> recon_result tm" where
  "reconcileMaintenanceTalos L E machine selected endpoint configuration =
     (if IsProvisioned machine
      then reportTalosStatus L E machine
        (ConditionFalse, ''TalosUnreachable'', ''The authenticated Talos API is not reachable.'')
        (ConditionTrue, ''Provisioned'', ''Talos installation was previously observed.'')
        (''TalosUnreachable'', ''The desired Talos version cannot be verified.'')
        (''TalosUnreachable'', ''The provisioned Host is temporarily unreachable.'') talosRequeue
      else do {
        err \<leftarrow> dial E endpoint AuthNone;
        (case err of
           Some _ \<Rightarrow> reportTalosStatus L E machine
             (ConditionFalse, ''MaintenanceUnavailable'', ''The Talos maintenance API is unavailable.'')
             (ConditionFalse, ''MaintenanceUnavailable'', ''Talos installation is waiting for a reachable maintenance API.'')
             (''MaintenanceUnavailable'', ''Talos version cannot be verified before installation.'')
             (''MaintenanceUnavailable'', ''The Talos maintenance API is not reachable yet.'') talosRequeue
         | None \<Rightarrow> do {
             observed \<leftarrow> rpc_inventory E endpoint AuthNone;
             (case observed of
                Inl _ \<Rightarrow> reportTalosStatus L E machine
                  (ConditionFalse, ''MaintenanceUnavailable'', ''The Talos maintenance identity could not be observed.'')
                  (ConditionFalse, ''MaintenanceUnavailable'', ''Talos installation is waiting for verified Host identity.'')
                  (''MaintenanceUnavailable'', ''Talos version cannot be verified before installation.'')
                  (''MaintenanceUnavailable'', ''The Talos maintenance inventory is not available.'') talosRequeue
              | Inr identity \<Rightarrow>
                  if \<not> HasMAC identity (hs_macAddress (h_spec selected))
                  then reportTalosStatus L E machine
                    (ConditionFalse, ReasonIdentityConflict, ''The Talos endpoint MAC address does not match the claimed Host.'')
                    (ConditionFalse, ReasonIdentityConflict, ''Talos configuration apply is stopped until Host identity matches.'')
                    (ReasonIdentityConflict, ''Talos version cannot be trusted for a different Host.'')
                    (ReasonIdentityConflict, ''The Talos endpoint belongs to a different Host identity.'') 0
                  else (case prepare_configuration E machine configuration of
                    Inl (reason, message, readyMessage) \<Rightarrow> reportMaintenanceConfigurationError L E machine reason message readyMessage
                  | Inr effective \<Rightarrow> do {
                      aerr \<leftarrow> rpc E endpoint AuthNone (RpcApply ApplyNoReboot effective);
                      (if aerr \<noteq> None
                       then reportMaintenanceConfigurationError L E machine ''ConfigurationApplyFailed''
                         ''The complete Talos machine configuration could not be applied.''
                         ''The Talos maintenance API rejected the machine configuration.''
                       else reportTalosStatus L E machine
                         (ConditionTrue, ''MaintenanceReachable'', ''The Talos maintenance API accepted the machine configuration.'')
                         (ConditionFalse, ''Provisioning'', ''Talos is installing the machine configuration and will reboot.'')
                         (''Provisioning'', ''The authenticated Talos version will be checked after reboot.'')
                         (''Provisioning'', ''Talos installation is in progress.'') talosRequeue)
                    }))
           })
      })"

definition reconcileTalos ::
  "k8s_lib \<Rightarrow> tm_env \<Rightarrow> string \<Rightarrow> TartMachine \<Rightarrow> TartHost \<Rightarrow> string \<Rightarrow> recon_result tm" where
  "reconcileTalos L E ns machine selected configuration =
     (let endpoint = HostTalosEndpoint selected
      in if endpoint = []
         then reportTalosStatus L E machine
           (ConditionFalse, ''EndpointUnavailable'', ''The Host has no reachable Talos maintenance endpoint.'')
           (ConditionFalse, ''EndpointUnavailable'', ''Talos installation has not started because the Host endpoint is not observed.'')
           (''EndpointUnavailable'', ''Talos version cannot be verified before the Host is reachable.'')
           (''EndpointUnavailable'', ''The Host Talos endpoint is not available yet.'') talosRequeue
         else do {
           (reprovision, selected) \<leftarrow> reconcileReprovision L E ns machine selected endpoint;
           (case reprovision of
              Some r \<Rightarrow> State_Monad.return r
            | None \<Rightarrow> do {
                (err, selected) \<leftarrow> ensureTalosIdentityBinding L E ns machine selected;
                (if err
                 then reportTalosStatus L E machine
                   (ConditionFalse, ReasonRecoveryIdentityUnavailable, ''The Talos recovery identity for this installation could not be established.'')
                   (ConditionFalse, ReasonRecoveryIdentityUnavailable, ''Talos installation is stopped until its recovery identity is persisted.'')
                   (ReasonRecoveryIdentityUnavailable, ''Talos version cannot be verified before the recovery identity is persisted.'')
                   (ReasonRecoveryIdentityUnavailable, ''The Talos recovery Secret could not be established for this Host.'') talosRequeue
                 else do {
                   authenticated \<leftarrow> reconcileAuthenticatedTalos L E machine endpoint configuration;
                   (case authenticated of
                      Some r \<Rightarrow> State_Monad.return r
                    | None \<Rightarrow> reconcileMaintenanceTalos L E machine selected endpoint configuration)
                 })
              })
         })"

subsection \<open>Upgrades\<close>

definition status_events :: "tm_event set" where "status_events = range MachineStatusPatch"

definition auth_events :: "string \<Rightarrow> talos_auth \<Rightarrow> tm_event set" where
  "auth_events ep au = configuration_events ep au \<union> status_events"

lemma auth_events_simps [simp]:
  "Rpc ep' au' (RpcUpgrade i) \<notin> auth_events ep au" "Rpc ep' au' RpcReset \<notin> auth_events ep au"
  "HostStatusPatch h \<notin> auth_events ep au" "MachineStatusPatch m \<in> auth_events ep au"
  "Dial ep' au' \<in> auth_events ep au" "Rpc ep' au' RpcVersion \<in> auth_events ep au" "Rpc ep' au' RpcSchematic \<in> auth_events ep au"
  by (auto simp: auth_events_def status_events_def configuration_events_def gate_events_def drain_events_def lease_events_def)

lemma emits_reconcileConvergedTalos: "emits (reconcileConvergedTalos L E machine ep c v sid p) (auth_events ep (AuthConfiguration c))"
proof -
  have sub: "drain_events \<subseteq> auth_events ep (AuthConfiguration c)"
    by (auto simp: auth_events_def configuration_events_def gate_events_def)
  have fin: "emits (FinalizeImageUpgrade E m q) (auth_events ep (AuthConfiguration c))" for m q
    by (rule emits_mono[OF _ sub])
       (auto intro!: emit_rules simp: FinalizeImageUpgrade_def workloadClientForMachine_def findNodeByProviderID_def
         recover_node_def uncordonNode_def Let_def)
  show ?thesis
    unfolding reconcileConvergedTalos_def finalizeObservedImageUpgrade_def report_running_def
    by (intro emit_rules fin emits_mono[OF emits_reconcileMachineConfiguration]) (auto simp: auth_events_def status_events_def)
qed

text \<open>An upgrade is requested for the desired image, which the node does not run, from a version
  it may come from, after no observed rollback, and once the node may restart.\<close>

definition upgrade_justified ::
  "k8s_lib \<Rightarrow> tm_env \<Rightarrow> TartMachine \<Rightarrow> string \<Rightarrow> talos_auth \<Rightarrow> string \<Rightarrow> string \<Rightarrow> string \<Rightarrow> tm_event list \<Rightarrow> tm_event list \<Rightarrow> bool" where
  "upgrade_justified L E machine ep au version schematicID installer tr pre \<longleftrightarrow>
     (let img = ms_image (m_spec machine);
          upToDate = lib_find_condition L (mst_conditions (m_status machine)) TartMachineTalosUpToDateCondition
      in ValidateUpgrade (te_talos E) version (img_version img) \<and>
         InstallerImage (te_talos E) (img_version img) (img_schematicID img) = Some installer \<and>
         \<not> (version = img_version img \<and> schematicID = img_schematicID img \<and> img_version img \<noteq> []) \<and>
         (\<forall>p. upToDate = Some p \<longrightarrow>
            \<not> (cond_status p = ConditionFalse \<and> cond_reason p = ReasonRolledBack \<and> cond_observedGeneration p = mt_generation (m_meta machine)) \<and>
            \<not> (cond_status p = ConditionTrue \<and> mst_talosVersion (m_status machine) = img_version img \<and>
               mst_talosSchematicID (m_status machine) = img_schematicID img)) \<and>
         (\<exists>clusterMachine. restart_safe L E clusterMachine (ProviderID_String (ms_providerID (m_spec machine))) ep au tr pre))"

lemma find_capi_machine_reads: "\<exists>r. run_state (find_capi_machine L E machine) tr = (r, tr)"
  by (simp add: find_capi_machine_def)

lemma applyTalosUpgrade_upgrades:
  assumes run: "run_state (applyTalosUpgrade L E machine version ep au) tr = (r, tr @ new)"
    and up: "Rpc a b (RpcUpgrade i) \<in> set new"
  shows "\<exists>pre clusterMachine. new = pre @ [Rpc ep au (RpcUpgrade i)] \<and> a = ep \<and> b = au \<and>
    ValidateUpgrade (te_talos E) version (img_version (ms_image (m_spec machine))) \<and>
    InstallerImage (te_talos E) (img_version (ms_image (m_spec machine))) (img_schematicID (ms_image (m_spec machine))) = Some i \<and>
    restart_safe L E clusterMachine (ProviderID_String (ms_providerID (m_spec machine))) ep au tr pre"
proof -
  let ?img = "ms_image (m_spec machine)"
  from run up have v: "ValidateUpgrade (te_talos E) version (img_version ?img)"
    by (cases "ValidateUpgrade (te_talos E) version (img_version ?img)") (auto simp: applyTalosUpgrade_def Let_def)
  with run up obtain inst where i: "InstallerImage (te_talos E) (img_version ?img) (img_schematicID ?img) = Some inst"
    by (cases "InstallerImage (te_talos E) (img_version ?img) (img_schematicID ?img)") (auto simp: applyTalosUpgrade_def Let_def)
  obtain f where f: "run_state (find_capi_machine L E machine) tr = (f, tr)" using find_capi_machine_reads by blast
  from run up v i f obtain c where c: "f = Inr c" by (cases f) (auto simp: applyTalosUpgrade_def Let_def)
  have "run_state (PerformImageUpgrade L E c (ProviderID_String (ms_providerID (m_spec machine))) inst ep au) tr = (r, tr @ new)"
    using run v i f c by (simp add: applyTalosUpgrade_def Let_def)
  from upgrade_only_when_safe[OF this up] obtain pre where pre: "new = pre @ [Rpc ep au (RpcUpgrade inst)]"
    "restart_safe L E c (ProviderID_String (ms_providerID (m_spec machine))) ep au tr pre" by blast
  have "Rpc a b (RpcUpgrade i) \<notin> set pre"
  proof -
    show ?thesis
    proof
      assume "Rpc a b (RpcUpgrade i) \<in> set pre"
      moreover obtain g m t1 where g: "run_state (restart_gate L E c (ProviderID_String (ms_providerID (m_spec machine))) ep au
         ''The control-plane etcd quorum could not be proven safe for a Talos restart; waiting before the upgrade.'') tr = ((g, m), t1)"
        by (metis prod.exhaust)
      moreover from emitsD[OF emits_restart_gate g] obtain n1 where "t1 = tr @ n1" "set n1 \<subseteq> gate_events" by blast
      ultimately show False
        using \<open>run_state (PerformImageUpgrade L E c (ProviderID_String (ms_providerID (m_spec machine))) inst ep au) tr = (r, tr @ new)\<close> pre(1)
        by (cases g) (auto simp: PerformImageUpgrade_def rpc_def split: if_splits)
    qed
  qed
  with up pre(1) have "a = ep" "b = au" "i = inst" by auto
  with pre v i show ?thesis by blast
qed

lemma reconcileMismatchedTalos_upgrades:
  assumes run: "run_state (reconcileMismatchedTalos L E machine ep au upToDate version sid) tr = (r, tr @ new)"
    and up: "Rpc a b (RpcUpgrade i) \<in> set new"
    and cond: "upToDate = lib_find_condition L (mst_conditions (m_status machine)) TartMachineTalosUpToDateCondition"
    and differs: "\<not> (version = img_version (ms_image (m_spec machine)) \<and> sid = img_schematicID (ms_image (m_spec machine)) \<and>
       img_version (ms_image (m_spec machine)) \<noteq> [])"
  shows "\<exists>pre rest. new = pre @ Rpc ep au (RpcUpgrade i) # rest \<and> a = ep \<and> b = au \<and>
     upgrade_justified L E machine ep au version sid i tr pre \<and> set rest \<subseteq> status_events"
proof -
  let ?img = "ms_image (m_spec machine)"
  have rep: "Rpc a b (RpcUpgrade i) \<notin> set new" if "run_state (report_running L E machine version sid u d q) tr = (r, tr @ new)" for u d q
    using emitsD[OF emits_reportTalosStatusWithVersion[OF order_refl] that[unfolded report_running_def]] by auto
  have ok: "\<not> (cond_status p = ConditionFalse \<and> cond_reason p = ReasonRolledBack \<and> cond_observedGeneration p = mt_generation (m_meta machine))"
    "\<not> (cond_status p = ConditionTrue \<and> mst_talosVersion (m_status machine) = img_version ?img \<and> mst_talosSchematicID (m_status machine) = img_schematicID ?img)"
    if "upToDate = Some p" for p
    using run rep up that by (auto simp: reconcileMismatchedTalos_def Let_def)
  have fine: "\<not> (case upToDate of None \<Rightarrow> False | Some p \<Rightarrow> cond_status p = ConditionFalse \<and> cond_reason p = ReasonRolledBack \<and>
        cond_observedGeneration p = mt_generation (m_meta machine))"
    "\<not> ((case upToDate of None \<Rightarrow> False | Some p \<Rightarrow> cond_status p = ConditionTrue) \<and>
        mst_talosVersion (m_status machine) = img_version ?img \<and> mst_talosSchematicID (m_status machine) = img_schematicID ?img)"
    using ok by (auto split: option.splits)
  obtain out t1 where o: "run_state (applyTalosUpgrade L E machine version ep au) tr = (out, t1)" by fastforce
  have em: "emits (applyTalosUpgrade L E machine version ep au) UNIV"
    unfolding applyTalosUpgrade_def PerformImageUpgrade_def Let_def by (intro emit_rules emits_mono[OF drains_restart_gate]) auto
  from emitsD[OF em o] obtain n1 where n1: "t1 = tr @ n1" by blast
  have "\<exists>n2. tr @ new = t1 @ n2 \<and> set n2 \<subseteq> status_events"
    using run o fine emitsD[OF emits_reportTalosStatusWithVersion[OF order_refl], unfolded status_events_def[symmetric]]
    by (auto simp: reconcileMismatchedTalos_def Let_def report_running_def split: if_splits)
  then obtain n2 where n2: "new = n1 @ n2" "set n2 \<subseteq> status_events" using n1 by auto
  with up have "Rpc a b (RpcUpgrade i) \<in> set n1" by (auto simp: status_events_def)
  from applyTalosUpgrade_upgrades[OF o[unfolded n1] this] obtain pre c where p: "n1 = pre @ [Rpc ep au (RpcUpgrade i)]" "a = ep" "b = au"
    "ValidateUpgrade (te_talos E) version (img_version ?img)"
    "InstallerImage (te_talos E) (img_version ?img) (img_schematicID ?img) = Some i"
    "restart_safe L E c (ProviderID_String (ms_providerID (m_spec machine))) ep au tr pre" by blast
  have "upgrade_justified L E machine ep au version sid i tr pre"
    unfolding upgrade_justified_def Let_def using p ok differs cond by blast
  with n2 p show ?thesis by (intro exI[of _ pre] exI[of _ n2]) simp
qed

text \<open>What happened between two traces is in a set.\<close>

definition only :: "'e set \<Rightarrow> 'e list \<Rightarrow> 'e list \<Rightarrow> bool" where
  "only S t t' \<longleftrightarrow> (\<exists>new. t' = t @ new \<and> set new \<subseteq> S)"

lemma only_emits: "emits m S \<Longrightarrow> run_state m t = (x, t') \<Longrightarrow> only S t t'"
  unfolding only_def by (rule emitsD)

lemma only_prefix: "only S (t @ es) t' \<Longrightarrow> set es \<subseteq> S \<Longrightarrow> only S t t'"
  by (auto simp: only_def)

lemma only_refl: "only S t t"
  by (auto simp: only_def)

lemma auth_status: "range MachineStatusPatch \<subseteq> auth_events ep au"
  by (auto simp: auth_events_def status_events_def)

lemma reconcileAuthenticatedTalos_cases:
  assumes run: "run_state (reconcileAuthenticatedTalos L E machine ep configuration) tr = (res, tr')"
  defines "au \<equiv> AuthConfiguration configuration" and "img \<equiv> ms_image (m_spec machine)"
  obtains (quiet) "only (auth_events ep au) tr tr'"
  | (mismatch) version sid r where
      "te_text E (tr @ [Dial ep au]) (Rpc ep au RpcVersion) = Inr version"
      "te_text E (tr @ [Dial ep au, Rpc ep au RpcVersion]) (Rpc ep au RpcSchematic) = Inr sid"
      "\<not> (version = img_version img \<and> sid = img_schematicID img \<and> img_version img \<noteq> [])"
      "run_state (reconcileMismatchedTalos L E machine ep au
         (lib_find_condition L (mst_conditions (m_status machine)) TartMachineTalosUpToDateCondition) version sid)
         (tr @ [Dial ep au, Rpc ep au RpcVersion, Rpc ep au RpcSchematic]) = (r, tr')" "res = Some r"
proof -
  let ?d = "Dial ep au" and ?v = "Rpc ep au RpcVersion" and ?s = "Rpc ep au RpcSchematic"
  note simps = reconcileAuthenticatedTalos_def dial_def rpc_text_def Let_def au_def[symmetric] img_def[symmetric]
  have rep: "only (auth_events ep au) t t'" if "run_state (reportTalosStatus L E machine a b c d q) t = (r, t')" for a b c d q r t t'
    using only_emits[OF emits_reportTalosStatus[OF auth_status] that] .
  have running: "only (auth_events ep au) t t'"
    if "run_state (report_running L E machine v sid u w q) t = (r, t')" for v sid u w q r t t'
    using only_emits[OF emits_reportTalosStatusWithVersion[OF auth_status] that[unfolded report_running_def]] .
  have conv: "only (auth_events ep au) t t'"
    if "run_state (reconcileConvergedTalos L E machine ep configuration v sid p) t = (r, t')" for v sid p r t t'
    using only_emits[OF emits_reconcileConvergedTalos that] by (simp add: au_def)
  show ?thesis
  proof (cases "te_dial E tr ?d")
    case (Some e)
    with run have "only (auth_events ep au) (tr @ [?d]) tr'"
      by (cases e) (auto simp: simps only_refl dest: rep split: prod.splits)
    then show ?thesis by (intro quiet only_prefix[of _ tr "[?d]"]) simp_all
  next
    case dialled: None
    show ?thesis
    proof (cases "te_text E (tr @ [?d]) ?v")
      case (Inl e)
      with run dialled have "only (auth_events ep au) (tr @ [?d, ?v]) tr'"
        by (cases e) (auto simp: simps only_refl dest: rep split: prod.splits)
      then show ?thesis by (intro quiet only_prefix[of _ tr "[?d, ?v]"]) simp_all
    next
      case version: (Inr version)
      show ?thesis
      proof (cases "\<exists>sid. te_text E (tr @ [?d, ?v]) ?s = Inr sid \<and>
          \<not> (version = img_version img \<and> sid = img_schematicID img \<and> img_version img \<noteq> [])")
        case True
        then show ?thesis using run dialled version by (auto simp: simps intro: mismatch[OF version] split: prod.splits)
      next
        case False
        then have "only (auth_events ep au) (tr @ [?d, ?v, ?s]) tr'"
          using run dialled version by (auto simp: simps dest: running conv split: prod.splits sum.splits if_splits)
        then show ?thesis by (intro quiet only_prefix[of _ tr "[?d, ?v, ?s]"]) simp_all
      qed
    qed
  qed
qed

lemma authenticated_upgrades:
  assumes run: "run_state (reconcileAuthenticatedTalos L E machine ep configuration) tr = (res, tr @ new)"
    and up: "Rpc a b (RpcUpgrade i) \<in> set new"
  defines "au \<equiv> AuthConfiguration configuration"
  defines "asked \<equiv> [Dial ep au, Rpc ep au RpcVersion, Rpc ep au RpcSchematic]"
  shows "\<exists>version sid pre rest. new = asked @ pre @ Rpc ep au (RpcUpgrade i) # rest \<and>
     te_text E (tr @ take 1 asked) (Rpc ep au RpcVersion) = Inr version \<and>
     te_text E (tr @ take 2 asked) (Rpc ep au RpcSchematic) = Inr sid \<and>
     upgrade_justified L E machine ep au version sid i (tr @ asked) pre \<and> set rest \<subseteq> status_events"
  using run
proof (cases rule: reconcileAuthenticatedTalos_cases)
  case quiet
  then show ?thesis using up by (auto simp: only_def)
next
  case (mismatch version sid r)
  note m = mismatch(4)[folded au_def, folded asked_def]
  have "emits (reconcileMismatchedTalos L E machine ep au u version sid) UNIV" for u
    unfolding reconcileMismatchedTalos_def applyTalosUpgrade_def PerformImageUpgrade_def report_running_def Let_def
    by (intro emit_rules emits_mono[OF drains_restart_gate]) auto
  from emitsD[OF this m] obtain n where n: "new = asked @ n" by auto
  with up have "Rpc a b (RpcUpgrade i) \<in> set n" by (auto simp: asked_def)
  from reconcileMismatchedTalos_upgrades[OF m[unfolded n, folded append_assoc] this refl mismatch(3)]
  obtain pre rest where "n = pre @ Rpc ep au (RpcUpgrade i) # rest"
    "upgrade_justified L E machine ep au version sid i (tr @ asked) pre" "set rest \<subseteq> status_events" by auto
  with n mismatch(1,2) show ?thesis
    by (intro exI[of _ version] exI[of _ sid] exI[of _ pre] exI[of _ rest]) (simp add: asked_def au_def)
qed

subsection \<open>Installations\<close>

lemma maintenance_applies:
  assumes run: "run_state (reconcileMaintenanceTalos L E machine selected ep configuration) tr = (r, tr @ new)"
    and e: "Rpc a b (RpcApply md c) \<in> set new"
  shows "a = ep \<and> b = AuthNone \<and> md = ApplyNoReboot \<and> \<not> IsProvisioned machine \<and>
     prepare_configuration E machine configuration = Inr c \<and>
     (\<exists>inv rest. te_inventory E (tr @ [Dial ep AuthNone]) (Rpc ep AuthNone RpcInventory) = Inr inv \<and>
        HasMAC inv (hs_macAddress (h_spec selected)) \<and> set rest \<subseteq> status_events \<and>
        new = [Dial ep AuthNone, Rpc ep AuthNone RpcInventory, Rpc ep AuthNone (RpcApply ApplyNoReboot c)] @ rest)"
proof -
  let ?d = "Dial ep AuthNone" and ?i = "Rpc ep AuthNone RpcInventory"
  have rep: "only status_events t t'" if "run_state (reportTalosStatus L E machine u v w x q) t = (r, t')" for u v w x q r t t'
    using only_emits[OF emits_reportTalosStatus that] by (simp add: status_events_def)
  have rep2: "only status_events t t'" if "run_state (reportMaintenanceConfigurationError L E machine u v w) t = (r, t')" for u v w r t t'
    using rep that by (auto simp: reportMaintenanceConfigurationError_def)
  have no: "\<not> only status_events (tr @ seen) (tr @ new)" if "\<forall>x \<in> set seen. x \<in> {?d, ?i}" for seen
    using that e by (auto simp: only_def status_events_def)
  have no0: "\<not> only status_events tr (tr @ new)" using no[of "[]"] by simp
  note simps = reconcileMaintenanceTalos_def dial_def rpc_inventory_def rpc_def
  from run no0 have np: "\<not> IsProvisioned machine" by (auto simp: simps dest: rep split: if_splits)
  from run np no[of "[?d]"] have d: "te_dial E tr ?d = None"
    by (cases "te_dial E tr ?d") (auto simp: simps dest: rep)
  from run np d no[of "[?d, ?i]"] obtain inv where inv: "te_inventory E (tr @ [?d]) ?i = Inr inv"
    by (cases "te_inventory E (tr @ [?d]) ?i") (auto simp: simps dest: rep)
  from run np d inv no[of "[?d, ?i]"] have mac: "HasMAC inv (hs_macAddress (h_spec selected))"
    by (cases "HasMAC inv (hs_macAddress (h_spec selected))") (auto simp: simps dest: rep)
  from run np d inv mac no[of "[?d, ?i]"] obtain c' where c': "prepare_configuration E machine configuration = Inr c'"
    by (cases "prepare_configuration E machine configuration") (auto simp: simps dest: rep2)
  have "only status_events (tr @ [?d, ?i, Rpc ep AuthNone (RpcApply ApplyNoReboot c')]) (tr @ new)"
    using run np d inv mac c' by (auto simp: simps dest: rep rep2 split: if_splits)
  then obtain rest where rest: "new = [?d, ?i, Rpc ep AuthNone (RpcApply ApplyNoReboot c')] @ rest" "set rest \<subseteq> status_events"
    by (auto simp: only_def)
  with e have "a = ep" "b = AuthNone" "md = ApplyNoReboot" "c = c'" by (auto simp: status_events_def)
  with np inv mac c' rest show ?thesis by (intro conjI exI[of _ inv] exI[of _ rest]) simp_all
qed

text \<open>The binding a host shows after the status patches of a trace.\<close>

fun host_binding :: "TalosIdentityReference option \<Rightarrow> tm_event list \<Rightarrow> TalosIdentityReference option" where
  "host_binding b [] = b"
| "host_binding b (HostStatusPatch h # es) = host_binding (hst_currentTalosIdentityRef (h_status h)) es"
| "host_binding b (e # es) = host_binding b es"

lemma host_binding_append: "host_binding b (xs @ ys) = host_binding (host_binding b xs) ys"
  by (induction b xs rule: host_binding.induct) simp_all

lemma host_binding_quiet: "\<forall>h. HostStatusPatch h \<notin> set es \<Longrightarrow> host_binding b es = b"
  by (induction b es rule: host_binding.induct) auto

text \<open>An installation is requested without authentication, once, for a machine whose installation
  was never observed, when the endpoint has just shown the MAC address of the host; the
  configuration is the prepared one, and the host shows the recovery identity with which
  it can be reset later.\<close>

lemma reprovision_continues:
  assumes run: "run_state (reconcileReprovision L E ns machine selected ep) tr = ((None, h'), tr')"
  shows "h_spec h' = h_spec selected \<and> (\<exists>new. tr' = tr @ new \<and> (\<forall>a b m c. Rpc a b (RpcApply m c) \<notin> set new) \<and>
     hst_currentTalosIdentityRef (h_status h') = host_binding (hst_currentTalosIdentityRef (h_status selected)) new)"
  using run
proof (cases rule: reconcileReprovision_cases)
  case (confirm pre)
  have quiet: "\<forall>h. HostStatusPatch h \<notin> set pre" "\<forall>a b m c. Rpc a b (RpcApply m c) \<notin> set pre"
    using confirm(1) by (auto simp: reset_reads_def reset_requests_def)
  from confirm_unbinds[OF confirm(2)] obtain i where "h' = bind_identity None selected"
    "tr' = tr @ pre @ [Dial ep AuthNone, Rpc ep AuthNone RpcInventory, HostStatusPatch h']" by auto
  with quiet show ?thesis
    by (intro conjI exI[of _ "pre @ [Dial ep AuthNone, Rpc ep AuthNone RpcInventory, HostStatusPatch h']"])
       (auto simp: host_binding_append)
qed auto

lemma ensure_trace:
  assumes "run_state (ensureTalosIdentityBinding L E ns machine h) tr = ((False, h'), tr')"
  shows "\<exists>new. tr' = tr @ new \<and> (\<forall>a b m c. Rpc a b (RpcApply m c) \<notin> set new) \<and>
     hst_currentTalosIdentityRef (h_status h') = host_binding (hst_currentTalosIdentityRef (h_status h)) new"
  using assms by (cases rule: ensure_cases) auto

lemma emits_reconcileAuthenticatedTalos:
  "emits (reconcileAuthenticatedTalos L E machine ep configuration)
     (auth_events ep (AuthConfiguration configuration) \<union> {Rpc ep (AuthConfiguration configuration) (RpcUpgrade i) | i. True})"
    (is "emits ?m ?S")
proof -
  have sub: "drain_events \<subseteq> ?S" by (auto simp: auth_events_def configuration_events_def gate_events_def)
  have status: "range MachineStatusPatch \<subseteq> ?S" using auth_status by blast
  have "emits (applyTalosUpgrade L E machine v ep (AuthConfiguration configuration)) ?S" for v
    unfolding applyTalosUpgrade_def PerformImageUpgrade_def Let_def
    by (intro emit_rules emits_mono[OF drains_restart_gate sub]) auto
  then have "emits (reconcileMismatchedTalos L E machine ep (AuthConfiguration configuration) u v sid) ?S" for u v sid
    unfolding reconcileMismatchedTalos_def report_running_def Let_def using status by (intro emit_rules)
  moreover have "emits (reconcileConvergedTalos L E machine ep configuration v sid p) ?S" for v sid p
    by (rule emits_mono[OF emits_reconcileConvergedTalos]) auto
  moreover have "emits (case e of DialInvalid \<Rightarrow> m | DialFailed \<Rightarrow> n) ?S" if "emits m ?S" "emits n ?S" for e and m n :: "'a tm"
    using that by (cases e) simp_all
  moreover have "emits (case e of RpcUnavailable \<Rightarrow> m | RpcFailed \<Rightarrow> n) ?S" if "emits m ?S" "emits n ?S" for e and m n :: "'a tm"
    using that by (cases e) simp_all
  ultimately show ?thesis
    unfolding reconcileAuthenticatedTalos_def report_running_def Let_def using status
    by (auto intro!: emit_rules split: dial_error.splits rpc_error.splits)
qed

lemma reprovision_no_apply:
  assumes "run_state (reconcileReprovision L E ns machine selected ep) tr = ((r, h'), tr')"
  shows "\<exists>n. tr' = tr @ n \<and> Rpc a b (RpcApply m c) \<notin> set n"
  using assms
proof (cases rule: reconcileReprovision_cases)
  case none
  then show ?thesis by simp
next
  case (reports pre)
  with reported_only[OF reports(2)] show ?thesis by (auto simp: reset_reads_def reset_requests_def)
next
  case (confirm pre)
  with emitsD[OF emits_confirmReprovisionCompleted[OF order_refl] confirm(2)] show ?thesis
    by (auto simp: reset_reads_def reset_requests_def)
next
  case (reset m)
  with reported_only[OF reset(4)] show ?thesis by (auto simp: reset_requests_def)
qed

lemma reconcileTalos_installs:
  assumes run: "run_state (reconcileTalos L E ns machine selected configuration) tr = (r, tr @ new)"
    and e: "Rpc a AuthNone (RpcApply md c) \<in> set new"
  defines "ep \<equiv> HostTalosEndpoint selected"
  shows "a = ep \<and> md = ApplyNoReboot \<and> \<not> IsProvisioned machine \<and> prepare_configuration E machine configuration = Inr c \<and>
     (\<exists>pre inv rest. te_inventory E (tr @ pre @ [Dial ep AuthNone]) (Rpc ep AuthNone RpcInventory) = Inr inv \<and>
        HasMAC inv (hs_macAddress (h_spec selected)) \<and>
        host_binding (hst_currentTalosIdentityRef (h_status selected)) pre \<noteq> None \<and> set rest \<subseteq> status_events \<and>
        new = pre @ [Dial ep AuthNone, Rpc ep AuthNone RpcInventory, Rpc ep AuthNone (RpcApply ApplyNoReboot c)] @ rest)"
proof -
  let ?bad = "Rpc a AuthNone (RpcApply md c)"
  let ?S = "auth_events ep (AuthConfiguration configuration) \<union> {Rpc ep (AuthConfiguration configuration) (RpcUpgrade i) | i. True}"
  have rep: False if "run_state (reportTalosStatus L E machine u v w x q) (tr @ seen) = (r, tr @ new)" "?bad \<notin> set seen" for u v w x q seen
    using only_emits[OF emits_reportTalosStatus[OF order_refl] that(1)] that(2) e by (auto simp: only_def)
  obtain rp h1 t1 where 1: "run_state (reconcileReprovision L E ns machine selected ep) tr = ((rp, h1), t1)" by (metis prod.exhaust)
  note em1 = reprovision_no_apply[OF 1, of a AuthNone md c]
  from run have ne: "ep \<noteq> []" using rep[of _ _ _ _ _ "[]"] by (auto simp: reconcileTalos_def ep_def Let_def split: if_splits)
  note step = run[unfolded reconcileTalos_def, folded ep_def]
  from step ne 1 em1 e have rp: "rp = None" by (cases rp) (auto simp: Let_def)
  from reprovision_continues[OF 1[unfolded rp]] obtain n1 where n1: "h_spec h1 = h_spec selected" "t1 = tr @ n1" "?bad \<notin> set n1"
    "hst_currentTalosIdentityRef (h_status h1) = host_binding (hst_currentTalosIdentityRef (h_status selected)) n1" by blast
  obtain err h2 t2 where 2: "run_state (ensureTalosIdentityBinding L E ns machine h1) t1 = ((err, h2), t2)" by (metis prod.exhaust)
  then obtain n where n: "t2 = t1 @ n" "?bad \<notin> set n" by (cases rule: ensure_cases) auto
  from step ne 1 rp 2 n n1 rep[of _ _ _ _ _ "n1 @ n"] have ok: "\<not> err" by (cases err) (auto simp: Let_def)
  from 2 ok have bound: "run_state (ensureTalosIdentityBinding L E ns machine h1) t1 = ((False, h2), t2)" by simp
  from ensure_trace[OF bound] obtain n2 where n2: "t2 = t1 @ n2" "?bad \<notin> set n2"
    "hst_currentTalosIdentityRef (h_status h2) = host_binding (hst_currentTalosIdentityRef (h_status h1)) n2" by blast
  have h2: "h_spec h2 = h_spec selected" "hst_currentTalosIdentityRef (h_status h2) \<noteq> None"
    using ensure_binds[OF bound] n1(1) by simp_all
  obtain au t3 where 3: "run_state (reconcileAuthenticatedTalos L E machine ep configuration) t2 = (au, t3)" by fastforce
  have quiet: "?bad \<notin> ?S" "HostStatusPatch h \<notin> ?S" for h
    by (auto simp: auth_events_def status_events_def configuration_events_def gate_events_def drain_events_def lease_events_def)
  from emitsD[OF emits_reconcileAuthenticatedTalos 3] obtain n3 where n3: "t3 = t2 @ n3" "set n3 \<subseteq> ?S" by blast
  with quiet have n3: "t3 = t2 @ n3" "?bad \<notin> set n3" "\<forall>h. HostStatusPatch h \<notin> set n3" by blast+
  from step ne 1 rp 2 ok 3 n1 n2 n3 e have au: "au = None" by (cases au) (auto simp: Let_def)
  have "run_state (reconcileMaintenanceTalos L E machine h2 ep configuration) t3 = (r, tr @ new)"
    using step ne 1 rp 2 ok 3 au by (simp add: Let_def)
  moreover obtain n4 where n4: "new = (n1 @ n2 @ n3) @ n4"
  proof -
    have "emits (reconcileMaintenanceTalos L E machine h2 ep configuration) UNIV"
      unfolding reconcileMaintenanceTalos_def reportMaintenanceConfigurationError_def by (auto intro!: emit_rules split: sum.splits)
    from emitsD[OF this calculation] n1 n2 n3 that show ?thesis by auto
  qed
  moreover from n4 e n1 n2 n3 have "?bad \<in> set n4" by auto
  ultimately have "run_state (reconcileMaintenanceTalos L E machine h2 ep configuration) (tr @ n1 @ n2 @ n3) = (r, (tr @ n1 @ n2 @ n3) @ n4)"
    using n1 n2 n3 by simp
  from maintenance_applies[OF this \<open>?bad \<in> set n4\<close>] h2 n4
  have "host_binding (hst_currentTalosIdentityRef (h_status selected)) (n1 @ n2 @ n3) \<noteq> None"
    using n1(4) n2(3) host_binding_quiet[OF n3(3)] by (simp add: host_binding_append)
  with maintenance_applies[OF \<open>run_state (reconcileMaintenanceTalos L E machine h2 ep configuration) (tr @ n1 @ n2 @ n3) = _\<close> \<open>?bad \<in> set n4\<close>] h2(1) n4
  show ?thesis by (metis append.assoc)
qed

end
