(* ===== verification/MachineDeletion.thy ===== *)
theory MachineDeletion
  imports MachineEnv
begin

section \<open>Deleting a machine\<close>

text \<open>
  \<open>controller/tartmachine/deletion.go\<close>: after the CAPI Machine has been drained, the host
  is shut down, the shutdown is confirmed, the consumer becomes the previous consumer of the
  host (\<open>RetainHost\<close>) and only then the finalizer goes. The stop of a host is observed
  through its power backend, or, without one, through the silence of both Talos APIs
  together with an explicit confirmation by the operator.
\<close>

definition tartMachineFinalizer :: string where
  "tartMachineFinalizer = ''tart.cluster.x-k8s.io/machine-lifecycle''"

definition shutdownConfirmationRequeue :: duration where "shutdownConfirmationRequeue = 30 * second"
definition shutdownConfirmationDelay :: duration where "shutdownConfirmationDelay = 30 * second"

definition ReasonShutdownUnconfirmed :: string where "ReasonShutdownUnconfirmed = ''ShutdownUnconfirmed''"

definition hasIndependentPowerControl :: "PowerBackend \<Rightarrow> bool" where
  "hasIndependentPowerControl b \<longleftrightarrow> b = PowerBackendRedfish \<or> b = PowerBackendIntelManageability"

definition isShutdownConfirmationRequired :: "PowerBackend \<Rightarrow> bool" where
  "isShutdownConfirmationRequired b \<longleftrightarrow> b = PowerBackendWakeOnLAN \<or> b = PowerBackendManual"

definition backend_of :: "TartHost \<Rightarrow> PowerBackend" where
  "backend_of h = pw_backend (hs_power (h_spec h))"

definition shutdownConfirmed :: "TartHost \<Rightarrow> TartMachine \<Rightarrow> bool" where
  "shutdownConfirmed h machine =
     (case hs_shutdownConfirmation (h_spec h) of None \<Rightarrow> False
      | Some c \<Rightarrow>
          if trim_space (sc_consumerUID c) = [] \<or> sc_consumerUID c \<noteq> mt_uid (m_meta machine) then False
          else if HostID_IsZero (sc_hostID c) \<or> sc_hostID c \<noteq> hs_hostID (h_spec h) then False
          else (case hst_inventory (h_status h) of None \<Rightarrow> True
                | Some i \<Rightarrow>
                    if trim_space (inv_bootID i) \<noteq> []
                    then \<not> (trim_space (sc_bootID c) = [] \<or> sc_bootID c \<noteq> inv_bootID i)
                    else True))"

subsection \<open>Which host is to be released\<close>

datatype find_host_error = FindApi api_error | FindHostNotFound | FindBindingLost | FindAmbiguous

definition findClaimedHost :: "tm_env \<Rightarrow> TartMachine \<Rightarrow> (find_host_error + TartHost option) tm" where
  "findClaimedHost E machine = do {
     listed \<leftarrow> query (te_list_hosts E);
     (case listed of
        Inl e \<Rightarrow> State_Monad.return (Inl (FindApi e))
      | Inr hosts \<Rightarrow>
          (let uid = mt_uid (m_meta machine);
               owned = (\<lambda>h. case hs_consumerRef (h_spec h) of None \<Rightarrow> False | Some c \<Rightarrow> ref_uid c = uid);
               released = (\<lambda>h. case hs_previousConsumerRef (h_spec h) of None \<Rightarrow> False | Some p \<Rightarrow> prev_uid p = uid);
               by_uid = (\<lambda>statusHost.
                 case FindClaimedHost hosts uid of
                   Inl ErrAmbiguousClaim \<Rightarrow> Inl FindAmbiguous
                 | Inr (Some h) \<Rightarrow> Inr (Some h)
                 | Inr None \<Rightarrow>
                     (case statusHost of None \<Rightarrow> Inr None
                      | Some h \<Rightarrow> if owned h then Inr (Some h) else Inr None))
           in State_Monad.return
                (case mst_hostRef (m_status machine) of
                   None \<Rightarrow> by_uid None
                 | Some name \<Rightarrow>
                     (case find (\<lambda>h. h_name h = name) hosts of
                        None \<Rightarrow> Inl FindHostNotFound
                      | Some h \<Rightarrow>
                          if \<not> owned h then (if released h then Inr None else Inl FindBindingLost)
                          else by_uid (Some h)))))
   }"

subsection \<open>Shutdown\<close>

datatype shutdown_error = ShutdownHostIdentityMismatch | ShutdownFailed

definition requestHostShutdown :: "tm_env \<Rightarrow> TartHost \<Rightarrow> string \<Rightarrow> (shutdown_error + bool) tm" where
  "requestHostShutdown E selected configuration =
     (let endpoint = HostTalosEndpoint selected
      in if endpoint = [] then State_Monad.return (Inr False)
         else do {
           done \<leftarrow>
             (if length (trim_space configuration) > 0
              then do {
                err \<leftarrow> dial E endpoint (AuthConfiguration configuration);
                (case err of
                   None \<Rightarrow> do {
                     serr \<leftarrow> rpc E endpoint (AuthConfiguration configuration) RpcShutdown;
                     State_Monad.return (serr = None)
                   }
                 | Some _ \<Rightarrow> State_Monad.return False)
              }
              else State_Monad.return False);
           if done then State_Monad.return (Inr True)
           else do {
             err \<leftarrow> dial E endpoint AuthNone;
             (case err of
                Some _ \<Rightarrow> State_Monad.return (Inr False)
              | None \<Rightarrow> do {
                  identity \<leftarrow> rpc_inventory E endpoint AuthNone;
                  (case identity of
                     Inl _ \<Rightarrow> State_Monad.return (Inr False)
                   | Inr i \<Rightarrow>
                       if \<not> HasMAC i (hs_macAddress (h_spec selected))
                       then State_Monad.return (Inl ShutdownHostIdentityMismatch)
                       else do {
                         serr \<leftarrow> rpc E endpoint AuthNone RpcShutdown;
                         (case serr of
                            None \<Rightarrow> State_Monad.return (Inr True)
                          | Some _ \<Rightarrow>
                              if hasIndependentPowerControl (backend_of selected)
                              then do {
                                ok \<leftarrow> call (PowerOffRequest selected) (\<lambda>tr. te_power_off E tr (PowerOffRequest selected));
                                State_Monad.return (if ok then Inr True else Inl ShutdownFailed)
                              }
                              else State_Monad.return (Inl ShutdownFailed))
                       })
                })
           }
         })"

datatype observe_error =
    ObservePowerError | ObserveEndpointUnavailable | ObserveHostIdentityMismatch
  | ErrShutdownStateUnverifiable

definition observeHostStopped :: "tm_env \<Rightarrow> TartHost \<Rightarrow> TartMachine \<Rightarrow> string \<Rightarrow> (observe_error + bool) tm" where
  "observeHostStopped E selected machine configuration =
     (if hasIndependentPowerControl (backend_of selected)
      then do {
        state \<leftarrow> call (PowerStateRequest selected) (\<lambda>tr. te_power_state E tr (PowerStateRequest selected));
        (case state of
           Inl _ \<Rightarrow> State_Monad.return (Inl ObservePowerError)
         | Inr s \<Rightarrow> State_Monad.return (Inr (s = PowerStateOff)))
      }
      else
        (let endpoint = HostTalosEndpoint selected
         in if endpoint = [] then State_Monad.return (Inl ObserveEndpointUnavailable)
            else do {
              answers \<leftarrow>
                (if length (trim_space configuration) > 0
                 then do {
                   err \<leftarrow> dial E endpoint (AuthConfiguration configuration);
                   (case err of
                      Some _ \<Rightarrow> State_Monad.return False
                    | None \<Rightarrow> do {
                        version \<leftarrow> rpc_text E endpoint (AuthConfiguration configuration) RpcVersion;
                        State_Monad.return (is_ok version)
                      })
                 }
                 else State_Monad.return False);
              if answers then State_Monad.return (Inr False)
              else do {
                err \<leftarrow> dial E endpoint AuthNone;
                identity \<leftarrow>
                  (case err of
                     Some _ \<Rightarrow> State_Monad.return None
                   | None \<Rightarrow> do {
                       i \<leftarrow> rpc_inventory E endpoint AuthNone;
                       State_Monad.return (case i of Inl _ \<Rightarrow> None | Inr x \<Rightarrow> Some x)
                     });
                (case identity of
                   Some i \<Rightarrow>
                     if \<not> HasMAC i (hs_macAddress (h_spec selected))
                     then State_Monad.return (Inl ObserveHostIdentityMismatch)
                     else State_Monad.return (Inr False)
                 | None \<Rightarrow>
                     if isShutdownConfirmationRequired (backend_of selected) \<and> shutdownConfirmed selected machine
                     then State_Monad.return (Inr True)
                     else State_Monad.return (Inl ErrShutdownStateUnverifiable))
              }
            }))"

subsection \<open>The reconciliation of a deletion\<close>

definition machine_consumer :: "TartMachine \<Rightarrow> object_reference" where
  "machine_consumer machine =
     \<lparr>ref_kind = TartMachineKind, ref_namespace = mt_namespace (m_meta machine), ref_name = mt_name (m_meta machine),
      ref_uid = mt_uid (m_meta machine), ref_apiVersion = infra_group_version, ref_resourceVersion = [], ref_fieldPath = []\<rparr>"

text \<open>\<open>Inl\<close> is any of the errors; the caller only asks whether there is one.\<close>

definition previousConsumerRef ::
  "k8s_lib \<Rightarrow> tm_env \<Rightarrow> TartMachine \<Rightarrow> object_reference \<Rightarrow> (unit + PreviousConsumerRef) tm" where
  "previousConsumerRef L E machine consumer = do {
     found \<leftarrow> find_capi_machine L E machine;
     (case found of
        Inl _ \<Rightarrow> State_Monad.return (Inl ())
      | Inr capiMachine \<Rightarrow> do {
          cluster \<leftarrow> query (\<lambda>tr. te_get_cluster E tr (mt_namespace (cm_meta capiMachine)) (cm_clusterName capiMachine));
          (case cluster of
             Inl _ \<Rightarrow> State_Monad.return (Inl ())
           | Inr c \<Rightarrow>
               (let ref = cl_infrastructureRef c;
                    previous = (\<lambda>i. \<lparr>prev_namespace = ref_namespace consumer, prev_name = ref_name consumer,
                                     prev_uid = ref_uid consumer, prev_clusterID = i\<rparr>)
                in if cr_apiGroup ref = infra_group \<and> cr_kind ref = TartClusterKind \<and> cr_name ref \<noteq> []
                   then do {
                     tart \<leftarrow> query (\<lambda>tr. te_get_tart_cluster E tr (mt_namespace (cl_meta c)) (cr_name ref));
                     State_Monad.return
                       (case tart of
                          Inl _ \<Rightarrow> Inl ()
                        | Inr t \<Rightarrow>
                            if ClusterID_IsZero (cs_clusterID (tc_spec t)) then Inl ()
                            else Inr (previous (cs_clusterID (tc_spec t))))
                   }
                   else State_Monad.return (Inl ())))
        })
   }"

definition capiDeletionDrainComplete :: "k8s_lib \<Rightarrow> tm_env \<Rightarrow> TartMachine \<Rightarrow> (capi_error + bool) tm" where
  "capiDeletionDrainComplete L E machine = do {
     found \<leftarrow> find_capi_machine L E machine;
     State_Monad.return
       (case found of Inl e \<Rightarrow> Inl e | Inr m \<Rightarrow> Inr (DeletionDrainComplete L (Some m)))
   }"

definition remove_finalizer :: "k8s_lib \<Rightarrow> tm_env \<Rightarrow> TartMachine \<Rightarrow> recon_result tm" where
  "remove_finalizer L E machine = do {
     let machine = machine\<lparr>m_meta := (m_meta machine)\<lparr>mt_finalizers :=
       lib_remove_finalizer L (mt_finalizers (m_meta machine)) tartMachineFinalizer\<rparr>\<rparr>;
     err \<leftarrow> api_write E (MachinePatch machine);
     State_Monad.return (0, map_option ReconApi err)
   }"

definition unconfirmed :: "k8s_lib \<Rightarrow> tm_env \<Rightarrow> TartMachine \<Rightarrow> string \<Rightarrow> recon_result tm" where
  "unconfirmed L E machine message =
     reportAndRequeue L E machine ReasonShutdownUnconfirmed message shutdownConfirmationRequeue"

definition shutdown_requested :: "k8s_lib \<Rightarrow> tm_env \<Rightarrow> TartMachine \<Rightarrow> string \<Rightarrow> recon_result tm" where
  "shutdown_requested L E machine message =
     reportAndRequeue L E machine ShutdownRequestedReason message shutdownConfirmationRequeue"

text \<open>From the point where the host is known to have stopped (lines 88 to 108).\<close>

definition release_host :: "k8s_lib \<Rightarrow> tm_env \<Rightarrow> TartMachine \<Rightarrow> TartHost \<Rightarrow> recon_result tm" where
  "release_host L E machine selected = do {
     let consumer = machine_consumer machine;
     previous \<leftarrow> previousConsumerRef L E machine consumer;
     (case previous of
        Inl _ \<Rightarrow> unconfirmed L E machine
          ''The previous consumer provenance could not be resolved; Host release remains blocked until ClusterID is observable.''
      | Inr p \<Rightarrow> do {
          (err, _) \<leftarrow> repo_call E (\<lambda>H. RetainHost H (Some selected) consumer p);
          (case err of
             Some _ \<Rightarrow> unconfirmed L E machine
               ''The Host retention record could not be written atomically; the Machine finalizer remains.''
           | None \<Rightarrow> remove_finalizer L E machine)
        })
   }"

text \<open>From the point where the shutdown has been requested (lines 68 to 87).\<close>

definition confirm_stopped :: "k8s_lib \<Rightarrow> tm_env \<Rightarrow> TartMachine \<Rightarrow> TartHost \<Rightarrow> string \<Rightarrow> recon_result tm" where
  "confirm_stopped L E machine selected configuration = do {
     now \<leftarrow> query (te_now E);
     (if \<not> ShutdownRequestSettled L now machine shutdownConfirmationDelay
      then shutdown_requested L E machine
        ''The Host API is unreachable after shutdown request; waiting for the confirmation interval before retention.''
      else do {
        stopped \<leftarrow> observeHostStopped E selected machine configuration;
        (case stopped of
           Inl e \<Rightarrow>
             if isShutdownConfirmationRequired (backend_of selected) \<and> \<not> shutdownConfirmed selected machine
             then shutdown_requested L E machine
               ''The WakeOnLAN/Manual power backend cannot independently observe power-off state; explicit shutdown confirmation is required after the shutdown request.''
             else if e = ErrShutdownStateUnverifiable \<and> isShutdownConfirmationRequired (backend_of selected)
             then shutdown_requested L E machine
               ''The WakeOnLAN/Manual power backend cannot independently observe power-off state; explicit shutdown confirmation is required after the shutdown request.''
             else shutdown_requested L E machine
               ''The allocated Host stop state could not be verified after the shutdown request; the Machine finalizer remains.''
         | Inr False \<Rightarrow>
             if isShutdownConfirmationRequired (backend_of selected) \<and> \<not> shutdownConfirmed selected machine
             then shutdown_requested L E machine
               ''The WakeOnLAN/Manual power backend cannot independently observe power-off state; explicit shutdown confirmation is required after the shutdown request.''
             else shutdown_requested L E machine
               ''The allocated Host still responds to a Talos API after the shutdown request; the Host claim remains.''
         | Inr True \<Rightarrow> release_host L E machine selected)
      })
   }"

definition request_shutdown_step :: "k8s_lib \<Rightarrow> tm_env \<Rightarrow> TartMachine \<Rightarrow> TartHost \<Rightarrow> string \<Rightarrow> recon_result tm" where
  "request_shutdown_step L E machine selected configuration = do {
     requested \<leftarrow> requestHostShutdown E selected configuration;
     (case requested of
        Inl _ \<Rightarrow> unconfirmed L E machine
          ''The allocated Host could not be shut down safely; the Machine finalizer remains.''
      | Inr False \<Rightarrow> unconfirmed L E machine
          ''The allocated Host is not reachable through a verified Talos API; shutdown has not been confirmed.''
      | Inr True \<Rightarrow> shutdown_requested L E machine
          ''Talos shutdown was requested; the Host claim remains until API unreachability is observed.'')
   }"

definition reconcileDeletion :: "k8s_lib \<Rightarrow> tm_env \<Rightarrow> TartMachine \<Rightarrow> recon_result tm" where
  "reconcileDeletion L E machine =
     (if \<not> lib_contains_finalizer L (mt_finalizers (m_meta machine)) tartMachineFinalizer
      then State_Monad.return (0, None)
      else do {
        ready \<leftarrow> capiDeletionDrainComplete L E machine;
        (case ready of
           Inl _ \<Rightarrow> unconfirmed L E machine
             ''The corresponding CAPI Machine deletion state could not be observed; shutdown and Host release remain blocked.''
         | Inr False \<Rightarrow> unconfirmed L E machine
             ''The CAPI Machine has not completed drain and volume detach; shutdown and Host release remain blocked.''
         | Inr True \<Rightarrow> do {
             found \<leftarrow> findClaimedHost E machine;
             (case found of
                Inl _ \<Rightarrow> unconfirmed L E machine
                  ''The allocated Host could not be unambiguously observed; the Machine finalizer remains until shutdown is confirmed.''
              | Inr None \<Rightarrow> remove_finalizer L E machine
              | Inr (Some selected) \<Rightarrow> do {
                  boot \<leftarrow> BootstrapConfiguration L E machine;
                  (case boot of
                     Inl (BootOther e) \<Rightarrow> State_Monad.return (0, Some e)
                   | _ \<Rightarrow>
                       (let configuration = (case boot of Inr c \<Rightarrow> c | Inl _ \<Rightarrow> [])
                        in if \<not> HasShutdownRequest L machine
                           then request_shutdown_step L E machine selected configuration
                           else confirm_stopped L E machine selected configuration))
                })
           })
      })"

subsection \<open>Nothing happens before the drain is complete\<close>

definition drained :: "k8s_lib \<Rightarrow> tm_env \<Rightarrow> tm_event list \<Rightarrow> TartMachine \<Rightarrow> bool" where
  "drained L E tr machine \<longleftrightarrow>
     (\<exists>cm. FindCAPIMachineForInfrastructure L
        (te_get_capi_machine E tr (mt_namespace (m_meta machine)))
        (te_list_capi_machines E tr (mt_namespace (m_meta machine))) (m_meta machine) = Inr cm \<and>
      DeletionDrainComplete L (Some cm))"

text \<open>The events of a run, after the trace it started from.\<close>

definition new_events :: "(tm_event, 'a) io \<Rightarrow> tm_event list \<Rightarrow> tm_event list" where
  "new_events m tr = drop (length tr) (snd (run_state m tr))"

lemma new_eventsI: "run_state m tr = (x, tr @ new) \<Longrightarrow> new_events m tr = new"
  by (simp add: new_events_def)

lemma new_events_emits: "emits m S \<Longrightarrow> set (new_events m tr) \<subseteq> S"
  unfolding emits_def new_events_def by (metis append_eq_conv_conj)

lemma run_capiDeletionDrainComplete:
  "run_state (capiDeletionDrainComplete L E machine) tr =
     ((case FindCAPIMachineForInfrastructure L
        (te_get_capi_machine E tr (mt_namespace (m_meta machine)))
        (te_list_capi_machines E tr (mt_namespace (m_meta machine))) (m_meta machine) of
        Inl e \<Rightarrow> Inl e | Inr m \<Rightarrow> Inr (DeletionDrainComplete L (Some m))), tr)"
  by (simp add: capiDeletionDrainComplete_def find_capi_machine_def)

lemma findClaimedHost_reads: "\<exists>r. run_state (findClaimedHost E machine) tr = (r, tr)"
  by (auto simp: findClaimedHost_def Let_def split: sum.splits)

lemma previousConsumerRef_reads: "\<exists>r. run_state (previousConsumerRef L E machine c) tr = (r, tr)"
  by (auto simp: previousConsumerRef_def find_capi_machine_def Let_def split: sum.splits)

lemma emits_unconfirmed [emit_rules]:
  "range MachineStatusPatch \<subseteq> S \<Longrightarrow> emits (unconfirmed L E machine msg) S"
  unfolding unconfirmed_def by (rule emits_reportAndRequeue)

lemma emits_shutdown_requested [emit_rules]:
  "range MachineStatusPatch \<subseteq> S \<Longrightarrow> emits (shutdown_requested L E machine msg) S"
  unfolding shutdown_requested_def by (rule emits_reportAndRequeue)

lemma reconcileDeletion_undrained:
  assumes "\<not> drained L E tr machine"
  shows "set (new_events (reconcileDeletion L E machine) tr) \<subseteq> range MachineStatusPatch"
proof (cases "lib_contains_finalizer L (mt_finalizers (m_meta machine)) tartMachineFinalizer")
  case True
  let ?found = "FindCAPIMachineForInfrastructure L
        (te_get_capi_machine E tr (mt_namespace (m_meta machine)))
        (te_list_capi_machines E tr (mt_namespace (m_meta machine))) (m_meta machine)"
  have "\<exists>msg. run_state (reconcileDeletion L E machine) tr = run_state (unconfirmed L E machine msg) tr"
    using assms True
    by (cases ?found) (auto simp: reconcileDeletion_def run_capiDeletionDrainComplete drained_def)
  then obtain msg where "run_state (reconcileDeletion L E machine) tr = run_state (unconfirmed L E machine msg) tr" ..
  then have "new_events (reconcileDeletion L E machine) tr = new_events (unconfirmed L E machine msg) tr"
    by (simp add: new_events_def)
  then show ?thesis using new_events_emits[OF emits_unconfirmed] by (metis order_refl)
qed (simp add: reconcileDeletion_def new_events_def)

subsection \<open>What counts as evidence that a host has stopped\<close>

text \<open>A Talos API answered: it told its version over an authenticated connection, or its
  hardware inventory over the maintenance API.\<close>

definition answered :: "tm_env \<Rightarrow> tm_event list \<Rightarrow> tm_event \<Rightarrow> bool" where
  "answered E before e =
     (case e of
        Rpc ep auth RpcVersion \<Rightarrow> is_ok (te_text E before e)
      | Rpc ep auth RpcInventory \<Rightarrow> is_ok (te_inventory E before e)
      | _ \<Rightarrow> False)"

fun some_answer :: "tm_env \<Rightarrow> tm_event list \<Rightarrow> tm_event list \<Rightarrow> bool" where
  "some_answer E before [] = False"
| "some_answer E before (e # es) = (answered E before e \<or> some_answer E (before @ [e]) es)"

definition stop_evidence :: "tm_env \<Rightarrow> TartHost \<Rightarrow> TartMachine \<Rightarrow> tm_event list \<Rightarrow> tm_event list \<Rightarrow> bool" where
  "stop_evidence E selected machine before seen =
     (if hasIndependentPowerControl (backend_of selected)
      then te_power_state E before (PowerStateRequest selected) = Inr PowerStateOff
      else isShutdownConfirmationRequired (backend_of selected) \<and> shutdownConfirmed selected machine \<and>
           Dial (HostTalosEndpoint selected) AuthNone \<in> set seen \<and> \<not> some_answer E before seen)"

lemma observeHostStopped_evidence:
  "run_state (observeHostStopped E selected machine configuration) tr = (Inr True, tr') \<Longrightarrow>
     \<exists>seen. tr' = tr @ seen \<and> stop_evidence E selected machine tr seen"
  unfolding observeHostStopped_def dial_def rpc_text_def rpc_inventory_def
  by (auto simp: Let_def stop_evidence_def answered_def is_ok_def
      split: if_splits sum.splits option.splits)

text \<open>Events that only look: they change neither the API objects nor the power state.\<close>

definition observing :: "tm_event set" where
  "observing = {e. case e of Dial _ _ \<Rightarrow> True | PowerStateRequest _ \<Rightarrow> True
     | Rpc _ _ r \<Rightarrow> r \<in> {RpcInventory, RpcActiveConfiguration, RpcVersion, RpcSchematic} | _ \<Rightarrow> False}"

lemma observing_simps [simp]:
  "Dial ep a \<in> observing" "PowerStateRequest h \<in> observing"
  "Rpc ep a r \<in> observing \<longleftrightarrow> r \<in> {RpcInventory, RpcActiveConfiguration, RpcVersion, RpcSchematic}"
  "HostRepo x \<notin> observing" "MachinePatch m \<notin> observing" "PowerOffRequest h \<notin> observing"
  "MachineStatusPatch m \<notin> observing" "HostStatusPatch h \<notin> observing" "SecretCreate s \<notin> observing"
  by (simp_all add: observing_def)

text \<open>Events that are neither of the repository nor a patch of the machine.\<close>

lemma observing_only:
  "set es \<subseteq> observing \<Longrightarrow> HostRepo x \<notin> set es \<and> MachinePatch m \<notin> set es \<and> PowerOffRequest h \<notin> set es"
  "set es \<subseteq> range MachineStatusPatch \<Longrightarrow> HostRepo x \<notin> set es \<and> MachinePatch m \<notin> set es \<and> PowerOffRequest h \<notin> set es"
  "set es \<subseteq> observing \<union> range MachineStatusPatch \<Longrightarrow> HostRepo x \<notin> set es \<and> MachinePatch m \<notin> set es \<and> PowerOffRequest h \<notin> set es"
proof -
  have outside: "x \<notin> S \<Longrightarrow> set es \<subseteq> S \<Longrightarrow> x \<notin> set es" for x :: tm_event and S by blast
  show "set es \<subseteq> observing \<Longrightarrow> HostRepo x \<notin> set es \<and> MachinePatch m \<notin> set es \<and> PowerOffRequest h \<notin> set es"
    by (intro conjI; rule outside[where S = observing]) simp_all
  show "set es \<subseteq> range MachineStatusPatch \<Longrightarrow> HostRepo x \<notin> set es \<and> MachinePatch m \<notin> set es \<and> PowerOffRequest h \<notin> set es"
    by (intro conjI; rule outside[where S = "range MachineStatusPatch"]) auto
  show "set es \<subseteq> observing \<union> range MachineStatusPatch \<Longrightarrow> HostRepo x \<notin> set es \<and> MachinePatch m \<notin> set es \<and> PowerOffRequest h \<notin> set es"
    by (intro conjI; rule outside[where S = "observing \<union> range MachineStatusPatch"]) auto
qed

lemma emits_observeHostStopped [emit_rules]:
  "observing \<subseteq> S \<Longrightarrow> emits (observeHostStopped E selected machine configuration) S"
  by (rule emits_mono[rotated], assumption)
     (unfold observeHostStopped_def Let_def, intro emit_rules, simp_all)

lemma emits_requestHostShutdown [emit_rules]:
  "observing \<union> {e. \<exists>ep a h. e = Rpc ep a RpcShutdown \<or> e = PowerOffRequest h} \<subseteq> S \<Longrightarrow>
     emits (requestHostShutdown E selected configuration) S"
  by (rule emits_mono[rotated], assumption)
     (unfold requestHostShutdown_def Let_def, intro emit_rules, simp_all)

lemma emits_remove_finalizer [emit_rules]: "range MachinePatch \<subseteq> S \<Longrightarrow> emits (remove_finalizer L E machine) S"
  unfolding remove_finalizer_def Let_def by (intro emit_rules) auto

subsection \<open>The steps of a pass\<close>

text \<open>A pass that only reports the status.\<close>

definition reports_only :: "tm_event list \<Rightarrow> tm_event list \<Rightarrow> bool" where
  "reports_only tr tr' \<longleftrightarrow> (\<exists>new. tr' = tr @ new \<and> set new \<subseteq> range MachineStatusPatch)"

lemma reports_only_refl [simp]: "reports_only tr tr"
  by (simp add: reports_only_def)

lemma reports_unconfirmed: "run_state (unconfirmed L E machine msg) tr = (r, tr') \<Longrightarrow> reports_only tr tr'"
  using emitsD[OF emits_unconfirmed[OF order_refl]] unfolding reports_only_def by blast

lemma reports_shutdown_requested:
  "run_state (shutdown_requested L E machine msg) tr = (r, tr') \<Longrightarrow> reports_only tr tr'"
  using emitsD[OF emits_shutdown_requested[OF order_refl]] unfolding reports_only_def by blast

text \<open>A pass that does nothing, or only reports that the shutdown is not confirmed.\<close>

definition quiet_pass :: "k8s_lib \<Rightarrow> tm_env \<Rightarrow> TartMachine \<Rightarrow> tm_event list \<Rightarrow> tm_event list \<Rightarrow> bool" where
  "quiet_pass L E machine tr tr' \<longleftrightarrow> tr' = tr \<or> (\<exists>msg r. run_state (unconfirmed L E machine msg) tr = (r, tr'))"

lemma quiet_pass_reports: "quiet_pass L E machine tr tr' \<Longrightarrow> reports_only tr tr'"
  using reports_unconfirmed by (auto simp: quiet_pass_def)

lemma quiet_passI:
  "quiet_pass L E machine tr tr"
  "run_state (unconfirmed L E machine msg) tr = (r, tr') \<Longrightarrow> quiet_pass L E machine tr tr'"
  unfolding quiet_pass_def by blast+

lemma reconcileDeletion_cases [consumes 1, case_names quiet unclaimed request confirm]:
  assumes run: "run_state (reconcileDeletion L E machine) tr = (r, tr')"
  obtains "quiet_pass L E machine tr tr'"
  | "drained L E tr machine" "run_state (findClaimedHost E machine) tr = (Inr None, tr)"
      "run_state (remove_finalizer L E machine) tr = (r, tr')"
  | selected configuration where "drained L E tr machine"
      "run_state (findClaimedHost E machine) tr = (Inr (Some selected), tr)" "\<not> HasShutdownRequest L machine"
      "run_state (request_shutdown_step L E machine selected configuration) tr = (r, tr')"
  | selected configuration where "drained L E tr machine"
      "run_state (findClaimedHost E machine) tr = (Inr (Some selected), tr)" "HasShutdownRequest L machine"
      "run_state (confirm_stopped L E machine selected configuration) tr = (r, tr')"
proof (cases "lib_contains_finalizer L (mt_finalizers (m_meta machine)) tartMachineFinalizer")
  case False
  with run show ?thesis by (intro that(1)) (simp add: reconcileDeletion_def quiet_pass_def)
next
  case fin: True
  let ?found = "FindCAPIMachineForInfrastructure L
        (te_get_capi_machine E tr (mt_namespace (m_meta machine)))
        (te_list_capi_machines E tr (mt_namespace (m_meta machine))) (m_meta machine)"
  obtain f where f: "run_state (findClaimedHost E machine) tr = (f, tr)" using findClaimedHost_reads by blast
  obtain b where b: "run_state (BootstrapConfiguration L E machine) tr = (b, tr)"
    using BootstrapConfiguration_reads by blast
  note simps = reconcileDeletion_def run_capiDeletionDrainComplete fin f b
  show ?thesis
  proof (cases "drained L E tr machine")
    case False
    then show ?thesis using run fin
      by (cases ?found) (auto simp: simps drained_def intro!: that(1) intro: quiet_passI(2))
  next
    case True
    then obtain cm where cm: "?found = Inr cm" "DeletionDrainComplete L (Some cm)" by (auto simp: drained_def)
    consider (err) e where "f = Inl e" | (none) "f = Inr None" | (some) selected where "f = Inr (Some selected)"
      by (cases f) (metis option.exhaust)+
    then show ?thesis
    proof cases
      case err
      then show ?thesis using run by (intro that(1) quiet_passI(2)) (simp add: simps cm)
    next
      case none
      with run have "run_state (remove_finalizer L E machine) tr = (r, tr')" by (simp add: simps cm)
      with that(2) True f none show ?thesis by simp
    next
      case (some selected)
      show ?thesis
      proof (cases "\<exists>e. b = Inl (BootOther e)")
        case True
        then show ?thesis using run some by (intro that(1)) (auto simp: simps cm quiet_pass_def)
      next
        case boot: False
        define cfg where "cfg = (case b of Inr c \<Rightarrow> c | Inl _ \<Rightarrow> [])"
        have "run_state (if \<not> HasShutdownRequest L machine
               then request_shutdown_step L E machine selected cfg
               else confirm_stopped L E machine selected cfg) tr = (r, tr')"
          using run some boot by (cases b) (auto simp: simps cm cfg_def split: boot_error.splits)
        with that(3)[of selected cfg] that(4)[of selected cfg] True f some show ?thesis
          by (cases "HasShutdownRequest L machine") simp_all
      qed
    qed
  qed
qed

lemma confirm_stopped_cases:
  assumes run: "run_state (confirm_stopped L E machine selected configuration) tr = (r, tr')"
  obtains (waiting) seen where "tr' = tr @ seen" "set seen \<subseteq> observing \<union> range MachineStatusPatch"
  | (stopped) seen where "ShutdownRequestSettled L (te_now E tr) machine shutdownConfirmationDelay"
      "stop_evidence E selected machine tr seen" "set seen \<subseteq> observing"
      "run_state (release_host L E machine selected) (tr @ seen) = (r, tr')"
proof (cases "ShutdownRequestSettled L (te_now E tr) machine shutdownConfirmationDelay")
  case False
  with run obtain msg where "run_state (shutdown_requested L E machine msg) tr = (r, tr')"
    by (simp add: confirm_stopped_def)
  then show ?thesis using waiting reports_shutdown_requested unfolding reports_only_def by blast
next
  case True
  obtain ob tr1 where ob: "run_state (observeHostStopped E selected machine configuration) tr = (ob, tr1)"
    by fastforce
  from emitsD[OF emits_observeHostStopped[OF order_refl] ob]
  obtain seen where seen: "tr1 = tr @ seen" "set seen \<subseteq> observing" by blast
  show ?thesis
  proof (cases "ob = Inr True")
    case True
    with run ob \<open>ShutdownRequestSettled _ _ _ _\<close>
    have "run_state (release_host L E machine selected) (tr @ seen) = (r, tr')"
      by (simp add: confirm_stopped_def seen(1))
    moreover have "stop_evidence E selected machine tr seen"
      using observeHostStopped_evidence[of E selected machine configuration tr tr1] ob True seen(1) by simp
    ultimately show ?thesis using stopped \<open>ShutdownRequestSettled _ _ _ _\<close> seen(2) by blast
  next
    case False
    have "\<exists>msg. run_state (shutdown_requested L E machine msg) tr1 = (r, tr')"
      using run ob False \<open>ShutdownRequestSettled _ _ _ _\<close>
      by (cases ob) (auto simp: confirm_stopped_def split: if_splits bool.splits)
    then obtain new where "tr' = tr1 @ new" "set new \<subseteq> range MachineStatusPatch"
      using reports_shutdown_requested unfolding reports_only_def by blast
    then show ?thesis using waiting[of "seen @ new"] seen by auto
  qed
qed

subsection \<open>Releasing the host\<close>

lemma RetainHost_updates:
  assumes "run_state (RetainHost H (Some selected) consumer p) [] = ((err, h), htr)" "HostUpdate k \<in> set htr"
  shows "\<exists>j. DecideRetention (h_spec j) consumer p = Inr ClaimApply \<and> k = set_retained p j"
proof -
  from assms(1) obtain h' where "h_name selected \<noteq> [] \<or> htr = []"
    "htr = [] \<or> run_state (retain_loop H consumer p claimAttempts selected) [] = ((err, h'), htr)"
    by (auto simp: RetainHost_def split: if_splits prod.splits)
  with assms(2) retain.loop_emits[of H consumer p claimAttempts selected "[]" err h' htr] show ?thesis by auto
qed

lemma release_host_run:
  assumes run: "run_state (release_host L E machine selected) tr = (r, tr')"
  obtains (blocked) "reports_only tr tr'"
  | (failed) p h htr e new where "run_state (RetainHost (repo_env E tr) (Some selected) (machine_consumer machine) p) [] = ((Some e, h), htr)"
      "prev_uid p = mt_uid (m_meta machine)" "tr' = tr @ map HostRepo htr @ new" "set new \<subseteq> range MachineStatusPatch"
  | (released) p h htr m where "run_state (RetainHost (repo_env E tr) (Some selected) (machine_consumer machine) p) [] = ((None, h), htr)"
      "prev_uid p = mt_uid (m_meta machine)" "tr' = tr @ map HostRepo htr @ [MachinePatch m]"
proof -
  obtain q where q: "run_state (previousConsumerRef L E machine (machine_consumer machine)) tr = (q, tr)"
    using previousConsumerRef_reads by blast
  show ?thesis
  proof (cases q)
    case (Inl e)
    with run q obtain msg where "run_state (unconfirmed L E machine msg) tr = (r, tr')"
      by (auto simp: release_host_def Let_def)
    then show ?thesis using blocked reports_unconfirmed by blast
  next
    case (Inr p)
    have uid: "prev_uid p = mt_uid (m_meta machine)"
      using q Inr by (auto simp: previousConsumerRef_def find_capi_machine_def machine_consumer_def Let_def
          split: sum.splits if_splits)
    obtain err h htr where rep: "run_state (RetainHost (repo_env E tr) (Some selected) (machine_consumer machine) p) [] = ((err, h), htr)"
      by (metis prod.exhaust)
    show ?thesis
    proof (cases err)
      case (Some e)
      with run q Inr rep obtain msg where "run_state (unconfirmed L E machine msg) (tr @ map HostRepo htr) = (r, tr')"
        by (auto simp: release_host_def repo_call_def Let_def)
      then obtain new where "tr' = tr @ map HostRepo htr @ new" "set new \<subseteq> range MachineStatusPatch"
        using reports_unconfirmed unfolding reports_only_def by (metis append.assoc)
      with failed rep Some uid show ?thesis by blast
    next
      case None
      with run q Inr rep have "run_state (remove_finalizer L E machine) (tr @ map HostRepo htr) = (r, tr')"
        by (auto simp: release_host_def repo_call_def Let_def)
      then obtain m where "tr' = tr @ map HostRepo htr @ [MachinePatch m]"
        by (auto simp: remove_finalizer_def api_write_def Let_def)
      with released rep None uid show ?thesis by blast
    qed
  qed
qed

text \<open>The host is written to only after everything that has to hold before.\<close>

definition may_release :: "k8s_lib \<Rightarrow> tm_env \<Rightarrow> tm_event list \<Rightarrow> TartMachine \<Rightarrow> TartHost \<Rightarrow> tm_event list \<Rightarrow> bool" where
  "may_release L E tr machine selected seen \<longleftrightarrow>
     drained L E tr machine \<and> run_state (findClaimedHost E machine) tr = (Inr (Some selected), tr) \<and>
     HasShutdownRequest L machine \<and>
     ShutdownRequestSettled L (te_now E tr) machine shutdownConfirmationDelay \<and>
     stop_evidence E selected machine tr seen"

lemma release_only_when_stopped:
  assumes run: "run_state (reconcileDeletion L E machine) tr = (r, tr @ new)" and upd: "HostRepo (HostUpdate k) \<in> set new"
  shows "\<exists>selected seen rest. new = seen @ rest \<and> set seen \<subseteq> observing \<and> may_release L E tr machine selected seen \<and>
     hs_consumerRef (h_spec k) = None \<and>
     (\<exists>p. hs_previousConsumerRef (h_spec k) = Some p \<and> prev_uid p = mt_uid (m_meta machine))"
  using run
proof (cases rule: reconcileDeletion_cases)
  case quiet
  from quiet_pass_reports[OF this] show ?thesis using upd observing_only(2) by (auto simp: reports_only_def)
next
  case unclaimed
  with emitsD[OF emits_remove_finalizer[OF order_refl] unclaimed(3)] upd show ?thesis by auto
next
  case (request selected configuration)
  have "emits (request_shutdown_step L E machine selected configuration) (- range HostRepo)"
    unfolding request_shutdown_step_def requestHostShutdown_def Let_def
    by (intro emit_rules) (auto intro: emit_rules split: bool.splits)
  from emitsD[OF this request(4)] upd show ?thesis by auto
next
  case (confirm selected configuration)
  from confirm(4) show ?thesis
  proof (cases rule: confirm_stopped_cases)
    case (waiting seen)
    then show ?thesis using upd observing_only(3)[of seen] by auto
  next
    case (stopped seen)
    from stopped(4) show ?thesis
    proof (cases rule: release_host_run)
      case blocked
      then show ?thesis using upd observing_only(1)[OF stopped(3)] observing_only(2) by (auto simp: reports_only_def)
    next
      case (failed p h htr e rest)
      then have "HostUpdate k \<in> set htr" using upd observing_only(1)[OF stopped(3)] observing_only(2) by auto
      from RetainHost_updates[OF failed(1) this] obtain j where "k = set_retained p j" by blast
      then show ?thesis using failed(2,3) stopped confirm
        by (intro exI[of _ selected] exI[of _ seen] exI[of _ "map HostRepo htr @ rest"])
           (simp add: may_release_def set_retained_def)
    next
      case (released p h htr m)
      then have "HostUpdate k \<in> set htr" using upd observing_only(1)[OF stopped(3)] observing_only(2) by auto
      from RetainHost_updates[OF released(1) this] obtain j where "k = set_retained p j" by blast
      then show ?thesis using released(2,3) stopped confirm
        by (intro exI[of _ selected] exI[of _ seen] exI[of _ "map HostRepo htr @ [MachinePatch m]"])
           (simp add: may_release_def set_retained_def)
    qed
  qed
qed

lemma finalizer_only_after_retention:
  assumes run: "run_state (reconcileDeletion L E machine) tr = (r, tr @ new)" and patch: "MachinePatch m \<in> set new"
  shows "drained L E tr machine \<and>
    (run_state (findClaimedHost E machine) tr = (Inr None, tr) \<or>
     (\<exists>selected seen p h htr. may_release L E tr machine selected seen \<and>
        run_state (RetainHost (repo_env E (tr @ seen)) (Some selected) (machine_consumer machine) p) [] = ((None, h), htr) \<and>
        prev_uid p = mt_uid (m_meta machine) \<and> new = seen @ map HostRepo htr @ [MachinePatch m]))"
  using run
proof (cases rule: reconcileDeletion_cases)
  case quiet
  from quiet_pass_reports[OF this] show ?thesis using patch observing_only(2) by (auto simp: reports_only_def)
next
  case unclaimed
  then show ?thesis by simp
next
  case (request selected configuration)
  have "emits (request_shutdown_step L E machine selected configuration) (- range MachinePatch)"
    unfolding request_shutdown_step_def requestHostShutdown_def Let_def
    by (intro emit_rules) (auto intro: emit_rules split: bool.splits)
  from emitsD[OF this request(4)] patch show ?thesis by auto
next
  case (confirm selected configuration)
  from confirm(4) show ?thesis
  proof (cases rule: confirm_stopped_cases)
    case (waiting seen)
    then show ?thesis using patch observing_only(3)[of seen] by auto
  next
    case (stopped seen)
    from stopped(4) show ?thesis
    proof (cases rule: release_host_run)
      case blocked
      then show ?thesis using patch observing_only(1)[OF stopped(3)] observing_only(2) by (auto simp: reports_only_def)
    next
      case (failed p h htr e rest)
      then show ?thesis using patch observing_only(1)[OF stopped(3)] observing_only(2) by auto
    next
      case (released p h htr m')
      then have "m' = m" "new = seen @ map HostRepo htr @ [MachinePatch m]" using patch observing_only(1)[OF stopped(3)] by auto
      with released stopped confirm show ?thesis by (auto simp: may_release_def)
    qed
  qed
qed

subsection \<open>The wait after a shutdown request\<close>

text \<open>The wait counts from the last change of the status of \<open>Ready\<close>, which the report of the
  request only is if the machine was ready before.\<close>

definition wait_starts :: "k8s_lib \<Rightarrow> TartMachine \<Rightarrow> time \<Rightarrow> time" where
  "wait_starts L machine now =
     (case lib_find_condition L (mst_conditions (m_status machine)) TartMachineReadyCondition of
        None \<Rightarrow> now | Some c \<Rightarrow> if cond_status c = ConditionFalse then cond_lastTransitionTime c else now)"

lemma shutdown_requested_settled:
  assumes "conditions_law L" and "run_state (shutdown_requested L E machine msg) tr = (r, tr @ [MachineStatusPatch m])"
  shows "HasShutdownRequest L m \<and>
    (ShutdownRequestSettled L now m shutdownConfirmationDelay \<longleftrightarrow>
       wait_starts L machine (te_now E tr) \<noteq> 0 \<and> shutdownConfirmationDelay \<le> now - wait_starts L machine (te_now E tr))"
proof -
  have d: "0 < shutdownConfirmationDelay" "shutdownConfirmationDelay \<le> max_int64"
    by (simp_all add: shutdownConfirmationDelay_def second_def max_int64_def)
  from assms(2) have "m = set_observed_generation (set_machine_condition L (te_now E tr) TartMachineReadyCondition
      ConditionFalse ShutdownRequestedReason msg machine)"
    by (simp add: shutdown_requested_def reportAndRequeue_def report_def api_write_def Let_def)
  then have "lib_find_condition L (mst_conditions (m_status m)) TartMachineReadyCondition =
      Some \<lparr>cond_type = TartMachineReadyCondition, cond_status = ConditionFalse, cond_observedGeneration = mt_generation (m_meta machine),
            cond_lastTransitionTime = wait_starts L machine (te_now E tr),
            cond_reason = ShutdownRequestedReason, cond_message = msg\<rparr>"
    by (simp add: set_observed_generation_def set_machine_condition_def find_SetCondition[OF assms(1)] wait_starts_def)
  then show ?thesis
    by (simp add: HasShutdownRequest_def ShutdownRequestSettled_def IsShutdownRequested_def IsShutdownSettled_iff[OF d])
qed

text \<open>What the settled request means for the \<open>Ready\<close> condition of the machine.\<close>

lemma ShutdownRequestSettled_iff:
  "ShutdownRequestSettled L now machine shutdownConfirmationDelay \<longleftrightarrow>
     (\<exists>ready. lib_find_condition L (mst_conditions (m_status machine)) TartMachineReadyCondition = Some ready \<and>
        cond_reason ready = ShutdownRequestedReason \<and> cond_lastTransitionTime ready \<noteq> 0 \<and>
        30 * second \<le> now - cond_lastTransitionTime ready)"
proof -
  have d: "0 < shutdownConfirmationDelay" "shutdownConfirmationDelay \<le> max_int64"
    by (simp_all add: shutdownConfirmationDelay_def second_def max_int64_def)
  show ?thesis
    unfolding shutdownConfirmationDelay_def[symmetric]
    by (auto simp: ShutdownRequestSettled_def IsShutdownSettled_iff[OF d] split: option.splits)
qed

subsection \<open>A request is recorded only when it was accepted\<close>

definition shutdown_accepted :: "tm_env \<Rightarrow> tm_event list \<Rightarrow> tm_event \<Rightarrow> bool" where
  "shutdown_accepted E before e =
     (case e of
        Rpc ep auth RpcShutdown \<Rightarrow> te_rpc E before e = None
      | PowerOffRequest h \<Rightarrow> te_power_off E before e
      | _ \<Rightarrow> False)"

lemma requestHostShutdown_accepted:
  "run_state (requestHostShutdown E selected configuration) tr = (Inr True, tr') \<Longrightarrow>
     \<exists>before e. tr' = tr @ before @ [e] \<and> shutdown_accepted E (tr @ before) e"
  unfolding requestHostShutdown_def dial_def rpc_def rpc_inventory_def
  by (auto simp: Let_def shutdown_accepted_def split: if_splits sum.splits option.splits)

lemma unconfirmed_run:
  assumes "conditions_law L" and "run_state (unconfirmed L E machine msg) tr = (r, tr')"
  shows "\<exists>m. tr' = tr @ [MachineStatusPatch m] \<and> \<not> HasShutdownRequest L m"
  using assms(2)
  by (auto simp: unconfirmed_def reportAndRequeue_def report_def api_write_def Let_def HasShutdownRequest_def set_observed_generation_def
      set_machine_condition_def find_SetCondition[OF assms(1)] IsShutdownRequested_def ReasonShutdownUnconfirmed_def ShutdownRequestedReason_def)

lemma request_recorded_when_accepted:
  assumes law: "conditions_law L" and run: "run_state (reconcileDeletion L E machine) tr = (r, tr @ new)"
    and m: "MachineStatusPatch m \<in> set new" "HasShutdownRequest L m" and fresh: "\<not> HasShutdownRequest L machine"
  shows "\<exists>before e. new = before @ [e, MachineStatusPatch m] \<and> shutdown_accepted E (tr @ before) e"
  using run
proof (cases rule: reconcileDeletion_cases)
  case quiet
  then show ?thesis unfolding quiet_pass_def
  proof (elim disjE exE)
    fix msg r' assume "run_state (unconfirmed L E machine msg) tr = (r', tr @ new)"
    from unconfirmed_run[OF law this] m show ?thesis by auto
  qed (use m in simp)
next
  case unclaimed
  with emitsD[OF emits_remove_finalizer[OF order_refl] unclaimed(3)] m show ?thesis by auto
next
  case (request selected configuration)
  obtain q tr1 where q: "run_state (requestHostShutdown E selected configuration) tr = (q, tr1)" by fastforce
  show ?thesis
  proof (cases "q = Inr True")
    case True
    from requestHostShutdown_accepted[OF q[unfolded True]] obtain before e where
      acc: "tr1 = tr @ before @ [e]" "shutdown_accepted E (tr @ before) e" by blast
    from emitsD[OF emits_requestHostShutdown[OF order_refl] q] acc(1) have "MachineStatusPatch m \<notin> set (before @ [e])" by auto
    with request(4) q True m acc show ?thesis
      by (auto simp: request_shutdown_step_def shutdown_requested_def reportAndRequeue_def report_def api_write_def Let_def)
  next
    case False
    with request(4) q obtain msg where "run_state (unconfirmed L E machine msg) tr1 = (r, tr @ new)"
      by (cases q) (auto simp: request_shutdown_step_def split: bool.splits)
    from unconfirmed_run[OF law this] emitsD[OF emits_requestHostShutdown[OF order_refl] q] m show ?thesis by auto
  qed
next
  case (confirm selected configuration)
  with fresh show ?thesis by simp
qed

end
