(* ===== verification/Addresses.thy ===== *)
theory Addresses
  imports GoStrings ApiTypes
begin

section \<open>Host and port\<close>

text \<open>
  \<open>net.SplitHostPort\<close> of the Go library, and what \<open>controller/hosttalos.go\<close> makes of a
  Talos endpoint with it. \<open>net.ParseIP\<close> is a parameter.
\<close>

fun index_of :: "'a \<Rightarrow> 'a list \<Rightarrow> nat option" where
  "index_of c [] = None"
| "index_of c (x # xs) = (if x = c then Some 0 else map_option Suc (index_of c xs))"

definition last_index_of :: "'a \<Rightarrow> 'a list \<Rightarrow> nat option" where
  "last_index_of c xs = map_option (\<lambda>i. length xs - 1 - i) (index_of c (rev xs))"

datatype split_error = MissingPort | TooManyColons | MissingBracket | UnexpectedBracket

definition split_host_port :: "string \<Rightarrow> split_error + (string \<times> string)" where
  "split_host_port s =
     (case last_index_of (CHR '':'') s of
        None \<Rightarrow> Inl MissingPort
      | Some i \<Rightarrow>
          (let finish = (\<lambda>host j k.
                 if CHR ''['' \<in> set (drop j s) then Inl UnexpectedBracket
                 else if CHR '']'' \<in> set (drop k s) then Inl UnexpectedBracket
                 else Inr (host, drop (i + 1) s))
           in if s ! 0 = CHR ''[''
              then (case index_of (CHR '']'') s of
                      None \<Rightarrow> Inl MissingBracket
                    | Some e \<Rightarrow>
                        if e + 1 = length s then Inl MissingPort
                        else if e + 1 = i then finish (take (e - 1) (drop 1 s)) 1 (e + 1)
                        else if s ! (e + 1) = CHR '':'' then Inl TooManyColons
                        else Inl MissingPort)
              else (let host = take i s
                    in if CHR '':'' \<in> set host then Inl TooManyColons else finish host 0 0)))"

definition trim_brackets :: "string \<Rightarrow> string" where
  "trim_brackets s =
     (let inside = (\<lambda>c. c = CHR ''['' \<or> c = CHR '']'')
      in rev (dropWhile inside (rev (dropWhile inside s))))"

definition HostAddresses :: "(string \<Rightarrow> bool) \<Rightarrow> string \<Rightarrow> MachineAddress list" where
  "HostAddresses parse_ip endpoint =
     (let address = trim_brackets (case split_host_port endpoint of Inr (host, _) \<Rightarrow> host | Inl _ \<Rightarrow> endpoint)
      in if parse_ip address then [\<lparr>addr_type = MachineInternalIP, addr_address = address\<rparr>]
         else [\<lparr>addr_type = MachineHostName, addr_address = address\<rparr>])"

lemma index_of_append: "c \<notin> set xs \<Longrightarrow> index_of c (xs @ c # ys) = Some (length xs)"
  by (induction xs) auto

lemma last_index_of_append: "c \<notin> set ys \<Longrightarrow> last_index_of c (xs @ c # ys) = Some (length xs)"
  by (simp add: last_index_of_def index_of_append)

lemma split_host_port_plain:
  assumes "h \<noteq> []" and "\<forall>c \<in> set h \<union> set p. c \<noteq> CHR '':'' \<and> c \<noteq> CHR ''['' \<and> c \<noteq> CHR '']''"
  shows "split_host_port (h @ CHR '':'' # p) = Inr (h, p)"
proof -
  have "last_index_of (CHR '':'') (h @ CHR '':'' # p) = Some (length h)"
    using assms(2) by (intro last_index_of_append) auto
  moreover have "(h @ CHR '':'' # p) ! 0 \<noteq> CHR ''[''"
    using assms by (cases h) auto
  ultimately show ?thesis using assms(2) by (auto simp: split_host_port_def Let_def)
qed

lemma split_host_port_bracketed:
  assumes "\<forall>c \<in> set h. c \<noteq> CHR ''['' \<and> c \<noteq> CHR '']''"
    and "\<forall>c \<in> set p. c \<noteq> CHR '':'' \<and> c \<noteq> CHR ''['' \<and> c \<noteq> CHR '']''"
  shows "split_host_port (CHR ''['' # h @ CHR '']'' # CHR '':'' # p) = Inr (h, p)"
proof -
  have "last_index_of (CHR '':'') (CHR ''['' # h @ CHR '']'' # CHR '':'' # p) = Some (length h + 2)"
    using last_index_of_append[of "CHR '':''" p "CHR ''['' # h @ [CHR '']'']"] assms(2) by auto
  moreover have "index_of (CHR '']'') (CHR ''['' # h @ CHR '']'' # CHR '':'' # p) = Some (Suc (length h))"
    using index_of_append[of "CHR '']''" h "CHR '':'' # p"] assms(1) by auto
  ultimately show ?thesis using assms by (auto simp: split_host_port_def Let_def)
qed

text \<open>A port does not change the address, nor do the brackets of an IPv6 literal.\<close>

lemma HostAddresses_port:
  assumes "h \<noteq> []" and "\<forall>c \<in> set h \<union> set p. c \<noteq> CHR '':'' \<and> c \<noteq> CHR ''['' \<and> c \<noteq> CHR '']''"
  shows "HostAddresses ip (h @ CHR '':'' # p) = HostAddresses ip h"
proof -
  have "last_index_of (CHR '':'') h = None"
  proof -
    have "index_of c xs = None \<longleftrightarrow> c \<notin> set xs" for c and xs :: string by (induction xs) auto
    then show ?thesis using assms by (auto simp: last_index_of_def)
  qed
  then have "split_host_port h = Inl MissingPort" by (simp add: split_host_port_def)
  then show ?thesis by (simp add: HostAddresses_def split_host_port_plain[OF assms])
qed

lemma HostAddresses_IPv6:
  assumes "h \<noteq> []" and "\<forall>c \<in> set h. c \<noteq> CHR ''['' \<and> c \<noteq> CHR '']''"
    and "\<forall>c \<in> set p. c \<noteq> CHR '':'' \<and> c \<noteq> CHR ''['' \<and> c \<noteq> CHR '']''" and "ip h"
  shows "HostAddresses ip (CHR ''['' # h @ CHR '']'' # CHR '':'' # p) =
     [\<lparr>addr_type = MachineInternalIP, addr_address = h\<rparr>]"
proof -
  have k: "dropWhile (\<lambda>c. c = CHR ''['' \<or> c = CHR '']'') s = s"
    if "\<forall>c \<in> set s. c \<noteq> CHR ''['' \<and> c \<noteq> CHR '']''" for s
    using that by (cases s) auto
  have "trim_brackets h = h" using assms(2) k[of h] k[of "rev h"] by (simp add: trim_brackets_def Let_def)
  then show ?thesis using split_host_port_bracketed[OF assms(2,3)] assms(4) by (simp add: HostAddresses_def)
qed

end
