(* ===== verification/MachineProvisioning.thy ===== *)
theory MachineProvisioning
  imports MachineTalos MachineDeletion Addresses
begin

section \<open>From a TartMachine to a claimed host: the reconciler\<close>

text \<open>
  \<open>provisioning.go\<close> and \<open>reconciler.go\<close> of \<open>controller/tartmachine\<close>, and the selection of
  the host in \<open>talos_reconcile.go\<close>. The host is selected, claimed, and only then is the
  provider ID written, first to the TartMachine and then to the CAPI Machine.
\<close>

definition ReasonHostMismatch :: string where "ReasonHostMismatch = ''HostMismatch''"
definition ReasonHostIDUnavailable :: string where "ReasonHostIDUnavailable = ''HostIDUnavailable''"
definition ReasonNoEligibleHost :: string where "ReasonNoEligibleHost = ''NoEligibleHost''"
definition ReasonHostNotFound :: string where "ReasonHostNotFound = ''HostNotFound''"
definition ReasonHostClaimConflict :: string where "ReasonHostClaimConflict = ''HostClaimConflict''"
definition ReasonReuseApprovalRequired :: string where "ReasonReuseApprovalRequired = ''ReuseApprovalRequired''"

subsection \<open>Selection\<close>

datatype select_error =
    SelCapi capi_error | SelApi api_error
  | SelMismatch      \<comment> \<open>\<open>errHostSelectionMismatch\<close>\<close>
  | SelNoEligible    \<comment> \<open>\<open>ErrNoEligibleHost\<close>\<close>

definition owned_by :: "string \<Rightarrow> TartHost \<Rightarrow> bool" where
  "owned_by uid h = (case hs_consumerRef (h_spec h) of None \<Rightarrow> False | Some c \<Rightarrow> ref_uid c = uid)"

text \<open>\<open>Inr None\<close> is the nil host without an error.\<close>

definition observedOrSelectedHost ::
  "k8s_lib \<Rightarrow> tm_env \<Rightarrow> TartMachine \<Rightarrow> TartHost list \<Rightarrow> (select_error + TartHost option) tm" where
  "observedOrSelectedHost L E machine hosts = do {
     found \<leftarrow> find_capi_machine L E machine;
     (case found of
        Inl e \<Rightarrow> State_Monad.return (Inl (SelCapi e))
      | Inr capiMachine \<Rightarrow>
          (let failureDomain = cm_failureDomain capiMachine;
               uid = mt_uid (m_meta machine);
               selector = ms_hostSelector (m_spec machine);
               matches = (\<lambda>h. MatchesForFailureDomain L (mt_labels (h_meta h)) (h_spec h) selector failureDomain)
           in case mst_hostRef (m_status machine) of
                Some name \<Rightarrow>
                  if (case ms_hostRef (m_spec machine) of None \<Rightarrow> False | Some s \<Rightarrow> s \<noteq> [] \<and> s \<noteq> name)
                  then State_Monad.return (Inl SelMismatch)
                  else do {
                    got \<leftarrow> query (\<lambda>tr. te_get_host E tr name);
                    State_Monad.return (case got of
                        Inl e \<Rightarrow> Inl (SelApi e)
                      | Inr observed \<Rightarrow>
                          if \<not> owned_by uid observed then Inr None
                          else if \<not> matches observed then Inl SelMismatch
                          else Inr (Some observed))
                  }
              | None \<Rightarrow>
                  (case find (owned_by uid) hosts of
                     Some h \<Rightarrow> State_Monad.return (if matches h then Inr (Some h) else Inl SelMismatch)
                   | None \<Rightarrow>
                       (case ms_hostRef (m_spec machine) of
                          Some name \<Rightarrow> do {
                            got \<leftarrow> query (\<lambda>tr. te_get_host E tr name);
                            State_Monad.return (case got of
                                Inl e \<Rightarrow> Inl (SelApi e)
                              | Inr h \<Rightarrow>
                                  if owned_by uid h then Inr (Some h)
                                  else if (Classify (h_spec h) \<noteq> Available \<and> Classify (h_spec h) \<noteq> Reusable) \<or> \<not> matches h
                                  then Inl SelNoEligible
                                  else Inr (Some h))
                          }
                        | None \<Rightarrow>
                            State_Monad.return (case SelectFreshForFailureDomainWithRendezvous L hosts selector failureDomain uid of
                                None \<Rightarrow> Inl SelNoEligible
                              | Some h \<Rightarrow> Inr (Some h))))))
   }"

definition claimModeForSelectedHost :: "TartMachine \<Rightarrow> TartHost \<Rightarrow> ClaimMode" where
  "claimModeForSelectedHost machine selected =
     (if ms_hostRef (m_spec machine) = Some (h_name selected) \<and> Classify (h_spec selected) = Reusable
      then ClaimExplicitReusable else ClaimFreshAutomatic)"

definition reconcileProvisioningHostSelectionError ::
  "k8s_lib \<Rightarrow> tm_env \<Rightarrow> TartMachine \<Rightarrow> select_error \<Rightarrow> recon_result tm" where
  "reconcileProvisioningHostSelectionError L E machine e =
     (case e of
        SelCapi ErrCAPIMachineUnavailable \<Rightarrow> reportAndRequeue L E machine ReasonHostMismatch
          ''The corresponding CAPI Machine is not available to determine Host placement.'' (30 * second)
      | SelCapi ErrCAPIMachineReferenceMismatch \<Rightarrow> reportAndRequeue L E machine ''CAPIMachineInvalid''
          ''The CAPI Machine reference is structurally invalid; allocation is stopped.'' 0
      | SelCapi ErrCAPIMachineAmbiguous \<Rightarrow> reportAndRequeue L E machine ''CAPIMachineInvalid''
          ''The CAPI Machine reference is structurally invalid; allocation is stopped.'' 0
      | SelMismatch \<Rightarrow> reportAndRequeue L E machine ReasonHostMismatch
          ''The allocated TartHost does not match the CAPI Machine Failure Domain or HostSelector.'' 0
      | SelNoEligible \<Rightarrow> reportAndRequeue L E machine ReasonNoEligibleHost
          ''No eligible fresh TartHost is available for this Machine.'' (30 * second)
      | SelCapi (CAPIApi ApiNotFound) \<Rightarrow> reportAndRequeue L E machine ReasonHostNotFound
          ''The referenced TartHost was not found.'' (30 * second)
      | SelApi ApiNotFound \<Rightarrow> reportAndRequeue L E machine ReasonHostNotFound
          ''The referenced TartHost was not found.'' (30 * second)
      | SelCapi c \<Rightarrow> State_Monad.return (0, Some (ReconCapi c))
      | SelApi a \<Rightarrow> State_Monad.return (0, Some (ReconApi a)))"

subsection \<open>Claim and publication of the provider ID\<close>

datatype sync_error = SyncMismatch | SyncCapi capi_error | SyncApi api_error

definition syncCAPIProviderID :: "k8s_lib \<Rightarrow> tm_env \<Rightarrow> TartMachine \<Rightarrow> ProviderID \<Rightarrow> sync_error option tm" where
  "syncCAPIProviderID L E machine providerID = do {
     found \<leftarrow> find_capi_machine L E machine;
     (case found of
        Inl ErrCAPIMachineIdentityMismatch \<Rightarrow> State_Monad.return (Some SyncMismatch)
      | Inl ErrCAPIMachineUnavailable \<Rightarrow> State_Monad.return None
      | Inl e \<Rightarrow> State_Monad.return (Some (SyncCapi e))
      | Inr m \<Rightarrow>
          if cm_providerID m \<noteq> []
          then State_Monad.return (if cm_providerID m \<noteq> ProviderID_String providerID then Some SyncMismatch else None)
          else do {
            err \<leftarrow> api_write E (CapiMachinePatch (m\<lparr>cm_providerID := ProviderID_String providerID\<rparr>));
            State_Monad.return (map_option SyncApi err)
          })
   }"

text \<open>The errors of a claim that are reported: reason and message; the others are returned.\<close>

definition claim_refusal :: "repo_error \<Rightarrow> (string \<times> string) option" where
  "claim_refusal err =
     (let conflict = (ReasonHostClaimConflict,
        ''The selected TartHost was claimed concurrently or is no longer eligible; allocation will be retried against current state.'')
      in case err of
           ConflictExhausted \<Rightarrow> Some conflict
         | ApiFailed _ \<Rightarrow> None
         | Refused e \<Rightarrow>
             (case e of
                ErrClaimConflict \<Rightarrow> Some conflict
              | ErrHostNoLongerEligible \<Rightarrow> Some conflict
              | ErrHostIdentityChanged \<Rightarrow> Some conflict
              | ErrReuseApprovalRequired \<Rightarrow> Some (ReasonReuseApprovalRequired,
                  ''The selected TartHost is retained and requires explicit reuse approval; automatic allocation is blocked.'')
              | ErrHostSelectionMismatch \<Rightarrow> Some (ReasonHostMismatch,
                  ''The selected TartHost no longer matches the Machine placement constraints.'')
              | _ \<Rightarrow> None))"

text \<open>After a successful claim (lines 119 to 142): \<open>selected\<close> is the host as stored.\<close>

definition publish_provider_id ::
  "k8s_lib \<Rightarrow> tm_env \<Rightarrow> TartMachine \<Rightarrow> TartHost \<Rightarrow> ((duration \<times> recon_error option) + (TartHost \<times> TartMachine)) tm" where
  "publish_provider_id L E machine selected =
     (case NewProviderID (hs_hostID (h_spec selected)) of
        Inl _ \<Rightarrow> do {
          r \<leftarrow> reportAndRequeue L E machine ''HostIdentityInvalid''
            ''The claimed Host has an invalid HostID; ProviderID publication is stopped.'' 0;
          State_Monad.return (Inl r)
        }
      | Inr providerID \<Rightarrow> do {
          let published = machine\<lparr>m_spec := (m_spec machine)\<lparr>ms_providerID := providerID\<rparr>\<rparr>;
          (err, machine) \<leftarrow>
            (if ProviderID_IsZero (ms_providerID (m_spec machine))
             then do {
               err \<leftarrow> api_write E (MachinePatch published);
               State_Monad.return (err, published)
             }
             else State_Monad.return (None, machine));
          (case err of
             Some e \<Rightarrow> State_Monad.return (Inl (0, Some (ReconApi e)))
           | None \<Rightarrow> do {
               synced \<leftarrow> syncCAPIProviderID L E machine providerID;
               (case synced of
                  None \<Rightarrow> State_Monad.return (Inr (selected, machine))
                | Some SyncMismatch \<Rightarrow> do {
                    r \<leftarrow> reportAndRequeue L E machine ReasonHostMismatch
                      ''The CAPI Machine ProviderID does not match the allocated TartHost identity.'' 0;
                    State_Monad.return (Inl r)
                  }
                | Some (SyncCapi e) \<Rightarrow> State_Monad.return (Inl (0, Some (ReconCapi e)))
                | Some (SyncApi e) \<Rightarrow> State_Monad.return (Inl (0, Some (ReconApi e))))
             })
        })"

text \<open>From the point where the selected host has an identity that fits the machine
  (lines 74 to 118).\<close>

definition claim_selected ::
  "k8s_lib \<Rightarrow> tm_env \<Rightarrow> TartMachine \<Rightarrow> TartHost \<Rightarrow> ((duration \<times> recon_error option) + (TartHost \<times> TartMachine)) tm" where
  "claim_selected L E machine selected = do {
     found \<leftarrow> find_capi_machine L E machine;
     (case found of
        Inl ErrCAPIMachineUnavailable \<Rightarrow> do {
          r \<leftarrow> reportAndRequeue L E machine ReasonHostMismatch
            ''The corresponding CAPI Machine is not available to re-validate Host claim placement.'' (5 * second);
          State_Monad.return (Inl r)
        }
      | Inl e \<Rightarrow> State_Monad.return (Inl (0, Some (ReconCapi e)))
      | Inr capiMachine \<Rightarrow> do {
          let req = \<lparr>req_consumer = machine_consumer machine, req_expectedHostID = hs_hostID (h_spec selected),
            req_selector = ms_hostSelector (m_spec machine), req_failureDomain = cm_failureDomain capiMachine,
            req_mode = claimModeForSelectedHost machine selected\<rparr>;
          (err, stored) \<leftarrow> repo_call E (\<lambda>H. ClaimHostWithRequest L H (Some selected) req);
          (case err of
             Some e \<Rightarrow>
               (case claim_refusal e of
                  Some (reason, message) \<Rightarrow> do {
                    r \<leftarrow> reportAndRequeue L E machine reason message (2 * second);
                    State_Monad.return (Inl r)
                  }
                | None \<Rightarrow> State_Monad.return (Inl (0, Some (ReconRepo e))))
           | None \<Rightarrow> publish_provider_id L E machine (case stored of Some h \<Rightarrow> h | None \<Rightarrow> selected))
        })
   }"

definition reconcileProvisioningHost ::
  "k8s_lib \<Rightarrow> tm_env \<Rightarrow> TartMachine \<Rightarrow> ((duration \<times> recon_error option) + (TartHost \<times> TartMachine)) tm" where
  "reconcileProvisioningHost L E machine = do {
     listed \<leftarrow> query (te_list_hosts E);
     (case listed of
        Inl e \<Rightarrow> State_Monad.return (Inl (0, Some (ReconApi e)))
      | Inr hosts \<Rightarrow>
          if HasIdentityConflictForAny hosts
          then do {
            r \<leftarrow> reportAndRequeue L E machine ReasonIdentityConflict
              ''Stable Host identity is duplicated; allocation is stopped until the conflict is resolved.'' 0;
            State_Monad.return (Inl r)
          }
          else do {
            choice \<leftarrow> observedOrSelectedHost L E machine hosts;
            (case choice of
               Inl e \<Rightarrow> do {
                 r \<leftarrow> reconcileProvisioningHostSelectionError L E machine e;
                 State_Monad.return (Inl r)
               }
             | Inr None \<Rightarrow> do {
                 r \<leftarrow> reportAndRequeue L E machine ReasonHostMismatch ''The observed Host binding is unavailable.'' 0;
                 State_Monad.return (Inl r)
               }
             | Inr (Some selected) \<Rightarrow>
                 (case NewProviderID (hs_hostID (h_spec selected)) of
                    Inl _ \<Rightarrow> do {
                      r \<leftarrow> reportAndRequeue L E machine ReasonHostIDUnavailable
                        ''The selected TartHost has no persistent identity yet.'' 0;
                      State_Monad.return (Inl r)
                    }
                  | Inr providerID \<Rightarrow>
                      if \<not> ProviderID_IsZero (ms_providerID (m_spec machine)) \<and> ms_providerID (m_spec machine) \<noteq> providerID
                      then do {
                        r \<leftarrow> reportAndRequeue L E machine ReasonHostMismatch
                          ''The existing ProviderID does not match the allocated TartHost identity.'' 0;
                        State_Monad.return (Inl r)
                      }
                      else claim_selected L E machine selected))
          })
   }"

text \<open>\<open>Inr\<close>: the bootstrap configuration, and the machine with its status.\<close>

definition reconcileProvisioningStatus ::
  "k8s_lib \<Rightarrow> tm_env \<Rightarrow> TartMachine \<Rightarrow> TartHost \<Rightarrow> ((duration \<times> recon_error option) + (string \<times> TartMachine)) tm" where
  "reconcileProvisioningStatus L E machine selected =
     (let status = (m_status machine)\<lparr>mst_hostRef := Some (h_name selected)\<rparr>;
          endpoint = HostTalosEndpoint selected;
          status = (if endpoint \<noteq> [] then status\<lparr>mst_addresses := HostAddresses (te_parse_ip E) endpoint\<rparr> else status);
          status = (if hs_failureDomain (h_spec selected) \<noteq> []
            then status\<lparr>mst_failureDomain := hs_failureDomain (h_spec selected)\<rparr> else status);
          machine = machine\<lparr>m_status := status\<rparr>
      in do {
        err \<leftarrow> api_write E (MachineStatusPatch machine);
        (case err of
           Some e \<Rightarrow> State_Monad.return (Inl (0, Some (ReconApi e)))
         | None \<Rightarrow> do {
             configuration \<leftarrow> BootstrapConfiguration L E machine;
             (case configuration of
                Inl ErrBootstrapDataUnavailable \<Rightarrow> do {
                  r \<leftarrow> reportTalosStatus L E machine
                    (ConditionFalse, ''BootstrapDataUnavailable'', ''Talos provisioning is waiting for bootstrap data.'')
                    (ConditionFalse, ''BootstrapDataUnavailable'', ''Talos provisioning is waiting for bootstrap data.'')
                    (''BootstrapDataUnavailable'', ''Talos version cannot be verified before provisioning.'')
                    (''BootstrapDataUnavailable'', ''The immutable Bootstrap Secret is not available yet.'') talosRequeue;
                  State_Monad.return (Inl r)
                }
              | Inl (BootOther e) \<Rightarrow> State_Monad.return (Inl (0, Some e))
              | Inr c \<Rightarrow> State_Monad.return (Inr (c, machine)))
           })
      })"

text \<open>\<open>ns\<close> is the reconciler's management namespace.\<close>

definition reconcileProvisioning :: "k8s_lib \<Rightarrow> tm_env \<Rightarrow> string \<Rightarrow> TartMachine \<Rightarrow> recon_result tm" where
  "reconcileProvisioning L E ns machine = do {
     host \<leftarrow> reconcileProvisioningHost L E machine;
     (case host of
        Inl r \<Rightarrow> State_Monad.return r
      | Inr (selected, machine) \<Rightarrow> do {
          status \<leftarrow> reconcileProvisioningStatus L E machine selected;
          (case status of
             Inl r \<Rightarrow> State_Monad.return r
           | Inr (configuration, machine) \<Rightarrow> reconcileTalos L E ns machine selected configuration)
        })
   }"

definition Reconcile_TartMachine :: "k8s_lib \<Rightarrow> tm_env \<Rightarrow> string \<Rightarrow> string \<Rightarrow> string \<Rightarrow> recon_result tm" where
  "Reconcile_TartMachine L E ns namespace name = do {
     got \<leftarrow> query (\<lambda>tr. te_get_tart_machine E tr namespace name);
     (case got of
        Inl ApiNotFound \<Rightarrow> State_Monad.return (0, None)
      | Inl e \<Rightarrow> State_Monad.return (0, Some (ReconApi e))
      | Inr machine \<Rightarrow>
          if IsPaused L (m_meta machine) then State_Monad.return (0, None)
          else if mt_deletionTimestamp (m_meta machine) \<noteq> None then reconcileDeletion L E machine
          else if \<not> lib_contains_finalizer L (mt_finalizers (m_meta machine)) tartMachineFinalizer
          then do {
            err \<leftarrow> api_write E (MachinePatch (machine\<lparr>m_meta := (m_meta machine)\<lparr>mt_finalizers :=
              lib_add_finalizer L (mt_finalizers (m_meta machine)) tartMachineFinalizer\<rparr>\<rparr>));
            State_Monad.return (case err of Some e \<Rightarrow> (0, Some (ReconApi e)) | None \<Rightarrow> (second, None))
          }
          else reconcileProvisioning L E ns machine)
   }"

subsection \<open>What wakes the reconciler\<close>

text \<open>A request is a namespace and a name.\<close>

definition enqueue_host_consumer :: "TartHost \<Rightarrow> (string \<times> string) list" where
  "enqueue_host_consumer h =
     (case hs_consumerRef (h_spec h) of
        None \<Rightarrow> []
      | Some c \<Rightarrow>
          if ref_namespace c = [] \<or> ref_name c = [] \<or> ref_uid c = [] then []
          else [(ref_namespace c, ref_name c)])"

definition enqueueMachinesForBootstrapReference ::
  "(string \<Rightarrow> api_error + capi_machine list) \<Rightarrow> string \<Rightarrow> string \<Rightarrow> (string \<times> string) list" where
  "enqueueMachinesForBootstrapReference machines namespace name =
     (case machines namespace of
        Inl _ \<Rightarrow> []
      | Inr ms \<Rightarrow>
          map (\<lambda>m. (namespace, cr_name (cm_infrastructureRef m)))
            (filter (\<lambda>m. refers_to_bootstrap name m \<and> cr_apiGroup (cm_infrastructureRef m) = infra_group \<and>
               cr_kind (cm_infrastructureRef m) = TartMachineKind \<and> cr_name (cm_infrastructureRef m) \<noteq> []) ms))"

definition uses_secret :: "string \<Rightarrow> TartBootstrapConfig \<Rightarrow> bool" where
  "uses_secret name config \<longleftrightarrow>
     bcst_dataSecretName (bc_status config) = name \<or> bcs_configPatchesSecretRef (bc_spec config) = Some name"

definition enqueueMachinesForBootstrapSecret ::
  "(string \<Rightarrow> api_error + capi_machine list) \<Rightarrow> (string \<Rightarrow> api_error + TartBootstrapConfig list) \<Rightarrow>
   string \<Rightarrow> string \<Rightarrow> (string \<times> string) list" where
  "enqueueMachinesForBootstrapSecret machines configs namespace name =
     (case configs namespace of
        Inl _ \<Rightarrow> []
      | Inr cs \<Rightarrow>
          (case find (uses_secret name) cs of
             None \<Rightarrow> []
           | Some config \<Rightarrow>
               enqueueMachinesForBootstrapReference machines (mt_namespace (bc_meta config)) (mt_name (bc_meta config))))"

lemma enqueued_machines:
  "r \<in> set (enqueueMachinesForBootstrapReference machines namespace name) \<longleftrightarrow>
     (\<exists>ms m. machines namespace = Inr ms \<and> m \<in> set ms \<and> refers_to_bootstrap name m \<and>
        cr_apiGroup (cm_infrastructureRef m) = infra_group \<and> cr_kind (cm_infrastructureRef m) = TartMachineKind \<and>
        cr_name (cm_infrastructureRef m) \<noteq> [] \<and> r = (namespace, cr_name (cm_infrastructureRef m)))"
  by (cases "machines namespace") (auto simp: enqueueMachinesForBootstrapReference_def)

text \<open>A Secret of patches that several configurations share wakes the machines of one of them.\<close>

lemma shared_secret_wakes_one:
  assumes "uses_secret s c1" and "mt_name (bc_meta c1) \<noteq> mt_name (bc_meta c2)" and "uses_secret s c2"
    and machines: "machines (mt_namespace (bc_meta c1)) = Inr ms" "m \<in> set ms" "refers_to_bootstrap (mt_name (bc_meta c2)) m"
    and one: "\<forall>m' \<in> set ms. cr_name (cm_infrastructureRef m') = cr_name (cm_infrastructureRef m) \<longrightarrow> m' = m"
  shows "(mt_namespace (bc_meta c1), cr_name (cm_infrastructureRef m)) \<notin>
     set (enqueueMachinesForBootstrapSecret machines (\<lambda>_. Inr (c1 # c2 # rest)) namespace s)"
  using assms by (auto simp: enqueueMachinesForBootstrapSecret_def enqueued_machines refers_to_bootstrap_def Let_def)

subsection \<open>Which host is selected\<close>

text \<open>A retained host is never selected, a reusable one only by an explicit reference, and a
  host that is neither the machine's nor free never.\<close>

lemma selected_host:
  assumes "run_state (observedOrSelectedHost L E machine hosts) tr = (Inr (Some h), tr')"
  shows "tr' = tr \<and> (\<exists>capiMachine. run_state (find_capi_machine L E machine) tr = (Inr capiMachine, tr) \<and>
     (owned_by (mt_uid (m_meta machine)) h \<or>
      mst_hostRef (m_status machine) = None \<and>
      MatchesForFailureDomain L (mt_labels (h_meta h)) (h_spec h) (ms_hostSelector (m_spec machine)) (cm_failureDomain capiMachine) \<and>
      (Classify (h_spec h) = Available \<or> Classify (h_spec h) = Reusable \<and> ms_hostRef (m_spec machine) \<noteq> None)))"
proof -
  have "h' \<in> set (filter f hosts)" if "SelectFreshForFailureDomainWithRendezvous L hosts s d u = Some h'" "f = fresh_candidate L s d" for h' s d u f
    using that hd_sort_by_in[of "filter f hosts"] by (auto simp: SelectFreshForFailureDomainWithRendezvous_def Let_def split: if_splits)
  then have fresh: "fresh_candidate L s d h'" if "SelectFreshForFailureDomainWithRendezvous L hosts s d u = Some h'" for h' s d u
    using that by fastforce
  obtain f where f: "run_state (find_capi_machine L E machine) tr = (f, tr)" using find_capi_machine_reads by blast
  with assms obtain c where c: "f = Inr c" by (cases f) (auto simp: observedOrSelectedHost_def)
  show ?thesis
  proof (cases "mst_hostRef (m_status machine)")
    case (Some n)
    with assms f c show ?thesis by (auto simp: observedOrSelectedHost_def Let_def split: sum.splits if_splits)
  next
    case status: None
    show ?thesis
    proof (cases "find (owned_by (mt_uid (m_meta machine))) hosts")
      case (Some g)
      with find_Some_iff[of "owned_by (mt_uid (m_meta machine))" hosts g] assms f c status show ?thesis
        by (auto simp: observedOrSelectedHost_def Let_def split: if_splits)
    next
      case None
      with assms f c status show ?thesis
        by (auto simp: observedOrSelectedHost_def Let_def fresh_candidate_def dest!: fresh split: option.splits sum.splits if_splits)
    qed
  qed
qed

subsection \<open>What is touched, and when\<close>

lemma Reconcile_gate:
  assumes run: "run_state (Reconcile_TartMachine L E ns namespace name) tr = (r, tr @ new)" and "new \<noteq> []"
  shows "\<exists>machine. te_get_tart_machine E tr namespace name = Inr machine \<and> \<not> IsPaused L (m_meta machine) \<and>
     (lib_contains_finalizer L (mt_finalizers (m_meta machine)) tartMachineFinalizer \<or>
      mt_deletionTimestamp (m_meta machine) = None \<and>
      new = [MachinePatch (machine\<lparr>m_meta := (m_meta machine)\<lparr>mt_finalizers :=
        lib_add_finalizer L (mt_finalizers (m_meta machine)) tartMachineFinalizer\<rparr>\<rparr>)])"
  using assms
  by (cases "te_get_tart_machine E tr namespace name")
     (auto simp: Reconcile_TartMachine_def reconcileDeletion_def api_write_def split: api_error.splits if_splits option.splits)

text \<open>The update of a host answers with the consumer and the identity that were sent.\<close>

definition update_returns_host :: "tm_env \<Rightarrow> bool" where
  "update_returns_host E \<longleftrightarrow> (\<forall>tr h h'. te_host_update E tr h = Inr h' \<longrightarrow>
     hs_consumerRef (h_spec h') = hs_consumerRef (h_spec h) \<and> hs_hostID (h_spec h') = hs_hostID (h_spec h))"

lemma claim_loop_owner:
  assumes "\<forall>htr h h'. he_update H htr h = Inr h' \<longrightarrow> hs_consumerRef (h_spec h') = hs_consumerRef (h_spec h)"
  shows "run_state (claim_loop L H req n h) htr = ((None, h'), htr') \<Longrightarrow> hs_consumerRef (h_spec h') = Some (req_consumer req)"
proof (induction n arbitrary: h htr)
  case 0
  then show ?case by simp
next
  case (Suc n)
  from Suc.prems show ?case
  proof (cases rule: claim.loop_cases)
    case (committed m)
    with assms show ?thesis by (simp add: set_consumer_def)
  next
    case (again m r)
    with Suc.IH show ?thesis by blast
  qed (auto simp: claim_verdict_noop)
qed

lemma claimed_host:
  assumes "update_returns_host E"
    and "run_state (repo_call E (\<lambda>H. ClaimHostWithRequest L H (Some selected) req)) tr = ((None, stored), tr')"
  shows "\<exists>h. stored = Some h \<and> hs_consumerRef (h_spec h) = Some (req_consumer req)"
proof -
  let ?H = "repo_env E tr"
  let ?q = "if HostID_IsZero (req_expectedHostID req) then req\<lparr>req_expectedHostID := hs_hostID (h_spec selected)\<rparr> else req"
  from assms(2) obtain h htr where c: "run_state (claim_loop L ?H ?q claimAttempts selected) [] = ((None, h), htr)" "stored = Some h"
    by (auto simp: repo_call_def ClaimHostWithRequest_def Let_def split: prod.splits if_splits)
  moreover have "\<forall>htr h h'. he_update ?H htr h = Inr h' \<longrightarrow> hs_consumerRef (h_spec h') = hs_consumerRef (h_spec h)"
    using assms(1) by (simp add: repo_env_def update_returns_host_def)
  ultimately have "hs_consumerRef (h_spec h) = Some (req_consumer ?q)" using claim_loop_owner by blast
  with c(2) show ?thesis by simp
qed

text \<open>The provider ID that reaches a Machine is that of a host whose consumer the machine is.\<close>

definition published_for :: "TartMachine \<Rightarrow> TartHost \<Rightarrow> ProviderID \<Rightarrow> tm_event list \<Rightarrow> bool" where
  "published_for machine h p evs \<longleftrightarrow>
     NewProviderID (hs_hostID (h_spec h)) = Inr p \<and>
     (\<forall>k. CapiMachinePatch k \<in> set evs \<longrightarrow> cm_providerID k = ProviderID_String p) \<and>
     (\<forall>k. MachinePatch k \<in> set evs \<longrightarrow> ms_providerID (m_spec k) = p \<and> ProviderID_IsZero (ms_providerID (m_spec machine)))"

lemma syncCAPIProviderID_events:
  "emits (syncCAPIProviderID L E machine p) {CapiMachinePatch k | k. cm_providerID k = ProviderID_String p}"
proof -
  have "emits (case e of ErrCAPIMachineIdentityMismatch \<Rightarrow> a | ErrCAPIMachineUnavailable \<Rightarrow> b | _ \<Rightarrow> f e) S"
    if "emits a S" "emits b S" "\<And>e. emits (f e) S" for e a b S and f :: "capi_error \<Rightarrow> 'a tm"
    using that by (cases e) simp_all
  then show ?thesis
    unfolding syncCAPIProviderID_def by (auto intro!: emit_rules split: capi_error.splits)
qed

lemma publish_run:
  assumes run: "run_state (publish_provider_id L E machine h) tr = (r, tr @ new)"
    and k: "CapiMachinePatch k \<in> set new \<or> MachinePatch m \<in> set new"
  shows "\<exists>p. published_for machine h p new"
proof -
  from run k obtain p where p: "NewProviderID (hs_hostID (h_spec h)) = Inr p"
    using emitsD[OF emits_reportAndRequeue[OF order_refl], of L E machine]
    by (cases "NewProviderID (hs_hostID (h_spec h))") (fastforce simp: publish_provider_id_def split: prod.splits)+
  let ?pub = "machine\<lparr>m_spec := (m_spec machine)\<lparr>ms_providerID := p\<rparr>\<rparr>"
  let ?S = "{CapiMachinePatch k | k. cm_providerID k = ProviderID_String p} \<union>
    (if ProviderID_IsZero (ms_providerID (m_spec machine)) then {MachinePatch ?pub} else {}) \<union> range MachineStatusPatch"
  have "emits (publish_provider_id L E machine h) ?S"
    unfolding publish_provider_id_def p
    by (auto intro!: emit_rules emits_mono[OF syncCAPIProviderID_events] split: sync_error.splits)
  from emitsD[OF this run] p show ?thesis
    by (intro exI[of _ p]) (auto simp: published_for_def split: if_splits)
qed

lemma claim_selected_published:
  assumes server: "update_returns_host E"
    and c: "run_state (claim_selected L E machine selected) tr = (r, tr @ new)"
    and k: "CapiMachinePatch k \<in> set new \<or> MachinePatch m \<in> set new"
  shows "\<exists>h p. hs_consumerRef (h_spec h) = Some (machine_consumer machine) \<and> published_for machine h p new"
proof -
  have rep: False if "run_state (reportAndRequeue L E machine a b d) tr = (x, tr @ new)" for a b d x
    using emitsD[OF emits_reportAndRequeue[OF order_refl] that] k by auto
  obtain f where f: "run_state (find_capi_machine L E machine) tr = (f, tr)" using find_capi_machine_reads by blast
  from c f k obtain capi where capi: "f = Inr capi"
    by (cases f) (auto simp: claim_selected_def dest: rep split: prod.splits capi_error.splits)
  define req where "req = \<lparr>req_consumer = machine_consumer machine, req_expectedHostID = hs_hostID (h_spec selected),
            req_selector = ms_hostSelector (m_spec machine), req_failureDomain = cm_failureDomain capi,
            req_mode = claimModeForSelectedHost machine selected\<rparr>"
  obtain err stored t1 where cl: "run_state (repo_call E (\<lambda>H. ClaimHostWithRequest L H (Some selected) req)) tr = ((err, stored), t1)"
    by (metis prod.exhaust)
  from emitsD[OF emits_repo_call[OF order_refl] cl] obtain n1 where n1: "t1 = tr @ n1" "set n1 \<subseteq> range HostRepo" by blast
  have err: "err = None"
  proof (rule ccontr)
    assume "err \<noteq> None"
    with c f capi cl have "only (range MachineStatusPatch) t1 (tr @ new)"
      by (auto simp: claim_selected_def req_def[symmetric] only_refl split: prod.splits option.splits
          dest!: only_emits[OF emits_reportAndRequeue[OF order_refl]])
    with n1 k show False by (auto simp: only_def)
  qed
  from claimed_host[OF server cl[unfolded err]] obtain h where st: "stored = Some h"
    "hs_consumerRef (h_spec h) = Some (machine_consumer machine)" by (auto simp: req_def)
  from c f capi cl err st have pub: "run_state (publish_provider_id L E machine h) t1 = (r, tr @ new)"
    by (simp add: claim_selected_def req_def[symmetric])
  have "emits (publish_provider_id L E machine h) UNIV"
    unfolding publish_provider_id_def
    by (auto intro!: emit_rules emits_mono[OF syncCAPIProviderID_events] split: sync_error.splits sum.splits)
  from emitsD[OF this pub] n1 obtain n2 where n2: "new = n1 @ n2" by auto
  with k n1 have "CapiMachinePatch k \<in> set n2 \<or> MachinePatch m \<in> set n2" by auto
  from publish_run[OF pub[unfolded n2 n1, folded append_assoc] this] obtain p where "published_for machine h p n2" by blast
  with n1 n2 st(2) show ?thesis by (intro exI[of _ h] exI[of _ p]) (auto simp: published_for_def)
qed

lemma observedOrSelectedHost_reads: "\<exists>c. run_state (observedOrSelectedHost L E machine hosts) tr = (c, tr)"
  by (auto simp: observedOrSelectedHost_def find_capi_machine_def Let_def split: sum.splits option.splits)

lemma emits_selection_error:
  "range MachineStatusPatch \<subseteq> S \<Longrightarrow> emits (reconcileProvisioningHostSelectionError L E machine e) S"
  unfolding reconcileProvisioningHostSelectionError_def
  by (auto intro!: emit_rules split: select_error.splits capi_error.splits api_error.splits)

text \<open>Without a host to claim nothing but the status of the machine is written; a host is only
  claimed while no two hosts share an identity.\<close>

lemma reconcileProvisioningHost_cases:
  assumes run: "run_state (reconcileProvisioningHost L E machine) tr = (r, tr')"
  obtains (quiet) x where "r = Inl x" "only (range MachineStatusPatch) tr tr'"
  | (claim) hosts selected where "te_list_hosts E tr = Inr hosts" "\<not> HasIdentityConflictForAny hosts"
      "run_state (observedOrSelectedHost L E machine hosts) tr = (Inr (Some selected), tr)"
      "run_state (claim_selected L E machine selected) tr = (r, tr')"
proof (cases "te_list_hosts E tr")
  case (Inl e)
  with run show ?thesis by (intro quiet) (auto simp: reconcileProvisioningHost_def only_refl)
next
  case hosts: (Inr hosts)
  note simps = reconcileProvisioningHost_def hosts
  note reports = only_emits[OF emits_reportAndRequeue[OF order_refl]] only_emits[OF emits_selection_error[OF order_refl]]
  obtain ch where ch: "run_state (observedOrSelectedHost L E machine hosts) tr = (ch, tr)"
    using observedOrSelectedHost_reads by blast
  show ?thesis
  proof (cases "HasIdentityConflictForAny hosts")
    case True
    with run show ?thesis by (auto simp: simps dest!: reports intro: quiet split: prod.splits)
  next
    case ok: False
    show ?thesis
    proof (cases "\<exists>selected. ch = Inr (Some selected) \<and> r = fst (run_state (claim_selected L E machine selected) tr) \<and>
        tr' = snd (run_state (claim_selected L E machine selected) tr)")
      case True
      with claim[OF hosts ok] ch show ?thesis by (auto simp: prod_eq_iff)
    next
      case False
      with run ok ch show ?thesis
        by (auto simp: simps dest!: reports intro: quiet split: prod.splits sum.splits option.splits if_splits)
    qed
  qed
qed

lemma provider_id_published:
  assumes "update_returns_host E"
    and run: "run_state (reconcileProvisioningHost L E machine) tr = (r, tr @ new)"
    and k: "CapiMachinePatch k \<in> set new \<or> MachinePatch m \<in> set new"
  shows "\<exists>h p. hs_consumerRef (h_spec h) = Some (machine_consumer machine) \<and> published_for machine h p new"
  using run
proof (cases rule: reconcileProvisioningHost_cases)
  case (quiet x)
  with k show ?thesis by (auto simp: only_def)
next
  case (claim hosts selected)
  with claim_selected_published[OF assms(1)] k show ?thesis by blast
qed

end
