(* ===== verification/BundleData.thy ===== *)
theory BundleData
  imports Recovery
begin

section \<open>The data of a secret bundle\<close>

text \<open>
  The functions of \<open>adapter/talos/certbuilder/bundle.go\<close> that generate the data of a bundle
  Secret; its decoding is in the theory \<open>Recovery\<close>. \<open>secrets.Bundle\<close> is here with what a
  rotation carries over: \<open>fb_certs\<close> is \<open>Certs\<close> where it is set, and of its fields the two that
  are not CAs of a rotation. What the Talos machinery library does with a bundle is the record
  \<open>bundle_lib\<close>; what \<open>secrets.NewBundle\<close> draws is an argument.
\<close>

record other_certs =
  oc_etcd :: "pem_pair option"
  oc_serviceAccount :: "string option"      \<comment> \<open>the signing key\<close>

record full_bundle = talos_bundle +
  fb_clusterSecret :: string
  fb_secrets :: "string option"
  fb_trustdInfo :: "string option"
  fb_certs :: "other_certs option"

record bundle_lib =
  bl_valid :: "full_bundle \<Rightarrow> bool"                 \<comment> \<open>\<open>Bundle.Validate\<close>\<close>
  bl_marshal :: "full_bundle \<Rightarrow> string option"      \<comment> \<open>\<open>yaml.Marshal\<close>\<close>
  bl_unmarshal :: "string \<Rightarrow> full_bundle option"    \<comment> \<open>\<open>yaml.Unmarshal\<close>\<close>

text \<open>What is written can be read back, and is not empty.\<close>

definition bundle_yaml_law :: "bundle_lib \<Rightarrow> bool" where
  "bundle_yaml_law B \<longleftrightarrow> (\<forall>b e. bl_marshal B b = Some e \<longrightarrow> e \<noteq> [] \<and> bl_unmarshal B e = Some b)"

definition encode_bundle :: "bundle_lib \<Rightarrow> full_bundle \<Rightarrow> (string, string) gomap option" where
  "encode_bundle B bundle =
     (if \<not> bl_valid B bundle then None
      else map_option (\<lambda>encoded. [(BundleDataKey, encoded)]) (bl_marshal B bundle))"

text \<open>A new bundle has its \<open>Cluster\<close> set; only the ID in it is replaced.\<close>

definition GenerateBundleData :: "bundle_lib \<Rightarrow> full_bundle option \<Rightarrow> ClusterID \<Rightarrow> (string, string) gomap option" where
  "GenerateBundleData B drawn clusterID =
     (if ClusterID_IsZero clusterID then None
      else case drawn of None \<Rightarrow> None
      | Some bundle \<Rightarrow> encode_bundle B (bundle\<lparr>tb_clusterID := Some (ClusterID_String clusterID)\<rparr>))"

definition rotated_bundle :: "full_bundle \<Rightarrow> full_bundle \<Rightarrow> ClusterID \<Rightarrow> full_bundle" where
  "rotated_bundle drawn previous clusterID =
     drawn\<lparr>tb_clusterID := Some (ClusterID_String clusterID), fb_clusterSecret := fb_clusterSecret previous,
            fb_secrets := fb_secrets previous, fb_trustdInfo := fb_trustdInfo previous, fb_certs := fb_certs previous\<rparr>"

definition GenerateRotatedBundleData ::
  "bundle_lib \<Rightarrow> full_bundle option \<Rightarrow> ClusterID \<Rightarrow> full_bundle \<Rightarrow> (string, string) gomap option" where
  "GenerateRotatedBundleData B drawn clusterID previous =
     (if ClusterID_IsZero clusterID \<or> tb_clusterID previous = None \<or> fb_secrets previous = None \<or>
         fb_trustdInfo previous = None \<or> fb_certs previous = None then None
      else case drawn of None \<Rightarrow> None
      | Some new \<Rightarrow> encode_bundle B (rotated_bundle new previous clusterID))"

definition ValidateBundleData :: "bundle_lib \<Rightarrow> (string, string) gomap \<Rightarrow> ClusterID \<Rightarrow> bool" where
  "ValidateBundleData B data clusterID \<longleftrightarrow> DecodeBundleData (bl_unmarshal B) (bl_valid B) data clusterID \<noteq> None"

lemma decode_encoded_bundle:
  assumes "bundle_yaml_law B" "encode_bundle B b = Some data" "tb_clusterID b = Some (ClusterID_String i)" "\<not> ClusterID_IsZero i"
  shows "DecodeBundleData (bl_unmarshal B) (bl_valid B) data i = Some b"
  using assms by (auto simp: encode_bundle_def DecodeBundleData_def bundle_yaml_law_def split: if_splits)

lemma generated_bundle_decodes:
  assumes "bundle_yaml_law B" "GenerateBundleData B drawn i = Some data"
  shows "\<exists>b. drawn = Some b \<and> DecodeBundleData (bl_unmarshal B) (bl_valid B) data i = Some (b\<lparr>tb_clusterID := Some (ClusterID_String i)\<rparr>)"
  using assms decode_encoded_bundle[OF assms(1)]
  by (auto simp: GenerateBundleData_def split: if_splits option.splits)

lemma rotated_bundle_decodes:
  assumes "bundle_yaml_law B" "GenerateRotatedBundleData B drawn i previous = Some data"
  shows "\<exists>b. drawn = Some b \<and> DecodeBundleData (bl_unmarshal B) (bl_valid B) data i = Some (rotated_bundle b previous i)"
  using assms decode_encoded_bundle[OF assms(1)]
  by (auto simp: GenerateRotatedBundleData_def rotated_bundle_def split: if_splits option.splits)

lemma generated_data_complete:
  assumes "bundle_yaml_law B" "GenerateBundleData B drawn i = Some data \<or> GenerateRotatedBundleData B drawn i previous = Some data"
  shows "ValidateBundleData B data i" "is_ok (cloneCompleteData data)"
proof -
  show v: "ValidateBundleData B data i"
    using assms generated_bundle_decodes[OF assms(1)] rotated_bundle_decodes[OF assms(1)] by (fastforce simp: ValidateBundleData_def)
  from assms have "\<exists>e. data = [(BundleDataKey, e)] \<and> e \<noteq> []"
    by (auto simp: GenerateBundleData_def GenerateRotatedBundleData_def encode_bundle_def bundle_yaml_law_def split: if_splits option.splits)
  then show "is_ok (cloneCompleteData data)" by (auto simp: cloneCompleteData_def BundleDataKey_def)
qed

end
