(* ===== verification/ControlPlaneEnv.thy ===== *)
theory ControlPlaneEnv
  imports MachineEnv Quorum
begin

section \<open>The TartControlPlane reconciler: objects and environment\<close>

text \<open>
  The types of \<open>api/controlplane/v1alpha1\<close> and of the two templates, and the outside world of
  \<open>controller/tartcontrolplane\<close>: what the reconciler does is a trace of \<open>cp_event\<close>s, what it
  sees is the record \<open>cp_env\<close>, arbitrary functions of that trace. The reads it shares with
  the TartMachine reconciler (the objects of the API server, the bootstrap configuration of a
  machine) go through \<open>ce_tm\<close>, which gives the environment of that reconciler at a trace.
  Closing a connection, logging and the events sent to the Kubernetes API are not modelled.
\<close>

subsection \<open>Objects\<close>

record TartControlPlaneMachineTemplateSpec =
  kmt_labels :: "(string, string) gomap"
  kmt_annotations :: "(string, string) gomap"
  kmt_infrastructureRef :: contract_ref
  kmt_readinessGates :: "readiness_gate list option"
  kmt_taints :: "machine_taint list option"
  kmt_deletion :: machine_deletion

record TartControlPlaneSpec =
  ks_version :: string
  ks_replicas :: "int option"
  ks_machineTemplate :: TartControlPlaneMachineTemplateSpec
  ks_bootstrapConfigTemplateRef :: contract_ref

record TartControlPlaneStatus =
  kst_controlPlaneInitialized :: "bool option"
  kst_versions :: "(string \<times> int) list"
  kst_selector :: string
  kst_replicas :: "int option"
  kst_readyReplicas :: "int option"
  kst_availableReplicas :: "int option"
  kst_upToDateReplicas :: "int option"
  kst_targetVersion :: string
  kst_observedVersion :: string
  kst_observedGeneration :: int
  kst_conditions :: "condition list"

record TartControlPlane =
  k_meta :: object_meta
  k_spec :: TartControlPlaneSpec
  k_status :: TartControlPlaneStatus

text \<open>A template: the metadata and the fields its objects get.\<close>

record TartMachineTemplate =
  mtpl_labels :: "(string, string) gomap"
  mtpl_hostSelector :: "HostSelector option"
  mtpl_image :: TalosImageSpec

record TartBootstrapConfigTemplate =
  btpl_labels :: "(string, string) gomap"
  btpl_spec :: TartBootstrapConfigSpec

definition TartControlPlaneKind :: string where "TartControlPlaneKind = ''TartControlPlane''"
definition controlplane_group_version :: string where
  "controlplane_group_version = ''controlplane.cluster.x-k8s.io/v1alpha1''"

definition controlPlaneOrdinalLabel :: string where
  "controlPlaneOrdinalLabel = ''tart.cluster.x-k8s.io/control-plane-index''"
definition controlPlaneEtcdMemberID :: string where
  "controlPlaneEtcdMemberID = ''tart.cluster.x-k8s.io/etcd-member-id''"
definition controlPlaneScaleDownRequeue :: duration where "controlPlaneScaleDownRequeue = 30 * second"
definition reasonMachineUnavailable :: string where "reasonMachineUnavailable = ''MachineUnavailable''"
definition ReasonClusterUnavailable :: string where "ReasonClusterUnavailable = ''ClusterUnavailable''"
definition ReasonSecretBundleUnavailable :: string where "ReasonSecretBundleUnavailable = ''SecretBundleUnavailable''"
definition ReasonMachineNameInvalid :: string where "ReasonMachineNameInvalid = ''MachineNameInvalid''"
definition ReasonMachineSpecMismatch :: string where "ReasonMachineSpecMismatch = ''MachineSpecMismatch''"
definition ReasonWorkloadAPIUnavailable :: string where "ReasonWorkloadAPIUnavailable = ''WorkloadAPIUnavailable''"

text \<open>Constants and helpers of Cluster API and apimachinery that only this reconciler uses.\<close>

record cp_lib =
  kp_control_plane_name_label :: string     \<comment> \<open>\<open>clusterv1.MachineControlPlaneNameLabel\<close>\<close>
  kp_delete_hook_prefix :: string           \<comment> \<open>\<open>clusterv1.PreTerminateDeleteHookAnnotationPrefix\<close>\<close>
  kp_waiting_for_hook :: string             \<comment> \<open>\<open>MachineDeletingWaitingForPreTerminateHookReason\<close>\<close>
  kp_machine_available :: string            \<comment> \<open>\<open>clusterv1.MachineAvailableCondition\<close>\<close>
  kp_machine_up_to_date :: string           \<comment> \<open>\<open>clusterv1.MachineUpToDateCondition\<close>\<close>
  kp_skip_remediation :: string             \<comment> \<open>\<open>clusterv1.MachineSkipRemediationAnnotation\<close>\<close>
  kp_selector_string :: "(string, string) gomap \<Rightarrow> string"  \<comment> \<open>\<open>labels.SelectorFromSet(_).String()\<close>\<close>
  kp_endpoint_valid :: "string \<Rightarrow> int \<Rightarrow> bool"          \<comment> \<open>\<open>APIEndpoint.IsValid\<close>\<close>
  kp_endpoint_string :: "string \<Rightarrow> int \<Rightarrow> string"       \<comment> \<open>\<open>APIEndpoint.String\<close>\<close>

definition controlPlaneEtcdDeleteHook :: "cp_lib \<Rightarrow> string" where
  "controlPlaneEtcdDeleteHook K = kp_delete_hook_prefix K @ ''/tart-etcd-member''"

definition ControlPlaneEtcdDeleteHookValue :: string where "ControlPlaneEtcdDeleteHookValue = ''true''"

subsection \<open>Errors\<close>

text \<open>\<open>CpPending\<close> is a \<open>scaleDownPendingError\<close>, whose cause only goes to its text.\<close>

datatype cp_error =
    CpFailure (cp_reason: string) (cp_message: string)    \<comment> \<open>\<open>controlPlaneFailure\<close>\<close>
  | CpScaleDownPending                                    \<comment> \<open>\<open>errControlPlaneScaleDownPending\<close>\<close>
  | CpPending string string
  | CpOwnership OwnershipFailure
  | CpApi api_error
  | CpOther

subsection \<open>Requests and the environment\<close>

datatype cp_auth = CpConfiguration string | CpBundle talos_bundle

datatype cp_rpc =
    CpEtcdStatus | CpEtcdMembers | CpRemoveEtcdMember "64 word"
  | CpBootstrap | CpKubeconfig | CpVersion | CpActiveConfiguration
  | CpApplyConfiguration string | CpReboot
  | CpDetectKubernetesVersion string             \<comment> \<open>control-plane endpoint\<close>
  | CpUpgradeKubernetes string string string     \<comment> \<open>from, to, control-plane endpoint\<close>

datatype cp_event =
    CpStatusPatch TartControlPlane
  | CpMachineCreate capi_machine
  | CpMachinePatch capi_machine
  | CpMachineDelete capi_machine
  | CpTartMachineCreate TartMachine
  | CpTartMachinePatch TartMachine
  | CpBootstrapCreate TartBootstrapConfig
  | CpBootstrapPatch TartBootstrapConfig
  | CpSecretCreate Secret
  | CpSecretPatch Secret
  | CpClusterStatusPatch TartCluster
  | CpLeaseCreate Lease
  | CpLeaseUpdate Lease
  | CpDial string cp_auth
  | CpRpc string cp_auth cp_rpc
  | CpReadyz string string                       \<comment> \<open>kubeconfig and host of the workload API\<close>

record cp_env =
  ce_tm :: "cp_event list \<Rightarrow> tm_env"
  ce_list_machines :: "cp_event list \<Rightarrow> string \<Rightarrow> api_error + capi_machine list"  \<comment> \<open>of a namespace\<close>
  ce_list_control_planes :: "cp_event list \<Rightarrow> api_error + TartControlPlane list"
  ce_get_control_plane :: "cp_event list \<Rightarrow> string \<Rightarrow> string \<Rightarrow> api_error + TartControlPlane"
  ce_get_machine_template :: "cp_event list \<Rightarrow> string \<Rightarrow> string \<Rightarrow> api_error + TartMachineTemplate"
  ce_get_bootstrap_template :: "cp_event list \<Rightarrow> string \<Rightarrow> string \<Rightarrow> api_error + TartBootstrapConfigTemplate"
  ce_write :: "cp_event list \<Rightarrow> cp_event \<Rightarrow> api_error option"
  ce_dial :: "cp_event list \<Rightarrow> cp_event \<Rightarrow> bool"                              \<comment> \<open>succeeds\<close>
  ce_rpc :: "cp_event list \<Rightarrow> cp_event \<Rightarrow> rpc_error option"
  ce_text :: "cp_event list \<Rightarrow> cp_event \<Rightarrow> rpc_error + string"
  ce_etcd_status :: "cp_event list \<Rightarrow> cp_event \<Rightarrow> rpc_error + EtcdStatus"
  ce_etcd_members :: "cp_event list \<Rightarrow> cp_event \<Rightarrow> rpc_error + EtcdMember list"
  ce_bootstrap_exists :: "cp_event list \<Rightarrow> cp_event \<Rightarrow> bool"   \<comment> \<open>a failed bootstrap has code \<open>AlreadyExists\<close>\<close>
  ce_readyz :: "cp_event list \<Rightarrow> cp_event \<Rightarrow> bool"
  ce_kubeconfig_host :: "string \<Rightarrow> string option"     \<comment> \<open>\<open>clientcmd.RESTConfigFromKubeConfig\<close>: the host in it\<close>
  ce_identity :: string                                   \<comment> \<open>\<open>upgradeHolderIdentity\<close>\<close>

type_synonym 'a cp = "(cp_event, 'a) io"

definition cp_write :: "cp_env \<Rightarrow> cp_event \<Rightarrow> api_error option cp" where
  "cp_write E e = call e (\<lambda>tr. ce_write E tr e)"

definition cp_rpc :: "cp_env \<Rightarrow> string \<Rightarrow> cp_auth \<Rightarrow> cp_rpc \<Rightarrow> rpc_error option cp" where
  "cp_rpc E endpoint auth r = call (CpRpc endpoint auth r) (\<lambda>tr. ce_rpc E tr (CpRpc endpoint auth r))"

definition cp_text :: "cp_env \<Rightarrow> string \<Rightarrow> cp_auth \<Rightarrow> cp_rpc \<Rightarrow> (rpc_error + string) cp" where
  "cp_text E endpoint auth r = call (CpRpc endpoint auth r) (\<lambda>tr. ce_text E tr (CpRpc endpoint auth r))"

definition cp_dial :: "cp_env \<Rightarrow> string \<Rightarrow> cp_auth \<Rightarrow> bool cp" where
  "cp_dial E endpoint auth = call (CpDial endpoint auth) (\<lambda>tr. ce_dial E tr (CpDial endpoint auth))"

text \<open>A read that the TartMachine reconciler has, at the trace of this one.\<close>

definition cp_read :: "cp_env \<Rightarrow> (tm_env \<Rightarrow> 'a tm) \<Rightarrow> 'a cp" where
  "cp_read E m = query (\<lambda>tr. fst (run_state (m (ce_tm E tr)) []))"

definition cp_get :: "cp_env \<Rightarrow> (tm_env \<Rightarrow> 'a) \<Rightarrow> 'a cp" where
  "cp_get E f = query (\<lambda>tr. f (ce_tm E tr))"

lemma emits_cp_get [emit_rules]: "emits (cp_get E f) S"
  by (simp add: cp_get_def emits_query)

lemma emits_cp_write [emit_rules]: "e \<in> S \<Longrightarrow> emits (cp_write E e) S"
  by (simp add: cp_write_def emits_call)

lemma emits_cp_rpc [emit_rules]: "CpRpc ep a r \<in> S \<Longrightarrow> emits (cp_rpc E ep a r) S"
  by (simp add: cp_rpc_def emits_call)

lemma emits_cp_text [emit_rules]: "CpRpc ep a r \<in> S \<Longrightarrow> emits (cp_text E ep a r) S"
  by (simp add: cp_text_def emits_call)

lemma emits_cp_dial [emit_rules]: "CpDial ep a \<in> S \<Longrightarrow> emits (cp_dial E ep a) S"
  by (simp add: cp_dial_def emits_call)

lemma emits_cp_read [emit_rules]: "emits (cp_read E m) S"
  by (simp add: cp_read_def emits_query)

subsection \<open>What a pass leaves alone\<close>

text \<open>Which events change a cluster: every one that is not a read or a connection.\<close>

fun cp_observes :: "cp_event \<Rightarrow> bool" where
  "cp_observes (CpDial _ _) = True"
| "cp_observes (CpReadyz _ _) = True"
| "cp_observes (CpRpc _ _ r) = (r \<in> {CpEtcdStatus, CpEtcdMembers, CpKubeconfig, CpVersion, CpActiveConfiguration} \<or>
     (\<exists>ep. r = CpDetectKubernetesVersion ep))"
| "cp_observes _ = False"

definition only_observes :: "'a cp \<Rightarrow> bool" where
  "only_observes m \<longleftrightarrow> emits m {e. cp_observes e}"

lemma only_observesD: "only_observes m \<Longrightarrow> run_state m tr = (x, tr') \<Longrightarrow> \<exists>new. tr' = tr @ new \<and> list_all cp_observes new"
  unfolding only_observes_def by (drule (1) emitsD) (auto simp: list_all_iff)

end
