(* ===== verification/EtcdRemoval.thy ===== *)
theory EtcdRemoval
  imports ControlPlaneEnv
begin

section \<open>Scaling a control plane down\<close>

text \<open>
  \<open>controller/tartcontrolplane/etcd.go\<close>: the machine with the highest ordinal is deleted
  with a pre-terminate hook, its etcd member is removed when that keeps the quorum, and the
  hook goes when a survivor no longer lists the member. The second half states when a member
  can be removed and what becomes of a removal that was refused once.
\<close>

definition compareControlPlaneMachineOrder :: "capi_machine \<Rightarrow> capi_machine \<Rightarrow> int" where
  "compareControlPlaneMachineOrder left right =
     (let ordinal = (\<lambda>m. parse_int 32 (map_get (mt_labels (cm_meta m)) controlPlaneOrdinalLabel));
          name = (\<lambda>m. mt_name (cm_meta m));
          by_name = (if name right < name left then -1 else if name left < name right then 1 else 0)
      in case (ordinal left, ordinal right) of
           (Some l, Some r) \<Rightarrow> if l \<noteq> r then r - l else by_name
         | _ \<Rightarrow> by_name)"

definition order_machines :: "capi_machine list \<Rightarrow> capi_machine list" where
  "order_machines = sort_by (\<lambda>l r. compareControlPlaneMachineOrder l r \<le> 0)"

definition set_annotation :: "string \<Rightarrow> string \<Rightarrow> capi_machine \<Rightarrow> capi_machine" where
  "set_annotation key v machine =
     machine\<lparr>cm_meta := (cm_meta machine)\<lparr>mt_annotations := AList.update key v (mt_annotations (cm_meta machine))\<rparr>\<rparr>"

definition ensureEtcdDeleteHook :: "cp_lib \<Rightarrow> cp_env \<Rightarrow> capi_machine \<Rightarrow> cp_error option cp" where
  "ensureEtcdDeleteHook K E machine =
     (if map_get (mt_annotations (cm_meta machine)) (controlPlaneEtcdDeleteHook K) = ControlPlaneEtcdDeleteHookValue
      then State_Monad.return None
      else do {
        err \<leftarrow> cp_write E (CpMachinePatch (set_annotation (controlPlaneEtcdDeleteHook K) ControlPlaneEtcdDeleteHookValue machine));
        State_Monad.return (map_option CpApi err)
      })"

record etcdMachineObservation =
  eo_machine :: capi_machine
  eo_host :: TartHost
  eo_config :: string
  eo_status :: EtcdStatus

definition etcdStatusHealthy :: "EtcdStatus \<Rightarrow> bool" where
  "etcdStatusHealthy status \<longleftrightarrow> es_memberID status \<noteq> 0 \<and> es_leader status \<noteq> 0 \<and> length (es_errors status) = 0"

definition machineWaitingForPreTerminateHook :: "k8s_lib \<Rightarrow> cp_lib \<Rightarrow> capi_machine \<Rightarrow> bool" where
  "machineWaitingForPreTerminateHook L K machine \<longleftrightarrow>
     mt_deletionTimestamp (cm_meta machine) \<noteq> None \<and>
     (case lib_find_condition L (cm_conditions machine) (lib_machine_deleting_condition L) of
        None \<Rightarrow> False
      | Some c \<Rightarrow> cond_status c = ConditionTrue \<and> cond_reason c = kp_waiting_for_hook K)"

text \<open>\<open>None\<close> is an error; no caller looks at which.\<close>

definition observeMachineIdentity :: "k8s_lib \<Rightarrow> cp_env \<Rightarrow> capi_machine \<Rightarrow> (TartHost \<times> string) option cp" where
  "observeMachineIdentity L E machine =
     (let ref = cm_infrastructureRef machine; ns = mt_namespace (cm_meta machine)
      in if cr_apiGroup ref \<noteq> infra_group \<or> cr_kind ref \<noteq> TartMachineKind \<or> cr_name ref = []
         then State_Monad.return None
         else do {
           found \<leftarrow> cp_get E (\<lambda>T. te_get_tart_machine T [] ns (cr_name ref));
           (case found of
              Inl _ \<Rightarrow> State_Monad.return None
            | Inr provider \<Rightarrow>
                if ValidateProviderOwner (m_meta provider) (cm_meta machine) (lib_capi_group_version L) CAPIMachineKind \<noteq> None
                then State_Monad.return None
                else (case mst_hostRef (m_status provider) of
                  None \<Rightarrow> State_Monad.return None
                | Some hostName \<Rightarrow>
                    if hostName = [] then State_Monad.return None
                    else do {
                      foundHost \<leftarrow> cp_get E (\<lambda>T. te_get_host T [] hostName);
                      (case foundHost of
                         Inl _ \<Rightarrow> State_Monad.return None
                       | Inr hostObject \<Rightarrow>
                           if (case hs_consumerRef (h_spec hostObject) of
                                 None \<Rightarrow> True | Some c \<Rightarrow> ref_uid c \<noteq> mt_uid (m_meta provider))
                           then State_Monad.return None
                           else if HostTalosEndpoint hostObject = [] then State_Monad.return None
                           else do {
                             boot \<leftarrow> cp_read E (\<lambda>T. BootstrapConfiguration L T provider);
                             State_Monad.return
                               (case boot of Inl _ \<Rightarrow> None | Inr configuration \<Rightarrow> Some (hostObject, configuration))
                           })
                    }))
         })"

definition dialAuthenticated :: "cp_env \<Rightarrow> TartHost \<Rightarrow> string \<Rightarrow> bool cp" where
  "dialAuthenticated E h configuration = cp_dial E (HostTalosEndpoint h) (CpConfiguration configuration)"

definition rpc_of :: "TartHost \<Rightarrow> string \<Rightarrow> cp_rpc \<Rightarrow> cp_event" where
  "rpc_of h configuration r = CpRpc (HostTalosEndpoint h) (CpConfiguration configuration) r"

definition observeEtcdStatus :: "cp_env \<Rightarrow> TartHost \<Rightarrow> string \<Rightarrow> EtcdStatus option cp" where
  "observeEtcdStatus E h configuration = do {
     ok \<leftarrow> dialAuthenticated E h configuration;
     (if \<not> ok then State_Monad.return None
      else do {
        status \<leftarrow> call (rpc_of h configuration CpEtcdStatus) (\<lambda>tr. ce_etcd_status E tr (rpc_of h configuration CpEtcdStatus));
        State_Monad.return (case status of Inl _ \<Rightarrow> None | Inr s \<Rightarrow> Some s)
      })
   }"

definition observeEtcdMembersFromConfiguration :: "cp_env \<Rightarrow> TartHost \<Rightarrow> string \<Rightarrow> EtcdMember list option cp" where
  "observeEtcdMembersFromConfiguration E h configuration = do {
     ok \<leftarrow> dialAuthenticated E h configuration;
     (if \<not> ok then State_Monad.return None
      else do {
        members \<leftarrow> call (rpc_of h configuration CpEtcdMembers) (\<lambda>tr. ce_etcd_members E tr (rpc_of h configuration CpEtcdMembers));
        State_Monad.return (case members of Inl _ \<Rightarrow> None | Inr ms \<Rightarrow> Some ms)
      })
   }"

definition observeEtcdMembers :: "k8s_lib \<Rightarrow> cp_env \<Rightarrow> capi_machine \<Rightarrow> EtcdMember list option cp" where
  "observeEtcdMembers L E machine = do {
     identity \<leftarrow> observeMachineIdentity L E machine;
     (case identity of None \<Rightarrow> State_Monad.return None
      | Some (h, configuration) \<Rightarrow> observeEtcdMembersFromConfiguration E h configuration)
   }"

fun observeEtcdMachineObservations :: "k8s_lib \<Rightarrow> cp_env \<Rightarrow> capi_machine list \<Rightarrow> etcdMachineObservation list option cp" where
  "observeEtcdMachineObservations L E [] = State_Monad.return (Some [])"
| "observeEtcdMachineObservations L E (machine # machines) = do {
     identity \<leftarrow> observeMachineIdentity L E machine;
     (case identity of
        None \<Rightarrow> State_Monad.return None
      | Some (h, configuration) \<Rightarrow> do {
          status \<leftarrow> observeEtcdStatus E h configuration;
          (case status of
             None \<Rightarrow> State_Monad.return None
           | Some s \<Rightarrow>
               if es_memberID s = 0 then State_Monad.return None
               else do {
                 rest \<leftarrow> observeEtcdMachineObservations L E machines;
                 State_Monad.return (map_option (Cons
                   \<lparr>eo_machine = machine, eo_host = h, eo_config = configuration, eo_status = s\<rparr>) rest)
               })
        })
   }"

fun summarize_loop ::
  "etcdMachineObservation list \<Rightarrow> string \<Rightarrow> etcdMachineObservation option \<Rightarrow> 64 word list \<Rightarrow> int \<Rightarrow>
   etcdMachineObservation option \<times> int \<times> bool" where
  "summarize_loop [] targetUID target memberIDs healthy = (target, healthy, True)"
| "summarize_loop (ob # obs) targetUID target memberIDs healthy =
     (if es_memberID (eo_status ob) \<in> set memberIDs then (None, 0, False)
      else summarize_loop obs targetUID
        (if mt_uid (cm_meta (eo_machine ob)) = targetUID then Some ob else target)
        (es_memberID (eo_status ob) # memberIDs)
        (if etcdStatusHealthy (eo_status ob) then healthy + 1 else healthy))"

definition summarizeEtcdObservations ::
  "etcdMachineObservation list \<Rightarrow> string \<Rightarrow> etcdMachineObservation option \<times> int \<times> bool" where
  "summarizeEtcdObservations observations targetUID = summarize_loop observations targetUID None [] 0"

definition containsEtcdMember :: "EtcdMember list \<Rightarrow> 64 word \<Rightarrow> bool" where
  "containsEtcdMember members memberID = list_ex (\<lambda>m. em_id m = memberID) members"

definition allEtcdMembersAreVoting :: "EtcdMember list \<Rightarrow> bool" where
  "allEtcdMembersAreVoting members = list_all (\<lambda>m. \<not> em_learner m) members"

definition canRemoveObservedEtcdMember ::
  "EtcdMember list \<Rightarrow> etcdMachineObservation list \<Rightarrow> 64 word \<Rightarrow> int \<Rightarrow> etcdMachineObservation \<Rightarrow> bool" where
  "canRemoveObservedEtcdMember members observations memberID healthyMembers target =
     (if length members \<noteq> length observations \<or> \<not> containsEtcdMember members memberID \<or> \<not> allEtcdMembersAreVoting members
      then False
      else if \<not> list_all (\<lambda>ob. containsEtcdMember members (es_memberID (eo_status ob))) observations then False
      else CanRemoveMember
        \<lparr>obs_memberCount = int (length members), obs_healthyMemberCount = healthyMembers,
         obs_targetHealthy = etcdStatusHealthy (eo_status target), obs_targetHealthObserved = True\<rparr>)"

definition removeObservedEtcdMember ::
  "cp_env \<Rightarrow> etcdMachineObservation \<Rightarrow> 64 word \<Rightarrow> (bool \<times> cp_error option) cp" where
  "removeObservedEtcdMember E survivor memberID = do {
     ok \<leftarrow> dialAuthenticated E (eo_host survivor) (eo_config survivor);
     (if \<not> ok
      then State_Monad.return (True, Some (CpPending ''EtcdSurvivorUnavailable''
        ''A surviving control-plane member could not be authenticated for etcd removal.''))
      else do {
        err \<leftarrow> cp_rpc E (HostTalosEndpoint (eo_host survivor)) (CpConfiguration (eo_config survivor)) (CpRemoveEtcdMember memberID);
        State_Monad.return (True, map_option (\<lambda>_. CpPending ''EtcdMemberRemovalFailed''
          ''The etcd member removal request did not complete successfully.'') err)
      })
   }"

definition annotateEtcdMemberID :: "cp_env \<Rightarrow> capi_machine \<Rightarrow> 64 word \<Rightarrow> cp_error option cp" where
  "annotateEtcdMemberID E machine memberID = do {
     err \<leftarrow> cp_write E (CpMachinePatch (set_annotation controlPlaneEtcdMemberID (format_uint (unat memberID)) machine));
     State_Monad.return (map_option CpApi err)
   }"

definition firstControlPlaneSurvivor :: "capi_machine list \<Rightarrow> string \<Rightarrow> capi_machine option" where
  "firstControlPlaneSurvivor machines targetUID =
     find (\<lambda>m. mt_uid (cm_meta m) \<noteq> targetUID \<and> mt_deletionTimestamp (cm_meta m) = None) machines"

definition firstEtcdObservation :: "etcdMachineObservation list \<Rightarrow> string \<Rightarrow> etcdMachineObservation option" where
  "firstEtcdObservation observations targetUID =
     find (\<lambda>ob. mt_uid (cm_meta (eo_machine ob)) \<noteq> targetUID) observations"

definition drop_hook :: "cp_lib \<Rightarrow> capi_machine \<Rightarrow> capi_machine" where
  "drop_hook K machine =
     machine\<lparr>cm_meta := (cm_meta machine)\<lparr>mt_annotations :=
       AList.delete controlPlaneEtcdMemberID (AList.delete (controlPlaneEtcdDeleteHook K) (mt_annotations (cm_meta machine)))\<rparr>\<rparr>"

definition removeEtcdDeleteHook :: "cp_lib \<Rightarrow> cp_env \<Rightarrow> capi_machine \<Rightarrow> (bool \<times> cp_error option) cp" where
  "removeEtcdDeleteHook K E machine = do {
     err \<leftarrow> cp_write E (CpMachinePatch (drop_hook K machine));
     State_Monad.return (case err of Some e \<Rightarrow> (True, Some (CpApi e)) | None \<Rightarrow> (False, None))
   }"

text \<open>The annotated ID, whether there is one, the result, the error.\<close>

definition reconcileAnnotatedEtcdMember ::
  "k8s_lib \<Rightarrow> cp_lib \<Rightarrow> cp_env \<Rightarrow> capi_machine \<Rightarrow> capi_machine list \<Rightarrow> (string \<times> bool \<times> bool \<times> cp_error option) cp" where
  "reconcileAnnotatedEtcdMember L K E target machines =
     (case map_of (mt_annotations (cm_meta target)) controlPlaneEtcdMemberID of
        None \<Rightarrow> State_Monad.return ([], False, False, None)
      | Some annotatedID \<Rightarrow>
          (case parse_uint 64 annotatedID of
             None \<Rightarrow> State_Monad.return (annotatedID, True, False, Some (CpFailure ''EtcdMemberIdentityInvalid''
               ''The deleting control-plane Machine has an invalid etcd member identity annotation.''))
           | Some memberID \<Rightarrow>
               if memberID = 0
               then State_Monad.return (annotatedID, True, False, Some (CpFailure ''EtcdMemberIdentityInvalid''
                 ''The deleting control-plane Machine has an invalid etcd member identity annotation.''))
               else (case firstControlPlaneSurvivor machines (mt_uid (cm_meta target)) of
                 None \<Rightarrow> State_Monad.return (annotatedID, True, True, None)
               | Some survivor \<Rightarrow> do {
                   observed \<leftarrow> observeEtcdMembers L E survivor;
                   (case observed of
                      None \<Rightarrow> State_Monad.return (annotatedID, True, True, Some (CpPending ''EtcdObservationTransient''
                        ''Etcd membership observation is transient while the deleting Machine is waiting.''))
                    | Some members \<Rightarrow>
                        if \<not> containsEtcdMember members (of_nat memberID)
                        then do {
                          (result, removeErr) \<leftarrow> removeEtcdDeleteHook K E target;
                          State_Monad.return (annotatedID, True, result, removeErr)
                        }
                        else State_Monad.return (annotatedID, True, False, None))
                 })))"

text \<open>The removal of a member that is not annotated yet.\<close>

definition remove_fresh_member ::
  "k8s_lib \<Rightarrow> cp_env \<Rightarrow> capi_machine \<Rightarrow> string \<Rightarrow> bool \<Rightarrow> capi_machine list \<Rightarrow> (bool \<times> cp_error option) cp" where
  "remove_fresh_member L E target annotatedID annotated machines = do {
     observed \<leftarrow> observeEtcdMachineObservations L E machines;
     (case observed of
        None \<Rightarrow> State_Monad.return (True, None)
      | Some observations \<Rightarrow>
          (case summarizeEtcdObservations observations (mt_uid (cm_meta target)) of
             (targetObservation, healthyMembers, unique) \<Rightarrow>
               (case (if \<not> unique then None else targetObservation) of
                  None \<Rightarrow> State_Monad.return (True, None)
                | Some targetOb \<Rightarrow> do {
                    let memberID = es_memberID (eo_status targetOb);
                    err \<leftarrow> (if annotated
                      then State_Monad.return
                        (if parse_uint 64 annotatedID \<noteq> Some (unat memberID)
                         then Some (False, CpFailure ''EtcdMemberIdentityChanged''
                           ''The deleting control-plane Machine etcd member identity no longer matches Talos observation.'')
                         else None)
                      else do {
                        e \<leftarrow> annotateEtcdMemberID E target memberID;
                        State_Monad.return (map_option (Pair True) e)
                      });
                    (case err of
                       Some (result, e) \<Rightarrow> State_Monad.return (result, Some e)
                     | None \<Rightarrow>
                         (case firstEtcdObservation observations (mt_uid (cm_meta target)) of
                            None \<Rightarrow> State_Monad.return (True, None)
                          | Some survivor \<Rightarrow> do {
                              listed \<leftarrow> observeEtcdMembersFromConfiguration E (eo_host survivor) (eo_config survivor);
                              (case listed of
                                 None \<Rightarrow> State_Monad.return (True, Some (CpPending ''EtcdSurvivorUnavailable''
                                   ''A surviving control-plane member could not be observed.''))
                               | Some members \<Rightarrow>
                                   if \<not> canRemoveObservedEtcdMember members observations memberID healthyMembers targetOb
                                   then State_Monad.return (True, None)
                                   else removeObservedEtcdMember E survivor memberID)
                            }))
                  })))
   }"

definition reconcileEtcdMemberRemoval ::
  "k8s_lib \<Rightarrow> cp_lib \<Rightarrow> cp_env \<Rightarrow> capi_machine \<Rightarrow> capi_machine list \<Rightarrow> (bool \<times> cp_error option) cp" where
  "reconcileEtcdMemberRemoval L K E target machines =
     (if \<not> machineWaitingForPreTerminateHook L K target then State_Monad.return (True, None)
      else do {
        (annotatedID, annotated, handled, err) \<leftarrow> reconcileAnnotatedEtcdMember L K E target machines;
        if annotated \<or> err \<noteq> None then State_Monad.return (handled, err)
        else remove_fresh_member L E target annotatedID annotated machines
      })"

text \<open>\<open>int32(len(machines))\<close>: the list of a control plane is far below \<open>2 ^ 31\<close>.\<close>

definition reconcileScaleDown ::
  "k8s_lib \<Rightarrow> cp_lib \<Rightarrow> cp_env \<Rightarrow> capi_machine list \<Rightarrow> int \<Rightarrow> (bool \<times> cp_error option) cp" where
  "reconcileScaleDown L K E machines desired =
     (if int (length machines) \<le> desired then State_Monad.return (False, None)
      else
        (let candidates = filter (\<lambda>m. mt_deletionTimestamp (cm_meta m) = None) machines;
             deleting = filter (\<lambda>m. mt_deletionTimestamp (cm_meta m) \<noteq> None) machines
         in case order_machines deleting of
              target # _ \<Rightarrow>
                if map_get (mt_annotations (cm_meta target)) (controlPlaneEtcdDeleteHook K) \<noteq> ControlPlaneEtcdDeleteHookValue
                then do {
                  err \<leftarrow> ensureEtcdDeleteHook K E target;
                  State_Monad.return (case err of Some e \<Rightarrow> (False, Some e) | None \<Rightarrow> (True, None))
                }
                else reconcileEtcdMemberRemoval L K E target machines
            | [] \<Rightarrow>
                (case order_machines candidates of
                   [] \<Rightarrow> State_Monad.return (False, None)
                 | target # _ \<Rightarrow> do {
                     err \<leftarrow> ensureEtcdDeleteHook K E target;
                     (case err of
                        Some e \<Rightarrow> State_Monad.return (False, Some e)
                      | None \<Rightarrow> do {
                          derr \<leftarrow> cp_write E (CpMachineDelete target);
                          State_Monad.return
                            (case derr of
                               Some e \<Rightarrow> if e \<noteq> ApiNotFound then (False, Some (CpApi e)) else (True, None)
                             | None \<Rightarrow> (True, None))
                        })
                   })))"

subsection \<open>When a member is removed\<close>

lemma emits_observeMachineIdentity [emit_rules]: "emits (observeMachineIdentity L E machine) S"
  unfolding observeMachineIdentity_def Let_def by (intro emit_rules)

lemma emits_dialAuthenticated [emit_rules]:
  "CpDial (HostTalosEndpoint h) (CpConfiguration c) \<in> S \<Longrightarrow> emits (dialAuthenticated E h c) S"
  unfolding dialAuthenticated_def by (intro emit_rules)

lemma observing_etcd [emit_rules]:
  "emits (observeEtcdStatus E h c) {e. cp_observes e}"
  "emits (observeEtcdMembersFromConfiguration E h c) {e. cp_observes e}"
  unfolding observeEtcdStatus_def observeEtcdMembersFromConfiguration_def
  by (intro emit_rules; simp add: rpc_of_def)+

lemma observing_etcd_members [emit_rules]: "emits (observeEtcdMembers L E machine) {e. cp_observes e}"
  unfolding observeEtcdMembers_def by (intro emit_rules)

lemma observing_observations [emit_rules]:
  "emits (observeEtcdMachineObservations L E machines) {e. cp_observes e}"
  by (induction machines) (auto intro!: emit_rules)

text \<open>An observation is what the machine's own Talos answered, through the host that it is
  bound to.\<close>

definition member_observed :: "k8s_lib \<Rightarrow> cp_env \<Rightarrow> etcdMachineObservation \<Rightarrow> bool" where
  "member_observed L E ob \<longleftrightarrow>
     es_memberID (eo_status ob) \<noteq> 0 \<and>
     (\<exists>t. run_state (observeMachineIdentity L E (eo_machine ob)) t = (Some (eo_host ob, eo_config ob), t)) \<and>
     (\<exists>t. ce_etcd_status E t (rpc_of (eo_host ob) (eo_config ob) CpEtcdStatus) = Inr (eo_status ob))"

lemma observeMachineIdentity_reads: "\<exists>r. run_state (observeMachineIdentity L E machine) tr = (r, tr)"
  by (intro emits_nothing emits_observeMachineIdentity)

lemma observeEtcdStatus_Some:
  "run_state (observeEtcdStatus E h c) tr = (Some s, tr') \<Longrightarrow> \<exists>t. ce_etcd_status E t (rpc_of h c CpEtcdStatus) = Inr s"
  by (auto simp: observeEtcdStatus_def dialAuthenticated_def cp_dial_def split: if_splits sum.splits)

lemma observations_observed:
  "run_state (observeEtcdMachineObservations L E machines) tr = (Some obs, tr') \<Longrightarrow>
     map eo_machine obs = machines \<and> list_all (member_observed L E) obs"
proof (induction machines arbitrary: tr tr' obs)
  case (Cons m ms)
  obtain i where i: "run_state (observeMachineIdentity L E m) tr = (i, tr)"
    using observeMachineIdentity_reads by blast
  with Cons.prems obtain h c where hc: "i = Some (h, c)" by (cases i) auto
  obtain st t1 where st: "run_state (observeEtcdStatus E h c) tr = (st, t1)" by fastforce
  obtain rest t2 where rest: "run_state (observeEtcdMachineObservations L E ms) t1 = (rest, t2)" by fastforce
  from Cons.prems i hc st rest obtain s os where
    s: "st = Some s" "es_memberID s \<noteq> 0" "rest = Some os"
       "obs = \<lparr>eo_machine = m, eo_host = h, eo_config = c, eo_status = s\<rparr> # os"
    by (auto split: option.splits if_splits)
  have "map eo_machine os = ms \<and> list_all (member_observed L E) os"
    using Cons.IH rest s(3) by blast
  moreover have "\<exists>t. ce_etcd_status E t (rpc_of h c CpEtcdStatus) = Inr s"
    using observeEtcdStatus_Some st s(1) by blast
  ultimately show ?case using s(2,4) i hc
    by simp (auto simp: member_observed_def simp del: list.pred_set)
qed auto

abbreviation ob_id :: "etcdMachineObservation \<Rightarrow> 64 word" where
  "ob_id ob \<equiv> es_memberID (eo_status ob)"

lemma summarize_loop_unique:
  "summarize_loop obs uid target seen healthy = (t, h, True) \<Longrightarrow>
     distinct (map ob_id obs) \<and> set (map ob_id obs) \<inter> set seen = {} \<and>
     h = healthy + int (length (filter (\<lambda>ob. etcdStatusHealthy (eo_status ob)) obs)) \<and>
     (t = target \<or> (\<exists>ob \<in> set obs. t = Some ob \<and> mt_uid (cm_meta (eo_machine ob)) = uid))"
  by (induction obs uid target seen healthy rule: summarize_loop.induct)
     (auto split: if_splits)

lemma summarize_unique:
  assumes "summarizeEtcdObservations obs uid = (Some ob, h, True)"
  shows "distinct (map ob_id obs)" "h = int (card {ob_id o' |o'. o' \<in> set obs \<and> etcdStatusHealthy (eo_status o')})"
    "ob \<in> set obs" "mt_uid (cm_meta (eo_machine ob)) = uid"
proof -
  note l = summarize_loop_unique[OF assms[unfolded summarizeEtcdObservations_def]]
  then show "distinct (map ob_id obs)" "ob \<in> set obs" "mt_uid (cm_meta (eo_machine ob)) = uid" by auto
  have "{ob_id o' |o'. o' \<in> set obs \<and> etcdStatusHealthy (eo_status o')} =
      set (map ob_id (filter (\<lambda>ob. etcdStatusHealthy (eo_status ob)) obs))" by auto
  moreover have "distinct (map ob_id (filter (\<lambda>ob. etcdStatusHealthy (eo_status ob)) obs))"
    using l by (simp add: distinct_map_filter)
  ultimately show "h = int (card {ob_id o' |o'. o' \<in> set obs \<and> etcdStatusHealthy (eo_status o')})"
    using l distinct_card by fastforce
qed

text \<open>When the counts agree and every observed member is listed, the list is the observation.\<close>

lemma members_are_observed:
  assumes "distinct (map ob_id obs)" "length members = length obs"
    "list_all (\<lambda>ob. containsEtcdMember members (ob_id ob)) obs"
  shows "em_id ` set members = ob_id ` set obs"
proof -
  have sub: "ob_id ` set obs \<subseteq> em_id ` set members"
    using assms(3) by (auto simp: list_all_iff containsEtcdMember_def list_ex_iff) (metis imageI)
  have "card (em_id ` set members) \<le> length members"
    by (metis card_length length_map set_map)
  also have "\<dots> = card (ob_id ` set obs)"
    using assms(1,2) distinct_card by fastforce
  finally show ?thesis using card_seteq[OF _ sub] by simp
qed

definition quorum_safe_removal :: "etcdMachineObservation list \<Rightarrow> EtcdMember list \<Rightarrow> 64 word \<Rightarrow> bool" where
  "quorum_safe_removal obs members i \<longleftrightarrow>
     (let ids = ob_id ` set obs; healthy = {ob_id ob |ob. ob \<in> set obs \<and> etcdStatusHealthy (eo_status ob)}
      in distinct (map ob_id obs) \<and> em_id ` set members = ids \<and> (\<forall>m \<in> set members. \<not> em_learner m) \<and>
         i \<in> ids \<and> 1 < card ids \<and> majority healthy ids \<and> majority (healthy - {i}) (ids - {i}))"

lemma canRemove_quorum_safe:
  assumes can: "canRemoveObservedEtcdMember members obs (ob_id ob) h ob"
    and sum: "summarizeEtcdObservations obs uid = (Some ob, h, True)"
  shows "quorum_safe_removal obs members (ob_id ob)"
proof -
  note s = summarize_unique[OF sum]
  let ?healthy = "{ob_id o' |o'. o' \<in> set obs \<and> etcdStatusHealthy (eo_status o')}"
  have len: "length members = length obs" and voting: "allEtcdMembersAreVoting members"
    and listed: "list_all (\<lambda>ob. containsEtcdMember members (ob_id ob)) obs"
    using can by (auto simp: canRemoveObservedEtcdMember_def split: if_splits)
  have ids: "em_id ` set members = ob_id ` set obs"
    using s(1) len listed by (rule members_are_observed)
  have count: "card (ob_id ` set obs) = length obs"
    using s(1) distinct_card by fastforce
  have target: "ob_id ob \<in> ?healthy \<longleftrightarrow> etcdStatusHealthy (eo_status ob)"
    using s(1,3) by (auto simp: distinct_map inj_on_def)
  have "CanRemoveMember (observe (ob_id ` set obs) ?healthy (ob_id ob))"
    using can len s(2) count target by (simp add: canRemoveObservedEtcdMember_def observe_def split: if_splits)
  then show ?thesis
    using s(1,3) ids voting CanRemoveMember_iff[of "ob_id ` set obs" ?healthy "ob_id ob"]
    by (auto simp: quorum_safe_removal_def Let_def allEtcdMembersAreVoting_def list_all_iff)
qed

text \<open>A step that removes no member: whatever it did before, a removal comes later.\<close>

definition removes_none :: "cp_event list \<Rightarrow> bool" where
  "removes_none es \<longleftrightarrow> (\<forall>ep au i. CpRpc ep au (CpRemoveEtcdMember i) \<notin> set es)"

lemma removes_none_simps [simp]:
  "removes_none []" "removes_none (es @ fs) \<longleftrightarrow> removes_none es \<and> removes_none fs"
  "removes_none (e # es) \<longleftrightarrow> (\<forall>ep au i. e \<noteq> CpRpc ep au (CpRemoveEtcdMember i)) \<and> removes_none es"
  by (auto simp: removes_none_def)

lemma observed_removes_none: "list_all cp_observes es \<Longrightarrow> removes_none es"
  by (auto simp: removes_none_def list_all_iff)

lemma observing_step:
  assumes "run_state m tr = (x, tr')" "emits m {e. cp_observes e}"
  obtains es where "tr' = tr @ es" "removes_none es"
  using assms only_observesD[of m tr x tr'] observed_removes_none by (auto simp: only_observes_def)

lemma remove_fresh_removal:
  assumes run: "run_state (remove_fresh_member L E target aid False machines) tr = (r, tr @ new)"
    and removal: "CpRpc ep au (CpRemoveEtcdMember i) \<in> set new"
  shows "\<exists>obs ob members survivor t.
    map eo_machine obs = machines \<and> list_all (member_observed L E) obs \<and> ob \<in> set obs \<and>
    mt_uid (cm_meta (eo_machine ob)) = mt_uid (cm_meta target) \<and> i = ob_id ob \<and>
    survivor \<in> set obs \<and> mt_uid (cm_meta (eo_machine survivor)) \<noteq> mt_uid (cm_meta target) \<and>
    ce_etcd_members E t (rpc_of (eo_host survivor) (eo_config survivor) CpEtcdMembers) = Inr members \<and>
    quorum_safe_removal obs members i"
proof -
  obtain o1 t1 where o1: "run_state (observeEtcdMachineObservations L E machines) tr = (o1, t1)" by fastforce
  obtain es1 where es1: "t1 = tr @ es1" "removes_none es1"
    using observing_step[OF o1 observing_observations] .
  have "\<not> removes_none new" using removal by (auto simp: removes_none_def)
  with run o1 es1 obtain obs where obs: "o1 = Some obs"
    by (cases o1) (auto simp: remove_fresh_member_def)
  obtain tgt h u where sum: "summarizeEtcdObservations obs (mt_uid (cm_meta target)) = (tgt, h, u)"
    by (cases "summarizeEtcdObservations obs (mt_uid (cm_meta target))")
  with run o1 obs es1 \<open>\<not> removes_none new\<close> obtain ob where ob: "u" "tgt = Some ob"
    by (cases "if \<not> u then None else tgt") (auto simp: remove_fresh_member_def split: if_splits)
  let ?patch = "CpMachinePatch (set_annotation controlPlaneEtcdMemberID (format_uint (unat (ob_id ob))) target)"
  let ?t2 = "tr @ es1 @ [?patch]"
  have ann: "run_state (annotateEtcdMemberID E target (ob_id ob)) t1 = (map_option CpApi (ce_write E t1 ?patch), ?t2)"
    using es1 by (simp add: annotateEtcdMemberID_def cp_write_def)
  with run o1 obs sum ob es1 \<open>\<not> removes_none new\<close>
  obtain survivor where s: "firstEtcdObservation obs (mt_uid (cm_meta target)) = Some survivor"
    and wrote: "ce_write E t1 ?patch = None"
    by (cases "ce_write E t1 ?patch"; cases "firstEtcdObservation obs (mt_uid (cm_meta target))")
       (auto simp: remove_fresh_member_def Let_def)
  obtain ms t3 where ms: "run_state (observeEtcdMembersFromConfiguration E (eo_host survivor) (eo_config survivor)) ?t2 = (ms, t3)"
    by fastforce
  obtain es3 where es3: "t3 = ?t2 @ es3" "removes_none es3"
    using observing_step[OF ms observing_etcd(2)] .
  have rest: "(case ms of
        None \<Rightarrow> ((True, Some (CpPending ''EtcdSurvivorUnavailable'' ''A surviving control-plane member could not be observed.'')), t3)
      | Some members \<Rightarrow>
          if \<not> canRemoveObservedEtcdMember members obs (ob_id ob) h ob then ((True, None), t3)
          else run_state (removeObservedEtcdMember E survivor (ob_id ob)) t3) = (r, tr @ new)"
    using run o1 obs sum ob ann wrote s ms
    by (simp add: remove_fresh_member_def Let_def split: option.splits if_splits)
  with \<open>\<not> removes_none new\<close> es1 es3 obtain members where
    members: "ms = Some members" "canRemoveObservedEtcdMember members obs (ob_id ob) h ob"
    by (auto split: option.splits if_splits)
  with rest removal es1 es3 have i: "i = ob_id ob"
    by (auto simp: removeObservedEtcdMember_def dialAuthenticated_def cp_dial_def cp_rpc_def removes_none_def split: if_splits)
  have listed: "\<exists>t. ce_etcd_members E t (rpc_of (eo_host survivor) (eo_config survivor) CpEtcdMembers) = Inr members"
    using ms members
    by (auto simp: observeEtcdMembersFromConfiguration_def dialAuthenticated_def cp_dial_def split: if_splits sum.splits)
  have sum': "summarizeEtcdObservations obs (mt_uid (cm_meta target)) = (Some ob, h, True)" using sum ob by simp
  have sv: "survivor \<in> set obs" "mt_uid (cm_meta (eo_machine survivor)) \<noteq> mt_uid (cm_meta target)"
    using s by (auto simp: firstEtcdObservation_def find_Some_iff)
  show ?thesis
    using observations_observed[OF o1[unfolded obs]] summarize_unique(3,4)[OF sum'] i sv listed
      canRemove_quorum_safe[OF members(2) sum'] by blast
qed

subsection \<open>The whole scale-down\<close>

abbreviation no_removal :: "cp_event set" where
  "no_removal \<equiv> {e. \<forall>ep au i. e \<noteq> CpRpc ep au (CpRemoveEtcdMember i)}"

lemma observes_no_removal: "{e. cp_observes e} \<subseteq> no_removal"
  by auto

lemma emits_reconcileAnnotatedEtcdMember: "emits (reconcileAnnotatedEtcdMember L K E target machines) no_removal"
  unfolding reconcileAnnotatedEtcdMember_def removeEtcdDeleteHook_def
  by (intro emit_rules emits_mono[OF observing_etcd_members observes_no_removal]) simp_all

lemma annotated_result:
  assumes "run_state (reconcileAnnotatedEtcdMember L K E target machines) tr = ((aid, ann, h, err), tr')"
  shows "ann \<longleftrightarrow> map_of (mt_annotations (cm_meta target)) controlPlaneEtcdMemberID \<noteq> None"
    and "\<not> ann \<Longrightarrow> aid = [] \<and> err = None \<and> tr' = tr"
  using assms
  by (auto simp: reconcileAnnotatedEtcdMember_def split: option.splits if_splits prod.splits)

lemma order_machines_in: "order_machines ms = m # rest \<Longrightarrow> m \<in> set ms"
  using set_sort_by[of "\<lambda>l r. compareControlPlaneMachineOrder l r \<le> 0" ms] unfolding order_machines_def by auto

lemma emits_ensureEtcdDeleteHook:
  "CpMachinePatch (set_annotation (controlPlaneEtcdDeleteHook K) ControlPlaneEtcdDeleteHookValue machine) \<in> S \<Longrightarrow>
     emits (ensureEtcdDeleteHook K E machine) S"
  unfolding ensureEtcdDeleteHook_def by (intro emit_rules)

text \<open>The pass over a machine that is being deleted and has the hook; every other pass only
  puts the hook on, or deletes.\<close>

definition handles_removal :: "k8s_lib \<Rightarrow> cp_lib \<Rightarrow> capi_machine list \<Rightarrow> capi_machine \<Rightarrow> bool" where
  "handles_removal L K machines target \<longleftrightarrow>
     target \<in> set machines \<and> machineWaitingForPreTerminateHook L K target \<and>
     map_get (mt_annotations (cm_meta target)) (controlPlaneEtcdDeleteHook K) = ControlPlaneEtcdDeleteHookValue"

lemma scale_down_cases:
  assumes run: "run_state (reconcileScaleDown L K E machines desired) tr = (r, tr @ new)"
  obtains (hook) "set new \<subseteq> range CpMachineDelete \<union>
      range (\<lambda>m. CpMachinePatch (set_annotation (controlPlaneEtcdDeleteHook K) ControlPlaneEtcdDeleteHookValue m))"
  | (removal) target where "desired < int (length machines)" "handles_removal L K machines target"
      "run_state (reconcileEtcdMemberRemoval L K E target machines) tr = (r, tr @ new)"
proof -
  let ?S = "range CpMachineDelete \<union>
      range (\<lambda>m. CpMachinePatch (set_annotation (controlPlaneEtcdDeleteHook K) ControlPlaneEtcdDeleteHookValue m))"
  let ?deleting = "filter (\<lambda>m. mt_deletionTimestamp (cm_meta m) \<noteq> None) machines"
  show thesis
  proof (cases "\<exists>target rest. desired < int (length machines) \<and> order_machines ?deleting = target # rest \<and>
      map_get (mt_annotations (cm_meta target)) (controlPlaneEtcdDeleteHook K) = ControlPlaneEtcdDeleteHookValue")
    case True
    then obtain target rest where t: "desired < int (length machines)" "order_machines ?deleting = target # rest"
      "map_get (mt_annotations (cm_meta target)) (controlPlaneEtcdDeleteHook K) = ControlPlaneEtcdDeleteHookValue" by blast
    have run': "run_state (reconcileEtcdMemberRemoval L K E target machines) tr = (r, tr @ new)"
      using run t by (simp add: reconcileScaleDown_def)
    show thesis
    proof (cases "machineWaitingForPreTerminateHook L K target")
      case True
      then show thesis using removal t run' order_machines_in[OF t(2)] by (auto simp: handles_removal_def)
    next
      case False
      with run' have "new = []" by (simp add: reconcileEtcdMemberRemoval_def)
      then show thesis by (intro hook) simp
    qed
  next
    case False
    have "emits (reconcileScaleDown L K E machines desired) ?S"
    proof (cases "desired < int (length machines)")
      case True
      with False show ?thesis
        unfolding reconcileScaleDown_def Let_def
        by (cases "order_machines ?deleting"; cases "order_machines (filter (\<lambda>m. mt_deletionTimestamp (cm_meta m) = None) machines)")
           (auto intro!: emit_rules emits_ensureEtcdDeleteHook)
    qed (auto simp: reconcileScaleDown_def intro: emit_rules)
    then show thesis using run by (intro hook emits_new)
  qed
qed

lemma removal_from_scale_down:
  assumes run: "run_state (reconcileScaleDown L K E machines desired) tr = (r, tr @ new)"
    and removal: "CpRpc ep au (CpRemoveEtcdMember i) \<in> set new"
  shows "desired < int (length machines) \<and> (\<exists>target obs ob members survivor t.
    handles_removal L K machines target \<and> map_of (mt_annotations (cm_meta target)) controlPlaneEtcdMemberID = None \<and>
    map eo_machine obs = machines \<and> list_all (member_observed L E) obs \<and> ob \<in> set obs \<and>
    mt_uid (cm_meta (eo_machine ob)) = mt_uid (cm_meta target) \<and> i = ob_id ob \<and>
    survivor \<in> set obs \<and> mt_uid (cm_meta (eo_machine survivor)) \<noteq> mt_uid (cm_meta target) \<and>
    ce_etcd_members E t (rpc_of (eo_host survivor) (eo_config survivor) CpEtcdMembers) = Inr members \<and>
    quorum_safe_removal obs members i)"
  using run
proof (cases rule: scale_down_cases)
  case hook
  with removal show ?thesis by auto
next
  case (removal target)
  obtain aid ann h err t1 where a: "run_state (reconcileAnnotatedEtcdMember L K E target machines) tr = ((aid, ann, h, err), t1)"
    by (metis prod_cases4 surj_pair)
  obtain es where es: "t1 = tr @ es" "set es \<subseteq> no_removal"
    using emitsD[OF emits_reconcileAnnotatedEtcdMember a] by blast
  have "\<not> (ann \<or> err \<noteq> None)"
  proof
    assume "ann \<or> err \<noteq> None"
    then have "tr @ new = t1" using removal(2,3) a
      by (auto simp: reconcileEtcdMemberRemoval_def handles_removal_def)
    with es assms(2) show False by auto
  qed
  moreover from this a have "aid = []" "t1 = tr" using annotated_result(2) by blast+
  ultimately have "run_state (remove_fresh_member L E target [] False machines) tr = (r, tr @ new)"
    using removal(2,3) a by (auto simp: reconcileEtcdMemberRemoval_def handles_removal_def)
  note found = remove_fresh_removal[OF this assms(2)]
  have "map_of (mt_annotations (cm_meta target)) controlPlaneEtcdMemberID = None"
    using annotated_result(1)[OF a] \<open>\<not> (ann \<or> err \<noteq> None)\<close> by simp
  with found removal(1,2) show ?thesis by blast
qed

text \<open>Once the member ID is noted on the machine, no pass asks for the removal of the member.\<close>

lemma annotated_never_removed:
  assumes "map_of (mt_annotations (cm_meta target)) controlPlaneEtcdMemberID \<noteq> None"
  shows "emits (reconcileEtcdMemberRemoval L K E target machines) no_removal"
  unfolding emits_def
proof
  fix tr
  obtain aid ann h err t1 where a: "run_state (reconcileAnnotatedEtcdMember L K E target machines) tr = ((aid, ann, h, err), t1)"
    by (metis prod_cases4 surj_pair)
  obtain es where "t1 = tr @ es" "set es \<subseteq> no_removal"
    using emitsD[OF emits_reconcileAnnotatedEtcdMember a] by blast
  with a annotated_result(1)[OF a] assms
  show "\<exists>new. snd (run_state (reconcileEtcdMemberRemoval L K E target machines) tr) = tr @ new \<and> set new \<subseteq> no_removal"
    by (auto simp: reconcileEtcdMemberRemoval_def)
qed

lemma still_listed:
  assumes "machineWaitingForPreTerminateHook L K target"
    and "map_of (mt_annotations (cm_meta target)) controlPlaneEtcdMemberID = Some annotated"
    and "parse_uint 64 annotated = Some memberID" "memberID \<noteq> 0"
    and "firstControlPlaneSurvivor machines (mt_uid (cm_meta target)) = Some survivor"
    and "run_state (observeEtcdMembers L E survivor) tr = (Some members, tr')"
    and "containsEtcdMember members (of_nat memberID)"
  shows "run_state (reconcileEtcdMemberRemoval L K E target machines) tr = ((False, None), tr')"
  using assms by (simp add: reconcileEtcdMemberRemoval_def reconcileAnnotatedEtcdMember_def)

text \<open>The hook is only taken off when a survivor does not list the noted member.\<close>

lemma hook_key_differs [simp]: "controlPlaneEtcdDeleteHook K \<noteq> controlPlaneEtcdMemberID"
proof
  assume "controlPlaneEtcdDeleteHook K = controlPlaneEtcdMemberID"
  then have "last (controlPlaneEtcdDeleteHook K) = last controlPlaneEtcdMemberID" by simp
  then show False by (simp add: controlPlaneEtcdDeleteHook_def controlPlaneEtcdMemberID_def)
qed

abbreviation hooked :: "cp_lib \<Rightarrow> capi_machine \<Rightarrow> bool" where
  "hooked K m \<equiv> map_get (mt_annotations (cm_meta m)) (controlPlaneEtcdDeleteHook K) = ControlPlaneEtcdDeleteHookValue"

abbreviation keeps_hook :: "cp_lib \<Rightarrow> cp_event set" where
  "keeps_hook K \<equiv> {e. \<forall>m. e = CpMachinePatch m \<longrightarrow> hooked K m}"

lemma emits_remove_fresh_hook:
  "hooked K target \<Longrightarrow> emits (remove_fresh_member L E target aid ann machines) (keeps_hook K)"
proof -
  assume "hooked K target"
  then have p: "CpMachinePatch (set_annotation controlPlaneEtcdMemberID v target) \<in> keeps_hook K" for v
    by (auto simp: set_annotation_def map_get_update dest: sym[of controlPlaneEtcdMemberID])
  have o: "{e. cp_observes e} \<subseteq> keeps_hook K" by auto
  show ?thesis
    unfolding remove_fresh_member_def annotateEtcdMemberID_def removeObservedEtcdMember_def Let_def
    by (intro emit_rules p emits_mono[OF observing_observations o] emits_mono[OF observing_etcd(2) o]) simp_all
qed

lemma hook_removed:
  assumes run: "run_state (reconcileScaleDown L K E machines desired) tr = (r, tr @ new)"
    and off: "CpMachinePatch m \<in> set new" "\<not> hooked K m"
  shows "\<exists>target annotated memberID survivor members tr'.
    handles_removal L K machines target \<and> m = drop_hook K target \<and>
    map_of (mt_annotations (cm_meta target)) controlPlaneEtcdMemberID = Some annotated \<and>
    parse_uint 64 annotated = Some memberID \<and> memberID \<noteq> 0 \<and>
    survivor \<in> set machines \<and> mt_uid (cm_meta survivor) \<noteq> mt_uid (cm_meta target) \<and>
    mt_deletionTimestamp (cm_meta survivor) = None \<and>
    run_state (observeEtcdMembers L E survivor) tr = (Some members, tr') \<and>
    \<not> containsEtcdMember members (of_nat memberID)"
  using run
proof (cases rule: scale_down_cases)
  case hook
  with off show ?thesis by (auto simp: set_annotation_def map_get_update)
next
  case (removal target)
  have hooked: "hooked K target" using removal(2) by (simp add: handles_removal_def)
  obtain aid ann h err t1 where a: "run_state (reconcileAnnotatedEtcdMember L K E target machines) tr = ((aid, ann, h, err), t1)"
    by (metis prod_cases4 surj_pair)
  have "tr @ new = t1"
  proof (rule ccontr)
    assume "tr @ new \<noteq> t1"
    then have "\<not> (ann \<or> err \<noteq> None)" "run_state (remove_fresh_member L E target aid ann machines) t1 = (r, tr @ new)"
      using removal(2,3) a by (auto simp: reconcileEtcdMemberRemoval_def handles_removal_def split: if_splits)
    then have "run_state (remove_fresh_member L E target aid ann machines) tr = (r, tr @ new)"
      using annotated_result(2)[OF a] by simp
    from emits_new[OF emits_remove_fresh_hook[OF hooked] this] off show False by auto
  qed
  then have a': "run_state (reconcileAnnotatedEtcdMember L K E target machines) tr = ((aid, ann, h, err), tr @ new)"
    using a by simp
  have quiet: "run_state (observeEtcdMembers L E survivor) tr = (x, tr @ new) \<Longrightarrow> False" for survivor x
    using emits_new[OF observing_etcd_members, of L E survivor tr x new] off by auto
  obtain annotated where 1: "map_of (mt_annotations (cm_meta target)) controlPlaneEtcdMemberID = Some annotated"
    using a' off by (auto simp: reconcileAnnotatedEtcdMember_def split: option.splits)
  obtain memberID where 2: "parse_uint 64 annotated = Some memberID" "memberID \<noteq> 0"
    using a' off 1 by (auto simp: reconcileAnnotatedEtcdMember_def split: option.splits if_splits)
  obtain survivor where 3: "firstControlPlaneSurvivor machines (mt_uid (cm_meta target)) = Some survivor"
    using a' off 1 2 by (cases "firstControlPlaneSurvivor machines (mt_uid (cm_meta target))") (auto simp: reconcileAnnotatedEtcdMember_def)
  obtain ms t2 where 4: "run_state (observeEtcdMembers L E survivor) tr = (ms, t2)" by fastforce
  obtain members where 5: "ms = Some members" "\<not> containsEtcdMember members (of_nat memberID)"
    using a' off 1 2 3 4 quiet by (cases ms) (auto simp: reconcileAnnotatedEtcdMember_def split: if_splits)
  obtain es where es: "t2 = tr @ es" "set es \<subseteq> {e. cp_observes e}" using emitsD[OF observing_etcd_members 4] by blast
  have "new = es @ [CpMachinePatch (drop_hook K target)]"
    using a' 1 2 3 4 5 es by (auto simp: reconcileAnnotatedEtcdMember_def removeEtcdDeleteHook_def cp_write_def split: option.splits)
  with off es have "m = drop_hook K target" by auto
  moreover have "survivor \<in> set machines \<and> mt_uid (cm_meta survivor) \<noteq> mt_uid (cm_meta target) \<and>
      mt_deletionTimestamp (cm_meta survivor) = None"
    using 3 by (auto simp: firstControlPlaneSurvivor_def find_Some_iff)
  ultimately show ?thesis using removal(2) 1 2 4 5 by blast
qed

lemma run_scale_down:
  assumes "desired < int (length machines)"
    and "order_machines (filter (\<lambda>m. mt_deletionTimestamp (cm_meta m) \<noteq> None) machines) = target # rest"
    and "hooked K target"
  shows "reconcileScaleDown L K E machines desired = reconcileEtcdMemberRemoval L K E target machines"
  using assms by (simp add: reconcileScaleDown_def Let_def)

end
