(* ===== verification/ControlPlaneBootstrap.thy ===== *)
theory ControlPlaneBootstrap
  imports ControlPlaneEnv EtcdRemoval
begin

section \<open>Bootstrapping the first control plane\<close>

text \<open>
  \<open>controller/tartcontrolplane/bootstrap.go\<close>: the machine with ordinal 0 starts etcd, once;
  the control plane counts as initialized when its etcd member is healthy, the workload API
  answers and the kubeconfig Secret is written.
\<close>

record controlPlaneBootstrapState =
  bs_initialized :: bool
  bs_etcdReady :: bool
  bs_workloadReady :: bool
  bs_reason :: string
  bs_message :: string
  bs_requeueAfter :: duration

definition zero_bootstrap_state :: controlPlaneBootstrapState where
  "zero_bootstrap_state = \<lparr>bs_initialized = False, bs_etcdReady = False, bs_workloadReady = False,
     bs_reason = [], bs_message = [], bs_requeueAfter = 0\<rparr>"

text \<open>\<open>bs_failed st\<close>: nothing is ready, for the reason \<open>reason\<close>.\<close>

definition not_ready :: "string \<Rightarrow> string \<Rightarrow> duration \<Rightarrow> controlPlaneBootstrapState" where
  "not_ready reason message after =
     zero_bootstrap_state\<lparr>bs_reason := reason, bs_message := message, bs_requeueAfter := after\<rparr>"

definition controlPlaneChildName :: "k8s_lib \<Rightarrow> string \<Rightarrow> int \<Rightarrow> string \<Rightarrow> string option" where
  "controlPlaneChildName L controlPlaneName ordinal suffix =
     (let base = controlPlaneName @ ''-'' @ format_int ordinal;
          name = (if suffix \<noteq> [] then base @ ''-'' @ suffix else base)
      in if \<not> lib_is_dns1123_subdomain L name then None else Some name)"

definition controllerOwnerReference :: "object_meta \<Rightarrow> string \<Rightarrow> string \<Rightarrow> owner_reference" where
  "controllerOwnerReference owner apiVersion kind =
     \<lparr>own_apiVersion = apiVersion, own_kind = kind, own_name = mt_name owner, own_uid = mt_uid owner,
      own_controller = Some True\<rparr>"

definition workloadAPIReady :: "cp_lib \<Rightarrow> cp_env \<Rightarrow> string \<Rightarrow> capi_cluster \<Rightarrow> bool cp" where
  "workloadAPIReady K E kubeconfig cluster =
     (if length kubeconfig = 0 then State_Monad.return False
      else case ce_kubeconfig_host E kubeconfig of
        None \<Rightarrow> State_Monad.return False
      | Some host \<Rightarrow>
          (let h = (if kp_endpoint_valid K (cl_endpoint_host cluster) (cl_endpoint_port cluster)
                    then ''https://'' @ kp_endpoint_string K (cl_endpoint_host cluster) (cl_endpoint_port cluster)
                    else host)
           in call (CpReadyz kubeconfig h) (\<lambda>tr. ce_readyz E tr (CpReadyz kubeconfig h))))"

definition kubeconfig_secret :: "k8s_lib \<Rightarrow> capi_cluster \<Rightarrow> string \<Rightarrow> Secret" where
  "kubeconfig_secret L cluster kubeconfig =
     zero_secret\<lparr>sec_namespace := mt_namespace (cl_meta cluster), sec_name := mt_name (cl_meta cluster) @ ''-kubeconfig'',
       sec_labels := [(lib_cluster_name_label L, mt_name (cl_meta cluster))],
       sec_owners := [controllerOwnerReference (cl_meta cluster) (lib_capi_group_version L) ''Cluster''],
       sec_type := SecretTypeCAPI, sec_data := [(''value'', kubeconfig)]\<rparr>"

definition ensureKubeconfigSecret :: "k8s_lib \<Rightarrow> cp_env \<Rightarrow> capi_cluster \<Rightarrow> string \<Rightarrow> cp_error option cp" where
  "ensureKubeconfigSecret L E cluster kubeconfig =
     (let m = cl_meta cluster; expected = kubeconfig_secret L cluster kubeconfig
      in if mt_namespace m = [] \<or> mt_name m = [] \<or> mt_uid m = [] \<or> length kubeconfig = 0
         then State_Monad.return (Some CpOther)
         else do {
           found \<leftarrow> cp_get E (\<lambda>T. te_get_secret T [] (sec_namespace expected) (sec_name expected));
           (case found of
              Inl e \<Rightarrow>
                if e = ApiNotFound
                then do {
                  err \<leftarrow> cp_write E (CpSecretCreate expected);
                  State_Monad.return (map_option CpApi err)
                }
                else State_Monad.return (Some (CpApi e))
            | Inr actual \<Rightarrow>
                if sec_type actual \<noteq> SecretTypeCAPI \<or> map_get (sec_labels actual) (lib_cluster_name_label L) \<noteq> mt_name m \<or>
                   \<not> HasControllerOwner (sec_owners actual) m (lib_capi_group_version L) ''Cluster''
                then State_Monad.return (Some CpOther)
                else if map_get (sec_data actual) ''value'' = kubeconfig \<and> length (sec_data actual) = 1
                then State_Monad.return None
                else do {
                  err \<leftarrow> cp_write E (CpSecretPatch (actual\<lparr>sec_data := [(''value'', kubeconfig)], sec_type := SecretTypeCAPI\<rparr>));
                  State_Monad.return (map_option CpApi err)
                })
         })"

definition report_initialized ::
  "k8s_lib \<Rightarrow> cp_lib \<Rightarrow> cp_env \<Rightarrow> capi_cluster \<Rightarrow> string \<Rightarrow> string \<Rightarrow> (controlPlaneBootstrapState \<times> cp_error option) cp" where
  "report_initialized L K E cluster endpoint configuration = do {
     text \<leftarrow> cp_text E endpoint (CpConfiguration configuration) CpKubeconfig;
     (case text of
        Inl _ \<Rightarrow> State_Monad.return ((not_ready ReasonWorkloadAPIUnavailable
          ''Talos etcd is healthy, but the workload kubeconfig is not available yet.'' (30 * second))\<lparr>bs_etcdReady := True\<rparr>, None)
      | Inr kubeconfig \<Rightarrow> do {
          ready \<leftarrow> workloadAPIReady K E kubeconfig cluster;
          (if \<not> ready
           then State_Monad.return ((not_ready ReasonWorkloadAPIUnavailable
             ''Talos etcd is healthy, but the workload Kubernetes API is not ready yet.'' (30 * second))\<lparr>bs_etcdReady := True\<rparr>, None)
           else do {
             err \<leftarrow> ensureKubeconfigSecret L E cluster kubeconfig;
             State_Monad.return
               (if err \<noteq> None
                then ((not_ready ''KubeconfigUnavailable''
                  ''The workload Kubernetes API is ready, but the workload kubeconfig Secret could not be persisted.''
                  (15 * second))\<lparr>bs_etcdReady := True\<rparr>, err)
                else ((not_ready ''EtcdClusterAvailable''
                  ''The workload Kubernetes API is ready and the first control-plane Machine reports a healthy etcd member and leader.'' 0)
                  \<lparr>bs_initialized := True, bs_etcdReady := True, bs_workloadReady := True\<rparr>, None))
           })
        })
   }"

definition reconcileFirstControlPlaneTalos ::
  "k8s_lib \<Rightarrow> cp_lib \<Rightarrow> cp_env \<Rightarrow> TartControlPlane \<Rightarrow> capi_cluster \<Rightarrow> string \<Rightarrow> string \<Rightarrow> controlPlaneBootstrapState \<Rightarrow>
   (controlPlaneBootstrapState \<times> cp_error option) cp" where
  "reconcileFirstControlPlaneTalos L K E cp cluster endpoint configuration state = do {
     ok \<leftarrow> cp_dial E endpoint (CpConfiguration configuration);
     (if \<not> ok
      then State_Monad.return (state\<lparr>bs_reason := ''TalosUnavailable'',
        bs_message := ''The authenticated Talos API is not reachable on the first control-plane Machine.''\<rparr>, None)
      else do {
        let event = CpRpc endpoint (CpConfiguration configuration) CpEtcdStatus;
        status \<leftarrow> call event (\<lambda>tr. ce_etcd_status E tr event);
        (if (case status of Inl _ \<Rightarrow> False | Inr s \<Rightarrow> etcdStatusHealthy s)
         then report_initialized L K E cluster endpoint configuration
         else if kst_controlPlaneInitialized (k_status cp) = Some True
         then State_Monad.return (not_ready ''EtcdClusterUnavailable''
           ''The control plane was initialized previously, but a healthy etcd member and leader are not currently observed.''
           (30 * second), None)
         else do {
           let boot = CpRpc endpoint (CpConfiguration configuration) CpBootstrap;
           exists \<leftarrow> query (\<lambda>tr. ce_bootstrap_exists E tr boot);
           err \<leftarrow> cp_rpc E endpoint (CpConfiguration configuration) CpBootstrap;
           State_Monad.return
             (if err \<noteq> None \<and> \<not> exists
              then (not_ready ''EtcdBootstrapFailed''
                ''The first control-plane Machine could not start the Talos etcd bootstrap.'' (30 * second), None)
              else (not_ready ''Bootstrapping''
                ''Talos etcd bootstrap was requested; waiting for a healthy member and leader.'' (15 * second), None))
         })
      })
   }"

text \<open>\<open>Inl\<close>: the state to report with no further step, or an error; \<open>Inr\<close>: the endpoint and
  the configuration of the first machine.\<close>

definition observeFirstControlPlane ::
  "k8s_lib \<Rightarrow> cp_env \<Rightarrow> capi_machine \<Rightarrow> controlPlaneBootstrapState \<Rightarrow>
   ((controlPlaneBootstrapState \<times> cp_error option) + string \<times> string) cp" where
  "observeFirstControlPlane L E machine state =
     (let ref = cm_infrastructureRef machine; ns = mt_namespace (cm_meta machine);
          wait = (\<lambda>st. State_Monad.return (Inl (st, None)));
          fail = (\<lambda>e. State_Monad.return (Inl (zero_bootstrap_state, Some e)))
      in if cr_apiGroup ref \<noteq> infra_group \<or> cr_kind ref \<noteq> TartMachineKind \<or> cr_name ref = []
         then fail (CpFailure ReasonMachineSpecMismatch ''The first control-plane Machine has an invalid infrastructure reference.'')
         else do {
           found \<leftarrow> cp_get E (\<lambda>T. te_get_tart_machine T [] ns (cr_name ref));
           (case found of
              Inl e \<Rightarrow> if e = ApiNotFound then wait state else fail (CpApi e)
            | Inr providerMachine \<Rightarrow>
                (case ValidateProviderOwner (m_meta providerMachine) (cm_meta machine) (lib_capi_group_version L) CAPIMachineKind of
                   Some f \<Rightarrow> fail (CpOwnership f)
                 | None \<Rightarrow>
                     if (case lib_find_condition L (mst_conditions (m_status providerMachine)) TartMachineReadyCondition of
                           None \<Rightarrow> True | Some c \<Rightarrow> cond_status c \<noteq> ConditionTrue)
                     then wait state
                     else (case mst_hostRef (m_status providerMachine) of
                       None \<Rightarrow> wait (state\<lparr>bs_reason := ''HostUnavailable'',
                         bs_message := ''The first control-plane Machine has no observed TartHost binding yet.''\<rparr>)
                     | Some hostName \<Rightarrow> do {
                         foundHost \<leftarrow> cp_get E (\<lambda>T. te_get_host T [] hostName);
                         (case foundHost of
                            Inl e \<Rightarrow>
                              if e = ApiNotFound
                              then wait (state\<lparr>bs_reason := ''HostUnavailable'',
                                bs_message := ''The first control-plane Machine Host is not available yet.''\<rparr>)
                              else fail (CpApi e)
                          | Inr providerHost \<Rightarrow>
                              if (case hs_consumerRef (h_spec providerHost) of
                                    None \<Rightarrow> True | Some c \<Rightarrow> ref_uid c \<noteq> mt_uid (m_meta providerMachine))
                              then fail (CpFailure ''HostBindingMismatch''
                                ''The first control-plane Machine Host binding does not match the provider Machine.'')
                              else if HostTalosEndpoint providerHost = []
                              then wait (state\<lparr>bs_reason := ''EndpointUnavailable'',
                                bs_message := ''The first control-plane Machine has no reachable Talos endpoint yet.''\<rparr>)
                              else do {
                                boot \<leftarrow> cp_read E (\<lambda>T. BootstrapConfiguration L T providerMachine);
                                (case boot of
                                   Inl ErrBootstrapDataUnavailable \<Rightarrow> wait (state\<lparr>bs_reason := ''BootstrapDataUnavailable'',
                                     bs_message := ''The immutable Bootstrap Secret is not available for the first control-plane Machine yet.''\<rparr>)
                                 | Inl _ \<Rightarrow> fail CpOther
                                 | Inr configuration \<Rightarrow>
                                     State_Monad.return (Inr (HostTalosEndpoint providerHost, configuration)))
                              })
                       })))
         })"

definition reconcileFirstControlPlane ::
  "k8s_lib \<Rightarrow> cp_lib \<Rightarrow> cp_env \<Rightarrow> TartControlPlane \<Rightarrow> capi_cluster \<Rightarrow> capi_machine \<Rightarrow> controlPlaneBootstrapState \<Rightarrow>
   (controlPlaneBootstrapState \<times> cp_error option) cp" where
  "reconcileFirstControlPlane L K E cp cluster machine state = do {
     observed \<leftarrow> observeFirstControlPlane L E machine state;
     (case observed of
        Inl result \<Rightarrow> State_Monad.return result
      | Inr (endpoint, configuration) \<Rightarrow> reconcileFirstControlPlaneTalos L K E cp cluster endpoint configuration state)
   }"

definition reconcileControlPlaneBootstrap ::
  "k8s_lib \<Rightarrow> cp_lib \<Rightarrow> cp_env \<Rightarrow> TartControlPlane \<Rightarrow> capi_cluster \<Rightarrow> capi_machine list \<Rightarrow>
   (controlPlaneBootstrapState \<times> cp_error option) cp" where
  "reconcileControlPlaneBootstrap L K E cp cluster machines =
     (let state = not_ready ''MachinesUnavailable''
            ''The first control-plane Machine is not running the desired Talos version yet.'' (30 * second)
      in case controlPlaneChildName L (mt_name (k_meta cp)) 0 [] of
           None \<Rightarrow> State_Monad.return (zero_bootstrap_state, Some (CpFailure ReasonMachineNameInvalid
             ''A deterministic control-plane Machine name is invalid.''))
         | Some firstName \<Rightarrow>
             (case find (\<lambda>m. mt_name (cm_meta m) = firstName) machines of
                None \<Rightarrow> State_Monad.return (state, None)
              | Some firstMachine \<Rightarrow> reconcileFirstControlPlane L K E cp cluster firstMachine state))"

subsection \<open>When etcd is bootstrapped, and when the control plane counts as initialized\<close>

lemma emits_observeFirstControlPlane [emit_rules]: "emits (observeFirstControlPlane L E machine state) S"
  unfolding observeFirstControlPlane_def Let_def
  by (intro emit_rules) (auto intro: emit_rules split: boot_error.splits)

lemma observeFirstControlPlane_reads: "\<exists>r. run_state (observeFirstControlPlane L E machine state) tr = (r, tr)"
  by (intro emits_nothing emits_observeFirstControlPlane)

text \<open>What was seen of the first machine: it is ready, and its host is bound to it.\<close>

definition first_observed :: "k8s_lib \<Rightarrow> cp_env \<Rightarrow> cp_event list \<Rightarrow> capi_machine \<Rightarrow> string \<Rightarrow> string \<Rightarrow> bool" where
  "first_observed L E tr machine endpoint configuration \<longleftrightarrow>
     (\<exists>provider hostName host c.
        te_get_tart_machine (ce_tm E tr) [] (mt_namespace (cm_meta machine)) (cr_name (cm_infrastructureRef machine)) = Inr provider \<and>
        ValidateProviderOwner (m_meta provider) (cm_meta machine) (lib_capi_group_version L) CAPIMachineKind = None \<and>
        lib_find_condition L (mst_conditions (m_status provider)) TartMachineReadyCondition = Some c \<and> cond_status c = ConditionTrue \<and>
        mst_hostRef (m_status provider) = Some hostName \<and> te_get_host (ce_tm E tr) [] hostName = Inr host \<and>
        map_option ref_uid (hs_consumerRef (h_spec host)) = Some (mt_uid (m_meta provider)) \<and>
        endpoint = HostTalosEndpoint host \<and> endpoint \<noteq> [] \<and>
        fst (run_state (BootstrapConfiguration L (ce_tm E tr) provider) []) = Inr configuration)"

lemma observeFirst_observed:
  "run_state (observeFirstControlPlane L E machine state) tr = (Inr (endpoint, configuration), tr') \<Longrightarrow>
     first_observed L E tr machine endpoint configuration"
  unfolding observeFirstControlPlane_def Let_def first_observed_def
  by (auto simp: cp_get_def cp_read_def split: if_splits sum.splits option.splits boot_error.splits)

abbreviation no_bootstrap :: "cp_event set" where
  "no_bootstrap \<equiv> {e. \<forall>ep au. e \<noteq> CpRpc ep au CpBootstrap}"

lemma emits_report_initialized: "emits (report_initialized L K E cluster ep c) no_bootstrap"
  unfolding report_initialized_def workloadAPIReady_def ensureKubeconfigSecret_def Let_def
  by (intro emit_rules) simp_all

lemma bootstrap_requested:
  assumes run: "run_state (reconcileControlPlaneBootstrap L K E cp cluster machines) tr = (r, tr @ new)"
    and boot: "CpRpc ep au CpBootstrap \<in> set new"
  shows "kst_controlPlaneInitialized (k_status cp) \<noteq> Some True \<and>
    (\<exists>machine \<in> set machines. \<exists>configuration. au = CpConfiguration configuration \<and>
       controlPlaneChildName L (mt_name (k_meta cp)) 0 [] = Some (mt_name (cm_meta machine)) \<and>
       first_observed L E tr machine ep configuration \<and>
       (\<forall>s. ce_etcd_status E (tr @ [CpDial ep au]) (CpRpc ep au CpEtcdStatus) = Inr s \<longrightarrow> \<not> etcdStatusHealthy s))"
proof -
  from run boot obtain n where name: "controlPlaneChildName L (mt_name (k_meta cp)) 0 [] = Some n"
    by (cases "controlPlaneChildName L (mt_name (k_meta cp)) 0 []") (auto simp: reconcileControlPlaneBootstrap_def Let_def)
  with run boot obtain machine where m: "find (\<lambda>m. mt_name (cm_meta m) = n) machines = Some machine"
    by (cases "find (\<lambda>m. mt_name (cm_meta m) = n) machines") (auto simp: reconcileControlPlaneBootstrap_def Let_def)
  let ?state = "not_ready ''MachinesUnavailable'' ''The first control-plane Machine is not running the desired Talos version yet.'' (30 * second)"
  obtain ob where ob: "run_state (observeFirstControlPlane L E machine ?state) tr = (ob, tr)"
    using observeFirstControlPlane_reads by blast
  have first: "run_state (reconcileFirstControlPlane L K E cp cluster machine ?state) tr = (r, tr @ new)"
    using run m name by (simp add: reconcileControlPlaneBootstrap_def Let_def)
  with ob boot obtain endpoint configuration where o: "ob = Inr (endpoint, configuration)"
    by (cases ob) (auto simp: reconcileFirstControlPlane_def)
  have talos: "run_state (reconcileFirstControlPlaneTalos L K E cp cluster endpoint configuration ?state) tr = (r, tr @ new)"
    using first ob o by (simp add: reconcileFirstControlPlane_def)
  let ?d = "CpDial endpoint (CpConfiguration configuration)" and ?s = "CpRpc endpoint (CpConfiguration configuration) CpEtcdStatus"
  have unhealthy: "\<not> (case ce_etcd_status E (tr @ [?d]) ?s of Inl _ \<Rightarrow> False | Inr s \<Rightarrow> etcdStatusHealthy s)"
  proof
    assume h: "case ce_etcd_status E (tr @ [?d]) ?s of Inl _ \<Rightarrow> False | Inr s \<Rightarrow> etcdStatusHealthy s"
    show False
    proof (cases "ce_dial E tr ?d")
      case True
      with talos h have i: "run_state (report_initialized L K E cluster endpoint configuration) (tr @ [?d, ?s]) = (r, tr @ new)"
        by (simp add: reconcileFirstControlPlaneTalos_def cp_dial_def Let_def)
      from emitsD[OF emits_report_initialized i] boot show False by auto
    next
      case False
      with talos boot show False by (auto simp: reconcileFirstControlPlaneTalos_def cp_dial_def)
    qed
  qed
  with talos boot have "kst_controlPlaneInitialized (k_status cp) \<noteq> Some True" "ep = endpoint" "au = CpConfiguration configuration"
    by (auto simp: reconcileFirstControlPlaneTalos_def cp_dial_def cp_rpc_def Let_def split: if_splits)
  moreover have "machine \<in> set machines" "controlPlaneChildName L (mt_name (k_meta cp)) 0 [] = Some (mt_name (cm_meta machine))"
    using m name by (auto simp: find_Some_iff)
  ultimately show ?thesis using observeFirst_observed[OF ob[unfolded o]] unhealthy by (auto split: sum.splits)
qed

text \<open>The kubeconfig Secret that the API server holds after \<open>ensureKubeconfigSecret\<close>.\<close>

definition kubeconfig_written :: "k8s_lib \<Rightarrow> cp_env \<Rightarrow> capi_cluster \<Rightarrow> string \<Rightarrow> cp_event list \<Rightarrow> bool" where
  "kubeconfig_written L E cluster kubeconfig tr \<longleftrightarrow>
     (\<exists>s. te_get_secret (ce_tm E tr) [] (mt_namespace (cl_meta cluster)) (mt_name (cl_meta cluster) @ ''-kubeconfig'') = Inr s \<and>
        map_get (sec_data s) ''value'' = kubeconfig) \<or>
     (\<exists>s. (ce_write E tr (CpSecretCreate s) = None \<or> ce_write E tr (CpSecretPatch s) = None) \<and>
        map_get (sec_data s) ''value'' = kubeconfig)"

lemma ensureKubeconfigSecret_written:
  assumes run: "run_state (ensureKubeconfigSecret L E cluster kubeconfig) tr = (None, tr')"
  shows "kubeconfig_written L E cluster kubeconfig tr"
proof (cases "te_get_secret (ce_tm E tr) [] (mt_namespace (cl_meta cluster)) (mt_name (cl_meta cluster) @ ''-kubeconfig'')")
  case (Inl e)
  with run have "ce_write E tr (CpSecretCreate (kubeconfig_secret L cluster kubeconfig)) = None"
    by (auto simp: ensureKubeconfigSecret_def Let_def cp_get_def cp_write_def kubeconfig_secret_def split: if_splits)
  then show ?thesis unfolding kubeconfig_written_def by (intro disjI2 exI) (auto simp: kubeconfig_secret_def)
next
  case (Inr actual)
  with run have "map_get (sec_data actual) ''value'' = kubeconfig \<or>
      ce_write E tr (CpSecretPatch (actual\<lparr>sec_data := [(''value'', kubeconfig)], sec_type := SecretTypeCAPI\<rparr>)) = None"
    by (auto simp: ensureKubeconfigSecret_def Let_def cp_get_def cp_write_def kubeconfig_secret_def split: if_splits)
  then show ?thesis
  proof
    assume "ce_write E tr (CpSecretPatch (actual\<lparr>sec_data := [(''value'', kubeconfig)], sec_type := SecretTypeCAPI\<rparr>)) = None"
    then show ?thesis unfolding kubeconfig_written_def by (intro disjI2 exI conjI) (assumption, simp)
  qed (auto simp: kubeconfig_written_def Inr)
qed

lemma workloadAPIReady_True:
  "run_state (workloadAPIReady K E kubeconfig cluster) tr = (True, tr') \<Longrightarrow>
     \<exists>host. tr' = tr @ [CpReadyz kubeconfig host] \<and> ce_readyz E tr (CpReadyz kubeconfig host)"
  by (auto simp: workloadAPIReady_def Let_def split: if_splits option.splits)

lemma report_initialized_observed:
  assumes "run_state (report_initialized L K E cluster ep c) tr = ((st, err), tr')" "bs_initialized st"
  shows "err = None \<and> bs_etcdReady st \<and> bs_workloadReady st \<and>
    (\<exists>kubeconfig host t. ce_readyz E t (CpReadyz kubeconfig host) \<and>
       kubeconfig_written L E cluster kubeconfig (t @ [CpReadyz kubeconfig host]))"
  using assms
  by (auto simp: not_ready_def zero_bootstrap_state_def report_initialized_def cp_text_def
      split: if_splits sum.splits prod.splits) (blast dest: workloadAPIReady_True ensureKubeconfigSecret_written)+

lemma initialized_observed:
  assumes "run_state (reconcileFirstControlPlaneTalos L K E cp cluster ep c state) tr = ((st, err), tr')"
    and "bs_initialized st" "\<not> bs_initialized state"
  shows "err = None \<and> bs_etcdReady st \<and> bs_workloadReady st \<and>
    (\<exists>s. ce_etcd_status E (tr @ [CpDial ep (CpConfiguration c)]) (CpRpc ep (CpConfiguration c) CpEtcdStatus) = Inr s \<and> etcdStatusHealthy s) \<and>
    (\<exists>kubeconfig host t. ce_readyz E t (CpReadyz kubeconfig host) \<and>
       kubeconfig_written L E cluster kubeconfig (t @ [CpReadyz kubeconfig host]))"
  using assms report_initialized_observed[of L K E cluster ep c _ st err tr']
  by (auto simp: reconcileFirstControlPlaneTalos_def cp_dial_def cp_rpc_def Let_def not_ready_def zero_bootstrap_state_def
      split: if_splits sum.splits)

end
