(* ===== verification/CARotation.thy ===== *)
theory CARotation
  imports ControlPlaneBootstrap CATrust
begin

section \<open>Rotating the certificate authorities of a cluster\<close>

text \<open>
  \<open>controller/tartcontrolplane/carotation.go\<close>, with the edits of a machine configuration it
  makes (\<open>adapter/talos/configmutate.go\<close>) and the stage it reads from one
  (\<open>adapter/talos/certbuilder/bundle.go\<close>). Talos' own loader and patchers are the parameter
  \<open>ca_lib\<close>, over an arbitrary type of loaded configurations.
\<close>

subsection \<open>The CAs in a machine configuration\<close>

text \<open>What the code reads of a loaded configuration: the issuing CA and the accepted ones of
  the machine, of the Kubernetes API and of the aggregator, where it has them.\<close>

type_synonym ca_section = "pem_pair option \<times> string option list"

record 'p ca_lib =
  ca_load :: "string \<Rightarrow> 'p option"                        \<comment> \<open>\<open>configloader.NewFromBytes\<close>\<close>
  ca_controlPlane :: "'p \<Rightarrow> bool"                         \<comment> \<open>\<open>Machine().Type().IsControlPlane()\<close>\<close>
  ca_security :: "'p \<Rightarrow> ca_section option"                \<comment> \<open>\<open>Machine().Security()\<close>\<close>
  ca_api :: "'p \<Rightarrow> ca_section option"                     \<comment> \<open>\<open>K8sAPIServerCAConfig()\<close>\<close>
  ca_aggregator :: "'p \<Rightarrow> ca_section option"              \<comment> \<open>\<open>K8sAggregatorCAConfig()\<close>\<close>
  ca_patch_machine :: "'p \<Rightarrow> pem_pair \<Rightarrow> string list \<Rightarrow> string option"
                                                  \<comment> \<open>\<open>PatchV1Alpha1\<close> of the machine CAs and \<open>Bytes\<close>\<close>
  ca_patch_api :: "string \<Rightarrow> pem_pair \<Rightarrow> string list \<Rightarrow> string option"
                                                  \<comment> \<open>\<open>configpatcher.Apply\<close> of a \<open>KubeAPIServerCAConfig\<close>\<close>
  ca_patch_aggregator :: "string \<Rightarrow> pem_pair \<Rightarrow> string list \<Rightarrow> string option"
  ca_delete_accepted :: "'p \<Rightarrow> string \<Rightarrow> 'p option"       \<comment> \<open>\<open>rotatepatcher.K8sDeleteAcceptedCA\<close>\<close>
  ca_set :: "'p \<Rightarrow> pem_pair \<Rightarrow> 'p option"                 \<comment> \<open>\<open>rotatepatcher.K8sSetCA\<close>\<close>
  ca_add_accepted :: "'p \<Rightarrow> string \<Rightarrow> 'p option"          \<comment> \<open>\<open>rotatepatcher.K8sAddAcceptedCA\<close>\<close>
  ca_bytes :: "'p \<Rightarrow> string option"

definition accepted_crts :: "pem_pair option list \<Rightarrow> string list" where
  "accepted_crts accepted = map pem_crt (List.map_filter id accepted)"

definition SetMachineCertificateAuthority ::
  "'p ca_lib \<Rightarrow> string \<Rightarrow> pem_pair option \<Rightarrow> pem_pair option list \<Rightarrow> string option" where
  "SetMachineCertificateAuthority C configuration issuing accepted =
     (if length (trim_space configuration) = 0 then None
      else case issuing of None \<Rightarrow> None
      | Some ca \<Rightarrow>
          (case ca_load C configuration of None \<Rightarrow> None
           | Some provider \<Rightarrow>
               (let machineCA = \<lparr>pem_crt = pem_crt ca, pem_key = (if ca_controlPlane C provider then pem_key ca else [])\<rparr>
                in ca_patch_machine C provider machineCA (accepted_crts accepted))))"

fun delete_unwanted :: "'p ca_lib \<Rightarrow> string list \<Rightarrow> string option list \<Rightarrow> 'p \<Rightarrow> 'p option" where
  "delete_unwanted C desired [] provider = Some provider"
| "delete_unwanted C desired (None # cas) provider = delete_unwanted C desired cas provider"
| "delete_unwanted C desired (Some crt # cas) provider =
     (if crt \<in> set desired then delete_unwanted C desired cas provider
      else case ca_delete_accepted C provider crt of None \<Rightarrow> None
      | Some p \<Rightarrow> delete_unwanted C desired cas p)"

fun add_all :: "'p ca_lib \<Rightarrow> string list \<Rightarrow> 'p \<Rightarrow> 'p option" where
  "add_all C [] provider = Some provider"
| "add_all C (crt # cas) provider =
     (case ca_add_accepted C provider crt of None \<Rightarrow> None | Some p \<Rightarrow> add_all C cas p)"

definition desired_crts :: "pem_pair \<Rightarrow> pem_pair option list \<Rightarrow> string list" where
  "desired_crts issuing accepted =
     foldl (\<lambda>ds ca. case ca of None \<Rightarrow> ds | Some c \<Rightarrow> if pem_crt c \<in> set ds then ds else ds @ [pem_crt c])
       [pem_crt issuing] accepted"

definition setWorkerKubernetesAPICertificateAuthority ::
  "'p ca_lib \<Rightarrow> 'p \<Rightarrow> pem_pair \<Rightarrow> pem_pair option list \<Rightarrow> string option" where
  "setWorkerKubernetesAPICertificateAuthority C provider issuing accepted =
     (case ca_api C provider of None \<Rightarrow> None
      | Some (_, observed) \<Rightarrow>
          (let desired = desired_crts issuing accepted
           in case delete_unwanted C desired observed provider of None \<Rightarrow> None
           | Some p1 \<Rightarrow>
               (case ca_set C p1 issuing of None \<Rightarrow> None
                | Some p2 \<Rightarrow>
                    (case add_all C desired p2 of None \<Rightarrow> None | Some p3 \<Rightarrow> ca_bytes C p3))))"

definition SetKubernetesAPICertificateAuthority ::
  "'p ca_lib \<Rightarrow> string \<Rightarrow> pem_pair option \<Rightarrow> pem_pair option list \<Rightarrow> string option" where
  "SetKubernetesAPICertificateAuthority C configuration issuing accepted =
     (if length (trim_space configuration) = 0 then None
      else case issuing of None \<Rightarrow> None
      | Some ca \<Rightarrow>
          (case ca_load C configuration of None \<Rightarrow> None
           | Some provider \<Rightarrow>
               if \<not> ca_controlPlane C provider
               then setWorkerKubernetesAPICertificateAuthority C provider ca accepted
               else ca_patch_api C configuration ca (accepted_crts accepted)))"

definition SetKubernetesAggregatorCertificateAuthority ::
  "'p ca_lib \<Rightarrow> string \<Rightarrow> pem_pair option \<Rightarrow> pem_pair option list \<Rightarrow> string option" where
  "SetKubernetesAggregatorCertificateAuthority C configuration issuing accepted =
     (if length (trim_space configuration) = 0 then None
      else case issuing of None \<Rightarrow> None
      | Some ca \<Rightarrow>
          (case ca_load C configuration of None \<Rightarrow> None
           | Some provider \<Rightarrow>
               if \<not> ca_controlPlane C provider then Some configuration
               else ca_patch_aggregator C configuration ca (accepted_crts accepted)))"

definition ExtractRotationCertificateAuthorities :: "talos_bundle \<Rightarrow> CertBundle option" where
  "ExtractRotationCertificateAuthorities bundle =
     (if tb_os bundle = None \<or> tb_k8s bundle = None \<or> tb_aggregator bundle = None then None
      else Some \<lparr>cb_machine = tb_os bundle, cb_kubernetesAPI = tb_k8s bundle, cb_kubernetesAggregator = tb_aggregator bundle\<rparr>)"

definition ObserveCATrustStage :: "'p ca_lib \<Rightarrow> string \<Rightarrow> CertBundle \<Rightarrow> CertBundle \<Rightarrow> CATrustStage option" where
  "ObserveCATrustStage C configuration active pending =
     (if length (trim_space configuration) = 0 then None
      else case ca_load C configuration of None \<Rightarrow> None
      | Some provider \<Rightarrow>
          (case ca_security C provider of None \<Rightarrow> None
           | Some (issuingMachine, acceptedMachine) \<Rightarrow>
               (case ca_api C provider of None \<Rightarrow> None
                | Some (issuingAPI, acceptedAPI) \<Rightarrow>
                    if \<not> ca_controlPlane C provider
                    then Some (ObserveStageWithoutAggregator issuingMachine acceptedMachine issuingAPI acceptedAPI active pending)
                    else (case ca_aggregator C provider of None \<Rightarrow> None
                      | Some (issuingAggregator, acceptedAggregator) \<Rightarrow>
                          Some (ObserveStage issuingMachine acceptedMachine issuingAPI acceptedAPI
                            issuingAggregator acceptedAggregator active pending)))))"

subsection \<open>Observing the machines\<close>

record controlPlaneCARotationState =
  rot_active :: bool
  rot_reason :: string
  rot_message :: string
  rot_requeueAfter :: duration

definition rotation :: "bool \<Rightarrow> string \<Rightarrow> string \<Rightarrow> duration \<Rightarrow> controlPlaneCARotationState" where
  "rotation active reason message after =
     \<lparr>rot_active = active, rot_reason = reason, rot_message = message, rot_requeueAfter = after\<rparr>"

record controlPlaneCARotationObservation =
  ro_machine :: capi_machine      \<comment> \<open>not in the code: which machine was observed\<close>
  ro_host :: TartHost
  ro_endpoint :: string
  ro_usedPending :: bool
  ro_stage :: CATrustStage

definition reasonCATrustUpdateFailed :: string where "reasonCATrustUpdateFailed = ''CATrustUpdateFailed''"

definition ca_unrecognized :: controlPlaneCARotationState where
  "ca_unrecognized = rotation True ''CAConfigurationUnrecognized''
     ''A control-plane Machine reports a CA trust configuration that cannot be safely classified; CA rotation is stopped.'' 0"

definition dialRotationBundle :: "cp_env \<Rightarrow> string \<Rightarrow> talos_bundle \<Rightarrow> bool cp" where
  "dialRotationBundle E endpoint bundle = do {
     ok \<leftarrow> cp_dial E endpoint (CpBundle bundle);
     (if \<not> ok then State_Monad.return False
      else do {
        v \<leftarrow> cp_text E endpoint (CpBundle bundle) CpVersion;
        State_Monad.return (is_ok v)
      })
   }"

text \<open>Whether the pending bundle was used; \<open>None\<close> is an error.\<close>

definition dialForRotation :: "cp_env \<Rightarrow> string \<Rightarrow> talos_bundle \<Rightarrow> talos_bundle \<Rightarrow> bool option cp" where
  "dialForRotation E endpoint active pending = do {
     p \<leftarrow> dialRotationBundle E endpoint pending;
     (if p then State_Monad.return (Some True)
      else do {
        a \<leftarrow> dialRotationBundle E endpoint active;
        State_Monad.return (if a then Some False else None)
      })
   }"

definition observed_bundle :: "talos_bundle \<Rightarrow> talos_bundle \<Rightarrow> bool \<Rightarrow> talos_bundle" where
  "observed_bundle active pending usedPending = (if usedPending then pending else active)"

fun observeControlPlaneCARotation ::
  "k8s_lib \<Rightarrow> 'p ca_lib \<Rightarrow> cp_env \<Rightarrow> talos_bundle \<Rightarrow> talos_bundle \<Rightarrow> CertBundle \<Rightarrow> CertBundle \<Rightarrow> capi_machine list \<Rightarrow>
   (controlPlaneCARotationState + controlPlaneCARotationObservation list) cp" where
  "observeControlPlaneCARotation L C E active pending activeCAs pendingCAs [] = State_Monad.return (Inr [])"
| "observeControlPlaneCARotation L C E active pending activeCAs pendingCAs (machine # machines) =
     (if mt_deletionTimestamp (cm_meta machine) \<noteq> None
      then observeControlPlaneCARotation L C E active pending activeCAs pendingCAs machines
      else do {
        identity \<leftarrow> observeMachineIdentity L E machine;
        (case identity of
           None \<Rightarrow> State_Monad.return (Inl (rotation True reasonMachineUnavailable
             ''A control-plane Machine could not be observed; CA rotation is paused.'' (30 * second)))
         | Some (hostObject, _) \<Rightarrow> do {
             let endpoint = HostTalosEndpoint hostObject;
             dialed \<leftarrow> dialForRotation E endpoint active pending;
             (case dialed of
                None \<Rightarrow> State_Monad.return (Inl (rotation True ''MachineUnreachable''
                  ''A control-plane Machine Talos API could not be reached; CA rotation is paused.'' (30 * second)))
              | Some usedPending \<Rightarrow> do {
                  text \<leftarrow> cp_text E endpoint (CpBundle (observed_bundle active pending usedPending)) CpActiveConfiguration;
                  (case text of
                     Inl _ \<Rightarrow> State_Monad.return (Inl (rotation True ''MachineConfigurationUnavailable''
                       ''A control-plane Machine active configuration could not be observed; CA rotation is paused.'' (30 * second)))
                   | Inr configuration \<Rightarrow>
                       (case ObserveCATrustStage C configuration activeCAs pendingCAs of
                          None \<Rightarrow> State_Monad.return (Inl ca_unrecognized)
                        | Some stage \<Rightarrow>
                            if stage = CATrustStageUnknown then State_Monad.return (Inl ca_unrecognized)
                            else do {
                              rest \<leftarrow> observeControlPlaneCARotation L C E active pending activeCAs pendingCAs machines;
                              State_Monad.return (case rest of Inl halt \<Rightarrow> Inl halt
                                | Inr obs \<Rightarrow> Inr (\<lparr>ro_machine = machine, ro_host = hostObject, ro_endpoint = endpoint,
                                    ro_usedPending = usedPending, ro_stage = stage\<rparr> # obs))
                            }))
                })
           })
      })"

fun minimum_from :: "CATrustStage \<Rightarrow> controlPlaneCARotationObservation list \<Rightarrow> CATrustStage" where
  "minimum_from minimum [] = minimum"
| "minimum_from minimum (ob # obs) =
     minimum_from (if stage_index (ro_stage ob) < stage_index minimum then ro_stage ob else minimum) obs"

text \<open>Called with at least one observation.\<close>

definition minimumCARotationStage :: "controlPlaneCARotationObservation list \<Rightarrow> CATrustStage" where
  "minimumCARotationStage observations = minimum_from (ro_stage (hd observations)) (tl observations)"

definition clusterMachinesForCARotation :: "cp_env \<Rightarrow> TartCluster \<Rightarrow> (api_error + capi_machine list) cp" where
  "clusterMachinesForCARotation E cluster = do {
     listed \<leftarrow> query (\<lambda>tr. ce_list_machines E tr (mt_namespace (tc_meta cluster)));
     State_Monad.return
       (case listed of Inl e \<Rightarrow> Inl e
        | Inr machines \<Rightarrow> Inr (filter (\<lambda>m. cm_clusterName m = mt_name (tc_meta cluster)) machines))
   }"

definition observeRotationBundle ::
  "k8s_lib \<Rightarrow> cp_env \<Rightarrow> TartCluster \<Rightarrow> int \<Rightarrow> string \<Rightarrow> (talos_bundle \<times> CertBundle) option cp" where
  "observeRotationBundle L E cluster generation state =
     (let m = tc_meta cluster; clusterID = cs_clusterID (tc_spec cluster)
      in case BundleName L (mt_name m) clusterID generation of
           Inl _ \<Rightarrow> State_Monad.return None
         | Inr name \<Rightarrow> do {
             found \<leftarrow> cp_get E (\<lambda>T. te_get_secret T [] (mt_namespace m) name);
             (case found of
                Inl _ \<Rightarrow> State_Monad.return None
              | Inr secret \<Rightarrow>
                  (let contractState = (if state = BundleStatePending \<and> map_get (sec_labels secret) BundleStateLabel = BundleStateActive
                                        then BundleStateActive else state)
                   in if ValidateBundleSecretContract L (Some secret) (mt_namespace m) (mt_name m) clusterID generation contractState (mt_uid m) \<noteq> None
                      then State_Monad.return None
                      else do {
                        decoded \<leftarrow> cp_get E (\<lambda>T. DecodeBundleData (te_decode_bundle T) (te_bundle_valid T) (sec_data secret) clusterID);
                        State_Monad.return
                          (case decoded of None \<Rightarrow> None
                           | Some bundle \<Rightarrow> map_option (Pair bundle) (ExtractRotationCertificateAuthorities bundle))
                      }))
           })"

subsection \<open>The three edits, and the promotion\<close>

text \<open>The configuration that a stage asks for: accept the next CAs, issue with them, drop the
  previous ones. \<open>None\<close> is an error.\<close>

definition set_all_cas ::
  "'p ca_lib \<Rightarrow> string \<Rightarrow> CertBundle \<Rightarrow> CertBundle option \<Rightarrow> string option" where
  "set_all_cas C configuration issuing accepted =
     (let others = (\<lambda>get. case accepted of None \<Rightarrow> [] | Some b \<Rightarrow> [get b])
      in case SetMachineCertificateAuthority C configuration (cb_machine issuing) (others cb_machine) of
           None \<Rightarrow> None
         | Some c1 \<Rightarrow>
             (case SetKubernetesAPICertificateAuthority C c1 (cb_kubernetesAPI issuing) (others cb_kubernetesAPI) of
                None \<Rightarrow> None
              | Some c2 \<Rightarrow> SetKubernetesAggregatorCertificateAuthority C c2 (cb_kubernetesAggregator issuing) (others cb_kubernetesAggregator)))"

text \<open>\<open>True\<close>: no error.\<close>

definition applyCARotationConfiguration :: "cp_env \<Rightarrow> string \<Rightarrow> cp_auth \<Rightarrow> string \<Rightarrow> bool cp" where
  "applyCARotationConfiguration E endpoint auth configuration = do {
     err \<leftarrow> cp_rpc E endpoint auth (CpApplyConfiguration configuration);
     (if err \<noteq> None then State_Monad.return False
      else do {
        rerr \<leftarrow> cp_rpc E endpoint auth CpReboot;
        State_Monad.return (rerr = None)
      })
   }"

definition edit_observed ::
  "'p ca_lib \<Rightarrow> cp_env \<Rightarrow> controlPlaneCARotationObservation \<Rightarrow> talos_bundle \<Rightarrow> talos_bundle \<Rightarrow> CertBundle \<Rightarrow> CertBundle option \<Rightarrow> bool cp" where
  "edit_observed C E ob activeBundle pendingBundle issuing accepted = do {
     let bundle = observed_bundle activeBundle pendingBundle (ro_usedPending ob);
     ok \<leftarrow> dialRotationBundle E (ro_endpoint ob) bundle;
     (if \<not> ok then State_Monad.return False
      else do {
        text \<leftarrow> cp_text E (ro_endpoint ob) (CpBundle bundle) CpActiveConfiguration;
        (case text of
           Inl _ \<Rightarrow> State_Monad.return False
         | Inr configuration \<Rightarrow>
             (case set_all_cas C configuration issuing accepted of
                None \<Rightarrow> State_Monad.return False
              | Some updated \<Rightarrow> applyCARotationConfiguration E (ro_endpoint ob) (CpBundle bundle) updated))
      })
   }"

definition advanceCATrust ::
  "'p ca_lib \<Rightarrow> cp_env \<Rightarrow> CertBundle \<Rightarrow> CertBundle \<Rightarrow> talos_bundle \<Rightarrow> talos_bundle \<Rightarrow> bool \<Rightarrow>
   controlPlaneCARotationObservation \<Rightarrow> bool cp" where
  "advanceCATrust C E active pending activeBundle pendingBundle cutover ob =
     (if cutover then edit_observed C E ob activeBundle pendingBundle pending (Some active)
      else edit_observed C E ob activeBundle pendingBundle active (Some pending))"

definition finalizeCATrust ::
  "'p ca_lib \<Rightarrow> cp_env \<Rightarrow> CertBundle \<Rightarrow> talos_bundle \<Rightarrow> talos_bundle \<Rightarrow> controlPlaneCARotationObservation \<Rightarrow> bool cp" where
  "finalizeCATrust C E pending activeBundle pendingBundle ob = edit_observed C E ob activeBundle pendingBundle pending None"

text \<open>The loop over the machines at a stage; it stops at the first error.\<close>

fun edit_stage ::
  "CATrustStage \<Rightarrow> (controlPlaneCARotationObservation \<Rightarrow> bool cp) \<Rightarrow> controlPlaneCARotationObservation list \<Rightarrow> bool cp" where
  "edit_stage stage edit [] = State_Monad.return True"
| "edit_stage stage edit (ob # obs) =
     (if ro_stage ob \<noteq> stage then edit_stage stage edit obs
      else do {
        ok \<leftarrow> edit ob;
        (if ok then edit_stage stage edit obs else State_Monad.return False)
      })"

definition validateCARotationPromotionState :: "string \<Rightarrow> bool" where
  "validateCARotationPromotionState state \<longleftrightarrow> state = BundleStatePending \<or> state = BundleStateActive"

definition set_bundle_state :: "string \<Rightarrow> Secret \<Rightarrow> Secret" where
  "set_bundle_state state secret = secret\<lparr>sec_labels := AList.update BundleStateLabel state (sec_labels secret)\<rparr>"

definition demoteCARotationSecret :: "k8s_lib \<Rightarrow> cp_env \<Rightarrow> TartCluster \<Rightarrow> int \<Rightarrow> cp_error option cp" where
  "demoteCARotationSecret L E cluster generation =
     (let m = tc_meta cluster; clusterID = cs_clusterID (tc_spec cluster)
      in if generation < 1 then State_Monad.return None
         else (case BundleName L (mt_name m) clusterID generation of
           Inl _ \<Rightarrow> State_Monad.return (Some CpOther)
         | Inr name \<Rightarrow> do {
             found \<leftarrow> cp_get E (\<lambda>T. te_get_secret T [] (mt_namespace m) name);
             (case found of
                Inl e \<Rightarrow> State_Monad.return (if e = ApiNotFound then None else Some (CpApi e))
              | Inr secret \<Rightarrow>
                  if map_get (sec_labels secret) BundleStateLabel \<noteq> BundleStateActive then State_Monad.return None
                  else if ValidateBundleSecretContract L (Some secret) (mt_namespace m) (mt_name m) clusterID generation
                            BundleStateActive (mt_uid m) \<noteq> None
                  then State_Monad.return (Some CpOther)
                  else do {
                    err \<leftarrow> cp_write E (CpSecretPatch (set_bundle_state BundleStateRetired secret));
                    State_Monad.return (map_option CpApi err)
                  })
           }))"

text \<open>The Secret of a generation whose state is \<open>Pending\<close> or \<open>Active\<close>.\<close>

definition promotable_secret :: "k8s_lib \<Rightarrow> cp_env \<Rightarrow> TartCluster \<Rightarrow> int \<Rightarrow> (cp_error + Secret) cp" where
  "promotable_secret L E cluster generation =
     (let m = tc_meta cluster; clusterID = cs_clusterID (tc_spec cluster)
      in case BundleName L (mt_name m) clusterID generation of
           Inl _ \<Rightarrow> State_Monad.return (Inl CpOther)
         | Inr name \<Rightarrow> do {
             found \<leftarrow> cp_get E (\<lambda>T. te_get_secret T [] (mt_namespace m) name);
             State_Monad.return
               (case found of
                  Inl e \<Rightarrow> Inl (CpApi e)
                | Inr secret \<Rightarrow>
                    (let state = map_get (sec_labels secret) BundleStateLabel
                     in if ValidateBundleSecretContract L (Some secret) (mt_namespace m) (mt_name m) clusterID generation state (mt_uid m) \<noteq> None
                        then Inl CpOther
                        else if \<not> validateCARotationPromotionState state then Inl CpOther
                        else Inr secret))
           })"

text \<open>From the promotion of the label on; \<open>previous\<close> is the generation to retire.\<close>

definition promote_secret :: "k8s_lib \<Rightarrow> cp_env \<Rightarrow> TartCluster \<Rightarrow> Secret \<Rightarrow> int \<Rightarrow> cp_error option cp" where
  "promote_secret L E cluster secret previous =
     (if map_get (sec_labels secret) BundleStateLabel = BundleStateActive
      then demoteCARotationSecret L E cluster previous
      else do {
        err \<leftarrow> cp_write E (CpSecretPatch (set_bundle_state BundleStateActive secret));
        (case err of
           Some e \<Rightarrow> State_Monad.return (Some (CpApi e))
         | None \<Rightarrow> demoteCARotationSecret L E cluster previous)
      })"

definition recoverCARotationPromotion :: "k8s_lib \<Rightarrow> cp_env \<Rightarrow> TartCluster \<Rightarrow> int \<Rightarrow> cp_error option cp" where
  "recoverCARotationPromotion L E cluster generation = do {
     found \<leftarrow> promotable_secret L E cluster generation;
     (case found of
        Inl e \<Rightarrow> State_Monad.return (Some e)
      | Inr secret \<Rightarrow> promote_secret L E cluster secret (generation - 1))
   }"

definition set_active_generation :: "int \<Rightarrow> TartCluster \<Rightarrow> TartCluster" where
  "set_active_generation generation cluster =
     cluster\<lparr>tc_status := (tc_status cluster)\<lparr>cst_activeSecretGeneration := generation\<rparr>\<rparr>"

definition promoteCARotation :: "k8s_lib \<Rightarrow> cp_env \<Rightarrow> TartCluster \<Rightarrow> int \<Rightarrow> cp_error option cp" where
  "promoteCARotation L E cluster target = do {
     found \<leftarrow> promotable_secret L E cluster target;
     (case found of
        Inl e \<Rightarrow> State_Monad.return (Some e)
      | Inr secret \<Rightarrow>
          if cst_activeSecretGeneration (tc_status cluster) = target then recoverCARotationPromotion L E cluster target
          else do {
            let promoted = set_active_generation target cluster;
            err \<leftarrow> cp_write E (CpClusterStatusPatch promoted);
            (case err of
               Some e \<Rightarrow> State_Monad.return (Some (CpApi e))
             | None \<Rightarrow> promote_secret L E promoted secret (cst_activeSecretGeneration (tc_status cluster)))
          })
   }"

definition rotation_completed :: controlPlaneCARotationState where
  "rotation_completed = rotation False ''Completed''
     ''CA rotation completed; the active cluster secret bundle generation was promoted.'' 0"

text \<open>\<open>None\<close>: not a completed request.\<close>

definition recoverCompletedCARotationRequest ::
  "k8s_lib \<Rightarrow> cp_env \<Rightarrow> TartCluster \<Rightarrow> int \<Rightarrow> (controlPlaneCARotationState \<times> cp_error option) option cp" where
  "recoverCompletedCARotationRequest L E cluster requested =
     (if requested \<noteq> cst_activeSecretGeneration (tc_status cluster) then State_Monad.return None
      else do {
        err \<leftarrow> recoverCARotationPromotion L E cluster requested;
        State_Monad.return
          (case err of
             None \<Rightarrow> Some (rotation_completed, None)
           | Some e \<Rightarrow>
               if e \<noteq> CpApi ApiNotFound
               then Some (rotation True ''CARotationPromotionFailed'' ''CA rotation promotion recovery failed.'' (15 * second), Some e)
               else None)
      })"

subsection \<open>The reconciliation\<close>

definition rotation_pass ::
  "k8s_lib \<Rightarrow> 'p ca_lib \<Rightarrow> cp_env \<Rightarrow> TartCluster \<Rightarrow> int \<Rightarrow> talos_bundle \<Rightarrow> talos_bundle \<Rightarrow> CertBundle \<Rightarrow> CertBundle \<Rightarrow>
   controlPlaneCARotationObservation list \<Rightarrow> (controlPlaneCARotationState \<times> cp_error option) cp" where
  "rotation_pass L C E cluster target activeBundle pendingBundle activeCAs pendingCAs observations =
     (let failed = (\<lambda>message. (rotation True reasonCATrustUpdateFailed message (15 * second), Some CpOther));
          going = (\<lambda>reason message. (rotation True reason message (15 * second), None))
      in case minimumCARotationStage observations of
           CATrustStageStable \<Rightarrow> do {
             ok \<leftarrow> edit_stage CATrustStageStable (advanceCATrust C E activeCAs pendingCAs activeBundle pendingBundle False) observations;
             State_Monad.return
               (if \<not> ok then failed ''Adding the next-generation certificate authorities to a control-plane Machine failed.''
                else going ''AddingAcceptedCA''
                  ''CA rotation is adding the next-generation certificate authorities as accepted CAs on every control-plane Machine.'')
           }
         | CATrustStageDualTrust \<Rightarrow> do {
             ok \<leftarrow> edit_stage CATrustStageDualTrust (advanceCATrust C E activeCAs pendingCAs activeBundle pendingBundle True) observations;
             State_Monad.return
               (if \<not> ok then failed ''Switching the issuing certificate authority on a control-plane Machine failed.''
                else going ''SwitchingIssuingCA''
                  ''CA rotation is switching the issuing certificate authority to the next generation on every control-plane Machine.'')
           }
         | CATrustStageCutover \<Rightarrow> do {
             ok \<leftarrow> edit_stage CATrustStageCutover (finalizeCATrust C E pendingCAs activeBundle pendingBundle) observations;
             State_Monad.return
               (if \<not> ok then failed ''Removing the previous-generation certificate authority from a control-plane Machine failed.''
                else going ''RemovingAcceptedCA''
                  ''CA rotation is removing the previous-generation certificate authority from every control-plane Machine.'')
           }
         | CATrustStageRotated \<Rightarrow> do {
             err \<leftarrow> promoteCARotation L E cluster target;
             State_Monad.return
               (case err of
                  Some e \<Rightarrow> (rotation True ''CARotationPromotionFailed''
                    ''CA rotation completed on every control-plane Machine, but promoting the active secret bundle generation failed.''
                    (15 * second), Some e)
                | None \<Rightarrow> (rotation_completed, None))
           }
         | CATrustStageUnknown \<Rightarrow> State_Monad.return (ca_unrecognized, None))"

definition observe_and_rotate ::
  "k8s_lib \<Rightarrow> 'p ca_lib \<Rightarrow> cp_env \<Rightarrow> TartCluster \<Rightarrow> int \<Rightarrow> capi_machine list \<Rightarrow> (controlPlaneCARotationState \<times> cp_error option) cp" where
  "observe_and_rotate L C E cluster target machines = do {
     act \<leftarrow> observeRotationBundle L E cluster (cst_activeSecretGeneration (tc_status cluster)) BundleStateActive;
     (case act of
        None \<Rightarrow> State_Monad.return (rotation True ''ActiveBundleUnavailable''
          ''The active cluster secret bundle could not be observed for CA rotation.'' (30 * second), None)
      | Some (activeBundle, activeCAs) \<Rightarrow> do {
          pend \<leftarrow> observeRotationBundle L E cluster target BundleStatePending;
          (case pend of
             None \<Rightarrow> State_Monad.return (rotation True ''PendingBundleUnavailable''
               ''The next-generation Pending cluster secret bundle is not available yet.'' (30 * second), None)
           | Some (pendingBundle, pendingCAs) \<Rightarrow> do {
               observed \<leftarrow> observeControlPlaneCARotation L C E activeBundle pendingBundle activeCAs pendingCAs machines;
               (case observed of
                  Inl halt \<Rightarrow> State_Monad.return (halt, None)
                | Inr observations \<Rightarrow>
                    if length observations = 0
                    then State_Monad.return (rotation True reasonMachineUnavailable
                      ''No control-plane Machine is available yet for CA rotation.'' (30 * second), None)
                    else rotation_pass L C E cluster target activeBundle pendingBundle activeCAs pendingCAs observations)
             })
        })
   }"

definition reconcileCARotation ::
  "k8s_lib \<Rightarrow> 'p ca_lib \<Rightarrow> cp_env \<Rightarrow> TartCluster \<Rightarrow> bool \<Rightarrow> (controlPlaneCARotationState \<times> cp_error option) cp" where
  "reconcileCARotation L C E cluster scaleDownPending =
     (let notRequested = rotation False ''NotRequested'' ''No CA rotation has been requested.'' 0;
          generation = cst_activeSecretGeneration (tc_status cluster)
      in case cs_caRotationRequestedGeneration (tc_spec cluster) of
           None \<Rightarrow> State_Monad.return (notRequested, None)
         | Some requested \<Rightarrow>
             if scaleDownPending
             then State_Monad.return (rotation True ''ScaleDownInProgress''
               ''CA rotation is paused while a control-plane scale-down is in progress.'' controlPlaneScaleDownRequeue, None)
             else if ClusterID_IsZero (cs_clusterID (tc_spec cluster)) then State_Monad.return (notRequested, None)
             else (case NextGeneration generation of
                 Inl _ \<Rightarrow> State_Monad.return (rotation True ''RotationGenerationInvalid''
                   ''The next CA rotation secret bundle generation is invalid.'' 0, Some CpOther)
               | Inr target \<Rightarrow>
                   if requested \<noteq> target
                   then do {
                     recovered \<leftarrow> recoverCompletedCARotationRequest L E cluster requested;
                     State_Monad.return
                       (case recovered of
                          Some result \<Rightarrow> result
                        | None \<Rightarrow> (rotation False ''InvalidCARotationRequest''
                            ''The requested CA rotation generation does not match the next expected generation.'' 0, None))
                   }
                   else do {
                     listed \<leftarrow> clusterMachinesForCARotation E cluster;
                     (case listed of
                        Inl e \<Rightarrow> State_Monad.return (rotation True reasonMachineUnavailable
                          ''The cluster Machines could not be listed for CA rotation; rotation is paused.'' (30 * second), Some (CpApi e))
                      | Inr machines \<Rightarrow>
                          if length machines = 0
                          then State_Monad.return (rotation True reasonMachineUnavailable
                            ''No CAPI Machine is available for CA rotation yet; rotation is paused until the cluster Machine inventory can be observed.''
                            (30 * second), None)
                          else observe_and_rotate L C E cluster target machines)
                   }))"

subsection \<open>What a pass observes\<close>

lemma emits_dialRotationBundle: "emits (dialRotationBundle E ep b) {e. cp_observes e}"
  unfolding dialRotationBundle_def by (intro emit_rules) auto

lemma emits_dialForRotation: "emits (dialForRotation E ep a p) {e. cp_observes e}"
  unfolding dialForRotation_def by (intro emit_rules emits_dialRotationBundle)

lemma emits_observeControlPlaneCARotation:
  "emits (observeControlPlaneCARotation L C E a p ac pc machines) {e. cp_observes e}"
  by (induction machines) (auto intro!: emit_rules emits_dialForRotation simp: Let_def)

lemma emits_observeRotationBundle [emit_rules]: "emits (observeRotationBundle L E cluster g st) S"
  unfolding observeRotationBundle_def Let_def by (intro emit_rules)

lemma observeRotationBundle_reads: "\<exists>r. run_state (observeRotationBundle L E cluster g st) tr = (r, tr)"
  by (intro emits_nothing emits_observeRotationBundle)

text \<open>The stage of an observation is read from the configuration that the machine itself
  returned.\<close>

definition rotation_observed ::
  "'p ca_lib \<Rightarrow> cp_env \<Rightarrow> talos_bundle \<Rightarrow> talos_bundle \<Rightarrow> CertBundle \<Rightarrow> CertBundle \<Rightarrow> controlPlaneCARotationObservation \<Rightarrow> bool" where
  "rotation_observed C E active pending activeCAs pendingCAs ob \<longleftrightarrow>
     ro_stage ob \<noteq> CATrustStageUnknown \<and>
     (\<exists>t configuration. ce_text E t (CpRpc (ro_endpoint ob) (CpBundle (observed_bundle active pending (ro_usedPending ob))) CpActiveConfiguration) = Inr configuration \<and>
        ObserveCATrustStage C configuration activeCAs pendingCAs = Some (ro_stage ob))"

lemma observe_rotation:
  "run_state (observeControlPlaneCARotation L C E a p ac pc machines) tr = (Inr obs, tr') \<Longrightarrow>
     map ro_machine obs = filter (\<lambda>m. mt_deletionTimestamp (cm_meta m) = None) machines \<and>
     list_all (rotation_observed C E a p ac pc) obs"
proof (induction machines arbitrary: tr tr' obs)
  case (Cons m ms)
  show ?case
  proof (cases "mt_deletionTimestamp (cm_meta m) = None")
    case False
    with Cons show ?thesis by simp
  next
    case True
    obtain i where i: "run_state (observeMachineIdentity L E m) tr = (i, tr)" using observeMachineIdentity_reads by blast
    with Cons.prems True obtain h c where hc: "i = Some (h, c)" by (cases i) auto
    obtain d t1 where d: "run_state (dialForRotation E (HostTalosEndpoint h) a p) tr = (d, t1)" by fastforce
    with Cons.prems True i hc obtain u where u: "d = Some u" by (cases d) (auto simp: Let_def)
    let ?rpc = "CpRpc (HostTalosEndpoint h) (CpBundle (observed_bundle a p u)) CpActiveConfiguration"
    obtain rest t2 where rest: "run_state (observeControlPlaneCARotation L C E a p ac pc ms) (t1 @ [?rpc]) = (rest, t2)" by fastforce
    from Cons.prems True i hc d u rest obtain cfg st os where
      o: "ce_text E t1 ?rpc = Inr cfg" "ObserveCATrustStage C cfg ac pc = Some st" "st \<noteq> CATrustStageUnknown" "rest = Inr os"
         "obs = \<lparr>ro_machine = m, ro_host = h, ro_endpoint = HostTalosEndpoint h, ro_usedPending = u, ro_stage = st\<rparr> # os"
      by (auto simp: Let_def cp_text_def split: sum.splits option.splits if_splits)
    have "map ro_machine os = filter (\<lambda>m. mt_deletionTimestamp (cm_meta m) = None) ms" "list_all (rotation_observed C E a p ac pc) os"
      using Cons.IH rest o(4) by blast+
    moreover have "rotation_observed C E a p ac pc
        \<lparr>ro_machine = m, ro_host = h, ro_endpoint = HostTalosEndpoint h, ro_usedPending = u, ro_stage = st\<rparr>"
      using o(1-3) by (auto simp: rotation_observed_def)
    ultimately show ?thesis using o(5) True by simp
  qed
qed auto

lemma minimum_from_le:
  "stage_index (minimum_from m obs) \<le> stage_index m \<and> (\<forall>ob \<in> set obs. stage_index (minimum_from m obs) \<le> stage_index (ro_stage ob))"
  by (induction obs arbitrary: m) (auto, (meson le_trans less_imp_le not_less)+)

lemma minimum_from_in: "minimum_from m obs = m \<or> minimum_from m obs \<in> ro_stage ` set obs"
proof (induction obs arbitrary: m)
  case (Cons ob obs)
  show ?case using Cons.IH[of "if stage_index (ro_stage ob) < stage_index m then ro_stage ob else m"]
    by (auto split: if_splits)
qed simp

lemma minimum_stage:
  assumes "obs \<noteq> []"
  shows "minimumCARotationStage obs \<in> ro_stage ` set obs"
    and "ob \<in> set obs \<Longrightarrow> stage_index (minimumCARotationStage obs) \<le> stage_index (ro_stage ob)"
  using assms minimum_from_in[of "ro_stage (hd obs)" "tl obs"] minimum_from_le[of "ro_stage (hd obs)" "tl obs"]
  by (cases obs; auto simp: minimumCARotationStage_def)+

lemma stage_index_inj: "stage_index s = stage_index t \<longleftrightarrow> s = t"
  by (cases s; cases t) auto

subsection \<open>What a pass changes\<close>

abbreviation apply_event :: "cp_event \<Rightarrow> bool" where
  "apply_event e \<equiv> \<exists>ep au c. e = CpRpc ep au (CpApplyConfiguration c)"

text \<open>The configuration that is applied at a stage: \<open>issuing\<close> issues, \<open>accepted\<close> is trusted as
  well.\<close>

fun stage_edit :: "CATrustStage \<Rightarrow> CertBundle \<Rightarrow> CertBundle \<Rightarrow> (CertBundle \<times> CertBundle option) option" where
  "stage_edit CATrustStageStable active pending = Some (active, Some pending)"
| "stage_edit CATrustStageDualTrust active pending = Some (pending, Some active)"
| "stage_edit CATrustStageCutover active pending = Some (pending, None)"
| "stage_edit _ active pending = None"

definition edit_event ::
  "'p ca_lib \<Rightarrow> cp_env \<Rightarrow> CertBundle \<Rightarrow> CertBundle option \<Rightarrow> controlPlaneCARotationObservation \<Rightarrow> cp_event \<Rightarrow> bool" where
  "edit_event C E issuing accepted ob e \<longleftrightarrow>
     cp_observes e \<or> (\<exists>au. e = CpRpc (ro_endpoint ob) au CpReboot) \<or>
     (\<exists>au t cfg c. e = CpRpc (ro_endpoint ob) au (CpApplyConfiguration c) \<and>
        ce_text E t (CpRpc (ro_endpoint ob) au CpActiveConfiguration) = Inr cfg \<and> set_all_cas C cfg issuing accepted = Some c)"

definition reboots :: "controlPlaneCARotationObservation \<Rightarrow> cp_event \<Rightarrow> bool" where
  "reboots ob e \<longleftrightarrow> (\<exists>au. e = CpRpc (ro_endpoint ob) au CpReboot)"

lemma edit_observed_events:
  assumes run: "run_state (edit_observed C E ob a p issuing accepted) tr = (ok, tr')"
  shows "\<exists>es. tr' = tr @ es \<and> (\<forall>e \<in> set es. edit_event C E issuing accepted ob e) \<and> (ok \<longrightarrow> (\<exists>e \<in> set es. reboots ob e))"
proof -
  let ?b = "observed_bundle a p (ro_usedPending ob)"
  obtain d t1 where d: "run_state (dialRotationBundle E (ro_endpoint ob) ?b) tr = (d, t1)" by fastforce
  obtain es where es: "t1 = tr @ es" "set es \<subseteq> {e. cp_observes e}" using emitsD[OF emits_dialRotationBundle d] by blast
  then have quiet: "\<forall>e \<in> set es. edit_event C E issuing accepted ob e" by (auto simp: edit_event_def)
  let ?r = "CpRpc (ro_endpoint ob) (CpBundle ?b)"
  have read: "edit_event C E issuing accepted ob (?r CpActiveConfiguration)" "edit_event C E issuing accepted ob (?r CpReboot)"
    by (simp_all add: edit_event_def)
  show ?thesis
  proof (cases d)
    case False
    with run d es quiet show ?thesis by (auto simp: edit_observed_def Let_def)
  next
    case True
    show ?thesis
    proof (cases "ce_text E t1 (?r CpActiveConfiguration)")
      case (Inl e)
      with run d True es quiet read show ?thesis
        by (intro exI[of _ "es @ [?r CpActiveConfiguration]"]) (auto simp: edit_observed_def Let_def cp_text_def)
    next
      case (Inr cfg)
      show ?thesis
      proof (cases "set_all_cas C cfg issuing accepted")
        case None
        with run d True Inr es quiet read show ?thesis
          by (intro exI[of _ "es @ [?r CpActiveConfiguration]"]) (auto simp: edit_observed_def Let_def cp_text_def)
      next
        case (Some c)
        with Inr have app: "edit_event C E issuing accepted ob (?r (CpApplyConfiguration c))"
          unfolding edit_event_def by blast
        have rb: "reboots ob (?r CpReboot)" by (simp add: reboots_def)
        from run d True Inr Some es
        consider "\<not> ok" "tr' = tr @ es @ [?r CpActiveConfiguration, ?r (CpApplyConfiguration c)]"
          | "tr' = tr @ es @ [?r CpActiveConfiguration, ?r (CpApplyConfiguration c), ?r CpReboot]"
          by (auto simp: edit_observed_def Let_def cp_text_def applyCARotationConfiguration_def cp_rpc_def split: if_splits)
        then show ?thesis
        proof cases
          case 1
          with quiet read app show ?thesis
            by (intro exI[of _ "es @ [?r CpActiveConfiguration, ?r (CpApplyConfiguration c)]"]) auto
        next
          case 2
          with quiet read app rb show ?thesis
            by (intro exI[of _ "es @ [?r CpActiveConfiguration, ?r (CpApplyConfiguration c), ?r CpReboot]"]) auto
        qed
      qed
    qed
  qed
qed

lemma edit_stage_events:
  assumes "run_state (edit_stage stage edit obs) tr = (ok, tr')"
    and "\<And>ob t ok t'. ob \<in> set obs \<Longrightarrow> ro_stage ob = stage \<Longrightarrow> run_state (edit ob) t = (ok, t') \<Longrightarrow>
      \<exists>es. t' = t @ es \<and> (\<forall>e \<in> set es. P ob e) \<and> (ok \<longrightarrow> (\<exists>e \<in> set es. Q ob e))"
  shows "\<exists>es. tr' = tr @ es \<and> (\<forall>e \<in> set es. \<exists>ob \<in> set obs. ro_stage ob = stage \<and> P ob e) \<and>
     (ok \<longrightarrow> (\<forall>ob \<in> set obs. ro_stage ob = stage \<longrightarrow> (\<exists>e \<in> set es. Q ob e)))"
  using assms
proof (induction obs arbitrary: tr)
  case (Cons ob obs)
  show ?case
  proof (cases "ro_stage ob = stage")
    case False
    with Cons.prems Cons.IH[of tr] show ?thesis by (auto; metis)
  next
    case True
    obtain k t1 where k: "run_state (edit ob) tr = (k, t1)" by fastforce
    obtain es where es: "t1 = tr @ es" "\<forall>e \<in> set es. P ob e" "k \<longrightarrow> (\<exists>e \<in> set es. Q ob e)"
      using Cons.prems(2)[OF _ True k] by auto
    show ?thesis
    proof (cases k)
      case False
      with Cons.prems(1) True k es show ?thesis by (auto intro!: exI[of _ es])
    next
      case True': True
      with Cons.prems(1) True k have "run_state (edit_stage stage edit obs) t1 = (ok, tr')" by simp
      from Cons.IH[OF this] Cons.prems(2) obtain es2 where
        es2: "tr' = t1 @ es2" "\<forall>e \<in> set es2. \<exists>ob \<in> set obs. ro_stage ob = stage \<and> P ob e"
          "ok \<longrightarrow> (\<forall>ob \<in> set obs. ro_stage ob = stage \<longrightarrow> (\<exists>e \<in> set es2. Q ob e))" by auto
      with es True True' show ?thesis by (intro exI[of _ "es @ es2"]) auto
    qed
  qed
qed auto

text \<open>What a rotation changes: the configuration of the machines, the generation in the status of
  the cluster, and the labels of the bundle Secrets.\<close>

fun rotates :: "cp_event \<Rightarrow> bool" where
  "rotates (CpRpc _ _ r) = (r = CpReboot \<or> (\<exists>c. r = CpApplyConfiguration c))"
| "rotates (CpClusterStatusPatch _) = True"
| "rotates (CpSecretPatch _) = True"
| "rotates _ = False"

lemma observes_not_rotates: "cp_observes e \<Longrightarrow> \<not> rotates e"
  by (cases e) auto

lemma emits_demote: "emits (demoteCARotationSecret L E cluster g) (range CpSecretPatch)"
  unfolding demoteCARotationSecret_def Let_def by (intro emit_rules) auto

lemma emits_promotable [emit_rules]: "emits (promotable_secret L E cluster g) S"
  unfolding promotable_secret_def Let_def by (intro emit_rules)

lemma emits_promote_secret: "emits (promote_secret L E cluster s g) (range CpSecretPatch)"
  unfolding promote_secret_def by (intro emit_rules emits_demote) auto

lemma emits_recoverCARotationPromotion: "emits (recoverCARotationPromotion L E cluster g) (range CpSecretPatch)"
  unfolding recoverCARotationPromotion_def by (intro emit_rules emits_promote_secret)

lemma emits_recoverCompleted: "emits (recoverCompletedCARotationRequest L E cluster g) (range CpSecretPatch)"
  unfolding recoverCompletedCARotationRequest_def by (intro emit_rules emits_recoverCARotationPromotion)

lemma emits_promoteCARotation:
  "emits (promoteCARotation L E cluster target) (insert (CpClusterStatusPatch (set_active_generation target cluster)) (range CpSecretPatch))"
  unfolding promoteCARotation_def Let_def
  by (intro emit_rules emits_mono[OF emits_promote_secret] emits_mono[OF emits_recoverCARotationPromotion]) auto

text \<open>The order of a promotion: the status of the cluster first, the Secrets after it.\<close>

definition promotes :: "TartCluster \<Rightarrow> int \<Rightarrow> cp_event list \<Rightarrow> bool" where
  "promotes cluster target es \<longleftrightarrow> es = [] \<or>
     (\<exists>rest. es = CpClusterStatusPatch (set_active_generation target cluster) # rest \<and> set rest \<subseteq> range CpSecretPatch)"

lemma promoteCARotation_run:
  assumes run: "run_state (promoteCARotation L E cluster target) tr = (r, tr')"
    and fresh: "cst_activeSecretGeneration (tc_status cluster) \<noteq> target"
  shows "\<exists>es. tr' = tr @ es \<and> promotes cluster target es"
proof -
  obtain f where f: "run_state (promotable_secret L E cluster target) tr = (f, tr)"
    using emits_nothing[OF emits_promotable] by blast
  show ?thesis
  proof (cases f)
    case (Inl e)
    with run f show ?thesis by (simp add: promoteCARotation_def promotes_def)
  next
    case (Inr secret)
    let ?c = "set_active_generation target cluster"
    let ?t = "tr @ [CpClusterStatusPatch ?c]"
    obtain x t2 where x: "run_state (promote_secret L E ?c secret (cst_activeSecretGeneration (tc_status cluster))) ?t = (x, t2)"
      by fastforce
    obtain rest where rest: "t2 = ?t @ rest" "set rest \<subseteq> range CpSecretPatch"
      using emitsD[OF emits_promote_secret x] by blast
    have "tr' = ?t \<or> tr' = t2"
      using run f Inr fresh x by (auto simp: promoteCARotation_def cp_write_def Let_def split: option.splits)
    with rest show ?thesis
      by (auto simp: promotes_def intro: exI[of _ "[CpClusterStatusPatch ?c]"] exI[of _ "CpClusterStatusPatch ?c # rest"])
  qed
qed

lemma promotes_secret:
  assumes "promotes cluster target es" "CpSecretPatch s \<in> set es"
  shows "\<exists>before after. es = before @ CpSecretPatch s # after \<and> CpClusterStatusPatch (set_active_generation target cluster) \<in> set before"
proof -
  from assms obtain rest where r: "es = CpClusterStatusPatch (set_active_generation target cluster) # rest" "CpSecretPatch s \<in> set rest"
    by (auto simp: promotes_def)
  from split_list[OF r(2)] r(1) show ?thesis by (metis append_Cons list.set_intros(1))
qed

lemma stage_edits:
  "advanceCATrust C E a p aB pB False = (\<lambda>ob. edit_observed C E ob aB pB a (Some p))"
  "advanceCATrust C E a p aB pB True = (\<lambda>ob. edit_observed C E ob aB pB p (Some a))"
  "finalizeCATrust C E p aB pB = (\<lambda>ob. edit_observed C E ob aB pB p None)"
  by (simp_all add: fun_eq_iff advanceCATrust_def finalizeCATrust_def)

lemma rotation_pass_events:
  assumes run: "run_state (rotation_pass L C E cluster target aB pB aCA pCA obs) tr = ((st, err), tr @ new)"
  defines "stage \<equiv> minimumCARotationStage obs"
  shows "CpRpc ep au (CpApplyConfiguration c) \<in> set new \<Longrightarrow>
      \<exists>ob issuing accepted t cfg. ob \<in> set obs \<and> ro_stage ob = stage \<and> ep = ro_endpoint ob \<and>
        stage_edit stage aCA pCA = Some (issuing, accepted) \<and>
        ce_text E t (CpRpc ep au CpActiveConfiguration) = Inr cfg \<and> set_all_cas C cfg issuing accepted = Some c"
    and "CpRpc ep au CpReboot \<in> set new \<Longrightarrow> \<exists>ob \<in> set obs. ro_stage ob = stage \<and> ep = ro_endpoint ob \<and> stage_edit stage aCA pCA \<noteq> None"
    and "CpClusterStatusPatch k \<in> set new \<Longrightarrow> stage = CATrustStageRotated \<and> k = set_active_generation target cluster"
    and "err = None \<Longrightarrow> stage_edit stage aCA pCA \<noteq> None \<Longrightarrow> ob \<in> set obs \<Longrightarrow> ro_stage ob = stage \<Longrightarrow>
      \<exists>e \<in> set new. reboots ob e"
    and "CpSecretPatch s \<in> set new \<Longrightarrow> cst_activeSecretGeneration (tc_status cluster) \<noteq> target \<Longrightarrow>
      stage = CATrustStageRotated \<and>
      (\<exists>before after. new = before @ CpSecretPatch s # after \<and> CpClusterStatusPatch (set_active_generation target cluster) \<in> set before)"
proof -
  have edits: "(\<forall>e \<in> set new. \<exists>ob \<in> set obs. ro_stage ob = stage \<and> edit_event C E issuing accepted ob e) \<and>
      (err = None \<longrightarrow> (\<forall>ob \<in> set obs. ro_stage ob = stage \<longrightarrow> (\<exists>e \<in> set new. reboots ob e)))"
    if e: "stage_edit stage aCA pCA = Some (issuing, accepted)" for issuing accepted
  proof -
    let ?edit = "\<lambda>ob. edit_observed C E ob aB pB issuing accepted"
    obtain ok t1 where run1: "run_state (edit_stage stage ?edit obs) tr = (ok, t1)" by fastforce
    have "t1 = tr @ new \<and> (err = None \<longrightarrow> ok)"
      using run run1 e unfolding stage_def[symmetric]
      by (cases stage)
         (auto simp: rotation_pass_def Let_def stage_def[symmetric] stage_edits split: if_splits prod.splits)
    moreover note edit_stage_events[OF run1, of "edit_event C E issuing accepted" reboots, OF edit_observed_events]
    ultimately show ?thesis by auto
  qed
  have other: "set new \<subseteq> insert (CpClusterStatusPatch (set_active_generation target cluster)) (range CpSecretPatch) \<and>
      (new \<noteq> [] \<longrightarrow> stage = CATrustStageRotated)"
    if e: "stage_edit stage aCA pCA = None"
  proof -
    from e consider "stage = CATrustStageRotated" | "stage = CATrustStageUnknown" by (cases stage) auto
    then show ?thesis
    proof cases
      case 1
      obtain x t1 where x: "run_state (promoteCARotation L E cluster target) tr = (x, t1)" by fastforce
      with run 1 have "t1 = tr @ new" by (simp add: rotation_pass_def Let_def stage_def[symmetric] split: option.splits)
      with emitsD[OF emits_promoteCARotation x] 1 show ?thesis by auto
    next
      case 2
      with run show ?thesis by (simp add: rotation_pass_def Let_def stage_def[symmetric])
    qed
  qed
  show "CpRpc ep au (CpApplyConfiguration c) \<in> set new \<Longrightarrow>
      \<exists>ob issuing accepted t cfg. ob \<in> set obs \<and> ro_stage ob = stage \<and> ep = ro_endpoint ob \<and>
        stage_edit stage aCA pCA = Some (issuing, accepted) \<and>
        ce_text E t (CpRpc ep au CpActiveConfiguration) = Inr cfg \<and> set_all_cas C cfg issuing accepted = Some c"
    using edits other by (cases "stage_edit stage aCA pCA") (fastforce simp: edit_event_def)+
  show "CpRpc ep au CpReboot \<in> set new \<Longrightarrow> \<exists>ob \<in> set obs. ro_stage ob = stage \<and> ep = ro_endpoint ob \<and> stage_edit stage aCA pCA \<noteq> None"
    using edits other by (cases "stage_edit stage aCA pCA") (fastforce simp: edit_event_def)+
  show "CpClusterStatusPatch k \<in> set new \<Longrightarrow> stage = CATrustStageRotated \<and> k = set_active_generation target cluster"
    using edits other by (cases "stage_edit stage aCA pCA") (fastforce simp: edit_event_def)+
  show "err = None \<Longrightarrow> stage_edit stage aCA pCA \<noteq> None \<Longrightarrow> ob \<in> set obs \<Longrightarrow> ro_stage ob = stage \<Longrightarrow>
      \<exists>e \<in> set new. reboots ob e"
    using edits by (cases "stage_edit stage aCA pCA") fastforce+
  show "stage = CATrustStageRotated \<and>
      (\<exists>before after. new = before @ CpSecretPatch s # after \<and> CpClusterStatusPatch (set_active_generation target cluster) \<in> set before)"
    if s: "CpSecretPatch s \<in> set new" and fresh: "cst_activeSecretGeneration (tc_status cluster) \<noteq> target"
  proof -
    from s have e: "stage_edit stage aCA pCA = None" using edits by (cases "stage_edit stage aCA pCA") (fastforce simp: edit_event_def)+
    with other s have st: "stage = CATrustStageRotated" by auto
    obtain x t1 where x: "run_state (promoteCARotation L E cluster target) tr = (x, t1)" by fastforce
    with run st have "t1 = tr @ new" by (simp add: rotation_pass_def Let_def stage_def[symmetric] split: option.splits)
    with promoteCARotation_run[OF x fresh] promotes_secret s st show ?thesis by fastforce
  qed
qed

text \<open>The pass that a rotation is in: what was read before the first change.\<close>

definition rotation_of_pass ::
  "k8s_lib \<Rightarrow> 'p ca_lib \<Rightarrow> cp_env \<Rightarrow> TartCluster \<Rightarrow> cp_event list \<Rightarrow> int \<Rightarrow> (talos_bundle \<times> CertBundle) \<Rightarrow> (talos_bundle \<times> CertBundle) \<Rightarrow>
   controlPlaneCARotationObservation list \<Rightarrow> bool" where
  "rotation_of_pass L C E cluster tr target active pending obs \<longleftrightarrow>
     (let g = cst_activeSecretGeneration (tc_status cluster)
      in cs_caRotationRequestedGeneration (tc_spec cluster) = Some target \<and> NextGeneration g = Inr target \<and>
         run_state (observeRotationBundle L E cluster g BundleStateActive) tr = (Some active, tr) \<and>
         run_state (observeRotationBundle L E cluster target BundleStatePending) tr = (Some pending, tr) \<and>
         (\<exists>machines. ce_list_machines E tr (mt_namespace (tc_meta cluster)) = Inr machines \<and>
            map ro_machine obs = filter (\<lambda>m. mt_deletionTimestamp (cm_meta m) = None)
              (filter (\<lambda>m. cm_clusterName m = mt_name (tc_meta cluster)) machines)) \<and>
         obs \<noteq> [] \<and> list_all (rotation_observed C E (fst active) (fst pending) (snd active) (snd pending)) obs)"

lemma reconcileCARotation_pass:
  assumes run: "run_state (reconcileCARotation L C E cluster scaleDown) tr = (r, tr @ new)"
    and e: "e \<in> set new" "rotates e"
  obtains (pass) target aB aCA pB pCA obs seen new2 where "\<not> scaleDown"
    "rotation_of_pass L C E cluster tr target (aB, aCA) (pB, pCA) obs" "new = seen @ new2" "list_all cp_observes seen"
    "run_state (rotation_pass L C E cluster target aB pB aCA pCA obs) (tr @ seen) = (r, (tr @ seen) @ new2)"
  | (resumed) "\<not> scaleDown"
    "cs_caRotationRequestedGeneration (tc_spec cluster) = Some (cst_activeSecretGeneration (tc_status cluster))"
    "set new \<subseteq> range CpSecretPatch"
proof -
  let ?g = "cst_activeSecretGeneration (tc_status cluster)"
  from run e obtain requested where req: "cs_caRotationRequestedGeneration (tc_spec cluster) = Some requested" "\<not> scaleDown"
      "\<not> ClusterID_IsZero (cs_clusterID (tc_spec cluster))"
    by (auto simp: reconcileCARotation_def Let_def split: option.splits if_splits)
  with run e obtain target where target: "NextGeneration ?g = Inr target"
    by (cases "NextGeneration ?g") (auto simp: reconcileCARotation_def Let_def)
  have "requested = target \<or> (requested = ?g \<and> set new \<subseteq> range CpSecretPatch)"
  proof (cases "requested = target")
    case ne: False
    obtain x t1 where x: "run_state (recoverCompletedCARotationRequest L E cluster requested) tr = (x, t1)" by fastforce
    with run req target ne have "t1 = tr @ new"
      by (simp add: reconcileCARotation_def Let_def split: option.splits)
    with emitsD[OF emits_recoverCompleted x] x e show ?thesis by (auto simp: recoverCompletedCARotationRequest_def split: if_splits)
  qed simp
  then consider (same) "requested = target" | (again) "requested = ?g" "set new \<subseteq> range CpSecretPatch" by blast
  then show thesis
  proof cases
  case again
  with req resumed show thesis by simp
  next
  case same
  with run e req target obtain machines where machines: "ce_list_machines E tr (mt_namespace (tc_meta cluster)) = Inr machines"
    by (cases "ce_list_machines E tr (mt_namespace (tc_meta cluster))")
       (auto simp: reconcileCARotation_def Let_def clusterMachinesForCARotation_def)
  let ?ms = "filter (\<lambda>m. cm_clusterName m = mt_name (tc_meta cluster)) machines"
  have run1: "run_state (observe_and_rotate L C E cluster target ?ms) tr = (r, tr @ new)"
    using run e req target same machines
    by (auto simp: reconcileCARotation_def Let_def clusterMachinesForCARotation_def split: if_splits)
  obtain a where a: "run_state (observeRotationBundle L E cluster ?g BundleStateActive) tr = (a, tr)"
    using observeRotationBundle_reads by blast
  with run1 e obtain aB aCA where a': "a = Some (aB, aCA)" by (cases a) (auto simp: observe_and_rotate_def)
  obtain p where p: "run_state (observeRotationBundle L E cluster target BundleStatePending) tr = (p, tr)"
    using observeRotationBundle_reads by blast
  with run1 e a a' obtain pB pCA where p': "p = Some (pB, pCA)" by (cases p) (auto simp: observe_and_rotate_def)
  obtain ob t1 where ob: "run_state (observeControlPlaneCARotation L C E aB pB aCA pCA ?ms) tr = (ob, t1)" by fastforce
  obtain seen where seen: "t1 = tr @ seen" "set seen \<subseteq> {e. cp_observes e}"
    using emitsD[OF emits_observeControlPlaneCARotation ob] by blast
  then have quiet: "tr @ new = t1 \<Longrightarrow> False" using e observes_not_rotates by auto
  with run1 a a' p p' ob obtain obs where obs: "ob = Inr obs" "obs \<noteq> []"
    by (cases ob) (auto simp: observe_and_rotate_def split: if_splits)
  with run1 a a' p p' ob have passed: "run_state (rotation_pass L C E cluster target aB pB aCA pCA obs) t1 = (r, tr @ new)"
    by (simp add: observe_and_rotate_def)
  have "emits (rotation_pass L C E cluster target aB pB aCA pCA obs) UNIV"
  proof -
    have "emits (edit_stage stage edit os) UNIV" if "\<And>ob. emits (edit ob) UNIV" for stage edit os
      using that by (induction os) (auto intro!: emit_rules)
    moreover have "emits (edit_observed C E ob aB pB i ac) UNIV" for ob i ac
      unfolding edit_observed_def applyCARotationConfiguration_def Let_def
      by (intro emit_rules emits_mono[OF emits_dialRotationBundle]) auto
    ultimately show ?thesis
      unfolding rotation_pass_def Let_def stage_edits
      by (cases "minimumCARotationStage obs") (auto intro!: emit_rules emits_mono[OF emits_promoteCARotation])
  qed
  from emitsD[OF this passed] seen obtain new2 where new2: "new = seen @ new2" by auto
  have "rotation_of_pass L C E cluster tr target (aB, aCA) (pB, pCA) obs"
    using req(1) same target a a' p p' machines obs observe_rotation[OF ob[unfolded obs(1)]]
    by (simp add: rotation_of_pass_def Let_def)
  moreover have "list_all cp_observes seen" using seen(2) by (auto simp: list_all_iff)
  ultimately show thesis using pass[OF req(2) _ new2] passed seen new2 by simp
  qed
qed

subsection \<open>The edits move a machine one stage on\<close>

text \<open>What the code relies on: a patch of the CAs of a control plane replaces the issuing CA and
  the accepted ones of its section, and touches nothing else of what is read.\<close>

definition ca_patch_law :: "'p ca_lib \<Rightarrow> bool" where
  "ca_patch_law C \<longleftrightarrow>
     (\<forall>c p ca acc c'. ca_load C c = Some p \<longrightarrow> ca_controlPlane C p \<longrightarrow>
        (ca_patch_machine C p ca acc = Some c' \<longrightarrow> \<not> blank c' \<and>
           (\<exists>q. ca_load C c' = Some q \<and> ca_controlPlane C q \<and> ca_security C q = Some (Some ca, map Some acc) \<and>
              ca_api C q = ca_api C p \<and> ca_aggregator C q = ca_aggregator C p)) \<and>
        (ca_patch_api C c ca acc = Some c' \<longrightarrow> \<not> blank c' \<and>
           (\<exists>q. ca_load C c' = Some q \<and> ca_controlPlane C q \<and> ca_api C q = Some (Some ca, map Some acc) \<and>
              ca_security C q = ca_security C p \<and> ca_aggregator C q = ca_aggregator C p)) \<and>
        (ca_patch_aggregator C c ca acc = Some c' \<longrightarrow> \<not> blank c' \<and>
           (\<exists>q. ca_load C c' = Some q \<and> ca_controlPlane C q \<and> ca_aggregator C q = Some (Some ca, map Some acc) \<and>
              ca_security C q = ca_security C p \<and> ca_api C q = ca_api C p)))"

fun next_stage :: "CATrustStage \<Rightarrow> CATrustStage" where
  "next_stage CATrustStageStable = CATrustStageDualTrust"
| "next_stage CATrustStageDualTrust = CATrustStageCutover"
| "next_stage CATrustStageCutover = CATrustStageRotated"
| "next_stage s = s"

lemma accepted_crts_simps [simp]: "accepted_crts [] = []" "accepted_crts [Some p] = [pem_crt p]" "accepted_crts [None] = []"
  by (simp_all add: accepted_crts_def map_filter_simps)

lemma set_control_plane_cas:
  assumes "ca_load C cfg = Some p" "ca_controlPlane C p"
  shows "SetMachineCertificateAuthority C cfg issuing acc = Some c \<Longrightarrow>
      \<exists>m. issuing = Some m \<and> ca_patch_machine C p m (accepted_crts acc) = Some c"
    and "SetKubernetesAPICertificateAuthority C cfg issuing acc = Some c \<Longrightarrow>
      \<exists>m. issuing = Some m \<and> ca_patch_api C cfg m (accepted_crts acc) = Some c"
    and "SetKubernetesAggregatorCertificateAuthority C cfg issuing acc = Some c \<Longrightarrow>
      \<exists>m. issuing = Some m \<and> ca_patch_aggregator C cfg m (accepted_crts acc) = Some c"
proof -
  have eta: "\<lparr>pem_crt = pem_crt x, pem_key = pem_key x\<rparr> = x" for x :: pem_pair by simp
  show "SetMachineCertificateAuthority C cfg issuing acc = Some c \<Longrightarrow>
      \<exists>m. issuing = Some m \<and> ca_patch_machine C p m (accepted_crts acc) = Some c"
    using assms by (cases issuing) (auto simp: SetMachineCertificateAuthority_def eta split: if_splits)
qed (use assms in \<open>cases issuing; auto simp: SetKubernetesAPICertificateAuthority_def SetKubernetesAggregatorCertificateAuthority_def
    split: if_splits\<close>)+

definition other_cas :: "CertBundle option \<Rightarrow> (CertBundle \<Rightarrow> pem_pair option) \<Rightarrow> string list" where
  "other_cas accepted get = accepted_crts (case accepted of None \<Rightarrow> [] | Some b \<Rightarrow> [get b])"

lemma set_all_cas_sections:
  assumes law: "ca_patch_law C" and load: "ca_load C cfg = Some p" "ca_controlPlane C p"
    and set: "set_all_cas C cfg issuing accepted = Some c"
  shows "\<not> blank c \<and> (\<exists>m a g q. cb_machine issuing = Some m \<and> cb_kubernetesAPI issuing = Some a \<and> cb_kubernetesAggregator issuing = Some g \<and>
    ca_load C c = Some q \<and> ca_controlPlane C q \<and>
    ca_security C q = Some (Some m, map Some (other_cas accepted cb_machine)) \<and>
    ca_api C q = Some (Some a, map Some (other_cas accepted cb_kubernetesAPI)) \<and>
    ca_aggregator C q = Some (Some g, map Some (other_cas accepted cb_kubernetesAggregator)))"
proof -
  let ?o = "\<lambda>get. case accepted of None \<Rightarrow> [] | Some b \<Rightarrow> [get b]"
  from set obtain c1 c2 where
    c1: "SetMachineCertificateAuthority C cfg (cb_machine issuing) (?o cb_machine) = Some c1" and
    c2: "SetKubernetesAPICertificateAuthority C c1 (cb_kubernetesAPI issuing) (?o cb_kubernetesAPI) = Some c2" and
    c3: "SetKubernetesAggregatorCertificateAuthority C c2 (cb_kubernetesAggregator issuing) (?o cb_kubernetesAggregator) = Some c"
    by (auto simp: set_all_cas_def Let_def split: option.split_asm)
  from set_control_plane_cas(1)[OF load c1] obtain m where
    m: "cb_machine issuing = Some m" "ca_patch_machine C p m (other_cas accepted cb_machine) = Some c1"
    by (auto simp: other_cas_def)
  with law load obtain q1 where q1: "ca_load C c1 = Some q1" "ca_controlPlane C q1"
      "ca_security C q1 = Some (Some m, map Some (other_cas accepted cb_machine))"
    unfolding ca_patch_law_def by metis
  from set_control_plane_cas(2)[OF q1(1,2) c2] obtain a where
    a: "cb_kubernetesAPI issuing = Some a" "ca_patch_api C c1 a (other_cas accepted cb_kubernetesAPI) = Some c2"
    by (auto simp: other_cas_def)
  with law q1 obtain q2 where q2: "ca_load C c2 = Some q2" "ca_controlPlane C q2"
      "ca_security C q2 = Some (Some m, map Some (other_cas accepted cb_machine))"
      "ca_api C q2 = Some (Some a, map Some (other_cas accepted cb_kubernetesAPI))"
    unfolding ca_patch_law_def by metis
  from set_control_plane_cas(3)[OF q2(1,2) c3] obtain g where
    g: "cb_kubernetesAggregator issuing = Some g"
      "ca_patch_aggregator C c2 g (other_cas accepted cb_kubernetesAggregator) = Some c"
    by (auto simp: other_cas_def)
  with law q2 have "\<not> blank c \<and> (\<exists>q. ca_load C c = Some q \<and> ca_controlPlane C q \<and>
      ca_aggregator C q = Some (Some g, map Some (other_cas accepted cb_kubernetesAggregator)) \<and>
      ca_security C q = Some (Some m, map Some (other_cas accepted cb_machine)) \<and>
      ca_api C q = Some (Some a, map Some (other_cas accepted cb_kubernetesAPI)))"
    unfolding ca_patch_law_def by metis
  with m a g show ?thesis by blast
qed

text \<open>Every CA of the pending bundle is a new one.\<close>

definition fresh_cas :: "CertBundle \<Rightarrow> CertBundle \<Rightarrow> bool" where
  "fresh_cas active pending \<longleftrightarrow>
     (\<forall>get \<in> {cb_machine, cb_kubernetesAPI, cb_kubernetesAggregator}. \<exists>a p. get active = Some a \<and> get pending = Some p \<and> pem_crt a \<noteq> pem_crt p)"

lemma caStage_after_edit:
  assumes "pem_crt a \<noteq> pem_crt p"
  shows "caStage (Some a) [Some (pem_crt p)] (Some a) (Some p) = CATrustStageDualTrust"
    "caStage (Some p) [Some (pem_crt a)] (Some a) (Some p) = CATrustStageCutover"
    "caStage (Some p) [] (Some a) (Some p) = CATrustStageRotated"
  using assms by (auto simp: caStage_cases)

lemma edit_reaches_next_stage:
  assumes "ca_patch_law C" "ca_load C cfg = Some p" "ca_controlPlane C p" "fresh_cas active pending"
    and "stage_edit stage active pending = Some (issuing, accepted)" "set_all_cas C cfg issuing accepted = Some c"
  shows "ObserveCATrustStage C c active pending = Some (next_stage stage)"
proof -
  from set_all_cas_sections[OF assms(1-3,6)] obtain m a g q where
    q: "\<not> blank c" "cb_machine issuing = Some m" "cb_kubernetesAPI issuing = Some a" "cb_kubernetesAggregator issuing = Some g"
    "ca_load C c = Some q" "ca_controlPlane C q"
    "ca_security C q = Some (Some m, map Some (other_cas accepted cb_machine))"
    "ca_api C q = Some (Some a, map Some (other_cas accepted cb_kubernetesAPI))"
    "ca_aggregator C q = Some (Some g, map Some (other_cas accepted cb_kubernetesAggregator))" by blast
  from assms(4) obtain am pm aa pa ag pg where f:
    "cb_machine active = Some am" "cb_machine pending = Some pm" "pem_crt am \<noteq> pem_crt pm"
    "cb_kubernetesAPI active = Some aa" "cb_kubernetesAPI pending = Some pa" "pem_crt aa \<noteq> pem_crt pa"
    "cb_kubernetesAggregator active = Some ag" "cb_kubernetesAggregator pending = Some pg" "pem_crt ag \<noteq> pem_crt pg"
    by (auto simp: fresh_cas_def)
  show ?thesis
    using q f assms(5)
    by (cases stage) (auto simp: ObserveCATrustStage_def ObserveStage_def other_cas_def caStage_after_edit Let_def)
qed

lemma rotated_is_last: "stage_index CATrustStageRotated \<le> stage_index s \<Longrightarrow> s \<noteq> CATrustStageUnknown \<Longrightarrow> s = CATrustStageRotated"
  by (cases s) auto

subsection \<open>The Secrets of a rotation\<close>

text \<open>The Secret of a generation in a state.\<close>

definition generation_secret :: "k8s_lib \<Rightarrow> TartCluster \<Rightarrow> int \<Rightarrow> string \<Rightarrow> Secret \<Rightarrow> bool" where
  "generation_secret L cluster g st s \<longleftrightarrow>
     (let m = tc_meta cluster
      in ValidateBundleSecretContract L (Some s) (mt_namespace m) (mt_name m) (cs_clusterID (tc_spec cluster)) g st (mt_uid m) = None)"

lemma generation_secret_state:
  "generation_secret L cluster g st s \<Longrightarrow> st' \<in> {BundleStateActive, BundleStateRetired} \<Longrightarrow>
     generation_secret L cluster g st' (set_bundle_state st' s)"
  by (auto simp: generation_secret_def Let_def ValidateBundleSecretContract_ok set_bundle_state_def map_get_update label_defs immutable_def)

abbreviation rotation_secrets :: "k8s_lib \<Rightarrow> TartCluster \<Rightarrow> int \<Rightarrow> cp_event set" where
  "rotation_secrets L cluster g \<equiv> {e. \<forall>s. e = CpSecretPatch s \<longrightarrow>
     generation_secret L cluster g BundleStateActive s \<or> generation_secret L cluster (g - 1) BundleStateRetired s}"

lemma secrets_demote: "emits (demoteCARotationSecret L E cluster (g - 1)) (rotation_secrets L cluster g)"
  unfolding demoteCARotationSecret_def Let_def
  by (intro emit_rules) (auto simp: generation_secret_def Let_def intro!: disjI2 dest: generation_secret_state[unfolded generation_secret_def Let_def])

lemma promotable_secret_valid:
  "run_state (promotable_secret L E cluster g) tr = (found, tr') \<Longrightarrow> found = Inr s \<Longrightarrow> \<exists>st. generation_secret L cluster g st s"
  by (auto simp: promotable_secret_def cp_get_def generation_secret_def Let_def split: sum.splits if_splits)

lemma secrets_promotable [emit_rules]: "emits (promotable_secret L E cluster g) S"
  unfolding promotable_secret_def Let_def by (intro emit_rules)

lemma secrets_promote_secret:
  "\<exists>st. generation_secret L cluster g st s \<Longrightarrow> emits (promote_secret L E cluster s (g - 1)) (rotation_secrets L cluster g)"
  unfolding promote_secret_def
  by (intro emit_rules secrets_demote) (auto dest: generation_secret_state)

lemma emits_after_promotable:
  assumes "\<And>s. \<exists>st. generation_secret L cluster g st s \<Longrightarrow> emits (f s) S"
  shows "emits (promotable_secret L E cluster g \<bind> (\<lambda>found. case found of Inl e \<Rightarrow> State_Monad.return (r e) | Inr secret \<Rightarrow> f secret)) S"
  by (rule emits_bind_post[where P = "\<lambda>f. \<forall>s. f = Inr s \<longrightarrow> (\<exists>st. generation_secret L cluster g st s)"])
     (auto intro!: emit_rules assms dest: promotable_secret_valid)

lemma emits_recover: "emits (recoverCARotationPromotion L E cluster g) (rotation_secrets L cluster g)"
  unfolding recoverCARotationPromotion_def by (intro emits_after_promotable secrets_promote_secret)

lemma generation_secret_promoted: "generation_secret L (set_active_generation t cluster) = generation_secret L cluster"
  by (intro ext) (simp add: generation_secret_def set_active_generation_def)

lemma emits_promote:
  assumes "cst_activeSecretGeneration (tc_status cluster) = g - 1"
  shows "emits (promoteCARotation L E cluster g) (rotation_secrets L cluster g)"
  unfolding promoteCARotation_def Let_def assms
  by (intro emits_after_promotable emit_rules emits_recover)
     (auto intro!: secrets_promote_secret[of L "set_active_generation g cluster" g for g, unfolded generation_secret_promoted])

lemma emits_edits: "emits (edit_observed C E ob a p i ac) {e. \<forall>s. e \<noteq> CpSecretPatch s}"
  unfolding edit_observed_def applyCARotationConfiguration_def Let_def
  by (intro emit_rules emits_mono[OF emits_dialRotationBundle]) auto

lemma emits_edit_stage: "(\<And>ob. emits (edit ob) S) \<Longrightarrow> emits (edit_stage stage edit obs) S"
  by (induction obs) (auto intro!: emit_rules)

lemma emits_rotation_pass:
  assumes "cst_activeSecretGeneration (tc_status cluster) = g - 1"
  shows "emits (rotation_pass L C E cluster g a p ac pc obs) (rotation_secrets L cluster g)"
proof -
  have "emits (edit_observed C E ob a p i acc) (rotation_secrets L cluster g)" for ob i acc
    by (rule emits_mono[OF emits_edits]) auto
  then show ?thesis unfolding rotation_pass_def Let_def
    by (cases "minimumCARotationStage obs")
       (auto intro!: emit_rules emits_edit_stage emits_promote assms simp: advanceCATrust_def finalizeCATrust_def)
qed

lemma rotation_secrets_emitted:
  assumes "cs_caRotationRequestedGeneration (tc_spec cluster) = Some g"
  shows "emits (reconcileCARotation L C E cluster scaleDown) (rotation_secrets L cluster g)"
proof -
  have before: "cst_activeSecretGeneration (tc_status cluster) = g - 1" if "NextGeneration (cst_activeSecretGeneration (tc_status cluster)) = Inr g"
    using that by (auto simp: NextGeneration_def split: if_splits)
  have observe: "emits (observeControlPlaneCARotation L C E a p ac pc machines) (rotation_secrets L cluster g)" for a p ac pc machines
    by (rule emits_mono[OF emits_observeControlPlaneCARotation]) auto
  have "emits (observe_and_rotate L C E cluster g machines) (rotation_secrets L cluster g)"
    if "NextGeneration (cst_activeSecretGeneration (tc_status cluster)) = Inr g" for machines
    unfolding observe_and_rotate_def by (intro emit_rules observe emits_rotation_pass before that)
  moreover have "emits (recoverCompletedCARotationRequest L E cluster g) (rotation_secrets L cluster g)"
    unfolding recoverCompletedCARotationRequest_def by (intro emit_rules emits_recover)
  ultimately show ?thesis using assms unfolding reconcileCARotation_def Let_def clusterMachinesForCARotation_def
    by (auto intro!: emit_rules)
qed

end
