(* ===== verification/ClusterReconciler.thy ===== *)
theory ClusterReconciler
  imports BundleData ControlPlaneEnv CARotation
begin

section \<open>The TartCluster reconciler\<close>

text \<open>
  \<open>controller/tartcluster/reconciler.go\<close>: the cluster ID, the secret bundle of the active
  generation, the pending bundle of a CA rotation, and the status. What a pass does is a trace
  of \<open>cl_event\<close>s, what it sees is the record \<open>cl_env\<close>, arbitrary functions of that trace.
\<close>

subsection \<open>The environment\<close>

datatype cl_event =
    ClusterPatch TartCluster          \<comment> \<open>with an optimistic lock\<close>
  | ClusterStatusPatch TartCluster
  | BundleCreate Secret

record cl_env =
  cl_now :: "cl_event list \<Rightarrow> time"
  cl_get_cluster :: "cl_event list \<Rightarrow> string \<Rightarrow> string \<Rightarrow> api_error + TartCluster"
  cl_get_secret :: "cl_event list \<Rightarrow> string \<Rightarrow> string \<Rightarrow> api_error + Secret"
  cl_list_secrets :: "cl_event list \<Rightarrow> string \<Rightarrow> api_error + Secret list"       \<comment> \<open>of a namespace\<close>
  cl_list_control_planes :: "cl_event list \<Rightarrow> string \<Rightarrow> api_error + TartControlPlane list"
  cl_list_hosts :: "cl_event list \<Rightarrow> api_error + TartHost list"
  cl_list_clusters :: "cl_event list \<Rightarrow> api_error + TartCluster list"
  cl_write :: "cl_event list \<Rightarrow> cl_event \<Rightarrow> api_error option"
  cl_uuid :: "cl_event list \<Rightarrow> uuid"                          \<comment> \<open>\<open>uuid.NewV4\<close>\<close>
  cl_new_bundle :: "cl_event list \<Rightarrow> full_bundle option"      \<comment> \<open>\<open>secrets.NewBundle\<close>\<close>
  cl_bundles :: bundle_lib

datatype cl_error =
    ClApi api_error | ClSecret secret_error | ClBundleData | ClReconstruct
  | ErrInvalidCARotationRequest int int     \<comment> \<open>requested, expected\<close>
  | ClPanic

type_synonym 'a cl = "(cl_event, 'a) io"
type_synonym cl_result = "duration \<times> cl_error option"

definition cl_call :: "cl_env \<Rightarrow> cl_event \<Rightarrow> api_error option cl" where
  "cl_call E e = call e (\<lambda>tr. cl_write E tr e)"

lemma emits_cl_call [emit_rules]: "e \<in> S \<Longrightarrow> emits (cl_call E e) S"
  by (simp add: cl_call_def emits_call)

lemma run_cl_call [simp]: "run_state (cl_call E e) tr = (cl_write E tr e, tr @ [e])"
  by (simp add: cl_call_def)

text \<open>\<open>client.MatchingLabels\<close>.\<close>

definition matching_labels :: "(string, string) gomap \<Rightarrow> (string, string) gomap \<Rightarrow> bool" where
  "matching_labels wanted labels \<longleftrightarrow> list_all (\<lambda>(k, v). map_of labels k = Some v) wanted"

subsection \<open>The active generation\<close>

text \<open>The owner that the Secrets of a cluster get.\<close>

definition bundle_owner :: "TartCluster \<Rightarrow> owner_reference" where
  "bundle_owner cluster =
     \<lparr>own_apiVersion = infra_group_version, own_kind = TartClusterKind, own_name = mt_name (tc_meta cluster),
      own_uid = mt_uid (tc_meta cluster), own_controller = None\<rparr>"

definition reconstructed_generation ::
  "k8s_lib \<Rightarrow> bundle_lib \<Rightarrow> TartCluster \<Rightarrow> ClusterID \<Rightarrow> Secret list \<Rightarrow> cl_error + int" where
  "reconstructed_generation L B cluster clusterID items =
     (let m = tc_meta cluster
      in case items of
           [] \<Rightarrow> Inr 1
         | [secret] \<Rightarrow>
             (case parse_int 32 (map_get (sec_labels secret) GenerationLabel) of
                None \<Rightarrow> Inl ClReconstruct
              | Some generation \<Rightarrow>
                  if generation < 1 then Inl ClReconstruct
                  else (case ValidateBundleSecretContract L (Some secret) (mt_namespace m) (mt_name m) clusterID generation
                               BundleStateActive (mt_uid m) of
                          Some e \<Rightarrow> Inl (ClSecret e)
                        | None \<Rightarrow> if \<not> ValidateBundleData B (sec_data secret) clusterID then Inl ClBundleData
                                  else Inr generation))
         | _ \<Rightarrow> Inl ClReconstruct)"

definition reconstructActiveSecretGeneration ::
  "k8s_lib \<Rightarrow> cl_env \<Rightarrow> TartCluster \<Rightarrow> ClusterID \<Rightarrow> (cl_error + int) cl" where
  "reconstructActiveSecretGeneration L E cluster clusterID = do {
     listed \<leftarrow> query (\<lambda>tr. cl_list_secrets E tr (mt_namespace (tc_meta cluster)));
     State_Monad.return
       (case listed of Inl e \<Rightarrow> Inl (ClApi e)
        | Inr secrets \<Rightarrow>
            reconstructed_generation L (cl_bundles E) cluster clusterID
              (filter (\<lambda>s. matching_labels [(ClusterNameLabel, mt_name (tc_meta cluster)),
                   (ClusterIDLabel, ClusterID_String clusterID), (BundleStateLabel, BundleStateActive)] (sec_labels s)) secrets))
   }"

subsection \<open>The bundles\<close>

text \<open>The creation of a Secret that another process may have created in the meantime.\<close>

definition create_bundle :: "cl_env \<Rightarrow> Secret \<Rightarrow> cl_error option cl" where
  "create_bundle E secret = do {
     err \<leftarrow> cl_call E (BundleCreate secret);
     State_Monad.return
       (case err of None \<Rightarrow> None | Some e \<Rightarrow> if e = ApiAlreadyExists then None else Some (ClApi e))
   }"

definition validate_bundle ::
  "k8s_lib \<Rightarrow> bundle_lib \<Rightarrow> TartCluster \<Rightarrow> ClusterID \<Rightarrow> int \<Rightarrow> string \<Rightarrow> Secret \<Rightarrow> cl_error option" where
  "validate_bundle L B cluster clusterID generation state secret =
     (let m = tc_meta cluster
      in case ValidateBundleSecretContract L (Some secret) (mt_namespace m) (mt_name m) clusterID generation state (mt_uid m) of
           Some e \<Rightarrow> Some (ClSecret e)
         | None \<Rightarrow> if \<not> ValidateBundleData B (sec_data secret) clusterID then Some ClBundleData else None)"

definition ensureBundle :: "k8s_lib \<Rightarrow> cl_env \<Rightarrow> TartCluster \<Rightarrow> ClusterID \<Rightarrow> int \<Rightarrow> cl_error option cl" where
  "ensureBundle L E cluster clusterID generation =
     (let m = tc_meta cluster
      in case BundleName L (mt_name m) clusterID generation of
           Inl e \<Rightarrow> State_Monad.return (Some (ClSecret e))
         | Inr name \<Rightarrow> do {
             found \<leftarrow> query (\<lambda>tr. cl_get_secret E tr (mt_namespace m) name);
             (case found of
                Inl ApiNotFound \<Rightarrow> do {
                  data \<leftarrow> query (\<lambda>tr. GenerateBundleData (cl_bundles E) (cl_new_bundle E tr) clusterID);
                  (case data of
                     None \<Rightarrow> State_Monad.return (Some ClBundleData)
                   | Some data \<Rightarrow>
                       (case BuildActiveSecret L (mt_namespace m) (mt_name m) clusterID generation (bundle_owner cluster) data of
                          Inl e \<Rightarrow> State_Monad.return (Some (ClSecret e))
                        | Inr expected \<Rightarrow> create_bundle E expected))
                }
              | Inl e \<Rightarrow> State_Monad.return (Some (ClApi e))
              | Inr secret \<Rightarrow>
                  State_Monad.return (validate_bundle L (cl_bundles E) cluster clusterID generation BundleStateActive secret))
           })"

text \<open>The Secret of the next generation, made from the one of the active generation.\<close>

definition pending_from_active ::
  "k8s_lib \<Rightarrow> cl_env \<Rightarrow> TartCluster \<Rightarrow> ClusterID \<Rightarrow> int \<Rightarrow> int \<Rightarrow> cl_error option cl" where
  "pending_from_active L E cluster clusterID activeGeneration target =
     (let m = tc_meta cluster
      in case BundleName L (mt_name m) clusterID activeGeneration of
           Inl e \<Rightarrow> State_Monad.return (Some (ClSecret e))
         | Inr activeName \<Rightarrow> do {
             found \<leftarrow> query (\<lambda>tr. cl_get_secret E tr (mt_namespace m) activeName);
             (case found of
                Inl e \<Rightarrow> State_Monad.return (Some (ClApi e))
              | Inr activeSecret \<Rightarrow>
                  (case ValidateBundleSecretContract L (Some activeSecret) (mt_namespace m) (mt_name m) clusterID
                          activeGeneration BundleStateActive (mt_uid m) of
                     Some e \<Rightarrow> State_Monad.return (Some (ClSecret e))
                   | None \<Rightarrow>
                       (case DecodeBundleData (bl_unmarshal (cl_bundles E)) (bl_valid (cl_bundles E)) (sec_data activeSecret) clusterID of
                          None \<Rightarrow> State_Monad.return (Some ClBundleData)
                        | Some activeBundle \<Rightarrow> do {
                            data \<leftarrow> query (\<lambda>tr. GenerateRotatedBundleData (cl_bundles E) (cl_new_bundle E tr) clusterID activeBundle);
                            (case data of
                               None \<Rightarrow> State_Monad.return (Some ClBundleData)
                             | Some data \<Rightarrow>
                                 (case BuildPendingSecret L (mt_namespace m) (mt_name m) clusterID target (bundle_owner cluster) data of
                                    Inl e \<Rightarrow> State_Monad.return (Some (ClSecret e))
                                  | Inr expected \<Rightarrow> create_bundle E expected))
                          })))
           })"

definition ensureCARotationBundle ::
  "k8s_lib \<Rightarrow> cl_env \<Rightarrow> TartCluster \<Rightarrow> ClusterID \<Rightarrow> int \<Rightarrow> cl_error option cl" where
  "ensureCARotationBundle L E cluster clusterID activeGeneration =
     (let m = tc_meta cluster
      in case cs_caRotationRequestedGeneration (tc_spec cluster) of
           None \<Rightarrow> State_Monad.return None
         | Some requested \<Rightarrow>
             (case NextGeneration activeGeneration of
                Inl e \<Rightarrow> State_Monad.return (Some (ClSecret e))
              | Inr target \<Rightarrow>
                  if requested \<noteq> target
                  then State_Monad.return
                         (if requested = activeGeneration then None else Some (ErrInvalidCARotationRequest requested target))
                  else (case BundleName L (mt_name m) clusterID target of
                     Inl e \<Rightarrow> State_Monad.return (Some (ClSecret e))
                   | Inr name \<Rightarrow> do {
                       found \<leftarrow> query (\<lambda>tr. cl_get_secret E tr (mt_namespace m) name);
                       (case found of
                          Inl ApiNotFound \<Rightarrow> pending_from_active L E cluster clusterID activeGeneration target
                        | Inl e \<Rightarrow> State_Monad.return (Some (ClApi e))
                        | Inr secret \<Rightarrow>
                            State_Monad.return (validate_bundle L (cl_bundles E) cluster clusterID target BundleStatePending secret))
                     })))"

subsection \<open>The status\<close>

definition TartClusterReadyCondition :: string where "TartClusterReadyCondition = ''Ready''"
definition TartControlPlaneAvailableCondition :: string where "TartControlPlaneAvailableCondition = ''Available''"

definition set_cluster_ready ::
  "k8s_lib \<Rightarrow> time \<Rightarrow> condition_status \<Rightarrow> string \<Rightarrow> string \<Rightarrow> TartCluster \<Rightarrow> TartCluster" where
  "set_cluster_ready L now st reason message cluster =
     cluster\<lparr>tc_status := (tc_status cluster)\<lparr>
       cst_conditions := SetCondition L now (cst_conditions (tc_status cluster)) TartClusterReadyCondition st reason message
         (mt_generation (tc_meta cluster)),
       cst_observedGeneration := mt_generation (tc_meta cluster)\<rparr>\<rparr>"

definition aggregateReadiness ::
  "k8s_lib \<Rightarrow> cl_env \<Rightarrow> TartCluster \<Rightarrow> (cl_error + condition_status \<times> string \<times> string) cl" where
  "aggregateReadiness L E cluster =
     (let bundleReady = Inr (ConditionTrue, ''SecretBundleReady'', ''The immutable cluster secret bundle is available.'')
      in if mt_name (tc_meta cluster) = [] then State_Monad.return bundleReady
         else do {
           listed \<leftarrow> query (\<lambda>tr. cl_list_control_planes E tr (mt_namespace (tc_meta cluster)));
           State_Monad.return
             (case listed of Inl e \<Rightarrow> Inl (ClApi e)
              | Inr all \<Rightarrow>
                  (let items = filter (\<lambda>k. matching_labels [(lib_cluster_name_label L, mt_name (tc_meta cluster))] (mt_labels (k_meta k))) all
                   in if items = [] then bundleReady
                      else if list_ex (\<lambda>k. case lib_find_condition L (kst_conditions (k_status k)) TartControlPlaneAvailableCondition of
                                             None \<Rightarrow> True | Some available \<Rightarrow> cond_status available \<noteq> ConditionTrue) items
                      then Inr (ConditionFalse, ''ControlPlaneNotAvailable'',
                             ''The TartControlPlane for this Cluster is not yet Available.'')
                      else Inr (ConditionTrue, ''ControlPlaneAvailable'',
                             ''The immutable cluster secret bundle is available and the TartControlPlane is Available.'')))
         })"

definition observeFailureDomains :: "cl_env \<Rightarrow> (cl_error + FailureDomain list) cl" where
  "observeFailureDomains E = do {
     listed \<leftarrow> query (cl_list_hosts E);
     State_Monad.return (case listed of Inl e \<Rightarrow> Inl (ClApi e) | Inr hosts \<Rightarrow> Inr (FailureDomains hosts))
   }"

text \<open>The three reports; the error they are called with is returned, so that the pass is retried.\<close>

definition report_cluster_error :: "cl_env \<Rightarrow> TartCluster \<Rightarrow> cl_error \<Rightarrow> cl_result cl" where
  "report_cluster_error E cluster e = do {
     err \<leftarrow> cl_call E (ClusterStatusPatch cluster);
     State_Monad.return (0, Some (case err of Some a \<Rightarrow> ClApi a | None \<Rightarrow> e))
   }"

definition reportBundleError :: "k8s_lib \<Rightarrow> cl_env \<Rightarrow> TartCluster \<Rightarrow> cl_error \<Rightarrow> cl_result cl" where
  "reportBundleError L E cluster bundleErr = do {
     now \<leftarrow> query (cl_now E);
     report_cluster_error E (set_cluster_ready L now ConditionFalse ReasonSecretBundleUnavailable
       ''The immutable cluster secret bundle is unavailable or does not satisfy its identity contract.'' cluster) bundleErr
   }"

fun rotation_error_text :: "cl_error \<Rightarrow> string" where
  "rotation_error_text (ErrInvalidCARotationRequest requested target) =
     ''invalid CA rotation request: requested CA generation '' @ format_int requested @ '', expected '' @ format_int target"
| "rotation_error_text _ = []"

definition reportCARotationError :: "k8s_lib \<Rightarrow> cl_env \<Rightarrow> TartCluster \<Rightarrow> cl_error \<Rightarrow> cl_result cl" where
  "reportCARotationError L E cluster rotationErr = do {
     now \<leftarrow> query (cl_now E);
     report_cluster_error E (set_cluster_ready L now ConditionFalse ''InvalidCARotationRequest''
       (rotation_error_text rotationErr) cluster) rotationErr
   }"

definition set_failure_domains :: "FailureDomain list \<Rightarrow> TartCluster \<Rightarrow> TartCluster" where
  "set_failure_domains ds cluster = cluster\<lparr>tc_status := (tc_status cluster)\<lparr>cst_failureDomains := ds\<rparr>\<rparr>"

definition reportFailureDomainError :: "k8s_lib \<Rightarrow> cl_env \<Rightarrow> TartCluster \<Rightarrow> cl_error \<Rightarrow> cl_result cl" where
  "reportFailureDomainError L E cluster observeErr = do {
     now \<leftarrow> query (cl_now E);
     report_cluster_error E (set_cluster_ready L now ConditionFalse ''FailureDomainsUnavailable''
       ''The complete Host inventory could not be observed; failure domains are not surfaced.''
       (set_failure_domains [] cluster)) observeErr
   }"

subsection \<open>The pass\<close>

definition assign_cluster_id :: "cl_env \<Rightarrow> TartCluster \<Rightarrow> cl_result cl" where
  "assign_cluster_id E cluster = do {
     generated \<leftarrow> query (\<lambda>tr. NewClusterID (cl_uuid E tr));
     (case generated of
        None \<Rightarrow> State_Monad.return (0, Some ClPanic)
      | Some clusterID \<Rightarrow> do {
          err \<leftarrow> cl_call E (ClusterPatch (cluster\<lparr>tc_spec := (tc_spec cluster)\<lparr>cs_clusterID := clusterID\<rparr>\<rparr>));
          State_Monad.return (case err of Some e \<Rightarrow> (0, Some (ClApi e)) | None \<Rightarrow> (second, None))
        })
   }"

definition provisioned_cluster ::
  "k8s_lib \<Rightarrow> time \<Rightarrow> FailureDomain list \<Rightarrow> condition_status \<times> string \<times> string \<Rightarrow> int \<Rightarrow> TartCluster \<Rightarrow> TartCluster" where
  "provisioned_cluster L now failureDomains readiness generation cluster =
     (case readiness of (readyStatus, reason, message) \<Rightarrow>
        let c = set_cluster_ready L now readyStatus reason message (set_failure_domains failureDomains cluster)
        in c\<lparr>tc_status := (tc_status c)\<lparr>cst_provisioned := Some True, cst_activeSecretGeneration := generation\<rparr>\<rparr>)"

definition observe_and_provision :: "k8s_lib \<Rightarrow> cl_env \<Rightarrow> TartCluster \<Rightarrow> int \<Rightarrow> cl_result cl" where
  "observe_and_provision L E cluster generation = do {
     domains \<leftarrow> observeFailureDomains E;
     (case domains of Inl e \<Rightarrow> reportFailureDomainError L E cluster e
      | Inr failureDomains \<Rightarrow> do {
          aggregated \<leftarrow> aggregateReadiness L E cluster;
          (case aggregated of Inl e \<Rightarrow> reportFailureDomainError L E cluster e
           | Inr readiness \<Rightarrow> do {
               now \<leftarrow> query (cl_now E);
               err \<leftarrow> cl_call E (ClusterStatusPatch (provisioned_cluster L now failureDomains readiness generation cluster));
               State_Monad.return (0, map_option ClApi err)
             })
        })
   }"

fun invalid_rotation_request :: "cl_error \<Rightarrow> bool" where
  "invalid_rotation_request (ErrInvalidCARotationRequest _ _) = True"
| "invalid_rotation_request _ = False"

definition ensure_bundles :: "k8s_lib \<Rightarrow> cl_env \<Rightarrow> TartCluster \<Rightarrow> ClusterID \<Rightarrow> int \<Rightarrow> cl_result cl" where
  "ensure_bundles L E cluster clusterID generation = do {
     bundleErr \<leftarrow> ensureBundle L E cluster clusterID generation;
     (case bundleErr of Some e \<Rightarrow> reportBundleError L E cluster e
      | None \<Rightarrow> do {
          rotationErr \<leftarrow> ensureCARotationBundle L E cluster clusterID generation;
          (case rotationErr of
             Some e \<Rightarrow> if invalid_rotation_request e then reportCARotationError L E cluster e
                       else reportBundleError L E cluster e
           | None \<Rightarrow> observe_and_provision L E cluster generation)
        })
   }"

definition reconcile_cluster :: "k8s_lib \<Rightarrow> cl_env \<Rightarrow> TartCluster \<Rightarrow> cl_result cl" where
  "reconcile_cluster L E cluster =
     (let clusterID = cs_clusterID (tc_spec cluster); generation = cst_activeSecretGeneration (tc_status cluster)
      in if generation \<noteq> 0 then ensure_bundles L E cluster clusterID generation
         else do {
           reconstructed \<leftarrow> reconstructActiveSecretGeneration L E cluster clusterID;
           (case reconstructed of
              Inl e \<Rightarrow> reportBundleError L E cluster e
            | Inr generation \<Rightarrow> ensure_bundles L E cluster clusterID generation)
         })"

definition Reconcile_TartCluster :: "k8s_lib \<Rightarrow> cl_env \<Rightarrow> string \<Rightarrow> string \<Rightarrow> cl_result cl" where
  "Reconcile_TartCluster L E namespace name = do {
     found \<leftarrow> query (\<lambda>tr. cl_get_cluster E tr namespace name);
     (case found of
        Inl ApiNotFound \<Rightarrow> State_Monad.return (0, None)
      | Inl e \<Rightarrow> State_Monad.return (0, Some (ClApi e))
      | Inr cluster \<Rightarrow>
          if IsPaused L (tc_meta cluster) then State_Monad.return (0, None)
          else if mt_deletionTimestamp (tc_meta cluster) \<noteq> None then State_Monad.return (0, None)
          else if ClusterID_IsZero (cs_clusterID (tc_spec cluster)) then assign_cluster_id E cluster
          else reconcile_cluster L E cluster)
   }"

subsection \<open>The watches\<close>

definition enqueueAllClusters :: "cl_env \<Rightarrow> (string \<times> string) list cl" where
  "enqueueAllClusters E = do {
     listed \<leftarrow> query (cl_list_clusters E);
     State_Monad.return
       (case listed of Inl _ \<Rightarrow> []
        | Inr clusters \<Rightarrow> map (\<lambda>c. (mt_namespace (tc_meta c), mt_name (tc_meta c))) clusters)
   }"

definition cluster_of_control_plane :: "k8s_lib \<Rightarrow> object_meta \<Rightarrow> (string \<times> string) list" where
  "cluster_of_control_plane L m =
     (let clusterName = map_get (mt_labels m) (lib_cluster_name_label L)
      in if clusterName = [] then [] else [(mt_namespace m, clusterName)])"

definition cluster_of_secret :: "Secret \<Rightarrow> (string \<times> string) list" where
  "cluster_of_secret s =
     (let clusterName = map_get (sec_labels s) ClusterNameLabel
      in if clusterName = [] then [] else [(sec_namespace s, clusterName)])"

subsection \<open>What a pass writes\<close>

text \<open>The Secret of a generation of the cluster, complete and in a state.\<close>

definition cluster_bundle :: "k8s_lib \<Rightarrow> bundle_lib \<Rightarrow> TartCluster \<Rightarrow> int \<Rightarrow> string \<Rightarrow> Secret \<Rightarrow> bool" where
  "cluster_bundle L B cluster g st s \<longleftrightarrow> validate_bundle L B cluster (cs_clusterID (tc_spec cluster)) g st s = None"

lemma cluster_bundle_iff:
  "cluster_bundle L B cluster g st s \<longleftrightarrow>
     generation_secret L cluster g st s \<and> ValidateBundleData B (sec_data s) (cs_clusterID (tc_spec cluster))"
  by (auto simp: cluster_bundle_def validate_bundle_def generation_secret_def Let_def split: option.splits)

lemma built_cluster_bundle:
  assumes "bundle_yaml_law B" and built: "buildBundleSecret L (mt_namespace (tc_meta c)) (mt_name (tc_meta c))
      (cs_clusterID (tc_spec c)) g st (bundle_owner c) data = Inr s"
  shows "GenerateBundleData B drawn (cs_clusterID (tc_spec c)) = Some data \<Longrightarrow> cluster_bundle L B c g st s"
    and "GenerateRotatedBundleData B drawn (cs_clusterID (tc_spec c)) previous = Some data \<Longrightarrow> cluster_bundle L B c g st s"
  using buildBundleSecret_ok[OF built] generated_data_complete(1)[OF assms(1)]
  by (auto simp: cluster_bundle_iff generation_secret_def Let_def bundle_owner_def)

text \<open>The events of a pass over a cluster with an ID, for the active generation \<open>g\<close>.\<close>

definition bundle_events :: "k8s_lib \<Rightarrow> bundle_lib \<Rightarrow> TartCluster \<Rightarrow> int \<Rightarrow> cl_event set" where
  "bundle_events L B c g = {e. (\<exists>s. e = BundleCreate s \<and>
     (cluster_bundle L B c g BundleStateActive s \<or>
      cs_caRotationRequestedGeneration (tc_spec c) = Some (g + 1) \<and> cluster_bundle L B c (g + 1) BundleStatePending s))}"

definition cluster_status_events :: "TartCluster \<Rightarrow> int \<Rightarrow> cl_event set" where
  "cluster_status_events c g = {e. \<exists>c'. e = ClusterStatusPatch c' \<and> tc_spec c' = tc_spec c \<and> tc_meta c' = tc_meta c \<and>
     cst_activeSecretGeneration (tc_status c') \<in> {g, cst_activeSecretGeneration (tc_status c)}}"

lemma emits_create_bundle: "BundleCreate s \<in> S \<Longrightarrow> emits (create_bundle E s) S"
  unfolding create_bundle_def by (intro emit_rules)

lemma emits_query_bind: "(\<And>tr. emits (f (q tr)) S) \<Longrightarrow> emits (query q \<bind> f) S"
  by (auto simp: emits_def)

lemma emits_case_api_error:
  "emits m S \<Longrightarrow> (\<And>e. emits (n e) S) \<Longrightarrow> (\<And>y. x = Inr y \<Longrightarrow> emits (f y) S) \<Longrightarrow>
     emits (case x of Inl ApiNotFound \<Rightarrow> m | Inl e \<Rightarrow> n e | Inr y \<Rightarrow> f y) S"
  by (auto split: sum.splits api_error.splits)

lemma emits_ensureBundle:
  assumes "bundle_yaml_law (cl_bundles E)"
  shows "emits (ensureBundle L E c (cs_clusterID (tc_spec c)) g) (bundle_events L (cl_bundles E) c g)"
  unfolding ensureBundle_def Let_def BuildActiveSecret_def
  by (auto intro!: emits_query_bind emits_return emits_create_bundle
       simp: bundle_events_def
       split: sum.splits api_error.splits option.splits)
     (use built_cluster_bundle(1)[OF assms(1)] in blast)+

lemma emits_pending_from_active:
  assumes "bundle_yaml_law (cl_bundles E)" "cs_caRotationRequestedGeneration (tc_spec c) = Some (g + 1)"
  shows "emits (pending_from_active L E c (cs_clusterID (tc_spec c)) g (g + 1)) (bundle_events L (cl_bundles E) c g)"
  unfolding pending_from_active_def Let_def BuildPendingSecret_def
  by (auto intro!: emits_query_bind emits_return emits_create_bundle
       simp: bundle_events_def assms(2)
       split: sum.splits api_error.splits option.splits)
     (use built_cluster_bundle(2)[OF assms(1)] in blast)+

lemma next_generation: "NextGeneration g = Inr n \<Longrightarrow> n = g + 1"
  by (auto simp: NextGeneration_def split: if_splits)

lemma next_generation_neq [simp]: "NextGeneration g \<noteq> Inr g"
  by (auto dest: next_generation)

lemma emits_ensureCARotationBundle:
  assumes "bundle_yaml_law (cl_bundles E)"
  shows "emits (ensureCARotationBundle L E c (cs_clusterID (tc_spec c)) g) (bundle_events L (cl_bundles E) c g)"
  unfolding ensureCARotationBundle_def Let_def
  by (auto intro!: emits_query_bind emit_rules emits_pending_from_active[OF assms]
      dest!: next_generation split: option.splits sum.splits api_error.splits)

lemma set_cluster_ready_keeps [simp]:
  "tc_spec (set_cluster_ready L now st r m c) = tc_spec c" "tc_meta (set_cluster_ready L now st r m c) = tc_meta c"
  "cst_activeSecretGeneration (tc_status (set_cluster_ready L now st r m c)) = cst_activeSecretGeneration (tc_status c)"
  "cst_provisioned (tc_status (set_cluster_ready L now st r m c)) = cst_provisioned (tc_status c)"
  "cst_failureDomains (tc_status (set_cluster_ready L now st r m c)) = cst_failureDomains (tc_status c)"
  by (simp_all add: set_cluster_ready_def)

lemma set_failure_domains_keeps [simp]:
  "tc_spec (set_failure_domains d c) = tc_spec c" "tc_meta (set_failure_domains d c) = tc_meta c"
  "cst_activeSecretGeneration (tc_status (set_failure_domains d c)) = cst_activeSecretGeneration (tc_status c)"
  "cst_provisioned (tc_status (set_failure_domains d c)) = cst_provisioned (tc_status c)"
  "cst_failureDomains (tc_status (set_failure_domains d c)) = d"
  by (simp_all add: set_failure_domains_def)

lemma provisioned_cluster_keeps [simp]:
  "tc_spec (provisioned_cluster L now d r g c) = tc_spec c" "tc_meta (provisioned_cluster L now d r g c) = tc_meta c"
  "cst_activeSecretGeneration (tc_status (provisioned_cluster L now d r g c)) = g"
  "cst_provisioned (tc_status (provisioned_cluster L now d r g c)) = Some True"
  "cst_failureDomains (tc_status (provisioned_cluster L now d r g c)) = d"
  by (simp_all add: provisioned_cluster_def Let_def split: prod.splits)

lemma emits_reports:
  "emits (reportBundleError L E c e) (cluster_status_events c g)"
  "emits (reportCARotationError L E c e) (cluster_status_events c g)"
  "emits (reportFailureDomainError L E c e) (cluster_status_events c g)"
  unfolding reportBundleError_def reportCARotationError_def reportFailureDomainError_def report_cluster_error_def
  by (auto intro!: emit_rules simp: cluster_status_events_def)

lemma emits_observe_and_provision: "emits (observe_and_provision L E c g) (cluster_status_events c g)"
  unfolding observe_and_provision_def observeFailureDomains_def aggregateReadiness_def Let_def
  by (intro emit_rules emits_reports) (auto simp: cluster_status_events_def)

lemma emits_ensure_bundles:
  assumes "bundle_yaml_law (cl_bundles E)"
  shows "emits (ensure_bundles L E c (cs_clusterID (tc_spec c)) g) (bundle_events L (cl_bundles E) c g \<union> cluster_status_events c g)"
proof -
  let ?S = "bundle_events L (cl_bundles E) c g \<union> cluster_status_events c g"
  note w = emits_mono[where E = ?S]
  show ?thesis unfolding ensure_bundles_def
    by (intro emit_rules w[OF emits_ensureBundle[OF assms]] w[OF emits_ensureCARotationBundle[OF assms]]
        w[OF emits_reports(1)[where g = g]] w[OF emits_reports(2)[where g = g]] w[OF emits_observe_and_provision]) auto
qed

subsection \<open>A pass that succeeds\<close>

text \<open>The Secret was there, or this step asked for its creation and the API server has it.\<close>

definition obtained_bundle ::
  "k8s_lib \<Rightarrow> cl_env \<Rightarrow> TartCluster \<Rightarrow> int \<Rightarrow> string \<Rightarrow> cl_event list \<Rightarrow> cl_event list \<Rightarrow> Secret \<Rightarrow> bool" where
  "obtained_bundle L E c g st tr new s \<longleftrightarrow> cluster_bundle L (cl_bundles E) c g st s \<and>
     (new = [] \<and> cl_get_secret E tr (mt_namespace (tc_meta c)) (sec_name s) = Inr s \<or>
      new = [BundleCreate s] \<and> cl_get_secret E tr (mt_namespace (tc_meta c)) (sec_name s) = Inl ApiNotFound \<and>
      cl_write E tr (BundleCreate s) \<in> {None, Some ApiAlreadyExists})"

lemma run_create_bundle:
  "run_state (create_bundle E s) tr =
     (case cl_write E tr (BundleCreate s) of None \<Rightarrow> None | Some e \<Rightarrow> if e = ApiAlreadyExists then None else Some (ClApi e),
      tr @ [BundleCreate s])"
  by (simp add: create_bundle_def)

lemma cluster_bundle_name:
  "cluster_bundle L B c g st s \<Longrightarrow> BundleName L (mt_name (tc_meta c)) (cs_clusterID (tc_spec c)) g = Inr (sec_name s)"
  by (simp add: cluster_bundle_iff generation_secret_def Let_def ValidateBundleSecretContract_ok)

lemma ensureBundle_ok:
  assumes "bundle_yaml_law (cl_bundles E)"
    and run: "run_state (ensureBundle L E c (cs_clusterID (tc_spec c)) g) tr = (None, tr')"
  shows "\<exists>new s. tr' = tr @ new \<and> obtained_bundle L E c g BundleStateActive tr new s"
proof -
  obtain name where n: "BundleName L (mt_name (tc_meta c)) (cs_clusterID (tc_spec c)) g = Inr name"
    using run by (auto simp: ensureBundle_def Let_def split: sum.splits)
  show ?thesis
  proof (cases "cl_get_secret E tr (mt_namespace (tc_meta c)) name")
    case (Inr s)
    with run n have "cluster_bundle L (cl_bundles E) c g BundleStateActive s" "tr' = tr"
      by (auto simp: ensureBundle_def Let_def cluster_bundle_def)
    with n Inr show ?thesis using cluster_bundle_name by (fastforce simp: obtained_bundle_def)
  next
    case (Inl e)
    with run n have e: "e = ApiNotFound" by (auto simp: ensureBundle_def Let_def split: api_error.splits)
    with run n Inl obtain data s where s: "GenerateBundleData (cl_bundles E) (cl_new_bundle E tr) (cs_clusterID (tc_spec c)) = Some data"
        "BuildActiveSecret L (mt_namespace (tc_meta c)) (mt_name (tc_meta c)) (cs_clusterID (tc_spec c)) g (bundle_owner c) data = Inr s"
        "tr' = tr @ [BundleCreate s]" "cl_write E tr (BundleCreate s) \<in> {None, Some ApiAlreadyExists}"
      by (auto simp: ensureBundle_def Let_def run_create_bundle split: option.splits sum.splits if_splits)
    then have "cluster_bundle L (cl_bundles E) c g BundleStateActive s"
      using built_cluster_bundle(1)[OF assms(1)] by (simp add: BuildActiveSecret_def)
    with s n Inl e show ?thesis using cluster_bundle_name by (fastforce simp: obtained_bundle_def)
  qed
qed

lemma pending_from_active_ok:
  assumes "bundle_yaml_law (cl_bundles E)"
    and run: "run_state (pending_from_active L E c (cs_clusterID (tc_spec c)) g t) tr = (None, tr')"
  shows "\<exists>s. tr' = tr @ [BundleCreate s] \<and> cluster_bundle L (cl_bundles E) c t BundleStatePending s \<and>
    cl_write E tr (BundleCreate s) \<in> {None, Some ApiAlreadyExists}"
  using run built_cluster_bundle(2)[OF assms(1)]
  by (fastforce simp: pending_from_active_def Let_def run_create_bundle BuildPendingSecret_def split: option.splits sum.splits if_splits)

lemma ensureCARotationBundle_ok:
  assumes "bundle_yaml_law (cl_bundles E)"
    and run: "run_state (ensureCARotationBundle L E c (cs_clusterID (tc_spec c)) g) tr = (None, tr')"
  shows "(cs_caRotationRequestedGeneration (tc_spec c) \<noteq> None \<longrightarrow> NextGeneration g = Inr (g + 1)) \<and>
    (tr' = tr \<and> cs_caRotationRequestedGeneration (tc_spec c) \<in> {None, Some g} \<or>
     cs_caRotationRequestedGeneration (tc_spec c) = Some (g + 1) \<and>
     (\<exists>new s. tr' = tr @ new \<and> obtained_bundle L E c (g + 1) BundleStatePending tr new s))"
proof (cases "cs_caRotationRequestedGeneration (tc_spec c) \<in> {None, Some g}")
  case True
  with run show ?thesis by (auto simp: ensureCARotationBundle_def Let_def split: sum.splits if_splits dest: next_generation)
next
  case False
  with run obtain name where n: "cs_caRotationRequestedGeneration (tc_spec c) = Some (g + 1)" "NextGeneration g = Inr (g + 1)"
      "BundleName L (mt_name (tc_meta c)) (cs_clusterID (tc_spec c)) (g + 1) = Inr name"
    by (auto simp: ensureCARotationBundle_def Let_def split: sum.splits if_splits option.splits dest: next_generation)
  show ?thesis
  proof (cases "cl_get_secret E tr (mt_namespace (tc_meta c)) name")
    case (Inr s)
    with run n have "cluster_bundle L (cl_bundles E) c (g + 1) BundleStatePending s" "tr' = tr"
      by (auto simp: ensureCARotationBundle_def Let_def cluster_bundle_def)
    with n Inr show ?thesis using cluster_bundle_name by (fastforce simp: obtained_bundle_def)
  next
    case (Inl e)
    with run n have e: "e = ApiNotFound" by (auto simp: ensureCARotationBundle_def Let_def split: api_error.splits)
    with run n Inl have "run_state (pending_from_active L E c (cs_clusterID (tc_spec c)) g (g + 1)) tr = (None, tr')"
      by (simp add: ensureCARotationBundle_def Let_def)
    from pending_from_active_ok[OF assms(1) this] n Inl e show ?thesis
      using cluster_bundle_name by (fastforce simp: obtained_bundle_def)
  qed
qed

text \<open>The last step: one status patch, which is not ready unless everything could be observed.\<close>

definition cluster_ready :: "k8s_lib \<Rightarrow> TartCluster \<Rightarrow> bool" where
  "cluster_ready L c \<longleftrightarrow> (\<exists>k. lib_find_condition L (cst_conditions (tc_status c)) TartClusterReadyCondition = Some k \<and>
     cond_status k = ConditionTrue)"

lemma cluster_ready_set:
  "conditions_law L \<Longrightarrow> cluster_ready L (set_cluster_ready L now st r m c) \<longleftrightarrow> st = ConditionTrue"
  by (simp add: cluster_ready_def set_cluster_ready_def find_SetCondition)

lemma cluster_ready_provisioned:
  "conditions_law L \<Longrightarrow> cluster_ready L (provisioned_cluster L now d (st, r, m) g c) \<longleftrightarrow> st = ConditionTrue"
  using cluster_ready_set[of L now st r m "set_failure_domains d c"]
  by (simp add: provisioned_cluster_def Let_def cluster_ready_def)

lemma reports_run:
  assumes "conditions_law L"
  shows "\<exists>c' e'. run_state (reportBundleError L E c e) tr = ((0, Some e'), tr @ [ClusterStatusPatch c']) \<and> \<not> cluster_ready L c' \<and>
      cst_provisioned (tc_status c') = cst_provisioned (tc_status c)"
    and "\<exists>c' e'. run_state (reportCARotationError L E c e) tr = ((0, Some e'), tr @ [ClusterStatusPatch c']) \<and> \<not> cluster_ready L c' \<and>
      cst_provisioned (tc_status c') = cst_provisioned (tc_status c)"
    and "\<exists>c' e'. run_state (reportFailureDomainError L E c e) tr = ((0, Some e'), tr @ [ClusterStatusPatch c']) \<and> \<not> cluster_ready L c' \<and>
      cst_provisioned (tc_status c') = cst_provisioned (tc_status c)"
  by (simp_all add: reportBundleError_def reportCARotationError_def reportFailureDomainError_def report_cluster_error_def
      cluster_ready_set[OF assms])

text \<open>Every control plane that carries the name of the cluster is available.\<close>

definition control_planes_of :: "k8s_lib \<Rightarrow> TartCluster \<Rightarrow> TartControlPlane list \<Rightarrow> TartControlPlane list" where
  "control_planes_of L c all =
     filter (\<lambda>k. matching_labels [(lib_cluster_name_label L, mt_name (tc_meta c))] (mt_labels (k_meta k))) all"

definition control_plane_available :: "k8s_lib \<Rightarrow> TartControlPlane \<Rightarrow> bool" where
  "control_plane_available L k \<longleftrightarrow> (\<exists>a. lib_find_condition L (kst_conditions (k_status k)) TartControlPlaneAvailableCondition = Some a \<and>
     cond_status a = ConditionTrue)"

lemma aggregateReadiness_run:
  assumes "mt_name (tc_meta c) \<noteq> []"
  shows "run_state (aggregateReadiness L E c) tr =
    (case cl_list_control_planes E tr (mt_namespace (tc_meta c)) of
       Inl e \<Rightarrow> Inl (ClApi e)
     | Inr all \<Rightarrow>
         if control_planes_of L c all = []
         then Inr (ConditionTrue, ''SecretBundleReady'', ''The immutable cluster secret bundle is available.'')
         else if list_all (control_plane_available L) (control_planes_of L c all)
         then Inr (ConditionTrue, ''ControlPlaneAvailable'',
                ''The immutable cluster secret bundle is available and the TartControlPlane is Available.'')
         else Inr (ConditionFalse, ''ControlPlaneNotAvailable'', ''The TartControlPlane for this Cluster is not yet Available.''), tr)"
proof -
  have "(case lib_find_condition L (kst_conditions (k_status k)) TartControlPlaneAvailableCondition of
           None \<Rightarrow> True | Some available \<Rightarrow> cond_status available \<noteq> ConditionTrue) \<longleftrightarrow> \<not> control_plane_available L k" for k
    by (auto simp: control_plane_available_def split: option.splits)
  with assms show ?thesis
    by (auto simp: aggregateReadiness_def Let_def control_planes_of_def list_ex_iff list_all_iff split: sum.splits)
qed

lemma observe_and_provision_run:
  assumes "conditions_law L" "mt_name (tc_meta c) \<noteq> []"
  shows "\<exists>r c'. run_state (observe_and_provision L E c g) tr = (r, tr @ [ClusterStatusPatch c']) \<and>
    (cst_provisioned (tc_status c') = Some True \<and> cst_activeSecretGeneration (tc_status c') = g \<and>
       (\<exists>hosts all. cl_list_hosts E tr = Inr hosts \<and> cl_list_control_planes E tr (mt_namespace (tc_meta c)) = Inr all \<and>
         cst_failureDomains (tc_status c') = FailureDomains hosts \<and>
         (cluster_ready L c' \<longleftrightarrow> list_all (control_plane_available L) (control_planes_of L c all))) \<or>
     snd r \<noteq> None \<and> \<not> cluster_ready L c' \<and> cst_provisioned (tc_status c') = cst_provisioned (tc_status c))"
proof (cases "cl_list_hosts E tr")
  case (Inl e)
  then show ?thesis using reports_run(3)[OF assms(1), of E c "ClApi e" tr]
    by (auto simp: observe_and_provision_def observeFailureDomains_def)
next
  case hosts: (Inr hosts)
  show ?thesis
  proof (cases "cl_list_control_planes E tr (mt_namespace (tc_meta c))")
    case (Inl e)
    with hosts show ?thesis using reports_run(3)[OF assms(1), of E c "ClApi e" tr]
      by (auto simp: observe_and_provision_def observeFailureDomains_def aggregateReadiness_run[OF assms(2)])
  next
    case (Inr all)
    with hosts show ?thesis
      by (auto simp: observe_and_provision_def observeFailureDomains_def aggregateReadiness_run[OF assms(2)]
          cluster_ready_provisioned[OF assms(1)] map_option_case split: option.splits)
  qed
qed

text \<open>Both bundles of the generation \<open>g\<close>, where the second one is asked for.\<close>

definition obtained_bundles :: "k8s_lib \<Rightarrow> cl_env \<Rightarrow> TartCluster \<Rightarrow> int \<Rightarrow> cl_event list \<Rightarrow> cl_event list \<Rightarrow> bool" where
  "obtained_bundles L E c g tr new \<longleftrightarrow> (cs_caRotationRequestedGeneration (tc_spec c) \<noteq> None \<longrightarrow> NextGeneration g = Inr (g + 1)) \<and>
   (\<exists>new1 new2 s. new = new1 @ new2 \<and> obtained_bundle L E c g BundleStateActive tr new1 s \<and>
     (new2 = [] \<and> cs_caRotationRequestedGeneration (tc_spec c) \<in> {None, Some g} \<or>
      cs_caRotationRequestedGeneration (tc_spec c) = Some (g + 1) \<and>
      (\<exists>s'. obtained_bundle L E c (g + 1) BundleStatePending (tr @ new1) new2 s')))"

text \<open>What the status patch \<open>c'\<close> that ends a pass says.\<close>

definition cluster_status_provisioned ::
  "k8s_lib \<Rightarrow> cl_env \<Rightarrow> TartCluster \<Rightarrow> int \<Rightarrow> cl_event list \<Rightarrow> TartCluster \<Rightarrow> bool" where
  "cluster_status_provisioned L E c g tr c' \<longleftrightarrow> cst_provisioned (tc_status c') = Some True \<and> cst_activeSecretGeneration (tc_status c') = g \<and>
     (\<exists>hosts all. cl_list_hosts E tr = Inr hosts \<and> cl_list_control_planes E tr (mt_namespace (tc_meta c)) = Inr all \<and>
        cst_failureDomains (tc_status c') = FailureDomains hosts \<and>
        (cluster_ready L c' \<longleftrightarrow> list_all (control_plane_available L) (control_planes_of L c all)))"

definition cluster_status_failed :: "k8s_lib \<Rightarrow> TartCluster \<Rightarrow> cl_result \<Rightarrow> TartCluster \<Rightarrow> bool" where
  "cluster_status_failed L c r c' \<longleftrightarrow> snd r \<noteq> None \<and> \<not> cluster_ready L c' \<and> cst_provisioned (tc_status c') = cst_provisioned (tc_status c)"

abbreviation creates :: "cl_event list \<Rightarrow> bool" where
  "creates new \<equiv> \<forall>e \<in> set new. \<exists>s. e = BundleCreate s"

lemma bundle_events_create: "set new \<subseteq> bundle_events L B c g \<Longrightarrow> creates new"
  by (auto simp: bundle_events_def)

lemma reports_failed:
  assumes "conditions_law L"
  shows "\<exists>r c'. run_state (reportBundleError L E c e) tr = (r, tr @ [ClusterStatusPatch c']) \<and> cluster_status_failed L c r c'"
    and "\<exists>r c'. run_state (reportCARotationError L E c e) tr = (r, tr @ [ClusterStatusPatch c']) \<and> cluster_status_failed L c r c'"
  using reports_run[OF assms, of E c e tr] by (auto simp: cluster_status_failed_def)

lemma ensure_bundles_run:
  assumes laws: "conditions_law L" "bundle_yaml_law (cl_bundles E)" and named: "mt_name (tc_meta c) \<noteq> []"
  shows "\<exists>r new c'. run_state (ensure_bundles L E c (cs_clusterID (tc_spec c)) g) tr = (r, tr @ new @ [ClusterStatusPatch c']) \<and> creates new \<and>
    (obtained_bundles L E c g tr new \<and> cluster_status_provisioned L E c g (tr @ new) c' \<or> cluster_status_failed L c r c')"
proof -
  let ?i = "cs_clusterID (tc_spec c)"
  obtain e1 tr1 where b: "run_state (ensureBundle L E c ?i g) tr = (e1, tr1)" by fastforce
  from emitsD[OF emits_ensureBundle[OF laws(2)] b] obtain new1 where n1: "tr1 = tr @ new1" "creates new1"
    using bundle_events_create by blast
  show ?thesis
  proof (cases e1)
    case (Some e)
    with b n1 show ?thesis using reports_failed(1)[OF laws(1), of E c e "tr @ new1"] by (fastforce simp: ensure_bundles_def)
  next
    case None
    obtain e2 tr2 where p: "run_state (ensureCARotationBundle L E c ?i g) tr1 = (e2, tr2)" by fastforce
    from emitsD[OF emits_ensureCARotationBundle[OF laws(2)] p] obtain new2 where n2: "tr2 = tr @ new1 @ new2" "creates new2"
      using bundle_events_create n1(1) by (metis append.assoc)
    show ?thesis
    proof (cases e2)
      case (Some e)
      with b None p n1 n2 show ?thesis
        using reports_failed(1)[OF laws(1), of E c e "tr @ new1 @ new2"] reports_failed(2)[OF laws(1), of E c e "tr @ new1 @ new2"]
        by (fastforce simp: ensure_bundles_def intro!: exI[of _ "new1 @ new2"])
    next
      case inner: None
      from b None n1(1) obtain s where s: "obtained_bundle L E c g BundleStateActive tr new1 s"
        using ensureBundle_ok[OF laws(2), of L c g tr tr1] by auto
      from ensureCARotationBundle_ok[OF laws(2), of L c g tr1 tr2] p inner n1(1) n2(1)
      have "obtained_bundles L E c g tr (new1 @ new2)" using s by (auto simp: obtained_bundles_def)
      moreover from b None p inner n2(1)
      have "run_state (ensure_bundles L E c ?i g) tr = run_state (observe_and_provision L E c g) (tr @ new1 @ new2)"
        by (simp add: ensure_bundles_def)
      ultimately show ?thesis using observe_and_provision_run[OF laws(1) named, of E g "tr @ new1 @ new2"] n1(2) n2(2)
        by (auto simp: cluster_status_provisioned_def cluster_status_failed_def intro!: exI[of _ "new1 @ new2"])
    qed
  qed
qed

text \<open>The generation that a pass works with: the one of the status, or the one found again.\<close>

definition working_generation :: "k8s_lib \<Rightarrow> cl_env \<Rightarrow> TartCluster \<Rightarrow> cl_event list \<Rightarrow> int \<Rightarrow> bool" where
  "working_generation L E c tr g \<longleftrightarrow>
     (if cst_activeSecretGeneration (tc_status c) \<noteq> 0 then g = cst_activeSecretGeneration (tc_status c)
      else fst (run_state (reconstructActiveSecretGeneration L E c (cs_clusterID (tc_spec c))) tr) = Inr g)"

lemma run_reconstruct: "\<exists>x. run_state (reconstructActiveSecretGeneration L E c i) tr = (x, tr)"
  by (auto simp: reconstructActiveSecretGeneration_def)

lemma reconcile_cluster_run:
  assumes laws: "conditions_law L" "bundle_yaml_law (cl_bundles E)" and named: "mt_name (tc_meta c) \<noteq> []"
  shows "\<exists>r new c'. run_state (reconcile_cluster L E c) tr = (r, tr @ new @ [ClusterStatusPatch c']) \<and> creates new \<and>
    ((\<exists>g. working_generation L E c tr g \<and> obtained_bundles L E c g tr new \<and> cluster_status_provisioned L E c g (tr @ new) c') \<or>
     cluster_status_failed L c r c')"
proof (cases "cst_activeSecretGeneration (tc_status c) = 0")
  case False
  then show ?thesis using ensure_bundles_run[OF assms, of "cst_activeSecretGeneration (tc_status c)" tr]
    by (fastforce simp: reconcile_cluster_def working_generation_def)
next
  case zero: True
  obtain x where x: "run_state (reconstructActiveSecretGeneration L E c (cs_clusterID (tc_spec c))) tr = (x, tr)"
    using run_reconstruct by blast
  show ?thesis
  proof (cases x)
    case (Inl e)
    obtain r c' where f: "run_state (reportBundleError L E c e) tr = (r, tr @ [ClusterStatusPatch c'])" "cluster_status_failed L c r c'"
      using reports_failed(1)[OF laws(1), of E c e tr] by blast
    with zero x Inl have "run_state (reconcile_cluster L E c) tr = (r, tr @ [] @ [ClusterStatusPatch c'])"
      by (simp add: reconcile_cluster_def Let_def)
    with f(2) show ?thesis by (metis empty_iff empty_set)
  next
    case (Inr g)
    from zero x Inr have "working_generation L E c tr g"
      "run_state (reconcile_cluster L E c) tr = run_state (ensure_bundles L E c (cs_clusterID (tc_spec c)) g) tr"
      by (simp_all add: reconcile_cluster_def working_generation_def Let_def)
    with ensure_bundles_run[OF assms, of g tr] show ?thesis by metis
  qed
qed

text \<open>The Secrets that a pass creates are the ones of that generation and of the next one.\<close>

lemma reconcile_cluster_writes:
  assumes "bundle_yaml_law (cl_bundles E)" and run: "run_state (reconcile_cluster L E c) tr = (r, tr @ new)" and e: "e \<in> set new"
  shows "(\<exists>c'. e = ClusterStatusPatch c' \<and> tc_spec c' = tc_spec c \<and> tc_meta c' = tc_meta c) \<or>
    (\<exists>g. working_generation L E c tr g \<and> e \<in> bundle_events L (cl_bundles E) c g)"
proof (cases "cst_activeSecretGeneration (tc_status c) = 0")
  case False
  with run have "run_state (ensure_bundles L E c (cs_clusterID (tc_spec c)) (cst_activeSecretGeneration (tc_status c))) tr = (r, tr @ new)"
    by (simp add: reconcile_cluster_def Let_def)
  from emits_new[OF emits_ensure_bundles[OF assms(1)] this] e False show ?thesis
    by (auto simp: cluster_status_events_def working_generation_def)
next
  case zero: True
  obtain x where x: "run_state (reconstructActiveSecretGeneration L E c (cs_clusterID (tc_spec c))) tr = (x, tr)"
    using run_reconstruct by blast
  show ?thesis
  proof (cases x)
    case (Inl err)
    with zero x run have "run_state (reportBundleError L E c err) tr = (r, tr @ new)" by (simp add: reconcile_cluster_def Let_def)
    from emits_new[OF emits_reports(1)[where g = 0] this] e show ?thesis by (auto simp: cluster_status_events_def)
  next
    case (Inr g)
    with zero x have w: "working_generation L E c tr g" by (simp add: working_generation_def)
    from zero x Inr run have "run_state (ensure_bundles L E c (cs_clusterID (tc_spec c)) g) tr = (r, tr @ new)"
      by (simp add: reconcile_cluster_def Let_def)
    from emits_new[OF emits_ensure_bundles[OF assms(1)] this] e w show ?thesis by (auto simp: cluster_status_events_def)
  qed
qed

text \<open>When a pass gets to work: the cluster was read, is not paused, not deleted, and has an ID.\<close>

definition works_on :: "k8s_lib \<Rightarrow> TartCluster \<Rightarrow> bool" where
  "works_on L c \<longleftrightarrow> \<not> IsPaused L (tc_meta c) \<and> mt_deletionTimestamp (tc_meta c) = None \<and>
     \<not> ClusterID_IsZero (cs_clusterID (tc_spec c))"

lemma Reconcile_works:
  "cl_get_cluster E tr ns n = Inr c \<Longrightarrow> works_on L c \<Longrightarrow>
     run_state (Reconcile_TartCluster L E ns n) tr = run_state (reconcile_cluster L E c) tr"
  by (simp add: Reconcile_TartCluster_def works_on_def)

lemma NewClusterID_nonzero: "NewClusterID v = Some i \<Longrightarrow> \<not> ClusterID_IsZero i"
  by (auto simp: NewClusterID_def ParseClusterID_def ClusterID_IsZero_def split: option.splits if_splits)

text \<open>Otherwise it does nothing, or gives the cluster its ID.\<close>

lemma Reconcile_idle:
  assumes "\<forall>c. cl_get_cluster E tr ns n = Inr c \<longrightarrow> \<not> works_on L c"
  shows "\<exists>r new. run_state (Reconcile_TartCluster L E ns n) tr = (r, tr @ new) \<and>
    (new = [] \<or> (\<exists>c i. cl_get_cluster E tr ns n = Inr c \<and> ClusterID_IsZero (cs_clusterID (tc_spec c)) \<and> \<not> ClusterID_IsZero i \<and>
       \<not> IsPaused L (tc_meta c) \<and> mt_deletionTimestamp (tc_meta c) = None \<and>
       new = [ClusterPatch (c\<lparr>tc_spec := (tc_spec c)\<lparr>cs_clusterID := i\<rparr>\<rparr>)]))"
  using assms
  by (auto simp: Reconcile_TartCluster_def works_on_def assign_cluster_id_def dest: NewClusterID_nonzero
      split: sum.splits api_error.splits option.splits)

subsection \<open>A status that was lost\<close>

text \<open>The Secrets of the cluster that \<open>reconstructActiveSecretGeneration\<close> lists.\<close>

definition active_secrets :: "TartCluster \<Rightarrow> Secret list \<Rightarrow> Secret list" where
  "active_secrets c secrets = filter (\<lambda>s. matching_labels [(ClusterNameLabel, mt_name (tc_meta c)),
     (ClusterIDLabel, ClusterID_String (cs_clusterID (tc_spec c))), (BundleStateLabel, BundleStateActive)] (sec_labels s)) secrets"

lemma label_present: "map_get m k = v \<Longrightarrow> v \<noteq> [] \<Longrightarrow> map_of m k = Some v"
  using map_get_nonempty[of m k] by (auto simp: map_get_def)

lemma active_secret_listed:
  assumes "generation_secret L c g BundleStateActive s" "mt_name (tc_meta c) \<noteq> []" "s \<in> set secrets"
  shows "s \<in> set (active_secrets c secrets)"
proof -
  have "ClusterID_String i \<noteq> []" for i
    using length_uuid_string[of "cluster_uuid i"] by (auto simp: ClusterID_String_def simp del: length_uuid_string)
  with assms show ?thesis
    by (auto simp: active_secrets_def matching_labels_def generation_secret_def Let_def ValidateBundleSecretContract_ok BundleStateActive_def
        intro!: label_present)
qed

lemma reconstructed_active:
  assumes secret: "cluster_bundle L B c g BundleStateActive s" and small: "g \<le> max_int32"
  shows "reconstructed_generation L B c (cs_clusterID (tc_spec c)) [s] = Inr g"
proof -
  from secret have v: "ValidateBundleSecretContract L (Some s) (mt_namespace (tc_meta c)) (mt_name (tc_meta c)) (cs_clusterID (tc_spec c)) g
      BundleStateActive (mt_uid (tc_meta c)) = None" "ValidateBundleData B (sec_data s) (cs_clusterID (tc_spec c))"
    by (simp_all add: cluster_bundle_iff generation_secret_def Let_def)
  then have g: "0 < g" "map_get (sec_labels s) GenerationLabel = format_int g"
    by (auto simp: ValidateBundleSecretContract_ok BundleName_def split: if_splits)
  from g(1) small have "parse_int 32 (format_int g) = Some g" by (intro parse_format_int) (auto simp: max_int32_def)
  with v g show ?thesis by (simp add: reconstructed_generation_def Let_def)
qed

text \<open>What is found again is the generation of the one Active Secret, or 1 when there is none.\<close>

lemma reconstructed_sound:
  "reconstructed_generation L B c (cs_clusterID (tc_spec c)) items = Inr g \<Longrightarrow>
     items = [] \<and> g = 1 \<or> (\<exists>s. items = [s] \<and> cluster_bundle L B c g BundleStateActive s)"
  by (auto simp: reconstructed_generation_def Let_def cluster_bundle_iff generation_secret_def
      split: list.splits option.splits if_splits)

lemma reconstruct_reads:
  "run_state (reconstructActiveSecretGeneration L E c (cs_clusterID (tc_spec c))) tr =
     (case cl_list_secrets E tr (mt_namespace (tc_meta c)) of Inl e \<Rightarrow> Inl (ClApi e)
      | Inr secrets \<Rightarrow> reconstructed_generation L (cl_bundles E) c (cs_clusterID (tc_spec c)) (active_secrets c secrets), tr)"
  by (simp add: reconstructActiveSecretGeneration_def active_secrets_def split: sum.splits)

subsection \<open>The pass after a pass that succeeded\<close>

text \<open>
  An API server that keeps what was created: the Secrets that a pass found or created are
  found again, and so is the status it wrote.
\<close>

definition kept_secrets :: "cl_env \<Rightarrow> cl_event list \<Rightarrow> cl_event list \<Rightarrow> bool" where
  "kept_secrets E tr new \<longleftrightarrow>
     (\<forall>ns n s. cl_get_secret E tr ns n = Inr s \<longrightarrow> cl_get_secret E (tr @ new) ns n = Inr s) \<and>
     (\<forall>s. BundleCreate s \<in> set new \<longrightarrow> cl_get_secret E (tr @ new) (sec_namespace s) (sec_name s) = Inr s)"

lemma ensureBundle_found:
  assumes "cluster_bundle L (cl_bundles E) c g BundleStateActive s" "cl_get_secret E tr (mt_namespace (tc_meta c)) (sec_name s) = Inr s"
  shows "run_state (ensureBundle L E c (cs_clusterID (tc_spec c)) g) tr = (None, tr)"
  using assms cluster_bundle_name[OF assms(1)] by (simp add: ensureBundle_def Let_def cluster_bundle_def)

lemma ensureCARotationBundle_found:
  assumes "cs_caRotationRequestedGeneration (tc_spec c) \<noteq> None \<longrightarrow> NextGeneration g = Inr (g + 1)"
    and "cs_caRotationRequestedGeneration (tc_spec c) \<in> {None, Some g} \<or>
      cs_caRotationRequestedGeneration (tc_spec c) = Some (g + 1) \<and> cluster_bundle L (cl_bundles E) c (g + 1) BundleStatePending s \<and>
      cl_get_secret E tr (mt_namespace (tc_meta c)) (sec_name s) = Inr s"
  shows "run_state (ensureCARotationBundle L E c (cs_clusterID (tc_spec c)) g) tr = (None, tr)"
  using assms cluster_bundle_name[of L "cl_bundles E" c "g + 1" BundleStatePending s]
  by (auto simp: ensureCARotationBundle_def Let_def cluster_bundle_def)

lemma cluster_bundle_cong:
  "tc_meta c' = tc_meta c \<Longrightarrow> tc_spec c' = tc_spec c \<Longrightarrow> cluster_bundle L B c' g st s \<longleftrightarrow> cluster_bundle L B c g st s"
  by (simp add: cluster_bundle_iff generation_secret_def)

lemma obtained_found:
  assumes ob: "obtained_bundle L E c g st tr new s" and kept: "kept_secrets E tr (new @ fs)"
  shows "cl_get_secret E (tr @ new @ fs) (mt_namespace (tc_meta c)) (sec_name s) = Inr s"
proof -
  from ob have ns: "sec_namespace s = mt_namespace (tc_meta c)"
    by (simp add: obtained_bundle_def cluster_bundle_iff generation_secret_def Let_def ValidateBundleSecretContract_ok)
  from ob consider "cl_get_secret E tr (mt_namespace (tc_meta c)) (sec_name s) = Inr s" | "BundleCreate s \<in> set (new @ fs)"
    by (auto simp: obtained_bundle_def)
  then show ?thesis
  proof cases
    case 1
    with kept show ?thesis by (simp add: kept_secrets_def)
  next
    case 2
    with kept have "cl_get_secret E (tr @ new @ fs) (sec_namespace s) (sec_name s) = Inr s"
      unfolding kept_secrets_def by blast
    with ns show ?thesis by simp
  qed
qed

lemma cluster_bundle_positive: "cluster_bundle L B c g st s \<Longrightarrow> 0 < g"
  using cluster_bundle_name[of L B c g st s] by (auto simp: BundleName_def split: if_splits)

text \<open>Every Secret that a pass asked for is found afterwards.\<close>

lemma second_pass_run:
  assumes ob: "obtained_bundles L E c g tr new"
    and kept: "\<And>es fs. new @ [e] = es @ fs \<Longrightarrow> kept_secrets E (tr @ es) fs"
    and same: "tc_meta c' = tc_meta c" "tc_spec c' = tc_spec c" "cst_activeSecretGeneration (tc_status c') = g"
  shows "run_state (reconcile_cluster L E c') (tr @ new @ [e]) = run_state (observe_and_provision L E c' g) (tr @ new @ [e])"
proof -
  let ?t = "tr @ new @ [e]" and ?i = "cs_clusterID (tc_spec c')"
  from ob obtain new1 new2 s where n: "new = new1 @ new2" "obtained_bundle L E c g BundleStateActive tr new1 s"
    "cs_caRotationRequestedGeneration (tc_spec c) \<noteq> None \<longrightarrow> NextGeneration g = Inr (g + 1)"
    "new2 = [] \<and> cs_caRotationRequestedGeneration (tc_spec c) \<in> {None, Some g} \<or>
      cs_caRotationRequestedGeneration (tc_spec c) = Some (g + 1) \<and> (\<exists>s'. obtained_bundle L E c (g + 1) BundleStatePending (tr @ new1) new2 s')"
    by (auto simp: obtained_bundles_def)
  have k: "kept_secrets E tr (new1 @ new2 @ [e])" "kept_secrets E (tr @ new1) (new2 @ [e])"
    using kept[of "[]" "new @ [e]"] kept[of new1 "new2 @ [e]"] n(1) by simp_all
  from n(2) have "cluster_bundle L (cl_bundles E) c g BundleStateActive s" by (simp add: obtained_bundle_def)
  from cluster_bundle_positive[OF this] have g: "g \<noteq> 0" by simp
  have "cl_get_secret E ?t (mt_namespace (tc_meta c')) (sec_name s) = Inr s"
    using obtained_found[OF n(2) k(1)] n(1) same by simp
  moreover have "cluster_bundle L (cl_bundles E) c' g BundleStateActive s"
    using n(2) by (simp add: obtained_bundle_def cluster_bundle_cong[OF same(1,2)])
  ultimately have e1: "run_state (ensureBundle L E c' ?i g) ?t = (None, ?t)" by (rule ensureBundle_found[rotated])
  have e2: "run_state (ensureCARotationBundle L E c' ?i g) ?t = (None, ?t)"
  proof (cases "cs_caRotationRequestedGeneration (tc_spec c) \<in> {None, Some g}")
    case True
    then show ?thesis using n(3) by (intro ensureCARotationBundle_found) (simp_all add: same)
  next
    case False
    with n(4) obtain s' where s': "cs_caRotationRequestedGeneration (tc_spec c) = Some (g + 1)"
      "obtained_bundle L E c (g + 1) BundleStatePending (tr @ new1) new2 s'" by auto
    then have "cl_get_secret E ?t (mt_namespace (tc_meta c')) (sec_name s') = Inr s'"
      using obtained_found[OF s'(2) k(2)] n(1) same by simp
    moreover have "cluster_bundle L (cl_bundles E) c' (g + 1) BundleStatePending s'"
      using s'(2) by (simp add: obtained_bundle_def cluster_bundle_cong[OF same(1,2)])
    ultimately show ?thesis using n(3) s'(1) by (intro ensureCARotationBundle_found) (simp_all add: same)
  qed
  from e1 e2 g same(3) show ?thesis by (simp add: reconcile_cluster_def ensure_bundles_def Let_def)
qed

lemma reconcile_cluster_keeps:
  assumes "bundle_yaml_law (cl_bundles E)" "run_state (reconcile_cluster L E c) tr = (r, tr @ new)" "ClusterStatusPatch c' \<in> set new"
  shows "tc_meta c' = tc_meta c" "tc_spec c' = tc_spec c"
  using reconcile_cluster_writes[OF assms] by (auto simp: bundle_events_def)

text \<open>What a pass over a cluster that it works on did.\<close>

lemma works_run:
  assumes laws: "conditions_law L" "bundle_yaml_law (cl_bundles E)"
    and read: "cl_get_cluster E tr ns n = Inr c" "works_on L c" "mt_name (tc_meta c) \<noteq> []"
    and run: "run_state (Reconcile_TartCluster L E ns n) tr = (r, tr @ new)"
  obtains es c' where "new = es @ [ClusterStatusPatch c']" "creates es" "tc_meta c' = tc_meta c" "tc_spec c' = tc_spec c"
    "(\<exists>g. working_generation L E c tr g \<and> obtained_bundles L E c g tr es \<and> cluster_status_provisioned L E c g (tr @ es) c') \<or>
     cluster_status_failed L c r c'"
proof -
  from reconcile_cluster_run[OF laws read(3), of tr] obtain r1 es c' where es:
    "run_state (reconcile_cluster L E c) tr = (r1, tr @ es @ [ClusterStatusPatch c'])" "creates es"
    "(\<exists>g. working_generation L E c tr g \<and> obtained_bundles L E c g tr es \<and> cluster_status_provisioned L E c g (tr @ es) c') \<or>
     cluster_status_failed L c r1 c'" by blast
  with Reconcile_works[OF read(1,2)] run have "new = es @ [ClusterStatusPatch c']" "r1 = r" by simp_all
  with es reconcile_cluster_keeps[OF laws(2) es(1), of c'] that show thesis by simp
qed

text \<open>The labels of the Secrets of a cluster decide which of them are listed as Active.\<close>

lemma cluster_bundle_state:
  assumes "cluster_bundle L B c g st s" "st' \<in> {BundleStateActive, BundleStateRetired}"
  shows "cluster_bundle L B c g st' (set_bundle_state st' s)"
  using assms generation_secret_state by (auto simp: cluster_bundle_iff set_bundle_state_def)

lemma active_secrets_states:
  assumes "generation_secret L c g st s" "mt_name (tc_meta c) \<noteq> []"
  shows "active_secrets c (s # rest) = (if st = BundleStateActive then s # active_secrets c rest else active_secrets c rest)"
proof (cases "st = BundleStateActive")
  case True
  then have "s \<in> set (active_secrets c [s])" using active_secret_listed assms by (metis list.set_intros(1))
  with True show ?thesis by (auto simp: active_secrets_def split: if_splits)
next
  case False
  with assms(1) have "map_get (sec_labels s) BundleStateLabel \<noteq> BundleStateActive"
    by (simp add: generation_secret_def Let_def ValidateBundleSecretContract_ok)
  with False show ?thesis by (auto simp: active_secrets_def matching_labels_def map_get_def)
qed

lemma working_generation_lost:
  assumes "cst_activeSecretGeneration (tc_status c) = 0" "cl_list_secrets E tr (mt_namespace (tc_meta c)) = Inr secrets"
  shows "working_generation L E c tr g \<longleftrightarrow>
    reconstructed_generation L (cl_bundles E) c (cs_clusterID (tc_spec c)) (active_secrets c secrets) = Inr g"
  using assms by (simp add: working_generation_def reconstruct_reads)

end
