(* ===== verification/RecoveryCollection.thy ===== *)
theory RecoveryCollection
  imports Recovery Prelude
begin

section \<open>The collection of recovery Secrets\<close>

text \<open>
  \<open>controller/talosrecovery/reconciler.go\<close>: one pass over a Secret of the management
  namespace. The only event is the deletion, with the UID and the resource version of the
  Secret that was read as preconditions; the decision is \<open>ShouldDelete\<close>.
\<close>

datatype rc_event = RecoverySecretDelete Secret

record rc_env =
  rc_now :: "rc_event list \<Rightarrow> time"
  rc_get_secret :: "rc_event list \<Rightarrow> string \<Rightarrow> string \<Rightarrow> api_error + Secret"
  rc_list_hosts :: "rc_event list \<Rightarrow> api_error + TartHost list"
  rc_delete :: "rc_event list \<Rightarrow> rc_event \<Rightarrow> api_error option"

type_synonym 'a rc = "(rc_event, 'a) io"

definition talosRecoveryResync :: duration where "talosRecoveryResync = 10 * minute"

definition Reconcile_TalosRecovery :: "rc_env \<Rightarrow> string \<Rightarrow> string \<Rightarrow> string \<Rightarrow> (duration \<times> api_error option) rc" where
  "Reconcile_TalosRecovery E managementNamespace namespace name =
     (if managementNamespace = [] \<or> namespace \<noteq> managementNamespace then State_Monad.return (0, None)
      else do {
        found \<leftarrow> query (\<lambda>tr. rc_get_secret E tr namespace name);
        (case found of
           Inl ApiNotFound \<Rightarrow> State_Monad.return (0, None)
         | Inl e \<Rightarrow> State_Monad.return (0, Some e)
         | Inr secret \<Rightarrow>
             if \<not> IsRecoverySecret (Some secret) then State_Monad.return (0, None)
             else do {
               listed \<leftarrow> query (rc_list_hosts E);
               (case listed of
                  Inl e \<Rightarrow> State_Monad.return (0, Some e)
                | Inr hosts \<Rightarrow> do {
                    now \<leftarrow> query (rc_now E);
                    if \<not> ShouldDelete (Some secret) hosts now CreationGracePeriod
                    then State_Monad.return (talosRecoveryResync, None)
                    else do {
                      err \<leftarrow> call (RecoverySecretDelete secret) (\<lambda>tr. rc_delete E tr (RecoverySecretDelete secret));
                      State_Monad.return (0, case err of None \<Rightarrow> None
                        | Some e \<Rightarrow> if e = ApiNotFound \<or> e = ApiConflict then None else Some e)
                    }
                  })
             })
      })"

text \<open>The predicate of the watch: only recovery Secrets are reconciled.\<close>

definition recoverySecrets :: "Secret \<Rightarrow> bool" where
  "recoverySecrets secret \<longleftrightarrow> IsRecoverySecret (Some secret)"

text \<open>When a Secret is due: it is one of this namespace, old enough, and no host refers to it.\<close>

definition collectable :: "rc_env \<Rightarrow> rc_event list \<Rightarrow> Secret \<Rightarrow> bool" where
  "collectable E tr s \<longleftrightarrow> IsRecoverySecret (Some s) \<and> sec_deletionTimestamp s = None \<and> \<not> blank (map_get (sec_labels s) ClusterIDLabel) \<and>
     (sec_creationTimestamp s = 0 \<or> 30 * minute \<le> time_sub (rc_now E tr) (sec_creationTimestamp s)) \<and>
     (\<exists>hosts. rc_list_hosts E tr = Inr hosts \<and> (\<forall>h \<in> set hosts. \<not> IsReferencedBy h (sec_name s)))"

lemma collectable_iff:
  "collectable E tr s \<longleftrightarrow> (\<exists>hosts. rc_list_hosts E tr = Inr hosts \<and> ShouldDelete (Some s) hosts (rc_now E tr) CreationGracePeriod)"
  by (auto simp: collectable_def ShouldDelete_iff CreationGracePeriod_def minute_def second_def)

lemma Reconcile_TalosRecovery_run:
  "run_state (Reconcile_TalosRecovery E m ns n) tr =
     (if m = [] \<or> ns \<noteq> m then ((0, None), tr)
      else case rc_get_secret E tr ns n of
             Inl e \<Rightarrow> ((0, if e = ApiNotFound then None else Some e), tr)
           | Inr s \<Rightarrow>
               if \<not> IsRecoverySecret (Some s) then ((0, None), tr)
               else (case rc_list_hosts E tr of
                       Inl e \<Rightarrow> ((0, Some e), tr)
                     | Inr _ \<Rightarrow>
                         if collectable E tr s
                         then ((0, case rc_delete E tr (RecoverySecretDelete s) of
                                     Some e \<Rightarrow> if e \<in> {ApiNotFound, ApiConflict} then None else Some e | None \<Rightarrow> None),
                               tr @ [RecoverySecretDelete s])
                         else ((10 * minute, None), tr)))"
  by (auto simp: Reconcile_TalosRecovery_def collectable_iff talosRecoveryResync_def split: sum.splits api_error.splits option.splits)

end
