(* ===== verification/ClaimProtocol.thy ===== *)
theory ClaimProtocol
  imports HostRepository
begin

section \<open>Many clients, one host: a claim is exclusive\<close>

text \<open>
  The requests of any number of running \<open>ClaimHostWithRequest\<close> and \<open>RetainHost\<close> loops,
  interleaved arbitrarily with each other and with every other writer of the host (users,
  and controllers that update other fields or the status). The server accepts an update
  only against the stored version and then gives the object a new one. A client's copy may
  be as old as it likes: a cache is not assumed to be current. \<open>ledger\<close> is a ghost: the
  ownership changes in the order in which they were committed.
\<close>

datatype ownership = Took object_reference | Released object_reference

record world =
  server :: TartHost
  copies :: "nat \<Rightarrow> TartHost option"
  ledger :: "ownership list"

definition next_version :: "TartHost \<Rightarrow> TartHost" where
  "next_version h = h\<lparr>h_meta := (h_meta h)\<lparr>mt_resourceVersion := Suc (rv h)\<rparr>\<rparr>"

inductive cas_step :: "k8s_lib \<Rightarrow> world \<Rightarrow> world \<Rightarrow> bool" for L where
  read: "cas_step L w (w\<lparr>copies := (copies w)(i \<mapsto> server w)\<rparr>)"
| claim: "copies w i = Some h \<Longrightarrow> claim_verdict L req h = Inr ClaimApply \<Longrightarrow> rv h = rv (server w) \<Longrightarrow>
    stored = next_version (set_consumer (req_consumer req) h) \<Longrightarrow>
    cas_step L w (w\<lparr>server := stored, copies := (copies w)(i \<mapsto> stored),
                    ledger := ledger w @ [Took (req_consumer req)]\<rparr>)"
| retain: "copies w i = Some h \<Longrightarrow> DecideRetention (h_spec h) consumer previous = Inr ClaimApply \<Longrightarrow>
    rv h = rv (server w) \<Longrightarrow> stored = next_version (set_retained previous h) \<Longrightarrow>
    cas_step L w (w\<lparr>server := stored, copies := (copies w)(i \<mapsto> stored),
                    ledger := ledger w @ [Released consumer]\<rparr>)"
| other: "hs_consumerRef (h_spec h) = hs_consumerRef (h_spec (server w)) \<Longrightarrow>
    hs_previousConsumerRef (h_spec h) = hs_previousConsumerRef (h_spec (server w)) \<Longrightarrow>
    rv h = rv (server w) \<Longrightarrow>
    cas_step L w (w\<lparr>server := next_version h\<rparr>)"

inductive cas_reach :: "k8s_lib \<Rightarrow> world \<Rightarrow> world \<Rightarrow> bool" for L w0 where
  start: "cas_reach L w0 w0"
| more: "cas_reach L w0 w \<Longrightarrow> cas_step L w w' \<Longrightarrow> cas_reach L w0 w'"

definition initial :: "world \<Rightarrow> bool" where
  "initial w \<longleftrightarrow> copies w = Map.empty \<and> ledger w = []"

text \<open>The owner after a sequence of changes; \<open>None\<close> when one of them was not its turn:
  a host is taken only when nobody has it, and released only by its owner.\<close>

fun owner_after :: "object_reference option \<Rightarrow> ownership list \<Rightarrow> object_reference option option" where
  "owner_after own [] = Some own"
| "owner_after own (Took c # cs) = (if own = None then owner_after (Some c) cs else None)"
| "owner_after own (Released c # cs) = (if own = Some c then owner_after None cs else None)"

lemma owner_after_append:
  "owner_after own (xs @ ys) = (case owner_after own xs of None \<Rightarrow> None | Some o' \<Rightarrow> owner_after o' ys)"
  by (induction own xs rule: owner_after.induct) auto

text \<open>A copy is never newer than the server, and equal to it when the versions agree.\<close>

definition copies_ok :: "world \<Rightarrow> bool" where
  "copies_ok w \<longleftrightarrow> (\<forall>i h. copies w i = Some h \<longrightarrow> rv h \<le> rv (server w) \<and> (rv h = rv (server w) \<longrightarrow> h = server w))"

lemma rv_simps [simp]:
  "rv (next_version h) = Suc (rv h)" "h_spec (next_version h) = h_spec h"
  "rv (set_consumer c h) = rv h" "rv (set_retained p h) = rv h"
  "hs_consumerRef (h_spec (set_consumer c h)) = Some c"
  "hs_consumerRef (h_spec (set_retained p h)) = None"
  "hs_previousConsumerRef (h_spec (set_retained p h)) = Some p"
  "hs_previousConsumerRef (h_spec (set_consumer c h)) = hs_previousConsumerRef (h_spec h)"
  by (simp_all add: next_version_def set_consumer_def set_retained_def)

lemma copies_ok_step: "cas_step L w w' \<Longrightarrow> copies_ok w \<Longrightarrow> copies_ok w'"
  by (induction rule: cas_step.induct) (fastforce simp: copies_ok_def le_Suc_eq)+

lemma copies_ok_reach: "cas_reach L w0 w \<Longrightarrow> initial w0 \<Longrightarrow> copies_ok w"
proof (induction rule: cas_reach.induct)
  case start
  then show ?case by (simp add: initial_def copies_ok_def)
qed (simp add: copies_ok_step)

text \<open>What a step can do to the owner, given that copies are coherent.\<close>

lemma cas_step_owner:
  assumes "cas_step L w w'" "copies_ok w"
  obtains (same) "hs_consumerRef (h_spec (server w')) = hs_consumerRef (h_spec (server w))"
      "hs_previousConsumerRef (h_spec (server w')) = hs_previousConsumerRef (h_spec (server w))"
      "ledger w' = ledger w"
  | (took) req where "ledger w' = ledger w @ [Took (req_consumer req)]"
      "ValidateClaimCandidate L (Some (server w)) req = None"
      "hs_consumerRef (h_spec (server w')) = Some (req_consumer req)"
      "hs_previousConsumerRef (h_spec (server w')) = hs_previousConsumerRef (h_spec (server w))"
  | (released) c p where "ledger w' = ledger w @ [Released c]"
      "hs_consumerRef (h_spec (server w)) = Some c" "hs_consumerRef (h_spec (server w')) = None"
      "hs_previousConsumerRef (h_spec (server w')) = Some p" "prev_uid p = ref_uid c"
  using assms(1)
proof cases
  case (read i)
  then show ?thesis using same by simp
next
  case (claim i h req stored)
  then have "h = server w" using assms(2) by (auto simp: copies_ok_def)
  with claim took show ?thesis by (auto simp: claim_verdict_apply)
next
  case (retain i h consumer previous stored)
  then have "h = server w" using assms(2) by (auto simp: copies_ok_def)
  with retain released show ?thesis by (auto simp: DecideRetention_apply)
next
  case (other h)
  then show ?thesis using same by simp
qed

lemma ledger_reach:
  "cas_reach L w0 w \<Longrightarrow> initial w0 \<Longrightarrow>
     owner_after (hs_consumerRef (h_spec (server w0))) (ledger w) = Some (hs_consumerRef (h_spec (server w)))"
proof (induction rule: cas_reach.induct)
  case start
  then show ?case by (simp add: initial_def)
next
  case (more w w')
  then have ok: "copies_ok w" by (simp add: copies_ok_reach)
  from more.hyps(2) ok show ?case
  proof (cases rule: cas_step_owner)
    case (took req)
    then have "hs_consumerRef (h_spec (server w)) = None" by (simp add: ValidateClaimCandidate_unclaimed)
    with took more show ?thesis by (simp add: owner_after_append)
  qed (use more in \<open>simp_all add: owner_after_append\<close>)
qed

end
