(* ===== verification/Samples.thy ===== *)
theory Samples
  imports ClaimProtocol MachineProvisioning
begin

section \<open>Concrete objects for the witnesses\<close>

text \<open>A fresh host, a consumer and the request of that consumer for the host.\<close>

definition sample_meta :: "string \<Rightarrow> object_meta" where
  "sample_meta n =
     \<lparr>mt_name = n, mt_namespace = [], mt_uid = ''uid-'' @ n, mt_generation = 1, mt_resourceVersion = 7,
      mt_labels = [(''rack'', ''r1'')], mt_annotations = [], mt_finalizers = [], mt_owners = [],
      mt_deletionTimestamp = None\<rparr>"

definition sample_spec :: "uuid \<Rightarrow> TartHostSpec" where
  "sample_spec u =
     \<lparr>hs_hostID = HostID u, hs_macAddress = \<lparr>mac_value = 1, mac_set = True\<rparr>, hs_talosAPIAddress = [],
      hs_architecture = ''amd64'', hs_failureDomain = ''zone-a'',
      hs_power = \<lparr>pw_backend = PowerBackendManual, pw_redfish = None, pw_wakeOnLAN = None, pw_intelManageability = None\<rparr>,
      hs_consumerRef = None, hs_previousConsumerRef = None, hs_reusePolicy = ReusePolicyRetain,
      hs_reuseApproval = None, hs_reuseMode = ReuseModeOther [], hs_deletionApproval = None,
      hs_shutdownConfirmation = None\<rparr>"

definition sample_host_status :: TartHostStatus where
  "sample_host_status =
     \<lparr>hst_currentTalosIdentityRef = None, hst_inventory = None, hst_bootAttempts = [], hst_addresses = [],
      hst_powerOnAttempts = None, hst_observedGeneration = 0, hst_conditions = []\<rparr>"

definition sample_host :: "string \<Rightarrow> uuid \<Rightarrow> TartHost" where
  "sample_host n u = \<lparr>h_meta = sample_meta n, h_spec = sample_spec u, h_status = sample_host_status\<rparr>"

definition sample_consumer :: "string \<Rightarrow> object_reference" where
  "sample_consumer u =
     \<lparr>ref_kind = ''TartMachine'', ref_namespace = ''default'', ref_name = ''m-'' @ u, ref_uid = u,
      ref_apiVersion = ''infrastructure.cluster.x-k8s.io/v1alpha1'', ref_resourceVersion = [], ref_fieldPath = []\<rparr>"

definition sample_request :: "string \<Rightarrow> ClaimRequest" where
  "sample_request u =
     \<lparr>req_consumer = sample_consumer u, req_expectedHostID = HostID 0, req_selector = None,
      req_failureDomain = ''zone-a'', req_mode = ClaimFreshAutomatic\<rparr>"

lemmas sample_defs = sample_meta_def sample_spec_def sample_host_status_def sample_host_def
  sample_consumer_def sample_request_def

text \<open>A server whose version is the number of updates it has answered: it accepts the
  first request, and holds the fresh host until then.\<close>

definition sample_stored :: "host_event list \<Rightarrow> TartHost" where
  "sample_stored tr =
     (let h = sample_host ''h1'' 5
      in h\<lparr>h_meta := (h_meta h)\<lparr>mt_resourceVersion := length tr\<rparr>\<rparr>)"

definition sample_env :: host_env where
  "sample_env =
     \<lparr>he_update = (\<lambda>tr h. if rv h = length tr then Inr (next_version h) else Inl ApiConflict),
      he_get = (\<lambda>tr n. Inr (sample_stored tr))\<rparr>"

lemma sample_env_versioned: "versioned sample_env sample_stored"
  by (auto simp: versioned_def sample_env_def sample_stored_def Let_def)

subsection \<open>A machine, its cluster, and a world that answers\<close>

definition sample_cluster_id :: ClusterID where "sample_cluster_id = ClusterID 77"

definition sample_capi :: capi_machine where
  "sample_capi =
     \<lparr>cm_meta = (sample_meta ''m1'')\<lparr>mt_namespace := ''default''\<rparr>, cm_clusterName = ''c1'',
      cm_configRef = \<lparr>cr_apiGroup = bootstrap_group, cr_kind = TartBootstrapConfigKind, cr_name = ''b1''\<rparr>,
      cm_infrastructureRef = \<lparr>cr_apiGroup = infra_group, cr_kind = TartMachineKind, cr_name = ''m1''\<rparr>,
      cm_providerID = [], cm_failureDomain = ''zone-a'', cm_version = ''v1.35.0'', cm_nodeRef = [], cm_conditions = [],
      cm_readinessGates = None, cm_taints = None,
      cm_deletion = \<lparr>md_drainTimeout = None, md_volumeDetachTimeout = None, md_nodeDeletionTimeout = None\<rparr>,
      cm_kubeletVersion = []\<rparr>"

definition sample_machine :: TartMachine where
  "sample_machine =
     \<lparr>m_meta = (sample_meta ''m1'')\<lparr>mt_namespace := ''default'', mt_uid := ''u1'', mt_finalizers := [tartMachineFinalizer]\<rparr>,
      m_spec = \<lparr>ms_hostRef = None, ms_hostSelector = None,
        ms_image = \<lparr>img_version = ''v1.14.2'', img_schematicID = ''abc''\<rparr>, ms_providerID = ProviderID ''tart://h''\<rparr>,
      m_status = \<lparr>mst_provisioned = None, mst_addresses = [], mst_failureDomain = [], mst_hostRef = None, mst_talosVersion = [],
        mst_talosSchematicID = [], mst_observedControlPlaneEndpoint = [], mst_observedConfigurationDigest = [],
        mst_observedGeneration = 0, mst_conditions = []\<rparr>\<rparr>"

text \<open>A configuration is its provider ID behind a header, or has none.\<close>

definition sample_talos :: talos_lib where
  "sample_talos =
     \<lparr>tl_load = (\<lambda>c. Some \<lparr>tp_unattended = True, tp_has_kubelet = True,
        tp_kubelet = Some (''kubelet'', if c = ''cfg'' then [] else [drop 4 c])\<rparr>),
      tl_patch = (\<lambda>c p. case p of PatchInstallerImage _ \<Rightarrow> if blank c then None else Some c
        | PatchKubeletProviderID img pid \<Rightarrow> if img = ''kubelet'' \<and> \<not> blank (''cfg:'' @ pid) then Some (''cfg:'' @ pid) else None),
      tl_semver_valid = (\<lambda>_. True), tl_semver_lt = (\<lambda>_ _. False), tl_semver_eq = (\<lambda>a b. a = b),
      tl_upgradeable = (\<lambda>_ _. True)\<rparr>"

lemma sample_talos_law: "talos_patch_law sample_talos"
  by (auto simp: talos_patch_law_def sample_talos_def split: if_splits)

definition sample_inventory :: Inventory where
  "sample_inventory =
     \<lparr>ti_bootID = ''boot'', ti_systemUUID = 9, ti_architecture = ''amd64'',
      ti_macAddresses = [\<lparr>mac_value = 1, mac_set = True\<rparr>], ti_disks = [], ti_networkInterfaces = []\<rparr>"

definition sample_bootstrap_config :: TartBootstrapConfig where
  "sample_bootstrap_config =
     \<lparr>bc_meta = sample_meta ''b1'',
      bc_spec = \<lparr>bcs_configPatchesSecretRef = Some ''patches'', bcs_updatePolicy = ConfigurationApplyStrategyStagedReboot\<rparr>,
      bc_status = \<lparr>bcst_dataSecretCreated = Some True, bcst_dataSecretName = ''data'', bcst_configurationDigest = [],
        bcst_observedGeneration = 1, bcst_conditions = []\<rparr>\<rparr>"

text \<open>Every request succeeds; there is one host, no cluster, no lease and no workload cluster.\<close>

definition sample_tm :: tm_env where
  "sample_tm =
     \<lparr>te_now = (\<lambda>tr. 1000 + int (length tr)),
      te_list_hosts = (\<lambda>_. Inr [sample_host ''h1'' 5]),
      te_get_host = (\<lambda>_ n. if n = ''h1'' then Inr (sample_host ''h1'' 5) else Inl ApiNotFound),
      te_get_capi_machine = (\<lambda>_ _ n. if n = ''m1'' then Inr sample_capi else Inl ApiNotFound),
      te_list_capi_machines = (\<lambda>_ _. Inr [sample_capi]),
      te_get_cluster = (\<lambda>_ _ _. Inl ApiNotFound),
      te_get_tart_cluster = (\<lambda>_ _ _. Inl ApiNotFound),
      te_get_tart_machine = (\<lambda>_ _ n. if n = ''m1'' then Inr sample_machine else Inl ApiNotFound),
      te_get_bootstrap_config = (\<lambda>_ _ _. Inr sample_bootstrap_config),
      te_get_secret = (\<lambda>_ _ _. Inl ApiNotFound),
      te_write = (\<lambda>_ _. None),
      te_host_update = (\<lambda>_ h. Inr h),
      te_host_get = (\<lambda>_ n. Inr (sample_host n 5)),
      te_dial = (\<lambda>_ _. None),
      te_rpc = (\<lambda>_ _. None),
      te_inventory = (\<lambda>_ _. Inr sample_inventory),
      te_text = (\<lambda>_ e. case e of Rpc _ _ RpcVersion \<Rightarrow> Inr ''v1.14.0'' | Rpc _ _ RpcSchematic \<Rightarrow> Inr ''abc'' | _ \<Rightarrow> Inr ''cfg''),
      te_power_state = (\<lambda>_ _. Inr PowerStateOff),
      te_power_off = (\<lambda>_ _. True),
      te_ctx_done = (\<lambda>_. False),
      te_etcd_members = (\<lambda>_ _. Inr [\<lparr>em_id = 3, em_learner = False\<rparr>]),
      te_etcd_status = (\<lambda>_ _. Inr \<lparr>es_memberID = 3, es_leader = 3, es_errors = []\<rparr>),
      te_boot_time = (\<lambda>tr _. Inr (of_nat (length tr) + 1)),
      te_kubeconfig_valid = (\<lambda>_. True),
      te_list_nodes = (\<lambda>_ _. Inr []),
      te_list_pods = (\<lambda>_ _ _. Inr []),
      te_get_lease = (\<lambda>_ _ _. Inl ApiNotFound),
      te_talos = sample_talos,
      te_control_plane_endpoint = (\<lambda>_. Some ''https://ep:6443''),
      te_configuration_digest = (\<lambda>c. Some c),
      te_configuration_valid = (\<lambda>_. True),
      te_classify_change = (\<lambda>_ _. Some (ChangeUpdatable, [])),
      te_parse_ip = (\<lambda>_. False),
      te_load_cluster_id = (\<lambda>_. None),
      te_decode_bundle = (\<lambda>_. None),
      te_bundle_valid = (\<lambda>_. True)\<rparr>"

text \<open>The host of the machine, with the recovery identity of its installation, and a world in
  which that host is in maintenance mode.\<close>

definition sample_identity :: TalosIdentityReference where
  "sample_identity = \<lparr>tid_clusterID = sample_cluster_id, tid_recoverySecretRef = ''s'', tid_boundAt = 5\<rparr>"

definition sample_bound_host :: TartHost where
  "sample_bound_host =
     (sample_host ''h1'' 5)\<lparr>h_spec := (sample_spec 5)\<lparr>hs_talosAPIAddress := ''10.0.0.1'',
        hs_consumerRef := Some (machine_consumer sample_machine)\<rparr>,
      h_status := sample_host_status\<lparr>hst_currentTalosIdentityRef := Some sample_identity\<rparr>\<rparr>"

definition sample_maintenance :: tm_env where
  "sample_maintenance = sample_tm\<lparr>te_dial := (\<lambda>_ e. case e of Dial _ (AuthConfiguration _) \<Rightarrow> Some DialFailed | _ \<Rightarrow> None)\<rparr>"

lemma outcome: "fst (run_state m tr) = x \<Longrightarrow> run_state m tr = (x, snd (run_state m tr))"
  by (simp add: prod_eq_iff)

lemma outcome2: "fst (fst (run_state m tr)) = x \<Longrightarrow> run_state m tr = ((x, snd (fst (run_state m tr))), snd (run_state m tr))"
  by (simp add: prod_eq_iff)

lemma from_start: "run_state m [] = (fst (run_state m []), [] @ snd (run_state m []))"
  by simp

subsection \<open>A host that is reused, and its recovery identities\<close>

text \<open>Names are not checked here, so that the fingerprints in them need not be computed.\<close>

definition sample_lib :: k8s_lib where "sample_lib = k8s_reference\<lparr>lib_is_dns1123_subdomain := \<lambda>_. True\<rparr>"

definition sample_ca :: pem_pair where "sample_ca = \<lparr>pem_crt = ''crt'', pem_key = ''key''\<rparr>"

definition sample_material :: Material where
  "sample_material = \<lparr>mat_clusterID = sample_cluster_id, mat_ca = Some sample_ca\<rparr>"

definition sample_recovery_secret :: Secret where
  "sample_recovery_secret = (case BuildRecoverySecret sample_lib ''ns'' sample_material of Inr s \<Rightarrow> s | Inl _ \<Rightarrow> zero_secret)"

lemma sample_not_blank: "\<not> blank ''crt''" "\<not> blank ''key''" "\<not> blank ''ns''" "\<not> blank ''10.0.0.1''"
  by code_simp+

lemma sample_cluster_id_nonzero: "\<not> ClusterID_IsZero sample_cluster_id"
  by code_simp

lemma sample_recovery_built: "BuildRecoverySecret sample_lib ''ns'' sample_material = Inr sample_recovery_secret"
  by (simp add: sample_recovery_secret_def BuildRecoverySecret_def sample_material_def sample_ca_def sample_not_blank
      SecretName_def CertificateAuthorityFingerprint_def sample_cluster_id_nonzero sample_lib_def Let_def)

lemma sample_recovery_decoded: "DecodeSecret sample_lib (Some sample_recovery_secret) sample_cluster_id = Inr sample_material"
  using decode_built[OF sample_recovery_built, of sample_ca sample_cluster_id]
  by (simp add: sample_material_def sample_ca_def sample_not_blank)

definition sample_owner :: owner_reference where
  "sample_owner = \<lparr>own_apiVersion = infra_group_version, own_kind = ''TartCluster'', own_name = ''t1'', own_uid = ''tu'',
     own_controller = Some True\<rparr>"

definition sample_bundle_secret :: Secret where
  "sample_bundle_secret =
     (case BuildActiveSecret sample_lib ''default'' ''t1'' sample_cluster_id 1 sample_owner [(''bundle'', ''x'')] of
        Inr s \<Rightarrow> s | Inl _ \<Rightarrow> zero_secret)"

lemma sample_bundle_built:
  "BuildActiveSecret sample_lib ''default'' ''t1'' sample_cluster_id 1 sample_owner [(''bundle'', ''x'')] = Inr sample_bundle_secret"
  by (simp add: sample_bundle_secret_def BuildActiveSecret_def buildBundleSecret_def BundleName_def sample_cluster_id_nonzero
      sample_lib_def sample_owner_def cloneCompleteData_def infra_group_version_def Let_def)

lemma sample_bundle_data: "sec_data sample_bundle_secret = [(''bundle'', ''x'')]"
  by (simp add: sample_bundle_secret_def BuildActiveSecret_def buildBundleSecret_def BundleName_def sample_cluster_id_nonzero
      sample_lib_def sample_owner_def cloneCompleteData_def infra_group_version_def Let_def)

lemma sample_bundle_valid:
  "ValidateBundleSecretContract sample_lib (Some sample_bundle_secret) ''default'' ''t1'' sample_cluster_id 1 BundleStateActive ''tu'' = None"
  using buildBundleSecret_ok[OF sample_bundle_built[unfolded BuildActiveSecret_def]] by (simp add: sample_owner_def)

definition sample_cluster :: capi_cluster where
  "sample_cluster =
     \<lparr>cl_meta = (sample_meta ''c1'')\<lparr>mt_namespace := ''default''\<rparr>,
      cl_infrastructureRef = \<lparr>cr_apiGroup = infra_group, cr_kind = TartClusterKind, cr_name = ''t1''\<rparr>,
      cl_endpoint_host = ''ep'', cl_endpoint_port = 6443, cl_controlPlaneInitialized = Some True\<rparr>"

definition sample_tart :: TartCluster where
  "sample_tart =
     \<lparr>tc_meta = (sample_meta ''t1'')\<lparr>mt_namespace := ''default'', mt_uid := ''tu''\<rparr>,
      tc_spec = \<lparr>cs_clusterID = sample_cluster_id, cs_disruptionPolicy = DisruptionPolicyBlock,
        cs_caRotationRequestedGeneration = None\<rparr>,
      tc_status = \<lparr>cst_provisioned = Some True, cst_failureDomains = [], cst_activeSecretGeneration = 1,
        cst_observedGeneration = 1, cst_conditions = []\<rparr>\<rparr>"

definition sample_recovery :: tm_env where
  "sample_recovery =
     sample_tm\<lparr>te_get_cluster := \<lambda>_ _ _. Inr sample_cluster, te_get_tart_cluster := \<lambda>_ _ _. Inr sample_tart,
       te_get_secret := \<lambda>_ ns _. Inr (if ns = ''ns'' then sample_recovery_secret else sample_bundle_secret),
       te_load_cluster_id := \<lambda>_. Some (Some (ClusterID_String sample_cluster_id)),
       te_decode_bundle := \<lambda>_. Some \<lparr>tb_clusterID = Some (ClusterID_String sample_cluster_id), tb_os = Some sample_ca, tb_k8s = None, tb_aggregator = None\<rparr>\<rparr>"

definition sample_reuse_host :: "TalosIdentityReference option \<Rightarrow> TartHost" where
  "sample_reuse_host b =
     (sample_host ''h1'' 5)\<lparr>h_spec := (sample_spec 5)\<lparr>hs_talosAPIAddress := ''10.0.0.1'',
        hs_consumerRef := Some (machine_consumer sample_machine), hs_reusePolicy := ReusePolicyAllowReuse,
        hs_previousConsumerRef := Some \<lparr>prev_namespace = ''default'', prev_name = ''m0'', prev_uid = ''u0'', prev_clusterID = sample_cluster_id\<rparr>,
        hs_reuseApproval := Some \<lparr>appr_previousConsumerUID = ''u0''\<rparr>, hs_reuseMode := ReuseModeReprovision\<rparr>,
      h_status := sample_host_status\<lparr>hst_currentTalosIdentityRef := b\<rparr>\<rparr>"

lemma sample_reuse_approved: "ReprovisionApproved (h_spec (sample_reuse_host b))"
  by (simp add: sample_reuse_host_def ReprovisionApproved_def)

definition sample_old_identity :: TalosIdentityReference where
  "sample_old_identity = \<lparr>tid_clusterID = sample_cluster_id, tid_recoverySecretRef = sec_name sample_recovery_secret, tid_boundAt = 5\<rparr>"

lemma sample_recovery_name: "sec_name sample_recovery_secret \<noteq> []"
  by (simp add: sample_recovery_secret_def BuildRecoverySecret_def sample_material_def sample_ca_def sample_not_blank
      SecretName_def CertificateAuthorityFingerprint_def sample_cluster_id_nonzero sample_lib_def SecretNamePrefix_def Let_def)

lemma sample_material_read:
  "tid_clusterID i = sample_cluster_id \<Longrightarrow> tid_recoverySecretRef i \<noteq> [] \<Longrightarrow>
     run_state (recoveryMaterial sample_lib sample_recovery ''ns'' i) tr = (Some sample_material, tr)"
  by (simp add: run_recoveryMaterial sample_recovery_def sample_recovery_decoded)

lemma sample_installed: "installed_node sample_recovery tr (sample_reuse_host b) ''10.0.0.1'' sample_material"
  using sample_cluster_id_nonzero
  by (auto simp: installed_node_def sample_recovery_def sample_tm_def ObservedClusterID_def sample_inventory_def sample_reuse_host_def
      sample_defs sample_material_def) code_simp+

subsection \<open>A machine that is deleted\<close>

definition sample_condition :: "string \<Rightarrow> condition_status \<Rightarrow> string \<Rightarrow> condition" where
  "sample_condition t st reason =
     \<lparr>cond_type = t, cond_status = st, cond_observedGeneration = 1, cond_lastTransitionTime = 1, cond_reason = reason, cond_message = []\<rparr>"

text \<open>Shutdown was requested a minute ago, the drain is complete and the host is off.\<close>

definition sample_stopping :: TartMachine where
  "sample_stopping = sample_machine\<lparr>m_status := (m_status sample_machine)\<lparr>mst_conditions :=
     [sample_condition ''Ready'' ConditionFalse ShutdownRequestedReason]\<rparr>\<rparr>"

definition sample_drained :: capi_machine where
  "sample_drained = sample_capi\<lparr>cm_meta := (cm_meta sample_capi)\<lparr>mt_deletionTimestamp := Some 7\<rparr>,
     cm_conditions := [sample_condition ''Deleting'' ConditionTrue ''WaitingForInfrastructureDeletion'']\<rparr>"

definition sample_stopped_host :: TartHost where
  "sample_stopped_host = sample_bound_host\<lparr>h_spec := (h_spec sample_bound_host)\<lparr>hs_power :=
     \<lparr>pw_backend = PowerBackendRedfish, pw_redfish = None, pw_wakeOnLAN = None, pw_intelManageability = None\<rparr>\<rparr>\<rparr>"

definition sample_deletion :: tm_env where
  "sample_deletion =
     sample_tm\<lparr>te_now := \<lambda>_. 60 * second, te_list_hosts := \<lambda>_. Inr [sample_stopped_host],
       te_list_capi_machines := \<lambda>_ _. Inr [sample_drained], te_get_cluster := \<lambda>_ _ _. Inr sample_cluster,
       te_get_tart_cluster := \<lambda>_ _ _. Inr sample_tart\<rparr>"

definition sample_released_host :: TartHost where
  "sample_released_host = set_retained
     \<lparr>prev_namespace = ''default'', prev_name = ''m1'', prev_uid = ''u1'', prev_clusterID = sample_cluster_id\<rparr> sample_stopped_host"

subsection \<open>Control planes, a workload cluster and a lease\<close>

definition sample_control_plane :: capi_machine where
  "sample_control_plane = sample_capi\<lparr>cm_meta := (cm_meta sample_capi)\<lparr>mt_labels :=
     [(''cluster.x-k8s.io/control-plane'', []), (''cluster.x-k8s.io/cluster-name'', ''c1'')]\<rparr>,
     cm_conditions := [sample_condition ''Ready'' ConditionTrue ''Ready'']\<rparr>"

definition sample_second_control_plane :: capi_machine where
  "sample_second_control_plane = sample_control_plane\<lparr>cm_meta := (cm_meta sample_control_plane)\<lparr>
     mt_name := ''m2'', mt_uid := ''uid-m2''\<rparr>\<rparr>"

text \<open>Its configuration is up to date on the endpoint \<open>new\<close>.\<close>

definition sample_converged :: TartMachine where
  "sample_converged = sample_machine\<lparr>m_status := (m_status sample_machine)\<lparr>mst_observedControlPlaneEndpoint := ''new'',
     mst_conditions := [sample_condition TartMachineConfigurationUpToDateCondition ConditionTrue ''ConfigurationConverged'']\<rparr>\<rparr>"

definition sample_pod :: workload_pod where
  "sample_pod = \<lparr>pd_namespace = ''apps'', pd_name = ''web'', pd_deleting = False, pd_annotations = [], pd_owner_kinds = [''ReplicaSet'']\<rparr>"

definition sample_node :: workload_node where
  "sample_node = \<lparr>nd_name = ''n1'', nd_providerID = ''tart://h'', nd_unschedulable = False, nd_annotations = [],
     nd_conditions = [(''Ready'', ConditionTrue)], nd_kubeletVersion = ''v1.35.0''\<rparr>"

definition sample_workload :: tm_env where
  "sample_workload =
     sample_tm\<lparr>te_get_secret := \<lambda>_ _ _. Inr (zero_secret\<lparr>sec_data := [(''value'', ''kubeconfig'')]\<rparr>),
       te_list_nodes := \<lambda>_ _. Inr [sample_node], te_list_pods := \<lambda>_ _ _. Inr [sample_pod],
       te_write := \<lambda>_ e. case e of PodGet _ _ _ \<Rightarrow> Some ApiNotFound | _ \<Rightarrow> None\<rparr>"

definition sample_lease :: Lease where
  "sample_lease = \<lparr>ls_name = ''lease'', ls_namespace = ''default'', ls_holderIdentity = None, ls_durationSeconds = None, ls_renewTime = None\<rparr>"

end
