(* ===== verification/GoJson.thy ===== *)
theory GoJson
  imports GoStrings
begin

section \<open>The JSON text of a string\<close>

text \<open>
  How \<open>encoding/json/v2\<close> writes a string: a quoted copy in which the quote, the backslash and
  the control characters are escaped, and an error when the bytes are not UTF-8. The text
  determines the string (\<open>json_string_inj\<close>), also with more text behind it.
\<close>

subsection \<open>UTF-8\<close>

definition continuation :: "nat \<Rightarrow> nat \<Rightarrow> char \<Rightarrow> bool" where
  "continuation lo hi c \<longleftrightarrow> lo \<le> (of_char c :: nat) \<and> of_char c \<le> hi"

text \<open>The bytes of the first rune, by \<open>unicode/utf8\<close>: \<open>None\<close> when it is not one.\<close>

definition rune_length :: "string \<Rightarrow> nat option" where
  "rune_length s =
     (case s of [] \<Rightarrow> None
      | c # cs \<Rightarrow>
          (let b = (of_char c :: nat);
               follow = (\<lambda>lo hi n. if n \<le> length cs \<and> continuation lo hi (hd cs) \<and>
                   list_all (continuation 128 191) (take (n - 1) (tl cs)) then Some (Suc n) else None)
           in if b < 128 then Some 1
              else if b < 194 then None
              else if b < 224 then follow 128 191 1
              else if b = 224 then follow 160 191 2
              else if b = 237 then follow 128 159 2
              else if b < 240 then follow 128 191 2
              else if b = 240 then follow 144 191 3
              else if b < 244 then follow 128 191 3
              else if b = 244 then follow 128 143 3
              else None))"

lemma rune_length_pos: "rune_length s = Some n \<Longrightarrow> 0 < n \<and> s \<noteq> []"
  by (auto simp: rune_length_def Let_def split: list.splits if_splits)

function valid_utf8 :: "string \<Rightarrow> bool" where
  "valid_utf8 s =
     (if s = [] then True
      else case rune_length s of None \<Rightarrow> False | Some n \<Rightarrow> valid_utf8 (drop n s))"
  by auto
termination by (relation "measure length") (auto dest: rune_length_pos)

declare valid_utf8.simps [simp del]

subsection \<open>Escapes\<close>

definition json_char :: "char \<Rightarrow> string" where
  "json_char c =
     (let b = (of_char c :: nat)
      in if c = CHR 0x22 then [CHR 0x5C, CHR 0x22]
         else if c = CHR 0x5C then [CHR 0x5C, CHR 0x5C]
         else if b = 8 then [CHR 0x5C, CHR ''b'']
         else if b = 12 then [CHR 0x5C, CHR ''f'']
         else if b = 10 then [CHR 0x5C, CHR ''n'']
         else if b = 13 then [CHR 0x5C, CHR ''r'']
         else if b = 9 then [CHR 0x5C, CHR ''t'']
         else if b < 32 then [CHR 0x5C] @ ''u00'' @ [hex_char (b div 16), hex_char (b mod 16)]
         else [c])"

definition json_quote :: "string \<Rightarrow> string" where
  "json_quote s = CHR 0x22 # concat (map json_char s) @ [CHR 0x22]"

definition json_string :: "string \<Rightarrow> string option" where
  "json_string s = (if valid_utf8 s then Some (json_quote s) else None)"

subsection \<open>The text determines the string\<close>

text \<open>No text of a character begins another one, and none begins with a quote.\<close>

lemma same_hex: "(a :: nat) div 16 = b div 16 \<Longrightarrow> a mod 16 = b mod 16 \<Longrightarrow> a = b"
  by (metis div_mult_mod_eq)

lemma json_char_code: "json_char c @ s = json_char d @ t \<Longrightarrow> (of_char c :: nat) = of_char d \<and> s = t"
  by (auto simp: json_char_def Let_def hex_char_def simp del: of_char_eq_iff split: if_splits intro: same_hex)

lemma json_char_prefix_free: "json_char c @ s = json_char d @ t \<Longrightarrow> c = d \<and> s = t"
  using json_char_code[of c s d t] by simp

lemma json_char_not_quote: "json_char c @ s \<noteq> CHR 0x22 # t"
  by (auto simp: json_char_def Let_def)

lemma json_body_inj:
  "concat (map json_char s) @ CHR 0x22 # u = concat (map json_char t) @ CHR 0x22 # v \<Longrightarrow> s = t \<and> u = v"
proof (induction s arbitrary: t)
  case Nil
  then show ?case using json_char_not_quote[symmetric] by (cases t) auto
next
  case (Cons c cs)
  show ?case
  proof (cases t)
    case Nil
    with Cons.prems json_char_not_quote show ?thesis by auto
  next
    case (Cons d ds)
    with Cons.prems have "json_char c @ (concat (map json_char cs) @ CHR 0x22 # u) =
        json_char d @ (concat (map json_char ds) @ CHR 0x22 # v)" by simp
    from json_char_prefix_free[OF this] Cons.IH Cons show ?thesis by blast
  qed
qed

lemma json_quote_inj: "json_quote s @ u = json_quote t @ v \<Longrightarrow> s = t \<and> u = v"
  using json_body_inj[of s u t v] by (simp add: json_quote_def)

lemma json_string_inj:
  "json_string s = Some a \<Longrightarrow> json_string t = Some b \<Longrightarrow> a @ u = b @ v \<Longrightarrow> s = t \<and> u = v"
  by (rule json_quote_inj) (simp add: json_string_def split: if_split_asm)

end
