(* ===== verification/ControlPlaneMachines.thy ===== *)
theory ControlPlaneMachines
  imports EtcdRemoval ControlPlaneBootstrap GoJson Sha256
begin

section \<open>The machines of a control plane\<close>

text \<open>
  \<open>controller/tartcontrolplane/machines.go\<close>: every ordinal below the replica count has a CAPI
  Machine, a TartMachine and a TartBootstrapConfig of a deterministic name; the provider
  objects follow their templates for as long as nobody else has changed them, which a digest
  of the last applied template tells. The digest is that of the code: SHA-256 of the JSON text.
  The pointers the code mutates here are not read again, except for the name and the UID.
\<close>

subsection \<open>Templates\<close>

definition lastAppliedMachineTemplateDigestAnnotation :: string where
  "lastAppliedMachineTemplateDigestAnnotation = ''tart.cluster.x-k8s.io/last-applied-machine-template-digest''"
definition lastAppliedBootstrapTemplateDigestAnnotation :: string where
  "lastAppliedBootstrapTemplateDigestAnnotation = ''tart.cluster.x-k8s.io/last-applied-bootstrap-template-digest''"
definition capiDefaultNodeDeletionTimeoutSeconds :: int where "capiDefaultNodeDeletionTimeoutSeconds = 10"

definition getTartMachineTemplate :: "cp_env \<Rightarrow> string \<Rightarrow> contract_ref \<Rightarrow> (cp_error + TartMachineTemplate) cp" where
  "getTartMachineTemplate E namespace ref =
     (if cr_apiGroup ref \<noteq> infra_group \<or> cr_kind ref \<noteq> ''TartMachineTemplate'' \<or> cr_name ref = []
      then State_Monad.return (Inl (CpFailure ''MachineTemplateInvalid''
        ''The control-plane infrastructureRef must reference a TartMachineTemplate.''))
      else do {
        found \<leftarrow> query (\<lambda>tr. ce_get_machine_template E tr namespace (cr_name ref));
        State_Monad.return
          (case found of
             Inr template \<Rightarrow> Inr template
           | Inl e \<Rightarrow> Inl (if e = ApiNotFound
               then CpFailure ''MachineTemplateUnavailable'' ''The referenced TartMachineTemplate is not available yet.''
               else CpApi e))
      })"

definition getBootstrapTemplate :: "cp_env \<Rightarrow> string \<Rightarrow> contract_ref \<Rightarrow> (cp_error + TartBootstrapConfigTemplate) cp" where
  "getBootstrapTemplate E namespace ref =
     (if cr_apiGroup ref \<noteq> bootstrap_group \<or> cr_kind ref \<noteq> ''TartBootstrapConfigTemplate'' \<or> cr_name ref = []
      then State_Monad.return (Inl (CpFailure ''BootstrapTemplateInvalid''
        ''The bootstrapConfigTemplate must reference a TartBootstrapConfigTemplate.''))
      else do {
        found \<leftarrow> query (\<lambda>tr. ce_get_bootstrap_template E tr namespace (cr_name ref));
        State_Monad.return
          (case found of
             Inr template \<Rightarrow> Inr template
           | Inl e \<Rightarrow> Inl (if e = ApiNotFound
               then CpFailure ''BootstrapTemplateUnavailable'' ''The referenced TartBootstrapConfigTemplate is not available yet.''
               else CpApi e))
      })"

subsection \<open>Failure domains\<close>

definition eligible_domains :: "FailureDomain list \<Rightarrow> string list" where
  "eligible_domains failureDomains =
     foldl (\<lambda>eligible d.
       if fd_name d = [] \<or> fd_controlPlane d = Some False then eligible
       else if fd_name d \<in> set eligible then eligible else eligible @ [fd_name d]) [] failureDomains"

definition controlPlaneFailureDomain :: "FailureDomain list \<Rightarrow> nat \<Rightarrow> string option" where
  "controlPlaneFailureDomain failureDomains ordinal =
     (let eligible = eligible_domains failureDomains
      in if length eligible = 0 then None
         else Some (sort eligible ! (ordinal mod length eligible)))"

definition containsControlPlaneFailureDomain :: "FailureDomain list \<Rightarrow> string \<Rightarrow> bool" where
  "containsControlPlaneFailureDomain failureDomains name =
     list_ex (\<lambda>d. fd_name d = name \<and> (fd_controlPlane d = None \<or> fd_controlPlane d = Some True)) failureDomains"

subsection \<open>Names, labels and references\<close>

definition bootstrapConfigName :: "k8s_lib \<Rightarrow> string \<Rightarrow> int \<Rightarrow> string option" where
  "bootstrapConfigName L controlPlaneName ordinal = controlPlaneChildName L controlPlaneName ordinal ''bootstrap''"

definition name_invalid :: cp_error where
  "name_invalid = CpFailure ReasonMachineNameInvalid ''A deterministic control-plane Machine name is invalid.''"
definition bootstrap_name_invalid :: cp_error where
  "bootstrap_name_invalid = CpFailure ReasonMachineNameInvalid ''A deterministic BootstrapConfig name is invalid.''"

definition controlPlaneMetadata ::
  "k8s_lib \<Rightarrow> cp_lib \<Rightarrow> (string, string) gomap \<Rightarrow> (string, string) gomap \<Rightarrow> string \<Rightarrow> string \<Rightarrow> int \<Rightarrow>
   (string, string) gomap \<times> (string, string) gomap" where
  "controlPlaneMetadata L K labels annotations clusterName controlPlaneName ordinal =
     (AList.update controlPlaneOrdinalLabel (format_int ordinal)
       (AList.update (kp_control_plane_name_label K) controlPlaneName
         (AList.update (lib_control_plane_label L) []
           (AList.update (lib_cluster_name_label L) clusterName labels))),
      AList.update (kp_skip_remediation K) ''true'' annotations)"

definition validateControlPlaneMachineOwners :: "capi_machine list \<Rightarrow> TartControlPlane \<Rightarrow> cp_error option" where
  "validateControlPlaneMachineOwners machines cp =
     (if list_all (\<lambda>m. HasControllerOwner (mt_owners (cm_meta m)) (k_meta cp) controlplane_group_version TartControlPlaneKind) machines
      then None
      else Some (CpFailure ''MachineOwnershipMismatch''
        ''A labeled control-plane Machine is not owned by this TartControlPlane; scale-down is stopped.''))"

definition validateMachineReference ::
  "capi_machine \<Rightarrow> TartControlPlane \<Rightarrow> string \<Rightarrow> string \<Rightarrow> string \<Rightarrow> cp_error option" where
  "validateMachineReference machine cp clusterName machineName bootstrapName =
     (let infra = cm_infrastructureRef machine; boot = cm_configRef machine
      in if \<not> HasControllerOwner (mt_owners (cm_meta machine)) (k_meta cp) controlplane_group_version TartControlPlaneKind \<or>
            cm_clusterName machine \<noteq> clusterName \<or>
            cr_apiGroup infra \<noteq> infra_group \<or> cr_kind infra \<noteq> TartMachineKind \<or> cr_name infra \<noteq> machineName \<or>
            cr_apiGroup boot \<noteq> bootstrap_group \<or> cr_kind boot \<noteq> TartBootstrapConfigKind \<or> cr_name boot \<noteq> bootstrapName
         then Some (CpFailure ReasonMachineSpecMismatch
           ''The existing control-plane Machine does not match the TartControlPlane references.'')
         else None)"

subsection \<open>The fields a Machine takes from the control plane\<close>

definition machineDeletionSpec :: "machine_deletion \<Rightarrow> machine_deletion" where
  "machineDeletionSpec spec =
     spec\<lparr>md_nodeDeletionTimeout :=
       Some (case md_nodeDeletionTimeout spec of None \<Rightarrow> capiDefaultNodeDeletionTimeoutSeconds | Some t \<Rightarrow> t)\<rparr>"

definition template_fields :: "TartControlPlane \<Rightarrow> capi_machine \<Rightarrow> capi_machine" where
  "template_fields cp machine =
     (let t = ks_machineTemplate (k_spec cp)
      in machine\<lparr>cm_readinessGates := kmt_readinessGates t, cm_taints := kmt_taints t,
           cm_deletion := machineDeletionSpec (kmt_deletion t), cm_version := ks_version (k_spec cp)\<rparr>)"

definition ensureMachineTemplateFields :: "cp_env \<Rightarrow> capi_machine \<Rightarrow> TartControlPlane \<Rightarrow> cp_error option cp" where
  "ensureMachineTemplateFields E machine cp =
     (if mt_deletionTimestamp (cm_meta machine) \<noteq> None then State_Monad.return None
      else
        (let t = ks_machineTemplate (k_spec cp)
         in if cm_readinessGates machine = kmt_readinessGates t \<and> cm_taints machine = kmt_taints t \<and>
               cm_deletion machine = machineDeletionSpec (kmt_deletion t) \<and> cm_version machine = ks_version (k_spec cp)
            then State_Monad.return None
            else do {
              err \<leftarrow> cp_write E (CpMachinePatch (template_fields cp machine));
              State_Monad.return (map_option CpApi err)
            }))"

definition new_meta :: "string \<Rightarrow> string \<Rightarrow> (string, string) gomap \<Rightarrow> (string, string) gomap \<Rightarrow> owner_reference \<Rightarrow> object_meta" where
  "new_meta namespace name labels annotations owner =
     \<lparr>mt_name = name, mt_namespace = namespace, mt_uid = [], mt_generation = 0, mt_resourceVersion = 0,
      mt_labels = labels, mt_annotations = annotations, mt_finalizers = [], mt_owners = [owner], mt_deletionTimestamp = None\<rparr>"

definition new_machine ::
  "k8s_lib \<Rightarrow> cp_lib \<Rightarrow> TartControlPlane \<Rightarrow> string \<Rightarrow> int \<Rightarrow> string \<Rightarrow> string \<Rightarrow> string \<Rightarrow> capi_machine" where
  "new_machine L K cp clusterName ordinal failureDomain name bootstrapName =
     (let t = ks_machineTemplate (k_spec cp);
          metadata = controlPlaneMetadata L K (kmt_labels t) (kmt_annotations t) clusterName (mt_name (k_meta cp)) ordinal
      in \<lparr>cm_meta = new_meta (mt_namespace (k_meta cp)) name (fst metadata) (snd metadata)
            (controllerOwnerReference (k_meta cp) controlplane_group_version TartControlPlaneKind),
          cm_clusterName = clusterName,
          cm_configRef = \<lparr>cr_apiGroup = bootstrap_group, cr_kind = TartBootstrapConfigKind, cr_name = bootstrapName\<rparr>,
          cm_infrastructureRef = \<lparr>cr_apiGroup = infra_group, cr_kind = TartMachineKind, cr_name = name\<rparr>,
          cm_providerID = [], cm_failureDomain = failureDomain, cm_version = ks_version (k_spec cp), cm_nodeRef = [],
          cm_conditions = [], cm_readinessGates = kmt_readinessGates t, cm_taints = kmt_taints t,
          cm_deletion = machineDeletionSpec (kmt_deletion t), cm_kubeletVersion = []\<rparr>)"

definition createMachine ::
  "k8s_lib \<Rightarrow> cp_lib \<Rightarrow> cp_env \<Rightarrow> TartControlPlane \<Rightarrow> string \<Rightarrow> int \<Rightarrow> string \<Rightarrow> string \<Rightarrow> (cp_error + capi_machine) cp" where
  "createMachine L K E cp clusterName ordinal failureDomain name =
     (case bootstrapConfigName L (mt_name (k_meta cp)) ordinal of
        None \<Rightarrow> State_Monad.return (Inl bootstrap_name_invalid)
      | Some bootstrapName \<Rightarrow> do {
          err \<leftarrow> cp_write E (CpMachineCreate (new_machine L K cp clusterName ordinal failureDomain name bootstrapName));
          (if err \<noteq> None \<and> err \<noteq> Some ApiAlreadyExists
           then State_Monad.return (Inl (CpApi (the err)))
           else do {
             current \<leftarrow> cp_get E (\<lambda>T. te_get_capi_machine T [] (mt_namespace (k_meta cp)) name);
             State_Monad.return (case current of Inl e \<Rightarrow> Inl (CpApi e) | Inr m \<Rightarrow> Inr m)
           })
        })"

subsection \<open>Digests\<close>

text \<open>\<open>json.Marshal\<close> fails when a text in the value is not UTF-8.\<close>

definition digestTemplateValue :: "string option \<Rightarrow> string" where
  "digestTemplateValue value = (case value of None \<Rightarrow> [] | Some data \<Rightarrow> hex_encode (sha256 data))"

definition image_json :: "TalosImageSpec \<Rightarrow> string option" where
  "image_json img =
     (case (json_string (img_version img), json_string (img_schematicID img)) of
        (Some version, Some schematic) \<Rightarrow>
          Some (''{'' @ json_quote ''version'' @ '':'' @ version @ '','' @ json_quote ''schematicID'' @ '':'' @ schematic @ ''}'')
      | _ \<Rightarrow> None)"

definition machineImageDigest :: "TalosImageSpec \<Rightarrow> string" where
  "machineImageDigest img = digestTemplateValue (image_json img)"

definition machineTemplateDigest :: "TartMachineTemplate \<Rightarrow> string" where
  "machineTemplateDigest template = machineImageDigest (mtpl_image template)"

definition strategy_text :: "ConfigurationApplyStrategy \<Rightarrow> string" where
  "strategy_text strategy =
     (case strategy of
        ConfigurationApplyStrategyStagedReboot \<Rightarrow> ''StagedReboot''
      | ConfigurationApplyStrategyApplyOnly \<Rightarrow> ''ApplyOnly''
      | ConfigurationApplyStrategyOther s \<Rightarrow> s)"

text \<open>\<open>omitempty\<close> leaves an empty strategy out.\<close>

definition policy_json :: "ConfigurationApplyStrategy \<Rightarrow> string option" where
  "policy_json strategy =
     (if strategy_text strategy = [] then Some ''{}''
      else map_option (\<lambda>t. ''{'' @ json_quote ''configuration'' @ '':'' @ t @ ''}'') (json_string (strategy_text strategy)))"

definition bootstrap_json :: "TartBootstrapConfigSpec \<Rightarrow> string option" where
  "bootstrap_json spec =
     (case (json_string (case bcs_configPatchesSecretRef spec of None \<Rightarrow> [] | Some name \<Rightarrow> name), policy_json (bcs_updatePolicy spec)) of
        (Some secret, Some policy) \<Rightarrow>
          Some (''{'' @ json_quote ''secretName'' @ '':'' @ secret @ '','' @ json_quote ''policy'' @ '':'' @ policy @ ''}'')
      | _ \<Rightarrow> None)"

definition bootstrapConfigTemplateDigest :: "TartBootstrapConfigSpec \<Rightarrow> string" where
  "bootstrapConfigTemplateDigest spec = digestTemplateValue (bootstrap_json spec)"

definition bootstrapTemplateDigest :: "TartBootstrapConfigTemplate \<Rightarrow> string" where
  "bootstrapTemplateDigest template = digestTemplateValue (bootstrap_json (btpl_spec template))"

subsection \<open>The provider objects follow their templates\<close>

definition with_annotation :: "string \<Rightarrow> string \<Rightarrow> object_meta \<Rightarrow> object_meta" where
  "with_annotation key v m = m\<lparr>mt_annotations := AList.update key v (mt_annotations m)\<rparr>"

text \<open>\<open>patchTemplateDigest\<close>, for the two kinds of object it is called with.\<close>

definition patchTemplateDigest_machine :: "cp_env \<Rightarrow> TartMachine \<Rightarrow> string \<Rightarrow> string \<Rightarrow> cp_error option cp" where
  "patchTemplateDigest_machine E object key digest = do {
     err \<leftarrow> cp_write E (CpTartMachinePatch (object\<lparr>m_meta := with_annotation key digest (m_meta object)\<rparr>));
     State_Monad.return (map_option CpApi err)
   }"

definition patchTemplateDigest_bootstrap :: "cp_env \<Rightarrow> TartBootstrapConfig \<Rightarrow> string \<Rightarrow> string \<Rightarrow> cp_error option cp" where
  "patchTemplateDigest_bootstrap E object key digest = do {
     err \<leftarrow> cp_write E (CpBootstrapPatch (object\<lparr>bc_meta := with_annotation key digest (bc_meta object)\<rparr>));
     State_Monad.return (map_option CpApi err)
   }"

definition syncMachineTemplate :: "cp_env \<Rightarrow> TartMachine \<Rightarrow> TartMachine \<Rightarrow> cp_error option cp" where
  "syncMachineTemplate E current expected =
     (let key = lastAppliedMachineTemplateDigestAnnotation;
          last_applied = map_get (mt_annotations (m_meta current)) key;
          currentDigest = machineImageDigest (ms_image (m_spec current));
          desiredDigest = machineImageDigest (ms_image (m_spec expected))
      in if last_applied = []
         then if currentDigest \<noteq> desiredDigest
              then State_Monad.return (Some (CpFailure ReasonMachineSpecMismatch
                ''The existing TartMachine has no trusted template observation and differs from its template.''))
              else patchTemplateDigest_machine E current key desiredDigest
         else if currentDigest \<noteq> last_applied then State_Monad.return None
         else if currentDigest = desiredDigest then State_Monad.return None
         else do {
           err \<leftarrow> cp_write E (CpTartMachinePatch
             (current\<lparr>m_meta := with_annotation key desiredDigest (m_meta current),
                m_spec := (m_spec current)\<lparr>ms_image := ms_image (m_spec expected)\<rparr>\<rparr>));
           State_Monad.return (map_option CpApi err)
         })"

definition syncBootstrapTemplate :: "cp_env \<Rightarrow> TartBootstrapConfig \<Rightarrow> TartBootstrapConfig \<Rightarrow> cp_error option cp" where
  "syncBootstrapTemplate E current expected =
     (let key = lastAppliedBootstrapTemplateDigestAnnotation;
          last_applied = map_get (mt_annotations (bc_meta current)) key;
          currentDigest = bootstrapConfigTemplateDigest (bc_spec current);
          desiredDigest = bootstrapConfigTemplateDigest (bc_spec expected)
      in if last_applied = []
         then if currentDigest \<noteq> desiredDigest
              then State_Monad.return (Some (CpFailure ''BootstrapConfigMismatch''
                ''The existing TartBootstrapConfig has no trusted template observation and differs from its template.''))
              else patchTemplateDigest_bootstrap E current key desiredDigest
         else if currentDigest \<noteq> last_applied then State_Monad.return None
         else if currentDigest = desiredDigest then State_Monad.return None
         else do {
           err \<leftarrow> cp_write E (CpBootstrapPatch
             (current\<lparr>bc_meta := with_annotation key desiredDigest (bc_meta current), bc_spec := bc_spec expected\<rparr>));
           State_Monad.return (map_option CpApi err)
         })"

text \<open>\<open>reflect.DeepEqual\<close> of two host selectors: the label maps are compared as maps.\<close>

definition same_map :: "(string, string) gomap \<Rightarrow> (string, string) gomap \<Rightarrow> bool" where
  "same_map m n \<longleftrightarrow> list_all (\<lambda>k. map_of m k = map_of n k) (map fst m @ map fst n)"

definition same_selector :: "HostSelector option \<Rightarrow> HostSelector option \<Rightarrow> bool" where
  "same_selector a b \<longleftrightarrow>
     (case (a, b) of
        (None, None) \<Rightarrow> True
      | (Some x, Some y) \<Rightarrow>
          hsel_architecture x = hsel_architecture y \<and>
          same_map (sel_matchLabels (hsel_selector x)) (sel_matchLabels (hsel_selector y)) \<and>
          sel_matchExpressions (hsel_selector x) = sel_matchExpressions (hsel_selector y)
      | _ \<Rightarrow> False)"

subsection \<open>One ordinal\<close>

text \<open>Read an object, create it when there is none, and read it again.\<close>

definition get_or_create :: "cp_env \<Rightarrow> (tm_env \<Rightarrow> api_error + 'a) \<Rightarrow> cp_event \<Rightarrow> (cp_error + 'a) cp" where
  "get_or_create E read creation = do {
     found \<leftarrow> cp_get E read;
     (case found of
        Inr x \<Rightarrow> State_Monad.return (Inr x)
      | Inl e \<Rightarrow>
          if e \<noteq> ApiNotFound then State_Monad.return (Inl (CpApi e))
          else do {
            err \<leftarrow> cp_write E creation;
            (if err \<noteq> None \<and> err \<noteq> Some ApiAlreadyExists then State_Monad.return (Inl (CpApi (the err)))
             else do {
               again \<leftarrow> cp_get E read;
               State_Monad.return (case again of Inl e \<Rightarrow> Inl (CpApi e) | Inr x \<Rightarrow> Inr x)
             })
          })
   }"

definition expected_machine ::
  "k8s_lib \<Rightarrow> cp_lib \<Rightarrow> TartControlPlane \<Rightarrow> string \<Rightarrow> int \<Rightarrow> capi_machine \<Rightarrow> TartMachineTemplate \<Rightarrow> TartMachine" where
  "expected_machine L K cp clusterName ordinal machine template =
     \<lparr>m_meta = new_meta (mt_namespace (k_meta cp)) (mt_name (cm_meta machine))
         (fst (controlPlaneMetadata L K (mtpl_labels template) [] clusterName (mt_name (k_meta cp)) ordinal))
         [(lastAppliedMachineTemplateDigestAnnotation, machineTemplateDigest template)]
         (controllerOwnerReference (cm_meta machine) (lib_capi_group_version L) CAPIMachineKind),
      m_spec = \<lparr>ms_hostRef = None, ms_hostSelector = mtpl_hostSelector template, ms_image = mtpl_image template,
         ms_providerID = ProviderID []\<rparr>,
      m_status = \<lparr>mst_provisioned = None, mst_addresses = [], mst_failureDomain = [], mst_hostRef = None, mst_talosVersion = [],
         mst_talosSchematicID = [], mst_observedControlPlaneEndpoint = [], mst_observedConfigurationDigest = [],
         mst_observedGeneration = 0, mst_conditions = []\<rparr>\<rparr>"

definition expected_bootstrap ::
  "k8s_lib \<Rightarrow> cp_lib \<Rightarrow> TartControlPlane \<Rightarrow> string \<Rightarrow> int \<Rightarrow> capi_machine \<Rightarrow> string \<Rightarrow> TartBootstrapConfigTemplate \<Rightarrow> TartBootstrapConfig" where
  "expected_bootstrap L K cp clusterName ordinal machine name template =
     \<lparr>bc_meta = new_meta (mt_namespace (k_meta cp)) name
         (fst (controlPlaneMetadata L K (btpl_labels template) [] clusterName (mt_name (k_meta cp)) ordinal))
         [(lastAppliedBootstrapTemplateDigestAnnotation, bootstrapTemplateDigest template)]
         (controllerOwnerReference (cm_meta machine) (lib_capi_group_version L) CAPIMachineKind),
      bc_spec = btpl_spec template,
      bc_status = \<lparr>bcst_dataSecretCreated = None, bcst_dataSecretName = [], bcst_configurationDigest = [],
         bcst_observedGeneration = 0, bcst_conditions = []\<rparr>\<rparr>"

definition ensure_bootstrap ::
  "k8s_lib \<Rightarrow> cp_lib \<Rightarrow> cp_env \<Rightarrow> TartControlPlane \<Rightarrow> string \<Rightarrow> int \<Rightarrow> capi_machine \<Rightarrow> TartBootstrapConfigTemplate \<Rightarrow>
   cp_error option cp" where
  "ensure_bootstrap L K E cp clusterName ordinal machine bootstrapTemplate =
     (case bootstrapConfigName L (mt_name (k_meta cp)) ordinal of
        None \<Rightarrow> State_Monad.return (Some bootstrap_name_invalid)
      | Some name \<Rightarrow> do {
          let expected = expected_bootstrap L K cp clusterName ordinal machine name bootstrapTemplate;
          found \<leftarrow> get_or_create E (\<lambda>T. te_get_bootstrap_config T [] (mt_namespace (k_meta cp)) name) (CpBootstrapCreate expected);
          (case found of
             Inl e \<Rightarrow> State_Monad.return (Some e)
           | Inr bootstrapConfig \<Rightarrow>
               (case ValidateProviderOwner (bc_meta bootstrapConfig) (cm_meta machine) (lib_capi_group_version L) CAPIMachineKind of
                  Some f \<Rightarrow> State_Monad.return (Some (CpOwnership f))
                | None \<Rightarrow> syncBootstrapTemplate E bootstrapConfig expected))
        })"

definition ensureProviderResources ::
  "k8s_lib \<Rightarrow> cp_lib \<Rightarrow> cp_env \<Rightarrow> TartControlPlane \<Rightarrow> string \<Rightarrow> int \<Rightarrow> capi_machine \<Rightarrow> TartMachineTemplate \<Rightarrow>
   TartBootstrapConfigTemplate \<Rightarrow> cp_error option cp" where
  "ensureProviderResources L K E cp clusterName ordinal machine machineTemplate bootstrapTemplate =
     (if mt_uid (cm_meta machine) = []
      then State_Monad.return (Some (CpFailure ''MachineIdentityUnavailable''
        ''The CAPI Machine has no UID yet; provider resources are not created.''))
      else do {
        let expected = expected_machine L K cp clusterName ordinal machine machineTemplate;
        found \<leftarrow> get_or_create E (\<lambda>T. te_get_tart_machine T [] (mt_namespace (k_meta cp)) (mt_name (cm_meta machine)))
          (CpTartMachineCreate expected);
        (case found of
           Inl e \<Rightarrow> State_Monad.return (Some e)
         | Inr tartMachine \<Rightarrow>
             (case ValidateProviderOwner (m_meta tartMachine) (cm_meta machine) (lib_capi_group_version L) CAPIMachineKind of
                Some f \<Rightarrow> State_Monad.return (Some (CpOwnership f))
              | None \<Rightarrow>
                  if \<not> same_selector (ms_hostSelector (m_spec tartMachine)) (ms_hostSelector (m_spec expected))
                  then State_Monad.return (Some (CpFailure ReasonMachineSpecMismatch
                    ''The existing TartMachine does not match its immutable control-plane template.''))
                  else do {
                    err \<leftarrow> syncMachineTemplate E tartMachine expected;
                    (if err \<noteq> None then State_Monad.return err
                     else ensure_bootstrap L K E cp clusterName ordinal machine bootstrapTemplate)
                  }))
      })"

text \<open>The body of the loop after the machine is there.\<close>

definition ensure_existing ::
  "k8s_lib \<Rightarrow> cp_lib \<Rightarrow> cp_env \<Rightarrow> TartControlPlane \<Rightarrow> string \<Rightarrow> FailureDomain list \<Rightarrow> TartMachineTemplate \<Rightarrow>
   TartBootstrapConfigTemplate \<Rightarrow> int \<Rightarrow> string \<Rightarrow> capi_machine \<Rightarrow> cp_error option cp" where
  "ensure_existing L K E cp clusterName domains machineTemplate bootstrapTemplate ordinal machineName machine =
     (case bootstrapConfigName L (mt_name (k_meta cp)) ordinal of
        None \<Rightarrow> State_Monad.return (Some bootstrap_name_invalid)
      | Some bootstrapName \<Rightarrow>
          (case validateMachineReference machine cp clusterName machineName bootstrapName of
             Some e \<Rightarrow> State_Monad.return (Some e)
           | None \<Rightarrow>
               if cm_failureDomain machine \<noteq> [] \<and> \<not> containsControlPlaneFailureDomain domains (cm_failureDomain machine)
               then State_Monad.return (Some (CpFailure ''FailureDomainInvalid''
                 ''An existing control-plane Machine references a Failure Domain no longer exposed by TartCluster.''))
               else do {
                 err \<leftarrow> ensureMachineTemplateFields E machine cp;
                 (if err \<noteq> None then State_Monad.return err
                  else ensureProviderResources L K E cp clusterName ordinal machine machineTemplate bootstrapTemplate)
               }))"

subsection \<open>All ordinals, then the scale-down\<close>

text \<open>\<open>byName\<close> is the map of the machines seen so far, by name.\<close>

definition machine_of_ordinal ::
  "k8s_lib \<Rightarrow> cp_lib \<Rightarrow> cp_env \<Rightarrow> TartControlPlane \<Rightarrow> string \<Rightarrow> FailureDomain list \<Rightarrow> (string \<rightharpoonup> capi_machine) \<Rightarrow> nat \<Rightarrow> string \<Rightarrow>
   (cp_error + capi_machine) cp" where
  "machine_of_ordinal L K E cp clusterName domains byName ordinal machineName =
     (case byName machineName of
        Some m \<Rightarrow> State_Monad.return (Inr m)
      | None \<Rightarrow> createMachine L K E cp clusterName (int ordinal)
          (case controlPlaneFailureDomain domains ordinal of None \<Rightarrow> [] | Some d \<Rightarrow> d) machineName)"

fun ensure_ordinals ::
  "k8s_lib \<Rightarrow> cp_lib \<Rightarrow> cp_env \<Rightarrow> TartControlPlane \<Rightarrow> string \<Rightarrow> FailureDomain list \<Rightarrow> TartMachineTemplate \<Rightarrow>
   TartBootstrapConfigTemplate \<Rightarrow> nat list \<Rightarrow> (string \<rightharpoonup> capi_machine) \<Rightarrow> cp_error option cp" where
  "ensure_ordinals L K E cp clusterName domains mt bt [] byName = State_Monad.return None"
| "ensure_ordinals L K E cp clusterName domains mt bt (ordinal # ordinals) byName =
     (let failureDomain = controlPlaneFailureDomain domains ordinal
      in if length domains > 0 \<and> failureDomain = None
         then State_Monad.return (Some (CpFailure ''FailureDomainInvalid''
           ''The TartCluster exposes no Failure Domain suitable for control-plane Machines.''))
         else (case controlPlaneChildName L (mt_name (k_meta cp)) (int ordinal) [] of
           None \<Rightarrow> State_Monad.return (Some name_invalid)
         | Some machineName \<Rightarrow> do {
             found \<leftarrow> machine_of_ordinal L K E cp clusterName domains byName ordinal machineName;
             (case found of
                Inl e \<Rightarrow> State_Monad.return (Some e)
              | Inr machine \<Rightarrow> do {
                  err \<leftarrow> ensure_existing L K E cp clusterName domains mt bt (int ordinal) machineName machine;
                  (if err \<noteq> None then State_Monad.return err
                   else ensure_ordinals L K E cp clusterName domains mt bt ordinals
                     (if byName machineName = None then byName(mt_name (cm_meta machine) \<mapsto> machine) else byName))
                })
           }))"

definition listControlPlaneMachines ::
  "k8s_lib \<Rightarrow> cp_lib \<Rightarrow> cp_env \<Rightarrow> TartControlPlane \<Rightarrow> string \<Rightarrow> (api_error + capi_machine list) cp" where
  "listControlPlaneMachines L K E cp clusterName = do {
     listed \<leftarrow> query (\<lambda>tr. ce_list_machines E tr (mt_namespace (k_meta cp)));
     State_Monad.return
       (case listed of Inl e \<Rightarrow> Inl e
        | Inr machines \<Rightarrow> Inr (filter (\<lambda>m. map_of (mt_labels (cm_meta m)) (lib_cluster_name_label L) = Some clusterName \<and>
            map_of (mt_labels (cm_meta m)) (kp_control_plane_name_label K) = Some (mt_name (k_meta cp))) machines))
   }"

text \<open>\<open>Inl\<close> an error without machines; \<open>Inr\<close> the machines, and the error of the scale-down.\<close>

definition ensureMachines ::
  "k8s_lib \<Rightarrow> cp_lib \<Rightarrow> cp_env \<Rightarrow> TartControlPlane \<Rightarrow> string \<Rightarrow> int \<Rightarrow> FailureDomain list \<Rightarrow> TartMachineTemplate \<Rightarrow>
   TartBootstrapConfigTemplate \<Rightarrow> (cp_error + capi_machine list \<times> cp_error option) cp" where
  "ensureMachines L K E cp clusterName desired domains machineTemplate bootstrapTemplate = do {
     listed \<leftarrow> listControlPlaneMachines L K E cp clusterName;
     (case listed of
        Inl e \<Rightarrow> State_Monad.return (Inl (CpApi e))
      | Inr machines \<Rightarrow>
          (case validateControlPlaneMachineOwners machines cp of
             Some e \<Rightarrow> State_Monad.return (Inl e)
           | None \<Rightarrow> do {
               err \<leftarrow> ensure_ordinals L K E cp clusterName domains machineTemplate bootstrapTemplate [0..<nat desired]
                 (map_of (rev (map (\<lambda>m. (mt_name (cm_meta m), m)) machines)));
               (case err of
                  Some e \<Rightarrow> State_Monad.return (Inl e)
                | None \<Rightarrow> do {
                    relisted \<leftarrow> listControlPlaneMachines L K E cp clusterName;
                    (case relisted of
                       Inl e \<Rightarrow> State_Monad.return (Inl (CpApi e))
                     | Inr refreshed \<Rightarrow>
                         (case validateControlPlaneMachineOwners refreshed cp of
                            Some e \<Rightarrow> State_Monad.return (Inl e)
                          | None \<Rightarrow>
                              if int (length refreshed) > desired
                              then do {
                                (pending, serr) \<leftarrow> reconcileScaleDown L K E refreshed desired;
                                State_Monad.return (Inr (refreshed,
                                  if serr \<noteq> None then serr else if pending then Some CpScaleDownPending else None))
                              }
                              else State_Monad.return (Inr (refreshed, None))))
                  })
             }))
   }"

subsection \<open>The control-plane endpoint on the machines\<close>

fun endpoint_scan :: "k8s_lib \<Rightarrow> cp_env \<Rightarrow> string \<Rightarrow> capi_machine list \<Rightarrow> nat \<Rightarrow> (string \<times> string + nat) cp" where
  "endpoint_scan L E endpoint [] n = State_Monad.return (Inr n)"
| "endpoint_scan L E endpoint (machine # machines) n =
     (if map_of (mt_labels (cm_meta machine)) (lib_control_plane_label L) = None
      then endpoint_scan L E endpoint machines n
      else if (case lib_find_condition L (cm_conditions machine) (lib_machine_ready L) of
                 None \<Rightarrow> True | Some c \<Rightarrow> cond_status c \<noteq> ConditionTrue)
      then State_Monad.return (Inl (''ControlPlaneMachineNotReady'',
        ''A control-plane Machine is not Ready on the new control-plane endpoint.''))
      else
        (let ref = cm_infrastructureRef machine
         in if cr_apiGroup ref \<noteq> infra_group \<or> cr_kind ref \<noteq> TartMachineKind \<or> cr_name ref = []
            then State_Monad.return (Inl (''InfrastructureReferenceInvalid'',
              ''A control-plane Machine has an invalid infrastructure reference.''))
            else do {
              found \<leftarrow> cp_get E (\<lambda>T. te_get_tart_machine T [] (mt_namespace (cm_meta machine)) (cr_name ref));
              (case found of
                 Inl _ \<Rightarrow> State_Monad.return (Inl (''InfrastructureUnavailable'',
                   ''A control-plane TartMachine is not available for endpoint observation.''))
               | Inr provider \<Rightarrow>
                   if mst_observedControlPlaneEndpoint (m_status provider) \<noteq> endpoint \<or>
                      (case lib_find_condition L (mst_conditions (m_status provider)) TartMachineConfigurationUpToDateCondition of
                         None \<Rightarrow> True | Some c \<Rightarrow> cond_status c \<noteq> ConditionTrue)
                   then State_Monad.return (Inl (''ControlPlaneEndpointUpdating'',
                     ''Control-plane Machines are still converging on the new control-plane endpoint.''))
                   else endpoint_scan L E endpoint machines (Suc n))
            }))"

definition controlPlaneEndpointConverged ::
  "k8s_lib \<Rightarrow> cp_lib \<Rightarrow> cp_env \<Rightarrow> capi_cluster \<Rightarrow> capi_machine list \<Rightarrow> (bool \<times> string \<times> string) cp" where
  "controlPlaneEndpointConverged L K E cluster machines =
     (if \<not> kp_endpoint_valid K (cl_endpoint_host cluster) (cl_endpoint_port cluster)
      then State_Monad.return (False, ''EndpointUnavailable'', ''The Cluster control-plane endpoint is not available yet.'')
      else do {
        scanned \<leftarrow> endpoint_scan L E (kp_endpoint_string K (cl_endpoint_host cluster) (cl_endpoint_port cluster)) machines 0;
        State_Monad.return
          (case scanned of
             Inl (reason, message) \<Rightarrow> (False, reason, message)
           | Inr n \<Rightarrow>
               if n = 0
               then (False, ''ControlPlaneMachinesUnavailable'', ''No control-plane Machines are available for endpoint observation.'')
               else (True, ''ControlPlaneEndpointConverged'', ''All control-plane Machines report the desired control-plane endpoint.''))
      })"

subsection \<open>The spread over failure domains\<close>

definition offered :: "FailureDomain list \<Rightarrow> string set" where
  "offered domains = {fd_name d |d. d \<in> set domains \<and> fd_name d \<noteq> [] \<and> fd_controlPlane d \<noteq> Some False}"

lemma eligible_domains_fold:
  "distinct acc \<Longrightarrow>
     (let es = foldl (\<lambda>eligible d. if fd_name d = [] \<or> fd_controlPlane d = Some False then eligible
        else if fd_name d \<in> set eligible then eligible else eligible @ [fd_name d]) acc domains
      in distinct es \<and> set es = set acc \<union> offered domains)"
  by (induction domains arbitrary: acc) (auto simp: offered_def Let_def)

lemma eligible_domains: "distinct (eligible_domains domains)" "set (eligible_domains domains) = offered domains"
  using eligible_domains_fold[of "[]" domains] by (simp_all add: eligible_domains_def Let_def)

lemma failure_domain_nth:
  "controlPlaneFailureDomain domains o' =
     (if offered domains = {} then None
      else Some (sorted_list_of_set (offered domains) ! (o' mod card (offered domains))))"
proof -
  note e = eligible_domains[of domains]
  have "sort (eligible_domains domains) = sorted_list_of_set (offered domains)"
    using e by (metis sorted_list_of_set_sort_remdups distinct_remdups_id)
  moreover have "length (eligible_domains domains) = card (offered domains)"
    using e by (metis distinct_card)
  moreover have "eligible_domains domains = [] \<longleftrightarrow> offered domains = {}" using e(2) by auto
  ultimately show ?thesis by (simp add: controlPlaneFailureDomain_def Let_def)
qed

lemma card_residue:
  assumes "j < (k :: nat)"
  shows "card {o' \<in> {..<n}. o' mod k = j} = n div k + (if j < n mod k then 1 else 0)"
proof (induction n)
  case (Suc n)
  have "{o' \<in> {..<Suc n}. o' mod k = j} = (if n mod k = j then insert n {o' \<in> {..<n}. o' mod k = j} else {o' \<in> {..<n}. o' mod k = j})"
    by (auto simp: less_Suc_eq)
  then have "card {o' \<in> {..<Suc n}. o' mod k = j} = card {o' \<in> {..<n}. o' mod k = j} + (if n mod k = j then 1 else 0)" by simp
  with Suc assms show ?case by (auto simp: mod_Suc div_Suc)
qed simp

text \<open>Any two offered domains get numbers of replicas that differ by at most one, and no replica
  goes elsewhere.\<close>

definition replicas_in :: "FailureDomain list \<Rightarrow> nat \<Rightarrow> string \<Rightarrow> nat" where
  "replicas_in domains n d = card {o' \<in> {..<n}. controlPlaneFailureDomain domains o' = Some d}"

lemma replicas_in_share:
  assumes "d \<in> offered domains"
  shows "replicas_in domains n d \<in> {n div card (offered domains), Suc (n div card (offered domains))}"
proof -
  let ?s = "sorted_list_of_set (offered domains)" and ?k = "card (offered domains)"
  have fin: "finite (offered domains)" by (metis eligible_domains(2) List.finite_set)
  with assms have "d \<in> set ?s" by simp
  then obtain j where j: "j < length ?s" "?s ! j = d" by (metis in_set_conv_nth)
  have jk: "j < ?k" using j(1) fin by simp
  have "controlPlaneFailureDomain domains o' = Some d \<longleftrightarrow> o' mod ?k = j" for o'
  proof -
    have "o' mod ?k < length ?s" using jk fin by simp
    with j show ?thesis using assms distinct_sorted_list_of_set[of "offered domains"]
      by (auto simp: failure_domain_nth nth_eq_iff_index_eq)
  qed
  with card_residue[OF jk, of n] show ?thesis by (simp add: replicas_in_def)
qed

lemma failure_domain_offered: "controlPlaneFailureDomain domains o' = Some d \<Longrightarrow> d \<in> offered domains"
proof -
  assume a: "controlPlaneFailureDomain domains o' = Some d"
  have fin: "finite (offered domains)" by (metis eligible_domains(2) List.finite_set)
  have "offered domains \<noteq> {}" using a by (auto simp: failure_domain_nth)
  then have "o' mod card (offered domains) < length (sorted_list_of_set (offered domains))"
    using fin by (simp add: card_gt_0_iff)
  from nth_mem[OF this] a show ?thesis using fin by (auto simp: failure_domain_nth split: if_splits)
qed

lemma offered_contained: "d \<in> offered domains \<Longrightarrow> containsControlPlaneFailureDomain domains d"
  unfolding offered_def containsControlPlaneFailureDomain_def list_ex_iff by (auto, metis (full_types) option.exhaust)

subsection \<open>The digest stands for the template\<close>

lemma image_json_inj:
  assumes "image_json i = Some a" "image_json j = Some a"
  shows "i = j"
proof -
  obtain v s v' s' where p: "json_string (img_version i) = Some v" "json_string (img_schematicID i) = Some s"
      "json_string (img_version j) = Some v'" "json_string (img_schematicID j) = Some s'"
    using assms by (auto simp: image_json_def split: option.splits)
  have "a = ''{'' @ json_quote ''version'' @ '':'' @ v @ '','' @ json_quote ''schematicID'' @ '':'' @ s @ ''}''"
    and "a = ''{'' @ json_quote ''version'' @ '':'' @ v' @ '','' @ json_quote ''schematicID'' @ '':'' @ s' @ ''}''"
    using assms p by (simp_all add: image_json_def)
  then have "v @ '','' @ json_quote ''schematicID'' @ '':'' @ s @ ''}'' = v' @ '','' @ json_quote ''schematicID'' @ '':'' @ s' @ ''}''"
    by (simp only: same_append_eq)
  from json_string_inj[OF p(1,3) this] have 1: "img_version i = img_version j" and "s @ ''}'' = s' @ ''}''" by auto
  with json_string_inj[OF p(2,4), of "''}''" "''}''"] show "i = j" by (simp add: TalosImageSpec.equality)
qed

lemma hex_char_inj: "a < 16 \<Longrightarrow> b < 16 \<Longrightarrow> hex_char a = hex_char b \<Longrightarrow> a = b"
  by (metis hex_val_char option.inject)

lemma hex_encode_inj:
  "list_all (\<lambda>b. b < 256) as \<Longrightarrow> list_all (\<lambda>b. b < 256) bs \<Longrightarrow> hex_encode as = hex_encode bs \<Longrightarrow> as = bs"
proof (induction as arbitrary: bs)
  case Nil
  then show ?case by (cases bs) (auto simp: hex_encode_def)
next
  case (Cons a as)
  then obtain b bs' where bs: "bs = b # bs'" by (cases bs) (auto simp: hex_encode_def)
  with Cons.prems have "hex_char (a div 16) = hex_char (b div 16)" "hex_char (a mod 16) = hex_char (b mod 16)"
    by (simp_all add: hex_encode_def)
  with Cons.prems bs have "a div 16 = b div 16" "a mod 16 = b mod 16" by (auto intro!: hex_char_inj)
  then have "a = b" by (metis div_mult_mod_eq)
  with Cons bs show ?case by (simp add: hex_encode_def)
qed

lemma sha256_range: "list_all (\<lambda>b. b < 256) (sha256 s)"
proof -
  have "list_all (\<lambda>b. b < 256) (be_bytes n k)" for n k by (induction n k rule: be_bytes.induct) auto
  then show ?thesis by (auto simp: sha256_def sha256_bytes_def Let_def list_all_iff)
qed

lemma digest_eq:
  assumes "digestTemplateValue (Some a) = digestTemplateValue (Some b)" "inj_on sha256 {a, b}"
  shows "a = b"
proof -
  have "hex_encode (sha256 a) = hex_encode (sha256 b)" using assms(1) by (simp add: digestTemplateValue_def)
  from hex_encode_inj[OF sha256_range sha256_range this] show ?thesis by (rule inj_onD[OF assms(2)]) simp_all
qed

lemma digest_nonempty: "digestTemplateValue (Some a) \<noteq> []"
proof
  assume "digestTemplateValue (Some a) = []"
  then have "length (hex_encode (sha256 a)) = 0" by (simp add: digestTemplateValue_def)
  then show False by simp
qed

lemma machineImageDigest_eq:
  assumes "image_json i = Some a" "image_json j = Some b" "inj_on sha256 {a, b}"
  shows "machineImageDigest i = machineImageDigest j \<longleftrightarrow> i = j"
  using assms digest_eq[of a b] image_json_inj[of i a j] by (auto simp: machineImageDigest_def)

subsection \<open>Following a template\<close>

text \<open>What may be written to a TartMachine: the observation of a template that it agrees with, or
  the template's image in place of the image that was last taken from the template.\<close>

definition follows_template :: "TartMachine \<Rightarrow> TartMachine \<Rightarrow> TartMachine \<Rightarrow> bool" where
  "follows_template current expected k \<longleftrightarrow>
     (let key = lastAppliedMachineTemplateDigestAnnotation;
          last_applied = map_get (mt_annotations (m_meta current)) key; digest = (\<lambda>m. machineImageDigest (ms_image (m_spec m)))
      in map_get (mt_annotations (m_meta k)) key = digest expected \<and> digest k = digest expected \<and>
         (\<forall>j. j \<noteq> key \<longrightarrow> map_get (mt_annotations (m_meta k)) j = map_get (mt_annotations (m_meta current)) j) \<and>
         (last_applied = [] \<and> m_spec k = m_spec current \<or>
          last_applied = digest current \<and> m_spec k = (m_spec current)\<lparr>ms_image := ms_image (m_spec expected)\<rparr>))"

lemma syncMachineTemplate_cases:
  assumes "run_state (syncMachineTemplate E current expected) tr = (r, tr @ new)"
  shows "new = [] \<or> (\<exists>k. new = [CpTartMachinePatch k] \<and> follows_template current expected k)"
  using assms
  by (auto simp: syncMachineTemplate_def patchTemplateDigest_machine_def cp_write_def follows_template_def with_annotation_def
      map_get_update Let_def split: if_splits)

text \<open>An image that somebody else has changed since is left alone, and a machine that has
  followed its template is left alone until the template changes.\<close>

lemma syncMachineTemplate_kept:
  assumes "map_get (mt_annotations (m_meta current)) lastAppliedMachineTemplateDigestAnnotation \<notin> {[], machineImageDigest (ms_image (m_spec current))}"
  shows "run_state (syncMachineTemplate E current expected) tr = (None, tr)"
  using assms by (auto simp: syncMachineTemplate_def Let_def)

lemma syncMachineTemplate_idempotent:
  assumes "follows_template current expected k" "machineImageDigest (ms_image (m_spec expected)) \<noteq> []"
  shows "run_state (syncMachineTemplate E k expected) tr = (None, tr)"
  using assms by (simp add: syncMachineTemplate_def follows_template_def Let_def)

lemma syncBootstrapTemplate_events:
  "emits (syncBootstrapTemplate E current expected) (range CpBootstrapPatch)"
  unfolding syncBootstrapTemplate_def patchTemplateDigest_bootstrap_def Let_def by (intro emit_rules) auto

lemma syncMachineTemplate_events:
  "emits (syncMachineTemplate E current expected) (range CpTartMachinePatch)"
  unfolding syncMachineTemplate_def patchTemplateDigest_machine_def Let_def by (intro emit_rules) auto

subsection \<open>Which machines are created\<close>

definition provider_events :: "cp_event set" where
  "provider_events = range CpTartMachineCreate \<union> range CpTartMachinePatch \<union> range CpBootstrapCreate \<union> range CpBootstrapPatch"

lemma emits_get_or_create: "e \<in> S \<Longrightarrow> emits (get_or_create E r e) S"
  unfolding get_or_create_def by (intro emit_rules)

lemma emits_ensureProviderResources:
  "emits (ensureProviderResources L K E cp c o' m mt bt) provider_events"
  unfolding ensureProviderResources_def ensure_bootstrap_def Let_def
  by (intro emit_rules emits_get_or_create emits_mono[OF syncMachineTemplate_events] emits_mono[OF syncBootstrapTemplate_events])
     (auto simp: provider_events_def)

lemma emits_ensureMachineTemplateFields:
  "emits (ensureMachineTemplateFields E m cp) {CpMachinePatch (template_fields cp m)}"
  unfolding ensureMachineTemplateFields_def Let_def by (intro emit_rules) auto

lemma emits_ensure_existing:
  "emits (ensure_existing L K E cp c ds mt bt o' name m) (insert (CpMachinePatch (template_fields cp m)) provider_events)"
  unfolding ensure_existing_def
  by (intro emit_rules emits_mono[OF emits_ensureMachineTemplateFields] emits_mono[OF emits_ensureProviderResources]) auto

lemma emits_createMachine:
  "(\<And>b. bootstrapConfigName L (mt_name (k_meta cp)) o' = Some b \<Longrightarrow> CpMachineCreate (new_machine L K cp c o' d name b) \<in> S) \<Longrightarrow>
     emits (createMachine L K E cp c o' d name) S"
  unfolding createMachine_def by (intro emit_rules) auto

text \<open>The machine that the control plane creates for an ordinal.\<close>

definition ordinal_machine ::
  "k8s_lib \<Rightarrow> cp_lib \<Rightarrow> TartControlPlane \<Rightarrow> string \<Rightarrow> FailureDomain list \<Rightarrow> nat \<Rightarrow> capi_machine \<Rightarrow> bool" where
  "ordinal_machine L K cp clusterName domains ordinal m \<longleftrightarrow>
     (\<exists>name boot. controlPlaneChildName L (mt_name (k_meta cp)) (int ordinal) [] = Some name \<and>
        bootstrapConfigName L (mt_name (k_meta cp)) (int ordinal) = Some boot \<and>
        (domains \<noteq> [] \<longrightarrow> controlPlaneFailureDomain domains ordinal \<noteq> None) \<and>
        m = new_machine L K cp clusterName (int ordinal)
          (case controlPlaneFailureDomain domains ordinal of None \<Rightarrow> [] | Some d \<Rightarrow> d) name boot)"

lemma ordinal_machine_name:
  "ordinal_machine L K cp c ds o' m \<Longrightarrow> mt_name (cm_meta m) = mt_name (k_meta cp) @ ''-'' @ format_int (int o')"
  by (auto simp: ordinal_machine_def new_machine_def new_meta_def controlPlaneChildName_def Let_def split: if_splits)

lemma createMachine_run:
  assumes "run_state (createMachine L K E cp c o' d name) tr = (x, tr')"
  shows "(tr' = tr \<and> (\<exists>e. x = Inl e)) \<or>
    (\<exists>boot. bootstrapConfigName L (mt_name (k_meta cp)) o' = Some boot \<and> tr' = tr @ [CpMachineCreate (new_machine L K cp c o' d name boot)])"
  using assms by (auto simp: createMachine_def cp_write_def cp_get_def split: option.splits if_splits)

abbreviation created :: "cp_event list \<Rightarrow> cp_event list" where
  "created es \<equiv> filter (\<lambda>e. e \<in> range CpMachineCreate) es"

lemma created_provider: "set es \<subseteq> insert (CpMachinePatch m) provider_events \<Longrightarrow> created es = []"
  by (auto simp: filter_empty_conv provider_events_def)

definition creations ::
  "k8s_lib \<Rightarrow> cp_lib \<Rightarrow> TartControlPlane \<Rightarrow> string \<Rightarrow> FailureDomain list \<Rightarrow> (string \<rightharpoonup> capi_machine) \<Rightarrow> nat list \<Rightarrow> cp_event list \<Rightarrow> bool" where
  "creations L K cp c ds byName ords es \<longleftrightarrow>
     list_all2 (\<lambda>o' e. \<exists>m. e = CpMachineCreate m \<and> ordinal_machine L K cp c ds o' m \<and> byName (mt_name (cm_meta m)) = None) ords es"

lemma creations_weaken:
  "creations L K cp c ds (byName(n \<mapsto> m)) ords es \<Longrightarrow> creations L K cp c ds byName ords es"
  unfolding creations_def by (erule list_all2_mono) (auto split: if_splits)

text \<open>At most one machine is created for an ordinal.\<close>

lemma machine_of_ordinal_run:
  assumes name: "controlPlaneChildName L (mt_name (k_meta cp)) (int o') [] = Some name"
    and dom: "ds \<noteq> [] \<longrightarrow> controlPlaneFailureDomain ds o' \<noteq> None"
    and run: "run_state (machine_of_ordinal L K E cp c ds byName o' name) tr = (x, t1)"
  obtains new ords where "t1 = tr @ new" "set new \<subseteq> range CpMachineCreate" "set ords \<subseteq> {o'}" "distinct ords"
    "creations L K cp c ds byName ords new"
proof (cases "byName name")
  case None
  let ?m = "new_machine L K cp c (int o') (case controlPlaneFailureDomain ds o' of None \<Rightarrow> [] | Some d \<Rightarrow> d) name"
  from None run have "run_state (createMachine L K E cp c (int o') (case controlPlaneFailureDomain ds o' of None \<Rightarrow> [] | Some d \<Rightarrow> d) name) tr = (x, t1)"
    by (simp add: machine_of_ordinal_def)
  from createMachine_run[OF this] show thesis
  proof (elim disjE exE conjE)
    fix boot assume b: "bootstrapConfigName L (mt_name (k_meta cp)) (int o') = Some boot" and t1: "t1 = tr @ [CpMachineCreate (?m boot)]"
    have "ordinal_machine L K cp c ds o' (?m boot)" using name dom b by (auto simp: ordinal_machine_def)
    with None t1 show thesis
      by (intro that[of "[_]" "[o']"]) (auto simp: creations_def new_machine_def new_meta_def Let_def)
  qed (auto intro!: that[of "[]" "[]"] simp: creations_def)
next
  case (Some y)
  with run show thesis by (intro that[of "[]" "[]"]) (simp_all add: creations_def machine_of_ordinal_def)
qed

definition ensured ::
  "k8s_lib \<Rightarrow> cp_lib \<Rightarrow> TartControlPlane \<Rightarrow> string \<Rightarrow> FailureDomain list \<Rightarrow> (string \<rightharpoonup> capi_machine) \<Rightarrow> nat list \<Rightarrow> cp_event list \<Rightarrow> bool" where
  "ensured L K cp c ds byName os es \<longleftrightarrow>
     set es \<subseteq> range CpMachineCreate \<union> range CpMachinePatch \<union> provider_events \<and>
     (\<exists>ords. distinct ords \<and> set ords \<subseteq> set os \<and> creations L K cp c ds byName ords (created es))"

lemma ensured_Nil: "ensured L K cp c ds byName os []"
  by (auto simp: ensured_def creations_def intro!: exI[of _ "[]"])

lemma ensured_Cons:
  assumes "set new \<subseteq> range CpMachineCreate" "set ords \<subseteq> {o'}" "distinct ords" "creations L K cp c ds byName ords new"
    and "ensured L K cp c ds byName os es" "o' \<notin> set os"
  shows "ensured L K cp c ds byName (o' # os) (new @ es)"
proof -
  from assms(5) obtain ords' where o: "distinct ords'" "set ords' \<subseteq> set os" "creations L K cp c ds byName ords' (created es)"
    "set es \<subseteq> range CpMachineCreate \<union> range CpMachinePatch \<union> provider_events" by (auto simp: ensured_def)
  have "created new = new" using assms(1) by (auto intro!: filter_True)
  with assms(4) o(3) have "creations L K cp c ds byName (ords @ ords') (created (new @ es))"
    by (simp add: creations_def list_all2_appendI)
  moreover have "distinct (ords @ ords')" "set (ords @ ords') \<subseteq> set (o' # os)" using assms(2,3,6) o(1,2) by auto
  moreover have "set (new @ es) \<subseteq> range CpMachineCreate \<union> range CpMachinePatch \<union> provider_events" using assms(1) o(4) by auto
  ultimately show ?thesis unfolding ensured_def by blast
qed

lemma ensured_provider:
  "set es \<subseteq> insert (CpMachinePatch m) provider_events \<Longrightarrow> ensured L K cp c ds byName os fs \<Longrightarrow> ensured L K cp c ds byName os (es @ fs)"
  using created_provider[of es m] by (auto simp: ensured_def)

lemma ensured_weaken: "ensured L K cp c ds (byName(n \<mapsto> m)) os es \<Longrightarrow> ensured L K cp c ds byName os es"
  unfolding ensured_def using creations_weaken by blast

lemma ensure_ordinals_creates:
  "run_state (ensure_ordinals L K E cp c ds mt bt os byName) tr = (r, tr') \<Longrightarrow> distinct os \<Longrightarrow>
     \<exists>new. tr' = tr @ new \<and> ensured L K cp c ds byName os new"
proof (induction os arbitrary: byName tr)
  case Nil
  then show ?case by (simp add: ensured_Nil)
next
  case (Cons o' os)
  let ?d = "controlPlaneFailureDomain ds o'"
  show ?case
  proof (cases "(length ds > 0 \<and> ?d = None) \<or> controlPlaneChildName L (mt_name (k_meta cp)) (int o') [] = None")
    case True
    with Cons.prems(1) have "tr' = tr" by (auto simp: Let_def split: if_splits)
    then show ?thesis by (auto intro: ensured_Nil)
  next
    case False
    then obtain name where name: "controlPlaneChildName L (mt_name (k_meta cp)) (int o') [] = Some name"
      and dom: "ds \<noteq> [] \<longrightarrow> ?d \<noteq> None" by auto
    obtain x t1 where x: "run_state (machine_of_ordinal L K E cp c ds byName o' name) tr = (x, t1)" by fastforce
    obtain new1 ords1 where 1: "t1 = tr @ new1" "set new1 \<subseteq> range CpMachineCreate" "set ords1 \<subseteq> {o'}" "distinct ords1"
      "creations L K cp c ds byName ords1 new1"
      using machine_of_ordinal_run[OF name dom x] .
    note first = ensured_Cons[OF 1(2-5)]
    show ?thesis
    proof (cases x)
      case (Inl e)
      with Cons.prems(1) False name x have "tr' = t1" by (auto simp: Let_def)
      then show ?thesis using 1(1) first[OF ensured_Nil] Cons.prems(2) by auto
    next
      case (Inr machine)
      obtain err t2 where e: "run_state (ensure_existing L K E cp c ds mt bt (int o') name machine) t1 = (err, t2)" by fastforce
      obtain new2 where 2: "t2 = t1 @ new2" "set new2 \<subseteq> insert (CpMachinePatch (template_fields cp machine)) provider_events"
        using emitsD[OF emits_ensure_existing e] by blast
      note second = first[OF ensured_provider[OF 2(2)]]
      show ?thesis
      proof (cases err)
        case (Some e')
        with Cons.prems(1) False name x Inr e have "tr' = t2" by (auto simp: Let_def)
        then show ?thesis using 1(1) 2(1) second[OF ensured_Nil] Cons.prems(2) by auto
      next
        case None
        let ?by = "if byName name = None then byName(mt_name (cm_meta machine) \<mapsto> machine) else byName"
        have "run_state (ensure_ordinals L K E cp c ds mt bt os ?by) t2 = (r, tr')"
          using Cons.prems(1) False name x Inr e None by (auto simp: Let_def)
        from Cons.IH[OF this] Cons.prems(2) obtain new3 where 3: "tr' = t2 @ new3" "ensured L K cp c ds ?by os new3" by auto
        from 3(2) have "ensured L K cp c ds byName os new3" using ensured_weaken by (auto split: if_splits)
        from second[OF this] show ?thesis using 1(1) 2(1) 3(1) Cons.prems(2) by auto
      qed
    qed
  qed
qed

subsection \<open>What a pass over the machines may do\<close>

text \<open>A scale-down that does not report itself as pending did not delete or remove anything.\<close>

definition disrupts :: "cp_event \<Rightarrow> bool" where
  "disrupts e \<longleftrightarrow> e \<in> range CpMachineDelete \<or> (\<exists>ep au i. e = CpRpc ep au (CpRemoveEtcdMember i))"

lemma remove_fresh_handled:
  assumes "run_state (remove_fresh_member L E target aid False machines) tr = ((h, err), tr')"
  shows "h"
  using assms
  by (auto simp: remove_fresh_member_def Let_def removeObservedEtcdMember_def
      split: option.splits prod.splits if_splits)

lemma removal_quiet:
  assumes run: "run_state (reconcileEtcdMemberRemoval L K E target machines) tr = ((False, err), tr @ new)"
  shows "\<forall>e \<in> set new. \<not> disrupts e"
proof (cases "machineWaitingForPreTerminateHook L K target")
  case True
  obtain aid ann h e1 t1 where a: "run_state (reconcileAnnotatedEtcdMember L K E target machines) tr = ((aid, ann, h, e1), t1)"
    by (metis prod_cases4 surj_pair)
  have em: "emits (reconcileAnnotatedEtcdMember L K E target machines) {e. \<not> disrupts e}"
    unfolding reconcileAnnotatedEtcdMember_def removeEtcdDeleteHook_def
    by (intro emit_rules emits_mono[OF observing_etcd_members]) (auto simp: disrupts_def)
  from emitsD[OF em a] obtain es where es: "t1 = tr @ es" "\<forall>e \<in> set es. \<not> disrupts e" by blast
  have "ann \<or> e1 \<noteq> None"
  proof (rule ccontr)
    assume "\<not> (ann \<or> e1 \<noteq> None)"
    with run a True have "run_state (remove_fresh_member L E target aid False machines) t1 = ((False, err), tr @ new)"
      by (simp add: reconcileEtcdMemberRemoval_def)
    from remove_fresh_handled[OF this] show False by simp
  qed
  with run a True es show ?thesis by (auto simp: reconcileEtcdMemberRemoval_def)
next
  case False
  with run show ?thesis by (simp add: reconcileEtcdMemberRemoval_def)
qed

lemma scale_down_quiet:
  assumes run: "run_state (reconcileScaleDown L K E machines desired) tr = ((False, None), tr @ new)"
  shows "\<forall>e \<in> set new. \<not> disrupts e"
proof (cases "order_machines (filter (\<lambda>m. mt_deletionTimestamp (cm_meta m) \<noteq> None) machines)")
  case Nil
  with run show ?thesis
    by (auto simp: reconcileScaleDown_def ensureEtcdDeleteHook_def cp_write_def Let_def
        split: if_splits list.splits option.splits prod.splits)
next
  case (Cons target rest)
  show ?thesis
  proof (cases "int (length machines) \<le> desired \<or>
      map_get (mt_annotations (cm_meta target)) (controlPlaneEtcdDeleteHook K) \<noteq> ControlPlaneEtcdDeleteHookValue")
    case True
    with Cons run show ?thesis
      by (auto simp: reconcileScaleDown_def ensureEtcdDeleteHook_def cp_write_def Let_def disrupts_def split: if_splits option.splits)
  next
    case False
    with Cons run show ?thesis by (intro removal_quiet) (auto simp: reconcileScaleDown_def)
  qed
qed

definition scale_down_events :: "cp_event set" where
  "scale_down_events = {e. cp_observes e} \<union> range CpMachinePatch \<union> range CpMachineDelete \<union>
     {e. \<exists>ep au i. e = CpRpc ep au (CpRemoveEtcdMember i)}"

lemma emits_case_list: "emits m S \<Longrightarrow> (\<And>x xs. emits (f x xs) S) \<Longrightarrow> emits (case l of [] \<Rightarrow> m | x # xs \<Rightarrow> f x xs) S"
  by (cases l) simp_all

lemma emits_scale_down: "emits (reconcileScaleDown L K E machines desired) scale_down_events"
proof -
  have o: "{e. cp_observes e} \<subseteq> scale_down_events" by (auto simp: scale_down_events_def)
  have i: "CpMachinePatch m \<in> scale_down_events" "CpMachineDelete m \<in> scale_down_events"
    "CpRpc ep au (CpRemoveEtcdMember k) \<in> scale_down_events" "CpDial ep au \<in> scale_down_events" for m ep au k
    by (auto simp: scale_down_events_def)
  have a: "emits (reconcileAnnotatedEtcdMember L K E target machines) scale_down_events" for target
    unfolding reconcileAnnotatedEtcdMember_def removeEtcdDeleteHook_def
    by (intro emit_rules emits_mono[OF observing_etcd_members o] i)
  have f: "emits (remove_fresh_member L E target aid ann machines) scale_down_events" for target aid ann
    unfolding remove_fresh_member_def annotateEtcdMemberID_def removeObservedEtcdMember_def Let_def
    by (intro emit_rules emits_mono[OF observing_observations o] emits_mono[OF observing_etcd(2) o] i)
  show ?thesis
    unfolding reconcileScaleDown_def reconcileEtcdMemberRemoval_def Let_def
    by (intro emit_rules emits_case_list a f emits_ensureEtcdDeleteHook i)
qed

lemma listControlPlaneMachines_reads: "\<exists>r. run_state (listControlPlaneMachines L K E cp c) tr = (r, tr)"
  by (simp add: listControlPlaneMachines_def)

definition by_name :: "capi_machine list \<Rightarrow> (string \<rightharpoonup> capi_machine)" where
  "by_name machines = map_of (rev (map (\<lambda>m. (mt_name (cm_meta m), m)) machines))"

lemma by_name_None: "by_name machines n = None \<longleftrightarrow> n \<notin> (\<lambda>m. mt_name (cm_meta m)) ` set machines"
  by (auto simp: by_name_def map_of_eq_None_iff image_iff)

text \<open>The ordinals first, then at most one scale-down.\<close>

lemma ensureMachines_run:
  assumes run: "run_state (ensureMachines L K E cp c desired ds mt bt) tr = (r, tr')"
  obtains (stopped) "tr' = tr" "is_ok r = False"
  | (ordinals) machines es where "run_state (listControlPlaneMachines L K E cp c) tr = (Inr machines, tr)"
      "tr' = tr @ es" "ensured L K cp c ds (by_name machines) [0..<nat desired] es"
      "\<And>ms e. r = Inr (ms, e) \<Longrightarrow> e = None \<and> int (length ms) \<le> desired"
  | (scaled) machines es ms err pending serr where "run_state (listControlPlaneMachines L K E cp c) tr = (Inr machines, tr)"
      "ensured L K cp c ds (by_name machines) [0..<nat desired] es" "int (length ms) > desired"
      "run_state (reconcileScaleDown L K E ms desired) (tr @ es) = ((pending, serr), tr')"
      "r = Inr (ms, err)" "err = (if serr \<noteq> None then serr else if pending then Some CpScaleDownPending else None)"
proof -
  obtain l where l: "run_state (listControlPlaneMachines L K E cp c) tr = (l, tr)" using listControlPlaneMachines_reads by blast
  show thesis
  proof (cases "\<exists>machines. l = Inr machines \<and> validateControlPlaneMachineOwners machines cp = None")
    case False
    with run l have "tr' = tr \<and> \<not> is_ok r" by (cases l) (auto simp: ensureMachines_def split: option.splits)
    then show thesis using stopped by auto
  next
    case True
    then obtain machines where m: "l = Inr machines" "validateControlPlaneMachineOwners machines cp = None" by blast
    note lm = l[unfolded m(1)]
    obtain e1 t1 where o: "run_state (ensure_ordinals L K E cp c ds mt bt [0..<nat desired] (by_name machines)) tr = (e1, t1)" by fastforce
    obtain es where es: "t1 = tr @ es" "ensured L K cp c ds (by_name machines) [0..<nat desired] es"
      using ensure_ordinals_creates[OF o] by auto
    obtain l2 where l2: "run_state (listControlPlaneMachines L K E cp c) t1 = (l2, t1)" using listControlPlaneMachines_reads by blast
    show thesis
    proof (cases "e1 = None \<and> (\<exists>ms. l2 = Inr ms \<and> validateControlPlaneMachineOwners ms cp = None \<and> int (length ms) > desired)")
      case True
      then obtain ms where ms: "e1 = None" "l2 = Inr ms" "validateControlPlaneMachineOwners ms cp = None" "int (length ms) > desired" by blast
      obtain p e t2 where s: "run_state (reconcileScaleDown L K E ms desired) t1 = ((p, e), t2)" by (metis surj_pair)
      show thesis
        by (rule scaled[OF lm es(2) ms(4), of p e "if e \<noteq> None then e else if p then Some CpScaleDownPending else None"])
           (use run lm m(2) o es l2 ms s in \<open>simp_all add: ensureMachines_def by_name_def\<close>)
    next
      case False
      with run lm m(2) o l2 have "tr' = t1 \<and> (\<forall>ms e. r = Inr (ms, e) \<longrightarrow> e = None \<and> int (length ms) \<le> desired)"
        by (cases l2) (auto simp: ensureMachines_def by_name_def split: option.splits)
      with es show thesis by (intro ordinals[OF lm]) auto
    qed
  qed
qed

lemma ensured_quiet: "ensured L K cp c ds by os es \<Longrightarrow> \<forall>e \<in> set es. \<not> disrupts e"
  by (fastforce simp: ensured_def disrupts_def provider_events_def)

text \<open>Machines are created only for ordinals that have none, each once.\<close>

lemma ensureMachines_creates:
  assumes run: "run_state (ensureMachines L K E cp c desired ds mt bt) tr = (r, tr @ new)"
  shows "created new = [] \<or> (\<exists>machines ords. run_state (listControlPlaneMachines L K E cp c) tr = (Inr machines, tr) \<and>
    distinct ords \<and> set ords \<subseteq> {..<nat desired} \<and> creations L K cp c ds (by_name machines) ords (created new))"
  using run
proof (cases rule: ensureMachines_run)
  case (ordinals machines es)
  then show ?thesis by (auto simp: ensured_def atLeast0LessThan)
next
  case (scaled machines es ms err pending serr)
  obtain new2 where n2: "tr @ new = (tr @ es) @ new2" "set new2 \<subseteq> scale_down_events" using emitsD[OF emits_scale_down scaled(4)] by blast
  then have "created new = created es" by (auto simp: filter_empty_conv scale_down_events_def)
  with scaled(1,2) show ?thesis by (auto simp: ensured_def atLeast0LessThan)
qed simp

lemma ensureMachines_quiet:
  assumes run: "run_state (ensureMachines L K E cp c desired ds mt bt) tr = (Inr (ms, None), tr @ new)"
  shows "\<forall>e \<in> set new. \<not> disrupts e"
  using run
proof (cases rule: ensureMachines_run)
  case (ordinals machines es)
  then show ?thesis using ensured_quiet by auto
next
  case (scaled machines es ms err pending serr)
  then have q: "\<not> pending" "serr = None" by (auto split: if_splits)
  obtain new2 where "tr @ new = (tr @ es) @ new2" using emitsD[OF emits_scale_down scaled(4)] by auto
  with scaled(4) q scale_down_quiet[of L K E ms desired "tr @ es" new2] ensured_quiet[OF scaled(2)] show ?thesis by auto
qed auto

text \<open>An endpoint counts as converged when every control-plane machine reports it.\<close>

definition on_endpoint :: "k8s_lib \<Rightarrow> cp_env \<Rightarrow> cp_event list \<Rightarrow> string \<Rightarrow> capi_machine \<Rightarrow> bool" where
  "on_endpoint L E tr endpoint m \<longleftrightarrow>
     (\<exists>c p. lib_find_condition L (cm_conditions m) (lib_machine_ready L) = Some c \<and> cond_status c = ConditionTrue \<and>
        te_get_tart_machine (ce_tm E tr) [] (mt_namespace (cm_meta m)) (cr_name (cm_infrastructureRef m)) = Inr p \<and>
        mst_observedControlPlaneEndpoint (m_status p) = endpoint)"

definition labelled_control_planes :: "k8s_lib \<Rightarrow> capi_machine list \<Rightarrow> capi_machine list" where
  "labelled_control_planes L machines = filter (\<lambda>m. map_of (mt_labels (cm_meta m)) (lib_control_plane_label L) \<noteq> None) machines"

lemma endpoint_scan_converged:
  "run_state (endpoint_scan L E endpoint machines n) tr = (Inr k, tr') \<Longrightarrow>
     k = n + length (labelled_control_planes L machines) \<and> list_all (on_endpoint L E tr endpoint) (labelled_control_planes L machines)"
proof (induction machines arbitrary: n)
  case (Cons m ms)
  show ?case
  proof (cases "map_of (mt_labels (cm_meta m)) (lib_control_plane_label L) = None")
    case True
    with Cons show ?thesis by (simp add: labelled_control_planes_def)
  next
    case False
    with Cons.prems have "on_endpoint L E tr endpoint m" "run_state (endpoint_scan L E endpoint ms (Suc n)) tr = (Inr k, tr')"
      by (auto simp: Let_def cp_get_def on_endpoint_def split: if_splits option.splits sum.splits)
    with Cons.IH[of "Suc n"] False show ?thesis by (simp add: labelled_control_planes_def)
  qed
qed (simp add: labelled_control_planes_def)

lemma emits_endpointConverged: "emits (controlPlaneEndpointConverged L K E cluster machines) S"
proof -
  have "emits (endpoint_scan L E ep ms k) S" for ep ms k
    by (induction ms arbitrary: k) (auto intro!: emit_rules simp: Let_def)
  then show ?thesis unfolding controlPlaneEndpointConverged_def by (intro emit_rules)
qed

end
