(* ===== verification/KubernetesUpgrade.thy ===== *)
theory KubernetesUpgrade
  imports ControlPlaneBootstrap
begin

section \<open>The Kubernetes upgrade of a cluster\<close>

text \<open>
  \<open>controller/tartcontrolplane/kubernetesupgrade.go\<close>: the decision whether to upgrade is a
  function of what was observed; the upgrade itself runs under a lease of the cluster and is
  left to Talos' own implementation (\<open>CpUpgradeKubernetes\<close>). The goroutine that renews the
  lease is one of its rounds, \<open>renew_round\<close>; how often it runs is not modelled. Time limits are
  part of what a request answers.
\<close>

definition NormalizeKubernetesVersion :: "string \<Rightarrow> string" where
  "NormalizeKubernetesVersion version =
     (let v = trim_space version in if has_prefix v ''v'' then drop 1 v else v)"

definition kubernetesUpgradeLeaseDuration :: duration where "kubernetesUpgradeLeaseDuration = 5 * minute"
definition kubernetesUpgradeRequeue :: duration where "kubernetesUpgradeRequeue = 60 * second"

record controlPlaneKubernetesUpgradeState =
  us_active :: bool
  us_unknown :: bool
  us_reason :: string
  us_message :: string
  us_targetVersion :: string
  us_observedVersion :: string
  us_requeueAfter :: duration

record kubernetesUpgradePreflight =
  pf_desiredVersion :: string
  pf_observedVersion :: string
  pf_versionObserved :: bool
  pf_controlPlaneInitialized :: bool
  pf_workloadAPIReady :: bool
  pf_talosReachable :: bool
  pf_etcdQuorumHealthy :: bool
  pf_machinesReady :: bool
  pf_otherOperationInProgress :: bool

datatype kubernetesUpgradeAction = UpgradeNone | UpgradeWait | UpgradeFail | UpgradeUpgrade | UpgradeUnknown

record kubernetesUpgradeDecision =
  ud_action :: kubernetesUpgradeAction
  ud_reason :: string
  ud_message :: string

definition evaluateKubernetesUpgrade :: "kubernetesUpgradePreflight \<Rightarrow> kubernetesUpgradeDecision" where
  "evaluateKubernetesUpgrade preflight =
     (let decide = (\<lambda>action reason message. \<lparr>ud_action = action, ud_reason = reason, ud_message = message\<rparr>);
          desired = NormalizeKubernetesVersion (pf_desiredVersion preflight);
          observed = NormalizeKubernetesVersion (pf_observedVersion preflight)
      in if desired = [] then decide UpgradeFail ''InvalidVersion'' ''The desired Kubernetes version is empty.''
         else if \<not> pf_controlPlaneInitialized preflight
         then decide UpgradeWait ''ControlPlaneNotInitialized''
           ''The control plane is not initialized yet; the Kubernetes version upgrade is not started.''
         else if pf_versionObserved preflight \<and> observed = desired
         then decide UpgradeNone ''UpToDate'' ''The cluster is running the desired Kubernetes version.''
         else if \<not> pf_workloadAPIReady preflight
         then decide UpgradeWait ReasonWorkloadAPIUnavailable
           ''The workload Kubernetes API is not available; the Kubernetes version upgrade is not started.''
         else if \<not> pf_talosReachable preflight
         then decide UpgradeUnknown ''TalosAPIUnavailable''
           ''The Talos API of the control-plane nodes is not reachable; the current Kubernetes version cannot be verified.''
         else if \<not> pf_etcdQuorumHealthy preflight
         then decide UpgradeWait ''EtcdQuorumUnproven''
           ''The etcd quorum could not be proven healthy; the Kubernetes version upgrade is not started.''
         else if \<not> pf_machinesReady preflight
         then decide UpgradeWait ''MachinesNotReady''
           ''Not all desired control-plane Machines are ready; the Kubernetes version upgrade is not started.''
         else if pf_otherOperationInProgress preflight
         then decide UpgradeWait ''OperationInProgress''
           ''Another control-plane lifecycle operation is in progress; the Kubernetes version upgrade is not started.''
         else if observed = []
         then decide UpgradeWait ''VersionUnobserved''
           ''The current cluster Kubernetes version could not be observed; the Kubernetes version upgrade is not started.''
         else decide UpgradeUpgrade ''Upgrading'' ''The cluster-wide Kubernetes version upgrade is in progress.'')"

subsection \<open>The lease\<close>

definition kubernetesUpgradeLeaseName :: "string \<Rightarrow> string" where
  "kubernetesUpgradeLeaseName controlPlaneName = ''tart-kubernetes-upgrade-'' @ controlPlaneName"

definition kubernetesUpgradeLeaseAcquirable :: "Lease option \<Rightarrow> string \<Rightarrow> time \<Rightarrow> bool" where
  "kubernetesUpgradeLeaseAcquirable lease identity now =
     (if identity = [] then False
      else case lease of
        None \<Rightarrow> True
      | Some l \<Rightarrow>
          if (case ls_holderIdentity l of None \<Rightarrow> True | Some h \<Rightarrow> h = [] \<or> h = identity) then True
          else (case ls_renewTime l of
            None \<Rightarrow> True
          | Some renewed \<Rightarrow>
              (let duration = (case ls_durationSeconds l of
                     Some s \<Rightarrow> if s > 0 then s * second else kubernetesUpgradeLeaseDuration
                   | None \<Rightarrow> kubernetesUpgradeLeaseDuration)
               in \<not> now < renewed + duration)))"

datatype lease_error = LeaseHeld | LeaseApi api_error

definition taken_lease :: "cp_env \<Rightarrow> time \<Rightarrow> Lease \<Rightarrow> Lease" where
  "taken_lease E now lease =
     lease\<lparr>ls_holderIdentity := Some (ce_identity E),
       ls_durationSeconds := Some (kubernetesUpgradeLeaseDuration div second), ls_renewTime := Some now\<rparr>"

definition acquireKubernetesUpgradeLease :: "cp_env \<Rightarrow> TartControlPlane \<Rightarrow> (lease_error + Lease) cp" where
  "acquireKubernetesUpgradeLease E cp = do {
     now \<leftarrow> cp_get E (\<lambda>T. te_now T []);
     let ns = mt_namespace (k_meta cp);
     let name = kubernetesUpgradeLeaseName (mt_name (k_meta cp));
     found \<leftarrow> cp_get E (\<lambda>T. te_get_lease T [] ns name);
     (case found of
        Inl e \<Rightarrow>
          if e \<noteq> ApiNotFound then State_Monad.return (Inl (LeaseApi e))
          else do {
            let created = taken_lease E now \<lparr>ls_name = name, ls_namespace = ns, ls_holderIdentity = None,
              ls_durationSeconds = None, ls_renewTime = None\<rparr>;
            err \<leftarrow> cp_write E (CpLeaseCreate created);
            State_Monad.return
              (case err of
                 Some c \<Rightarrow> if c = ApiAlreadyExists \<or> c = ApiConflict then Inl LeaseHeld else Inl (LeaseApi c)
               | None \<Rightarrow> Inr created)
          }
      | Inr lease \<Rightarrow>
          if \<not> kubernetesUpgradeLeaseAcquirable (Some lease) (ce_identity E) now then State_Monad.return (Inl LeaseHeld)
          else do {
            err \<leftarrow> cp_write E (CpLeaseUpdate (taken_lease E now lease));
            State_Monad.return
              (case err of
                 Some c \<Rightarrow> if c = ApiConflict then Inl LeaseHeld else Inl (LeaseApi c)
               | None \<Rightarrow> Inr (taken_lease E now lease))
          })
   }"

text \<open>One round of \<open>renewKubernetesUpgradeLease\<close>; whether it goes on.\<close>

definition renew_round :: "cp_env \<Rightarrow> Lease \<Rightarrow> bool cp" where
  "renew_round E lease = do {
     found \<leftarrow> cp_get E (\<lambda>T. te_get_lease T [] (ls_namespace lease) (ls_name lease));
     (case found of
        Inl _ \<Rightarrow> State_Monad.return True
      | Inr current \<Rightarrow>
          if ls_holderIdentity current \<noteq> Some (ce_identity E) then State_Monad.return False
          else do {
            now \<leftarrow> cp_get E (\<lambda>T. te_now T []);
            _ \<leftarrow> cp_write E (CpLeaseUpdate (current\<lparr>ls_renewTime := Some now\<rparr>));
            State_Monad.return True
          })
   }"

definition releaseKubernetesUpgradeLease :: "cp_env \<Rightarrow> Lease \<Rightarrow> unit cp" where
  "releaseKubernetesUpgradeLease E lease = do {
     found \<leftarrow> cp_get E (\<lambda>T. te_get_lease T [] (ls_namespace lease) (ls_name lease));
     (case found of
        Inl _ \<Rightarrow> State_Monad.return ()
      | Inr current \<Rightarrow>
          if ls_holderIdentity current \<noteq> Some (ce_identity E) then State_Monad.return ()
          else do {
            _ \<leftarrow> cp_write E (CpLeaseUpdate (current\<lparr>ls_holderIdentity := Some []\<rparr>));
            State_Monad.return ()
          })
   }"

subsection \<open>Observation\<close>

definition countMachineCondition :: "k8s_lib \<Rightarrow> capi_machine list \<Rightarrow> string \<Rightarrow> int" where
  "countMachineCondition L machines conditionType =
     int (length (filter (\<lambda>m. case lib_find_condition L (cm_conditions m) conditionType of
        None \<Rightarrow> False | Some c \<Rightarrow> cond_status c = ConditionTrue) machines))"

definition observeKubernetesUpgradeTarget :: "k8s_lib \<Rightarrow> cp_env \<Rightarrow> capi_machine list \<Rightarrow> (string \<times> string) option cp" where
  "observeKubernetesUpgradeTarget L E machines = do {
     observed \<leftarrow> observeEtcdMachineObservations L E machines;
     State_Monad.return
       (case observed of
          None \<Rightarrow> None
        | Some [] \<Rightarrow> None
        | Some (first # rest) \<Rightarrow>
            (case summarizeEtcdObservations (first # rest) [] of
               (_, healthyMembers, consistent) \<Rightarrow>
                 if \<not> consistent \<or> healthyMembers \<noteq> int (length (first # rest)) then None
                 else Some (HostTalosEndpoint (eo_host first), eo_config first)))
   }"

definition controlPlaneEndpointAddress :: "cp_lib \<Rightarrow> capi_cluster \<Rightarrow> string" where
  "controlPlaneEndpointAddress K cluster =
     (if \<not> kp_endpoint_valid K (cl_endpoint_host cluster) (cl_endpoint_port cluster) then []
      else kp_endpoint_string K (cl_endpoint_host cluster) (cl_endpoint_port cluster))"

definition dialKubernetesUpgradeClient :: "cp_env \<Rightarrow> (string \<times> string) option \<Rightarrow> bool cp" where
  "dialKubernetesUpgradeClient E observation =
     (case observation of
        None \<Rightarrow> State_Monad.return False
      | Some (endpoint, configuration) \<Rightarrow>
          if endpoint = [] then State_Monad.return False else cp_dial E endpoint (CpConfiguration configuration))"

definition observeClusterKubernetesVersion ::
  "cp_lib \<Rightarrow> cp_env \<Rightarrow> capi_cluster \<Rightarrow> (string \<times> string) option \<Rightarrow> string option cp" where
  "observeClusterKubernetesVersion K E cluster observation = do {
     ok \<leftarrow> dialKubernetesUpgradeClient E observation;
     (case observation of
        Some (endpoint, configuration) \<Rightarrow>
          if ok
          then do {
            v \<leftarrow> cp_text E endpoint (CpConfiguration configuration) (CpDetectKubernetesVersion (controlPlaneEndpointAddress K cluster));
            State_Monad.return (case v of Inl _ \<Rightarrow> None | Inr version \<Rightarrow> Some version)
          }
          else State_Monad.return None
      | None \<Rightarrow> State_Monad.return None)
   }"

text \<open>\<open>True\<close>: no error.\<close>

definition runKubernetesUpgrade ::
  "cp_lib \<Rightarrow> cp_env \<Rightarrow> capi_cluster \<Rightarrow> (string \<times> string) option \<Rightarrow> string \<Rightarrow> string \<Rightarrow> bool cp" where
  "runKubernetesUpgrade K E cluster observation from to = do {
     ok \<leftarrow> dialKubernetesUpgradeClient E observation;
     (case observation of
        Some (endpoint, configuration) \<Rightarrow>
          if ok
          then do {
            err \<leftarrow> cp_rpc E endpoint (CpConfiguration configuration) (CpUpgradeKubernetes from to (controlPlaneEndpointAddress K cluster));
            State_Monad.return (err = None)
          }
          else State_Monad.return False
      | None \<Rightarrow> State_Monad.return False)
   }"

subsection \<open>The reconciliation\<close>

definition upgrade_preflight ::
  "k8s_lib \<Rightarrow> cp_lib \<Rightarrow> cp_env \<Rightarrow> TartControlPlane \<Rightarrow> capi_cluster \<Rightarrow> capi_machine list \<Rightarrow> controlPlaneBootstrapState \<Rightarrow>
   bool \<Rightarrow> int \<Rightarrow> (kubernetesUpgradePreflight \<times> (string \<times> string) option) cp" where
  "upgrade_preflight L K E cp cluster machines boot otherOperationInProgress desiredReplicas =
     (let preflight =
        \<lparr>pf_desiredVersion = ks_version (k_spec cp), pf_observedVersion = kst_observedVersion (k_status cp),
         pf_versionObserved = False, pf_controlPlaneInitialized = bs_initialized boot,
         pf_workloadAPIReady = bs_workloadReady boot, pf_talosReachable = False, pf_etcdQuorumHealthy = False,
         pf_machinesReady = (desiredReplicas > 0 \<and> countMachineCondition L machines (lib_machine_ready L) = desiredReplicas),
         pf_otherOperationInProgress = otherOperationInProgress\<rparr>
      in if \<not> (bs_initialized boot \<and> bs_workloadReady boot) then State_Monad.return (preflight, None)
         else do {
           observation \<leftarrow> observeKubernetesUpgradeTarget L E machines;
           (if observation = None then State_Monad.return (preflight, None)
            else do {
              version \<leftarrow> observeClusterKubernetesVersion K E cluster observation;
              let reached = preflight\<lparr>pf_talosReachable := True, pf_etcdQuorumHealthy := True\<rparr>;
              State_Monad.return
                (case version of
                   None \<Rightarrow> (reached, observation)
                 | Some v \<Rightarrow> (reached\<lparr>pf_observedVersion := v, pf_versionObserved := True\<rparr>, observation))
            })
         })"

definition perform_upgrade ::
  "cp_lib \<Rightarrow> cp_env \<Rightarrow> TartControlPlane \<Rightarrow> capi_cluster \<Rightarrow> (string \<times> string) option \<Rightarrow> string \<Rightarrow>
   controlPlaneKubernetesUpgradeState \<Rightarrow> controlPlaneKubernetesUpgradeState cp" where
  "perform_upgrade K E cp cluster observation observedVersion state = do {
     let desired = ks_version (k_spec cp);
     acquired \<leftarrow> acquireKubernetesUpgradeLease E cp;
     (case acquired of
        Inl LeaseHeld \<Rightarrow> State_Monad.return (state\<lparr>us_active := True, us_requeueAfter := kubernetesUpgradeRequeue,
          us_reason := ''UpgradeInProgressElsewhere'',
          us_message := ''Another controller instance is running the cluster-wide Kubernetes version upgrade.''\<rparr>)
      | Inl (LeaseApi _) \<Rightarrow> State_Monad.return (state\<lparr>us_active := True, us_requeueAfter := kubernetesUpgradeRequeue,
          us_reason := ''UpgradeLeaseUnavailable'', us_message := ''The Kubernetes upgrade lease could not be acquired.''\<rparr>)
      | Inr lease \<Rightarrow> do {
          ok \<leftarrow> runKubernetesUpgrade K E cluster observation observedVersion desired;
          _ \<leftarrow> releaseKubernetesUpgradeLease E lease;
          let done_state = state\<lparr>us_active := True, us_targetVersion := desired, us_requeueAfter := kubernetesUpgradeRequeue\<rparr>;
          State_Monad.return
            (if \<not> ok
             then done_state\<lparr>us_reason := ''UpgradeFailed'',
               us_message := ''The cluster-wide Kubernetes version upgrade did not complete; it will be retried from the observed cluster state.''\<rparr>
             else done_state\<lparr>us_reason := ''Upgrading'',
               us_message := ''The cluster-wide Kubernetes version upgrade completed; waiting for all components to report the desired version.''\<rparr>)
        })
   }"

definition reconcileKubernetesUpgrade ::
  "k8s_lib \<Rightarrow> cp_lib \<Rightarrow> cp_env \<Rightarrow> TartControlPlane \<Rightarrow> capi_cluster \<Rightarrow> capi_machine list \<Rightarrow> controlPlaneBootstrapState \<Rightarrow>
   bool \<Rightarrow> int \<Rightarrow> controlPlaneKubernetesUpgradeState cp" where
  "reconcileKubernetesUpgrade L K E cp cluster machines boot otherOperationInProgress desiredReplicas = do {
     (preflight, observation) \<leftarrow> upgrade_preflight L K E cp cluster machines boot otherOperationInProgress desiredReplicas;
     let desired = ks_version (k_spec cp);
     let decision = evaluateKubernetesUpgrade preflight;
     let state = \<lparr>us_active = False, us_unknown = False, us_reason = ud_reason decision, us_message = ud_message decision,
       us_targetVersion = kst_targetVersion (k_status cp), us_observedVersion = pf_observedVersion preflight, us_requeueAfter = 0\<rparr>;
     (case ud_action decision of
        UpgradeNone \<Rightarrow> State_Monad.return (state\<lparr>us_targetVersion := desired\<rparr>)
      | UpgradeFail \<Rightarrow> State_Monad.return (state\<lparr>us_active := True\<rparr>)
      | UpgradeUnknown \<Rightarrow> State_Monad.return (state\<lparr>us_unknown := True, us_requeueAfter := kubernetesUpgradeRequeue\<rparr>)
      | UpgradeWait \<Rightarrow> State_Monad.return (state\<lparr>us_active := (desired \<noteq> [] \<and> pf_observedVersion preflight \<noteq> [] \<and>
            NormalizeKubernetesVersion (pf_observedVersion preflight) \<noteq> NormalizeKubernetesVersion desired),
          us_requeueAfter := kubernetesUpgradeRequeue\<rparr>)
      | UpgradeUpgrade \<Rightarrow> perform_upgrade K E cp cluster observation (pf_observedVersion preflight) state)
   }"

subsection \<open>When the cluster is upgraded\<close>

lemma upgrade_decided_iff:
  "ud_action (evaluateKubernetesUpgrade p) = UpgradeUpgrade \<longleftrightarrow>
     NormalizeKubernetesVersion (pf_desiredVersion p) \<noteq> [] \<and> NormalizeKubernetesVersion (pf_observedVersion p) \<noteq> [] \<and>
     pf_controlPlaneInitialized p \<and> pf_workloadAPIReady p \<and> pf_talosReachable p \<and> pf_etcdQuorumHealthy p \<and>
     pf_machinesReady p \<and> \<not> pf_otherOperationInProgress p \<and>
     \<not> (pf_versionObserved p \<and> NormalizeKubernetesVersion (pf_observedVersion p) = NormalizeKubernetesVersion (pf_desiredVersion p))"
  by (auto simp: evaluateKubernetesUpgrade_def Let_def)

abbreviation no_upgrade :: "cp_event set" where
  "no_upgrade \<equiv> {e. \<forall>ep au f t c. e \<noteq> CpRpc ep au (CpUpgradeKubernetes f t c)}"

lemma observes_no_upgrade: "{e. cp_observes e} \<subseteq> no_upgrade"
  by auto

lemma emits_dialKubernetesUpgradeClient: "range (\<lambda>(ep, au). CpDial ep au) \<subseteq> S \<Longrightarrow> emits (dialKubernetesUpgradeClient E ob) S"
  unfolding dialKubernetesUpgradeClient_def by (intro emit_rules) auto

lemma emits_observeClusterKubernetesVersion: "emits (observeClusterKubernetesVersion K E cluster ob) {e. cp_observes e}"
  unfolding observeClusterKubernetesVersion_def
  by (intro emit_rules emits_dialKubernetesUpgradeClient) auto

lemma emits_observeKubernetesUpgradeTarget: "emits (observeKubernetesUpgradeTarget L E machines) {e. cp_observes e}"
  unfolding observeKubernetesUpgradeTarget_def by (intro emit_rules)

lemma emits_upgrade_preflight: "emits (upgrade_preflight L K E cp cluster machines boot other n) {e. cp_observes e}"
  unfolding upgrade_preflight_def Let_def
  by (intro emit_rules emits_observeClusterKubernetesVersion emits_observeKubernetesUpgradeTarget)

lemma emits_acquire: "emits (acquireKubernetesUpgradeLease E cp) (range CpLeaseCreate \<union> range CpLeaseUpdate)"
  unfolding acquireKubernetesUpgradeLease_def Let_def by (intro emit_rules) auto

lemma emits_release: "emits (releaseKubernetesUpgradeLease E l) (range CpLeaseUpdate)"
  unfolding releaseKubernetesUpgradeLease_def by (intro emit_rules) auto

text \<open>Every machine is a member of its own, and healthy.\<close>

definition all_members_healthy :: "k8s_lib \<Rightarrow> cp_env \<Rightarrow> capi_machine list \<Rightarrow> string \<Rightarrow> string \<Rightarrow> bool" where
  "all_members_healthy L E machines endpoint configuration \<longleftrightarrow>
     (\<exists>first rest. let obs = first # rest in map eo_machine obs = machines \<and> list_all (member_observed L E) obs \<and>
        distinct (map ob_id obs) \<and> (\<forall>ob \<in> set obs. etcdStatusHealthy (eo_status ob)) \<and>
        endpoint = HostTalosEndpoint (eo_host first) \<and> configuration = eo_config first)"

lemma target_healthy:
  assumes "run_state (observeKubernetesUpgradeTarget L E machines) tr = (Some (ep, c), tr')"
  shows "all_members_healthy L E machines ep c"
proof -
  obtain o1 t1 where o1: "run_state (observeEtcdMachineObservations L E machines) tr = (o1, t1)" by fastforce
  with assms obtain first rest where o: "o1 = Some (first # rest)"
    by (auto simp: observeKubernetesUpgradeTarget_def split: option.splits list.splits)
  obtain tgt h u where sum: "summarize_loop (first # rest) [] None [] 0 = (tgt, h, u)"
    by (cases "summarize_loop (first # rest) [] None [] 0")
  with assms o1 o have u: "u" "h = int (length (first # rest))" "ep = HostTalosEndpoint (eo_host first)" "c = eo_config first"
    by (auto simp: observeKubernetesUpgradeTarget_def summarizeEtcdObservations_def simp del: summarize_loop.simps split: if_splits)
  from summarize_loop_unique[OF sum[unfolded u(1)[THEN eqTrueI]]] u(2)
  have "distinct (map ob_id (first # rest))"
    and count: "length (filter (\<lambda>ob. etcdStatusHealthy (eo_status ob)) (first # rest)) = length (first # rest)" by simp_all
  moreover have "\<forall>ob \<in> set (first # rest). etcdStatusHealthy (eo_status ob)"
    using count by (metis (no_types, lifting) filter_id_conv length_filter_less less_irrefl)
  ultimately show ?thesis
    using observations_observed[OF o1[unfolded o]] u(3,4) unfolding all_members_healthy_def Let_def by blast
qed

lemma preflight_facts:
  assumes "run_state (upgrade_preflight L K E cp cluster machines boot other n) tr = ((p, ob), tr')"
  shows "pf_desiredVersion p = ks_version (k_spec cp) \<and> pf_controlPlaneInitialized p = bs_initialized boot \<and>
      pf_workloadAPIReady p = bs_workloadReady boot \<and> pf_otherOperationInProgress p = other \<and>
      pf_machinesReady p = (n > 0 \<and> countMachineCondition L machines (lib_machine_ready L) = n)"
    and "pf_etcdQuorumHealthy p = pf_talosReachable p"
    and "pf_talosReachable p \<Longrightarrow> \<exists>ep c. ob = Some (ep, c) \<and> all_members_healthy L E machines ep c"
    and "\<not> pf_versionObserved p \<Longrightarrow> pf_observedVersion p = kst_observedVersion (k_status cp)"
proof -
  obtain target t1 where target: "run_state (observeKubernetesUpgradeTarget L E machines) tr = (target, t1)" by fastforce
  obtain v t2 where v: "run_state (observeClusterKubernetesVersion K E cluster target) t1 = (v, t2)" by fastforce
  note facts = assms target v
  show "pf_desiredVersion p = ks_version (k_spec cp) \<and> pf_controlPlaneInitialized p = bs_initialized boot \<and>
      pf_workloadAPIReady p = bs_workloadReady boot \<and> pf_otherOperationInProgress p = other \<and>
      pf_machinesReady p = (n > 0 \<and> countMachineCondition L machines (lib_machine_ready L) = n)"
    and "pf_etcdQuorumHealthy p = pf_talosReachable p"
    and "\<not> pf_versionObserved p \<Longrightarrow> pf_observedVersion p = kst_observedVersion (k_status cp)"
    using facts by (auto simp: upgrade_preflight_def Let_def split: if_splits option.splits)
  assume "pf_talosReachable p"
  with facts have "ob = target" "target \<noteq> None"
    by (auto simp: upgrade_preflight_def Let_def split: if_splits option.splits)
  with target target_healthy show "\<exists>ep c. ob = Some (ep, c) \<and> all_members_healthy L E machines ep c"
    by (cases target) auto
qed

text \<open>The lease was taken: it was free for this process, and the server accepted the write.\<close>

definition lease_taken :: "cp_env \<Rightarrow> TartControlPlane \<Rightarrow> cp_event list \<Rightarrow> cp_event list \<Rightarrow> bool" where
  "lease_taken E cp tr es \<longleftrightarrow>
     (let now = te_now (ce_tm E tr) [];
          found = te_get_lease (ce_tm E tr) [] (mt_namespace (k_meta cp)) (kubernetesUpgradeLeaseName (mt_name (k_meta cp)))
      in (\<exists>l. es = [CpLeaseCreate l] \<and> found = Inl ApiNotFound \<and> ls_holderIdentity l = Some (ce_identity E) \<and>
            ce_write E tr (CpLeaseCreate l) = None) \<or>
         (\<exists>l. es = [CpLeaseUpdate (taken_lease E now l)] \<and> found = Inr l \<and>
            kubernetesUpgradeLeaseAcquirable (Some l) (ce_identity E) now \<and>
            ce_write E tr (CpLeaseUpdate (taken_lease E now l)) = None))"

lemma acquire_taken_lease:
  assumes "run_state (acquireKubernetesUpgradeLease E cp) tr = (Inr lease, tr')"
  obtains es where "tr' = tr @ es" "lease_taken E cp tr es"
  using assms
  by (auto simp: acquireKubernetesUpgradeLease_def cp_get_def cp_write_def lease_taken_def taken_lease_def Let_def
      split: sum.splits if_splits option.splits)

lemma runKubernetesUpgrade_events:
  assumes "run_state (runKubernetesUpgrade K E cluster ob from to) tr = (ok, tr')"
  obtains "tr' = tr" | ep cfg where "ob = Some (ep, cfg)" "tr' = tr @ [CpDial ep (CpConfiguration cfg)]"
  | ep cfg where "ob = Some (ep, cfg)"
      "tr' = tr @ [CpDial ep (CpConfiguration cfg),
         CpRpc ep (CpConfiguration cfg) (CpUpgradeKubernetes from to (controlPlaneEndpointAddress K cluster))]"
  using assms
  by (auto simp: runKubernetesUpgrade_def dialKubernetesUpgradeClient_def cp_dial_def cp_rpc_def
      split: option.splits if_splits)

lemma perform_upgrade_requests:
  assumes run: "run_state (perform_upgrade K E cp cluster ob v state) tr = (st, tr @ new)"
    and request: "CpRpc ep au (CpUpgradeKubernetes f t c) \<in> set new"
  shows "f = v \<and> t = ks_version (k_spec cp) \<and> (\<exists>cfg. ob = Some (ep, cfg) \<and> au = CpConfiguration cfg) \<and>
    (\<exists>es rest. lease_taken E cp tr es \<and> new = es @ rest)"
proof -
  obtain a t1 where a: "run_state (acquireKubernetesUpgradeLease E cp) tr = (a, t1)" by fastforce
  obtain es where es: "t1 = tr @ es" "set es \<subseteq> range CpLeaseCreate \<union> range CpLeaseUpdate"
    using emitsD[OF emits_acquire a] by blast
  have "\<exists>lease. a = Inr lease"
  proof (rule ccontr)
    assume "\<nexists>lease. a = Inr lease"
    with run a have "tr @ new = t1"
      by (cases a) (auto simp: perform_upgrade_def Let_def split: lease_error.splits)
    with es request show False by auto
  qed
  then obtain lease where lease: "a = Inr lease" ..
  obtain ok t2 where u: "run_state (runKubernetesUpgrade K E cluster ob v (ks_version (k_spec cp))) t1 = (ok, t2)" by fastforce
  obtain x t3 where rel: "run_state (releaseKubernetesUpgradeLease E lease) t2 = (x, t3)" by (rule prod.exhaust)
  obtain es3 where es3: "t3 = t2 @ es3" "set es3 \<subseteq> range CpLeaseUpdate" using emitsD[OF emits_release rel] by blast
  have t3: "tr @ new = t3" using run a lease u rel by (simp add: perform_upgrade_def Let_def)
  from u show ?thesis
  proof (cases rule: runKubernetesUpgrade_events)
    case (3 ep' cfg)
    with t3 es es3 request have "ep' = ep" "au = CpConfiguration cfg" "f = v" "t = ks_version (k_spec cp)" by auto
    moreover obtain es' where "t1 = tr @ es'" "lease_taken E cp tr es'" using acquire_taken_lease[OF a[unfolded lease]] .
    ultimately show ?thesis using t3 3 es es3 by auto
  qed (use t3 es es3 request in auto)
qed

lemma upgrade_justified_by_pass:
  assumes run: "run_state (reconcileKubernetesUpgrade L K E cp cluster machines boot other n) tr = (st, tr @ new)"
    and request: "CpRpc ep au (CpUpgradeKubernetes f t c) \<in> set new"
  shows "bs_initialized boot \<and> bs_workloadReady boot \<and> \<not> other \<and> 0 < n \<and>
    countMachineCondition L machines (lib_machine_ready L) = n \<and> t = ks_version (k_spec cp) \<and>
    NormalizeKubernetesVersion f \<noteq> [] \<and>
    (\<exists>cfg. au = CpConfiguration cfg \<and> all_members_healthy L E machines ep cfg) \<and>
    (\<exists>seen es rest. new = seen @ es @ rest \<and> lease_taken E cp (tr @ seen) es \<and> list_all cp_observes seen)"
proof -
  obtain p ob t1 where p: "run_state (upgrade_preflight L K E cp cluster machines boot other n) tr = ((p, ob), t1)"
    by (metis surj_pair)
  obtain seen where seen: "t1 = tr @ seen" "set seen \<subseteq> {e. cp_observes e}" using emitsD[OF emits_upgrade_preflight p] by blast
  note facts = preflight_facts[OF p]
  let ?d = "evaluateKubernetesUpgrade p"
  let ?state = "\<lparr>us_active = False, us_unknown = False, us_reason = ud_reason ?d, us_message = ud_message ?d,
       us_targetVersion = kst_targetVersion (k_status cp), us_observedVersion = pf_observedVersion p, us_requeueAfter = 0\<rparr>"
  have act: "ud_action ?d = UpgradeUpgrade"
  proof (rule ccontr)
    assume "ud_action ?d \<noteq> UpgradeUpgrade"
    with run p have "tr @ new = t1"
      by (cases "ud_action ?d") (simp_all add: reconcileKubernetesUpgrade_def Let_def)
    with seen request show False by auto
  qed
  with run p have run': "run_state (perform_upgrade K E cp cluster ob (pf_observedVersion p) ?state) t1 = (st, tr @ new)"
    by (simp add: reconcileKubernetesUpgrade_def Let_def)
  obtain new2 where new2: "new = seen @ new2"
  proof -
    have "emits (perform_upgrade K E cp cluster ob (pf_observedVersion p) ?state) UNIV"
      by (auto simp: perform_upgrade_def Let_def runKubernetesUpgrade_def dialKubernetesUpgradeClient_def
          intro!: emit_rules emits_mono[OF emits_acquire] emits_mono[OF emits_release] split: lease_error.splits)
    from emitsD[OF this run'] seen show thesis using that by auto
  qed
  with run' seen request have "run_state (perform_upgrade K E cp cluster ob (pf_observedVersion p) ?state) (tr @ seen) =
      (st, (tr @ seen) @ new2)" "CpRpc ep au (CpUpgradeKubernetes f t c) \<in> set new2" by auto
  note req = perform_upgrade_requests[OF this]
  then show ?thesis
    using act[unfolded upgrade_decided_iff] facts(1,3) new2 seen(2) by (fastforce simp: list_all_iff)
qed

text \<open>Two controllers never hold the lease at once: while it is held and not expired, another
  identity is refused, and a renewal does not take over what another one holds.\<close>

lemma lease_refused:
  assumes "te_get_lease (ce_tm E tr) [] (mt_namespace (k_meta cp)) (kubernetesUpgradeLeaseName (mt_name (k_meta cp))) =
      Inr (taken_lease E' t l)"
    and "ce_identity E' \<noteq> []" "ce_identity E \<noteq> ce_identity E'" "te_now (ce_tm E tr) [] < t + 5 * minute"
  shows "run_state (acquireKubernetesUpgradeLease E cp) tr = (Inl LeaseHeld, tr)"
  using assms
  by (simp add: acquireKubernetesUpgradeLease_def cp_get_def kubernetesUpgradeLeaseAcquirable_def taken_lease_def
      kubernetesUpgradeLeaseDuration_def minute_def second_def Let_def)

lemma renew_keeps_holder:
  assumes "run_state (renew_round E lease) tr = (r, tr @ new)" "CpLeaseUpdate l \<in> set new"
  shows "r \<and> (\<exists>current. te_get_lease (ce_tm E tr) [] (ls_namespace lease) (ls_name lease) = Inr current \<and>
    ls_holderIdentity current = Some (ce_identity E) \<and> l = current\<lparr>ls_renewTime := Some (te_now (ce_tm E tr) [])\<rparr>)"
  using assms by (auto simp: renew_round_def cp_get_def cp_write_def split: sum.splits if_splits)

end
