(* ===== verification/ControlPlane.thy ===== *)
theory ControlPlane
  imports ControlPlaneMachines KubernetesUpgrade CARotation
begin

section \<open>The reconciliation of a TartControlPlane\<close>

text \<open>
  \<open>controller/tartcontrolplane/{status,reconciler}.go\<close>: one pass creates and deletes machines,
  bootstraps etcd, rotates the CAs, upgrades Kubernetes and reports. The second half states
  what a report means, and that a pass runs at most one of the disruptive operations.
\<close>

subsection \<open>The status\<close>

definition conditionStatus :: "bool \<Rightarrow> condition_status" where
  "conditionStatus v = (if v then ConditionTrue else ConditionFalse)"

definition scalingReason :: "bool \<Rightarrow> string \<Rightarrow> string" where
  "scalingReason v activeReason = (if v then activeReason else ''NotScaling'')"

definition scalingMessage :: "bool \<Rightarrow> string \<Rightarrow> string \<Rightarrow> string" where
  "scalingMessage v activeMessage inactiveMessage = (if v then activeMessage else inactiveMessage)"

definition machineReadinessReason :: "bool \<Rightarrow> string" where
  "machineReadinessReason ready = (if ready then ''MachinesReady'' else ''MachinesNotReady'')"

definition machineReadinessMessage :: "bool \<Rightarrow> string" where
  "machineReadinessMessage ready =
     (if ready then ''All desired control-plane Machines report Ready.'' else ''Not all desired control-plane Machines report Ready.'')"

definition machineUpToDateReason :: "bool \<Rightarrow> string" where
  "machineUpToDateReason upToDate = (if upToDate then ''MachinesUpToDate'' else ''MachinesNotUpToDate'')"

definition machineUpToDateMessage :: "bool \<Rightarrow> string" where
  "machineUpToDateMessage upToDate =
     (if upToDate then ''All desired control-plane Machines report UpToDate.''
      else ''Not all desired control-plane Machines report UpToDate.'')"

definition machineVersions :: "capi_machine list \<Rightarrow> (string \<times> int) list" where
  "machineVersions machines =
     (let reported = filter (\<lambda>v. v \<noteq> []) (map cm_kubeletVersion machines)
      in map (\<lambda>v. (v, int (count_list reported v))) (sort (remdups reported)))"

text \<open>A condition of the control plane.\<close>

definition set_cp :: "k8s_lib \<Rightarrow> time \<Rightarrow> string \<Rightarrow> condition_status \<Rightarrow> string \<Rightarrow> string \<Rightarrow> TartControlPlane \<Rightarrow> TartControlPlane" where
  "set_cp L now t status reason message cp =
     cp\<lparr>k_status := (k_status cp)\<lparr>kst_conditions :=
       SetCondition L now (kst_conditions (k_status cp)) t status reason message (mt_generation (k_meta cp))\<rparr>\<rparr>"

definition set_cp_paused :: "k8s_lib \<Rightarrow> time \<Rightarrow> bool \<Rightarrow> TartControlPlane \<Rightarrow> TartControlPlane" where
  "set_cp_paused L now paused cp =
     cp\<lparr>k_status := (k_status cp)\<lparr>kst_conditions :=
       SetPausedCondition L now (kst_conditions (k_status cp)) paused (mt_generation (k_meta cp))\<rparr>\<rparr>"

definition observe_generation :: "TartControlPlane \<Rightarrow> TartControlPlane" where
  "observe_generation cp = cp\<lparr>k_status := (k_status cp)\<lparr>kst_observedGeneration := mt_generation (k_meta cp)\<rparr>\<rparr>"

text \<open>The counters of the status.\<close>

definition set_cp_counters ::
  "k8s_lib \<Rightarrow> cp_lib \<Rightarrow> string \<Rightarrow> capi_machine list \<Rightarrow> bool \<Rightarrow> TartControlPlane \<Rightarrow> TartControlPlane" where
  "set_cp_counters L K clusterName machines initialized cp =
     cp\<lparr>k_status := (k_status cp)\<lparr>
       kst_selector := kp_selector_string K [(lib_cluster_name_label L, clusterName), (kp_control_plane_name_label K, mt_name (k_meta cp))],
       kst_replicas := Some (int (length machines)),
       kst_readyReplicas := Some (countMachineCondition L machines (lib_machine_ready L)),
       kst_availableReplicas := Some (countMachineCondition L machines (kp_machine_available K)),
       kst_upToDateReplicas := Some (countMachineCondition L machines (kp_machine_up_to_date K)),
       kst_versions := machineVersions machines,
       kst_controlPlaneInitialized :=
         (if initialized then Some True
          else case kst_controlPlaneInitialized (k_status cp) of None \<Rightarrow> Some False | Some b \<Rightarrow> Some b)\<rparr>\<rparr>"

definition kubernetes_up_to_date :: "TartControlPlane \<Rightarrow> controlPlaneKubernetesUpgradeState \<Rightarrow> bool" where
  "kubernetes_up_to_date cp up \<longleftrightarrow>
     \<not> us_unknown up \<and> NormalizeKubernetesVersion (us_observedVersion up) = NormalizeKubernetesVersion (ks_version (k_spec cp))"

definition available_report :: "bool \<Rightarrow> bool \<Rightarrow> string \<times> string" where
  "available_report workloadReady controlPlaneReady =
     (if \<not> workloadReady then (ReasonWorkloadAPIUnavailable, ''The workload Kubernetes API is not available yet.'')
      else if controlPlaneReady
      then (''Available'', ''All desired control-plane Machines and the workload Kubernetes API are available.'')
      else (''MachinesNotAvailable'', ''Not all desired control-plane Machines are available.''))"

definition up_to_date_report :: "bool \<Rightarrow> bool \<Rightarrow> bool \<Rightarrow> bool \<Rightarrow> string \<times> string" where
  "up_to_date_report workloadReady kubernetesUpToDate active upToDateReady =
     (if \<not> workloadReady then (ReasonWorkloadAPIUnavailable, ''The workload Kubernetes API is not ready yet.'')
      else if \<not> kubernetesUpToDate \<or> active
      then (''KubernetesVersionNotUpToDate'', ''The cluster has not converged to the desired Kubernetes version yet.'')
      else if upToDateReady
      then (''UpToDate'', ''All desired control-plane Machines and the workload Kubernetes API are up to date.'')
      else (''MachinesNotUpToDate'', ''Not all desired control-plane Machines report UpToDate.''))"

definition setControlPlaneStatus ::
  "k8s_lib \<Rightarrow> cp_lib \<Rightarrow> time \<Rightarrow> string \<Rightarrow> int \<Rightarrow> capi_machine list \<Rightarrow> controlPlaneBootstrapState \<Rightarrow>
   controlPlaneCARotationState \<Rightarrow> controlPlaneKubernetesUpgradeState \<Rightarrow> TartControlPlane \<Rightarrow> TartControlPlane" where
  "setControlPlaneStatus L K now clusterName desired machines boot rot up cp0 =
     (let actual = int (length machines);
          ready = countMachineCondition L machines (lib_machine_ready L);
          upToDate = countMachineCondition L machines (kp_machine_up_to_date K);
          cp1 = set_cp_counters L K clusterName machines (bs_initialized boot) cp0;
          controlPlaneReady = (bs_workloadReady boot \<and> desired > 0 \<and> ready = desired);
          available = available_report (bs_workloadReady boot) controlPlaneReady;
          cp2 = set_cp L now ''Available'' (conditionStatus controlPlaneReady) (fst available) (snd available) cp1;
          kubernetesUpToDate = kubernetes_up_to_date cp0 up;
          upToDateReady = (controlPlaneReady \<and> desired > 0 \<and> upToDate = desired \<and> kubernetesUpToDate \<and> \<not> us_active up);
          upToDateReport = up_to_date_report (bs_workloadReady boot) kubernetesUpToDate (us_active up) upToDateReady;
          cp3 = set_cp L now ''UpToDate'' (conditionStatus upToDateReady) (fst upToDateReport) (snd upToDateReport) cp2;
          cp4 = set_cp L now ''RollingOut'' ConditionFalse ''NotRollingOut'' ''The control plane is not performing a rollout.'' cp3;
          cp5 = set_cp L now ''ScalingUp'' (conditionStatus (actual < desired)) (scalingReason (actual < desired) ''ScalingUp'')
            (scalingMessage (actual < desired) ''Control-plane Machines are being created.''
              ''The desired control-plane replica count is satisfied.'') cp4;
          cp6 = set_cp L now ''ScalingDown'' (conditionStatus (actual > desired)) (scalingReason (actual > desired) ''ScalingDown'')
            (scalingMessage (actual > desired) ''Control-plane scale-down is waiting for quorum-safe etcd member removal.''
              ''The desired control-plane replica count is not above the observed count.'') cp5;
          allReady = (desired > 0 \<and> ready = desired);
          allUpToDate = (desired > 0 \<and> upToDate = desired);
          cp7 = set_cp L now ''MachinesReady'' (conditionStatus allReady) (machineReadinessReason allReady) (machineReadinessMessage allReady) cp6;
          cp8 = set_cp L now ''MachinesUpToDate'' (conditionStatus allUpToDate) (machineUpToDateReason allUpToDate) (machineUpToDateMessage allUpToDate) cp7;
          cp9 = set_cp L now ''EtcdClusterAvailable'' (conditionStatus (bs_etcdReady boot)) (bs_reason boot) (bs_message boot) cp8;
          cp10 = set_cp L now ''CARotating'' (conditionStatus (rot_active rot)) (rot_reason rot) (rot_message rot) cp9;
          cp11 = cp10\<lparr>k_status := (k_status cp10)\<lparr>kst_targetVersion := us_targetVersion up, kst_observedVersion := us_observedVersion up\<rparr>\<rparr>;
          cp12 = set_cp L now ''KubernetesUpgrading'' (if us_unknown up then ConditionUnknown else conditionStatus (us_active up))
            (us_reason up) (us_message up) cp11;
          cp13 = set_cp L now ''Deleting'' ConditionFalse ''NotDeleting'' ''The control plane is not being deleted.'' cp12
      in observe_generation (set_cp_paused L now False cp13))"

definition setControlPlaneEndpointStatus :: "k8s_lib \<Rightarrow> time \<Rightarrow> bool \<Rightarrow> string \<Rightarrow> string \<Rightarrow> TartControlPlane \<Rightarrow> TartControlPlane" where
  "setControlPlaneEndpointStatus L now converged reason message cp =
     set_cp L now ''ControlPlaneEndpointConverged'' (conditionStatus converged) reason message cp"

subsection \<open>The parts of a pass\<close>

text \<open>A result is the delay after which to reconcile again (0: none), or an error.\<close>

definition patch_control_plane :: "cp_env \<Rightarrow> TartControlPlane \<Rightarrow> duration \<Rightarrow> (cp_error + duration) cp" where
  "patch_control_plane E cp after = do {
     err \<leftarrow> cp_write E (CpStatusPatch cp);
     State_Monad.return (case err of Some e \<Rightarrow> Inl (CpApi e) | None \<Rightarrow> Inr after)
   }"

definition reconcilePaused :: "k8s_lib \<Rightarrow> cp_env \<Rightarrow> TartControlPlane \<Rightarrow> (cp_error + duration) cp" where
  "reconcilePaused L E cp = do {
     now \<leftarrow> cp_get E (\<lambda>T. te_now T []);
     patch_control_plane E (set_cp_paused L now True cp) 0
   }"

definition reconcileDeleting :: "k8s_lib \<Rightarrow> cp_env \<Rightarrow> TartControlPlane \<Rightarrow> (cp_error + duration) cp" where
  "reconcileDeleting L E cp = do {
     now \<leftarrow> cp_get E (\<lambda>T. te_now T []);
     let cp1 = set_cp L now ''Deleting'' ConditionTrue ''Deleting''
       ''The control plane is being deleted; no new Machine or Host allocation is started.'' cp;
     let cp2 = set_cp L now ''Available'' ConditionFalse ''Deleting'' ''The control plane is being deleted.'' cp1;
     patch_control_plane E (observe_generation (set_cp_paused L now False cp2)) 0
   }"

definition failure_of :: "cp_error \<Rightarrow> string \<times> string" where
  "failure_of e =
     (case e of
        CpFailure reason message \<Rightarrow> (reason, message)
      | CpOwnership f \<Rightarrow> (of_reason f, of_message f)
      | _ \<Rightarrow> (''ReconcileFailed'', ''The control plane cannot proceed until its dependencies are available.''))"

definition reportFailure :: "k8s_lib \<Rightarrow> cp_env \<Rightarrow> TartControlPlane \<Rightarrow> cp_error \<Rightarrow> (cp_error + duration) cp" where
  "reportFailure L E cp failure = do {
     now \<leftarrow> cp_get E (\<lambda>T. te_now T []);
     let failed = set_cp L now ''Available'' ConditionFalse (fst (failure_of failure)) (snd (failure_of failure)) cp;
     patch_control_plane E (observe_generation (set_cp_paused L now False failed)) 0
   }"

definition controlPlaneClusterName :: "k8s_lib \<Rightarrow> TartControlPlane \<Rightarrow> cp_error + string" where
  "controlPlaneClusterName L cp =
     (let name = map_get (mt_labels (k_meta cp)) (lib_cluster_name_label L)
      in if name \<noteq> [] then Inr name
         else case find (\<lambda>o'. own_apiVersion o' = lib_capi_group_version L \<and> own_kind o' = ''Cluster'' \<and> own_name o' \<noteq> []) (mt_owners (k_meta cp)) of
                Some owner \<Rightarrow> Inr (own_name owner)
              | None \<Rightarrow> Inl (CpFailure ReasonClusterUnavailable ''The TartControlPlane has no reference to a CAPI Cluster.''))"

definition desiredControlPlaneReplicas :: "TartControlPlane \<Rightarrow> cp_error + int" where
  "desiredControlPlaneReplicas cp =
     (case ks_replicas (k_spec cp) of
        None \<Rightarrow> Inr 1
      | Some n \<Rightarrow>
          if n < 1
          then Inl (CpFailure ''InvalidSpec'' ''The control-plane replica count must be at least one to preserve an etcd member.'')
          else Inr n)"

definition getTartCluster :: "cp_env \<Rightarrow> capi_cluster \<Rightarrow> (cp_error + TartCluster) cp" where
  "getTartCluster E cluster =
     (let ref = cl_infrastructureRef cluster
      in if cr_apiGroup ref \<noteq> infra_group \<or> cr_kind ref \<noteq> TartClusterKind \<or> cr_name ref = []
         then State_Monad.return (Inl (CpFailure ReasonClusterUnavailable
           ''The CAPI Cluster does not reference a TartCluster infrastructure resource.''))
         else do {
           found \<leftarrow> cp_get E (\<lambda>T. te_get_tart_cluster T [] (mt_namespace (cl_meta cluster)) (cr_name ref));
           State_Monad.return
             (case found of
                Inl e \<Rightarrow> Inl (if e = ApiNotFound
                  then CpFailure ReasonClusterUnavailable ''The referenced TartCluster is not available yet.'' else CpApi e)
              | Inr tart \<Rightarrow>
                  if ClusterID_IsZero (cs_clusterID (tc_spec tart)) \<or> cst_activeSecretGeneration (tc_status tart) < 1
                  then Inl (CpFailure ReasonSecretBundleUnavailable ''The TartCluster identity and active secret bundle are not ready yet.'')
                  else Inr tart)
         })"

definition validateActiveBundle :: "k8s_lib \<Rightarrow> cp_env \<Rightarrow> TartCluster \<Rightarrow> cp_error option cp" where
  "validateActiveBundle L E cluster =
     (let generation = cst_activeSecretGeneration (tc_status cluster);
          m = tc_meta cluster; clusterID = cs_clusterID (tc_spec cluster);
          failure = (\<lambda>message. Some (CpFailure ReasonSecretBundleUnavailable message))
      in case BundleName L (mt_name m) clusterID generation of
           Inl _ \<Rightarrow> State_Monad.return (failure ''The active cluster secret bundle identity is invalid.'')
         | Inr name \<Rightarrow> do {
             found \<leftarrow> cp_get E (\<lambda>T. te_get_secret T [] (mt_namespace m) name);
             (case found of
                Inl e \<Rightarrow> State_Monad.return
                  (if e = ApiNotFound then failure ''The active cluster secret bundle is not available yet.'' else Some (CpApi e))
              | Inr secret \<Rightarrow>
                  if ValidateBundleSecretContract L (Some secret) (mt_namespace m) (mt_name m) clusterID generation BundleStateActive (mt_uid m) \<noteq> None
                  then State_Monad.return (failure ''The active cluster secret bundle does not satisfy its identity contract.'')
                  else do {
                    decoded \<leftarrow> cp_get E (\<lambda>T. DecodeBundleData (te_decode_bundle T) (te_bundle_valid T) (sec_data secret) clusterID);
                    State_Monad.return (if decoded = None then failure ''The active cluster secret bundle data is invalid.'' else None)
                  })
           })"

definition enqueueAllControlPlanes :: "cp_env \<Rightarrow> (string \<times> string) list cp" where
  "enqueueAllControlPlanes E = do {
     listed \<leftarrow> query (\<lambda>tr. ce_list_control_planes E tr);
     State_Monad.return (case listed of Inl _ \<Rightarrow> [] | Inr cps \<Rightarrow> map (\<lambda>cp. (mt_namespace (k_meta cp), mt_name (k_meta cp))) cps)
   }"

text \<open>The shortest of the positive delays.\<close>

definition control_plane_requeue ::
  "controlPlaneBootstrapState \<Rightarrow> controlPlaneCARotationState \<Rightarrow> controlPlaneKubernetesUpgradeState \<Rightarrow> bool \<Rightarrow> duration" where
  "control_plane_requeue boot rot up scaleDownPending =
     (let shorter = (\<lambda>after r. if after > 0 \<and> (r = 0 \<or> after < r) then after else r);
          r = shorter (us_requeueAfter up) (shorter (rot_requeueAfter rot) (bs_requeueAfter boot))
      in if scaleDownPending \<and> r = 0 then controlPlaneScaleDownRequeue else r)"

subsection \<open>The pass\<close>

text \<open>After the machines: the bootstrap, the CA rotation, the upgrade and the status.\<close>

definition control_plane_operations ::
  "k8s_lib \<Rightarrow> cp_lib \<Rightarrow> 'p ca_lib \<Rightarrow> cp_env \<Rightarrow> TartControlPlane \<Rightarrow> string \<Rightarrow> capi_cluster \<Rightarrow> TartCluster \<Rightarrow> int \<Rightarrow>
   capi_machine list \<Rightarrow> bool \<Rightarrow> (cp_error + duration) cp" where
  "control_plane_operations L K C E cp clusterName cluster tart desired machines scaleDownPending = do {
     (boot, berr) \<leftarrow> reconcileControlPlaneBootstrap L K E cp cluster machines;
     (case berr of
        Some e \<Rightarrow> State_Monad.return (Inl e)
      | None \<Rightarrow> do {
          (rot, rerr) \<leftarrow> reconcileCARotation L C E tart scaleDownPending;
          (case rerr of
             Some e \<Rightarrow> State_Monad.return (Inl e)
           | None \<Rightarrow> do {
               up \<leftarrow> reconcileKubernetesUpgrade L K E cp cluster machines boot (rot_active rot \<or> scaleDownPending) desired;
               now \<leftarrow> cp_get E (\<lambda>T. te_now T []);
               (converged, reason, message) \<leftarrow> controlPlaneEndpointConverged L K E cluster machines;
               patch_control_plane E
                 (setControlPlaneEndpointStatus L now converged reason message
                   (setControlPlaneStatus L K now clusterName desired machines boot rot up cp))
                 (control_plane_requeue boot rot up scaleDownPending)
             })
        })
   }"

text \<open>\<open>errors.Is(err, errControlPlaneScaleDownPending)\<close>.\<close>

definition scale_down_pending :: "cp_error \<Rightarrow> bool" where
  "scale_down_pending e = (case e of CpScaleDownPending \<Rightarrow> True | CpPending _ _ \<Rightarrow> True | _ \<Rightarrow> False)"

definition control_plane_machines ::
  "k8s_lib \<Rightarrow> cp_lib \<Rightarrow> 'p ca_lib \<Rightarrow> cp_env \<Rightarrow> TartControlPlane \<Rightarrow> string \<Rightarrow> capi_cluster \<Rightarrow> TartCluster \<Rightarrow> int \<Rightarrow>
   TartMachineTemplate \<Rightarrow> TartBootstrapConfigTemplate \<Rightarrow> (cp_error + duration) cp" where
  "control_plane_machines L K C E cp clusterName cluster tart desired machineTemplate bootstrapTemplate = do {
     ensured \<leftarrow> ensureMachines L K E cp clusterName desired (cst_failureDomains (tc_status tart)) machineTemplate bootstrapTemplate;
     (let failed = (\<lambda>e. case e of CpFailure _ _ \<Rightarrow> reportFailure L E cp e | _ \<Rightarrow> State_Monad.return (Inl e))
      in case ensured of
           Inl e \<Rightarrow> failed e
         | Inr (machines, err) \<Rightarrow>
             (case err of
                None \<Rightarrow> control_plane_operations L K C E cp clusterName cluster tart desired machines False
              | Some e \<Rightarrow>
                  if scale_down_pending e then control_plane_operations L K C E cp clusterName cluster tart desired machines True
                  else failed e))
   }"

definition control_plane_templates ::
  "k8s_lib \<Rightarrow> cp_lib \<Rightarrow> 'p ca_lib \<Rightarrow> cp_env \<Rightarrow> TartControlPlane \<Rightarrow> string \<Rightarrow> capi_cluster \<Rightarrow> TartCluster \<Rightarrow> int \<Rightarrow>
   (cp_error + duration) cp" where
  "control_plane_templates L K C E cp clusterName cluster tart desired = do {
     mt \<leftarrow> getTartMachineTemplate E (mt_namespace (k_meta cp)) (kmt_infrastructureRef (ks_machineTemplate (k_spec cp)));
     (case mt of
        Inl e \<Rightarrow> reportFailure L E cp e
      | Inr machineTemplate \<Rightarrow> do {
          bt \<leftarrow> getBootstrapTemplate E (mt_namespace (k_meta cp)) (ks_bootstrapConfigTemplateRef (k_spec cp));
          (case bt of
             Inl e \<Rightarrow> reportFailure L E cp e
           | Inr bootstrapTemplate \<Rightarrow>
               control_plane_machines L K C E cp clusterName cluster tart desired machineTemplate bootstrapTemplate)
        })
   }"

definition reconcile_active ::
  "k8s_lib \<Rightarrow> cp_lib \<Rightarrow> 'p ca_lib \<Rightarrow> cp_env \<Rightarrow> TartControlPlane \<Rightarrow> (cp_error + duration) cp" where
  "reconcile_active L K C E cp =
     (case controlPlaneClusterName L cp of
        Inl e \<Rightarrow> reportFailure L E cp e
      | Inr clusterName \<Rightarrow>
          if ks_version (k_spec cp) = []
          then reportFailure L E cp (CpFailure ''InvalidSpec''
            ''The Kubernetes version is required before control-plane Machines can be created.'')
          else (case desiredControlPlaneReplicas cp of
            Inl e \<Rightarrow> reportFailure L E cp e
          | Inr desired \<Rightarrow> do {
              found \<leftarrow> cp_get E (\<lambda>T. te_get_cluster T [] (mt_namespace (k_meta cp)) clusterName);
              (case found of
                 Inl e \<Rightarrow>
                   if e = ApiNotFound
                   then reportFailure L E cp (CpFailure ReasonClusterUnavailable ''The referenced CAPI Cluster is not available yet.'')
                   else State_Monad.return (Inl (CpApi e))
               | Inr cluster \<Rightarrow> do {
                   gotTart \<leftarrow> getTartCluster E cluster;
                   (case gotTart of
                      Inl e \<Rightarrow> reportFailure L E cp e
                    | Inr tart \<Rightarrow> do {
                        berr \<leftarrow> validateActiveBundle L E tart;
                        (case berr of
                           Some e \<Rightarrow> reportFailure L E cp e
                         | None \<Rightarrow> control_plane_templates L K C E cp clusterName cluster tart desired)
                      })
                 })
            }))"

definition Reconcile_TartControlPlane ::
  "k8s_lib \<Rightarrow> cp_lib \<Rightarrow> 'p ca_lib \<Rightarrow> cp_env \<Rightarrow> string \<Rightarrow> string \<Rightarrow> (cp_error + duration) cp" where
  "Reconcile_TartControlPlane L K C E namespace name = do {
     found \<leftarrow> query (\<lambda>tr. ce_get_control_plane E tr namespace name);
     (case found of
        Inl e \<Rightarrow> State_Monad.return (if e = ApiNotFound then Inr 0 else Inl (CpApi e))
      | Inr cp \<Rightarrow>
          if IsPaused L (k_meta cp) then reconcilePaused L E cp
          else if mt_deletionTimestamp (k_meta cp) \<noteq> None then reconcileDeleting L E cp
          else reconcile_active L K C E cp)
   }"

subsection \<open>What the status says\<close>

definition cp_condition :: "k8s_lib \<Rightarrow> TartControlPlane \<Rightarrow> string \<Rightarrow> condition option" where
  "cp_condition L cp t = lib_find_condition L (kst_conditions (k_status cp)) t"

definition cp_true :: "k8s_lib \<Rightarrow> TartControlPlane \<Rightarrow> string \<Rightarrow> bool" where
  "cp_true L cp t \<longleftrightarrow> (\<exists>c. cp_condition L cp t = Some c \<and> cond_status c = ConditionTrue)"

lemma conditionStatus_True [simp]: "conditionStatus b = ConditionTrue \<longleftrightarrow> b"
  by (simp add: conditionStatus_def)

lemma cp_true_set_cp:
  assumes "conditions_law L"
  shows "cp_true L (set_cp L now t' st r m cp) t \<longleftrightarrow> (if t = t' then st = ConditionTrue else cp_true L cp t)"
  using assms by (auto simp: cp_true_def cp_condition_def set_cp_def find_SetCondition)

lemma cp_true_paused:
  assumes "conditions_law L" "t \<noteq> ''Paused''"
  shows "cp_true L (set_cp_paused L now p cp) t \<longleftrightarrow> cp_true L cp t"
  using assms by (auto simp: cp_true_def cp_condition_def set_cp_paused_def SetPausedCondition_def find_SetCondition)

lemma cp_true_kept [simp]:
  "cp_true L (observe_generation cp) t = cp_true L cp t"
  "cp_true L (set_cp_counters L K n ms b cp) t = cp_true L cp t"
  "cp_true L (cp\<lparr>k_status := (k_status cp)\<lparr>kst_targetVersion := a, kst_observedVersion := v\<rparr>\<rparr>) t = cp_true L cp t"
  by (simp_all add: cp_true_def cp_condition_def observe_generation_def set_cp_counters_def)

lemma set_cp_keeps:
  "k_spec (set_cp L now t st r m cp) = k_spec cp" "k_meta (set_cp L now t st r m cp) = k_meta cp"
  "kst_controlPlaneInitialized (k_status (set_cp L now t st r m cp)) = kst_controlPlaneInitialized (k_status cp)"
  by (simp_all add: set_cp_def)

definition reported_status ::
  "k8s_lib \<Rightarrow> cp_lib \<Rightarrow> int \<Rightarrow> capi_machine list \<Rightarrow> controlPlaneBootstrapState \<Rightarrow> controlPlaneCARotationState \<Rightarrow>
   controlPlaneKubernetesUpgradeState \<Rightarrow> TartControlPlane \<Rightarrow> TartControlPlane \<Rightarrow> bool" where
  "reported_status L K desired machines boot rot up cp cp' \<longleftrightarrow>
     (let ready = countMachineCondition L machines (lib_machine_ready L);
          upToDate = countMachineCondition L machines (kp_machine_up_to_date K)
      in (cp_true L cp' ''Available'' \<longleftrightarrow> bs_workloadReady boot \<and> 0 < desired \<and> ready = desired) \<and>
         (cp_true L cp' ''UpToDate'' \<longleftrightarrow> cp_true L cp' ''Available'' \<and> upToDate = desired \<and> \<not> us_active up \<and> \<not> us_unknown up \<and>
            NormalizeKubernetesVersion (us_observedVersion up) = NormalizeKubernetesVersion (ks_version (k_spec cp))) \<and>
         (cp_true L cp' ''KubernetesUpgrading'' \<longleftrightarrow> us_active up \<and> \<not> us_unknown up) \<and>
         (cp_true L cp' ''ScalingDown'' \<longleftrightarrow> desired < int (length machines)) \<and>
         (cp_true L cp' ''EtcdClusterAvailable'' \<longleftrightarrow> bs_etcdReady boot) \<and>
         (cp_true L cp' ''CARotating'' \<longleftrightarrow> rot_active rot) \<and>
         \<not> cp_true L cp' ''Deleting'')"

lemma setControlPlaneStatus_conditions:
  assumes "conditions_law L"
  shows "reported_status L K desired machines boot rot up cp (setControlPlaneStatus L K now c desired machines boot rot up cp)"
  unfolding reported_status_def setControlPlaneStatus_def Let_def
  by (auto simp: cp_true_set_cp[OF assms] cp_true_paused[OF assms] kubernetes_up_to_date_def)

lemma setControlPlaneStatus_initialized:
  "kst_controlPlaneInitialized (k_status (setControlPlaneStatus L K now c desired machines boot rot up cp)) =
     (if bs_initialized boot then Some True
      else case kst_controlPlaneInitialized (k_status cp) of None \<Rightarrow> Some False | Some b \<Rightarrow> Some b)"
  by (simp add: setControlPlaneStatus_def Let_def set_cp_keeps set_cp_counters_def observe_generation_def set_cp_paused_def)

lemma setEndpointStatus_initialized:
  "kst_controlPlaneInitialized (k_status (setControlPlaneEndpointStatus L now b r m cp)) = kst_controlPlaneInitialized (k_status cp)"
  by (simp add: setControlPlaneEndpointStatus_def set_cp_keeps)

lemma control_plane_requeue_shortest:
  fixes boot rot up scaleDownPending
  defines "asked \<equiv> {bs_requeueAfter boot, rot_requeueAfter rot, us_requeueAfter up}"
  assumes "\<forall>d \<in> asked. 0 \<le> d"
  shows "control_plane_requeue boot rot up scaleDownPending =
    (if \<exists>d \<in> asked. 0 < d then Min {d \<in> asked. 0 < d} else if scaleDownPending then 30 * second else 0)"
proof -
  have e: "{d \<in> asked. 0 < d} = (if 0 < bs_requeueAfter boot then {bs_requeueAfter boot} else {}) \<union>
      (if 0 < rot_requeueAfter rot then {rot_requeueAfter rot} else {}) \<union> (if 0 < us_requeueAfter up then {us_requeueAfter up} else {})"
    by (auto simp: asked_def)
  show ?thesis using assms(2) unfolding e
    by (auto simp: control_plane_requeue_def Let_def asked_def controlPlaneScaleDownRequeue_def min_def)
qed

subsection \<open>One operation in a pass\<close>

text \<open>What a rotation does to a node, it reports as active.\<close>

definition node_edit :: "cp_event \<Rightarrow> bool" where
  "node_edit e \<longleftrightarrow> (\<exists>ep au. e = CpRpc ep au CpReboot) \<or> (\<exists>ep au c. e = CpRpc ep au (CpApplyConfiguration c))"

lemma rotation_active:
  assumes run: "run_state (reconcileCARotation L C E tart scaleDown) tr = ((rot, None), tr @ new)"
    and e: "e \<in> set new" "node_edit e"
  shows "rot_active rot"
proof -
  from e(2) have rot: "rotates e" by (auto simp: node_edit_def)
  have more: "\<not> set new \<subseteq> range CpSecretPatch" using e by (auto simp: node_edit_def)
  obtain target aB aCA pB pCA obs seen new2 where
    p: "new = seen @ new2" "list_all cp_observes seen"
      "run_state (rotation_pass L C E tart target aB pB aCA pCA obs) (tr @ seen) = ((rot, None), (tr @ seen) @ new2)"
    by (cases rule: reconcileCARotation_pass[OF run e(1) rot]) (use more in auto)
  have "\<not> cp_observes e" using e(2) by (auto simp: node_edit_def)
  with e(1) p have in2: "e \<in> set new2" by (auto simp: list_all_iff)
  show ?thesis
  proof (cases "minimumCARotationStage obs")
    case CATrustStageRotated
    have em: "emits (promoteCARotation L E tart target) (insert (CpClusterStatusPatch (set_active_generation target tart)) (range CpSecretPatch))"
      by (rule emits_promoteCARotation)
    obtain r t1 where r: "run_state (promoteCARotation L E tart target) (tr @ seen) = (r, t1)" by fastforce
    with p(3) CATrustStageRotated have "t1 = (tr @ seen) @ new2" by (auto simp: rotation_pass_def Let_def)
    with emitsD[OF em r] in2 e(2) show ?thesis by (auto simp: node_edit_def)
  qed (use p(3) in \<open>auto simp: rotation_pass_def Let_def rotation_def ca_unrecognized_def split: if_splits prod.splits\<close>)
qed

definition bootstraps :: "cp_event \<Rightarrow> bool" where
  "bootstraps e \<longleftrightarrow> (\<exists>ep au. e = CpRpc ep au CpBootstrap)"

definition upgrades :: "cp_event \<Rightarrow> bool" where
  "upgrades e \<longleftrightarrow> (\<exists>ep au f t c. e = CpRpc ep au (CpUpgradeKubernetes f t c))"

lemmas operation_defs = disrupts_def node_edit_def bootstraps_def upgrades_def

lemma initialized_no_bootstrap:
  assumes run: "run_state (reconcileControlPlaneBootstrap L K E cp cluster machines) tr = ((st, err), tr @ new)"
    and init: "bs_initialized st"
  shows "\<forall>e \<in> set new. \<not> bootstraps e"
proof -
  let ?state = "not_ready ''MachinesUnavailable'' ''The first control-plane Machine is not running the desired Talos version yet.'' (30 * second)"
  have zero: "\<not> bs_initialized (not_ready r m d)" "\<not> bs_initialized zero_bootstrap_state" for r m d
    by (simp_all add: not_ready_def zero_bootstrap_state_def)
  from run init zero obtain machine where first: "run_state (reconcileFirstControlPlane L K E cp cluster machine ?state) tr = ((st, err), tr @ new)"
    by (auto simp: reconcileControlPlaneBootstrap_def Let_def split: option.splits)
  obtain ob where ob: "run_state (observeFirstControlPlane L E machine ?state) tr = (ob, tr)"
    using observeFirstControlPlane_reads by blast
  show ?thesis
  proof (cases ob)
    case (Inl r)
    with first ob show ?thesis by (auto simp: reconcileFirstControlPlane_def)
  next
    case (Inr x)
    then obtain ep c where o: "ob = Inr (ep, c)" by (cases x) auto
    with first ob have talos: "run_state (reconcileFirstControlPlaneTalos L K E cp cluster ep c ?state) tr = ((st, err), tr @ new)"
      by (simp add: reconcileFirstControlPlane_def)
    note i = initialized_observed[OF talos init zero(1)]
    then have "run_state (report_initialized L K E cluster ep c) (tr @ [CpDial ep (CpConfiguration c), CpRpc ep (CpConfiguration c) CpEtcdStatus]) =
        ((st, err), tr @ new) \<or> new = [CpDial ep (CpConfiguration c)]"
      using talos by (auto simp: reconcileFirstControlPlaneTalos_def cp_dial_def Let_def split: if_splits)
    then show ?thesis
      using emitsD[OF emits_report_initialized, of L K E cluster ep c "tr @ [CpDial ep (CpConfiguration c), CpRpc ep (CpConfiguration c) CpEtcdStatus]" "(st, err)" "tr @ new"]
      by (fastforce simp: bootstraps_def)
  qed
qed

definition calm :: "cp_event set" where
  "calm = {e. \<not> disrupts e \<and> \<not> node_edit e \<and> \<not> upgrades e}"

lemma observes_calm: "{e. cp_observes e} \<subseteq> calm"
  by (auto simp: calm_def operation_defs)

lemma emits_bootstrap_calm: "emits (reconcileControlPlaneBootstrap L K E cp cluster machines) calm"
proof -
  have r: "emits (report_initialized L K E cluster ep c) calm" for ep c
    unfolding report_initialized_def workloadAPIReady_def ensureKubeconfigSecret_def Let_def
    by (intro emit_rules) (auto simp: calm_def operation_defs)
  have t: "emits (reconcileFirstControlPlaneTalos L K E cp cluster ep c state) calm" for ep c state
    unfolding reconcileFirstControlPlaneTalos_def Let_def
    by (intro emit_rules r) (auto simp: calm_def operation_defs)
  show ?thesis
    unfolding reconcileControlPlaneBootstrap_def reconcileFirstControlPlane_def Let_def by (intro emit_rules t)
qed

definition rotation_events :: "cp_event set" where
  "rotation_events = {e. \<not> disrupts e \<and> \<not> upgrades e \<and> \<not> bootstraps e}"

lemma emits_rotation: "emits (reconcileCARotation L C E tart scaleDown) rotation_events"
proof -
  have o: "{e. cp_observes e} \<subseteq> rotation_events" and s: "range CpSecretPatch \<subseteq> rotation_events"
    by (auto simp: rotation_events_def operation_defs)
  have ed: "emits (edit_observed C E ob a p i acc) rotation_events" for ob a p i acc
    unfolding edit_observed_def applyCARotationConfiguration_def Let_def
    by (intro emit_rules emits_mono[OF emits_dialRotationBundle o]) (auto simp: rotation_events_def operation_defs)
  have es: "emits (edit_stage st (\<lambda>ob. edit_observed C E ob a p i acc) obs) rotation_events" for st a p i acc obs
    by (induction obs) (auto intro!: emit_rules ed)
  have pr: "emits (promoteCARotation L E tart t) rotation_events" for t
    by (rule emits_mono[OF emits_promoteCARotation]) (use s in \<open>auto simp: rotation_events_def operation_defs\<close>)
  have pass: "emits (rotation_pass L C E tart t a p ac pc obs) rotation_events" for t a p ac pc obs
    unfolding rotation_pass_def Let_def stage_edits
    by (cases "minimumCARotationStage obs") (auto intro!: emit_rules es pr)
  show ?thesis
    unfolding reconcileCARotation_def observe_and_rotate_def clusterMachinesForCARotation_def Let_def
    by (intro emit_rules pass emits_mono[OF emits_recoverCompleted s] emits_mono[OF emits_observeControlPlaneCARotation o])
qed

definition upgrade_events :: "cp_event set" where
  "upgrade_events = {e. \<not> disrupts e \<and> \<not> node_edit e \<and> \<not> bootstraps e}"

lemma emits_upgrade: "emits (reconcileKubernetesUpgrade L K E cp cluster machines boot other n) upgrade_events"
proof -
  have o: "{e. cp_observes e} \<subseteq> upgrade_events" by (auto simp: upgrade_events_def operation_defs)
  have r: "emits (runKubernetesUpgrade K E cluster ob f t) upgrade_events" for ob f t
    unfolding runKubernetesUpgrade_def
    by (intro emit_rules emits_dialKubernetesUpgradeClient) (auto simp: upgrade_events_def operation_defs)
  have p: "emits (perform_upgrade K E cp cluster ob v st) upgrade_events" for ob v st
    unfolding perform_upgrade_def Let_def
    by (intro emit_rules r emits_mono[OF emits_acquire] emits_mono[OF emits_release])
       (auto simp: upgrade_events_def operation_defs intro!: emit_rules split: lease_error.splits)
  show ?thesis
    unfolding reconcileKubernetesUpgrade_def Let_def
    by (intro emit_rules emits_mono[OF emits_upgrade_preflight o])
       (auto intro!: emit_rules p split: kubernetesUpgradeAction.splits)
qed


lemma ensured_events: "ensured L K cp c ds by os es \<Longrightarrow> \<forall>e \<in> set es. \<not> disrupts e \<and> \<not> node_edit e \<and> \<not> bootstraps e \<and> \<not> upgrades e"
  unfolding ensured_def provider_events_def operation_defs by fast

lemma ensureMachines_events:
  assumes run: "run_state (ensureMachines L K E cp c desired ds mt bt) tr = (r, tr')"
  shows "\<exists>new. tr' = tr @ new \<and> (\<forall>e \<in> set new. \<not> node_edit e \<and> \<not> bootstraps e \<and> \<not> upgrades e) \<and>
    (\<forall>ms. r = Inr (ms, None) \<longrightarrow> (\<forall>e \<in> set new. \<not> disrupts e))"
  using run
proof (cases rule: ensureMachines_run)
  case stopped
  then show ?thesis by auto
next
  case (ordinals machines es)
  then show ?thesis using ensured_events by (intro exI[of _ es]) auto
next
  case (scaled machines es ms err pending serr)
  have c: "\<not> node_edit e \<and> \<not> bootstraps e \<and> \<not> upgrades e" if "e \<in> scale_down_events" for e
    using that by (auto simp: scale_down_events_def operation_defs)
  from emitsD[OF emits_scale_down scaled(4)] obtain new2 where n2: "tr' = (tr @ es) @ new2" "set new2 \<subseteq> scale_down_events" by blast
  have "\<forall>e \<in> set (es @ new2). \<not> disrupts e" if "r = Inr (ms', None)" for ms'
    using that run n2(1) ensureMachines_quiet[of L K E cp c desired ds mt bt tr ms' "es @ new2"] by simp
  with n2 c ensured_events[OF scaled(2)] show ?thesis by (intro exI[of _ "es @ new2"]) auto
qed

text \<open>An upgrade excludes every other operation of the pass.\<close>

definition alone :: "cp_event list \<Rightarrow> bool" where
  "alone es \<longleftrightarrow> (\<exists>e \<in> set es. upgrades e) \<longrightarrow> (\<forall>e \<in> set es. \<not> disrupts e \<and> \<not> node_edit e \<and> \<not> bootstraps e)"

lemma operations_alone:
  assumes run: "run_state (control_plane_operations L K C E cp c cluster tart n machines pending) tr = (r, tr')"
  obtains es where "tr' = tr @ es" "\<forall>e \<in> set es. \<not> disrupts e" "alone es" "pending \<longrightarrow> (\<forall>e \<in> set es. \<not> upgrades e)"
proof -
  obtain boot berr t1 where b: "run_state (reconcileControlPlaneBootstrap L K E cp cluster machines) tr = ((boot, berr), t1)" by (metis surj_pair)
  obtain es1 where 1: "t1 = tr @ es1" "set es1 \<subseteq> calm" using emitsD[OF emits_bootstrap_calm b] by blast
  obtain rot rerr t2 where c: "run_state (reconcileCARotation L C E tart pending) t1 = ((rot, rerr), t2)" by (metis surj_pair)
  obtain es2 where 2: "t2 = t1 @ es2" "set es2 \<subseteq> rotation_events" using emitsD[OF emits_rotation c] by blast
  obtain up t3 where u: "run_state (reconcileKubernetesUpgrade L K E cp cluster machines boot (rot_active rot \<or> pending) n) t2 = (up, t3)" by fastforce
  obtain es3 where 3: "t3 = t2 @ es3" "set es3 \<subseteq> upgrade_events" using emitsD[OF emits_upgrade u] by blast
  show thesis
  proof (cases "berr = None \<and> rerr = None")
    case False
    with run b c have "tr' = t1 \<or> tr' = t2" by (auto simp: control_plane_operations_def split: option.splits)
    moreover have "alone es1" "alone (es1 @ es2)" using 1(2) 2(2) by (auto simp: alone_def calm_def rotation_events_def)
    moreover have "\<forall>e \<in> set (es1 @ es2). \<not> disrupts e \<and> \<not> upgrades e" using 1(2) 2(2) by (auto simp: calm_def rotation_events_def)
    ultimately show thesis using that[of es1] that[of "es1 @ es2"] 1(1) 2(1) by auto
  next
    case True
    obtain x where x: "run_state (controlPlaneEndpointConverged L K E cluster machines) t3 = (x, t3)"
      using emits_nothing[OF emits_endpointConverged] by blast
    obtain p where p: "tr' = t3 @ [CpStatusPatch p]"
      using run b c u x True by (cases x) (auto simp: control_plane_operations_def patch_control_plane_def cp_write_def cp_get_def)
    have justified: "bs_initialized boot \<and> \<not> (rot_active rot \<or> pending)" if "e \<in> set es3" "upgrades e" for e
      using that upgrade_justified_by_pass[of L K E cp cluster machines boot "rot_active rot \<or> pending" n t2 up es3] u 3(1)
      by (auto simp: upgrades_def)
    have rot: "rot_active rot" if "e \<in> set es2" "node_edit e" for e
      using rotation_active[of L C E tart pending t1 rot es2 e] that c True 2(1) by simp
    have boot: "\<not> bootstraps e" if "e \<in> set es1" "bs_initialized boot" for e
      using initialized_no_bootstrap[of L K E cp cluster machines tr boot berr es1] that b 1(1) by auto
    let ?es = "es1 @ es2 @ es3 @ [CpStatusPatch p]"
    have part: "e \<in> set es1 \<and> e \<in> calm \<or> e \<in> set es2 \<and> e \<in> rotation_events \<or> e \<in> set es3 \<and> e \<in> upgrade_events \<or> e = CpStatusPatch p"
      if "e \<in> set ?es" for e using that 1(2) 2(2) 3(2) by auto
    have in3: "e \<in> set es3" if "e \<in> set ?es" "upgrades e" for e
      using part[OF that(1)] that(2) by (auto simp: calm_def rotation_events_def upgrades_def)
    have "alone ?es" unfolding alone_def
    proof (intro impI ballI)
      fix e assume "\<exists>e \<in> set ?es. upgrades e" and e: "e \<in> set ?es"
      then have j: "bs_initialized boot" "\<not> rot_active rot" using in3 justified by blast+
      show "\<not> disrupts e \<and> \<not> node_edit e \<and> \<not> bootstraps e"
        using part[OF e] rot[of e] boot[of e] j
        by (elim disjE) (auto simp: calm_def rotation_events_def upgrade_events_def disrupts_def node_edit_def bootstraps_def)
    qed
    moreover have "\<forall>e \<in> set ?es. \<not> disrupts e"
      using 1(2) 2(2) 3(2) by (auto simp: calm_def rotation_events_def upgrade_events_def disrupts_def)
    moreover have "\<forall>e \<in> set ?es. \<not> upgrades e" if pending
      using that in3 justified by blast
    ultimately show thesis using that[of ?es] 1(1) 2(1) 3(1) p by auto
  qed
qed


text \<open>What precedes the machines only reads, or ends in a report.\<close>

lemma reportFailure_run:
  "run_state (reportFailure L E cp e) tr = (r, tr') \<Longrightarrow> \<exists>p. tr' = tr @ [CpStatusPatch p]"
  by (auto simp: reportFailure_def patch_control_plane_def cp_get_def cp_write_def Let_def)

lemma control_plane_machines_run:
  assumes run: "run_state (control_plane_machines L K C E cp c cluster tart n mt bt) tr = (r, tr')"
  shows "\<exists>es. tr' = tr @ es \<and> alone es"
proof -
  obtain x t1 where x: "run_state (ensureMachines L K E cp c n (cst_failureDomains (tc_status tart)) mt bt) tr = (x, t1)" by fastforce
  from ensureMachines_events[OF x] obtain es1 where 1: "t1 = tr @ es1"
    "\<forall>e \<in> set es1. \<not> node_edit e \<and> \<not> bootstraps e \<and> \<not> upgrades e" "\<forall>ms. x = Inr (ms, None) \<longrightarrow> (\<forall>e \<in> set es1. \<not> disrupts e)" by blast
  have quiet: "alone es1" "alone (es1 @ [CpStatusPatch p])" for p using 1(2) by (auto simp: alone_def upgrades_def)
  show ?thesis
  proof (cases "\<exists>ms err. x = Inr (ms, err) \<and> (err = None \<or> scale_down_pending (the err))")
    case True
    then obtain ms err where m: "x = Inr (ms, err)" "err = None \<or> scale_down_pending (the err)" by blast
    with run x have "run_state (control_plane_operations L K C E cp c cluster tart n ms (err \<noteq> None)) t1 = (r, tr')"
      by (auto simp: control_plane_machines_def Let_def split: option.splits)
    from operations_alone[OF this] obtain es2 where 2: "tr' = t1 @ es2" "\<forall>e \<in> set es2. \<not> disrupts e" "alone es2"
      "err \<noteq> None \<longrightarrow> (\<forall>e \<in> set es2. \<not> upgrades e)" by metis
    have "alone (es1 @ es2)" using 1(2,3) 2(2-4) m(1) by (auto simp: alone_def)
    with 1(1) 2(1) show ?thesis by (intro exI[of _ "es1 @ es2"]) simp
  next
    case False
    then have "tr' = t1 \<or> (\<exists>e. run_state (reportFailure L E cp e) t1 = (r, tr'))"
      using run x by (cases x) (auto simp: control_plane_machines_def Let_def split: option.splits cp_error.splits)
    then have "tr' = t1 \<or> (\<exists>p. tr' = t1 @ [CpStatusPatch p])" using reportFailure_run by blast
    with 1(1) quiet show ?thesis by (metis append.assoc)
  qed
qed

lemma alone_report: "alone [CpStatusPatch p]" "alone []"
  by (auto simp: alone_def upgrades_def)

lemma control_plane_templates_run:
  assumes run: "run_state (control_plane_templates L K C E cp c cluster tart n) tr = (r, tr')"
  shows "\<exists>es. tr' = tr @ es \<and> alone es"
proof -
  have "emits (getTartMachineTemplate E m g) {}" "emits (getBootstrapTemplate E m g) {}" for m g
    unfolding getTartMachineTemplate_def getBootstrapTemplate_def by (intro emit_rules)+
  from this[THEN emits_nothing] obtain x y where
    x: "run_state (getTartMachineTemplate E (mt_namespace (k_meta cp)) (kmt_infrastructureRef (ks_machineTemplate (k_spec cp)))) tr = (x, tr)"
    and y: "run_state (getBootstrapTemplate E (mt_namespace (k_meta cp)) (ks_bootstrapConfigTemplateRef (k_spec cp))) tr = (y, tr)"
    by blast
  from run x y have "(\<exists>e. run_state (reportFailure L E cp e) tr = (r, tr')) \<or>
      (\<exists>mt bt. run_state (control_plane_machines L K C E cp c cluster tart n mt bt) tr = (r, tr'))"
    by (cases x; cases y) (auto simp: control_plane_templates_def)
  then show ?thesis using reportFailure_run control_plane_machines_run alone_report by metis
qed

lemma reconcile_active_run:
  assumes run: "run_state (reconcile_active L K C E cp) tr = (r, tr')"
  shows "\<exists>es. tr' = tr @ es \<and> alone es"
proof -
  have "emits (getTartCluster E cluster) {}" "emits (validateActiveBundle L E t) {}" for cluster t
    unfolding getTartCluster_def validateActiveBundle_def Let_def by (intro emit_rules)+
  note tart = this(1)[THEN emits_nothing] and secrets = this(2)[THEN emits_nothing]
  have "tr' = tr \<or> (\<exists>e. run_state (reportFailure L E cp e) tr = (r, tr')) \<or>
      (\<exists>c cluster t n. run_state (control_plane_templates L K C E cp c cluster t n) tr = (r, tr'))"
    using run tart secrets
    by (auto simp: reconcile_active_def cp_get_def split: sum.splits option.splits if_splits prod.splits; metis prod.inject)
  then show ?thesis using reportFailure_run control_plane_templates_run alone_report by (metis append_Nil2)
qed

lemma Reconcile_alone:
  assumes run: "run_state (Reconcile_TartControlPlane L K C E ns name) tr = (r, tr @ new)"
  shows "alone new"
proof -
  have "(\<exists>es. tr @ new = tr @ es \<and> alone es)"
    using run reconcile_active_run[of L K C E _ tr r "tr @ new"] alone_report
    by (auto simp: Reconcile_TartControlPlane_def reconcilePaused_def reconcileDeleting_def patch_control_plane_def cp_get_def cp_write_def Let_def
        split: sum.splits if_splits)
  then show ?thesis by simp
qed

subsection \<open>Passes that do nothing\<close>

text \<open>An error of the API server in the read of the TartCluster is reported like a dependency
  that is not there yet: the pass ends without an error and without a delay, so nothing
  reconciles the control plane again before one of the objects it watches changes.\<close>

lemma transient_error_not_retried:
  assumes "ce_get_control_plane E tr ns name = Inr cp" "\<not> IsPaused L (k_meta cp)" "mt_deletionTimestamp (k_meta cp) = None"
    and "controlPlaneClusterName L cp = Inr c" "ks_version (k_spec cp) \<noteq> []" "desiredControlPlaneReplicas cp = Inr n"
    and "te_get_cluster (ce_tm E tr) [] (mt_namespace (k_meta cp)) c = Inr cluster"
    and "cl_infrastructureRef cluster = \<lparr>cr_apiGroup = infra_group, cr_kind = TartClusterKind, cr_name = t\<rparr>" "t \<noteq> []"
    and "te_get_tart_cluster (ce_tm E tr) [] (mt_namespace (cl_meta cluster)) t = Inl e" "e \<noteq> ApiNotFound"
    and "\<And>p. ce_write E tr (CpStatusPatch p) = None"
  shows "\<exists>p. run_state (Reconcile_TartControlPlane L K C E ns name) tr = (Inr 0, tr @ [CpStatusPatch p])"
  using assms
  by (simp add: Reconcile_TartControlPlane_def reconcile_active_def getTartCluster_def reportFailure_def patch_control_plane_def
      cp_get_def cp_write_def Let_def)

text \<open>A paused or deleted control plane only gets its status patched.\<close>

lemma inactive_pass:
  assumes "ce_get_control_plane E tr ns name = Inr cp" "IsPaused L (k_meta cp) \<or> mt_deletionTimestamp (k_meta cp) \<noteq> None"
    and "run_state (Reconcile_TartControlPlane L K C E ns name) tr = (r, tr @ new)"
  shows "\<exists>p. new = [CpStatusPatch p]"
  using assms
  by (auto simp: Reconcile_TartControlPlane_def reconcilePaused_def reconcileDeleting_def patch_control_plane_def cp_get_def
      cp_write_def Let_def split: if_splits)

end
