(* ===== verification/ControlPlaneSamples.thy ===== *)
theory ControlPlaneSamples
  imports Samples ControlPlane
begin

section \<open>A control plane of three machines\<close>

text \<open>Concrete objects for the witnesses about \<open>controller/tartcontrolplane\<close>: the machines
  \<open>kc-0\<close>, \<open>kc-1\<close> and \<open>kc-2\<close> of the control plane \<open>kc\<close>, each with a host of its own name, and a
  world in which every request succeeds.\<close>

definition sample_cp_lib :: cp_lib where
  "sample_cp_lib =
     \<lparr>kp_control_plane_name_label = ''cluster.x-k8s.io/control-plane-name'', kp_delete_hook_prefix = ''pre-terminate'',
      kp_waiting_for_hook = ''WaitingForPreTerminateHook'', kp_machine_available = ''Available'',
      kp_machine_up_to_date = ''UpToDate'', kp_skip_remediation = ''skip'', kp_selector_string = (\<lambda>_. []),
      kp_endpoint_valid = (\<lambda>h p. h \<noteq> [] \<and> p \<noteq> 0), kp_endpoint_string = (\<lambda>h p. h @ '':6443'')\<rparr>"

definition sample_kc :: TartControlPlane where
  "sample_kc =
     \<lparr>k_meta = (sample_meta ''kc'')\<lparr>mt_namespace := ''default'', mt_labels := [(''cluster.x-k8s.io/cluster-name'', ''c1'')]\<rparr>,
      k_spec = \<lparr>ks_version = ''v1.36.0'', ks_replicas = Some 1,
        ks_machineTemplate = \<lparr>kmt_labels = [], kmt_annotations = [],
          kmt_infrastructureRef = \<lparr>cr_apiGroup = infra_group, cr_kind = ''TartMachineTemplate'', cr_name = ''mt''\<rparr>,
          kmt_readinessGates = None, kmt_taints = None,
          kmt_deletion = \<lparr>md_drainTimeout = None, md_volumeDetachTimeout = None, md_nodeDeletionTimeout = None\<rparr>\<rparr>,
        ks_bootstrapConfigTemplateRef = \<lparr>cr_apiGroup = bootstrap_group, cr_kind = ''TartBootstrapConfigTemplate'', cr_name = ''bt''\<rparr>\<rparr>,
      k_status = \<lparr>kst_controlPlaneInitialized = None, kst_versions = [], kst_selector = [], kst_replicas = None,
        kst_readyReplicas = None, kst_availableReplicas = None, kst_upToDateReplicas = None, kst_targetVersion = [],
        kst_observedVersion = [], kst_observedGeneration = 0, kst_conditions = []\<rparr>\<rparr>"

definition sample_kc_machine :: "string \<Rightarrow> (string \<times> string) list \<Rightarrow> capi_machine" where
  "sample_kc_machine n annotations =
     sample_capi\<lparr>cm_meta := (sample_meta n)\<lparr>mt_namespace := ''default'', mt_annotations := annotations,
         mt_labels := [(''cluster.x-k8s.io/cluster-name'', ''c1''), (''cluster.x-k8s.io/control-plane-name'', ''kc'')]\<rparr>,
       cm_infrastructureRef := \<lparr>cr_apiGroup = infra_group, cr_kind = TartMachineKind, cr_name = n\<rparr>,
       cm_conditions := [sample_condition ''Ready'' ConditionTrue ''Ready'']\<rparr>"

definition sample_kc_provider :: "string \<Rightarrow> TartMachine" where
  "sample_kc_provider n =
     sample_machine\<lparr>m_meta := (sample_meta n)\<lparr>mt_namespace := ''default'', mt_uid := ''tm-'' @ n,
         mt_owners := [\<lparr>own_apiVersion = ''cluster.x-k8s.io/v1beta2'', own_kind = CAPIMachineKind, own_name = n,
           own_uid = ''uid-'' @ n, own_controller = Some True\<rparr>]\<rparr>,
       m_spec := (m_spec sample_machine)\<lparr>ms_providerID := ProviderID []\<rparr>,
       m_status := (m_status sample_machine)\<lparr>mst_hostRef := Some n,
         mst_conditions := [sample_condition TartMachineReadyCondition ConditionTrue ''Ready'']\<rparr>\<rparr>"

definition sample_kc_host :: "string \<Rightarrow> TartHost" where
  "sample_kc_host n =
     (sample_host n 5)\<lparr>h_spec := (sample_spec 5)\<lparr>hs_talosAPIAddress := n,
       hs_consumerRef := Some ((sample_consumer [])\<lparr>ref_uid := ''tm-'' @ n\<rparr>)\<rparr>\<rparr>"

definition sample_kc_config :: TartBootstrapConfig where
  "sample_kc_config = sample_bootstrap_config\<lparr>bc_meta := (sample_meta ''b1'')\<lparr>mt_labels := [(ClusterNameLabel, ''c1'')],
     mt_owners := [\<lparr>own_apiVersion = ''cluster.x-k8s.io/v1beta2'', own_kind = CAPIMachineKind, own_name = ''kc-0'',
       own_uid = ''uid-kc-0'', own_controller = Some True\<rparr>]\<rparr>\<rparr>"

definition sample_kc_secret :: Secret where
  "sample_kc_secret =
     zero_secret\<lparr>sec_type := SecretTypeCAPI, sec_immutable := Some True, sec_labels := [(ClusterNameLabel, ''c1'')],
       sec_owners := [\<lparr>own_apiVersion = bootstrap_group_version, own_kind = ''TartBootstrapConfig'', own_name = ''b1'',
         own_uid = ''uid-b1'', own_controller = Some True\<rparr>],
       sec_data := [(BootstrapSecretKey, ''cfg'')]\<rparr>"

text \<open>The etcd member of a machine has the number of its host's name.\<close>

definition sample_member :: "string \<Rightarrow> 64 word" where
  "sample_member n = (if n = ''kc-0'' then 1 else if n = ''kc-1'' then 2 else 3)"

text \<open>The Secrets of two generations: \<open>sample_bundle_secret\<close> is active, this one is pending.\<close>

definition sample_pending_secret :: Secret where
  "sample_pending_secret =
     (case BuildPendingSecret sample_lib ''default'' ''t1'' sample_cluster_id 2 sample_owner [(''bundle'', ''y'')] of
        Inr s \<Rightarrow> s | Inl _ \<Rightarrow> zero_secret)"

definition sample_talos_bundle :: "string \<Rightarrow> talos_bundle" where
  "sample_talos_bundle g =
     \<lparr>tb_clusterID = Some (ClusterID_String sample_cluster_id), tb_os = Some \<lparr>pem_crt = ''os-'' @ g, pem_key = ''key''\<rparr>,
      tb_k8s = Some \<lparr>pem_crt = ''k8s-'' @ g, pem_key = ''key''\<rparr>, tb_aggregator = Some \<lparr>pem_crt = ''agg-'' @ g, pem_key = ''key''\<rparr>\<rparr>"

definition sample_kc_world :: "capi_machine list \<Rightarrow> 64 word list \<Rightarrow> cp_env" where
  "sample_kc_world machines members =
     \<lparr>ce_tm = (\<lambda>_. sample_tm\<lparr>
        te_get_tart_machine := \<lambda>_ _ n. Inr (sample_kc_provider n),
        te_get_capi_machine := \<lambda>_ _ n. Inr (sample_kc_machine n []),
        te_get_host := \<lambda>_ n. Inr (sample_kc_host n),
        te_get_bootstrap_config := \<lambda>_ _ _. Inr sample_kc_config,
        te_get_cluster := \<lambda>_ _ _. Inr sample_cluster,
        te_get_tart_cluster := \<lambda>_ _ _. Inr sample_tart,
        te_decode_bundle := \<lambda>e. Some (sample_talos_bundle (if e = ''x'' then ''1'' else ''2'')),
        te_get_secret := \<lambda>_ _ n. if n = ''c1-kubeconfig'' then Inl ApiNotFound
          else Inr (if n = ''data'' then sample_kc_secret
            else if n = sec_name sample_pending_secret then sample_pending_secret else sample_bundle_secret)\<rparr>),
      ce_list_machines = (\<lambda>_ _. Inr machines),
      ce_list_control_planes = (\<lambda>_. Inr [sample_kc]),
      ce_get_control_plane = (\<lambda>_ _ _. Inr sample_kc),
      ce_get_machine_template = (\<lambda>_ _ _. Inr \<lparr>mtpl_labels = [], mtpl_hostSelector = None, mtpl_image = ms_image (m_spec sample_machine)\<rparr>),
      ce_get_bootstrap_template = (\<lambda>_ _ _. Inr \<lparr>btpl_labels = [], btpl_spec = bc_spec sample_bootstrap_config\<rparr>),
      ce_write = (\<lambda>_ _. None),
      ce_dial = (\<lambda>_ _. True),
      ce_rpc = (\<lambda>_ _. None),
      ce_text = (\<lambda>_ _. Inr ''v1.35.0''),
      ce_etcd_status = (\<lambda>_ e. case e of CpRpc ep _ _ \<Rightarrow> Inr \<lparr>es_memberID = sample_member ep, es_leader = 1, es_errors = []\<rparr>
        | _ \<Rightarrow> Inl RpcFailed),
      ce_etcd_members = (\<lambda>_ _. Inr (map (\<lambda>i. \<lparr>em_id = i, em_learner = False\<rparr>) members)),
      ce_bootstrap_exists = (\<lambda>_ _. False),
      ce_readyz = (\<lambda>_ _. True),
      ce_kubeconfig_host = (\<lambda>_. Some ''https://ep:6443''),
      ce_identity = ''manager-1''\<rparr>"

lemmas sample_kc_defs = sample_cp_lib_def sample_kc_def sample_kc_machine_def sample_kc_provider_def sample_kc_host_def
  sample_kc_config_def sample_kc_secret_def sample_kc_world_def sample_bootstrap_config_def sample_capi_def sample_machine_def
  sample_condition_def sample_tm_def

text \<open>The reads of a machine and of its etcd member.\<close>

lemma sample_kc_configuration:
  "fst (run_state (BootstrapConfiguration sample_lib (ce_tm (sample_kc_world ms ids) tr) (sample_kc_provider n)) []) = Inr ''cfg''"
  by (simp add: BootstrapConfiguration_def find_capi_machine_def FindCAPIMachineForInfrastructure_def findCAPIMachine_def
      sample_kc_defs sample_lib_def k8s_reference_def sample_meta_def bootstrap_group_def infra_group_def TartMachineKind_def
      CAPIMachineKind_def) code_simp

text \<open>\<open>m\<close> is the machine of its name, whatever its conditions and annotations.\<close>

abbreviation name_of :: "capi_machine \<Rightarrow> string" where
  "name_of m \<equiv> mt_name (cm_meta m)"

definition sample_kc_named :: "capi_machine \<Rightarrow> bool" where
  "sample_kc_named m \<longleftrightarrow>
     name_of m \<noteq> [] \<and> cm_infrastructureRef m = \<lparr>cr_apiGroup = infra_group, cr_kind = TartMachineKind, cr_name = name_of m\<rparr> \<and>
     mt_uid (cm_meta m) = ''uid-'' @ name_of m"

lemma sample_kc_identity:
  assumes "sample_kc_named m"
  shows "run_state (observeMachineIdentity sample_lib (sample_kc_world ms ids) m) tr = (Some (sample_kc_host (name_of m), ''cfg''), tr)"
  using assms sample_kc_configuration[of ms ids tr "name_of m"]
  by (simp add: observeMachineIdentity_def cp_get_def cp_read_def ValidateProviderOwner_def HasControllerOwner_def HostTalosEndpoint_def
      sample_kc_named_def sample_kc_provider_def sample_kc_host_def sample_kc_world_def sample_host_def sample_spec_def sample_meta_def
      sample_machine_def sample_consumer_def sample_lib_def k8s_reference_def)

lemma sample_kc_endpoint: "n \<noteq> [] \<Longrightarrow> HostTalosEndpoint (sample_kc_host n) = n"
  by (simp add: HostTalosEndpoint_def sample_kc_host_def sample_host_def sample_spec_def)

definition sample_kc_observation :: "capi_machine \<Rightarrow> etcdMachineObservation" where
  "sample_kc_observation m =
     \<lparr>eo_machine = m, eo_host = sample_kc_host (name_of m), eo_config = ''cfg'',
      eo_status = \<lparr>es_memberID = sample_member (name_of m), es_leader = 1, es_errors = []\<rparr>\<rparr>"

definition sample_kc_asked :: "string \<Rightarrow> cp_rpc \<Rightarrow> cp_event list" where
  "sample_kc_asked n r = [CpDial n (CpConfiguration ''cfg''), CpRpc n (CpConfiguration ''cfg'') r]"

lemma sample_kc_status:
  "sample_kc_named m \<Longrightarrow> run_state (observeEtcdStatus (sample_kc_world ms ids) (sample_kc_host (name_of m)) ''cfg'') tr =
     (Some (eo_status (sample_kc_observation m)), tr @ sample_kc_asked (name_of m) CpEtcdStatus)"
  by (simp add: observeEtcdStatus_def dialAuthenticated_def cp_dial_def rpc_of_def sample_kc_endpoint sample_kc_world_def
      sample_kc_observation_def sample_kc_named_def sample_kc_asked_def)

lemma sample_kc_observations:
  "list_all sample_kc_named machines \<Longrightarrow>
   run_state (observeEtcdMachineObservations sample_lib (sample_kc_world ms ids) machines) tr =
     (Some (map sample_kc_observation machines), tr @ concat (map (\<lambda>m. sample_kc_asked (name_of m) CpEtcdStatus) machines))"
proof (induction machines arbitrary: tr)
  case (Cons m machines)
  have "es_memberID (eo_status (sample_kc_observation m)) \<noteq> 0" by (simp add: sample_kc_observation_def sample_member_def)
  moreover have "\<lparr>eo_machine = m, eo_host = sample_kc_host (name_of m), eo_config = ''cfg'',
      eo_status = eo_status (sample_kc_observation m)\<rparr> = sample_kc_observation m" by (simp add: sample_kc_observation_def)
  ultimately show ?case using Cons by (simp add: sample_kc_identity sample_kc_status)
qed simp

lemma sample_kc_members:
  "n \<noteq> [] \<Longrightarrow> run_state (observeEtcdMembersFromConfiguration (sample_kc_world ms ids) (sample_kc_host n) ''cfg'') tr =
     (Some (map (\<lambda>i. \<lparr>em_id = i, em_learner = False\<rparr>) ids), tr @ sample_kc_asked n CpEtcdMembers)"
  by (simp add: observeEtcdMembersFromConfiguration_def dialAuthenticated_def cp_dial_def rpc_of_def sample_kc_endpoint
      sample_kc_world_def sample_kc_asked_def)

lemma sample_kc_listed:
  "sample_kc_named m \<Longrightarrow> run_state (observeEtcdMembers sample_lib (sample_kc_world ms ids) m) tr =
     (Some (map (\<lambda>i. \<lparr>em_id = i, em_learner = False\<rparr>) ids), tr @ sample_kc_asked (name_of m) CpEtcdMembers)"
  by (simp add: observeEtcdMembers_def sample_kc_identity sample_kc_members sample_kc_named_def)

text \<open>The machine \<open>kc-2\<close>, deleted, drained and waiting for its hook.\<close>

definition sample_kc_leaving :: "(string \<times> string) list \<Rightarrow> capi_machine" where
  "sample_kc_leaving annotations =
     (sample_kc_machine ''kc-2'' [])\<lparr>cm_meta := (cm_meta (sample_kc_machine ''kc-2''
         ((''pre-terminate/tart-etcd-member'', ''true'') # annotations)))\<lparr>mt_deletionTimestamp := Some 5\<rparr>,
       cm_conditions := [sample_condition ''Deleting'' ConditionTrue ''WaitingForPreTerminateHook'']\<rparr>"

definition sample_kc_machines :: "(string \<times> string) list \<Rightarrow> capi_machine list" where
  "sample_kc_machines annotations = [sample_kc_machine ''kc-0'' [], sample_kc_machine ''kc-1'' [], sample_kc_leaving annotations]"

lemma sample_kc_machines_named: "list_all sample_kc_named (sample_kc_machines annotations)"
  by (simp add: sample_kc_machines_def sample_kc_machine_def sample_kc_leaving_def sample_kc_named_def sample_meta_def)

lemma sample_kc_leaving_waits: "machineWaitingForPreTerminateHook sample_lib sample_cp_lib (sample_kc_leaving annotations)"
  by (simp add: machineWaitingForPreTerminateHook_def sample_kc_leaving_def sample_cp_lib_def sample_lib_def k8s_reference_def
      ref_find_condition_def sample_condition_def)

lemma sample_kc_order:
  "order_machines (filter (\<lambda>m. mt_deletionTimestamp (cm_meta m) \<noteq> None) (sample_kc_machines annotations)) = [sample_kc_leaving annotations]"
  by (simp add: sample_kc_machines_def sample_kc_machine_def sample_kc_leaving_def sample_meta_def order_machines_def)

lemma sample_kc_length: "length (sample_kc_machines annotations) = 3"
  by (simp add: sample_kc_machines_def)

lemma sample_kc_member_of:
  "es_memberID (eo_status (sample_kc_observation m)) = sample_member (name_of m)"
  "eo_host (sample_kc_observation m) = sample_kc_host (name_of m)" "eo_config (sample_kc_observation m) = ''cfg''"
  by (simp_all add: sample_kc_observation_def)

lemma sample_kc_removed:
  "sample_kc_named m \<Longrightarrow> run_state (removeObservedEtcdMember (sample_kc_world ms ids) (sample_kc_observation m) i) tr =
     ((True, None), tr @ sample_kc_asked (name_of m) (CpRemoveEtcdMember i))"
  by (simp add: removeObservedEtcdMember_def dialAuthenticated_def cp_dial_def cp_rpc_def sample_kc_endpoint sample_kc_world_def
      sample_kc_asked_def sample_kc_observation_def sample_kc_named_def)

lemma sample_removal_run:
  "run_state (reconcileScaleDown sample_lib sample_cp_lib (sample_kc_world ms [1, 2, 3]) (sample_kc_machines []) 2) [] =
     ((True, None), concat (map (\<lambda>n. sample_kc_asked n CpEtcdStatus) [''kc-0'', ''kc-1'', ''kc-2'']) @
       [CpMachinePatch (set_annotation controlPlaneEtcdMemberID ''3'' (sample_kc_leaving []))] @
       sample_kc_asked ''kc-0'' CpEtcdMembers @ sample_kc_asked ''kc-0'' (CpRemoveEtcdMember 3))"
proof -
  let ?E = "sample_kc_world ms [1, 2, 3]" and ?ms = "sample_kc_machines []" and ?t = "sample_kc_leaving []"
  have named: "sample_kc_named (sample_kc_machine ''kc-0'' [])" and k0: "name_of (sample_kc_machine ''kc-0'' []) = ''kc-0''"
    by (simp_all add: sample_kc_machine_def sample_kc_named_def sample_meta_def)
  have k2: "name_of ?t = ''kc-2''" "sample_member ''kc-2'' = 3" "format_uint 3 = ''3''" "ce_write ?E tr e = None" for tr e
    by (simp_all add: sample_kc_leaving_def sample_kc_machine_def sample_meta_def sample_member_def sample_kc_world_def) code_simp
  have a: "map_of (mt_annotations (cm_meta ?t)) controlPlaneEtcdMemberID = None"
    by (simp add: sample_kc_leaving_def sample_kc_machine_def sample_meta_def controlPlaneEtcdMemberID_def)
  have hook: "map_get (mt_annotations (cm_meta ?t)) (controlPlaneEtcdDeleteHook sample_cp_lib) = ControlPlaneEtcdDeleteHookValue"
    by (simp add: sample_kc_leaving_def sample_kc_machine_def map_get_def controlPlaneEtcdDeleteHook_def sample_cp_lib_def
        ControlPlaneEtcdDeleteHookValue_def)
  have n: "map name_of ?ms = [''kc-0'', ''kc-1'', ''kc-2'']"
    by (simp add: sample_kc_machines_def sample_kc_machine_def sample_kc_leaving_def sample_meta_def)
  have s: "summarizeEtcdObservations (map sample_kc_observation ?ms) (mt_uid (cm_meta ?t)) = (Some (sample_kc_observation ?t), 3, True)"
    "firstEtcdObservation (map sample_kc_observation ?ms) (mt_uid (cm_meta ?t)) = Some (sample_kc_observation (sample_kc_machine ''kc-0'' []))"
    "canRemoveObservedEtcdMember (map (\<lambda>i. \<lparr>em_id = i, em_learner = False\<rparr>) [1, 2, 3]) (map sample_kc_observation ?ms) 3 3 (sample_kc_observation ?t)"
    by (simp_all add: summarizeEtcdObservations_def sample_kc_machines_def sample_kc_observation_def sample_kc_machine_def
        sample_kc_leaving_def sample_meta_def sample_member_def etcdStatusHealthy_def firstEtcdObservation_def
        canRemoveObservedEtcdMember_def containsEtcdMember_def allEtcdMembersAreVoting_def CanRemoveMember_def quorumSize_def Let_def)
  have "run_state (remove_fresh_member sample_lib ?E ?t [] False ?ms) [] = ((True, None), concat (map (\<lambda>n. sample_kc_asked n CpEtcdStatus) (map name_of ?ms)) @
       [CpMachinePatch (set_annotation controlPlaneEtcdMemberID ''3'' ?t)] @
       sample_kc_asked ''kc-0'' CpEtcdMembers @ sample_kc_asked ''kc-0'' (CpRemoveEtcdMember 3))"
    by (simp add: remove_fresh_member_def sample_kc_observations sample_kc_machines_named s[simplified] Let_def annotateEtcdMemberID_def cp_write_def
        comp_def sample_kc_members sample_kc_member_of sample_kc_removed named k0 k2)
  then show ?thesis using sample_kc_leaving_waits[of "[]"] hook a n
    by (simp add: run_scale_down[OF _ sample_kc_order] sample_kc_length reconcileEtcdMemberRemoval_def reconcileAnnotatedEtcdMember_def)
qed

lemma sample_kc_zero: "sample_kc_named (sample_kc_machine ''kc-0'' [])" "name_of (sample_kc_machine ''kc-0'' []) = ''kc-0''"
  by (simp_all add: sample_kc_machine_def sample_kc_named_def sample_meta_def)

lemma sample_kc_hooked: "hooked sample_cp_lib (sample_kc_leaving annotations)"
  by (simp add: sample_kc_leaving_def sample_kc_machine_def map_get_def controlPlaneEtcdDeleteHook_def sample_cp_lib_def
      ControlPlaneEtcdDeleteHookValue_def)

lemma sample_kc_annotated:
  "map_of (mt_annotations (cm_meta (sample_kc_leaving [(controlPlaneEtcdMemberID, ''3'')]))) controlPlaneEtcdMemberID = Some ''3''"
  by (simp add: sample_kc_leaving_def sample_kc_machine_def sample_meta_def controlPlaneEtcdMemberID_def)

lemma sample_kc_format: "format_uint 3 = ''3''"
  by code_simp

lemma sample_kc_three: "parse_uint 64 ''3'' = Some 3" "(of_nat 3 :: 64 word) = 3"
  using parse_format_uint[of 3 64] by (simp_all add: sample_kc_format)

lemma sample_kc_accepts: "ce_write (sample_kc_world ms ids) tr e = None"
  by (simp add: sample_kc_world_def)

lemma sample_kc_unhooked: "\<not> hooked sample_cp_lib (drop_hook sample_cp_lib (sample_kc_leaving [(controlPlaneEtcdMemberID, ''3'')]))"
  by (simp add: drop_hook_def sample_kc_leaving_def sample_kc_machine_def map_get_def controlPlaneEtcdDeleteHook_def sample_cp_lib_def
      ControlPlaneEtcdDeleteHookValue_def sample_meta_def controlPlaneEtcdMemberID_def)

lemma sample_hook_run:
  "run_state (reconcileScaleDown sample_lib sample_cp_lib (sample_kc_world ms [1, 2]) (sample_kc_machines [(controlPlaneEtcdMemberID, ''3'')]) 2) [] =
     ((False, None), sample_kc_asked ''kc-0'' CpEtcdMembers @ [CpMachinePatch (drop_hook sample_cp_lib (sample_kc_leaving [(controlPlaneEtcdMemberID, ''3'')]))])"
proof -
  let ?as = "[(controlPlaneEtcdMemberID, ''3'')]"
  have first: "firstControlPlaneSurvivor (sample_kc_machines ?as) (mt_uid (cm_meta (sample_kc_leaving ?as))) = Some (sample_kc_machine ''kc-0'' [])"
    by (simp add: firstControlPlaneSurvivor_def sample_kc_machines_def sample_kc_machine_def sample_kc_leaving_def sample_meta_def)
  show ?thesis
    by (simp add: run_scale_down[OF _ sample_kc_order] sample_kc_length sample_kc_hooked reconcileEtcdMemberRemoval_def sample_kc_leaving_waits
        reconcileAnnotatedEtcdMember_def sample_kc_annotated sample_kc_three first sample_kc_listed sample_kc_zero containsEtcdMember_def
        removeEtcdDeleteHook_def cp_write_def sample_kc_accepts)
qed

subsection \<open>A rotation of its CAs\<close>

lemma sample_pending_built:
  "BuildPendingSecret sample_lib ''default'' ''t1'' sample_cluster_id 2 sample_owner [(''bundle'', ''y'')] = Inr sample_pending_secret"
  by (simp add: sample_pending_secret_def BuildPendingSecret_def buildBundleSecret_def BundleName_def sample_cluster_id_nonzero
      sample_lib_def sample_owner_def cloneCompleteData_def infra_group_version_def Let_def)

lemma sample_pending_fields:
  "sec_data sample_pending_secret = [(''bundle'', ''y'')]" "map_get (sec_labels sample_pending_secret) BundleStateLabel = BundleStatePending"
  "BundleName sample_lib ''t1'' sample_cluster_id 2 = Inr (sec_name sample_pending_secret)"
  "BundleName sample_lib ''t1'' sample_cluster_id 1 = Inr (sec_name sample_bundle_secret)"
  "sec_name sample_bundle_secret \<noteq> sec_name sample_pending_secret" "sec_name sample_bundle_secret \<noteq> ''data''" "sec_name sample_pending_secret \<noteq> ''data''"
  "sec_name sample_bundle_secret \<noteq> ''c1-kubeconfig''" "sec_name sample_pending_secret \<noteq> ''c1-kubeconfig''"
  using format_uint_inj[of 1 2]
  by (auto simp: sample_pending_secret_def BuildPendingSecret_def buildBundleSecret_def BundleName_def sample_cluster_id_nonzero
      sample_bundle_secret_def BuildActiveSecret_def map_get_def ClusterNameLabel_def ClusterIDLabel_def GenerationLabel_def BundleStateLabel_def
      sample_lib_def sample_owner_def cloneCompleteData_def infra_group_version_def format_int_def Let_def)

lemma sample_pending_valid:
  "ValidateBundleSecretContract sample_lib (Some sample_pending_secret) ''default'' ''t1'' sample_cluster_id 2 BundleStatePending ''tu'' = None"
  using buildBundleSecret_ok[OF sample_pending_built[unfolded BuildPendingSecret_def]] by (simp add: sample_owner_def)

definition sample_rotating :: TartCluster where
  "sample_rotating = sample_tart\<lparr>tc_spec := (tc_spec sample_tart)\<lparr>cs_caRotationRequestedGeneration := Some 2\<rparr>\<rparr>"

text \<open>Every configuration issues and accepts the CAs of the generation \<open>g\<close> only.\<close>

definition sample_ca_lib :: "string \<Rightarrow> string ca_lib" where
  "sample_ca_lib g =
     \<lparr>ca_load = Some, ca_controlPlane = (\<lambda>_. True), ca_security = (\<lambda>_. Some (tb_os (sample_talos_bundle g), [])),
      ca_api = (\<lambda>_. Some (tb_k8s (sample_talos_bundle g), [])), ca_aggregator = (\<lambda>_. Some (tb_aggregator (sample_talos_bundle g), [])),
      ca_patch_machine = (\<lambda>_ _ _. Some ''edited''), ca_patch_api = (\<lambda>_ _ _. Some ''edited''), ca_patch_aggregator = (\<lambda>_ _ _. Some ''edited''),
      ca_delete_accepted = (\<lambda>_ _. None), ca_set = (\<lambda>_ _. None), ca_add_accepted = (\<lambda>_ _. None), ca_bytes = Some\<rparr>"

definition sample_kc_of_t1 :: "string \<Rightarrow> capi_machine" where
  "sample_kc_of_t1 n = (sample_kc_machine n [])\<lparr>cm_clusterName := ''t1''\<rparr>"

definition sample_cas :: "string \<Rightarrow> CertBundle" where
  "sample_cas g = (let b = sample_talos_bundle g in
     \<lparr>cb_machine = tb_os b, cb_kubernetesAPI = tb_k8s b, cb_kubernetesAggregator = tb_aggregator b\<rparr>)"

lemma sample_rotation_bundles:
  "run_state (observeRotationBundle sample_lib (sample_kc_world ms ids) sample_rotating 1 BundleStateActive) tr =
     (Some (sample_talos_bundle ''1'', sample_cas ''1''), tr)"
  "run_state (observeRotationBundle sample_lib (sample_kc_world ms ids) sample_rotating 2 BundleStatePending) tr =
     (Some (sample_talos_bundle ''2'', sample_cas ''2''), tr)"
  using sample_pending_fields sample_pending_valid sample_bundle_valid sample_bundle_data sample_cluster_id_nonzero
  by (simp_all add: observeRotationBundle_def cp_get_def sample_rotating_def sample_tart_def sample_kc_world_def sample_tm_def
      DecodeBundleData_def BundleDataKey_def sample_talos_bundle_def ExtractRotationCertificateAuthorities_def sample_cas_def
      BundleStatePending_def BundleStateActive_def sample_meta_def Let_def)

lemma sample_rotation_observed:
  "run_state (observeControlPlaneCARotation sample_lib (sample_ca_lib ''1'') (sample_kc_world ms ids) (sample_talos_bundle ''1'')
      (sample_talos_bundle ''2'') (sample_cas ''1'') (sample_cas ''2'') [sample_kc_of_t1 n]) tr =
     (Inr [\<lparr>ro_machine = sample_kc_of_t1 n, ro_host = sample_kc_host n, ro_endpoint = HostTalosEndpoint (sample_kc_host n),
        ro_usedPending = True, ro_stage = CATrustStageStable\<rparr>], tr @ xs)"
  if "n = ''kc-0''" "xs = [CpDial n (CpBundle (sample_talos_bundle ''2'')), CpRpc n (CpBundle (sample_talos_bundle ''2'')) CpVersion,
     CpRpc n (CpBundle (sample_talos_bundle ''2'')) CpActiveConfiguration]"
proof -
  have named: "sample_kc_named (sample_kc_of_t1 n)" "name_of (sample_kc_of_t1 n) = n"
      "mt_deletionTimestamp (cm_meta (sample_kc_of_t1 n)) = None"
    using that by (simp_all add: sample_kc_of_t1_def sample_kc_machine_def sample_kc_named_def sample_meta_def)
  have "ObserveCATrustStage (sample_ca_lib ''1'') ''v1.35.0'' (sample_cas ''1'') (sample_cas ''2'') = Some CATrustStageStable"
    by (simp add: sample_ca_lib_def sample_cas_def sample_talos_bundle_def ObserveCATrustStage_def ObserveStage_def caStage_def
        acceptedCertificatesKnown_def containsAcceptedCertificate_def sameCertificate_def Let_def) code_simp
  moreover have "ce_dial (sample_kc_world ms ids) = (\<lambda>_ _. True)" "ce_text (sample_kc_world ms ids) = (\<lambda>_ _. Inr ''v1.35.0'')"
    by (simp_all add: sample_kc_world_def)
  ultimately show ?thesis using that named
    by (simp add: sample_kc_identity dialForRotation_def dialRotationBundle_def cp_dial_def cp_text_def sample_kc_endpoint
        observed_bundle_def Let_def is_ok_def)
qed

lemma sample_rotation_run:
  assumes "world = sample_kc_world [sample_kc_of_t1 ''kc-0''] ids"
  shows "\<exists>st new. run_state (reconcileCARotation sample_lib (sample_ca_lib ''1'') world sample_rotating False) [] = ((st, None), new) \<and>
    CpRpc ''kc-0'' (CpBundle (sample_talos_bundle ''2'')) CpReboot \<in> set new"
proof -
  have "cm_clusterName (sample_kc_of_t1 ''kc-0'') = mt_name (tc_meta sample_rotating)" "cst_activeSecretGeneration (tc_status sample_rotating) = 1"
      "cs_caRotationRequestedGeneration (tc_spec sample_rotating) = Some 2" "\<not> ClusterID_IsZero (cs_clusterID (tc_spec sample_rotating))"
      "ce_list_machines world = (\<lambda>_ _. Inr [sample_kc_of_t1 ''kc-0''])" "NextGeneration 1 = Inr 2"
      "ce_dial world = (\<lambda>_ _. True)" "ce_text world = (\<lambda>_ _. Inr ''v1.35.0'')" "ce_rpc world = (\<lambda>_ _. None)"
    using assms sample_cluster_id_nonzero
    by (simp_all add: sample_rotating_def sample_tart_def sample_kc_of_t1_def sample_meta_def sample_kc_world_def NextGeneration_def max_int32_def)
  moreover have "set_all_cas (sample_ca_lib ''1'') ''v1.35.0'' (sample_cas ''1'') (Some (sample_cas ''2'')) = Some ''edited''"
    by (simp add: set_all_cas_def SetMachineCertificateAuthority_def SetKubernetesAPICertificateAuthority_def
        SetKubernetesAggregatorCertificateAuthority_def sample_cas_def sample_talos_bundle_def sample_ca_lib_def Let_def) code_simp
  moreover note sample_rotation_observed[OF refl refl, of "[sample_kc_of_t1 ''kc-0'']" ids, folded assms]
    sample_rotation_bundles[of "[sample_kc_of_t1 ''kc-0'']" ids, folded assms]
  ultimately show ?thesis
    by (simp add: reconcileCARotation_def clusterMachinesForCARotation_def observe_and_rotate_def rotation_pass_def
        minimumCARotationStage_def advanceCATrust_def edit_observed_def observed_bundle_def dialRotationBundle_def cp_dial_def cp_text_def
        cp_rpc_def applyCARotationConfiguration_def sample_kc_endpoint Let_def
        del: observeControlPlaneCARotation.simps)
qed

subsection \<open>An upgrade, and the bootstrap\<close>

definition sample_ready_boot :: controlPlaneBootstrapState where
  "sample_ready_boot = zero_bootstrap_state\<lparr>bs_initialized := True, bs_etcdReady := True, bs_workloadReady := True\<rparr>"

lemma sample_kc_provided:
  "te_get_tart_machine (ce_tm (sample_kc_world ms ids) tr) es ns n = Inr (sample_kc_provider n)"
  "te_get_host (ce_tm (sample_kc_world ms ids) tr) es n = Inr (sample_kc_host n)"
  "mst_hostRef (m_status (sample_kc_provider n)) = Some n"
  "hs_consumerRef (h_spec (sample_kc_host n)) = Some ((sample_consumer [])\<lparr>ref_uid := ''tm-'' @ n\<rparr>)"
  "mt_uid (m_meta (sample_kc_provider n)) = ''tm-'' @ n"
  "sample_kc_named m \<Longrightarrow> ValidateProviderOwner (m_meta (sample_kc_provider (name_of m))) (cm_meta m) (lib_capi_group_version sample_lib) CAPIMachineKind = None"
  "lib_find_condition sample_lib (mst_conditions (m_status (sample_kc_provider n))) TartMachineReadyCondition =
     Some (sample_condition TartMachineReadyCondition ConditionTrue ''Ready'')"
  "cond_status (sample_condition t st r) = st"
  by (simp_all add: sample_kc_world_def sample_kc_provider_def sample_kc_host_def sample_lib_def k8s_reference_def ref_find_condition_def
      sample_condition_def sample_host_def sample_meta_def sample_machine_def sample_kc_named_def ValidateProviderOwner_def HasControllerOwner_def)

definition sample_silent_world :: "capi_machine list \<Rightarrow> cp_env" where
  "sample_silent_world machines = (sample_kc_world machines [])\<lparr>ce_etcd_status := \<lambda>_ _. Inl RpcFailed\<rparr>"

lemma sample_bootstrap_run:
  "CpRpc ''kc-0'' (CpConfiguration ''cfg'') CpBootstrap \<in>
    set (snd (run_state (reconcileControlPlaneBootstrap sample_lib sample_cp_lib (sample_silent_world [sample_kc_machine ''kc-0'' []])
      sample_kc sample_cluster [sample_kc_machine ''kc-0'' []]) []))"
proof -
  let ?m = "sample_kc_machine ''kc-0'' []" and ?E = "sample_silent_world [sample_kc_machine ''kc-0'' []]"
  have name: "controlPlaneChildName sample_lib (mt_name (k_meta sample_kc)) 0 [] = Some ''kc-0''"
    by (simp add: controlPlaneChildName_def sample_lib_def sample_kc_def sample_meta_def) code_simp
  have tm: "ce_tm ?E = ce_tm (sample_kc_world [?m] [])" "ce_dial ?E = (\<lambda>_ _. True)" "ce_etcd_status ?E = (\<lambda>_ _. Inl RpcFailed)" "ce_rpc ?E = (\<lambda>_ _. None)"
    "ce_bootstrap_exists ?E = (\<lambda>_ _. False)"
    by (simp_all add: sample_silent_world_def sample_kc_world_def)
  have boot: "fst (run_state (BootstrapConfiguration sample_lib (ce_tm ?E tr) (sample_kc_provider n)) []) = Inr ''cfg''" for tr n
    unfolding tm by (rule sample_kc_configuration)
  note owner = sample_kc_provided(6)[OF sample_kc_zero(1), unfolded sample_kc_zero(2)]
  have "run_state (observeFirstControlPlane sample_lib ?E ?m st) [] = (Inr (''kc-0'', ''cfg''), [])" for st
    using boot sample_kc_zero
    by (simp add: observeFirstControlPlane_def cp_get_def cp_read_def sample_kc_provided tm(1) owner sample_kc_named_def
        sample_kc_endpoint Let_def)
  moreover have "kst_controlPlaneInitialized (k_status sample_kc) = None" by (simp add: sample_kc_def)
  ultimately show ?thesis using name sample_kc_zero tm
    by (simp add: reconcileControlPlaneBootstrap_def reconcileFirstControlPlane_def reconcileFirstControlPlaneTalos_def
        cp_dial_def cp_rpc_def Let_def)
qed

definition sample_kc_mt :: TartMachineTemplate where
  "sample_kc_mt = \<lparr>mtpl_labels = [], mtpl_hostSelector = None, mtpl_image = ms_image (m_spec sample_machine)\<rparr>"

definition sample_kc_bt :: TartBootstrapConfigTemplate where
  "sample_kc_bt = \<lparr>btpl_labels = [], btpl_spec = bc_spec sample_bootstrap_config\<rparr>"

definition sample_zones :: "FailureDomain list" where
  "sample_zones = map (\<lambda>n. \<lparr>fd_name = n, fd_controlPlane = Some True\<rparr>) [''zone-b'', ''zone-a'']"

lemma sample_creation_run:
  fixes ids defines "E \<equiv> sample_kc_world [] ids"
  shows "CpMachineCreate (new_machine sample_lib sample_cp_lib sample_kc ''c1'' 0 ''zone-a'' ''kc-0'' ''kc-0-bootstrap'') \<in>
    set (snd (run_state (ensureMachines sample_lib sample_cp_lib E sample_kc ''c1'' 3 sample_zones mt bt) []))"
proof -
  have names: "controlPlaneChildName sample_lib (mt_name (k_meta sample_kc)) 0 [] = Some ''kc-0''"
      "bootstrapConfigName sample_lib (mt_name (k_meta sample_kc)) 0 = Some ''kc-0-bootstrap''"
    by (simp_all add: bootstrapConfigName_def controlPlaneChildName_def sample_lib_def sample_kc_def sample_meta_def) code_simp+
  have zone: "controlPlaneFailureDomain sample_zones 0 = Some ''zone-a''" by code_simp
  have listed: "run_state (listControlPlaneMachines sample_lib sample_cp_lib E sample_kc ''c1'') tr = (Inr [], tr)" for tr
    by (simp add: listControlPlaneMachines_def E_def sample_kc_world_def)
  have mismatch: "validateMachineReference (sample_kc_machine n []) sample_kc ''c1'' n b = Some (CpFailure ReasonMachineSpecMismatch
      ''The existing control-plane Machine does not match the TartControlPlane references.'')" for n b
    by (simp add: validateMachineReference_def sample_kc_machine_def sample_meta_def HasControllerOwner_def)
  have world: "ce_write E = (\<lambda>_ _. None)" "te_get_capi_machine (ce_tm E tr) = (\<lambda>_ _ n. Inr (sample_kc_machine n []))" for tr
    by (simp_all add: E_def sample_kc_world_def)
  have "[0..<nat 3] = 0 # [1, 2]" by (simp add: upt_rec)
  then show ?thesis using names zone listed mismatch world
    by (simp add: ensureMachines_def validateControlPlaneMachineOwners_def machine_of_ordinal_def createMachine_def cp_write_def cp_get_def
        ensure_existing_def)
qed

definition sample_promoting :: TartCluster where
  "sample_promoting = sample_rotating\<lparr>tc_status := (tc_status sample_tart)\<lparr>cst_activeSecretGeneration := 2\<rparr>\<rparr>"

lemma sample_promotion_run:
  "run_state (reconcileCARotation sample_lib (sample_ca_lib ''1'') (sample_kc_world ms ids) sample_promoting False) [] =
     ((rotation_completed, None), [CpSecretPatch (set_bundle_state BundleStateActive sample_pending_secret),
        CpSecretPatch (set_bundle_state BundleStateRetired sample_bundle_secret)])"
proof -
  have c: "cst_activeSecretGeneration (tc_status sample_promoting) = 2" "cs_caRotationRequestedGeneration (tc_spec sample_promoting) = Some 2"
    "cs_clusterID (tc_spec sample_promoting) = sample_cluster_id" "mt_name (tc_meta sample_promoting) = ''t1''"
    "mt_namespace (tc_meta sample_promoting) = ''default''" "mt_uid (tc_meta sample_promoting) = ''tu''"
    by (simp_all add: sample_promoting_def sample_rotating_def sample_tart_def sample_meta_def)
  have g: "NextGeneration 2 = Inr 3" by (simp add: NextGeneration_def max_int32_def)
  have secrets: "te_get_secret (ce_tm (sample_kc_world ms ids) tr) es ns (sec_name sample_pending_secret) = Inr sample_pending_secret"
    "te_get_secret (ce_tm (sample_kc_world ms ids) tr) es ns (sec_name sample_bundle_secret) = Inr sample_bundle_secret" for tr es ns
    using sample_pending_fields by (simp_all add: sample_kc_world_def)
  have active: "map_get (sec_labels sample_bundle_secret) BundleStateLabel = BundleStateActive"
    using sample_bundle_valid by (simp add: ValidateBundleSecretContract_ok)
  show ?thesis
    using sample_pending_fields sample_pending_valid sample_bundle_valid sample_cluster_id_nonzero active
    by (simp add: reconcileCARotation_def c g recoverCompletedCARotationRequest_def recoverCARotationPromotion_def promotable_secret_def
        cp_get_def secrets validateCARotationPromotionState_def promote_secret_def cp_write_def sample_kc_accepts demoteCARotationSecret_def Let_def
        BundleStatePending_def BundleStateActive_def)
qed

definition sample_single :: capi_machine where
  "sample_single =
     (let m = new_machine sample_lib sample_cp_lib sample_kc ''c1'' 0 [] ''kc-0'' ''kc-0-bootstrap''
      in m\<lparr>cm_meta := (cm_meta m)\<lparr>mt_uid := ''uid-kc-0''\<rparr>, cm_conditions := [sample_condition ''Ready'' ConditionTrue ''Ready'']\<rparr>)"

abbreviation sample_single_world :: cp_env where
  "sample_single_world \<equiv> sample_kc_world [sample_single] [1]"

lemma sample_single_fields:
  "sample_kc_named sample_single" "name_of sample_single = ''kc-0''" "mt_uid (cm_meta sample_single) = ''uid-kc-0''"
  "mt_deletionTimestamp (cm_meta sample_single) = None" "cm_failureDomain sample_single = []"
  "HasControllerOwner (mt_owners (cm_meta sample_single)) (k_meta sample_kc) controlplane_group_version TartControlPlaneKind"
  "validateMachineReference sample_single sample_kc ''c1'' ''kc-0'' ''kc-0-bootstrap'' = None"
  "lib_find_condition sample_lib (cm_conditions sample_single) (lib_machine_ready sample_lib) = Some (sample_condition ''Ready'' ConditionTrue ''Ready'')"
  "map_of (mt_labels (cm_meta sample_single)) (lib_cluster_name_label sample_lib) = Some ''c1''"
  "map_of (mt_labels (cm_meta sample_single)) (kp_control_plane_name_label sample_cp_lib) = Some ''kc''"
  by (simp_all add: sample_single_def new_machine_def new_meta_def sample_kc_named_def HasControllerOwner_def controllerOwnerReference_def
      validateMachineReference_def sample_kc_def sample_meta_def Let_def sample_lib_def k8s_reference_def ref_find_condition_def
      sample_condition_def controlPlaneMetadata_def sample_cp_lib_def controlPlaneOrdinalLabel_def)

lemma sample_single_followed: "run_state (ensureMachineTemplateFields E sample_single sample_kc) tr = (None, tr)"
  by (simp add: ensureMachineTemplateFields_def sample_single_def new_machine_def new_meta_def Let_def)

lemma sample_kc_names:
  "controlPlaneChildName sample_lib (mt_name (k_meta sample_kc)) 0 [] = Some ''kc-0''"
  "bootstrapConfigName sample_lib (mt_name (k_meta sample_kc)) 0 = Some ''kc-0-bootstrap''"
  by (simp_all add: bootstrapConfigName_def controlPlaneChildName_def sample_lib_def sample_kc_def sample_meta_def) code_simp+

lemma sample_single_listed:
  "run_state (listControlPlaneMachines sample_lib sample_cp_lib sample_single_world sample_kc ''c1'') tr = (Inr [sample_single], tr)"
  using sample_single_fields by (simp add: listControlPlaneMachines_def) (simp add: sample_kc_world_def sample_kc_def sample_meta_def)

lemma sample_single_resources:
  "\<exists>es. run_state (ensureProviderResources sample_lib sample_cp_lib sample_single_world sample_kc ''c1'' 0 sample_single sample_kc_mt sample_kc_bt) tr =
     (None, tr @ es)"
proof -
  have owner: "ValidateProviderOwner (m_meta (sample_kc_provider ''kc-0'')) (cm_meta sample_single) (lib_capi_group_version sample_lib) CAPIMachineKind = None"
    using sample_kc_provided(6)[OF sample_single_fields(1)] by (simp add: sample_single_fields)
  have sync: "\<exists>es. run_state (syncMachineTemplate sample_single_world (sample_kc_provider ''kc-0'')
      (expected_machine sample_lib sample_cp_lib sample_kc ''c1'' 0 sample_single sample_kc_mt)) t = (None, t @ es)" for t
    by (simp add: syncMachineTemplate_def expected_machine_def sample_kc_mt_def sample_kc_provider_def sample_meta_def map_get_def
        patchTemplateDigest_machine_def cp_write_def sample_kc_accepts Let_def)
  have config: "te_get_bootstrap_config (ce_tm sample_single_world t) es ns n = Inr sample_kc_config"
      "te_get_tart_machine (ce_tm sample_single_world t) es ns n = Inr (sample_kc_provider n)" for t es ns n
    by (simp_all add: sample_kc_world_def)
  have config_owner: "ValidateProviderOwner (bc_meta sample_kc_config) (cm_meta sample_single) (lib_capi_group_version sample_lib) CAPIMachineKind = None"
    using sample_single_fields by (simp add: ValidateProviderOwner_def HasControllerOwner_def sample_kc_config_def sample_lib_def k8s_reference_def)
  have boot: "\<exists>es. run_state (ensure_bootstrap sample_lib sample_cp_lib sample_single_world sample_kc ''c1'' 0 sample_single sample_kc_bt) t =
      (None, t @ es)" for t
    by (simp add: ensure_bootstrap_def sample_kc_names get_or_create_def cp_get_def config config_owner Let_def)
      (simp add: syncBootstrapTemplate_def sample_kc_config_def sample_kc_bt_def expected_bootstrap_def sample_meta_def map_get_def
        patchTemplateDigest_bootstrap_def cp_write_def sample_kc_accepts sample_bootstrap_config_def Let_def)
  obtain es where es: "run_state (syncMachineTemplate sample_single_world (sample_kc_provider ''kc-0'')
      (expected_machine sample_lib sample_cp_lib sample_kc ''c1'' 0 sample_single sample_kc_mt)) tr = (None, tr @ es)" using sync by blast
  obtain fs where fs: "run_state (ensure_bootstrap sample_lib sample_cp_lib sample_single_world sample_kc ''c1'' 0 sample_single sample_kc_bt) (tr @ es) =
      (None, (tr @ es) @ fs)" using boot by blast
  have "same_selector (ms_hostSelector (m_spec (sample_kc_provider ''kc-0'')))
      (ms_hostSelector (m_spec (expected_machine sample_lib sample_cp_lib sample_kc ''c1'' 0 sample_single sample_kc_mt)))"
    by (simp add: same_selector_def sample_kc_provider_def sample_machine_def expected_machine_def sample_kc_mt_def)
  then show ?thesis using es fs owner sample_single_fields
    by (simp add: ensureProviderResources_def get_or_create_def cp_get_def config Let_def)
qed

lemma sample_single_machines:
  "\<exists>es. run_state (ensureMachines sample_lib sample_cp_lib sample_single_world sample_kc ''c1'' 1 [] sample_kc_mt sample_kc_bt) tr =
     (Inr ([sample_single], None), tr @ es)"
proof -
  obtain es where es: "run_state (ensureProviderResources sample_lib sample_cp_lib sample_single_world sample_kc ''c1'' 0 sample_single sample_kc_mt sample_kc_bt) tr =
     (None, tr @ es)" using sample_single_resources by blast
  have "validateControlPlaneMachineOwners [sample_single] sample_kc = None"
    using sample_single_fields by (simp add: validateControlPlaneMachineOwners_def)
  then show ?thesis using es
    by (simp add: ensureMachines_def sample_single_listed sample_single_fields sample_kc_names machine_of_ordinal_def ensure_existing_def
        sample_single_followed)
qed

lemma sample_single_boot:
  "\<exists>st es. run_state (reconcileControlPlaneBootstrap sample_lib sample_cp_lib sample_single_world sample_kc sample_cluster [sample_single]) tr =
     ((st, None), tr @ es) \<and> bs_initialized st \<and> bs_workloadReady st"
proof -
  let ?E = sample_single_world
  note owner = sample_kc_provided(6)[OF sample_single_fields(1), unfolded sample_single_fields(2)]
  have boot: "fst (run_state (BootstrapConfiguration sample_lib (ce_tm ?E t) (sample_kc_provider n)) []) = Inr ''cfg''" for t n
    by (rule sample_kc_configuration)
  have observed: "run_state (observeFirstControlPlane sample_lib ?E sample_single st) tr = (Inr (''kc-0'', ''cfg''), tr)" for st
    using boot sample_single_fields
    by (simp add: observeFirstControlPlane_def cp_get_def cp_read_def sample_kc_provided owner sample_kc_named_def sample_kc_endpoint Let_def)
  have world: "ce_dial ?E = (\<lambda>_ _. True)" "ce_text ?E = (\<lambda>_ _. Inr ''v1.35.0'')" "ce_kubeconfig_host ?E = (\<lambda>_. Some ''https://ep:6443'')"
    "ce_readyz ?E = (\<lambda>_ _. True)" "ce_write ?E = (\<lambda>_ _. None)"
    "ce_etcd_status ?E t (CpRpc ''kc-0'' a r) = Inr \<lparr>es_memberID = 1, es_leader = 1, es_errors = []\<rparr>"
    "te_get_secret (ce_tm ?E t) x ns ''c1-kubeconfig'' = Inl ApiNotFound" for t a r x ns
    by (simp_all add: sample_kc_world_def sample_member_def)
  have cluster: "mt_namespace (cl_meta sample_cluster) = ''default''" "mt_name (cl_meta sample_cluster) = ''c1''" "mt_uid (cl_meta sample_cluster) \<noteq> []"
    by (simp_all add: sample_cluster_def sample_meta_def)
  show ?thesis using observed cluster
    by (simp add: reconcileControlPlaneBootstrap_def sample_kc_names sample_single_fields reconcileFirstControlPlane_def
        reconcileFirstControlPlaneTalos_def cp_dial_def world etcdStatusHealthy_def report_initialized_def cp_text_def
        workloadAPIReady_def ensureKubeconfigSecret_def kubeconfig_secret_def cp_get_def cp_write_def not_ready_def
        zero_bootstrap_state_def Let_def)
qed

lemma sample_single_upgrade:
  assumes "bs_initialized boot" "bs_workloadReady boot"
  shows "\<exists>up es. run_state (reconcileKubernetesUpgrade sample_lib sample_cp_lib sample_single_world sample_kc sample_cluster [sample_single] boot False 1) tr =
      (up, tr @ es) \<and> CpRpc ''kc-0'' (CpConfiguration ''cfg'') (CpUpgradeKubernetes ''v1.35.0'' ''v1.36.0'' ''ep:6443'') \<in> set es"
proof -
  let ?E = sample_single_world
  have obs: "run_state (observeKubernetesUpgradeTarget sample_lib ?E [sample_single]) tr = (Some (''kc-0'', ''cfg''), tr @ sample_kc_asked ''kc-0'' CpEtcdStatus)"
    using sample_single_fields by (simp add: observeKubernetesUpgradeTarget_def sample_kc_observations summarizeEtcdObservations_def
        sample_kc_observation_def etcdStatusHealthy_def sample_member_def sample_kc_endpoint del: observeEtcdMachineObservations.simps)
  have ready: "countMachineCondition sample_lib [sample_single] (lib_machine_ready sample_lib) = 1"
    by (simp add: countMachineCondition_def sample_single_fields sample_kc_provided)
  have decision: "ud_action (evaluateKubernetesUpgrade
      \<lparr>pf_desiredVersion = ''v1.36.0'', pf_observedVersion = ''v1.35.0'', pf_versionObserved = True, pf_controlPlaneInitialized = True,
       pf_workloadAPIReady = True, pf_talosReachable = True, pf_etcdQuorumHealthy = True, pf_machinesReady = True,
       pf_otherOperationInProgress = False\<rparr>) = UpgradeUpgrade" by code_simp
  have texts: "ce_dial ?E = (\<lambda>_ _. True)" "ce_text ?E = (\<lambda>_ _. Inr ''v1.35.0'')" "ce_rpc ?E = (\<lambda>_ _. None)" "ce_write ?E = (\<lambda>_ _. None)"
    "te_get_lease (ce_tm ?E t) = (\<lambda>_ _ _. Inl ApiNotFound)" for t by (simp_all add: sample_kc_world_def sample_tm_def)
  have ep: "controlPlaneEndpointAddress sample_cp_lib sample_cluster = ''ep:6443''"
    by (simp add: controlPlaneEndpointAddress_def sample_cp_lib_def sample_cluster_def)
  have spec: "ks_version (k_spec sample_kc) = ''v1.36.0''" by (simp add: sample_kc_def)
  show ?thesis using assms obs ready decision spec texts ep
    by (simp add: reconcileKubernetesUpgrade_def upgrade_preflight_def Let_def
        observeClusterKubernetesVersion_def dialKubernetesUpgradeClient_def cp_dial_def cp_text_def perform_upgrade_def
        acquireKubernetesUpgradeLease_def cp_get_def cp_write_def runKubernetesUpgrade_def cp_rpc_def releaseKubernetesUpgradeLease_def
        del: upgrade_decided_iff)
qed

lemma sample_single_operations:
  "\<exists>r es. run_state (control_plane_operations sample_lib sample_cp_lib C sample_single_world sample_kc ''c1'' sample_cluster sample_tart 1
       [sample_single] False) tr = (r, tr @ es) \<and>
     CpRpc ''kc-0'' (CpConfiguration ''cfg'') (CpUpgradeKubernetes ''v1.35.0'' ''v1.36.0'' ''ep:6443'') \<in> set es"
proof -
  obtain boot es where b: "run_state (reconcileControlPlaneBootstrap sample_lib sample_cp_lib sample_single_world sample_kc sample_cluster [sample_single]) tr =
     ((boot, None), tr @ es)" "bs_initialized boot" "bs_workloadReady boot" using sample_single_boot by blast
  have r: "\<exists>rot. run_state (reconcileCARotation sample_lib C sample_single_world sample_tart False) t = ((rot, None), t) \<and> \<not> rot_active rot" for t
    by (simp add: reconcileCARotation_def sample_tart_def rotation_def Let_def)
  obtain up fs where u: "run_state (reconcileKubernetesUpgrade sample_lib sample_cp_lib sample_single_world sample_kc sample_cluster [sample_single] boot False 1)
      (tr @ es) = (up, (tr @ es) @ fs)" "CpRpc ''kc-0'' (CpConfiguration ''cfg'') (CpUpgradeKubernetes ''v1.35.0'' ''v1.36.0'' ''ep:6443'') \<in> set fs"
    using sample_single_upgrade[OF b(2,3)] by blast
  obtain rot where r': "run_state (reconcileCARotation sample_lib C sample_single_world sample_tart False) (tr @ es) = ((rot, None), tr @ es)"
      "\<not> rot_active rot" using r by blast
  have "\<exists>x. run_state (controlPlaneEndpointConverged sample_lib sample_cp_lib sample_single_world sample_cluster [sample_single]) t = (x, t)" for t
    using emits_nothing[OF emits_endpointConverged] by blast
  then obtain x where e: "run_state (controlPlaneEndpointConverged sample_lib sample_cp_lib sample_single_world sample_cluster [sample_single]) ((tr @ es) @ fs) =
      (x, (tr @ es) @ fs)" by blast
  show ?thesis using b(1) r' u e
    by (cases x) (simp add: control_plane_operations_def cp_get_def patch_control_plane_def cp_write_def)
qed

lemma sample_pass_run:
  "\<exists>r es. run_state (Reconcile_TartControlPlane sample_lib sample_cp_lib C sample_single_world ''default'' ''kc'') [] = (r, es) \<and>
     CpRpc ''kc-0'' (CpConfiguration ''cfg'') (CpUpgradeKubernetes ''v1.35.0'' ''v1.36.0'' ''ep:6443'') \<in> set es"
proof -
  let ?E = sample_single_world
  have spec: "controlPlaneClusterName sample_lib sample_kc = Inr ''c1''" "desiredControlPlaneReplicas sample_kc = Inr 1" "ks_version (k_spec sample_kc) \<noteq> []"
    "\<not> IsPaused sample_lib (k_meta sample_kc)" "mt_deletionTimestamp (k_meta sample_kc) = None" "mt_namespace (k_meta sample_kc) = ''default''"
    by (simp_all add: controlPlaneClusterName_def desiredControlPlaneReplicas_def sample_kc_def sample_meta_def map_get_def sample_lib_def
        k8s_reference_def IsPaused_def)
  have reads: "ce_get_control_plane ?E [] ''default'' ''kc'' = Inr sample_kc" "te_get_cluster (ce_tm ?E []) [] ns n = Inr sample_cluster"
    "run_state (getTartCluster ?E sample_cluster) [] = (Inr sample_tart, [])" for ns n
    using sample_cluster_id_nonzero
    by (simp_all add: sample_kc_world_def getTartCluster_def cp_get_def sample_cluster_def sample_tart_def)
  have active: "run_state (validateActiveBundle sample_lib ?E sample_tart) [] = (None, [])"
    using sample_pending_fields sample_bundle_valid sample_bundle_data sample_cluster_id_nonzero
    by (simp add: validateActiveBundle_def sample_tart_def sample_meta_def cp_get_def sample_kc_world_def sample_tm_def DecodeBundleData_def
        BundleDataKey_def sample_talos_bundle_def Let_def)
  have templates: "run_state (getTartMachineTemplate ?E ns (kmt_infrastructureRef (ks_machineTemplate (k_spec sample_kc)))) [] = (Inr sample_kc_mt, [])"
    "run_state (getBootstrapTemplate ?E ns (ks_bootstrapConfigTemplateRef (k_spec sample_kc))) [] = (Inr sample_kc_bt, [])" for ns
    by (simp_all add: getTartMachineTemplate_def getBootstrapTemplate_def sample_kc_def sample_kc_world_def sample_kc_mt_def sample_kc_bt_def)
  have domains: "cst_failureDomains (tc_status sample_tart) = []" by (simp add: sample_tart_def)
  obtain es where es: "run_state (ensureMachines sample_lib sample_cp_lib ?E sample_kc ''c1'' 1 [] sample_kc_mt sample_kc_bt) [] =
     (Inr ([sample_single], None), [] @ es)" using sample_single_machines by blast
  obtain r fs where fs: "run_state (control_plane_operations sample_lib sample_cp_lib C ?E sample_kc ''c1'' sample_cluster sample_tart 1
       [sample_single] False) es = (r, es @ fs)"
     "CpRpc ''kc-0'' (CpConfiguration ''cfg'') (CpUpgradeKubernetes ''v1.35.0'' ''v1.36.0'' ''ep:6443'') \<in> set fs"
    using sample_single_operations by blast
  show ?thesis using spec reads active templates domains es fs
    by (simp add: Reconcile_TartControlPlane_def reconcile_active_def control_plane_templates_def control_plane_machines_def cp_get_def)
qed

end
