(* ===== verification/ControlPlaneProperties.thy ===== *)
theory ControlPlaneProperties
  imports ControlPlaneSamples
begin

section \<open>Properties of the control plane reconciler\<close>

text \<open>
  What \<open>controller/tartcontrolplane\<close> guarantees about the etcd members, the certificate
  authorities, the Kubernetes version and the machines of a control plane, each with a run of the
  reconciler on the objects of \<open>ControlPlaneSamples\<close> that meets its hypotheses.
\<close>

text \<open>C3. During a scale-down an etcd member is removed only when the control plane has more machines
  than asked for: it is the member of the deleted machine, whose termination waits for the hook, it is
  removed through another machine, every machine answered with a member of its own and no other voting
  member exists, and the healthy members are a majority before the removal and after it.\<close>

theorem member_removed_only_with_quorum:
  assumes run: "run_state (reconcileScaleDown L K E machines desired) tr = (r, tr @ new)"
    and removal: "CpRpc ep au (CpRemoveEtcdMember i) \<in> set new"
  shows "desired < int (length machines) \<and> (\<exists>target obs ob members survivor t.
    target \<in> set machines \<and> machineWaitingForPreTerminateHook L K target \<and>
    map eo_machine obs = machines \<and> list_all (member_observed L E) obs \<and> ob \<in> set obs \<and>
    mt_uid (cm_meta (eo_machine ob)) = mt_uid (cm_meta target) \<and> i = es_memberID (eo_status ob) \<and>
    survivor \<in> set obs \<and> mt_uid (cm_meta (eo_machine survivor)) \<noteq> mt_uid (cm_meta target) \<and>
    ce_etcd_members E t (rpc_of (eo_host survivor) (eo_config survivor) CpEtcdMembers) = Inr members \<and>
    quorum_safe_removal obs members i)"
  using removal_from_scale_down[OF run removal] unfolding handles_removal_def by blast

theorem member_removed_only_with_quorum_witness:
  "let new = snd (run_state (reconcileScaleDown sample_lib sample_cp_lib (sample_kc_world [] [1, 2, 3]) (sample_kc_machines []) 2) [])
   in CpRpc ''kc-0'' (CpConfiguration ''cfg'') (CpRemoveEtcdMember 3) \<in> set new \<and>
      (\<exists>obs members. map eo_machine obs = sample_kc_machines [] \<and> quorum_safe_removal obs members 3)"
proof -
  let ?run = "run_state (reconcileScaleDown sample_lib sample_cp_lib (sample_kc_world [] [1, 2, 3]) (sample_kc_machines []) 2) []"
  have e: "CpRpc ''kc-0'' (CpConfiguration ''cfg'') (CpRemoveEtcdMember 3) \<in> set (snd ?run)"
    by (simp add: sample_removal_run sample_kc_asked_def)
  from member_removed_only_with_quorum[OF from_start e] e show ?thesis by (auto simp: Let_def)
qed

text \<open>C13. During a scale-down the hook that holds a deleted machine goes only when another machine that is
  not being deleted listed the etcd members and the member recorded on the deleted machine was not among
  them; nothing but the hook and the record changes on the machine.\<close>

theorem hook_removed_only_when_member_gone:
  assumes run: "run_state (reconcileScaleDown L K E machines desired) tr = (r, tr @ new)"
    and off: "CpMachinePatch m \<in> set new"
      "map_get (mt_annotations (cm_meta m)) (controlPlaneEtcdDeleteHook K) \<noteq> ControlPlaneEtcdDeleteHookValue"
  shows "desired < int (length machines) \<and> (\<exists>target \<in> set machines. \<exists>survivor \<in> set machines. \<exists>annotated memberID members tr'.
    machineWaitingForPreTerminateHook L K target \<and> m = drop_hook K target \<and>
    map_of (mt_annotations (cm_meta target)) controlPlaneEtcdMemberID = Some annotated \<and>
    parse_uint 64 annotated = Some memberID \<and> memberID \<noteq> 0 \<and>
    mt_uid (cm_meta survivor) \<noteq> mt_uid (cm_meta target) \<and> mt_deletionTimestamp (cm_meta survivor) = None \<and>
    run_state (observeEtcdMembers L E survivor) tr = (Some members, tr') \<and>
    of_nat memberID \<notin> em_id ` set members)"
proof -
  have "desired < int (length machines)"
  proof (rule ccontr)
    assume "\<not> ?thesis"
    with run off show False by (simp add: reconcileScaleDown_def)
  qed
  moreover from hook_removed[OF run off] obtain target annotated memberID survivor members tr' where
    "handles_removal L K machines target" "m = drop_hook K target"
    "map_of (mt_annotations (cm_meta target)) controlPlaneEtcdMemberID = Some annotated"
    "parse_uint 64 annotated = Some memberID" "memberID \<noteq> 0"
    "survivor \<in> set machines" "mt_uid (cm_meta survivor) \<noteq> mt_uid (cm_meta target)" "mt_deletionTimestamp (cm_meta survivor) = None"
    "run_state (observeEtcdMembers L E survivor) tr = (Some members, tr')" "\<not> containsEtcdMember members (of_nat memberID)"
    by blast
  moreover from this have "of_nat memberID \<notin> em_id ` set members" by (auto simp: containsEtcdMember_def list_ex_iff)
  ultimately show ?thesis unfolding handles_removal_def by blast
qed

theorem hook_removed_only_when_member_gone_witness:
  "let m = drop_hook sample_cp_lib (sample_kc_leaving [(controlPlaneEtcdMemberID, ''3'')])
   in CpMachinePatch m \<in> set (snd (run_state (reconcileScaleDown sample_lib sample_cp_lib (sample_kc_world [] [1, 2])
         (sample_kc_machines [(controlPlaneEtcdMemberID, ''3'')]) 2) [])) \<and>
      (\<exists>target \<in> set (sample_kc_machines [(controlPlaneEtcdMemberID, ''3'')]). m = drop_hook sample_cp_lib target)"
proof -
  let ?m = "drop_hook sample_cp_lib (sample_kc_leaving [(controlPlaneEtcdMemberID, ''3'')])"
  have e: "CpMachinePatch ?m \<in> set (snd (run_state (reconcileScaleDown sample_lib sample_cp_lib (sample_kc_world [] [1, 2])
         (sample_kc_machines [(controlPlaneEtcdMemberID, ''3'')]) 2) []))" by (simp add: sample_hook_run)
  from hook_removed_only_when_member_gone[OF from_start e sample_kc_unhooked] e show ?thesis by (auto simp: Let_def)
qed

text \<open>C37. The etcd member of a deleted machine is recorded on the machine before its removal is decided,
  and once it is recorded no pass requests the removal: while the member is still listed the pass
  reads the list and reports that nothing is pending.\<close>

theorem recorded_member_never_removed:
  assumes "desired < int (length machines)"
    and "order_machines (filter (\<lambda>m. mt_deletionTimestamp (cm_meta m) \<noteq> None) machines) = target # rest"
    and "map_get (mt_annotations (cm_meta target)) (controlPlaneEtcdDeleteHook K) = ControlPlaneEtcdDeleteHookValue"
    and "machineWaitingForPreTerminateHook L K target"
    and "map_of (mt_annotations (cm_meta target)) controlPlaneEtcdMemberID = Some annotated"
    and "parse_uint 64 annotated = Some memberID" "memberID \<noteq> 0"
    and "firstControlPlaneSurvivor machines (mt_uid (cm_meta target)) = Some survivor"
    and "run_state (observeEtcdMembers L E survivor) tr = (Some members, tr')" "of_nat memberID \<in> em_id ` set members"
  shows "run_state (reconcileScaleDown L K E machines desired) tr = ((False, None), tr') \<and>
    (\<exists>new. tr' = tr @ new \<and> list_all cp_observes new)"
proof -
  have "containsEtcdMember members (of_nat memberID)" using assms(10) by (auto simp: containsEtcdMember_def list_ex_iff)
  note still_listed[OF assms(4-9) this]
  moreover have "only_observes (observeEtcdMembers L E survivor)" unfolding only_observes_def by (rule observing_etcd_members)
  ultimately show ?thesis using only_observesD assms(9) by (simp add: run_scale_down[OF assms(1-3)])
qed

theorem recorded_member_never_removed_witness:
  "\<exists>new. run_state (reconcileScaleDown sample_lib sample_cp_lib (sample_kc_world [] [1, 2, 3])
      (sample_kc_machines [(controlPlaneEtcdMemberID, ''3'')]) 2) [] = ((False, None), new) \<and> list_all cp_observes new"
proof -
  let ?as = "[(controlPlaneEtcdMemberID, ''3'')]"
  have first: "firstControlPlaneSurvivor (sample_kc_machines ?as) (mt_uid (cm_meta (sample_kc_leaving ?as))) = Some (sample_kc_machine ''kc-0'' [])"
    by (simp add: firstControlPlaneSurvivor_def sample_kc_machines_def sample_kc_machine_def sample_kc_leaving_def sample_meta_def)
  have "(2 :: int) < int (length (sample_kc_machines ?as))" by (simp add: sample_kc_length)
  from recorded_member_never_removed[OF this sample_kc_order sample_kc_hooked sample_kc_leaving_waits sample_kc_annotated sample_kc_three(1) _ first
      sample_kc_listed[OF sample_kc_zero(1), of "[]" "[1, 2, 3]"]]
  show ?thesis by (simp add: sample_kc_three)
qed
text \<open>C7. A pass of the CA rotation changes only machines at the least advanced stage that it observed on
  the machines of the cluster, each to the configuration of the next stage. The status of the
  cluster and the labels of the bundle Secrets are patched only when every machine has reached
  the last stage, the status first; the Secrets are then the one of the requested generation,
  to be active, and the one before it, to be retired. A pass that ends without an error before
  that has rebooted every machine at the least stage. Only when the requested generation is
  already the active one does a pass do nothing but relabel these two Secrets.\<close>

theorem rotation_pass_edits_least_stage:
  assumes run: "run_state (reconcileCARotation L C E cluster scaleDown) tr = ((st, err), tr @ new)"
    and e: "e \<in> set new" "rotates e"
  shows "(cs_caRotationRequestedGeneration (tc_spec cluster) = Some (cst_activeSecretGeneration (tc_status cluster)) \<and>
     (\<forall>x \<in> set new. \<exists>s. x = CpSecretPatch s \<and>
        (generation_secret L cluster (cst_activeSecretGeneration (tc_status cluster)) BundleStateActive s \<or>
         generation_secret L cluster (cst_activeSecretGeneration (tc_status cluster) - 1) BundleStateRetired s))) \<or>
   (\<exists>target active pending obs. \<not> scaleDown \<and> rotation_of_pass L C E cluster tr target active pending obs \<and>
    (let stage = minimumCARotationStage obs
     in (\<forall>ob \<in> set obs. stage_index stage \<le> stage_index (ro_stage ob)) \<and>
        (\<forall>ep au c. CpRpc ep au (CpApplyConfiguration c) \<in> set new \<longrightarrow>
           (\<exists>ob issuing accepted t cfg. ob \<in> set obs \<and> ro_stage ob = stage \<and> ep = ro_endpoint ob \<and>
              stage_edit stage (snd active) (snd pending) = Some (issuing, accepted) \<and>
              ce_text E t (CpRpc ep au CpActiveConfiguration) = Inr cfg \<and> set_all_cas C cfg issuing accepted = Some c)) \<and>
        (\<forall>ep au. CpRpc ep au CpReboot \<in> set new \<longrightarrow> (\<exists>ob \<in> set obs. ro_stage ob = stage \<and> ep = ro_endpoint ob)) \<and>
        (\<forall>k. CpClusterStatusPatch k \<in> set new \<longrightarrow>
           (\<forall>ob \<in> set obs. ro_stage ob = CATrustStageRotated) \<and> k = set_active_generation target cluster) \<and>
        (\<forall>s. CpSecretPatch s \<in> set new \<longrightarrow>
           (\<forall>ob \<in> set obs. ro_stage ob = CATrustStageRotated) \<and>
           (generation_secret L cluster target BundleStateActive s \<or> generation_secret L cluster (target - 1) BundleStateRetired s) \<and>
           (\<exists>before after. new = before @ CpSecretPatch s # after \<and> CpClusterStatusPatch (set_active_generation target cluster) \<in> set before)) \<and>
        (err = None \<and> stage \<noteq> CATrustStageRotated \<longrightarrow>
           (\<forall>ob \<in> set obs. ro_stage ob = stage \<longrightarrow> (\<exists>r \<in> set new. reboots ob r)))))"
    (is "?R \<or> (\<exists>target active pending obs. _ \<and> _ \<and> ?Q target active pending obs)")
proof (cases rule: reconcileCARotation_pass[OF run e, case_names pass resumed])
  case resumed
  have "\<exists>s. x = CpSecretPatch s \<and>
      (generation_secret L cluster (cst_activeSecretGeneration (tc_status cluster)) BundleStateActive s \<or>
       generation_secret L cluster (cst_activeSecretGeneration (tc_status cluster) - 1) BundleStateRetired s)" if x: "x \<in> set new" for x
  proof -
    from resumed(3) x obtain s where s: "x = CpSecretPatch s" by blast
    with emits_new[OF rotation_secrets_emitted[OF resumed(2)] run] x show ?thesis by blast
  qed
  with resumed(2) have ?R by blast
  then show ?thesis ..
next
  case (pass target aB aCA pB pCA obs seen new2)
  note p = pass
  have req: "cs_caRotationRequestedGeneration (tc_spec cluster) = Some target"
      "cst_activeSecretGeneration (tc_status cluster) \<noteq> target"
    using p(2) by (auto simp: rotation_of_pass_def Let_def NextGeneration_def split: if_splits)
  have obs: "obs \<noteq> []" "list_all (rotation_observed C E aB pB aCA pCA) obs" using p(2) by (auto simp: rotation_of_pass_def Let_def)
  define stage where "stage = minimumCARotationStage obs"
  have known: "stage \<noteq> CATrustStageUnknown" using minimum_stage(1)[OF obs(1)] obs(2)
    by (auto simp: stage_def rotation_observed_def list_all_iff)
  have least: "\<forall>ob \<in> set obs. stage_index stage \<le> stage_index (ro_stage ob)" using minimum_stage(2)[OF obs(1)] by (simp add: stage_def)
  have all_rotated: "\<forall>ob \<in> set obs. ro_stage ob = CATrustStageRotated" if "stage = CATrustStageRotated"
    using least obs(2) that unfolding list_all_iff rotation_observed_def by (metis rotated_is_last)
  have old: "x \<in> set new2" if "x \<in> set new" "\<not> cp_observes x" for x
    using that p(3,4) by (auto simp: list_all_iff)
  note ev = rotation_pass_events[OF p(5), folded stage_def]
  have secret: "CpSecretPatch s \<in> set new2" if "CpSecretPatch s \<in> set new" for s using old[OF that] by simp
  have "?Q target (aB, aCA) (pB, pCA) obs"
    unfolding stage_def[symmetric] Let_def snd_conv
  proof (intro conjI allI impI ballI)
    fix ep au c assume "CpRpc ep au (CpApplyConfiguration c) \<in> set new"
    then show "\<exists>ob issuing accepted t cfg. ob \<in> set obs \<and> ro_stage ob = stage \<and> ep = ro_endpoint ob \<and>
        stage_edit stage aCA pCA = Some (issuing, accepted) \<and>
        ce_text E t (CpRpc ep au CpActiveConfiguration) = Inr cfg \<and> set_all_cas C cfg issuing accepted = Some c"
      using ev(1) old by simp
  next
    fix ep au assume "CpRpc ep au CpReboot \<in> set new"
    then show "\<exists>ob \<in> set obs. ro_stage ob = stage \<and> ep = ro_endpoint ob" using ev(2) old by fastforce
  next
    fix k ob assume "CpClusterStatusPatch k \<in> set new" "ob \<in> set obs"
    then show "ro_stage ob = CATrustStageRotated" using ev(3)[of k] old[of "CpClusterStatusPatch k"] all_rotated by auto
  next
    fix k assume "CpClusterStatusPatch k \<in> set new"
    then show "k = set_active_generation target cluster" using ev(3) old by simp
  next
    fix s ob assume "CpSecretPatch s \<in> set new" "ob \<in> set obs"
    then show "ro_stage ob = CATrustStageRotated" using ev(5)[OF secret req(2)] all_rotated by blast
  next
    fix s assume "CpSecretPatch s \<in> set new"
    then show "generation_secret L cluster target BundleStateActive s \<or> generation_secret L cluster (target - 1) BundleStateRetired s"
      using emits_new[OF rotation_secrets_emitted[OF req(1)] run] by auto
  next
    fix s assume "CpSecretPatch s \<in> set new"
    from ev(5)[OF secret[OF this] req(2)] obtain before after where
      "new2 = before @ CpSecretPatch s # after" "CpClusterStatusPatch (set_active_generation target cluster) \<in> set before" by blast
    with p(3) show "\<exists>before after. new = before @ CpSecretPatch s # after \<and> CpClusterStatusPatch (set_active_generation target cluster) \<in> set before"
      by (intro exI[of _ "seen @ before"] exI[of _ after]) simp
  next
    fix ob assume "err = None \<and> stage \<noteq> CATrustStageRotated" "ob \<in> set obs" "ro_stage ob = stage"
    moreover have "stage_edit stage aCA pCA \<noteq> None" if "stage \<noteq> CATrustStageRotated" using that known by (cases stage) auto
    ultimately show "\<exists>r \<in> set new. reboots ob r" using ev(4) p(3) by auto
  qed (use least in simp)
  with p(1,2) show ?thesis by blast
qed

theorem rotation_pass_edits_least_stage_witness:
  "\<exists>obs. rotation_of_pass sample_lib (sample_ca_lib ''1'') (sample_kc_world [sample_kc_of_t1 ''kc-0''] []) sample_rotating [] 2
      (sample_talos_bundle ''1'', sample_cas ''1'') (sample_talos_bundle ''2'', sample_cas ''2'') obs \<and>
    (\<exists>ob \<in> set obs. ro_endpoint ob = ''kc-0'')"
proof -
  let ?E = "sample_kc_world [sample_kc_of_t1 ''kc-0''] []"
  obtain st new where run: "run_state (reconcileCARotation sample_lib (sample_ca_lib ''1'') ?E sample_rotating False) [] = ((st, None), [] @ new)"
      and e: "CpRpc ''kc-0'' (CpBundle (sample_talos_bundle ''2'')) CpReboot \<in> set new"
    using sample_rotation_run[OF refl, of "[]"] by auto
  have g: "cst_activeSecretGeneration (tc_status sample_rotating) = 1" "cs_caRotationRequestedGeneration (tc_spec sample_rotating) = Some 2"
    by (simp_all add: sample_rotating_def sample_tart_def)
  from rotation_pass_edits_least_stage[OF run e] e obtain target active pending obs where
    o: "rotation_of_pass sample_lib (sample_ca_lib ''1'') ?E sample_rotating [] target active pending obs"
      "\<exists>ob \<in> set obs. ro_endpoint ob = ''kc-0''" by (simp add: Let_def g) metis
  have t: "target = 2" using o(1) g by (auto simp: rotation_of_pass_def Let_def)
  moreover from o(1) t have "active = (sample_talos_bundle ''1'', sample_cas ''1'')" "pending = (sample_talos_bundle ''2'', sample_cas ''2'')"
    using g by (auto simp: rotation_of_pass_def Let_def sample_rotation_bundles)
  ultimately show ?thesis using o by blast
qed

text \<open>C12. A Kubernetes upgrade is requested only of a control plane that is initialized, whose workload
  API answers and whose machines all report Ready, as many as asked for, when no other operation runs,
  every machine has answered with a healthy etcd member of its own, and the lease of the control plane
  was just taken; it is to the version of the specification, from an observed one.\<close>

theorem upgrade_only_when_healthy_and_alone:
  assumes run: "run_state (reconcileKubernetesUpgrade L K E cp cluster machines boot other n) tr = (st, tr @ new)"
    and request: "CpRpc ep au (CpUpgradeKubernetes f t c) \<in> set new"
  shows "bs_initialized boot \<and> bs_workloadReady boot \<and> \<not> other \<and> 0 < n \<and>
    countMachineCondition L machines (lib_machine_ready L) = n \<and> t = ks_version (k_spec cp) \<and>
    NormalizeKubernetesVersion f \<noteq> [] \<and>
    (\<exists>cfg. au = CpConfiguration cfg \<and> all_members_healthy L E machines ep cfg) \<and>
    (\<exists>seen es rest. new = seen @ es @ rest \<and> lease_taken E cp (tr @ seen) es \<and> list_all cp_observes seen)"
  using run request by (rule upgrade_justified_by_pass)

theorem upgrade_only_when_healthy_and_alone_witness:
  "let new = snd (run_state (reconcileKubernetesUpgrade sample_lib sample_cp_lib sample_single_world sample_kc sample_cluster [sample_single]
         sample_ready_boot False 1) [])
   in CpRpc ''kc-0'' (CpConfiguration ''cfg'') (CpUpgradeKubernetes ''v1.35.0'' ''v1.36.0'' ''ep:6443'') \<in> set new \<and>
      all_members_healthy sample_lib sample_single_world [sample_single] ''kc-0'' ''cfg''"
proof -
  obtain up es where u: "run_state (reconcileKubernetesUpgrade sample_lib sample_cp_lib sample_single_world sample_kc sample_cluster [sample_single]
       sample_ready_boot False 1) [] = (up, [] @ es)"
     "CpRpc ''kc-0'' (CpConfiguration ''cfg'') (CpUpgradeKubernetes ''v1.35.0'' ''v1.36.0'' ''ep:6443'') \<in> set es"
    using sample_single_upgrade[of sample_ready_boot "[]"] by (auto simp: sample_ready_boot_def)
  from upgrade_only_when_healthy_and_alone[OF u] u show ?thesis by (simp add: Let_def)
qed

text \<open>C14. Etcd is bootstrapped only on the machine with ordinal 0, for a control plane that was never
  initialized, when that machine is ready, its host is bound to it, and its Talos has not just
  reported a healthy member.\<close>

theorem etcd_bootstrapped_on_the_first_machine_only:
  assumes run: "run_state (reconcileControlPlaneBootstrap L K E cp cluster machines) tr = (r, tr @ new)"
    and boot: "CpRpc ep au CpBootstrap \<in> set new"
  shows "kst_controlPlaneInitialized (k_status cp) \<noteq> Some True \<and>
    (\<exists>machine \<in> set machines. \<exists>configuration. au = CpConfiguration configuration \<and>
       controlPlaneChildName L (mt_name (k_meta cp)) 0 [] = Some (mt_name (cm_meta machine)) \<and>
       first_observed L E tr machine ep configuration \<and>
       (\<forall>s. ce_etcd_status E (tr @ [CpDial ep au]) (CpRpc ep au CpEtcdStatus) = Inr s \<longrightarrow> \<not> etcdStatusHealthy s))"
  using run boot by (rule bootstrap_requested)

theorem etcd_bootstrapped_on_the_first_machine_only_witness:
  "let E = sample_silent_world [sample_kc_machine ''kc-0'' []]
   in CpRpc ''kc-0'' (CpConfiguration ''cfg'') CpBootstrap \<in> set (snd (run_state (reconcileControlPlaneBootstrap sample_lib sample_cp_lib E
         sample_kc sample_cluster [sample_kc_machine ''kc-0'' []]) [])) \<and>
      first_observed sample_lib E [] (sample_kc_machine ''kc-0'' []) ''kc-0'' ''cfg''"
  using etcd_bootstrapped_on_the_first_machine_only[OF from_start sample_bootstrap_run] sample_bootstrap_run
  by (simp add: Let_def)

text \<open>C22. A machine is created only for an ordinal below the replica count whose name no listed machine
  has, at most one for each ordinal; it has the name, the failure domain and the references of its
  ordinal and is owned by the control plane.\<close>

theorem machines_created_once_per_missing_ordinal:
  assumes run: "run_state (ensureMachines L K E cp c desired ds mt bt) tr = (r, tr @ new)"
    and creation: "CpMachineCreate m \<in> set new"
  shows "\<exists>machines ords. run_state (listControlPlaneMachines L K E cp c) tr = (Inr machines, tr) \<and>
    distinct ords \<and> set ords \<subseteq> {..<nat desired} \<and>
    list_all2 (\<lambda>o' e. \<exists>k name boot. e = CpMachineCreate k \<and> controlPlaneChildName L (mt_name (k_meta cp)) (int o') [] = Some name \<and>
        bootstrapConfigName L (mt_name (k_meta cp)) (int o') = Some boot \<and> name \<notin> (mt_name \<circ> cm_meta) ` set machines \<and>
        k = new_machine L K cp c (int o') (case controlPlaneFailureDomain ds o' of None \<Rightarrow> [] | Some d \<Rightarrow> d) name boot)
      ords (filter (\<lambda>e. e \<in> range CpMachineCreate) new)"
    (is "\<exists>machines ords. _ \<and> _ \<and> _ \<and> list_all2 (?new machines) _ _")
proof -
  have "CpMachineCreate m \<in> set (filter (\<lambda>e. e \<in> range CpMachineCreate) new)" using creation by simp
  then have "filter (\<lambda>e. e \<in> range CpMachineCreate) new \<noteq> []" by force
  with ensureMachines_creates[OF run] obtain machines ords where
    o: "run_state (listControlPlaneMachines L K E cp c) tr = (Inr machines, tr)" "distinct ords" "set ords \<subseteq> {..<nat desired}"
      "creations L K cp c ds (by_name machines) ords (filter (\<lambda>e. e \<in> range CpMachineCreate) new)" by blast
  have free: "n \<notin> (mt_name \<circ> cm_meta) ` set machines" if "by_name machines n = None" for n
    using that by (auto simp: by_name_def map_of_eq_None_iff image_image)
  have "mt_name (cm_meta (new_machine L K cp c i d n b)) = n" for i d n b by (simp add: new_machine_def new_meta_def Let_def)
  then have new: "\<exists>k name boot. e = CpMachineCreate k \<and> controlPlaneChildName L (mt_name (k_meta cp)) (int o') [] = Some name \<and>
      bootstrapConfigName L (mt_name (k_meta cp)) (int o') = Some boot \<and> name \<notin> (mt_name \<circ> cm_meta) ` set machines \<and>
      k = new_machine L K cp c (int o') (case controlPlaneFailureDomain ds o' of None \<Rightarrow> [] | Some d \<Rightarrow> d) name boot"
    if "e = CpMachineCreate k" "ordinal_machine L K cp c ds o' k" "by_name machines (mt_name (cm_meta k)) = None" for e k o'
    using that free unfolding ordinal_machine_def by (metis (no_types, lifting))
  have "list_all2 (?new machines) ords (filter (\<lambda>e. e \<in> range CpMachineCreate) new)"
    using o(4) unfolding creations_def by (rule list_all2_mono) (use new in blast)
  with o(1-3) show ?thesis by blast
qed

theorem machines_created_once_per_missing_ordinal_witness:
  "let new = snd (run_state (ensureMachines sample_lib sample_cp_lib (sample_kc_world [] []) sample_kc ''c1'' 3 sample_zones sample_kc_mt sample_kc_bt) [])
   in CpMachineCreate (new_machine sample_lib sample_cp_lib sample_kc ''c1'' 0 ''zone-a'' ''kc-0'' ''kc-0-bootstrap'') \<in> set new \<and>
      length (filter (\<lambda>e. e \<in> range CpMachineCreate) new) \<le> 3"
proof -
  note c = sample_creation_run[of "[]" sample_kc_mt sample_kc_bt]
  let ?new = "snd (run_state (ensureMachines sample_lib sample_cp_lib (sample_kc_world [] []) sample_kc ''c1'' 3 sample_zones sample_kc_mt sample_kc_bt) [])"
  from machines_created_once_per_missing_ordinal[OF from_start c] obtain ords where
    "distinct ords" "set ords \<subseteq> {..<3 :: nat}" "length ords = length (filter (\<lambda>e. e \<in> range CpMachineCreate) ?new)"
    by (auto dest: list_all2_lengthD)
  then have "length (filter (\<lambda>e. e \<in> range CpMachineCreate) ?new) \<le> 3"
    by (metis card_lessThan card_mono distinct_card finite_lessThan)
  with c show ?thesis by (simp add: Let_def)
qed

text \<open>C35. The replicas of a control plane are spread evenly over the failure domains that the TartCluster
  offers to control planes: of \<open>n\<close> replicas over \<open>k\<close> domains every domain gets \<open>n div k\<close> of them or one
  more, none goes elsewhere, and the domain given to a new machine is accepted for it afterwards.\<close>

theorem replicas_spread_over_failure_domains:
  assumes "d \<in> offered domains"
  shows "card {o' \<in> {..<n}. controlPlaneFailureDomain domains o' = Some d} \<in>
      {n div card (offered domains), Suc (n div card (offered domains))} \<and>
    containsControlPlaneFailureDomain domains d \<and>
    (\<forall>o' e. controlPlaneFailureDomain domains o' = Some e \<longrightarrow> e \<in> offered domains)"
  using replicas_in_share[OF assms, of n] offered_contained[OF assms] failure_domain_offered by (auto simp: replicas_in_def)

theorem replicas_spread_over_failure_domains_witness:
  "map (controlPlaneFailureDomain sample_zones) [0, 1, 2] = [Some ''zone-a'', Some ''zone-b'', Some ''zone-a''] \<and>
   card {o' \<in> {..<3}. controlPlaneFailureDomain sample_zones o' = Some ''zone-a''} \<in> {1, 2}"
proof -
  have "eligible_domains sample_zones = [''zone-b'', ''zone-a'']" by code_simp
  then have o: "offered sample_zones = {''zone-a'', ''zone-b''}" using eligible_domains(2)[of sample_zones] by auto
  have "map (controlPlaneFailureDomain sample_zones) [0, 1, 2] = [Some ''zone-a'', Some ''zone-b'', Some ''zone-a'']" by code_simp
  moreover have "(3 :: nat) div Suc (Suc 0) = 1" by (simp add: div_nat_eqI)
  ultimately show ?thesis using replicas_spread_over_failure_domains[of "''zone-a''" sample_zones 3] by (simp add: o numeral_2_eq_2)
qed

text \<open>A provider machine is changed to follow its template only when nobody else has changed it: the
  digest of the image that was applied last is recorded on it and is that of the image it has, or
  nothing is recorded and it has the image of the template already. The change sets the image and
  the record, and the same template then changes nothing more.\<close>

theorem provider_machine_follows_its_template:
  assumes run: "run_state (syncMachineTemplate E current expected) tr = (r, tr @ new)" and "new \<noteq> []"
    and digest: "machineImageDigest (ms_image (m_spec expected)) \<noteq> []"
  shows "map_get (mt_annotations (m_meta current)) lastAppliedMachineTemplateDigestAnnotation \<in>
      {[], machineImageDigest (ms_image (m_spec current))} \<and>
    (\<exists>k. new = [CpTartMachinePatch k] \<and> follows_template current expected k \<and>
       (\<forall>E' tr'. run_state (syncMachineTemplate E' k expected) tr' = (None, tr')))"
  using syncMachineTemplate_cases[OF run] syncMachineTemplate_kept[of current E expected tr] syncMachineTemplate_idempotent[OF _ digest]
    assms(1,2) by fastforce

theorem provider_machine_follows_its_template_witness:
  "let m = sample_kc_provider ''kc-0'' in
   \<exists>k. run_state (syncMachineTemplate (sample_kc_world [] []) m m) [] = (None, [CpTartMachinePatch k]) \<and> follows_template m m k"
proof -
  let ?m = "sample_kc_provider ''kc-0''" and ?E = "sample_kc_world [] []"
  have run: "run_state (syncMachineTemplate ?E ?m ?m) [] =
      (None, [] @ [CpTartMachinePatch (?m\<lparr>m_meta := with_annotation lastAppliedMachineTemplateDigestAnnotation
        (machineImageDigest (ms_image (m_spec ?m))) (m_meta ?m)\<rparr>)])"
    by (simp add: syncMachineTemplate_def patchTemplateDigest_machine_def cp_write_def sample_kc_world_def sample_kc_provider_def
        sample_meta_def map_get_def Let_def)
  have "\<not> Option.is_none (image_json \<lparr>img_version = ''v1.14.2'', img_schematicID = ''abc''\<rparr>)" by code_simp
  then have "image_json (ms_image (m_spec ?m)) \<noteq> None" by (auto simp: sample_kc_provider_def sample_machine_def Option.is_none_def)
  then have "machineImageDigest (ms_image (m_spec ?m)) \<noteq> []" using digest_nonempty by (auto simp: machineImageDigest_def)
  from provider_machine_follows_its_template[OF run _ this] run show ?thesis by (auto simp: Let_def)
qed

text \<open>C36. What the conditions of a control plane say: it is available when the workload API answers and
  as many machines as asked for, at least one, report Ready; it is up to date when besides all these
  machines report UpToDate, no upgrade runs and the observed Kubernetes version is the desired one;
  it is scaling down when it has more machines than asked for; and the others name what runs.\<close>

theorem status_says_what_was_observed:
  assumes "conditions_law L"
  shows "let ready = countMachineCondition L machines (lib_machine_ready L);
      upToDate = countMachineCondition L machines (kp_machine_up_to_date K);
      cp' = setControlPlaneStatus L K now c desired machines boot rot up cp
    in (cp_true L cp' ''Available'' \<longleftrightarrow> bs_workloadReady boot \<and> 0 < desired \<and> ready = desired) \<and>
      (cp_true L cp' ''UpToDate'' \<longleftrightarrow> cp_true L cp' ''Available'' \<and> upToDate = desired \<and>
         \<not> us_active up \<and> \<not> us_unknown up \<and>
         NormalizeKubernetesVersion (us_observedVersion up) = NormalizeKubernetesVersion (ks_version (k_spec cp))) \<and>
      (cp_true L cp' ''KubernetesUpgrading'' \<longleftrightarrow> us_active up \<and> \<not> us_unknown up) \<and>
      (cp_true L cp' ''ScalingDown'' \<longleftrightarrow> desired < int (length machines)) \<and>
      (cp_true L cp' ''EtcdClusterAvailable'' \<longleftrightarrow> bs_etcdReady boot) \<and>
      (cp_true L cp' ''CARotating'' \<longleftrightarrow> rot_active rot) \<and> \<not> cp_true L cp' ''Deleting'' \<and>
      kst_controlPlaneInitialized (k_status cp') =
        (if bs_initialized boot then Some True
         else case kst_controlPlaneInitialized (k_status cp) of None \<Rightarrow> Some False | Some b \<Rightarrow> Some b)"
  using setControlPlaneStatus_conditions[OF assms, of K desired machines boot rot up cp now c]
  by (simp add: reported_status_def Let_def setControlPlaneStatus_initialized)

theorem status_says_what_was_observed_witness:
  "let m = sample_kc_machine ''kc-0'' []; rot = rotation False [] [] 0;
       up = \<lparr>us_active = False, us_unknown = False, us_reason = [], us_message = [], us_targetVersion = [], us_observedVersion = ''1.36.0'',
         us_requeueAfter = 0\<rparr>;
       cp' = setControlPlaneStatus k8s_reference sample_cp_lib 0 ''c1'' 1 [m] sample_ready_boot rot up sample_kc
   in cp_true k8s_reference cp' ''Available'' \<and> \<not> cp_true k8s_reference cp' ''UpToDate''"
proof -
  have "countMachineCondition k8s_reference [sample_kc_machine ''kc-0'' []] (lib_machine_ready k8s_reference) = 1"
    "countMachineCondition k8s_reference [sample_kc_machine ''kc-0'' []] (kp_machine_up_to_date sample_cp_lib) = 0"
    by (simp_all add: countMachineCondition_def sample_kc_machine_def k8s_reference_def ref_find_condition_def sample_condition_def sample_cp_lib_def)
  then show ?thesis
    using status_says_what_was_observed[OF k8s_reference_conditions, of "[sample_kc_machine ''kc-0'' []]" sample_cp_lib 0 "''c1''" 1 sample_ready_boot
        "rotation False [] [] 0"]
    by (simp add: Let_def sample_ready_boot_def)
qed

text \<open>An error of the API server other than \<open>NotFound\<close> while the TartCluster is read is not retried:
  the pass reports it on the control plane and ends without an error and without a delay.\<close>

theorem cluster_read_error_not_retried:
  assumes "ce_get_control_plane E tr ns name = Inr cp" "\<not> IsPaused L (k_meta cp)" "mt_deletionTimestamp (k_meta cp) = None"
    and "controlPlaneClusterName L cp = Inr c" "ks_version (k_spec cp) \<noteq> []" "desiredControlPlaneReplicas cp = Inr n"
    and "te_get_cluster (ce_tm E tr) [] (mt_namespace (k_meta cp)) c = Inr cluster"
    and "cl_infrastructureRef cluster = \<lparr>cr_apiGroup = infra_group, cr_kind = TartClusterKind, cr_name = t\<rparr>" "t \<noteq> []"
    and "te_get_tart_cluster (ce_tm E tr) [] (mt_namespace (cl_meta cluster)) t = Inl e" "e \<noteq> ApiNotFound"
    and "\<And>p. ce_write E tr (CpStatusPatch p) = None"
  shows "\<exists>p. run_state (Reconcile_TartControlPlane L K C E ns name) tr = (Inr 0, tr @ [CpStatusPatch p])"
  using assms by (rule transient_error_not_retried)

theorem cluster_read_error_not_retried_witness:
  "let E = (sample_kc_world [] [])\<lparr>ce_tm := \<lambda>tr. (ce_tm (sample_kc_world [] []) tr)\<lparr>te_get_tart_cluster := \<lambda>_ _ _. Inl ApiTooManyRequests\<rparr>\<rparr>
   in \<exists>p. run_state (Reconcile_TartControlPlane sample_lib sample_cp_lib (sample_ca_lib ''1'') E ''default'' ''kc'') [] = (Inr 0, [CpStatusPatch p])"
proof -
  let ?W = "sample_kc_world [] []"
  let ?E = "?W\<lparr>ce_tm := \<lambda>tr. (ce_tm ?W tr)\<lparr>te_get_tart_cluster := \<lambda>_ _ _. Inl ApiTooManyRequests\<rparr>\<rparr>"
  have "controlPlaneClusterName sample_lib sample_kc = Inr ''c1''" "desiredControlPlaneReplicas sample_kc = Inr 1" "ks_version (k_spec sample_kc) \<noteq> []"
    "\<not> IsPaused sample_lib (k_meta sample_kc)" "mt_deletionTimestamp (k_meta sample_kc) = None"
    by (simp_all add: controlPlaneClusterName_def desiredControlPlaneReplicas_def sample_kc_def sample_meta_def map_get_def sample_lib_def
        k8s_reference_def IsPaused_def)
  moreover have "ce_get_control_plane ?E [] ''default'' ''kc'' = Inr sample_kc" "te_get_cluster (ce_tm ?E []) [] ns n = Inr sample_cluster"
    "te_get_tart_cluster (ce_tm ?E []) [] ns n = Inl ApiTooManyRequests" "ce_write ?E [] e = None" for ns n e
    by (simp_all add: sample_kc_world_def)
  moreover have "cl_infrastructureRef sample_cluster = \<lparr>cr_apiGroup = infra_group, cr_kind = TartClusterKind, cr_name = ''t1''\<rparr>"
    by (simp add: sample_cluster_def)
  ultimately show ?thesis
    using cluster_read_error_not_retried[of ?E "[]" "''default''" "''kc''" sample_kc sample_lib "''c1''" 1 sample_cluster "''t1''" ApiTooManyRequests
        sample_cp_lib "sample_ca_lib ''1''"] by (simp add: Let_def)
qed

text \<open>C32. The CA rotation keeps the Secrets of a cluster well-formed: each Secret it writes satisfies the
  contract of the cluster's secrets, as the active one of the generation that was asked for or as the
  retired one of the generation before.\<close>

theorem rotation_keeps_secrets_well_formed:
  assumes run: "run_state (reconcileCARotation L C E cluster scaleDown) tr = (r, tr @ new)"
    and patch: "CpSecretPatch s \<in> set new"
  shows "\<exists>g. cs_caRotationRequestedGeneration (tc_spec cluster) = Some g \<and>
    (ValidateBundleSecretContract L (Some s) (mt_namespace (tc_meta cluster)) (mt_name (tc_meta cluster)) (cs_clusterID (tc_spec cluster))
        g BundleStateActive (mt_uid (tc_meta cluster)) = None \<or>
     ValidateBundleSecretContract L (Some s) (mt_namespace (tc_meta cluster)) (mt_name (tc_meta cluster)) (cs_clusterID (tc_spec cluster))
        (g - 1) BundleStateRetired (mt_uid (tc_meta cluster)) = None)"
proof (cases "cs_caRotationRequestedGeneration (tc_spec cluster)")
  case None
  with run patch show ?thesis by (simp add: reconcileCARotation_def Let_def)
next
  case (Some g)
  from emits_new[OF rotation_secrets_emitted[OF Some] run] patch show ?thesis
    by (auto simp: Some generation_secret_def Let_def)
qed

theorem rotation_keeps_secrets_well_formed_witness:
  "ValidateBundleSecretContract sample_lib (Some (set_bundle_state BundleStateRetired sample_bundle_secret)) ''default'' ''t1'' sample_cluster_id 1
     BundleStateRetired ''tu'' = None"
proof -
  let ?s = "set_bundle_state BundleStateRetired sample_bundle_secret"
  have run: "run_state (reconcileCARotation sample_lib (sample_ca_lib ''1'') (sample_kc_world [] []) sample_promoting False) [] =
     ((rotation_completed, None), [] @ [CpSecretPatch (set_bundle_state BundleStateActive sample_pending_secret), CpSecretPatch ?s])"
    by (simp add: sample_promotion_run)
  have state: "map_get (sec_labels ?s) BundleStateLabel \<noteq> BundleStateActive"
    by (simp add: set_bundle_state_def map_get_update BundleStateRetired_def BundleStateActive_def)
  have "CpSecretPatch ?s \<in> set [CpSecretPatch (set_bundle_state BundleStateActive sample_pending_secret), CpSecretPatch ?s]" by simp
  from rotation_keeps_secrets_well_formed[OF run this] state show ?thesis
    by (auto simp: ValidateBundleSecretContract_ok sample_promoting_def sample_rotating_def sample_tart_def sample_meta_def)
qed

text \<open>C6. A pass of the control plane reconciler that upgrades Kubernetes does nothing else that disturbs the
  cluster: it deletes no machine, removes no etcd member, bootstraps no etcd and neither changes the
  configuration of a node nor reboots it.\<close>

theorem upgrading_pass_disturbs_nothing_else:
  assumes run: "run_state (Reconcile_TartControlPlane L K C E ns name) tr = (r, tr @ new)"
    and upgrade: "CpRpc ep au (CpUpgradeKubernetes f t c) \<in> set new" and e: "e \<in> set new"
  shows "(\<forall>m. e \<noteq> CpMachineDelete m) \<and>
    (\<forall>x a i. e \<noteq> CpRpc x a (CpRemoveEtcdMember i)) \<and> (\<forall>x a. e \<noteq> CpRpc x a CpBootstrap) \<and>
    (\<forall>x a. e \<noteq> CpRpc x a CpReboot) \<and> (\<forall>x a cfg. e \<noteq> CpRpc x a (CpApplyConfiguration cfg))"
proof -
  have "\<exists>u \<in> set new. upgrades u" using upgrade unfolding upgrades_def by blast
  with Reconcile_alone[OF run] e have "\<not> disrupts e" "\<not> node_edit e" "\<not> bootstraps e" by (auto simp: alone_def)
  then show ?thesis by (auto simp: disrupts_def node_edit_def bootstraps_def)
qed

theorem upgrading_pass_disturbs_nothing_else_witness:
  "let new = snd (run_state (Reconcile_TartControlPlane sample_lib sample_cp_lib (sample_ca_lib ''1'') sample_single_world ''default'' ''kc'') [])
   in CpRpc ''kc-0'' (CpConfiguration ''cfg'') (CpUpgradeKubernetes ''v1.35.0'' ''v1.36.0'' ''ep:6443'') \<in> set new \<and>
      (\<forall>e \<in> set new. \<forall>x a. e \<noteq> CpRpc x a CpReboot)"
proof -
  let ?run = "run_state (Reconcile_TartControlPlane sample_lib sample_cp_lib (sample_ca_lib ''1'') sample_single_world ''default'' ''kc'') []"
  have u: "CpRpc ''kc-0'' (CpConfiguration ''cfg'') (CpUpgradeKubernetes ''v1.35.0'' ''v1.36.0'' ''ep:6443'') \<in> set (snd ?run)"
    using sample_pass_run[of "sample_ca_lib ''1''"] by auto
  from upgrading_pass_disturbs_nothing_else[OF from_start u] u show ?thesis by (auto simp: Let_def)
qed

end
