(* ===== verification/ClusterProperties.thy ===== *)
theory ClusterProperties
  imports ClusterReconciler RecoveryCollection ControlPlaneProperties
begin

section \<open>Properties of the TartCluster reconciler and of the recovery Secret collection\<close>

text \<open>
  What \<open>controller/tartcluster\<close> and \<open>controller/talosrecovery\<close> guarantee about the identity
  and the Secrets of a cluster, and what they and the CA rotation of the control plane do
  together. The runs that meet the hypotheses are on the objects of the first section.
\<close>

subsection \<open>Sample objects\<close>

definition sample_full_bundle :: "string \<Rightarrow> full_bundle" where
  "sample_full_bundle g =
     \<lparr>tb_clusterID = Some (ClusterID_String sample_cluster_id), tb_os = Some \<lparr>pem_crt = ''os-'' @ g, pem_key = ''key''\<rparr>,
      tb_k8s = Some \<lparr>pem_crt = ''k8s-'' @ g, pem_key = ''key''\<rparr>, tb_aggregator = Some \<lparr>pem_crt = ''agg-'' @ g, pem_key = ''key''\<rparr>,
      fb_clusterSecret = ''s'', fb_secrets = Some ''t'', fb_trustdInfo = Some ''d'',
      fb_certs = Some \<lparr>oc_etcd = None, oc_serviceAccount = Some ''sa''\<rparr>\<rparr>"

definition sample_bundles :: bundle_lib where
  "sample_bundles =
     \<lparr>bl_valid = (\<lambda>_. True),
      bl_marshal = (\<lambda>b. if b = sample_full_bundle ''1'' then Some ''x'' else if b = sample_full_bundle ''2'' then Some ''y'' else None),
      bl_unmarshal = (\<lambda>e. if e = ''x'' then Some (sample_full_bundle ''1'') else if e = ''y'' then Some (sample_full_bundle ''2'') else None)\<rparr>"

lemma sample_bundles_different: "sample_full_bundle ''1'' \<noteq> sample_full_bundle ''2''"
  by (simp add: sample_full_bundle_def)

lemma sample_bundles_law: "bundle_yaml_law sample_bundles"
  by (simp add: bundle_yaml_law_def sample_bundles_def sample_bundles_different)

fun created_secrets :: "cl_event list \<Rightarrow> Secret list" where
  "created_secrets [] = []"
| "created_secrets (BundleCreate s # es) = s # created_secrets es"
| "created_secrets (_ # es) = created_secrets es"

fun served_cluster :: "TartCluster \<Rightarrow> cl_event list \<Rightarrow> TartCluster" where
  "served_cluster c [] = c"
| "served_cluster c (ClusterStatusPatch c' # es) = served_cluster c' es"
| "served_cluster c (_ # es) = served_cluster c es"

text \<open>An API server that keeps the Secrets and the status, with one host in a failure domain and no control plane.\<close>

definition sample_cl_world :: "Secret list \<Rightarrow> TartCluster \<Rightarrow> string \<Rightarrow> cl_env" where
  "sample_cl_world secrets cluster g =
     \<lparr>cl_now = (\<lambda>_. 5), cl_get_cluster = (\<lambda>tr _ _. Inr (served_cluster cluster tr)),
      cl_get_secret = (\<lambda>tr _ n. case find (\<lambda>s. sec_name s = n) (secrets @ created_secrets tr) of
        None \<Rightarrow> Inl ApiNotFound | Some s \<Rightarrow> Inr s),
      cl_list_secrets = (\<lambda>tr _. Inr (secrets @ created_secrets tr)),
      cl_list_control_planes = (\<lambda>_ _. Inr []), cl_list_hosts = (\<lambda>_. Inr [sample_stored []]),
      cl_list_clusters = (\<lambda>_. Inr [cluster]), cl_write = (\<lambda>_ _. None), cl_uuid = (\<lambda>_. 77),
      cl_new_bundle = (\<lambda>_. Some (sample_full_bundle g)), cl_bundles = sample_bundles\<rparr>"

lemma sample_tart_fields:
  "tc_meta sample_rotating = tc_meta sample_tart" "cs_clusterID (tc_spec sample_rotating) = sample_cluster_id"
  "cs_clusterID (tc_spec sample_tart) = sample_cluster_id" "mt_name (tc_meta sample_tart) = ''t1''"
  "mt_namespace (tc_meta sample_tart) = ''default''" "mt_uid (tc_meta sample_tart) = ''tu''"
  "cst_activeSecretGeneration (tc_status sample_tart) = 1" "tc_status sample_rotating = tc_status sample_tart"
  "cs_caRotationRequestedGeneration (tc_spec sample_tart) = None" "cs_caRotationRequestedGeneration (tc_spec sample_rotating) = Some 2"
  "works_on sample_lib sample_tart" "works_on sample_lib sample_rotating"
  using sample_cluster_id_nonzero
  by (simp_all add: sample_rotating_def sample_tart_def sample_meta_def works_on_def IsPaused_def sample_lib_def k8s_reference_def)

lemma build_ignores_controller:
  "buildBundleSecret L ns c i g st (owner\<lparr>own_controller := x\<rparr>) d = buildBundleSecret L ns c i g st owner d"
  by (simp add: buildBundleSecret_def split: sum.splits)

lemma sample_bundle_owner: "bundle_owner sample_rotating = sample_owner\<lparr>own_controller := None\<rparr>"
  by (simp add: bundle_owner_def sample_owner_def sample_tart_fields TartClusterKind_def)

lemma sample_conditions_law: "conditions_law sample_lib"
  using k8s_reference_conditions by (simp add: conditions_law_def sample_lib_def)

lemma sample_bundle_active: "cluster_bundle sample_lib sample_bundles sample_tart 1 BundleStateActive sample_bundle_secret"
  using sample_bundle_valid sample_bundle_data sample_cluster_id_nonzero
  by (simp add: cluster_bundle_iff generation_secret_def Let_def sample_tart_fields ValidateBundleData_def DecodeBundleData_def BundleDataKey_def
      sample_bundles_def sample_full_bundle_def)

lemma sample_bundle_pending: "cluster_bundle sample_lib sample_bundles sample_rotating 2 BundleStatePending sample_pending_secret"
  using sample_pending_valid sample_pending_fields(1) sample_cluster_id_nonzero
  by (simp add: cluster_bundle_iff generation_secret_def Let_def sample_tart_fields ValidateBundleData_def DecodeBundleData_def BundleDataKey_def
      sample_bundles_def sample_full_bundle_def)

text \<open>The next generation is created from the active one.\<close>

lemma sample_rotated: "rotated_bundle (sample_full_bundle ''2'') (sample_full_bundle ''1'') sample_cluster_id = sample_full_bundle ''2''"
  by (simp add: rotated_bundle_def sample_full_bundle_def)

lemma find_name_kept:
  "find P xs = Some s \<Longrightarrow> find P (xs @ ys) = Some s"
  by (induction xs) auto

lemma sample_pass_rotating:
  "\<exists>c'. run_state (Reconcile_TartCluster sample_lib (sample_cl_world [sample_bundle_secret] sample_rotating ''2'') ''default'' ''t1'') [] =
     ((0, None), [BundleCreate sample_pending_secret, ClusterStatusPatch c']) \<and> cluster_ready sample_lib c' \<and>
     cst_activeSecretGeneration (tc_status c') = 1"
proof -
  let ?E = "sample_cl_world [sample_bundle_secret] sample_rotating ''2''"
  have c: "cl_get_cluster ?E [] ''default'' ''t1'' = Inr sample_rotating" "cl_bundles ?E = sample_bundles" by (simp_all add: sample_cl_world_def)
  have active: "cluster_bundle sample_lib sample_bundles sample_rotating 1 BundleStateActive sample_bundle_secret"
    using sample_bundle_active by (simp add: cluster_bundle_iff generation_secret_def sample_tart_fields)
  have get: "cl_get_secret ?E tr ns (sec_name sample_bundle_secret) = Inr sample_bundle_secret"
    "cl_get_secret ?E [] ns (sec_name sample_pending_secret) = Inl ApiNotFound" for tr ns
    using sample_pending_fields by (simp_all add: sample_cl_world_def)
  have e: "run_state (ensureBundle sample_lib ?E sample_rotating sample_cluster_id 1) [] = (None, [])"
    using ensureBundle_found[of sample_lib ?E sample_rotating 1 sample_bundle_secret "[]"] active get c by (simp add: sample_tart_fields)
  have valid: "ValidateBundleSecretContract sample_lib (Some sample_bundle_secret) ''default'' ''t1'' sample_cluster_id 1 BundleStateActive ''tu'' = None"
    by (rule sample_bundle_valid)
  have decoded: "DecodeBundleData (bl_unmarshal sample_bundles) (bl_valid sample_bundles) (sec_data sample_bundle_secret) sample_cluster_id = Some (sample_full_bundle ''1'')"
    using sample_bundle_data sample_cluster_id_nonzero by (simp add: DecodeBundleData_def BundleDataKey_def sample_bundles_def sample_full_bundle_def)
  have data: "GenerateRotatedBundleData sample_bundles (Some (sample_full_bundle ''2'')) sample_cluster_id (sample_full_bundle ''1'') = Some [(''bundle'', ''y'')]"
    using sample_cluster_id_nonzero sample_bundles_different
    by (simp add: GenerateRotatedBundleData_def sample_rotated encode_bundle_def sample_bundles_def BundleDataKey_def)
       (simp add: sample_full_bundle_def)
  have built: "BuildPendingSecret sample_lib ''default'' ''t1'' sample_cluster_id 2 (bundle_owner sample_rotating) [(''bundle'', ''y'')] = Inr sample_pending_secret"
    using sample_pending_built sample_bundle_owner by (simp add: BuildPendingSecret_def build_ignores_controller)
  have p: "run_state (ensureCARotationBundle sample_lib ?E sample_rotating sample_cluster_id 1) [] = (None, [BundleCreate sample_pending_secret])"
    using sample_pending_fields get valid decoded data built c(2)
    by (simp add: ensureCARotationBundle_def pending_from_active_def sample_tart_fields NextGeneration_def max_int32_def Let_def run_create_bundle
        sample_cl_world_def)
  have q: "run_state (ensure_bundles sample_lib ?E sample_rotating sample_cluster_id 1) [] =
      run_state (observe_and_provision sample_lib ?E sample_rotating 1) [BundleCreate sample_pending_secret]"
    using e p by (simp add: ensure_bundles_def)
  have r: "run_state (Reconcile_TartCluster sample_lib ?E ''default'' ''t1'') [] =
      run_state (ensure_bundles sample_lib ?E sample_rotating sample_cluster_id 1) []"
    using Reconcile_works[of ?E "[]" "''default''" "''t1''", OF c(1) sample_tart_fields(12)]
    by (simp add: reconcile_cluster_def sample_tart_fields Let_def)
  have "mt_name (tc_meta sample_rotating) \<noteq> []" by (simp add: sample_tart_fields)
  note a = aggregateReadiness_run[OF this]
  have reads: "cl_list_control_planes ?E t ns = Inr []" "cl_list_hosts ?E t = Inr [sample_stored []]" "cl_write ?E t e = None" for t ns e
    by (simp_all add: sample_cl_world_def)
  show ?thesis unfolding r q
    by (simp add: observe_and_provision_def observeFailureDomains_def a reads control_planes_of_def
        cluster_ready_provisioned[OF sample_conditions_law])
qed

subsection \<open>The TartCluster reconciler\<close>

text \<open>C16. A pass gives a cluster without an ID a new one and does nothing else to it; to a cluster with
  an ID it only writes the status, never the spec, and creates Secrets: each of them satisfies the contract
  of the active generation, or, when the next generation is requested, the contract of a pending one,
  and holds a bundle that can be decoded.\<close>

theorem cluster_pass_writes:
  assumes laws: "bundle_yaml_law (cl_bundles E)"
    and run: "run_state (Reconcile_TartCluster L E ns n) tr = (r, tr @ new)" and e: "e \<in> set new"
  shows "\<exists>c. cl_get_cluster E tr ns n = Inr c \<and> \<not> IsPaused L (tc_meta c) \<and> mt_deletionTimestamp (tc_meta c) = None \<and>
    (case e of
       ClusterPatch c' \<Rightarrow> ClusterID_IsZero (cs_clusterID (tc_spec c)) \<and>
         (\<exists>i. \<not> ClusterID_IsZero i \<and> c' = c\<lparr>tc_spec := (tc_spec c)\<lparr>cs_clusterID := i\<rparr>\<rparr>)
     | ClusterStatusPatch c' \<Rightarrow> \<not> ClusterID_IsZero (cs_clusterID (tc_spec c)) \<and> tc_spec c' = tc_spec c \<and> tc_meta c' = tc_meta c
     | BundleCreate s \<Rightarrow> \<not> ClusterID_IsZero (cs_clusterID (tc_spec c)) \<and>
         (\<exists>g. working_generation L E c tr g \<and>
            (cluster_bundle L (cl_bundles E) c g BundleStateActive s \<or>
             cs_caRotationRequestedGeneration (tc_spec c) = Some (g + 1) \<and> cluster_bundle L (cl_bundles E) c (g + 1) BundleStatePending s)))"
proof (cases "\<exists>c. cl_get_cluster E tr ns n = Inr c \<and> works_on L c")
  case True
  then obtain c where c: "cl_get_cluster E tr ns n = Inr c" "works_on L c" by blast
  from run Reconcile_works[OF c] have "run_state (reconcile_cluster L E c) tr = (r, tr @ new)" by simp
  from reconcile_cluster_writes[OF laws this e] c show ?thesis by (auto simp: works_on_def bundle_events_def)
next
  case False
  with Reconcile_idle[of E tr ns n L] run e show ?thesis by auto
qed

theorem cluster_pass_writes_witness:
  "let new = snd (run_state (Reconcile_TartCluster sample_lib (sample_cl_world [sample_bundle_secret] sample_rotating ''2'') ''default'' ''t1'') [])
   in BundleCreate sample_pending_secret \<in> set new \<and>
      (\<exists>g. cluster_bundle sample_lib sample_bundles sample_rotating g BundleStateActive sample_pending_secret \<or>
           cluster_bundle sample_lib sample_bundles sample_rotating (g + 1) BundleStatePending sample_pending_secret)"
proof -
  let ?E = "sample_cl_world [sample_bundle_secret] sample_rotating ''2''"
  have w: "cl_get_cluster ?E [] ''default'' ''t1'' = Inr sample_rotating" "cl_bundles ?E = sample_bundles" by (simp_all add: sample_cl_world_def)
  from sample_pass_rotating obtain c' where r: "run_state (Reconcile_TartCluster sample_lib ?E ''default'' ''t1'') [] =
      ((0, None), [] @ [BundleCreate sample_pending_secret, ClusterStatusPatch c'])" by auto
  have e: "BundleCreate sample_pending_secret \<in> set [BundleCreate sample_pending_secret, ClusterStatusPatch c']" by simp
  from cluster_pass_writes[OF _ r e] sample_bundles_law w have
    "\<exists>g. cluster_bundle sample_lib sample_bundles sample_rotating g BundleStateActive sample_pending_secret \<or>
       cluster_bundle sample_lib sample_bundles sample_rotating (g + 1) BundleStatePending sample_pending_secret" by auto
  with r show ?thesis by simp
qed

text \<open>C17. A pass says that a cluster is ready only when the Secret of the generation it records was found
  satisfying its contract or was just created so, when a requested next generation has its pending Secret
  as well, when every control plane of the cluster is available, and with the failure domains of
  all hosts; it is then provisioned too.\<close>

theorem cluster_ready_means:
  assumes laws: "conditions_law L" "bundle_yaml_law (cl_bundles E)"
    and read: "cl_get_cluster E tr ns n = Inr c" "mt_name (tc_meta c) \<noteq> []"
    and run: "run_state (Reconcile_TartCluster L E ns n) tr = (r, tr @ new)"
    and said: "ClusterStatusPatch c' \<in> set new" "cluster_ready L c'"
  shows "\<exists>g hosts all es. new = es @ [ClusterStatusPatch c'] \<and> working_generation L E c tr g \<and> obtained_bundles L E c g tr es \<and>
    cst_activeSecretGeneration (tc_status c') = g \<and> cst_provisioned (tc_status c') = Some True \<and>
    cl_list_hosts E (tr @ es) = Inr hosts \<and> cst_failureDomains (tc_status c') = FailureDomains hosts \<and>
    cl_list_control_planes E (tr @ es) (mt_namespace (tc_meta c)) = Inr all \<and>
    list_all (control_plane_available L) (control_planes_of L c all)"
proof (cases "works_on L c")
  case False
  with Reconcile_idle[of E tr ns n L] read(1) run said(1) show ?thesis by auto
next
  case True
  obtain es d where new: "new = es @ [ClusterStatusPatch d]" and es: "creates es"
    "(\<exists>g. working_generation L E c tr g \<and> obtained_bundles L E c g tr es \<and> cluster_status_provisioned L E c g (tr @ es) d) \<or>
     cluster_status_failed L c r d"
    by (rule works_run[OF laws read(1) True read(2) run])
  with said(1) new have "d = c'" by auto
  with es new said(2) show ?thesis by (auto simp: cluster_status_provisioned_def cluster_status_failed_def)
qed

theorem cluster_ready_means_witness:
  "\<exists>es c' g. snd (run_state (Reconcile_TartCluster sample_lib (sample_cl_world [sample_bundle_secret] sample_rotating ''2'') ''default'' ''t1'') []) =
      es @ [ClusterStatusPatch c'] \<and> cluster_ready sample_lib c' \<and>
      obtained_bundles sample_lib (sample_cl_world [sample_bundle_secret] sample_rotating ''2'') sample_rotating g [] es"
proof -
  let ?E = "sample_cl_world [sample_bundle_secret] sample_rotating ''2''"
  have w: "cl_get_cluster ?E [] ''default'' ''t1'' = Inr sample_rotating" "cl_bundles ?E = sample_bundles" by (simp_all add: sample_cl_world_def)
  from sample_pass_rotating obtain c' where r: "run_state (Reconcile_TartCluster sample_lib ?E ''default'' ''t1'') [] =
      ((0, None), [] @ [BundleCreate sample_pending_secret, ClusterStatusPatch c'])" "cluster_ready sample_lib c'" by auto
  have e: "ClusterStatusPatch c' \<in> set [BundleCreate sample_pending_secret, ClusterStatusPatch c']" by simp
  from cluster_ready_means[OF sample_conditions_law _ w(1) _ r(1) e r(2)] sample_bundles_law w(2) r show ?thesis
    by (auto simp: sample_tart_fields)
qed

text \<open>C31. A pass that succeeded is a fixed point: when the API server keeps the Secrets and serves the
  status that was written, the next pass creates nothing, and if it writes a generation it is the same.\<close>

theorem second_pass_creates_nothing:
  assumes laws: "conditions_law L" "bundle_yaml_law (cl_bundles E)"
    and read: "cl_get_cluster E tr ns n = Inr c" "works_on L c" "mt_name (tc_meta c) \<noteq> []"
    and first: "run_state (Reconcile_TartCluster L E ns n) tr = ((0, None), tr @ new)"
    and kept: "\<And>es fs. new = es @ fs \<Longrightarrow> kept_secrets E (tr @ es) fs"
    and served: "\<And>c'. ClusterStatusPatch c' \<in> set new \<Longrightarrow> cl_get_cluster E (tr @ new) ns n = Inr c'"
    and second: "run_state (Reconcile_TartCluster L E ns n) (tr @ new) = (r, tr @ new @ again)"
  shows "\<exists>c' c''. ClusterStatusPatch c' \<in> set new \<and> again = [ClusterStatusPatch c''] \<and>
    cst_activeSecretGeneration (tc_status c'') = cst_activeSecretGeneration (tc_status c')"
proof -
  obtain es c' where new: "new = es @ [ClusterStatusPatch c']" and same: "tc_meta c' = tc_meta c" "tc_spec c' = tc_spec c"
    and es: "(\<exists>g. working_generation L E c tr g \<and> obtained_bundles L E c g tr es \<and> cluster_status_provisioned L E c g (tr @ es) c') \<or>
     cluster_status_failed L c (0, None) c'"
    by (rule works_run[OF laws read first])
  from es obtain g where g: "obtained_bundles L E c g tr es" "cst_activeSecretGeneration (tc_status c') = g"
    by (auto simp: cluster_status_failed_def cluster_status_provisioned_def)
  from served[of c'] new have served': "cl_get_cluster E (tr @ es @ [ClusterStatusPatch c']) ns n = Inr c'" by simp
  have "works_on L c'" using read(2) same by (simp add: works_on_def)
  from Reconcile_works[OF served' this] second_pass_run[OF g(1) kept[unfolded new] same g(2)] second new
  have "run_state (observe_and_provision L E c' g) (tr @ new) = (r, (tr @ new) @ again)" by simp
  moreover have "mt_name (tc_meta c') \<noteq> []" using read(3) same by simp
  ultimately obtain c'' where "again = [ClusterStatusPatch c'']" using observe_and_provision_run[OF laws(1), of c' E g "tr @ new"] by auto
  moreover have "set again \<subseteq> cluster_status_events c' g"
    by (rule emits_new[OF emits_observe_and_provision]) fact
  ultimately show ?thesis using new g(2) by (auto simp: cluster_status_events_def)
qed

theorem second_pass_creates_nothing_witness:
  "\<exists>r c' c''. let E = sample_cl_world [sample_bundle_secret] sample_rotating ''2''; pass = Reconcile_TartCluster sample_lib E ''default'' ''t1''
    in run_state pass [] = ((0, None), [BundleCreate sample_pending_secret, ClusterStatusPatch c']) \<and>
       run_state pass [BundleCreate sample_pending_secret, ClusterStatusPatch c'] =
         (r, [BundleCreate sample_pending_secret, ClusterStatusPatch c', ClusterStatusPatch c''])"
proof -
  let ?E = "sample_cl_world [sample_bundle_secret] sample_rotating ''2''"
  let ?R = "Reconcile_TartCluster sample_lib ?E ''default'' ''t1''"
  obtain c' where r: "run_state ?R [] = ((0, None), [] @ [BundleCreate sample_pending_secret, ClusterStatusPatch c'])"
    using sample_pass_rotating by auto
  let ?es = "[BundleCreate sample_pending_secret, ClusterStatusPatch c']"
  have laws: "bundle_yaml_law (cl_bundles ?E)" and read: "cl_get_cluster ?E [] ''default'' ''t1'' = Inr sample_rotating"
    and served: "cl_get_cluster ?E ([] @ ?es) ''default'' ''t1'' = Inr c'" and named: "mt_name (tc_meta sample_rotating) \<noteq> []"
    by (simp_all add: sample_cl_world_def sample_bundles_law sample_tart_fields)
  from r Reconcile_works[OF read sample_tart_fields(12)] have rec: "run_state (reconcile_cluster sample_lib ?E sample_rotating) [] = ((0, None), [] @ ?es)" by simp
  from reconcile_cluster_keeps[OF laws rec, of c'] have same: "tc_meta c' = tc_meta sample_rotating" "tc_spec c' = tc_spec sample_rotating" by simp_all
  then have works: "works_on sample_lib c'" "mt_name (tc_meta c') \<noteq> []" using sample_tart_fields by (simp_all add: works_on_def)
  from reconcile_cluster_run[OF sample_conditions_law laws works(2), of "[] @ ?es"] Reconcile_works[OF served works(1)]
  obtain r2 again where s: "run_state ?R ([] @ ?es) = (r2, [] @ ?es @ again)" by auto
  have kept: "kept_secrets ?E ([] @ fs) gs" if "?es = fs @ gs" for fs gs
    unfolding kept_secrets_def
  proof (intro conjI allI impI)
    have split: "created_secrets (xs @ ys) = created_secrets xs @ created_secrets ys" for xs ys
      by (induction xs rule: created_secrets.induct) auto
    show "cl_get_secret ?E (([] @ fs) @ gs) ns n = Inr s" if "cl_get_secret ?E ([] @ fs) ns n = Inr s" for ns n s
      using that find_name_kept[of "\<lambda>s. sec_name s = n" "[sample_bundle_secret] @ created_secrets fs" s "created_secrets gs"]
      by (auto simp: sample_cl_world_def split split: option.splits if_splits)
    show "cl_get_secret ?E (([] @ fs) @ gs) (sec_namespace s) (sec_name s) = Inr s" if "BundleCreate s \<in> set gs" for s
    proof -
      from that \<open>?es = fs @ gs\<close> have "BundleCreate s \<in> set ?es" by simp
      then have "s = sample_pending_secret" by simp
      with \<open>?es = fs @ gs\<close>[symmetric] show ?thesis using sample_pending_fields by (simp add: sample_cl_world_def)
    qed
  qed
  have "\<And>c''. ClusterStatusPatch c'' \<in> set ?es \<Longrightarrow> cl_get_cluster ?E ([] @ ?es) ''default'' ''t1'' = Inr c''" using served by simp
  from second_pass_creates_nothing[OF sample_conditions_law laws read sample_tart_fields(12) named r kept this s] r s
  show ?thesis by (auto simp: Let_def)
qed

text \<open>The Secrets that the reconciler reads as Active bundles of a cluster.\<close>

abbreviation labelled_active :: "TartCluster \<Rightarrow> Secret \<Rightarrow> bool" where
  "labelled_active c s \<equiv> map_of (sec_labels s) ClusterNameLabel = Some (mt_name (tc_meta c)) \<and>
     map_of (sec_labels s) ClusterIDLabel = Some (ClusterID_String (cs_clusterID (tc_spec c))) \<and>
     map_of (sec_labels s) BundleStateLabel = Some BundleStateActive"

lemma set_active_secrets: "set (active_secrets c secrets) = {s \<in> set secrets. labelled_active c s}"
  by (auto simp: active_secrets_def matching_labels_def)

lemma active_secrets_set:
  assumes "distinct listing" "set listing = A \<union> set others" "\<forall>s \<in> set others. \<not> labelled_active c s"
  shows "distinct (active_secrets c listing) \<and> set (active_secrets c listing) = {s \<in> A. labelled_active c s}"
proof
  show "distinct (active_secrets c listing)" using assms(1) by (simp add: active_secrets_def)
  show "set (active_secrets c listing) = {s \<in> A. labelled_active c s}" unfolding set_active_secrets using assms(2,3) by blast
qed

lemma generation_labelled:
  assumes "cluster_bundle L B c g st s" "mt_name (tc_meta c) \<noteq> []"
  shows "labelled_active c s \<longleftrightarrow> st = BundleStateActive"
proof -
  have "active_secrets c [] = []" by (simp add: active_secrets_def)
  with active_secrets_states[of L c g st s "[]"] set_active_secrets[of c "[s]"] assms show ?thesis
    by (cases "st = BundleStateActive") (auto simp: cluster_bundle_iff)
qed

lemma one_or_two:
  assumes "distinct xs"
  shows "set xs = {} \<Longrightarrow> xs = []" and "set xs = {x} \<Longrightarrow> xs = [x]" and "set xs = {x, y} \<Longrightarrow> x \<noteq> y \<Longrightarrow> 1 < length xs"
proof -
  show "xs = [x]" if "set xs = {x}"
  proof -
    have "length xs = Suc 0" using distinct_card[OF assms] that by simp
    then obtain y where "xs = [y]" by (auto simp: length_Suc_conv)
    with that show ?thesis by simp
  qed
qed (use distinct_card[OF assms] in auto)

lemma reconstructed_many: "1 < length items \<Longrightarrow> reconstructed_generation L B c i items = Inl ClReconstruct"
  by (cases items rule: remdups_adj.cases) (simp_all add: reconstructed_generation_def)

text \<open>C30. When the status of a cluster is lost, the generation is found again from the Secrets of its namespace,
  whatever other Secrets (of other clusters, in other states, not bundles at all) it has, in any order: it is the
  one of the Active bundle; before the promotion of a CA rotation the old one, after it the new one, and in between,
  while two bundles are Active, no generation is guessed. Without an Active bundle it is the first one.\<close>

theorem lost_generation_found_again:
  fixes c :: TartCluster and old pending :: Secret
  defines "promoted \<equiv> set_bundle_state BundleStateActive pending" and "retired \<equiv> set_bundle_state BundleStateRetired old"
  assumes secrets: "cluster_bundle L (cl_bundles E) c g BundleStateActive old" "cluster_bundle L (cl_bundles E) c (g + 1) BundleStatePending pending"
    and small: "g < max_int32" and named: "mt_name (tc_meta c) \<noteq> []" and lost: "cst_activeSecretGeneration (tc_status c) = 0"
    and listed: "cl_list_secrets E tr (mt_namespace (tc_meta c)) = Inr listing" "distinct listing"
    and others: "\<forall>s \<in> set others. \<not> (map_of (sec_labels s) ClusterNameLabel = Some (mt_name (tc_meta c)) \<and>
      map_of (sec_labels s) ClusterIDLabel = Some (ClusterID_String (cs_clusterID (tc_spec c))) \<and>
      map_of (sec_labels s) BundleStateLabel = Some BundleStateActive)"
  shows "(set listing = set others \<longrightarrow> (working_generation L E c tr g' \<longleftrightarrow> g' = 1)) \<and>
    (set listing = {old} \<union> set others \<longrightarrow> (working_generation L E c tr g' \<longleftrightarrow> g' = g)) \<and>
    (set listing = {old, pending} \<union> set others \<longrightarrow> (working_generation L E c tr g' \<longleftrightarrow> g' = g)) \<and>
    (set listing = {old, promoted} \<union> set others \<longrightarrow> \<not> working_generation L E c tr g') \<and>
    (set listing = {retired, promoted} \<union> set others \<longrightarrow> (working_generation L E c tr g' \<longleftrightarrow> g' = g + 1))"
proof -
  have new: "cluster_bundle L (cl_bundles E) c (g + 1) BundleStateActive promoted" "cluster_bundle L (cl_bundles E) c g BundleStateRetired retired"
    using cluster_bundle_state secrets by (auto simp: promoted_def retired_def)
  have "BundleStatePending \<noteq> BundleStateActive" "BundleStateRetired \<noteq> BundleStateActive" by (simp_all add: label_defs)
  then have act: "labelled_active c old" "\<not> labelled_active c pending" "labelled_active c promoted" "\<not> labelled_active c retired"
    using secrets[THEN generation_labelled, OF named] new[THEN generation_labelled, OF named] by blast+
  note one = reconstructed_active[OF secrets(1)] reconstructed_active[OF new(1)]
  with small have "old \<noteq> promoted" by auto
  have w: "working_generation L E c tr g' \<longleftrightarrow>
      reconstructed_generation L (cl_bundles E) c (cs_clusterID (tc_spec c)) (active_secrets c listing) = Inr g'"
    by (rule working_generation_lost[OF lost listed(1)])
  have only: "distinct (active_secrets c listing) \<and> set (active_secrets c listing) = {s \<in> A. labelled_active c s}"
    if "set listing = A \<union> set others" for A
    by (rule active_secrets_set[OF listed(2) that others])
  have none: "reconstructed_generation L B c i [] = Inr 1" for B i by (simp add: reconstructed_generation_def)
  show ?thesis
  proof (intro conjI impI)
    assume "set listing = set others"
    with only[of "{}"] have "active_secrets c listing = []" by (intro one_or_two(1)) auto
    with w none show "working_generation L E c tr g' \<longleftrightarrow> g' = 1" by auto
  next
    assume "set listing = {old} \<union> set others"
    from only[OF this] act have "active_secrets c listing = [old]" by (intro one_or_two(2)) auto
    with w one(1) small show "working_generation L E c tr g' \<longleftrightarrow> g' = g" by auto
  next
    assume "set listing = {old, pending} \<union> set others"
    from only[OF this] act have "active_secrets c listing = [old]" by (intro one_or_two(2)) auto
    with w one(1) small show "working_generation L E c tr g' \<longleftrightarrow> g' = g" by auto
  next
    assume "set listing = {old, promoted} \<union> set others"
    from only[OF this] act \<open>old \<noteq> promoted\<close> have "1 < length (active_secrets c listing)" by (intro one_or_two(3)[of _ old promoted]) auto
    with w reconstructed_many show "\<not> working_generation L E c tr g'" by auto
  next
    assume "set listing = {retired, promoted} \<union> set others"
    from only[OF this] act have "active_secrets c listing = [promoted]" by (intro one_or_two(2)) auto
    with w one(2) small show "working_generation L E c tr g' \<longleftrightarrow> g' = g + 1" by auto
  qed
qed

theorem lost_generation_found_again_witness:
  "let c = sample_rotating\<lparr>tc_status := (tc_status sample_rotating)\<lparr>cst_activeSecretGeneration := 0\<rparr>\<rparr>
   in working_generation sample_lib (sample_cl_world [zero_secret, sample_pending_secret, sample_bundle_secret] c ''2'') c [] 1"
proof -
  let ?c = "sample_rotating\<lparr>tc_status := (tc_status sample_rotating)\<lparr>cst_activeSecretGeneration := 0\<rparr>\<rparr>"
  let ?E = "sample_cl_world [zero_secret, sample_pending_secret, sample_bundle_secret] ?c ''2''"
  have w: "cl_bundles ?E = sample_bundles" "cl_list_secrets ?E [] ns = Inr [zero_secret, sample_pending_secret, sample_bundle_secret]" for ns
    by (simp_all add: sample_cl_world_def)
  have b: "cluster_bundle sample_lib sample_bundles ?c 1 BundleStateActive sample_bundle_secret"
    "cluster_bundle sample_lib sample_bundles ?c (1 + 1) BundleStatePending sample_pending_secret"
    using sample_bundle_active sample_bundle_pending by (simp_all add: cluster_bundle_iff generation_secret_def sample_tart_fields)
  have s: "(1::int) < max_int32" "mt_name (tc_meta ?c) \<noteq> []" "cst_activeSecretGeneration (tc_status ?c) = 0"
    by (simp_all add: max_int32_def sample_tart_fields)
  have z: "sec_labels zero_secret = []" by (simp add: zero_secret_def)
  have "labelled_active ?c sample_bundle_secret" "\<not> labelled_active ?c sample_pending_secret"
    using generation_labelled[OF b(1) s(2)] generation_labelled[OF b(2) s(2)] by (simp_all add: label_defs)
  with z have d: "distinct [zero_secret, sample_pending_secret, sample_bundle_secret]"
    using b by (auto simp: cluster_bundle_iff generation_secret_def Let_def ValidateBundleSecretContract_ok label_defs)
  from lost_generation_found_again[where L = sample_lib and E = ?E, unfolded w(1), OF b s w(2) d, of "[zero_secret]" 1] z show ?thesis by (simp add: Let_def insert_commute)
qed

text \<open>C33. The bundle that is generated for the next generation decodes to the identity, the tokens, the trust
  information, the etcd CA and the service-account key of the one it follows, with the three rotated CAs of
  a fresh bundle.\<close>

theorem rotated_bundle_keeps_identity:
  assumes "bundle_yaml_law B" "GenerateRotatedBundleData B drawn i previous = Some data"
  shows "\<exists>b fresh. DecodeBundleData (bl_unmarshal B) (bl_valid B) data i = Some b \<and> drawn = Some fresh \<and>
    tb_clusterID b = Some (ClusterID_String i) \<and> fb_clusterSecret b = fb_clusterSecret previous \<and> fb_secrets b = fb_secrets previous \<and>
    fb_trustdInfo b = fb_trustdInfo previous \<and> fb_certs b = fb_certs previous \<and>
    tb_os b = tb_os fresh \<and> tb_k8s b = tb_k8s fresh \<and> tb_aggregator b = tb_aggregator fresh"
  using rotated_bundle_decodes[OF assms] by (auto simp: rotated_bundle_def)

theorem rotated_bundle_keeps_identity_witness:
  "\<exists>b. DecodeBundleData (bl_unmarshal sample_bundles) (bl_valid sample_bundles) [(''bundle'', ''y'')] sample_cluster_id = Some b \<and>
     fb_certs b = fb_certs (sample_full_bundle ''1'') \<and> tb_os b = tb_os (sample_full_bundle ''2'')"
proof -
  have "GenerateRotatedBundleData sample_bundles (Some (sample_full_bundle ''2'')) sample_cluster_id (sample_full_bundle ''1'') = Some [(''bundle'', ''y'')]"
    using sample_cluster_id_nonzero sample_bundles_different
    by (simp add: GenerateRotatedBundleData_def sample_rotated encode_bundle_def sample_bundles_def BundleDataKey_def)
       (simp add: sample_full_bundle_def)
  from rotated_bundle_keeps_identity[OF sample_bundles_law this] show ?thesis by auto
qed

subsection \<open>The collection of recovery Secrets\<close>

text \<open>C25. A pass of the collection deletes a Secret only when it is a recovery Secret of the management
  namespace that is at least half an hour old and that no host of the inventory refers to; it does nothing else,
  and a Secret that is kept is looked at again after ten minutes.\<close>

theorem recovery_secret_collected_only_unreferenced:
  assumes "run_state (Reconcile_TalosRecovery E m ns n) tr = ((after, err), tr @ new)"
  shows "(new = [] \<or> (\<exists>s. new = [RecoverySecretDelete s] \<and> m \<noteq> [] \<and> ns = m \<and> rc_get_secret E tr ns n = Inr s \<and> collectable E tr s)) \<and>
    (\<forall>s hosts. m \<noteq> [] \<longrightarrow> ns = m \<longrightarrow> rc_get_secret E tr ns n = Inr s \<longrightarrow> IsRecoverySecret (Some s) \<longrightarrow>
       rc_list_hosts E tr = Inr hosts \<longrightarrow> new = [] \<longrightarrow> after = 10 * minute)"
  using assms by (auto simp: Reconcile_TalosRecovery_run split: if_splits sum.splits)

lemma built_recovery_fields:
  "BuildRecoverySecret L ns m = Inr s \<Longrightarrow> sec_deletionTimestamp s = None \<and> sec_creationTimestamp s = 0 \<and>
     map_get (sec_labels s) ClusterIDLabel = ClusterID_String (mat_clusterID m)"
  by (auto simp: BuildRecoverySecret_def zero_secret_def SecretTypeLabel_def ClusterIDLabel_def Let_def split: sum.splits if_splits option.splits)

definition sample_rc_world :: "TartHost list \<Rightarrow> rc_env" where
  "sample_rc_world hosts =
     \<lparr>rc_now = (\<lambda>_. 60 * minute), rc_get_secret = (\<lambda>_ _ _. Inr sample_recovery_secret), rc_list_hosts = (\<lambda>_. Inr hosts), rc_delete = (\<lambda>_ _. None)\<rparr>"

theorem recovery_secret_collected_only_unreferenced_witness:
  "snd (run_state (Reconcile_TalosRecovery (sample_rc_world []) ''ns'' ''ns'' ''r1'') []) = [RecoverySecretDelete sample_recovery_secret] \<and>
   collectable (sample_rc_world []) [] sample_recovery_secret"
proof -
  have "IsRecoverySecret (Some sample_recovery_secret)" "sec_deletionTimestamp sample_recovery_secret = None"
    "sec_creationTimestamp sample_recovery_secret = 0" "map_get (sec_labels sample_recovery_secret) ClusterIDLabel = ClusterID_String sample_cluster_id"
    using sample_recovery_decoded[THEN DecodeSecret_ok] built_recovery_fields[OF sample_recovery_built]
    by (simp_all add: sample_material_def)
  moreover have "\<not> blank (ClusterID_String sample_cluster_id)" by code_simp
  ultimately have c: "collectable (sample_rc_world []) [] sample_recovery_secret" "IsRecoverySecret (Some sample_recovery_secret)"
    by (auto simp: collectable_def sample_rc_world_def)
  have r: "run_state (Reconcile_TalosRecovery (sample_rc_world []) ''ns'' ''ns'' ''r1'') [] = ((0, None), [] @ [RecoverySecretDelete sample_recovery_secret])"
    using c by (auto simp: Reconcile_TalosRecovery_run) (simp_all add: sample_rc_world_def)
  from recovery_secret_collected_only_unreferenced[OF r] r show ?thesis by (auto simp: sample_rc_world_def)
qed

subsection \<open>A promotion that was interrupted\<close>

text \<open>The status has the new generation, whose Secret still says Pending.\<close>

definition half_promoted :: "k8s_lib \<Rightarrow> TartCluster \<Rightarrow> Secret \<Rightarrow> bool" where
  "half_promoted L c s \<longleftrightarrow> generation_secret L c (cst_activeSecretGeneration (tc_status c)) BundleStatePending s"

definition cp_sees :: "cp_env \<Rightarrow> TartCluster \<Rightarrow> Secret \<Rightarrow> bool" where
  "cp_sees E c s \<longleftrightarrow> (\<forall>tr ns n c'. te_get_tart_cluster (ce_tm E tr) [] ns n = Inr c' \<longrightarrow> c' = c) \<and>
     (\<forall>tr. te_get_secret (ce_tm E tr) [] (mt_namespace (tc_meta c)) (sec_name s) = Inr s)"

abbreviation control_plane_reports :: "cp_event set" where
  "control_plane_reports \<equiv> {e. \<exists>p. e = CpStatusPatch p}"

lemma half_promoted_fields:
  assumes "half_promoted L c s"
  shows "BundleName L (mt_name (tc_meta c)) (cs_clusterID (tc_spec c)) (cst_activeSecretGeneration (tc_status c)) = Inr (sec_name s)"
    and "ValidateBundleSecretContract L (Some s) (mt_namespace (tc_meta c)) (mt_name (tc_meta c)) (cs_clusterID (tc_spec c))
           (cst_activeSecretGeneration (tc_status c)) BundleStateActive (mt_uid (tc_meta c)) \<noteq> None"
    and "cst_activeSecretGeneration (tc_status c) \<noteq> 0" "\<not> ClusterID_IsZero (cs_clusterID (tc_spec c))"
  using assms
  by (auto simp: half_promoted_def generation_secret_def Let_def ValidateBundleSecretContract_ok BundleName_def label_defs split: if_splits)

lemma validate_half_promoted:
  assumes "half_promoted L c s" "cp_sees E c s" "run_state (validateActiveBundle L E c) tr = (x, tr')"
  shows "x \<noteq> None"
  using assms half_promoted_fields[OF assms(1)] by (auto simp: validateActiveBundle_def Let_def cp_get_def cp_sees_def)

lemma getTartCluster_seen:
  assumes "cp_sees E c s" "run_state (getTartCluster E cluster) tr = (Inr t, tr')"
  shows "t = c"
  using assms unfolding getTartCluster_def cp_sees_def
  by (auto simp: cp_get_def Let_def split: sum.splits if_splits)

lemma emits_status_report: "emits (reportFailure L E cp e) control_plane_reports"
  unfolding reportFailure_def patch_control_plane_def Let_def by (intro emit_rules) auto

lemma emits_reads: "emits (getTartCluster E cluster) S" "emits (validateActiveBundle L E t) S"
  unfolding getTartCluster_def validateActiveBundle_def Let_def by (intro emit_rules)+

lemma emits_half_promoted:
  assumes half: "half_promoted L c s" and sees: "cp_sees E c s"
  shows "emits (Reconcile_TartControlPlane L K C E ns n) control_plane_reports"
proof -
  have failing: "emits (validateActiveBundle L E c \<bind> (\<lambda>berr. case berr of Some e \<Rightarrow> reportFailure L E cp e
      | None \<Rightarrow> control_plane_templates L K C E cp cn cluster c d)) control_plane_reports" for cp cn cluster d
    by (rule emits_bind_post[where P = "\<lambda>x. x \<noteq> None", OF emits_reads(2)])
       (auto intro: emits_status_report dest: validate_half_promoted[OF half sees])
  have known: "emits (getTartCluster E cluster \<bind> (\<lambda>gotTart. case gotTart of Inl e \<Rightarrow> reportFailure L E cp e
      | Inr tart \<Rightarrow> validateActiveBundle L E tart \<bind> (\<lambda>berr. case berr of Some e \<Rightarrow> reportFailure L E cp e
         | None \<Rightarrow> control_plane_templates L K C E cp cn cluster tart d))) control_plane_reports" for cp cn cluster d
    by (rule emits_bind_post[where P = "\<lambda>x. \<forall>t. x = Inr t \<longrightarrow> t = c", OF emits_reads(1)])
       (auto intro: emits_status_report failing dest: getTartCluster_seen[OF sees] split: sum.splits)
  have "emits (reconcile_active L K C E cp) control_plane_reports" for cp
    unfolding reconcile_active_def by (intro emit_rules emits_status_report known)
  then show ?thesis
    unfolding Reconcile_TartControlPlane_def reconcilePaused_def reconcileDeleting_def patch_control_plane_def Let_def
    by (intro emit_rules) auto
qed

lemma cluster_half_promoted:
  assumes half: "half_promoted L c s" and get: "cl_get_secret F tr (mt_namespace (tc_meta c)) (sec_name s) = Inr s"
    and run: "run_state (reconcile_cluster L F c) tr = (r, tr @ new)"
  shows "\<exists>c'. new = [ClusterStatusPatch c'] \<and> tc_spec c' = tc_spec c \<and>
    cst_activeSecretGeneration (tc_status c') = cst_activeSecretGeneration (tc_status c)"
proof -
  let ?g = "cst_activeSecretGeneration (tc_status c)" and ?i = "cs_clusterID (tc_spec c)"
  obtain e where e: "run_state (ensureBundle L F c ?i ?g) tr = (Some e, tr)"
    using half_promoted_fields[OF half] get by (auto simp: ensureBundle_def Let_def validate_bundle_def)
  then have "run_state (reconcile_cluster L F c) tr = run_state (reportBundleError L F c e) tr"
    using half_promoted_fields(3)[OF half] by (simp add: reconcile_cluster_def ensure_bundles_def Let_def)
  with run show ?thesis by (auto simp: reportBundleError_def report_cluster_error_def set_cluster_ready_def)
qed

text \<open>C38. Once the status of a cluster has the new generation of a CA rotation while its Secret is still
  Pending, no pass of the control plane or of the cluster reconciler ends that: both only report, and
  neither writes a Secret nor another generation.\<close>

theorem interrupted_promotion_is_never_recovered:
  assumes half: "half_promoted L c s"
    and control_plane: "cp_sees E c s"
    and cluster: "cl_get_cluster F tr ns n = Inr c" "cl_get_secret F tr (mt_namespace (tc_meta c)) (sec_name s) = Inr s"
    and runs: "run_state (Reconcile_TartControlPlane L K C E kns kn) ktr = (kr, ktr @ knew)"
      "run_state (Reconcile_TartCluster L F ns n) tr = (r, tr @ new)"
  shows "(\<forall>e \<in> set knew. \<exists>p. e = CpStatusPatch p) \<and>
    (\<forall>e \<in> set new. \<exists>c'. e = ClusterStatusPatch c' \<and> tc_spec c' = tc_spec c \<and>
       cst_activeSecretGeneration (tc_status c') = cst_activeSecretGeneration (tc_status c))"
proof (rule conjI)
  from emits_new[OF emits_half_promoted[OF half control_plane] runs(1)] show "\<forall>e \<in> set knew. \<exists>p. e = CpStatusPatch p" by blast
  show "\<forall>e \<in> set new. \<exists>c'. e = ClusterStatusPatch c' \<and> tc_spec c' = tc_spec c \<and>
      cst_activeSecretGeneration (tc_status c') = cst_activeSecretGeneration (tc_status c)"
  proof (cases "works_on L c")
    case True
    from runs(2) Reconcile_works[OF cluster(1) True] have "run_state (reconcile_cluster L F c) tr = (r, tr @ new)" by simp
    from cluster_half_promoted[OF half cluster(2) this] show ?thesis by auto
  next
    case False
    with Reconcile_idle[of F tr ns n L] runs(2) cluster(1) half_promoted_fields(4)[OF half] show ?thesis by auto
  qed
qed

text \<open>The promotion of the sample, whose Secret patch the API server refuses.\<close>

definition sample_refusing :: cp_env where
  "sample_refusing = (sample_kc_world [] [])\<lparr>ce_write := \<lambda>_ e. case e of CpSecretPatch _ \<Rightarrow> Some ApiConflict | _ \<Rightarrow> None\<rparr>"

definition sample_half :: TartCluster where "sample_half = set_active_generation 2 sample_rotating"

definition sample_half_world :: cp_env where
  "sample_half_world = (sample_kc_world [] [])\<lparr>ce_tm := \<lambda>tr. (ce_tm (sample_kc_world [] []) tr)\<lparr>te_get_tart_cluster := \<lambda>_ _ _. Inr sample_half\<rparr>\<rparr>"

lemma sample_half_fields:
  "tc_meta sample_half = tc_meta sample_tart" "tc_spec sample_half = tc_spec sample_rotating" "cst_activeSecretGeneration (tc_status sample_half) = 2"
  by (simp_all add: sample_half_def set_active_generation_def sample_tart_fields)

lemma sample_half_promoted: "half_promoted sample_lib sample_half sample_pending_secret"
  using sample_pending_valid by (simp add: half_promoted_def generation_secret_def sample_half_fields sample_tart_fields)

lemma sample_interrupted:
  "run_state (promoteCARotation sample_lib sample_refusing sample_rotating 2) [] =
     (Some (CpApi ApiConflict), [CpClusterStatusPatch sample_half, CpSecretPatch (set_bundle_state BundleStateActive sample_pending_secret)])"
proof -
  have get: "te_get_secret (ce_tm sample_refusing tr) es ns (sec_name sample_pending_secret) = Inr sample_pending_secret" for tr es ns
    using sample_pending_fields by (simp add: sample_refusing_def sample_kc_world_def)
  have p: "run_state (promotable_secret sample_lib sample_refusing sample_rotating 2) tr = (Inr sample_pending_secret, tr)" for tr
    using sample_pending_fields sample_pending_valid
    by (simp add: promotable_secret_def sample_tart_fields cp_get_def get validateCARotationPromotionState_def Let_def)
  have "BundleStatePending \<noteq> BundleStateActive" by (simp add: label_defs)
  then show ?thesis using sample_pending_fields
    by (simp add: promoteCARotation_def p sample_tart_fields promote_secret_def cp_write_def sample_half_def Let_def) (simp add: sample_refusing_def)
qed

theorem interrupted_promotion_is_never_recovered_witness:
  "half_promoted sample_lib sample_half sample_pending_secret \<and>
   CpClusterStatusPatch sample_half \<in> set (snd (run_state (promoteCARotation sample_lib sample_refusing sample_rotating 2) [])) \<and>
   set (snd (run_state (Reconcile_TartControlPlane sample_lib sample_cp_lib (sample_ca_lib ''2'') sample_half_world ''default'' ''kc'') []))
     \<subseteq> control_plane_reports"
proof -
  let ?P = "Reconcile_TartControlPlane sample_lib sample_cp_lib (sample_ca_lib ''2'') sample_half_world ''default'' ''kc''"
  let ?F = "sample_cl_world [sample_bundle_secret, sample_pending_secret] sample_half ''2''"
  have sees: "cp_sees sample_half_world sample_half sample_pending_secret"
    using sample_pending_fields by (simp add: cp_sees_def sample_half_world_def sample_kc_world_def)
  have f: "cl_get_cluster ?F [] ''default'' ''t1'' = Inr sample_half"
    "cl_get_secret ?F [] (mt_namespace (tc_meta sample_half)) (sec_name sample_pending_secret) = Inr sample_pending_secret"
    using sample_pending_fields by (simp_all add: sample_cl_world_def)
  obtain kr knew where k: "run_state ?P [] = (kr, [] @ knew)" by (cases "run_state ?P []") auto
  obtain r new where c: "run_state (Reconcile_TartCluster sample_lib ?F ''default'' ''t1'') [] = (r, [] @ new)"
    by (cases "run_state (Reconcile_TartCluster sample_lib ?F ''default'' ''t1'') []") auto
  from interrupted_promotion_is_never_recovered[OF sample_half_promoted sees f k c] k show ?thesis
    by (simp add: sample_half_promoted sample_interrupted subset_iff)
qed

end
