(* ===== verification/DiskSelector.thy ===== *)
theory DiskSelector
  imports ApiTypes Sha256
begin

section \<open>Disks, layers and roles\<close>

text \<open>
  The decisions of \<open>domain/bootstrap\<close> on which the configuration of a machine rests: the CEL
  expression that picks one disk of a host (\<open>diskselector.go\<close>), the order of the patches of a
  configuration (\<open>composition.go\<close>), its digest (\<open>digest.go\<close>) and the role of a machine
  (\<open>machinerole.go\<close>).
\<close>

subsection \<open>Disk selectors\<close>

record DiskIdentity =
  di_devicePath :: string
  di_sizeBytes :: "64 word"
  di_model :: string
  di_serial :: string
  di_wwid :: string
  di_busPath :: string
  di_transport :: string
  di_rotational :: bool
  di_readOnly :: bool

record DiskSelector =
  dsel_expression :: string
  dsel_matches :: "DiskIdentity \<Rightarrow> bool"

text \<open>\<open>strings.Join\<close>.\<close>

fun join :: "string \<Rightarrow> string list \<Rightarrow> string" where
  "join sep [] = []"
| "join sep [s] = s"
| "join sep (s # t # ss) = s @ sep @ join sep (t # ss)"

definition base_expression :: "DiskIdentity \<Rightarrow> string list" where
  "base_expression disk = [''!disk.readonly'', ''disk.size == '' @ format_uint (unat (di_sizeBytes disk)) @ ''u'']"

definition base_matches :: "DiskIdentity \<Rightarrow> DiskIdentity \<Rightarrow> bool" where
  "base_matches disk candidate \<longleftrightarrow> \<not> di_readOnly candidate \<and> di_sizeBytes candidate = di_sizeBytes disk"

text \<open>The clause on the model that two of the selectors share with the last one.\<close>

definition with_model ::
  "DiskIdentity \<Rightarrow> string list \<times> (DiskIdentity \<Rightarrow> bool) \<Rightarrow> string list \<times> (DiskIdentity \<Rightarrow> bool)" where
  "with_model disk sel =
     (case sel of (expression, matches) \<Rightarrow>
        if blank (di_model disk) then (expression, matches)
        else (expression @ [''disk.model == '' @ go_quote (di_model disk)],
              \<lambda>candidate. matches candidate \<and> di_model candidate = di_model disk))"

definition mk_selector :: "string list \<times> (DiskIdentity \<Rightarrow> bool) \<Rightarrow> DiskSelector" where
  "mk_selector sel = \<lparr>dsel_expression = join '' && '' (fst sel), dsel_matches = snd sel\<rparr>"

definition wwid_selectors :: "DiskIdentity \<Rightarrow> DiskSelector list" where
  "wwid_selectors disk =
     (if blank (di_wwid disk) then []
      else [mk_selector (base_expression disk @ [''disk.wwid == '' @ go_quote (di_wwid disk)],
              \<lambda>candidate. base_matches disk candidate \<and> di_wwid candidate = di_wwid disk)])"

definition serial_selectors :: "DiskIdentity \<Rightarrow> DiskSelector list" where
  "serial_selectors disk =
     (if blank (di_serial disk) then []
      else [mk_selector (with_model disk
              (base_expression disk @ [''disk.serial == '' @ go_quote (di_serial disk)],
               \<lambda>candidate. base_matches disk candidate \<and> di_serial candidate = di_serial disk))])"

definition bus_path_selectors :: "DiskIdentity \<Rightarrow> DiskSelector list" where
  "bus_path_selectors disk =
     (if blank (di_busPath disk) then []
      else [mk_selector (with_model disk
              (base_expression disk @ [''disk.bus_path == '' @ go_quote (di_busPath disk)],
               \<lambda>candidate. base_matches disk candidate \<and> di_busPath candidate = di_busPath disk))])"

definition general_selector :: "DiskIdentity \<Rightarrow> DiskSelector" where
  "general_selector disk =
     (case with_model disk (base_expression disk, base_matches disk) of (expression, matches) \<Rightarrow>
        mk_selector (if di_rotational disk
          then (expression @ [''disk.rotational''], \<lambda>candidate. matches candidate \<and> di_rotational candidate)
          else (expression @ [''!disk.rotational''], \<lambda>candidate. matches candidate \<and> \<not> di_rotational candidate)))"

definition DiskSelectorsFor :: "DiskIdentity \<Rightarrow> DiskSelector list" where
  "DiskSelectorsFor disk = wwid_selectors disk @ serial_selectors disk @ bus_path_selectors disk @ [general_selector disk]"

text \<open>\<open>None\<close>: no selector matches exactly one candidate.\<close>

definition UniqueDiskSelector :: "DiskIdentity \<Rightarrow> DiskIdentity list \<Rightarrow> string option" where
  "UniqueDiskSelector disk candidates =
     map_option dsel_expression
       (find (\<lambda>s. length (filter (dsel_matches s) candidates) = 1) (DiskSelectorsFor disk))"

datatype disk_error = ErrDiskSelectionUnavailable | ErrDiskSelectionAmbiguous

definition installable :: "DiskIdentity \<Rightarrow> bool" where
  "installable disk \<longleftrightarrow> \<not> (blank (di_devicePath disk) \<or> di_sizeBytes disk = 0 \<or> di_readOnly disk)"

definition SelectDisk :: "DiskIdentity list \<Rightarrow> disk_error + DiskIdentity" where
  "SelectDisk disks =
     (case filter installable disks of
        [] \<Rightarrow> Inl ErrDiskSelectionUnavailable
      | [candidate] \<Rightarrow>
          if UniqueDiskSelector candidate disks = None then Inl ErrDiskSelectionAmbiguous else Inr candidate
      | _ \<Rightarrow> Inl ErrDiskSelectionAmbiguous)"

text \<open>Every selector of a writable disk matches the disk itself and only writable disks of its size.\<close>

lemma selectors_match:
  assumes "s \<in> set (DiskSelectorsFor disk)"
  shows "\<not> di_readOnly disk \<Longrightarrow> dsel_matches s disk"
    and "dsel_matches s candidate \<Longrightarrow> \<not> di_readOnly candidate \<and> di_sizeBytes candidate = di_sizeBytes disk"
  using assms
  by (auto simp: DiskSelectorsFor_def wwid_selectors_def serial_selectors_def bus_path_selectors_def general_selector_def
      mk_selector_def with_model_def base_matches_def split: if_splits prod.splits)

lemma selectors_ignore_path:
  "s \<in> set (DiskSelectorsFor disk) \<Longrightarrow> dsel_matches s (c\<lparr>di_devicePath := p\<rparr>) = dsel_matches s c"
  by (auto simp: DiskSelectorsFor_def wwid_selectors_def serial_selectors_def bus_path_selectors_def general_selector_def
      mk_selector_def with_model_def base_matches_def split: if_splits prod.splits)

lemma filter_one: "length (filter P xs) = 1 \<Longrightarrow> x \<in> set xs \<Longrightarrow> P x \<Longrightarrow> y \<in> set xs \<Longrightarrow> P y \<Longrightarrow> y = x"
proof -
  assume l: "length (filter P xs) = 1" and x: "x \<in> set xs" "P x" and y: "y \<in> set xs" "P y"
  from l obtain z where "filter P xs = [z]" by (auto simp: length_Suc_conv)
  then have "{a \<in> set xs. P a} = {z}" by (metis empty_set list.simps(15) set_filter)
  with x y show "y = x"
    by (metis (mono_tags, lifting) mem_Collect_eq singletonD)
qed

lemma UniqueDiskSelector_unique:
  assumes "UniqueDiskSelector disk candidates = Some e" "disk \<in> set candidates" "\<not> di_readOnly disk"
  shows "\<exists>s \<in> set (DiskSelectorsFor disk). dsel_expression s = e \<and> (\<forall>c \<in> set candidates. dsel_matches s c \<longleftrightarrow> c = disk)"
proof -
  from assms(1) obtain s where s: "s \<in> set (DiskSelectorsFor disk)" "length (filter (dsel_matches s) candidates) = 1" "dsel_expression s = e"
    unfolding UniqueDiskSelector_def by (auto simp: find_Some_iff) (metis nth_mem)
  with filter_one[OF s(2) assms(2)] selectors_match(1)[OF s(1) assms(3)] show ?thesis by blast
qed

lemma SelectDisk_ok:
  assumes "SelectDisk disks = Inr d"
  shows "filter installable disks = [d]" "\<exists>e. UniqueDiskSelector d disks = Some e"
  using assms by (auto simp: SelectDisk_def split: list.splits if_splits)

subsection \<open>Layers of a configuration\<close>

text \<open>\<open>Layer\<close> is an \<open>int\<close>: the three constants are the legal values.\<close>

definition LayerBase :: int where "LayerBase = 0"
definition LayerUserRawPatch :: int where "LayerUserRawPatch = 1"
definition LayerProviderInvariant :: int where "LayerProviderInvariant = 2"

record ConfigPatch =
  cpat_layer :: int
  cpat_content :: string

datatype composition_error = ErrConfigurationPatchEmpty | ErrConfigPatchOrderInvalid

fun patch_fault :: "ConfigPatch list \<Rightarrow> composition_error option" where
  "patch_fault [] = None"
| "patch_fault (p # ps) =
     (if blank (cpat_content p) then Some ErrConfigurationPatchEmpty
      else if cpat_layer p < LayerBase \<or> LayerProviderInvariant < cpat_layer p then Some ErrConfigPatchOrderInvalid
      else patch_fault ps)"

definition OrderPatches :: "ConfigPatch list \<Rightarrow> composition_error + ConfigPatch list" where
  "OrderPatches patches =
     (case patch_fault patches of Some e \<Rightarrow> Inl e | None \<Rightarrow> Inr (sort_key cpat_layer patches))"

lemma patch_fault_iff:
  "patch_fault ps = None \<longleftrightarrow>
     (\<forall>p \<in> set ps. \<not> blank (cpat_content p) \<and> cpat_layer p \<in> {LayerBase, LayerUserRawPatch, LayerProviderInvariant})"
  by (induction ps) (auto simp: LayerBase_def LayerUserRawPatch_def LayerProviderInvariant_def)

lemma three_layers:
  assumes "\<forall>p \<in> set ps. cpat_layer p \<in> {0, 1, 2}"
  shows "sort_key cpat_layer ps = filter (\<lambda>p. cpat_layer p = 0) ps @ filter (\<lambda>p. cpat_layer p = 1) ps @ filter (\<lambda>p. cpat_layer p = 2) ps"
  using assms
proof (induction ps)
  case (Cons p ps)
  have gt: "insort_key cpat_layer p (xs @ ys) = xs @ insort_key cpat_layer p ys" if "\<forall>x \<in> set xs. cpat_layer x < cpat_layer p" for xs ys
    using that by (induction xs) auto
  have top: "insort_key cpat_layer p xs = p # xs" if "\<forall>x \<in> set xs. cpat_layer p \<le> cpat_layer x" for xs
    using that by (cases xs) auto
  let ?A = "filter (\<lambda>p. cpat_layer p = 0) ps" and ?B = "filter (\<lambda>p. cpat_layer p = 1) ps" and ?C = "filter (\<lambda>p. cpat_layer p = 2) ps"
  have sorted: "sort_key cpat_layer (p # ps) = insort_key cpat_layer p (?A @ ?B @ ?C)" using Cons by simp
  from Cons.prems consider "cpat_layer p = 0" | "cpat_layer p = 1" | "cpat_layer p = 2" by auto
  then show ?case
  proof cases
    case 1
    then have "insort_key cpat_layer p (?A @ ?B @ ?C) = p # ?A @ ?B @ ?C" by (intro top) auto
    with 1 sorted show ?thesis by simp
  next
    case 2
    then have "insort_key cpat_layer p (?A @ ?B @ ?C) = ?A @ insort_key cpat_layer p (?B @ ?C)" by (intro gt) auto
    also have "insort_key cpat_layer p (?B @ ?C) = p # ?B @ ?C" using 2 by (intro top) auto
    finally show ?thesis using 2 sorted by simp
  next
    case 3
    then have "insort_key cpat_layer p ((?A @ ?B) @ ?C) = (?A @ ?B) @ insort_key cpat_layer p ?C" by (intro gt) auto
    also have "insort_key cpat_layer p ?C = p # ?C" using 3 by (intro top) auto
    finally show ?thesis using 3 sorted by simp
  qed
qed simp

subsection \<open>The digest of a configuration\<close>

text \<open>\<open>None\<close> is the error \<open>ErrCanonicalConfigurationEmpty\<close>.\<close>

definition ComputeDigest :: "string \<Rightarrow> string option" where
  "ComputeDigest canonical = (if length (trim_space canonical) = 0 then None else Some (hex_encode (sha256 canonical)))"

subsection \<open>Roles\<close>

text \<open>\<open>MachineRole\<close> is an \<open>int\<close> as well.\<close>

datatype MachineRole = MachineRoleControlPlane | MachineRoleWorker | MachineRoleOther int

definition MachineRole_Valid :: "MachineRole \<Rightarrow> bool" where
  "MachineRole_Valid r \<longleftrightarrow> r = MachineRoleControlPlane \<or> r = MachineRoleWorker"

definition MachineRole_String :: "MachineRole \<Rightarrow> string" where
  "MachineRole_String r =
     (case r of MachineRoleControlPlane \<Rightarrow> ''controlplane'' | MachineRoleWorker \<Rightarrow> ''worker'' | MachineRoleOther _ \<Rightarrow> ''unknown'')"

end
