(* ===== verification/HostReconciler.thy ===== *)
theory HostReconciler
  imports MachineEnv MachineReprovision DiskSelector Addresses
begin

section \<open>The TartHost reconciler\<close>

text \<open>
  \<open>controller/tarthost/reconciler.go\<close>: the identity of a host, its discovery through the
  maintenance API of Talos, the power-on requests for it, and the deletion of the object. What
  a pass does is a trace of \<open>th_event\<close>s, what it sees is the record \<open>th_env\<close>, arbitrary
  functions of that trace. Logging, time limits and closing a connection are not modelled.
\<close>

subsection \<open>The environment\<close>

datatype th_event =
    HostPatch TartHost                  \<comment> \<open>with an optimistic lock\<close>
  | HostStatus TartHost
  | HostStatusLocked TartHost           \<comment> \<open>with an optimistic lock\<close>
  | HostPowerOn TartHost                \<comment> \<open>\<open>power.PowerOnHost\<close>\<close>
  | MaintenanceDial string
  | MaintenanceInventory string
  | HostWarning TartHost string string  \<comment> \<open>the event of the recorder: reason and message\<close>

record th_env =
  th_now :: "th_event list \<Rightarrow> time"
  th_get_host :: "th_event list \<Rightarrow> string \<Rightarrow> api_error + TartHost"
  th_list_hosts :: "th_event list \<Rightarrow> api_error + TartHost list"
  th_write :: "th_event list \<Rightarrow> th_event \<Rightarrow> api_error option"
  th_power_on :: "th_event list \<Rightarrow> th_event \<Rightarrow> bool"                      \<comment> \<open>succeeds\<close>
  th_dial :: "th_event list \<Rightarrow> th_event \<Rightarrow> bool"
  th_inventory :: "th_event list \<Rightarrow> th_event \<Rightarrow> Inventory option"
  th_uuid :: "th_event list \<Rightarrow> uuid"                                   \<comment> \<open>\<open>uuid.NewV4\<close>\<close>
  th_recorder :: bool
  th_parse_ip :: "string \<Rightarrow> bool"

datatype th_error = ThApi api_error | ThPanic

type_synonym 'a th = "(th_event, 'a) io"
type_synonym th_result = "duration \<times> th_error option"

definition th_call :: "th_env \<Rightarrow> th_event \<Rightarrow> api_error option th" where
  "th_call E e = call e (\<lambda>tr. th_write E tr e)"

lemma emits_th_call [emit_rules]: "e \<in> S \<Longrightarrow> emits (th_call E e) S"
  by (simp add: th_call_def emits_call)

lemma run_th_call [simp]: "run_state (th_call E e) tr = (th_write E tr e, tr @ [e])"
  by (simp add: th_call_def)

definition tartHostFinalizer :: string where "tartHostFinalizer = ''tart.cluster.x-k8s.io/host-lifecycle''"
definition maxPowerOnAttempts :: int where "maxPowerOnAttempts = 30"
definition maxBootAttempts :: nat where "maxBootAttempts = 16"
definition TartHostInventoryReadyCondition :: string where "TartHostInventoryReadyCondition = ''InventoryReady''"
definition TartHostTalosReachableCondition :: string where "TartHostTalosReachableCondition = ''TalosReachable''"

subsection \<open>Power-on attempts\<close>

definition host_is_ready :: "k8s_lib \<Rightarrow> TartHost \<Rightarrow> bool" where
  "host_is_ready L h \<longleftrightarrow> (\<exists>c. lib_find_condition L (hst_conditions (h_status h)) TartHostReadyCondition = Some c \<and>
     cond_status c = ConditionTrue)"

definition needsPowerOnForDiscovery :: "k8s_lib \<Rightarrow> TartHost option \<Rightarrow> bool" where
  "needsPowerOnForDiscovery L host =
     (case host of None \<Rightarrow> False
      | Some h \<Rightarrow>
          if pw_backend (hs_power (h_spec h)) \<notin> {PowerBackendWakeOnLAN, PowerBackendRedfish, PowerBackendIntelManageability}
          then False
          else if hst_inventory (h_status h) = None then True
          else (case lib_find_condition L (hst_conditions (h_status h)) TartHostReadyCondition of
                  None \<Rightarrow> True
                | Some ready \<Rightarrow>
                    if cond_status ready \<noteq> ConditionTrue then True
                    else hs_previousConsumerRef (h_spec h) \<noteq> None \<and>
                         hst_observedGeneration (h_status h) < mt_generation (h_meta h)))"

definition powerOnRetriesExhausted :: "TartHost \<Rightarrow> bool" where
  "powerOnRetriesExhausted h =
     (case hst_powerOnAttempts (h_status h) of None \<Rightarrow> False | Some a \<Rightarrow> po_count a \<ge> maxPowerOnAttempts)"

text \<open>\<open>Count\<close> is an \<open>int32\<close>; it is below the limit when it is incremented.\<close>

definition recordPowerOnAttempt :: "PowerOnAttemptStatus option \<Rightarrow> time \<Rightarrow> PowerOnAttemptStatus" where
  "recordPowerOnAttempt existing now =
     \<lparr>po_count = (case existing of None \<Rightarrow> 1 | Some a \<Rightarrow> po_count a + 1), po_lastAttemptAt = now\<rparr>"

subsection \<open>What a host reported\<close>

definition disk_identity :: "DiskInventory \<Rightarrow> DiskIdentity" where
  "disk_identity d =
     \<lparr>di_devicePath = disk_devicePath d, di_sizeBytes = disk_sizeBytes d, di_model = disk_model d, di_serial = disk_serial d,
      di_wwid = disk_wwid d, di_busPath = disk_busPath d, di_transport = disk_transport d, di_rotational = disk_rotational d,
      di_readOnly = disk_readOnly d\<rparr>"

text \<open>The sizes are the same 64 bits, signed in the status and unsigned in the inventory.\<close>

definition hostInventory :: "Inventory \<Rightarrow> HostInventory" where
  "hostInventory inventory =
     (let identities = map disk_identity (ti_disks inventory)
      in \<lparr>inv_bootID = ti_bootID inventory, inv_systemUUID = uuid_string (ti_systemUUID inventory),
          inv_architecture = ti_architecture inventory,
          inv_disks = map (\<lambda>disk. disk\<lparr>disk_stableSelector :=
            (case UniqueDiskSelector (disk_identity disk) identities of None \<Rightarrow> [] | Some s \<Rightarrow> s)\<rparr>) (ti_disks inventory),
          inv_networkInterfaces = ti_networkInterfaces inventory\<rparr>)"

text \<open>The first attempt with the boot ID is updated; \<open>None\<close> when there is none.\<close>

fun update_boot_attempt :: "string \<Rightarrow> string \<Rightarrow> string \<Rightarrow> time \<Rightarrow> BootAttempt list \<Rightarrow> BootAttempt list option" where
  "update_boot_attempt bootID uuid endpoint now [] = None"
| "update_boot_attempt bootID uuid endpoint now (a # as) =
     (if ba_bootID a \<noteq> bootID then map_option (Cons a) (update_boot_attempt bootID uuid endpoint now as)
      else Some (a\<lparr>ba_lastObservedAt := now, ba_systemUUID := uuid, ba_endpoint := endpoint\<rparr> # as))"

definition recordBootAttempt :: "BootAttempt list \<Rightarrow> Inventory \<Rightarrow> string \<Rightarrow> time \<Rightarrow> BootAttempt list" where
  "recordBootAttempt attempts inventory endpoint observedAt =
     (let bootID = trim_space (ti_bootID inventory); uuid = uuid_string (ti_systemUUID inventory)
      in if bootID = [] then attempts
         else (case update_boot_attempt bootID uuid endpoint observedAt attempts of
            Some updated \<Rightarrow> updated
          | None \<Rightarrow>
              (let appended = attempts @ [\<lparr>ba_bootID = bootID, ba_firstObservedAt = observedAt, ba_lastObservedAt = observedAt,
                                          ba_systemUUID = uuid, ba_endpoint = endpoint\<rparr>]
               in if length appended > maxBootAttempts then drop (length appended - maxBootAttempts) appended else appended)))"

datatype observation_error =
    errHostPowerUnavailable | errPowerOnRetriesExhausted | ErrHostEndpointUnavailable | ErrHostIdentityMismatch | HostTalosError

definition observeHost :: "th_env \<Rightarrow> TartHost \<Rightarrow> (observation_error + Inventory) th" where
  "observeHost E current =
     (let endpoint = HostTalosEndpoint current
      in if endpoint = [] then State_Monad.return (Inl ErrHostEndpointUnavailable)
         else do {
           dialed \<leftarrow> call (MaintenanceDial endpoint) (\<lambda>tr. th_dial E tr (MaintenanceDial endpoint));
           if \<not> dialed then State_Monad.return (Inl HostTalosError)
           else do {
             observed \<leftarrow> call (MaintenanceInventory endpoint) (\<lambda>tr. th_inventory E tr (MaintenanceInventory endpoint));
             State_Monad.return
               (case observed of None \<Rightarrow> Inl HostTalosError
                | Some inventory \<Rightarrow>
                    if \<not> HasMAC inventory (hs_macAddress (h_spec current)) then Inl ErrHostIdentityMismatch else Inr inventory)
           }
         })"

definition set_host_condition ::
  "k8s_lib \<Rightarrow> time \<Rightarrow> string \<Rightarrow> condition_status \<Rightarrow> string \<Rightarrow> string \<Rightarrow> TartHost \<Rightarrow> TartHost" where
  "set_host_condition L now t st reason message h =
     h\<lparr>h_status := (h_status h)\<lparr>hst_conditions :=
       SetCondition L now (hst_conditions (h_status h)) t st reason message (mt_generation (h_meta h))\<rparr>\<rparr>"

definition host_observed_generation :: "TartHost \<Rightarrow> TartHost" where
  "host_observed_generation h = h\<lparr>h_status := (h_status h)\<lparr>hst_observedGeneration := mt_generation (h_meta h)\<rparr>\<rparr>"

text \<open>The last case of \<open>setEligibilityConditions\<close> is for values that \<open>Classify\<close> does not return.\<close>

definition setEligibilityConditions :: "k8s_lib \<Rightarrow> time \<Rightarrow> Eligibility \<Rightarrow> TartHost \<Rightarrow> TartHost" where
  "setEligibilityConditions L now eligibility h =
     (let set = (\<lambda>st reason message. set_host_condition L now TartHostAvailableCondition st reason message h);
          h = (case eligibility of
             Available \<Rightarrow> set ConditionTrue ''Available'' ''The Host has no active consumerRef and no retained state.''
           | Claimed \<Rightarrow> set ConditionFalse ''Claimed'' ''The Host is claimed by a TartMachine.''
           | Retained \<Rightarrow> set ConditionFalse ''Retained''
               ''The Host retains state from a previous TartMachine; a matching reuse approval and reuse mode are required.''
           | Reusable \<Rightarrow> set ConditionFalse ''ReuseApprovalRequired''
               ''The Host retains state from a previous TartMachine but has an explicit matching reuse approval; allocation follows reuseMode, not the normal claim path.'')
      in if hst_inventory (h_status h) \<noteq> None
         then set_host_condition L now TartHostInventoryReadyCondition ConditionTrue ''InventoryObserved''
                ''Hardware inventory has been observed.'' h
         else set_host_condition L now TartHostInventoryReadyCondition ConditionFalse ''InventoryUnavailable''
                ''Hardware inventory has not been observed yet.'' h)"

text \<open>Reason and message of an observation that failed.\<close>

definition observation_failure :: "observation_error \<Rightarrow> string \<times> string" where
  "observation_failure e =
     (case e of
        errHostPowerUnavailable \<Rightarrow> (''PowerUnavailable'', ''The Host could not be powered on for maintenance discovery.'')
      | errPowerOnRetriesExhausted \<Rightarrow> (''PowerOnRetriesExhausted'',
          ''The Host power-on retry budget for maintenance discovery is exhausted; manual intervention is required.'')
      | ErrHostEndpointUnavailable \<Rightarrow> (''EndpointUnavailable'', ''A Talos endpoint is not configured or observed for this Host.'')
      | ErrHostIdentityMismatch \<Rightarrow> (ReasonIdentityConflict,
          ''The Talos maintenance MAC address does not match the Host enrollment identity.'')
      | HostTalosError \<Rightarrow> (''TalosUnavailable'',
          ''The Talos maintenance API is not reachable; allocation remains independent from this observation.''))"

definition set_observation_conditions :: "k8s_lib \<Rightarrow> time \<Rightarrow> observation_error option \<Rightarrow> TartHost \<Rightarrow> TartHost" where
  "set_observation_conditions L now failed h =
     (case failed of
        None \<Rightarrow> set_host_condition L now TartHostReadyCondition ConditionTrue ''Ready''
           ''The Host inventory and Talos maintenance endpoint are available.''
           (set_host_condition L now TartHostTalosReachableCondition ConditionTrue ''TalosReachable''
             ''The Talos maintenance API is reachable and the Host identity matches.'' h)
      | Some e \<Rightarrow>
          (case observation_failure e of (reason, message) \<Rightarrow>
             set_host_condition L now TartHostReadyCondition ConditionFalse reason message
               (set_host_condition L now TartHostTalosReachableCondition ConditionFalse reason message h)))"

subsection \<open>Deletion\<close>

definition deletionApproved :: "TartHostSpec \<Rightarrow> bool" where
  "deletionApproved spec =
     (if hs_consumerRef spec = None \<and> hs_previousConsumerRef spec = None then True
      else case hs_deletionApproval spec of None \<Rightarrow> False
      | Some approval \<Rightarrow>
          if (case hs_consumerRef spec of None \<Rightarrow> False
              | Some c \<Rightarrow> ref_uid c = [] \<or> da_consumerUID approval = [] \<or> da_consumerUID approval \<noteq> ref_uid c) then False
          else if (case hs_previousConsumerRef spec of None \<Rightarrow> False
              | Some p \<Rightarrow> prev_uid p = [] \<or> da_previousConsumerUID approval = [] \<or> da_previousConsumerUID approval \<noteq> prev_uid p) then False
          else True)"

definition report_host :: "k8s_lib \<Rightarrow> th_env \<Rightarrow> TartHost \<Rightarrow> string \<Rightarrow> string \<Rightarrow> th_result th" where
  "report_host L E current reason message = do {
     now \<leftarrow> query (th_now E);
     err \<leftarrow> th_call E (HostStatus (host_observed_generation
       (set_host_condition L now TartHostReadyCondition ConditionFalse reason message current)));
     State_Monad.return (0, map_option ThApi err)
   }"

definition set_host_finalizers :: "string list \<Rightarrow> TartHost \<Rightarrow> TartHost" where
  "set_host_finalizers fs h = h\<lparr>h_meta := (h_meta h)\<lparr>mt_finalizers := fs\<rparr>\<rparr>"

definition reconcile_host_deletion :: "k8s_lib \<Rightarrow> th_env \<Rightarrow> TartHost \<Rightarrow> th_result th" where
  "reconcile_host_deletion L E current =
     (let fs = mt_finalizers (h_meta current)
      in if \<not> lib_contains_finalizer L fs tartHostFinalizer then State_Monad.return (0, None)
         else if \<not> deletionApproved (h_spec current)
         then report_host L E current ''DeletionApprovalRequired''
                ''The Host is claimed or retained; matching deletion approval is required and no power or data operation is performed.''
         else do {
           err \<leftarrow> th_call E (HostPatch (set_host_finalizers (lib_remove_finalizer L fs tartHostFinalizer) current));
           State_Monad.return (0, map_option ThApi err)
         })"

subsection \<open>Identity conflicts\<close>

text \<open>The reason and message that a host in conflict gets.\<close>

definition conflict_report :: "TartHost \<Rightarrow> TartHost list \<Rightarrow> string \<times> string" where
  "conflict_report candidate hosts =
     (if HasDiskIdentityConflict candidate hosts
      then (''DiskIdentityConflict'',
        ''This Host reports a disk identity (WWID or serial) that is already reported by another Host; allocation and maintenance configuration are stopped until the conflict is resolved.'')
      else (ReasonIdentityConflict,
        ''Stable Host identity (MAC address or system UUID) is duplicated; allocation and maintenance configuration are stopped.''))"

text \<open>The loop over the candidates; \<open>hosts\<close> is the whole list.\<close>

fun report_conflicts :: "k8s_lib \<Rightarrow> th_env \<Rightarrow> TartHost list \<Rightarrow> TartHost list \<Rightarrow> th_result th" where
  "report_conflicts L E hosts [] = State_Monad.return (0, None)"
| "report_conflicts L E hosts (candidate # rest) =
     (if IsPaused L (h_meta candidate) \<or> \<not> HasIdentityConflict candidate hosts then report_conflicts L E hosts rest
      else
        (case conflict_report candidate hosts of (reason, message) \<Rightarrow> do {
           found \<leftarrow> query (\<lambda>tr. th_get_host E tr (h_name candidate));
           (case found of
              Inl ApiNotFound \<Rightarrow> report_conflicts L E hosts rest
            | Inl e \<Rightarrow> State_Monad.return (0, Some (ThApi e))
            | Inr fresh \<Rightarrow> do {
                now \<leftarrow> query (th_now E);
                let fresh = host_observed_generation
                  (set_host_condition L now TartHostReadyCondition ConditionFalse reason message fresh);
                err \<leftarrow> th_call E (HostStatusLocked fresh);
                (case err of
                   Some ApiNotFound \<Rightarrow> report_conflicts L E hosts rest
                 | Some ApiConflict \<Rightarrow> State_Monad.return (second, None)
                 | Some e \<Rightarrow> State_Monad.return (0, Some (ThApi e))
                 | None \<Rightarrow> do {
                     _ \<leftarrow> (if th_recorder E then emit (HostWarning fresh reason message) else State_Monad.return ());
                     report_conflicts L E hosts rest
                   })
              })
         }))"

definition reportIdentityConflicts :: "k8s_lib \<Rightarrow> th_env \<Rightarrow> TartHost list \<Rightarrow> th_result th" where
  "reportIdentityConflicts L E hosts = report_conflicts L E hosts hosts"

text \<open>The listed hosts with the one just observed in the place of its older copy.\<close>

fun with_observed :: "TartHost \<Rightarrow> TartHost list \<Rightarrow> TartHost list" where
  "with_observed current [] = [current]"
| "with_observed current (h # hs) =
     (if h_name h = h_name current \<and> mt_namespace (h_meta h) = mt_namespace (h_meta current)
      then current # hs else h # with_observed current hs)"

subsection \<open>The pass\<close>

definition set_power_attempts :: "PowerOnAttemptStatus option \<Rightarrow> TartHost \<Rightarrow> TartHost" where
  "set_power_attempts a h = h\<lparr>h_status := (h_status h)\<lparr>hst_powerOnAttempts := a\<rparr>\<rparr>"

text \<open>The power-on request before an observation; the error keeps the host from being observed.\<close>

definition power_on_for_discovery :: "k8s_lib \<Rightarrow> th_env \<Rightarrow> TartHost \<Rightarrow> (TartHost \<times> observation_error option) th" where
  "power_on_for_discovery L E current =
     (if \<not> needsPowerOnForDiscovery L (Some current) then State_Monad.return (current, None)
      else if powerOnRetriesExhausted current then State_Monad.return (current, Some errPowerOnRetriesExhausted)
      else do {
        now \<leftarrow> query (th_now E);
        let current = set_power_attempts (Some (recordPowerOnAttempt (hst_powerOnAttempts (h_status current)) now)) current;
        ok \<leftarrow> call (HostPowerOn current) (\<lambda>tr. th_power_on E tr (HostPowerOn current));
        State_Monad.return (current, if ok then None else Some errHostPowerUnavailable)
      })"

definition set_observation :: "th_env \<Rightarrow> time \<Rightarrow> string \<Rightarrow> Inventory \<Rightarrow> TartHost \<Rightarrow> TartHost" where
  "set_observation E now endpoint inventory h =
     (let status = (h_status h)\<lparr>hst_powerOnAttempts := None, hst_inventory := Some (hostInventory inventory),
            hst_bootAttempts := recordBootAttempt (hst_bootAttempts (h_status h)) inventory endpoint now\<rparr>
      in h\<lparr>h_status := (if endpoint \<noteq> [] then status\<lparr>hst_addresses := HostAddresses (th_parse_ip E) endpoint\<rparr> else status)\<rparr>)"

definition finish_host :: "k8s_lib \<Rightarrow> th_env \<Rightarrow> Eligibility \<Rightarrow> observation_error option \<Rightarrow> TartHost \<Rightarrow> th_result th" where
  "finish_host L E eligibility failed current = do {
     now \<leftarrow> query (th_now E);
     err \<leftarrow> th_call E (HostStatus (host_observed_generation
       (set_observation_conditions L now failed (setEligibilityConditions L now eligibility current))));
     State_Monad.return (case err of Some e \<Rightarrow> (0, Some (ThApi e)) | None \<Rightarrow> (30 * second, None))
   }"

definition observe_host_pass :: "k8s_lib \<Rightarrow> th_env \<Rightarrow> TartHost \<Rightarrow> TartHost list \<Rightarrow> th_result th" where
  "observe_host_pass L E current hosts =
     (let eligibility = Classify (h_spec current); endpoint = HostTalosEndpoint current
      in do {
        (powered, power_err) \<leftarrow> power_on_for_discovery L E current;
        (case power_err of
           Some e \<Rightarrow> finish_host L E eligibility (Some e) powered
         | None \<Rightarrow> do {
             observed \<leftarrow> observeHost E powered;
             (case observed of
                Inl e \<Rightarrow> finish_host L E eligibility (Some e) powered
              | Inr inventory \<Rightarrow> do {
                  now \<leftarrow> query (th_now E);
                  let seen = set_observation E now endpoint inventory powered;
                  (if HasIdentityConflictForAny (with_observed seen hosts)
                   then reportIdentityConflicts L E (with_observed seen hosts)
                   else finish_host L E eligibility None seen)
                })
           })
      })"

definition reconcile_host :: "k8s_lib \<Rightarrow> th_env \<Rightarrow> TartHost \<Rightarrow> th_result th" where
  "reconcile_host L E current = do {
     listed \<leftarrow> query (th_list_hosts E);
     (case listed of
        Inl e \<Rightarrow> State_Monad.return (0, Some (ThApi e))
      | Inr hosts \<Rightarrow>
          if HasIdentityConflictForAny hosts then reportIdentityConflicts L E hosts
          else observe_host_pass L E current hosts)
   }"

text \<open>A patch of the host under an optimistic lock, after which the pass starts again.\<close>

definition patch_and_requeue :: "th_env \<Rightarrow> TartHost \<Rightarrow> th_result th" where
  "patch_and_requeue E h = do {
     err \<leftarrow> th_call E (HostPatch h);
     State_Monad.return (case err of Some e \<Rightarrow> (0, Some (ThApi e)) | None \<Rightarrow> (second, None))
   }"

definition assign_host_id :: "th_env \<Rightarrow> TartHost \<Rightarrow> th_result th" where
  "assign_host_id E current = do {
     generated \<leftarrow> query (\<lambda>tr. NewHostID (th_uuid E tr));
     (case generated of
        None \<Rightarrow> State_Monad.return (0, Some ThPanic)
      | Some hostID \<Rightarrow> patch_and_requeue E (current\<lparr>h_spec := (h_spec current)\<lparr>hs_hostID := hostID\<rparr>\<rparr>))
   }"

definition Reconcile_TartHost :: "k8s_lib \<Rightarrow> th_env \<Rightarrow> string \<Rightarrow> th_result th" where
  "Reconcile_TartHost L E name = do {
     found \<leftarrow> query (\<lambda>tr. th_get_host E tr name);
     (case found of
        Inl ApiNotFound \<Rightarrow> State_Monad.return (0, None)
      | Inl e \<Rightarrow> State_Monad.return (0, Some (ThApi e))
      | Inr current \<Rightarrow>
          if IsPaused L (h_meta current) then State_Monad.return (0, None)
          else if mt_deletionTimestamp (h_meta current) \<noteq> None then reconcile_host_deletion L E current
          else if HostID_IsZero (hs_hostID (h_spec current)) then assign_host_id E current
          else if \<not> lib_contains_finalizer L (mt_finalizers (h_meta current)) tartHostFinalizer
          then patch_and_requeue E
                 (set_host_finalizers (lib_add_finalizer L (mt_finalizers (h_meta current)) tartHostFinalizer) current)
          else reconcile_host L E current)
   }"

subsection \<open>What the operations keep\<close>

lemma set_host_condition_keeps [simp]:
  "h_meta (set_host_condition L now t st r m h) = h_meta h" "h_spec (set_host_condition L now t st r m h) = h_spec h"
  "hst_inventory (h_status (set_host_condition L now t st r m h)) = hst_inventory (h_status h)"
  "hst_powerOnAttempts (h_status (set_host_condition L now t st r m h)) = hst_powerOnAttempts (h_status h)"
  "hst_bootAttempts (h_status (set_host_condition L now t st r m h)) = hst_bootAttempts (h_status h)"
  by (simp_all add: set_host_condition_def)

lemma host_observed_generation_keeps [simp]:
  "h_meta (host_observed_generation h) = h_meta h" "h_spec (host_observed_generation h) = h_spec h"
  "hst_inventory (h_status (host_observed_generation h)) = hst_inventory (h_status h)"
  "hst_powerOnAttempts (h_status (host_observed_generation h)) = hst_powerOnAttempts (h_status h)"
  "hst_bootAttempts (h_status (host_observed_generation h)) = hst_bootAttempts (h_status h)"
  "hst_conditions (h_status (host_observed_generation h)) = hst_conditions (h_status h)"
  by (simp_all add: host_observed_generation_def)

lemma conditions_keep [simp]:
  "h_meta (setEligibilityConditions L now e h) = h_meta h" "h_spec (setEligibilityConditions L now e h) = h_spec h"
  "hst_inventory (h_status (setEligibilityConditions L now e h)) = hst_inventory (h_status h)"
  "hst_powerOnAttempts (h_status (setEligibilityConditions L now e h)) = hst_powerOnAttempts (h_status h)"
  "hst_bootAttempts (h_status (setEligibilityConditions L now e h)) = hst_bootAttempts (h_status h)"
  "h_meta (set_observation_conditions L now f h) = h_meta h" "h_spec (set_observation_conditions L now f h) = h_spec h"
  "hst_inventory (h_status (set_observation_conditions L now f h)) = hst_inventory (h_status h)"
  "hst_powerOnAttempts (h_status (set_observation_conditions L now f h)) = hst_powerOnAttempts (h_status h)"
  "hst_bootAttempts (h_status (set_observation_conditions L now f h)) = hst_bootAttempts (h_status h)"
  by (auto simp: setEligibilityConditions_def set_observation_conditions_def Let_def split: Eligibility.splits option.splits prod.splits)

lemma host_ready_set:
  "conditions_law L \<Longrightarrow> host_is_ready L (set_host_condition L now t st r m h) \<longleftrightarrow>
     (if t = TartHostReadyCondition then st = ConditionTrue else host_is_ready L h)"
  by (auto simp: host_is_ready_def set_host_condition_def find_SetCondition)

lemma host_ready_observed [simp]: "host_is_ready L (host_observed_generation h) = host_is_ready L h"
  by (simp add: host_is_ready_def)

lemma host_ready_after:
  "conditions_law L \<Longrightarrow> host_is_ready L (set_observation_conditions L now f h) \<longleftrightarrow> f = None"
  by (auto simp: set_observation_conditions_def host_ready_set split: option.splits prod.splits)

definition automatic_power :: "TartHost \<Rightarrow> bool" where
  "automatic_power h \<longleftrightarrow> pw_backend (hs_power (h_spec h)) \<in> {PowerBackendWakeOnLAN, PowerBackendRedfish, PowerBackendIntelManageability}"

lemma needsPowerOn_iff:
  "needsPowerOnForDiscovery L (Some h) \<longleftrightarrow> automatic_power h \<and>
     (hst_inventory (h_status h) = None \<or> \<not> host_is_ready L h \<or>
      hs_previousConsumerRef (h_spec h) \<noteq> None \<and> hst_observedGeneration (h_status h) < mt_generation (h_meta h))"
  by (auto simp: needsPowerOnForDiscovery_def automatic_power_def host_is_ready_def split: option.splits)

subsection \<open>The history of boots\<close>

lemma update_boot_attempt_ids:
  "update_boot_attempt b u e now as = Some bs \<Longrightarrow> map ba_bootID bs = map ba_bootID as \<and> b \<in> ba_bootID ` set as"
  by (induction as arbitrary: bs) (auto split: if_splits)

lemma update_boot_attempt_None: "update_boot_attempt b u e now as = None \<longleftrightarrow> b \<notin> ba_bootID ` set as"
  by (induction as) auto

lemma update_boot_attempt_now:
  "update_boot_attempt b u e now as = Some bs \<Longrightarrow> \<exists>a \<in> set bs. ba_bootID a = b \<and> ba_lastObservedAt a = now \<and> ba_endpoint a = e"
  by (induction as arbitrary: bs) (auto split: if_splits)

definition boot_history :: "BootAttempt list \<Rightarrow> bool" where
  "boot_history as \<longleftrightarrow> distinct (map ba_bootID as) \<and> length as \<le> 16"

lemma recordBootAttempt_history:
  assumes "boot_history as"
  shows "boot_history (recordBootAttempt as i e now)"
proof (cases "update_boot_attempt (trim_space (ti_bootID i)) (uuid_string (ti_systemUUID i)) e now as")
  case None
  then have new: "trim_space (ti_bootID i) \<notin> ba_bootID ` set as" by (simp add: update_boot_attempt_None)
  with assms None show ?thesis
    by (auto simp: recordBootAttempt_def boot_history_def Let_def maxBootAttempts_def drop_map[symmetric] distinct_drop dest: in_set_dropD)
next
  case (Some bs)
  with assms update_boot_attempt_ids[OF Some] show ?thesis
    by (auto simp: recordBootAttempt_def boot_history_def Let_def) (metis length_map)
qed

lemma recordBootAttempt_latest:
  assumes "\<not> blank (ti_bootID i)"
  shows "\<exists>a \<in> set (recordBootAttempt as i e now). ba_bootID a = trim_space (ti_bootID i) \<and> ba_lastObservedAt a = now \<and> ba_endpoint a = e"
proof (cases "update_boot_attempt (trim_space (ti_bootID i)) (uuid_string (ti_systemUUID i)) e now as")
  case None
  let ?new = "\<lparr>ba_bootID = trim_space (ti_bootID i), ba_firstObservedAt = now, ba_lastObservedAt = now,
    ba_systemUUID = uuid_string (ti_systemUUID i), ba_endpoint = e\<rparr>"
  have "?new \<in> set (drop n (as @ [?new]))" if "n \<le> length as" for n using that by simp
  with None assms show ?thesis by (auto simp: recordBootAttempt_def Let_def maxBootAttempts_def intro!: bexI[of _ ?new])
next
  case (Some bs)
  with assms update_boot_attempt_now[OF Some] show ?thesis by (simp add: recordBootAttempt_def Let_def)
qed

subsection \<open>The events of a pass\<close>

text \<open>A host whose discovery is given up stays so: it is not ready, and its budget is spent.\<close>

definition given_up :: "k8s_lib \<Rightarrow> TartHost \<Rightarrow> bool" where
  "given_up L h \<longleftrightarrow> needsPowerOnForDiscovery L (Some h) \<and> powerOnRetriesExhausted h"

definition conflict_events :: "k8s_lib \<Rightarrow> th_event set" where
  "conflict_events L = {e. (\<exists>h. e = HostStatusLocked h \<and> \<not> host_is_ready L h) \<or> (\<exists>h r m. e = HostWarning h r m)}"

lemma conflict_events_mem:
  "HostStatusLocked h \<in> conflict_events L \<longleftrightarrow> \<not> host_is_ready L h" "HostWarning h r m \<in> conflict_events L"
  by (simp_all add: conflict_events_def)

lemma emits_report_conflicts:
  assumes "conditions_law L"
  shows "emits (report_conflicts L E hosts rest) (conflict_events L)"
proof (induction rest)
  case (Cons c rest)
  show ?case
    unfolding report_conflicts.simps Let_def
    by (auto intro!: emit_rules emits_emit Cons simp: conflict_events_mem host_ready_set[OF assms] split: api_error.splits)
qed (simp add: emits_return)

lemma emits_conflicts: "conditions_law L \<Longrightarrow> emits (reportIdentityConflicts L E hosts) (conflict_events L)"
  unfolding reportIdentityConflicts_def by (rule emits_report_conflicts)

lemma run_power_on:
  "run_state (power_on_for_discovery L E h) tr =
     (if \<not> needsPowerOnForDiscovery L (Some h) then ((h, None), tr)
      else if powerOnRetriesExhausted h then ((h, Some errPowerOnRetriesExhausted), tr)
      else let h' = set_power_attempts (Some (recordPowerOnAttempt (hst_powerOnAttempts (h_status h)) (th_now E tr))) h
           in ((h', if th_power_on E tr (HostPowerOn h') then None else Some errHostPowerUnavailable), tr @ [HostPowerOn h']))"
  by (simp add: power_on_for_discovery_def Let_def)

lemma set_power_attempts_keeps [simp]:
  "h_meta (set_power_attempts a h) = h_meta h" "h_spec (set_power_attempts a h) = h_spec h"
  "hst_powerOnAttempts (h_status (set_power_attempts a h)) = a" "hst_inventory (h_status (set_power_attempts a h)) = hst_inventory (h_status h)"
  "hst_conditions (h_status (set_power_attempts a h)) = hst_conditions (h_status h)"
  "hst_addresses (h_status (set_power_attempts a h)) = hst_addresses (h_status h)"
  "hst_bootAttempts (h_status (set_power_attempts a h)) = hst_bootAttempts (h_status h)"
  by (simp_all add: set_power_attempts_def)

lemma endpoint_set_power_attempts [simp]: "HostTalosEndpoint (set_power_attempts a h) = HostTalosEndpoint h"
  by (simp add: HostTalosEndpoint_def cong: option.case_cong if_cong)

text \<open>The host that \<open>power_on_for_discovery\<close> goes on with, and the request it made.\<close>

definition power_stage :: "k8s_lib \<Rightarrow> th_env \<Rightarrow> th_event list \<Rightarrow> TartHost \<Rightarrow> th_event list \<Rightarrow> TartHost \<Rightarrow> bool" where
  "power_stage L E tr h pw h' \<longleftrightarrow> h_meta h' = h_meta h \<and> h_spec h' = h_spec h \<and> HostTalosEndpoint h' = HostTalosEndpoint h \<and>
     hst_bootAttempts (h_status h') = hst_bootAttempts (h_status h) \<and>
     (if needsPowerOnForDiscovery L (Some h) \<and> \<not> powerOnRetriesExhausted h
      then pw = [HostPowerOn h'] \<and>
           hst_powerOnAttempts (h_status h') = Some (recordPowerOnAttempt (hst_powerOnAttempts (h_status h)) (th_now E tr))
      else pw = [] \<and> h' = h)"

lemma power_on_result:
  assumes "run_state (power_on_for_discovery L E h) tr = ((h', err), tr')"
  shows "\<exists>pw. tr' = tr @ pw \<and> power_stage L E tr h pw h' \<and> (given_up L h \<longrightarrow> err = Some errPowerOnRetriesExhausted) \<and>
    (err = None \<longrightarrow> \<not> given_up L h)"
  using assms by (auto simp: run_power_on given_up_def power_stage_def Let_def split: if_splits)

text \<open>The status that a pass ends with keeps all but the conditions.\<close>

definition status_of :: "k8s_lib \<Rightarrow> TartHost \<Rightarrow> bool \<Rightarrow> TartHost \<Rightarrow> bool" where
  "status_of L h ready s \<longleftrightarrow> h_meta s = h_meta h \<and> h_spec s = h_spec h \<and> hst_inventory (h_status s) = hst_inventory (h_status h) \<and>
     hst_powerOnAttempts (h_status s) = hst_powerOnAttempts (h_status h) \<and> hst_bootAttempts (h_status s) = hst_bootAttempts (h_status h) \<and>
     (host_is_ready L s \<longleftrightarrow> ready)"

lemma finish_host_run:
  "conditions_law L \<Longrightarrow> run_state (finish_host L E el f h) tr = (r, tr') \<Longrightarrow>
     \<exists>s. tr' = tr @ [HostStatus s] \<and> status_of L h (f = None) s"
  by (auto simp: finish_host_def status_of_def host_ready_after)

text \<open>What a host said of itself at its endpoint.\<close>

definition host_answered :: "th_env \<Rightarrow> th_event list \<Rightarrow> TartHost \<Rightarrow> Inventory \<Rightarrow> bool" where
  "host_answered E tr h i \<longleftrightarrow> HostTalosEndpoint h \<noteq> [] \<and> th_dial E tr (MaintenanceDial (HostTalosEndpoint h)) \<and>
     th_inventory E (tr @ [MaintenanceDial (HostTalosEndpoint h)]) (MaintenanceInventory (HostTalosEndpoint h)) = Some i \<and>
     HasMAC i (hs_macAddress (h_spec h))"

definition observes_talos :: "th_event list \<Rightarrow> bool" where
  "observes_talos es \<longleftrightarrow> (\<forall>e \<in> set es. \<exists>ep. e = MaintenanceDial ep \<or> e = MaintenanceInventory ep)"

lemma observeHost_run:
  assumes "run_state (observeHost E h) tr = (x, tr')"
  shows "\<exists>ob. tr' = tr @ ob \<and> observes_talos ob \<and> (\<forall>i. x = Inr i \<longrightarrow> host_answered E tr h i)"
  using assms by (auto simp: observeHost_def host_answered_def observes_talos_def Let_def split: option.splits if_splits)

lemma set_observation_keeps [simp]:
  "h_meta (set_observation E now ep i h) = h_meta h" "h_spec (set_observation E now ep i h) = h_spec h"
  "hst_powerOnAttempts (h_status (set_observation E now ep i h)) = None"
  "hst_inventory (h_status (set_observation E now ep i h)) = Some (hostInventory i)"
  by (simp_all add: set_observation_def Let_def)

text \<open>
  How a pass over a host goes when the listed hosts are not in conflict: at most one power-on request,
  at most one observation, then the status of this host or the reports of a conflict.
\<close>

lemma observe_host_pass_cases:
  assumes law: "conditions_law L" and run: "run_state (observe_host_pass L E h hosts) tr = (r, tr @ new)"
  obtains (failed) pw ob h' s where "power_stage L E tr h pw h'" "observes_talos ob" "new = pw @ ob @ [HostStatus s]"
      "status_of L h' False s" "given_up L h \<longrightarrow> ob = []"
  | (seen) pw ob h' i now s where "power_stage L E tr h pw h'" "observes_talos ob" "new = pw @ ob @ [HostStatus s]" "\<not> given_up L h"
      "host_answered E (tr @ pw) h' i" "status_of L (set_observation E now (HostTalosEndpoint h) i h') True s"
      "\<not> HasIdentityConflictForAny (with_observed (set_observation E now (HostTalosEndpoint h) i h') hosts)"
  | (conflict) pw ob h' es where "power_stage L E tr h pw h'" "observes_talos ob" "new = pw @ ob @ es" "\<not> given_up L h"
      "set es \<subseteq> conflict_events L"
proof -
  obtain h' err t1 where p: "run_state (power_on_for_discovery L E h) tr = ((h', err), t1)" by (metis surj_pair)
  from power_on_result[OF p] obtain pw where pw: "t1 = tr @ pw" "power_stage L E tr h pw h'"
    "given_up L h \<longrightarrow> err = Some errPowerOnRetriesExhausted" "err = None \<longrightarrow> \<not> given_up L h" by blast
  show thesis
  proof (cases err)
    case (Some e)
    with run p pw(1) have "run_state (finish_host L E (Classify (h_spec h)) (Some e) h') (tr @ pw) = (r, tr @ new)"
      by (simp add: observe_host_pass_def Let_def)
    from finish_host_run[OF law this] failed[of pw h' "[]"] pw(2) show thesis by (auto simp: observes_talos_def)
  next
    case None
    obtain x t2 where o: "run_state (observeHost E h') (tr @ pw) = (x, t2)" by (metis surj_pair)
    from observeHost_run[OF o] obtain ob where ob: "t2 = tr @ pw @ ob" "observes_talos ob" "\<forall>i. x = Inr i \<longrightarrow> host_answered E (tr @ pw) h' i" by auto
    show thesis
    proof (cases x)
      case (Inl e)
      with run p pw(1) None o ob(1) have "run_state (finish_host L E (Classify (h_spec h)) (Some e) h') (tr @ pw @ ob) = (r, tr @ new)"
        by (simp add: observe_host_pass_def Let_def)
      from finish_host_run[OF law this] failed[of pw h' ob] pw(2,4) None ob(2) show thesis by auto
    next
      case (Inr i)
      let ?seen = "set_observation E (th_now E t2) (HostTalosEndpoint h) i h'"
      show thesis
      proof (cases "HasIdentityConflictForAny (with_observed ?seen hosts)")
        case True
        with run p pw(1) None o ob(1) Inr have "run_state (reportIdentityConflicts L E (with_observed ?seen hosts)) t2 = (r, tr @ new)"
          by (simp add: observe_host_pass_def Let_def)
        from emitsD[OF emits_conflicts[OF law] this] ob(1) conflict[of pw h' ob] pw(2,4) None ob(2) show thesis by auto
      next
        case False
        with run p pw(1) None o ob(1) Inr have "run_state (finish_host L E (Classify (h_spec h)) None ?seen) t2 = (r, tr @ new)"
          by (simp add: observe_host_pass_def Let_def)
        from finish_host_run[OF law this] ob seen[of pw h' ob _ i] pw(2,4) None Inr False show thesis by auto
      qed
    qed
  qed
qed

text \<open>When a pass comes to the observation.\<close>

definition discovers :: "k8s_lib \<Rightarrow> th_env \<Rightarrow> th_event list \<Rightarrow> TartHost \<Rightarrow> bool" where
  "discovers L E tr h \<longleftrightarrow> \<not> IsPaused L (h_meta h) \<and> mt_deletionTimestamp (h_meta h) = None \<and> \<not> HostID_IsZero (hs_hostID (h_spec h)) \<and>
     lib_contains_finalizer L (mt_finalizers (h_meta h)) tartHostFinalizer \<and>
     (\<exists>hosts. th_list_hosts E tr = Inr hosts \<and> \<not> HasIdentityConflictForAny hosts)"

lemma Reconcile_discovers:
  "th_get_host E tr n = Inr h \<Longrightarrow> discovers L E tr h \<Longrightarrow> \<exists>hosts. th_list_hosts E tr = Inr hosts \<and>
     run_state (Reconcile_TartHost L E n) tr = run_state (observe_host_pass L E h hosts) tr"
  by (auto simp: Reconcile_TartHost_def discovers_def reconcile_host_def)

text \<open>Otherwise a pass only reports or patches the metadata or the ID of the host.\<close>

lemma Reconcile_other:
  assumes law: "conditions_law L" and run: "run_state (Reconcile_TartHost L E n) tr = (r, tr @ new)"
    and other: "\<forall>h. th_get_host E tr n = Inr h \<longrightarrow> \<not> discovers L E tr h"
  shows "new = [] \<or> set new \<subseteq> conflict_events L \<or> (\<exists>h. th_get_host E tr n = Inr h \<and>
    (mt_deletionTimestamp (h_meta h) \<noteq> None \<and> \<not> deletionApproved (h_spec h) \<and>
       (\<exists>s. new = [HostStatus s] \<and> \<not> host_is_ready L s \<and> h_meta s = h_meta h \<and> h_spec s = h_spec h \<and>
            hst_inventory (h_status s) = hst_inventory (h_status h) \<and> hst_powerOnAttempts (h_status s) = hst_powerOnAttempts (h_status h)) \<or>
     mt_deletionTimestamp (h_meta h) \<noteq> None \<and> deletionApproved (h_spec h) \<and> lib_contains_finalizer L (mt_finalizers (h_meta h)) tartHostFinalizer \<and>
       new = [HostPatch (set_host_finalizers (lib_remove_finalizer L (mt_finalizers (h_meta h)) tartHostFinalizer) h)] \<or>
     mt_deletionTimestamp (h_meta h) = None \<and>
       new = [HostPatch (set_host_finalizers (lib_add_finalizer L (mt_finalizers (h_meta h)) tartHostFinalizer) h)] \<or>
     mt_deletionTimestamp (h_meta h) = None \<and> HostID_IsZero (hs_hostID (h_spec h)) \<and>
       (\<exists>i. new = [HostPatch (h\<lparr>h_spec := (h_spec h)\<lparr>hs_hostID := i\<rparr>\<rparr>)])))"
proof (cases "th_get_host E tr n")
  case (Inl e)
  with run show ?thesis by (cases e) (auto simp: Reconcile_TartHost_def)
next
  case (Inr h)
  show ?thesis
  proof (cases "\<not> IsPaused L (h_meta h) \<and> mt_deletionTimestamp (h_meta h) = None \<and> \<not> HostID_IsZero (hs_hostID (h_spec h)) \<and>
      lib_contains_finalizer L (mt_finalizers (h_meta h)) tartHostFinalizer")
    case True
    with run Inr have step: "run_state (reconcile_host L E h) tr = (r, tr @ new)" by (simp add: Reconcile_TartHost_def)
    show ?thesis
    proof (cases "th_list_hosts E tr")
      case (Inl e)
      with step show ?thesis by (simp add: reconcile_host_def)
    next
      case listed: (Inr hosts)
      with True Inr other have "HasIdentityConflictForAny hosts" by (auto simp: discovers_def)
      with step listed have "run_state (reportIdentityConflicts L E hosts) tr = (r, tr @ new)" by (simp add: reconcile_host_def)
      from emits_new[OF emits_conflicts[OF law] this] show ?thesis by blast
    qed
  next
    case False
    with run Inr show ?thesis
      by (auto simp: Reconcile_TartHost_def reconcile_host_deletion_def report_host_def assign_host_id_def patch_and_requeue_def
          host_ready_set[OF law] Let_def split: if_splits option.splits)
  qed
qed

end
