(* ===== verification/HostProperties.thy ===== *)
theory HostProperties
  imports HostReconciler Samples
begin

section \<open>Properties of the TartHost reconciler and of the disk selectors\<close>

text \<open>
  What \<open>controller/tarthost\<close> guarantees about the discovery of a host, its power-on requests
  and its deletion, and what \<open>domain/bootstrap\<close> guarantees about disks and patches.
\<close>

subsection \<open>Sample objects\<close>

text \<open>A host with a power controller, and a world in which it answers once it is powered on.\<close>

definition sample_automatic_host :: "PowerOnAttemptStatus option \<Rightarrow> TartHost" where
  "sample_automatic_host attempts =
     (let h = sample_host ''h1'' 5
      in h\<lparr>h_meta := (h_meta h)\<lparr>mt_finalizers := [tartHostFinalizer]\<rparr>,
           h_spec := (h_spec h)\<lparr>hs_talosAPIAddress := ''10.0.0.1'', hs_power := (hs_power (h_spec h))\<lparr>pw_backend := PowerBackendRedfish\<rparr>\<rparr>,
           h_status := (h_status h)\<lparr>hst_powerOnAttempts := attempts\<rparr>\<rparr>)"

definition sample_th_world :: "TartHost \<Rightarrow> th_env" where
  "sample_th_world h =
     \<lparr>th_now = (\<lambda>tr. 1 + int (length tr)), th_get_host = (\<lambda>_ _. Inr h), th_list_hosts = (\<lambda>_. Inr [h]), th_write = (\<lambda>_ _. None),
      th_power_on = (\<lambda>_ _. True), th_dial = (\<lambda>_ _. True), th_inventory = (\<lambda>_ _. Some sample_inventory), th_uuid = (\<lambda>_. 77),
      th_recorder = True, th_parse_ip = (\<lambda>_. True)\<rparr>"

lemma sample_host_reference_conditions: "conditions_law k8s_reference" "finalizers_law k8s_reference"
  by (rule k8s_reference_conditions k8s_reference_finalizers)+

lemma sample_spent_host:
  "given_up k8s_reference (sample_automatic_host (Some \<lparr>po_count = 30, po_lastAttemptAt = 1\<rparr>))"
  by (simp add: given_up_def needsPowerOn_iff powerOnRetriesExhausted_def maxPowerOnAttempts_def automatic_power_def sample_automatic_host_def
      sample_defs Let_def)

text \<open>A run in which the host is powered on and answers.\<close>

lemma sample_no_conflict:
  "\<not> HasIdentityConflictForAny [sample_automatic_host a]"
  by (simp add: HasIdentityConflictForAny_iff HasIdentityConflict_def disks_within_conflict_def same_object_def sample_automatic_host_def
      sample_defs Let_def)

lemma sample_discovers: "discovers k8s_reference (sample_th_world (sample_automatic_host a)) tr (sample_automatic_host a)"
proof -
  have "\<not> HostID_IsZero (HostID 5)" by code_simp
  moreover have "lib_contains_finalizer k8s_reference [tartHostFinalizer] tartHostFinalizer" "\<not> lib_has_paused k8s_reference []"
    by (simp_all add: k8s_reference_def)
  ultimately show ?thesis using sample_no_conflict[of a]
    by (simp add: discovers_def sample_th_world_def IsPaused_def sample_automatic_host_def sample_defs Let_def)
qed

lemma sample_alone: "hst_inventory (h_status x) = Some (hostInventory sample_inventory) \<Longrightarrow> \<not> HasIdentityConflictForAny [x]"
  by (simp add: HasIdentityConflictForAny_iff HasIdentityConflict_def disks_within_conflict_def same_object_def hostInventory_def sample_inventory_def)

lemma sample_discovery_run:
  "\<exists>k s. run_state (Reconcile_TartHost k8s_reference (sample_th_world (sample_automatic_host None)) ''h1'') [] =
     ((30 * second, None), [] @ [HostPowerOn k, MaintenanceDial ''10.0.0.1'', MaintenanceInventory ''10.0.0.1'', HostStatus s]) \<and>
     host_is_ready k8s_reference s"
proof -
  let ?h = "sample_automatic_host None" and ?E = "sample_th_world (sample_automatic_host None)"
  have read: "th_get_host ?E [] ''h1'' = Inr ?h" by (simp add: sample_th_world_def)
  have power: "needsPowerOnForDiscovery k8s_reference (Some ?h)" "\<not> powerOnRetriesExhausted ?h"
    by (simp_all add: needsPowerOn_iff powerOnRetriesExhausted_def automatic_power_def sample_automatic_host_def sample_defs Let_def)
  have ep: "HostTalosEndpoint ?h = ''10.0.0.1''" by (simp add: HostTalosEndpoint_def sample_automatic_host_def Let_def)
  have mac: "HasMAC sample_inventory (hs_macAddress (h_spec ?h))"
    by (simp add: HasMAC_def MAC_IsZero_def sample_inventory_def sample_automatic_host_def sample_defs Let_def)
  obtain hosts where hosts: "th_list_hosts ?E [] = Inr hosts"
    "run_state (Reconcile_TartHost k8s_reference ?E ''h1'') [] = run_state (observe_host_pass k8s_reference ?E ?h hosts) []"
    using Reconcile_discovers[OF read sample_discovers] by blast
  then have "hosts = [?h]" by (simp add: sample_th_world_def)
  moreover have world: "th_power_on ?E tr e" "th_dial ?E tr e" "th_inventory ?E tr e = Some sample_inventory" "th_write ?E tr e = None" for tr e
    by (simp_all add: sample_th_world_def)
  ultimately show ?thesis using power ep mac hosts(2)
    by (simp add: observe_host_pass_def run_power_on observeHost_def sample_alone finish_host_def
        host_ready_after[OF sample_host_reference_conditions(1)] Let_def)
qed

subsection \<open>Discovery\<close>

text \<open>C39. Once the thirty power-on attempts of an automatic host are used up, no pass contacts the host or
  its power controller again, and every status that is written keeps it so: a host that comes up later on
  is not discovered.\<close>

theorem given_up_host_is_never_observed:
  assumes law: "conditions_law L" and read: "th_get_host E tr n = Inr h" "given_up L h"
    and run: "run_state (Reconcile_TartHost L E n) tr = (r, tr @ new)"
  shows "(\<forall>e \<in> set new. \<forall>ep k. e \<noteq> MaintenanceDial ep \<and> e \<noteq> MaintenanceInventory ep \<and> e \<noteq> HostPowerOn k) \<and>
    (\<forall>s. HostStatus s \<in> set new \<longrightarrow> given_up L s)"
proof -
  have spent: "needsPowerOnForDiscovery L (Some h)" "powerOnRetriesExhausted h" "automatic_power h"
    using read(2) by (auto simp: given_up_def needsPowerOn_iff)
  have still: "given_up L s" if "\<not> host_is_ready L s" "h_spec s = h_spec h" "hst_powerOnAttempts (h_status s) = hst_powerOnAttempts (h_status h)" for s
    using that spent by (auto simp: given_up_def needsPowerOn_iff automatic_power_def powerOnRetriesExhausted_def)
  show ?thesis
  proof (cases "discovers L E tr h")
    case True
    with Reconcile_discovers[OF read(1)] run obtain hosts where "run_state (observe_host_pass L E h hosts) tr = (r, tr @ new)" by metis
    then show ?thesis
      by (rule observe_host_pass_cases[OF law]) (use read(2) spent still in \<open>auto simp: power_stage_def status_of_def\<close>)
  next
    case False
    with Reconcile_other[OF law run] read(1) still show ?thesis by (auto simp: conflict_events_def)
  qed
qed

theorem given_up_host_is_never_observed_witness:
  "let h = sample_automatic_host (Some \<lparr>po_count = 30, po_lastAttemptAt = 1\<rparr>);
       new = snd (run_state (Reconcile_TartHost k8s_reference (sample_th_world h) ''h1'') [])
   in set new \<inter> {e. \<exists>ep k. e = MaintenanceDial ep \<or> e = HostPowerOn k} = {}"
proof -
  let ?h = "sample_automatic_host (Some \<lparr>po_count = 30, po_lastAttemptAt = 1\<rparr>)"
  obtain r new where run: "run_state (Reconcile_TartHost k8s_reference (sample_th_world ?h) ''h1'') [] = (r, [] @ new)"
    by (metis append_Nil surj_pair)
  have "th_get_host (sample_th_world ?h) [] ''h1'' = Inr ?h" by (simp add: sample_th_world_def)
  from given_up_host_is_never_observed[OF sample_host_reference_conditions(1) this sample_spent_host run] run show ?thesis
    by (auto simp: Let_def)
qed

text \<open>A pass asks for power at most once, only for a host with an automatic backend that still needs
  to be discovered, while no listed hosts are in conflict and fewer than thirty attempts are recorded; the attempt is
  recorded in every status the pass writes, unless the host answered.\<close>

lemma power_on_pass:
  assumes law: "conditions_law L" and read: "th_get_host E tr n = Inr h"
    and run: "run_state (Reconcile_TartHost L E n) tr = (r, tr @ new)" and on: "HostPowerOn k \<in> set new"
  shows "automatic_power h \<and> discovers L E tr h \<and> needsPowerOnForDiscovery L (Some h) \<and> \<not> powerOnRetriesExhausted h \<and>
    new = HostPowerOn k # tl new \<and> (\<forall>k'. HostPowerOn k' \<notin> set (tl new)) \<and>
    (\<exists>a. hst_powerOnAttempts (h_status k) = Some a \<and> po_count a = (case hst_powerOnAttempts (h_status h) of None \<Rightarrow> 1 | Some b \<Rightarrow> po_count b + 1) \<and>
       po_count a \<le> 30 \<and>
       (\<forall>s. HostStatus s \<in> set new \<longrightarrow> hst_powerOnAttempts (h_status s) = Some a \<or>
          host_is_ready L s \<and> hst_powerOnAttempts (h_status s) = None))"
proof (cases "discovers L E tr h")
  case False
  with Reconcile_other[OF law run] read on show ?thesis by (auto simp: conflict_events_def)
next
  case True
  with Reconcile_discovers[OF read] run obtain hosts where pass: "run_state (observe_host_pass L E h hosts) tr = (r, tr @ new)" by metis
  have stage: "automatic_power h \<and> needsPowerOnForDiscovery L (Some h) \<and> \<not> powerOnRetriesExhausted h \<and> pw = [HostPowerOn h'] \<and>
      (\<exists>a. hst_powerOnAttempts (h_status h') = Some a \<and>
         po_count a = (case hst_powerOnAttempts (h_status h) of None \<Rightarrow> 1 | Some b \<Rightarrow> po_count b + 1) \<and> po_count a \<le> 30)"
    if "power_stage L E tr h pw h'" "pw \<noteq> []" for pw h'
    using that by (auto simp: power_stage_def needsPowerOn_iff powerOnRetriesExhausted_def recordPowerOnAttempt_def maxPowerOnAttempts_def
        split: if_splits option.splits)
  from pass show ?thesis
  proof (rule observe_host_pass_cases[OF law])
    fix pw ob h' s assume p: "power_stage L E tr h pw h'" "observes_talos ob" "new = pw @ ob @ [HostStatus s]" "status_of L h' False s"
    with on have "pw \<noteq> []" by (auto simp: observes_talos_def)
    with stage[OF p(1)] p(2-4) on True show ?thesis by (auto simp: observes_talos_def status_of_def)
  next
    fix pw ob h' i now s assume p: "power_stage L E tr h pw h'" "observes_talos ob" "new = pw @ ob @ [HostStatus s]"
      "status_of L (set_observation E now (HostTalosEndpoint h) i h') True s"
    with on have "pw \<noteq> []" by (auto simp: observes_talos_def)
    with stage[OF p(1)] p(2-4) on True show ?thesis by (auto simp: observes_talos_def status_of_def)
  next
    fix pw ob h' es assume p: "power_stage L E tr h pw h'" "observes_talos ob" "new = pw @ ob @ es" "set es \<subseteq> conflict_events L"
    with on have "pw \<noteq> []" by (auto simp: observes_talos_def conflict_events_def)
    with stage[OF p(1)] p(2-4) on True show ?thesis by (auto simp: observes_talos_def conflict_events_def)
  qed
qed

text \<open>Passes over a host that does not answer: the number of power-on requests they make and the attempts that the stored
  status records. The status is the last one that the API server accepted; a pass that asks for power is followed only
  when its status was accepted and does not report the host ready, since one that is lost leaves the record as it was.
  Between the passes nobody else writes the record; anything else may change.\<close>

definition attempts_count :: "PowerOnAttemptStatus option \<Rightarrow> int" where
  "attempts_count a = (case a of None \<Rightarrow> 0 | Some x \<Rightarrow> po_count x)"

definition asks_power :: "th_event \<Rightarrow> bool" where
  "asks_power e \<longleftrightarrow> (\<exists>k. e = HostPowerOn k)"

fun stored_attempts :: "th_env \<Rightarrow> th_event list \<Rightarrow> th_event list \<Rightarrow> PowerOnAttemptStatus option \<Rightarrow> PowerOnAttemptStatus option" where
  "stored_attempts E tr [] a = a"
| "stored_attempts E tr (e # es) a =
     stored_attempts E (tr @ [e]) es
       (case e of HostStatus s \<Rightarrow> if th_write E tr e = None then hst_powerOnAttempts (h_status s) else a | _ \<Rightarrow> a)"

inductive power_passes :: "k8s_lib \<Rightarrow> string \<Rightarrow> PowerOnAttemptStatus option \<Rightarrow> nat \<Rightarrow> PowerOnAttemptStatus option \<Rightarrow> bool"
  for L n a where
  start: "power_passes L n a 0 a"
| pass: "power_passes L n a k b \<Longrightarrow> th_get_host E tr n = Inr h \<Longrightarrow> hst_powerOnAttempts (h_status h) = b \<Longrightarrow>
    run_state (Reconcile_TartHost L E n) tr = (r, tr @ new) \<Longrightarrow> \<forall>s. HostStatus s \<in> set new \<longrightarrow> \<not> host_is_ready L s \<Longrightarrow>
    (\<exists>e \<in> set new. asks_power e) \<longrightarrow> (\<exists>before s. new = before @ [HostStatus s] \<and> th_write E (tr @ before) (HostStatus s) = None) \<Longrightarrow>
    power_passes L n a (k + length (filter asks_power new)) (stored_attempts E tr new b)"

lemma stored_same: "\<forall>s. HostStatus s \<in> set es \<longrightarrow> hst_powerOnAttempts (h_status s) = a \<Longrightarrow> stored_attempts E tr es a = a"
  by (induction es arbitrary: tr) (auto split: th_event.splits)

lemma stored_last: "th_write E (tr @ es) (HostStatus s) = None \<Longrightarrow> stored_attempts E tr (es @ [HostStatus s]) a = hst_powerOnAttempts (h_status s)"
  by (induction es arbitrary: tr a) auto

lemma quiet_pass_keeps_attempts:
  assumes law: "conditions_law L" and read: "th_get_host E tr n = Inr h"
    and run: "run_state (Reconcile_TartHost L E n) tr = (r, tr @ new)" and off: "\<not> (\<exists>e \<in> set new. asks_power e)"
    and s: "HostStatus s \<in> set new" "\<not> host_is_ready L s"
  shows "hst_powerOnAttempts (h_status s) = hst_powerOnAttempts (h_status h)"
proof (cases "discovers L E tr h")
  case False
  with Reconcile_other[OF law run] read s show ?thesis by (auto simp: conflict_events_def)
next
  case True
  with Reconcile_discovers[OF read] run obtain hosts where "run_state (observe_host_pass L E h hosts) tr = (r, tr @ new)" by metis
  then show ?thesis
    by (rule observe_host_pass_cases[OF law])
       (use s off in \<open>auto simp: power_stage_def status_of_def asks_power_def observes_talos_def conflict_events_def split: if_splits\<close>)
qed

lemma power_passes_counted:
  assumes "power_passes L n a k b" and law: "conditions_law L"
  shows "attempts_count b = attempts_count a + int k \<and> (0 < k \<longrightarrow> attempts_count b \<le> 30)"
  using assms(1)
proof (induction rule: power_passes.induct)
  case (pass k b E tr h r new)
  show ?case
  proof (cases "\<exists>e \<in> set new. asks_power e")
    case False
    then have "filter asks_power new = []" by (simp add: filter_empty_conv)
    moreover have "stored_attempts E tr new b = b"
      using stored_same quiet_pass_keeps_attempts[OF law pass(2,4) False] pass(3,5) by blast
    ultimately show ?thesis using pass.IH by (metis add.right_neutral list.size(3))
  next
    case True
    then obtain k' where on: "HostPowerOn k' \<in> set new" by (auto simp: asks_power_def)
    from True pass(6) obtain before s where s: "new = before @ [HostStatus s]" "th_write E (tr @ before) (HostStatus s) = None" by blast
    from power_on_pass[OF law pass(2,4) on] obtain x where
      x: "new = HostPowerOn k' # tl new" "\<forall>k. HostPowerOn k \<notin> set (tl new)"
        "po_count x = (case hst_powerOnAttempts (h_status h) of None \<Rightarrow> 1 | Some b \<Rightarrow> po_count b + 1)" "po_count x \<le> 30"
        "\<forall>s. HostStatus s \<in> set new \<longrightarrow> hst_powerOnAttempts (h_status s) = Some x \<or> host_is_ready L s \<and> hst_powerOnAttempts (h_status s) = None"
      by blast
    have "filter asks_power (tl new) = []" using x(2) by (auto simp: filter_empty_conv asks_power_def)
    then have "length (filter asks_power new) = 1" using x(1) by (metis asks_power_def filter.simps(2) length_Cons list.size(3) One_nat_def)
    moreover have "stored_attempts E tr new b = Some x" using stored_last[OF s(2)] x(5) pass(5) s(1) by auto
    ultimately show ?thesis using pass.IH x(3,4) pass(3) by (auto simp: attempts_count_def split: option.splits)
  qed
qed simp

text \<open>C29. Over any passes in which an automatic host does not answer, each power-on request is counted in its stored
  status, and as soon as there is one the count is at most thirty: at most thirty requests are made until the host
  is observed. (A pass whose status is not accepted is not counted, which is why the passes require it.)\<close>

theorem power_on_bounded:
  assumes "conditions_law L" and "power_passes L n a k b"
  shows "attempts_count b = attempts_count a + int k \<and> (0 < k \<longrightarrow> attempts_count b \<le> 30)"
  by (rule power_passes_counted[OF assms(2,1)])

text \<open>A host that is switched on and does not answer.\<close>

lemma sample_silent_run:
  defines "E \<equiv> (sample_th_world (sample_automatic_host None))\<lparr>th_dial := \<lambda>_ _. False\<rparr>"
  shows "\<exists>k s. run_state (Reconcile_TartHost k8s_reference E ''h1'') [] =
     ((30 * second, None), [] @ [HostPowerOn k, MaintenanceDial ''10.0.0.1'', HostStatus s]) \<and> \<not> host_is_ready k8s_reference s"
proof -
  let ?h = "sample_automatic_host None"
  have read: "th_get_host E [] ''h1'' = Inr ?h" by (simp add: E_def sample_th_world_def)
  have power: "needsPowerOnForDiscovery k8s_reference (Some ?h)" "\<not> powerOnRetriesExhausted ?h"
    by (simp_all add: needsPowerOn_iff powerOnRetriesExhausted_def automatic_power_def sample_automatic_host_def sample_defs Let_def)
  have ep: "HostTalosEndpoint ?h = ''10.0.0.1''" by (simp add: HostTalosEndpoint_def sample_automatic_host_def Let_def)
  have "discovers k8s_reference E [] ?h" using sample_discovers by (simp add: discovers_def E_def)
  from Reconcile_discovers[OF read this] obtain hosts where hosts:
    "run_state (Reconcile_TartHost k8s_reference E ''h1'') [] = run_state (observe_host_pass k8s_reference E ?h hosts) []" by blast
  have world: "th_power_on E tr e" "\<not> th_dial E tr e" "th_write E tr e = None" for tr e
    by (simp_all add: E_def sample_th_world_def)
  show ?thesis using power ep world
    by (simp add: hosts observe_host_pass_def run_power_on observeHost_def finish_host_def
        host_ready_after[OF sample_host_reference_conditions(1)] Let_def)
qed

theorem power_on_bounded_witness:
  "\<exists>b. power_passes k8s_reference ''h1'' None 1 b \<and> attempts_count b = 1"
proof -
  let ?h = "sample_automatic_host None" and ?E = "(sample_th_world (sample_automatic_host None))\<lparr>th_dial := \<lambda>_ _. False\<rparr>"
  from sample_silent_run obtain k s where run: "run_state (Reconcile_TartHost k8s_reference ?E ''h1'') [] =
     ((30 * second, None), [] @ [HostPowerOn k, MaintenanceDial ''10.0.0.1'', HostStatus s])" "\<not> host_is_ready k8s_reference s" by blast
  have read: "th_get_host ?E [] ''h1'' = Inr ?h" "hst_powerOnAttempts (h_status ?h) = None"
    by (simp_all add: sample_th_world_def sample_automatic_host_def Let_def)
  have "\<exists>b. power_passes k8s_reference ''h1'' None (0 + length (filter asks_power [HostPowerOn k, MaintenanceDial ''10.0.0.1'', HostStatus s])) b"
    by (rule exI, rule power_passes.pass[OF power_passes.start read run(1)])
       (use run(2) in \<open>auto simp: sample_th_world_def intro!: exI[of _ "[HostPowerOn k, MaintenanceDial ''10.0.0.1'']"]\<close>)
  then obtain b where "power_passes k8s_reference ''h1'' None 1 b" by (auto simp: asks_power_def)
  with power_on_bounded[OF sample_host_reference_conditions(1) this] show ?thesis by (auto simp: attempts_count_def)
qed

text \<open>C18. The status says that a host is ready only when it answered at its Talos endpoint with its MAC address
  among the physical links, no other host has its identity, and what it answered is the inventory of the status.\<close>

theorem host_ready_means_answered:
  assumes law: "conditions_law L" and run: "run_state (Reconcile_TartHost L E n) tr = (r, tr @ new)"
    and said: "HostStatus s \<in> set new" "host_is_ready L s"
  shows "\<exists>h hosts h' t i. th_get_host E tr n = Inr h \<and> discovers L E tr h \<and> h_spec s = h_spec h \<and> h_spec h' = h_spec h \<and>
    host_answered E t h' i \<and> hs_macAddress (h_spec s) \<in> set (ti_macAddresses i) \<and>
    hst_inventory (h_status s) = Some (hostInventory i) \<and> hst_powerOnAttempts (h_status s) = None \<and>
    th_list_hosts E tr = Inr hosts \<and>
    (\<exists>now. \<not> HasIdentityConflictForAny (with_observed (set_observation E now (HostTalosEndpoint h) i h') hosts))"
proof (cases "\<exists>h. th_get_host E tr n = Inr h \<and> discovers L E tr h")
  case False
  with Reconcile_other[OF law run] said show ?thesis by (auto simp: conflict_events_def)
next
  case True
  then obtain h where h: "th_get_host E tr n = Inr h" "discovers L E tr h" by blast
  with Reconcile_discovers run obtain hosts where hosts: "th_list_hosts E tr = Inr hosts"
    "run_state (observe_host_pass L E h hosts) tr = (r, tr @ new)" by metis
  from hosts(2) show ?thesis
  proof (rule observe_host_pass_cases[OF law])
    fix pw ob h' i now s' assume p: "power_stage L E tr h pw h'" "observes_talos ob" "new = pw @ ob @ [HostStatus s']"
      "host_answered E (tr @ pw) h' i" "status_of L (set_observation E now (HostTalosEndpoint h) i h') True s'"
      "\<not> HasIdentityConflictForAny (with_observed (set_observation E now (HostTalosEndpoint h) i h') hosts)"
    with said have s: "s' = s" by (auto simp: power_stage_def observes_talos_def split: if_splits)
    from p(1) have "h_spec h' = h_spec h" by (simp add: power_stage_def)
    moreover from p(4) have "hs_macAddress (h_spec h') \<in> set (ti_macAddresses i)" by (auto simp: host_answered_def HasMAC_def split: if_splits)
    ultimately show ?thesis using h hosts(1) p(4-6) s
      by (intro exI[of _ h] exI[of _ hosts] exI[of _ h'] exI[of _ "tr @ pw"] exI[of _ i]) (auto simp: status_of_def)
  qed (use said in \<open>auto simp: power_stage_def observes_talos_def status_of_def conflict_events_def split: if_splits\<close>)
qed

theorem host_ready_means_answered_witness:
  "\<exists>s i. HostStatus s \<in> set (snd (run_state (Reconcile_TartHost k8s_reference (sample_th_world (sample_automatic_host None)) ''h1'') [])) \<and>
     hst_inventory (h_status s) = Some (hostInventory i) \<and> hs_macAddress (h_spec s) \<in> set (ti_macAddresses i)"
proof -
  from sample_discovery_run obtain k s where run: "run_state (Reconcile_TartHost k8s_reference (sample_th_world (sample_automatic_host None)) ''h1'') [] =
     ((30 * second, None), [] @ [HostPowerOn k, MaintenanceDial ''10.0.0.1'', MaintenanceInventory ''10.0.0.1'', HostStatus s])"
    "host_is_ready k8s_reference s" by blast
  have said: "HostStatus s \<in> set [HostPowerOn k, MaintenanceDial ''10.0.0.1'', MaintenanceInventory ''10.0.0.1'', HostStatus s]" by simp
  from host_ready_means_answered[OF sample_host_reference_conditions(1) run(1) said run(2)] obtain i where
    "hst_inventory (h_status s) = Some (hostInventory i)" "hs_macAddress (h_spec s) \<in> set (ti_macAddresses i)" by blast
  with run(1) show ?thesis by (intro exI[of _ s] exI[of _ i]) simp
qed

subsection \<open>Deletion\<close>

text \<open>C11. The finalizer of a host goes only when the host is being deleted and nobody owns it or its data, or
  the deletion was approved for exactly the consumer and the previous consumer that the host names.\<close>

theorem host_forgotten_only_approved:
  assumes laws: "conditions_law L" "finalizers_law L" and read: "th_get_host E tr n = Inr h" "tartHostFinalizer \<in> set (mt_finalizers (h_meta h))"
    and run: "run_state (Reconcile_TartHost L E n) tr = (r, tr @ new)"
    and off: "HostPatch p \<in> set new" "tartHostFinalizer \<notin> set (mt_finalizers (h_meta p))"
  shows "mt_deletionTimestamp (h_meta h) \<noteq> None \<and> h_spec p = h_spec h \<and>
    (\<forall>c. hs_consumerRef (h_spec h) = Some c \<longrightarrow> (\<exists>a. hs_deletionApproval (h_spec h) = Some a \<and> da_consumerUID a = ref_uid c \<and> ref_uid c \<noteq> [])) \<and>
    (\<forall>c. hs_previousConsumerRef (h_spec h) = Some c \<longrightarrow>
       (\<exists>a. hs_deletionApproval (h_spec h) = Some a \<and> da_previousConsumerUID a = prev_uid c \<and> prev_uid c \<noteq> []))"
proof -
  have approved: "deletionApproved (h_spec h) \<longrightarrow>
    (\<forall>c. hs_consumerRef (h_spec h) = Some c \<longrightarrow> (\<exists>a. hs_deletionApproval (h_spec h) = Some a \<and> da_consumerUID a = ref_uid c \<and> ref_uid c \<noteq> [])) \<and>
    (\<forall>c. hs_previousConsumerRef (h_spec h) = Some c \<longrightarrow>
       (\<exists>a. hs_deletionApproval (h_spec h) = Some a \<and> da_previousConsumerUID a = prev_uid c \<and> prev_uid c \<noteq> []))"
    by (auto simp: deletionApproved_def split: option.splits if_splits)
  show ?thesis
  proof (cases "discovers L E tr h")
    case True
    with Reconcile_discovers[OF read(1)] run obtain hosts where "run_state (observe_host_pass L E h hosts) tr = (r, tr @ new)" by metis
    then show ?thesis
      by (rule observe_host_pass_cases[OF laws(1)])
         (use off in \<open>auto simp: power_stage_def observes_talos_def conflict_events_def split: if_splits\<close>)
  next
    case False
    with Reconcile_other[OF laws(1) run] read off laws(2) approved show ?thesis
      by (auto simp: conflict_events_def set_host_finalizers_def finalizers_law_def)
  qed
qed

definition sample_deleted_host :: TartHost where
  "sample_deleted_host =
     (let h = sample_automatic_host None
      in h\<lparr>h_meta := (h_meta h)\<lparr>mt_deletionTimestamp := Some 9\<rparr>,
           h_spec := (h_spec h)\<lparr>hs_consumerRef := Some (sample_consumer ''u1''),
             hs_deletionApproval := Some \<lparr>da_consumerUID = ''u1'', da_previousConsumerUID = []\<rparr>\<rparr>\<rparr>)"

theorem host_forgotten_only_approved_witness:
  "let h = sample_deleted_host; p = set_host_finalizers [] h
   in HostPatch p \<in> set (snd (run_state (Reconcile_TartHost k8s_reference (sample_th_world h) ''h1'') [])) \<and>
      (\<exists>c a. hs_consumerRef (h_spec h) = Some c \<and> hs_deletionApproval (h_spec h) = Some a \<and> da_consumerUID a = ref_uid c)"
proof -
  let ?h = "sample_deleted_host"
  have f: "mt_finalizers (h_meta ?h) = [tartHostFinalizer]" "mt_deletionTimestamp (h_meta ?h) \<noteq> None" "\<not> IsPaused k8s_reference (h_meta ?h)"
    "hs_consumerRef (h_spec ?h) = Some (sample_consumer ''u1'')" "deletionApproved (h_spec ?h)"
    by (simp_all add: sample_deleted_host_def sample_automatic_host_def sample_defs Let_def IsPaused_def k8s_reference_def deletionApproved_def)
  have lib: "lib_contains_finalizer k8s_reference [x] x" "lib_remove_finalizer k8s_reference [x] x = []" for x by (simp_all add: k8s_reference_def)
  have read: "th_get_host (sample_th_world ?h) [] ''h1'' = Inr ?h" by (simp add: sample_th_world_def)
  have run: "run_state (Reconcile_TartHost k8s_reference (sample_th_world ?h) ''h1'') [] = ((0, None), [] @ [HostPatch (set_host_finalizers [] ?h)])"
    using f lib read by (simp add: Reconcile_TartHost_def reconcile_host_deletion_def Let_def) (simp add: sample_th_world_def)
  have off: "HostPatch (set_host_finalizers [] ?h) \<in> set [HostPatch (set_host_finalizers [] ?h)]"
    "tartHostFinalizer \<notin> set (mt_finalizers (h_meta (set_host_finalizers [] ?h)))" "tartHostFinalizer \<in> set (mt_finalizers (h_meta ?h))"
    using f by (simp_all add: set_host_finalizers_def)
  from host_forgotten_only_approved[OF sample_host_reference_conditions read off(3) run off(1,2)] f(4) run show ?thesis by (auto simp: Let_def)
qed

subsection \<open>Boots, disks and patches\<close>

text \<open>The history of boots holds at most sixteen entries with different boot IDs, whatever is recorded, and
  an observation with a boot ID is always in it.\<close>

theorem boot_history_bounded:
  assumes "boot_history attempts"
  shows "boot_history (recordBootAttempt attempts i endpoint now) \<and>
    (blank (ti_bootID i) \<or> (\<exists>a \<in> set (recordBootAttempt attempts i endpoint now).
       ba_bootID a = trim_space (ti_bootID i) \<and> ba_lastObservedAt a = now \<and> ba_endpoint a = endpoint))"
  using recordBootAttempt_history[OF assms] recordBootAttempt_latest by blast

theorem boot_history_bounded_witness:
  "boot_history (recordBootAttempt [] sample_inventory ''10.0.0.1'' 7)"
  using boot_history_bounded[of "[]" sample_inventory "''10.0.0.1''" 7] by (simp add: boot_history_def)

text \<open>The disk that is selected for an installation is the only writable disk with a path and a size among
  the disks of the host, and one of its stable selectors, of which none looks at the device path, matches it and no other disk.\<close>

theorem selected_disk_is_unambiguous:
  assumes "SelectDisk disks = Inr d"
  shows "filter installable disks = [d] \<and>
    (\<exists>e s. UniqueDiskSelector d disks = Some e \<and> s \<in> set (DiskSelectorsFor d) \<and> dsel_expression s = e \<and>
       (\<forall>c \<in> set disks. dsel_matches s c \<longleftrightarrow> c = d) \<and>
       (\<forall>c p. dsel_matches s (c\<lparr>di_devicePath := p\<rparr>) = dsel_matches s c))"
proof -
  from SelectDisk_ok[OF assms] obtain e where one: "filter installable disks = [d]" "UniqueDiskSelector d disks = Some e" by blast
  then have d: "d \<in> set disks" "\<not> di_readOnly d" by (auto simp: filter_eq_Cons_iff installable_def)
  from UniqueDiskSelector_unique[OF one(2) d] obtain s where s: "s \<in> set (DiskSelectorsFor d)" "dsel_expression s = e"
    "\<forall>c \<in> set disks. dsel_matches s c \<longleftrightarrow> c = d" by blast
  moreover from s(1) have "dsel_matches s (c\<lparr>di_devicePath := p\<rparr>) = dsel_matches s c" for c p by (rule selectors_ignore_path)
  ultimately show ?thesis using one by blast
qed

definition sample_disk :: "string \<Rightarrow> bool \<Rightarrow> DiskIdentity" where
  "sample_disk serial ro =
     \<lparr>di_devicePath = ''/dev/sda'', di_sizeBytes = 100, di_model = [], di_serial = serial, di_wwid = [], di_busPath = [],
      di_transport = [], di_rotational = False, di_readOnly = ro\<rparr>"

theorem selected_disk_is_unambiguous_witness:
  "\<exists>s \<in> set (DiskSelectorsFor (sample_disk ''S1'' False)). \<forall>c \<in> {sample_disk ''S1'' False, sample_disk ''S2'' True}.
     dsel_matches s c \<longleftrightarrow> c = sample_disk ''S1'' False"
proof -
  have "\<not> blank ''/dev/sda''" "\<not> blank ''S1''" by code_simp+
  then have "SelectDisk [sample_disk ''S1'' False, sample_disk ''S2'' True] = Inr (sample_disk ''S1'' False)"
    by (simp add: SelectDisk_def installable_def sample_disk_def UniqueDiskSelector_def DiskSelectorsFor_def serial_selectors_def
        wwid_selectors_def bus_path_selectors_def mk_selector_def with_model_def base_matches_def)
  from selected_disk_is_unambiguous[OF this] show ?thesis by auto
qed

text \<open>The patches of a configuration are applied with the generated base first, then those of the user, then the
  ones of the provider, each layer in the order it was given, and an empty patch or an unknown layer refuses them all.\<close>

theorem patches_in_layers:
  "OrderPatches patches =
     (if \<forall>p \<in> set patches. \<not> blank (cpat_content p) \<and> cpat_layer p \<in> {LayerBase, LayerUserRawPatch, LayerProviderInvariant}
      then Inr (concat (map (\<lambda>l. filter (\<lambda>p. cpat_layer p = l) patches) [LayerBase, LayerUserRawPatch, LayerProviderInvariant]))
      else Inl (the (patch_fault patches)))"
proof (cases "patch_fault patches")
  case None
  then have "\<forall>p \<in> set patches. cpat_layer p \<in> {0, 1, 2}"
    by (auto simp: patch_fault_iff LayerBase_def LayerUserRawPatch_def LayerProviderInvariant_def)
  from three_layers[OF this] None patch_fault_iff[of patches] show ?thesis
    by (simp add: OrderPatches_def LayerBase_def LayerUserRawPatch_def LayerProviderInvariant_def)
next
  case (Some e)
  with patch_fault_iff[of patches] show ?thesis by (auto simp: OrderPatches_def)
qed

theorem patches_in_layers_witness:
  "OrderPatches [\<lparr>cpat_layer = LayerProviderInvariant, cpat_content = ''p''\<rparr>, \<lparr>cpat_layer = LayerUserRawPatch, cpat_content = ''u''\<rparr>] =
     Inr [\<lparr>cpat_layer = LayerUserRawPatch, cpat_content = ''u''\<rparr>, \<lparr>cpat_layer = LayerProviderInvariant, cpat_content = ''p''\<rparr>]"
proof -
  have "\<not> blank ''p''" "\<not> blank ''u''" by code_simp+
  then show ?thesis
    unfolding patches_in_layers by (simp add: LayerBase_def LayerUserRawPatch_def LayerProviderInvariant_def)
qed

end
