(* ===== verification/ConfigurationDocuments.thy ===== *)
theory ConfigurationDocuments
  imports CATrust TalosConfig DiskSelector UpdatePolicy
begin

section \<open>Machine configurations as the configuration builder sees them\<close>

text \<open>
  What \<open>adapter/talos/configbuilder\<close> reads of a machine configuration, and the comparisons of
  PKI material, endpoints and images that its generator and its classifier share. A
  configuration is its bytes; what the Talos machinery library makes of them is the record
  \<open>config_provider\<close>, and the library itself is the parameter \<open>config_lib\<close>.
\<close>

subsection \<open>Documents\<close>

text \<open>A CEL expression: whether it is the zero value, parses as a boolean expression over disks, its
  \<open>MarshalText\<close> and its \<open>String\<close>.\<close>

record cel_expression =
  cx_zero :: bool
  cx_valid :: bool
  cx_text :: "string option"
  cx_string :: string

record install_section =
  un_selector :: cel_expression
  un_wipe :: bool

record machine_section =
  mc_type :: MachineRole              \<comment> \<open>\<open>machine.TypeControlPlane\<close> or \<open>machine.TypeWorker\<close>\<close>
  mc_issuingCA :: "pem_pair option"
  mc_token :: string

record cluster_section =
  cls_tokenID :: string
  cls_tokenSecret :: string
  cls_etcdCA :: "pem_pair option"

text \<open>A parsed \<open>net/url.URL\<close>.\<close>

record go_url =
  url_scheme :: string
  url_host :: string
  url_has_user :: bool
  url_path :: string
  url_rawPath :: string
  url_rawQuery :: string
  url_fragment :: string

record k8s_cluster_section =
  kc_clusterName :: string
  kc_endpoint :: "go_url option"

text \<open>The accepted certificates and keys are pointers.\<close>

record k8s_ca_section =
  kca_issuing :: "pem_pair option"
  kca_accepted :: "string option list"

record service_account_section =
  sas_acceptedKeys :: "string option list"
  sas_issuerURL :: string
  sas_acceptedIssuers :: "string list"
  sas_apiAudiences :: "string list"
  sas_issuingKey :: "string option"

record volume_provisioning =
  vp_diskSelector :: "string option"   \<comment> \<open>its \<open>String\<close>\<close>
  vp_minSize :: "nat option"
  vp_maxSize :: "nat option"

record lvm_volume =
  lv_group :: string
  lv_type :: string
  lv_mirrors :: int
  lv_stripes :: int
  lv_minSize :: nat
  lv_maxPercent :: nat
  lv_maxSize :: nat

text \<open>A document: its kind, its name when it is a \<open>NamedDocument\<close>, and which of the interfaces of the
  classifier it implements.\<close>

datatype document_body =
    ProvisionedVolume volume_provisioning | VolumeGroup string | LogicalVolume lvm_volume | OtherBody

record config_document =
  doc_kind :: string
  doc_name :: "string option"
  doc_body :: document_body

record config_provider =
  cv_complete :: bool                     \<comment> \<open>\<open>CompleteForBoot\<close>\<close>
  cv_encoded :: "string option"           \<comment> \<open>\<open>EncodeBytes\<close> without comments\<close>
  cv_redacted :: "string option"          \<comment> \<open>the same of \<open>RedactSecrets\<close>\<close>
  cv_valid :: bool                        \<comment> \<open>\<open>ValidateAsClient\<close>\<close>
  cv_install :: "install_section option"
  cv_has_kubelet :: bool                  \<comment> \<open>\<open>Has(KubeletConfig)\<close>\<close>
  cv_kubelet :: "(string \<times> string list) option"
  cv_machine :: "machine_section option"
  cv_cluster :: "cluster_section option"
  cv_k8s_cluster :: "k8s_cluster_section option"
  cv_api_ca :: "k8s_ca_section option"
  cv_aggregator_ca :: "k8s_ca_section option"
  cv_service_account :: "service_account_section option"
  cv_api_server :: "string option"        \<comment> \<open>images\<close>
  cv_controller_manager :: "string option"
  cv_scheduler :: "string option"
  cv_proxy :: "string option"
  cv_documents :: "config_document list"

subsection \<open>The library\<close>

text \<open>A YAML value is a string or something else; a document is a map.\<close>

datatype yaml_value = YString string | YOther string
type_synonym yaml_document = "(string, yaml_value) gomap"

record 'b config_lib =
  cb_load :: "string \<Rightarrow> config_provider option"                   \<comment> \<open>\<open>configloader.NewFromBytes\<close>\<close>
  cb_generate :: "string \<Rightarrow> string \<Rightarrow> string \<Rightarrow> 'b \<Rightarrow> MachineRole \<Rightarrow> config_provider option"
    \<comment> \<open>\<open>generate.NewInput\<close> of cluster name, endpoint, version and bundle, then \<open>Config\<close>\<close>
  cb_load_patch :: "string \<Rightarrow> bool"                               \<comment> \<open>\<open>configpatcher.LoadPatch\<close>\<close>
  cb_apply :: "string \<Rightarrow> string list \<Rightarrow> bool"                    \<comment> \<open>the last of the patches applies\<close>
  cb_patched :: "string \<Rightarrow> string list \<Rightarrow> string option"          \<comment> \<open>\<open>Bytes\<close> of the base with the patches\<close>
  cb_apply_install :: "string \<Rightarrow> install_section \<Rightarrow> string option"  \<comment> \<open>a strategic merge patch\<close>
  cb_parse_cel :: "string \<Rightarrow> cel_expression option"                \<comment> \<open>over \<open>celenv.DiskLocator\<close>\<close>
  cb_yaml_stream :: "string \<Rightarrow> yaml_document option list \<times> bool"   \<comment> \<open>and whether it ended well\<close>
  cb_yaml_encode :: "yaml_document list \<Rightarrow> string option"
  cb_url_parse :: "string \<Rightarrow> go_url option"
  cb_url_string :: "go_url \<Rightarrow> string"
  cb_pem_decode :: "string \<Rightarrow> (string \<times> string \<times> string) option"    \<comment> \<open>type, bytes, rest\<close>
  cb_parse_certificate :: "string \<Rightarrow> string option"               \<comment> \<open>\<open>Raw\<close> of the certificate\<close>
  cb_map_order :: "(string \<times> config_document) list \<Rightarrow> (string \<times> config_document) list"
    \<comment> \<open>the order in which a map is ranged over\<close>
  cb_talos :: talos_lib

text \<open>What \<open>adapter/talos/configmutate.go\<close> sees of the same configurations.\<close>

definition talos_view :: "config_provider \<Rightarrow> talos_provider" where
  "talos_view p = \<lparr>tp_unattended = (cv_install p \<noteq> None), tp_has_kubelet = cv_has_kubelet p, tp_kubelet = cv_kubelet p\<rparr>"

definition builder_talos :: "'b config_lib \<Rightarrow> talos_lib" where
  "builder_talos B = (cb_talos B)\<lparr>tl_load := \<lambda>c. map_option talos_view (cb_load B c)\<rparr>"

datatype build_error =
    BuildContextIncomplete      \<comment> \<open>\<open>ErrMachineConfigurationContextIncomplete\<close>\<close>
  | BuildConflict               \<comment> \<open>\<open>ErrConfigurationConflict\<close>\<close>
  | BuildInstallInvalid         \<comment> \<open>\<open>ErrInstallConfigurationInvalid\<close>\<close>
  | BuildInstallUnavailable     \<comment> \<open>\<open>ErrInstallDiskUnavailable\<close>\<close>
  | BuildDisk disk_error
  | BuildPatch composition_error
  | BuildCompleteEmpty          \<comment> \<open>\<open>ErrCompleteConfigurationEmpty\<close>\<close>
  | BuildIncomplete             \<comment> \<open>\<open>ErrEffectiveConfigurationIncomplete\<close>\<close>
  | BuildInvalid                \<comment> \<open>\<open>ErrEffectiveConfigurationInvalid\<close>\<close>
  | BuildOther

fun contains_text :: "string \<Rightarrow> string \<Rightarrow> bool" where
  "contains_text [] sub = (sub = [])"
| "contains_text (c # s) sub = (has_prefix (c # s) sub \<or> contains_text s sub)"

subsection \<open>PKI material\<close>

definition sameCertificateAndKey :: "pem_pair option \<Rightarrow> pem_pair option \<Rightarrow> bool" where
  "sameCertificateAndKey left right =
     (case (left, right) of
        (Some l, Some r) \<Rightarrow> pem_crt l = pem_crt r \<and> pem_key l = pem_key r
      | _ \<Rightarrow> left = None \<and> right = None)"

definition certificateFingerprint :: "'b config_lib \<Rightarrow> string \<Rightarrow> nat list option" where
  "certificateFingerprint B data =
     (let trimmed = trim_space data
      in if length trimmed = 0 then None
         else case cb_pem_decode B trimmed of None \<Rightarrow> None
         | Some (block, bytes, rest) \<Rightarrow>
             if block \<noteq> ''CERTIFICATE'' then None
             else if length (trim_space rest) \<noteq> 0 then None
             else map_option sha256 (cb_parse_certificate B bytes))"

definition keyFingerprint :: "'b config_lib \<Rightarrow> string \<Rightarrow> nat list option" where
  "keyFingerprint B data =
     (let trimmed = trim_space data
      in if length trimmed = 0 then None
         else case cb_pem_decode B trimmed of None \<Rightarrow> None
         | Some (block, bytes, rest) \<Rightarrow>
             if length (trim_space rest) \<noteq> 0 then None
             else if \<not> contains_text block ''PRIVATE KEY'' \<and> \<not> contains_text block ''PUBLIC KEY'' then None
             else Some (sha256 bytes))"

text \<open>Two fingerprints that exist and are equal.\<close>

definition same_fingerprint :: "'a option \<Rightarrow> 'a option \<Rightarrow> bool" where
  "same_fingerprint left right = (case (left, right) of (Some l, Some r) \<Rightarrow> l = r | _ \<Rightarrow> False)"

definition sameCertificateAndKeyDER :: "'b config_lib \<Rightarrow> pem_pair option \<Rightarrow> pem_pair option \<Rightarrow> bool" where
  "sameCertificateAndKeyDER B left right =
     (case (left, right) of
        (Some l, Some r) \<Rightarrow>
          same_fingerprint (certificateFingerprint B (pem_crt l)) (certificateFingerprint B (pem_crt r)) \<and>
          same_fingerprint (keyFingerprint B (pem_key l)) (keyFingerprint B (pem_key r))
      | _ \<Rightarrow> left = None \<and> right = None)"

definition samePEMEncodedKeyDER :: "'b config_lib \<Rightarrow> string option \<Rightarrow> string option \<Rightarrow> bool" where
  "samePEMEncodedKeyDER B left right =
     (case (left, right) of
        (Some l, Some r) \<Rightarrow> same_fingerprint (keyFingerprint B l) (keyFingerprint B r)
      | _ \<Rightarrow> left = None \<and> right = None)"

text \<open>The keys of a Go map that is used as a set, in some order.\<close>

definition certificateSet :: "'b config_lib \<Rightarrow> string option list \<Rightarrow> nat list list option" where
  "certificateSet B certs =
     map_option remdups (all_some (\<lambda>cert. case cert of None \<Rightarrow> None | Some crt \<Rightarrow> certificateFingerprint B crt) certs)"

definition keySet :: "'b config_lib \<Rightarrow> string option list \<Rightarrow> nat list list option" where
  "keySet B keys =
     map_option remdups (all_some (\<lambda>key. case key of None \<Rightarrow> None | Some k \<Rightarrow> keyFingerprint B k) keys)"

definition stringSet :: "string list \<Rightarrow> string list" where
  "stringSet values = remdups (filter (\<lambda>v. v \<noteq> []) (map trim_space values))"

definition same_set :: "'a list \<Rightarrow> 'a list \<Rightarrow> bool" where
  "same_set left right = (if length left \<noteq> length right then False else list_all (\<lambda>x. x \<in> set right) left)"

definition equalCertificateSet :: "'b config_lib \<Rightarrow> string option list \<Rightarrow> string option list \<Rightarrow> bool" where
  "equalCertificateSet B left right =
     (case certificateSet B left of None \<Rightarrow> False
      | Some l \<Rightarrow> (case certificateSet B right of None \<Rightarrow> False | Some r \<Rightarrow> same_set l r))"

definition equalKeySetDER :: "'b config_lib \<Rightarrow> string option list \<Rightarrow> string option list \<Rightarrow> bool" where
  "equalKeySetDER B left right =
     (case keySet B left of None \<Rightarrow> False
      | Some l \<Rightarrow> (case keySet B right of None \<Rightarrow> False | Some r \<Rightarrow> same_set l r))"

definition equalStringSet :: "string list \<Rightarrow> string list \<Rightarrow> bool" where
  "equalStringSet left right = same_set (stringSet left) (stringSet right)"

text \<open>The comparison of a CA section, the same for the API server and the aggregator.\<close>

definition same_k8s_ca :: "'b config_lib \<Rightarrow> k8s_ca_section option \<Rightarrow> k8s_ca_section option \<Rightarrow> bool" where
  "same_k8s_ca B left right =
     (case (left, right) of
        (Some l, Some r) \<Rightarrow>
          (if \<not> sameCertificateAndKeyDER B (kca_issuing l) (kca_issuing r) then False
           else equalCertificateSet B (kca_accepted l) (kca_accepted r))
      | _ \<Rightarrow> left = None \<and> right = None)"

definition sameK8sAPIServerCAConfig where
  "sameK8sAPIServerCAConfig B left right = same_k8s_ca B left right"

definition sameK8sAggregatorCAConfig where
  "sameK8sAggregatorCAConfig B left right = same_k8s_ca B left right"

definition sameK8sServiceAccountConfig ::
  "'b config_lib \<Rightarrow> service_account_section option \<Rightarrow> service_account_section option \<Rightarrow> bool" where
  "sameK8sServiceAccountConfig B left right =
     (case (left, right) of
        (Some l, Some r) \<Rightarrow>
          (if \<not> equalKeySetDER B (sas_acceptedKeys l) (sas_acceptedKeys r) then False
           else if trim_space (sas_issuerURL l) \<noteq> trim_space (sas_issuerURL r) then False
           else if \<not> equalStringSet (sas_acceptedIssuers l) (sas_acceptedIssuers r) then False
           else if \<not> equalStringSet (sas_apiAudiences l) (sas_apiAudiences r) then False
           else samePEMEncodedKeyDER B (sas_issuingKey l) (sas_issuingKey r))
      | _ \<Rightarrow> left = None \<and> right = None)"

definition sameKubernetesPKI :: "'b config_lib \<Rightarrow> config_provider \<Rightarrow> config_provider \<Rightarrow> bool" where
  "sameKubernetesPKI B active desired \<longleftrightarrow>
     sameK8sAPIServerCAConfig B (cv_api_ca active) (cv_api_ca desired) \<and>
     sameK8sAggregatorCAConfig B (cv_aggregator_ca active) (cv_aggregator_ca desired) \<and>
     sameK8sServiceAccountConfig B (cv_service_account active) (cv_service_account desired)"

subsection \<open>Images, endpoints and the provider ID\<close>

definition text_of :: "string option \<Rightarrow> string" where
  "text_of v = (case v of None \<Rightarrow> [] | Some s \<Rightarrow> s)"

definition componentImages :: "config_provider \<Rightarrow> string list" where
  "componentImages p =
     [text_of (cv_api_server p), text_of (cv_controller_manager p), text_of (cv_scheduler p), text_of (cv_proxy p),
      text_of (map_option fst (cv_kubelet p))]"

definition canonicalEndpoint :: "'b config_lib \<Rightarrow> string \<Rightarrow> build_error + string" where
  "canonicalEndpoint B endpoint0 =
     (let endpoint = trim_space endpoint0
      in if endpoint = [] then Inl BuildContextIncomplete
         else
           (let endpoint = (if \<not> contains_text endpoint ''://'' then ''https://'' @ endpoint else endpoint)
            in case cb_url_parse B endpoint of None \<Rightarrow> Inl BuildContextIncomplete
               | Some parsed \<Rightarrow>
                   if url_scheme parsed = [] \<or> url_host parsed = [] \<or> url_has_user parsed \<or>
                      url_path parsed \<noteq> [] \<and> url_path parsed \<noteq> ''/'' \<or> url_rawQuery parsed \<noteq> [] \<or> url_fragment parsed \<noteq> []
                   then Inl BuildContextIncomplete
                   else Inr (cb_url_string B (parsed\<lparr>url_path := [], url_rawPath := [], url_rawQuery := [], url_fragment := []\<rparr>))))"

definition sameEndpoint :: "'b config_lib \<Rightarrow> go_url option \<Rightarrow> go_url option \<Rightarrow> bool" where
  "sameEndpoint B left right =
     (case (left, right) of
        (Some l, Some r) \<Rightarrow> cb_url_string B l = cb_url_string B r
      | _ \<Rightarrow> left = None \<and> right = None)"

text \<open>\<open>None\<close>: more than one provider ID.\<close>

definition config_providerID :: "config_provider \<Rightarrow> string option" where
  "config_providerID p =
     (case cv_kubelet p of None \<Rightarrow> Some []
      | Some (_, values) \<Rightarrow> (case values of [] \<Rightarrow> Some [] | [v] \<Rightarrow> Some v | _ \<Rightarrow> None))"

definition ControlPlaneEndpoint :: "'b config_lib \<Rightarrow> string \<Rightarrow> string option" where
  "ControlPlaneEndpoint B configuration =
     (case cb_load B configuration of None \<Rightarrow> None
      | Some provider \<Rightarrow>
          (case cv_k8s_cluster provider of None \<Rightarrow> None
           | Some cluster \<Rightarrow> map_option (cb_url_string B) (kc_endpoint cluster)))"

subsection \<open>The comparisons are partial equivalences\<close>

lemma same_set_iff: "distinct l \<Longrightarrow> distinct r \<Longrightarrow> same_set l r \<longleftrightarrow> set l = set r"
  by (auto simp: same_set_def list_all_iff dest: distinct_card card_subset_eq[rotated 1])
     (metis card_subset_eq distinct_card finite_set subsetI)+

lemma same_set_equiv:
  "same_set a b \<Longrightarrow> distinct a \<Longrightarrow> distinct b \<Longrightarrow> same_set b a"
  "same_set a b \<Longrightarrow> same_set b c \<Longrightarrow> distinct a \<Longrightarrow> distinct b \<Longrightarrow> distinct c \<Longrightarrow> same_set a c"
  by (simp_all add: same_set_iff)

lemma sets_distinct:
  "certificateSet B cs = Some l \<Longrightarrow> distinct l" "keySet B cs = Some l \<Longrightarrow> distinct l" "distinct (stringSet vs)"
  by (auto simp: certificateSet_def keySet_def stringSet_def)

lemma same_fingerprint_equiv:
  "same_fingerprint a b = same_fingerprint b a" "same_fingerprint a b \<Longrightarrow> same_fingerprint b c \<Longrightarrow> same_fingerprint a c"
  by (auto simp: same_fingerprint_def split: option.splits)

lemma same_pair_equiv:
  "sameCertificateAndKey a b = sameCertificateAndKey b a"
  "sameCertificateAndKey a b \<Longrightarrow> sameCertificateAndKey b c \<Longrightarrow> sameCertificateAndKey a c"
  by (auto simp: sameCertificateAndKey_def split: option.splits)

lemma same_der_equiv:
  "sameCertificateAndKeyDER B a b = sameCertificateAndKeyDER B b a"
  "sameCertificateAndKeyDER B a b \<Longrightarrow> sameCertificateAndKeyDER B b c \<Longrightarrow> sameCertificateAndKeyDER B a c"
  by (auto simp: sameCertificateAndKeyDER_def same_fingerprint_equiv(1) intro: same_fingerprint_equiv(2) split: option.splits)

lemma same_key_equiv:
  "samePEMEncodedKeyDER B a b = samePEMEncodedKeyDER B b a"
  "samePEMEncodedKeyDER B a b \<Longrightarrow> samePEMEncodedKeyDER B b c \<Longrightarrow> samePEMEncodedKeyDER B a c"
  by (auto simp: samePEMEncodedKeyDER_def same_fingerprint_equiv(1) intro: same_fingerprint_equiv(2) split: option.splits)

lemma equal_sets_equiv:
  "equalCertificateSet B a b \<Longrightarrow> equalCertificateSet B b a"
  "equalCertificateSet B a b \<Longrightarrow> equalCertificateSet B b c \<Longrightarrow> equalCertificateSet B a c"
  "equalKeySetDER B a b \<Longrightarrow> equalKeySetDER B b a"
  "equalKeySetDER B a b \<Longrightarrow> equalKeySetDER B b c \<Longrightarrow> equalKeySetDER B a c"
  "equalStringSet s t \<Longrightarrow> equalStringSet t s"
  "equalStringSet s t \<Longrightarrow> equalStringSet t u \<Longrightarrow> equalStringSet s u"
  by (auto simp: equalCertificateSet_def equalKeySetDER_def equalStringSet_def sets_distinct split: option.splits
      intro: same_set_equiv dest: sets_distinct(1,2))

lemma same_k8s_ca_equiv:
  "same_k8s_ca B a b \<Longrightarrow> same_k8s_ca B b a" "same_k8s_ca B a b \<Longrightarrow> same_k8s_ca B b c \<Longrightarrow> same_k8s_ca B a c"
  by (auto simp: same_k8s_ca_def same_der_equiv(1) split: option.splits if_splits
      intro: equal_sets_equiv same_der_equiv(2) dest: same_der_equiv(2))

lemma same_service_account_equiv:
  "sameK8sServiceAccountConfig B a b \<Longrightarrow> sameK8sServiceAccountConfig B b a"
  "sameK8sServiceAccountConfig B a b \<Longrightarrow> sameK8sServiceAccountConfig B b c \<Longrightarrow> sameK8sServiceAccountConfig B a c"
  by (auto simp: sameK8sServiceAccountConfig_def same_key_equiv(1) split: option.splits if_splits
      intro: equal_sets_equiv same_key_equiv(2) dest: equal_sets_equiv)

lemma sameKubernetesPKI_equiv:
  "sameKubernetesPKI B a b \<Longrightarrow> sameKubernetesPKI B b a"
  "sameKubernetesPKI B a b \<Longrightarrow> sameKubernetesPKI B b c \<Longrightarrow> sameKubernetesPKI B a c"
  unfolding sameKubernetesPKI_def sameK8sAPIServerCAConfig_def sameK8sAggregatorCAConfig_def
  by (blast intro: same_k8s_ca_equiv same_service_account_equiv)+

end
