(* ===== verification/ConfigurationBuilder.thy ===== *)
theory ConfigurationBuilder
  imports ConfigurationDocuments
begin

section \<open>The configuration builder\<close>

text \<open>
  \<open>adapter/talos/configbuilder\<close> without its classifier: the generated configuration of a machine,
  the user's patches, the install target and the digest. Wrapped errors are kept as far as
  \<open>errors.Is\<close> can tell them apart.
\<close>

record 'b MachineConfigurationContext =
  mcc_clusterName :: string
  mcc_controlPlaneEndpoint :: string
  mcc_kubernetesVersion :: string
  mcc_machineRole :: MachineRole
  mcc_secretsBundle :: "'b option"
  mcc_installDisk :: "DiskIdentity option"
  mcc_hostname :: string

subsection \<open>Patches\<close>

text \<open>The loop over the ordered patches; the input is the base with the patches applied so far.\<close>

fun apply_patches :: "'b config_lib \<Rightarrow> string \<Rightarrow> string list \<Rightarrow> ConfigPatch list \<Rightarrow> string list option" where
  "apply_patches B base applied [] = Some applied"
| "apply_patches B base applied (p # ps) =
     (if \<not> cb_load_patch B (cpat_content p) then None
      else if \<not> cb_apply B base (applied @ [cpat_content p]) then None
      else apply_patches B base (applied @ [cpat_content p]) ps)"

definition RenderEffectiveConfiguration :: "'b config_lib \<Rightarrow> string \<Rightarrow> string list \<Rightarrow> build_error + string" where
  "RenderEffectiveConfiguration B base patches =
     (if length (trim_space base) = 0 then Inl BuildCompleteEmpty
      else case OrderPatches (map (\<lambda>p. \<lparr>cpat_layer = LayerUserRawPatch, cpat_content = p\<rparr>) patches) of
        Inl e \<Rightarrow> Inl (BuildPatch e)
      | Inr ordered \<Rightarrow>
          (case apply_patches B base [] ordered of None \<Rightarrow> Inl BuildOther
           | Some applied \<Rightarrow>
               (case cb_patched B base applied of None \<Rightarrow> Inl BuildOther
                | Some marshaled \<Rightarrow>
                    (case cb_load B marshaled of None \<Rightarrow> Inl BuildOther
                     | Some provider \<Rightarrow>
                         if \<not> cv_complete provider then Inl BuildIncomplete
                         else (case cv_encoded provider of None \<Rightarrow> Inl BuildOther | Some canonical \<Rightarrow> Inr canonical)))))"

subsection \<open>The install target\<close>

definition diskExpression :: "'b config_lib \<Rightarrow> DiskIdentity \<Rightarrow> build_error + cel_expression" where
  "diskExpression B disk =
     (case DiskSelectorsFor disk of
        [] \<Rightarrow> Inl (BuildDisk ErrDiskSelectionUnavailable)
      | s # _ \<Rightarrow> (case cb_parse_cel B (dsel_expression s) of None \<Rightarrow> Inl BuildOther | Some expression \<Rightarrow> Inr expression))"

definition validateInstallSelector :: "cel_expression \<Rightarrow> build_error option" where
  "validateInstallSelector expression =
     (if cx_zero expression then Some BuildInstallInvalid
      else if \<not> cx_valid expression then Some BuildInstallInvalid else None)"

definition HasInstallDiskConfiguration :: "'b config_lib \<Rightarrow> string \<Rightarrow> build_error + bool" where
  "HasInstallDiskConfiguration B configuration =
     (if length (trim_space configuration) = 0 then Inl BuildCompleteEmpty
      else case cb_load B configuration of None \<Rightarrow> Inl BuildOther
      | Some provider \<Rightarrow>
          (case cv_install provider of None \<Rightarrow> Inr False
           | Some unattended \<Rightarrow>
               (case validateInstallSelector (un_selector unattended) of Some e \<Rightarrow> Inl e | None \<Rightarrow> Inr True)))"

definition equivalentSelectors :: "'b config_lib \<Rightarrow> cel_expression \<Rightarrow> cel_expression \<Rightarrow> build_error + bool" where
  "equivalentSelectors B actual expected =
     (case cx_text actual of None \<Rightarrow> Inl BuildInstallInvalid
      | Some actualText \<Rightarrow>
          (case cb_parse_cel B actualText of None \<Rightarrow> Inl BuildInstallInvalid
           | Some actualParsed \<Rightarrow> Inr (cx_string actualParsed = cx_string expected)))"

definition validateInstallDiskConfiguration :: "'b config_lib \<Rightarrow> config_provider \<Rightarrow> DiskIdentity \<Rightarrow> build_error option" where
  "validateInstallDiskConfiguration B provider disk =
     (if blank (di_devicePath disk) \<or> di_sizeBytes disk = 0 \<or> di_readOnly disk then Some BuildInstallUnavailable
      else case diskExpression B disk of Inl _ \<Rightarrow> Some BuildInstallInvalid
      | Inr expected \<Rightarrow>
          (case cv_install provider of None \<Rightarrow> Some BuildInstallInvalid
           | Some unattended \<Rightarrow>
               (case validateInstallSelector (un_selector unattended) of Some e \<Rightarrow> Some e
                | None \<Rightarrow>
                    if un_wipe unattended then Some BuildInstallInvalid
                    else (case equivalentSelectors B (un_selector unattended) expected of
                            Inl e \<Rightarrow> Some e
                          | Inr matches \<Rightarrow> if \<not> matches then Some BuildInstallInvalid else None))))"

text \<open>The document of the provider's own install target.\<close>

definition unattendedInstallPatch :: "'b config_lib \<Rightarrow> DiskIdentity \<Rightarrow> build_error + install_section" where
  "unattendedInstallPatch B disk =
     (case diskExpression B disk of Inl e \<Rightarrow> Inl e
      | Inr expression \<Rightarrow> Inr \<lparr>un_selector = expression, un_wipe = False\<rparr>)"

definition EnsureInstallDisk :: "'b config_lib \<Rightarrow> string \<Rightarrow> DiskIdentity \<Rightarrow> build_error + string" where
  "EnsureInstallDisk B configuration disk =
     (case HasInstallDiskConfiguration B configuration of Inl e \<Rightarrow> Inl e
      | Inr configured \<Rightarrow>
          if configured
          then (case cb_load B configuration of None \<Rightarrow> Inl BuildOther
                | Some provider \<Rightarrow>
                    (case validateInstallDiskConfiguration B provider disk of Some e \<Rightarrow> Inl e | None \<Rightarrow> Inr configuration))
          else if blank (di_devicePath disk) then Inl BuildInstallUnavailable
          else (case SelectDisk [disk] of Inl e \<Rightarrow> Inl (BuildDisk e)
                | Inr validatedDisk \<Rightarrow>
                    (case unattendedInstallPatch B validatedDisk of Inl e \<Rightarrow> Inl e
                     | Inr patch \<Rightarrow>
                         (case cb_apply_install B configuration patch of None \<Rightarrow> Inl BuildOther
                          | Some result \<Rightarrow>
                              (case cb_load B result of None \<Rightarrow> Inl BuildOther
                               | Some canonical \<Rightarrow>
                                   (case cv_encoded canonical of None \<Rightarrow> Inl BuildOther | Some e \<Rightarrow> Inr e))))))"

definition validateClientConfiguration :: "config_provider \<Rightarrow> build_error option" where
  "validateClientConfiguration provider = (if \<not> cv_valid provider then Some BuildInvalid else None)"

definition ValidateMachineConfiguration :: "'b config_lib \<Rightarrow> string \<Rightarrow> build_error option" where
  "ValidateMachineConfiguration B configuration =
     (if length (trim_space configuration) = 0 then Some BuildCompleteEmpty
      else case cb_load B configuration of None \<Rightarrow> Some BuildOther
      | Some provider \<Rightarrow> validateClientConfiguration provider)"

subsection \<open>Generation\<close>

definition machineType :: "MachineRole \<Rightarrow> build_error + MachineRole" where
  "machineType role =
     (case role of MachineRoleControlPlane \<Rightarrow> Inr MachineRoleControlPlane | MachineRoleWorker \<Rightarrow> Inr MachineRoleWorker
      | MachineRoleOther _ \<Rightarrow> Inl BuildContextIncomplete)"

definition secretsBundle :: "'b MachineConfigurationContext \<Rightarrow> build_error + 'b" where
  "secretsBundle input = (case mcc_secretsBundle input of None \<Rightarrow> Inl BuildContextIncomplete | Some bundle \<Rightarrow> Inr bundle)"

definition decodeConfigurationDocuments :: "'b config_lib \<Rightarrow> string \<Rightarrow> yaml_document list option" where
  "decodeConfigurationDocuments B configuration =
     (case cb_yaml_stream B configuration of (docs, ended_well) \<Rightarrow>
        if ended_well then Some (List.map_filter id docs) else None)"

definition encodeConfigurationDocuments :: "'b config_lib \<Rightarrow> yaml_document list \<Rightarrow> string option" where
  "encodeConfigurationDocuments B docs = cb_yaml_encode B docs"

fun replace_first_kind :: "string \<Rightarrow> yaml_document \<Rightarrow> yaml_document list \<Rightarrow> yaml_document list" where
  "replace_first_kind kind replacement [] = [replacement]"
| "replace_first_kind kind replacement (d # ds) =
     (if map_of d ''kind'' = Some (YString kind) then replacement # ds else d # replace_first_kind kind replacement ds)"

definition replaceDocumentByKind :: "'b config_lib \<Rightarrow> string \<Rightarrow> string \<Rightarrow> yaml_document \<Rightarrow> string option" where
  "replaceDocumentByKind B configuration kind replacement =
     (case decodeConfigurationDocuments B configuration of None \<Rightarrow> None
      | Some docs \<Rightarrow> encodeConfigurationDocuments B (replace_first_kind kind replacement docs))"

definition hostname_document :: "string \<Rightarrow> yaml_document" where
  "hostname_document hostname =
     [(''apiVersion'', YString ''v1alpha1''), (''kind'', YString ''HostnameConfig''), (''hostname'', YString hostname)]"

definition validateProviderOwnedConfiguration ::
  "'b config_lib \<Rightarrow> config_provider \<Rightarrow> config_provider \<Rightarrow> string \<Rightarrow> string \<Rightarrow> MachineRole \<Rightarrow> bool" where
  "validateProviderOwnedConfiguration B base effective clusterName endpoint mtype =
     (case cv_machine effective of None \<Rightarrow> False
      | Some em \<Rightarrow>
          if mc_type em \<noteq> mtype then False
          else (case cv_machine base of None \<Rightarrow> False
          | Some bm \<Rightarrow>
              if \<not> sameCertificateAndKey (mc_issuingCA bm) (mc_issuingCA em) \<or> mc_token bm \<noteq> mc_token em then False
              else (case (cv_cluster base, cv_cluster effective) of
                 (Some bc, Some ec) \<Rightarrow>
                   if cls_tokenID bc \<noteq> cls_tokenID ec \<or> cls_tokenSecret bc \<noteq> cls_tokenSecret ec \<or>
                      \<not> sameCertificateAndKey (cls_etcdCA bc) (cls_etcdCA ec) then False
                   else if \<not> sameKubernetesPKI B base effective then False
                   else (case cv_k8s_cluster effective of None \<Rightarrow> False
                      | Some cluster \<Rightarrow>
                          if kc_clusterName cluster \<noteq> clusterName then False
                          else (case kc_endpoint cluster of None \<Rightarrow> False
                             | Some actual \<Rightarrow>
                                 if canonicalEndpoint B (cb_url_string B actual) \<noteq> Inr endpoint then False
                                 else componentImages base = componentImages effective))
               | _ \<Rightarrow> False)))"

definition trim_v :: "string \<Rightarrow> string" where
  "trim_v s = (if has_prefix s ''v'' then drop 1 s else s)"

text \<open>The base configuration, with the static hostname.\<close>

definition generated_base ::
  "'b config_lib \<Rightarrow> 'b MachineConfigurationContext \<Rightarrow> config_provider \<Rightarrow> build_error + string" where
  "generated_base B input provider =
     (case cv_encoded provider of None \<Rightarrow> Inl BuildOther
      | Some base \<Rightarrow>
          if blank (mcc_hostname input) then Inr base
          else (case replaceDocumentByKind B base ''HostnameConfig'' (hostname_document (mcc_hostname input)) of
                  None \<Rightarrow> Inl BuildOther | Some base \<Rightarrow> Inr base))"

text \<open>What is checked of the rendered configuration.\<close>

definition check_rendered ::
  "'b config_lib \<Rightarrow> 'b MachineConfigurationContext \<Rightarrow> config_provider \<Rightarrow> string \<Rightarrow> MachineRole \<Rightarrow> string \<Rightarrow> build_error + string" where
  "check_rendered B input provider endpoint mtype configuration =
     (case cb_load B configuration of None \<Rightarrow> Inl BuildOther
      | Some effective \<Rightarrow>
          if \<not> validateProviderOwnedConfiguration B provider effective (mcc_clusterName input) endpoint mtype then Inl BuildConflict
          else (case ValidateMachineConfiguration B configuration of Some e \<Rightarrow> Inl e | None \<Rightarrow> Inr configuration))"

definition generate_with ::
  "'b config_lib \<Rightarrow> 'b MachineConfigurationContext \<Rightarrow> config_provider \<Rightarrow> string \<Rightarrow> MachineRole \<Rightarrow> string list \<Rightarrow> build_error + string" where
  "generate_with B input provider endpoint mtype patches =
     (case generated_base B input provider of Inl e \<Rightarrow> Inl e
      | Inr base \<Rightarrow>
          (case RenderEffectiveConfiguration B base patches of Inl e \<Rightarrow> Inl e
           | Inr configuration \<Rightarrow>
               (case (case mcc_installDisk input of None \<Rightarrow> Inr configuration
                      | Some disk \<Rightarrow> EnsureInstallDisk B configuration disk) of
                  Inl e \<Rightarrow> Inl e
                | Inr configuration \<Rightarrow> check_rendered B input provider endpoint mtype configuration)))"

definition GenerateMachineConfiguration ::
  "'b config_lib \<Rightarrow> 'b MachineConfigurationContext \<Rightarrow> string list \<Rightarrow> build_error + string" where
  "GenerateMachineConfiguration B input patches =
     (if blank (mcc_clusterName input) then Inl BuildContextIncomplete
      else case secretsBundle input of Inl e \<Rightarrow> Inl e
      | Inr bundle \<Rightarrow>
          (case machineType (mcc_machineRole input) of Inl e \<Rightarrow> Inl e
           | Inr mtype \<Rightarrow>
               (case canonicalEndpoint B (mcc_controlPlaneEndpoint input) of Inl e \<Rightarrow> Inl e
                | Inr endpoint \<Rightarrow>
                    (let kubernetesVersion = trim_v (trim_space (mcc_kubernetesVersion input))
                     in if kubernetesVersion = [] then Inl BuildContextIncomplete
                        else (case cb_generate B (mcc_clusterName input) endpoint kubernetesVersion bundle mtype of
                                None \<Rightarrow> Inl BuildOther
                              | Some provider \<Rightarrow> generate_with B input provider endpoint mtype patches)))))"

definition RenderFromPatches :: "'b config_lib \<Rightarrow> 'b MachineConfigurationContext \<Rightarrow> string \<Rightarrow> build_error + string" where
  "RenderFromPatches B input patches =
     (if length patches = 0 then GenerateMachineConfiguration B input [] else GenerateMachineConfiguration B input [patches])"

subsection \<open>The digest\<close>

definition DigestEffectiveConfiguration :: "'b config_lib \<Rightarrow> string \<Rightarrow> build_error + string" where
  "DigestEffectiveConfiguration B completeConfiguration =
     (if length (trim_space completeConfiguration) = 0 then Inl BuildCompleteEmpty
      else case cb_load B completeConfiguration of None \<Rightarrow> Inl BuildInvalid
      | Some provider \<Rightarrow>
          if \<not> cv_complete provider then Inl BuildIncomplete
          else (case cv_encoded provider of None \<Rightarrow> Inl BuildOther
          | Some canonicalComplete \<Rightarrow>
              if length (trim_space canonicalComplete) = 0 then Inl BuildIncomplete
              else (case ComputeDigest canonicalComplete of None \<Rightarrow> Inl BuildOther
              | Some secretFingerprint \<Rightarrow>
                  (case cv_redacted provider of None \<Rightarrow> Inl BuildOther
                   | Some canonical \<Rightarrow>
                       if length (trim_space canonical) = 0 then Inl BuildIncomplete
                       else (case ComputeDigest (canonical @ [CHR 0x0A] @ secretFingerprint) of
                               None \<Rightarrow> Inl BuildOther | Some digest \<Rightarrow> Inr digest)))))"

subsection \<open>What the provider owns\<close>

text \<open>The parts of two configurations that the provider owns agree: PKI, tokens and component images.\<close>

definition same_identity :: "'b config_lib \<Rightarrow> config_provider \<Rightarrow> config_provider \<Rightarrow> bool" where
  "same_identity B p q \<longleftrightarrow>
     (\<exists>m m' c c'. cv_machine p = Some m \<and> cv_machine q = Some m' \<and> cv_cluster p = Some c \<and> cv_cluster q = Some c' \<and>
        sameCertificateAndKey (mc_issuingCA m) (mc_issuingCA m') \<and> mc_token m = mc_token m' \<and>
        cls_tokenID c = cls_tokenID c' \<and> cls_tokenSecret c = cls_tokenSecret c' \<and>
        sameCertificateAndKey (cls_etcdCA c) (cls_etcdCA c')) \<and>
     sameKubernetesPKI B p q \<and> componentImages p = componentImages q"

definition machine_role_of :: "config_provider \<Rightarrow> MachineRole option" where
  "machine_role_of p = map_option mc_type (cv_machine p)"

definition cluster_name_of :: "config_provider \<Rightarrow> string option" where
  "cluster_name_of p = map_option kc_clusterName (cv_k8s_cluster p)"

lemma same_identity_equiv:
  "same_identity B p q \<Longrightarrow> same_identity B q p"
  "same_identity B p q \<Longrightarrow> same_identity B q r \<Longrightarrow> same_identity B p r"
  unfolding same_identity_def by (metis same_pair_equiv(1) sameKubernetesPKI_equiv(1))
    (clarsimp, metis same_pair_equiv(2) sameKubernetesPKI_equiv(2))

lemma validateProviderOwned_iff:
  "validateProviderOwnedConfiguration B base p name endpoint t \<longleftrightarrow>
     same_identity B base p \<and> machine_role_of p = Some t \<and> cluster_name_of p = Some name \<and>
     (\<exists>k u. cv_k8s_cluster p = Some k \<and> kc_endpoint k = Some u \<and> canonicalEndpoint B (cb_url_string B u) = Inr endpoint)"
  by (auto simp: validateProviderOwnedConfiguration_def same_identity_def machine_role_of_def cluster_name_of_def
      split: option.splits)

lemma GenerateMachineConfiguration_ok:
  assumes "GenerateMachineConfiguration B input patches = Inr c"
  obtains sb endpoint base p where
    "mcc_secretsBundle input = Some sb" "canonicalEndpoint B (mcc_controlPlaneEndpoint input) = Inr endpoint"
    "cb_generate B (mcc_clusterName input) endpoint (trim_v (trim_space (mcc_kubernetesVersion input))) sb (mcc_machineRole input) = Some base"
    "MachineRole_Valid (mcc_machineRole input)" "generate_with B input base endpoint (mcc_machineRole input) patches = Inr c"
    "cb_load B c = Some p" "cv_valid p" "\<not> blank c"
    "validateProviderOwnedConfiguration B base p (mcc_clusterName input) endpoint (mcc_machineRole input)"
  using assms
  by (auto simp: GenerateMachineConfiguration_def secretsBundle_def machineType_def MachineRole_Valid_def Let_def generate_with_def
      check_rendered_def ValidateMachineConfiguration_def validateClientConfiguration_def
      split: if_splits option.splits sum.splits MachineRole.splits)

subsection \<open>What the edits of a configuration keep\<close>

text \<open>Two configurations that differ in nothing but the kubelet section (and in their bytes).\<close>

definition same_but_kubelet :: "config_provider \<Rightarrow> config_provider \<Rightarrow> bool" where
  "same_but_kubelet p q \<longleftrightarrow>
     q = p\<lparr>cv_complete := cv_complete q, cv_encoded := cv_encoded q, cv_redacted := cv_redacted q, cv_valid := cv_valid q,
           cv_kubelet := cv_kubelet q\<rparr>"

text \<open>What the library promises of the edits in \<open>configmutate.go\<close>, of the install patch, of its
  encoder and of the order of a map.\<close>

definition config_edit_law :: "'b config_lib \<Rightarrow> bool" where
  "config_edit_law B \<longleftrightarrow>
     (\<forall>c c' img pid p. tl_patch (cb_talos B) c (PatchKubeletProviderID img pid) = Some c' \<longrightarrow> cb_load B c = Some p \<longrightarrow>
        (\<exists>q. cb_load B c' = Some q \<and> same_but_kubelet p q \<and> cv_kubelet q = Some (img, [pid]))) \<and>
     (\<forall>c c' img p. tl_patch (cb_talos B) c (PatchInstallerImage img) = Some c' \<longrightarrow> cb_load B c = Some p \<longrightarrow>
        (\<exists>q. cb_load B c' = Some q \<and> same_but_kubelet p q \<and> cv_kubelet q = cv_kubelet p))"

definition install_patch_law :: "'b config_lib \<Rightarrow> bool" where
  "install_patch_law B \<longleftrightarrow>
     (\<forall>c s r q e. cb_apply_install B c s = Some r \<longrightarrow> cb_load B r = Some q \<longrightarrow> cv_encoded q = Some e \<longrightarrow>
        (\<exists>p. cb_load B e = Some p \<and> cv_install p = Some s))"

definition map_order_law :: "'b config_lib \<Rightarrow> bool" where
  "map_order_law B \<longleftrightarrow> (\<forall>xs. set (cb_map_order B xs) = set xs)"

lemma same_but_kubelet_keeps:
  assumes "same_but_kubelet p q"
  shows "cv_install q = cv_install p" "cv_machine q = cv_machine p" "cv_cluster q = cv_cluster p" "cv_k8s_cluster q = cv_k8s_cluster p"
    "cv_documents q = cv_documents p" "sameKubernetesPKI B q r = sameKubernetesPKI B p r" "sameKubernetesPKI B r q = sameKubernetesPKI B r p"
    "map_option fst (cv_kubelet q) = map_option fst (cv_kubelet p) \<Longrightarrow> componentImages q = componentImages p"
proof -
  from assms obtain a b c d k where "q = p\<lparr>cv_complete := a, cv_encoded := b, cv_redacted := c, cv_valid := d, cv_kubelet := k\<rparr>"
    unfolding same_but_kubelet_def by blast
  then show "cv_install q = cv_install p" "cv_machine q = cv_machine p" "cv_cluster q = cv_cluster p" "cv_k8s_cluster q = cv_k8s_cluster p"
    "cv_documents q = cv_documents p" "sameKubernetesPKI B q r = sameKubernetesPKI B p r" "sameKubernetesPKI B r q = sameKubernetesPKI B r p"
    "map_option fst (cv_kubelet q) = map_option fst (cv_kubelet p) \<Longrightarrow> componentImages q = componentImages p"
    by (simp_all add: componentImages_def sameKubernetesPKI_def)
qed

lemma same_identity_edited:
  assumes "same_but_kubelet p p'" "map_option fst (cv_kubelet p') = map_option fst (cv_kubelet p)"
    and "same_but_kubelet q q'" "map_option fst (cv_kubelet q') = map_option fst (cv_kubelet q)"
  shows "same_identity B p' q' = same_identity B p q"
  using same_but_kubelet_keeps(2,3)[OF assms(1)] same_but_kubelet_keeps(8)[OF assms(1,2)]
    same_but_kubelet_keeps(2,3)[OF assms(3)] same_but_kubelet_keeps(8)[OF assms(3,4)]
  by (simp add: same_identity_def same_but_kubelet_keeps(6)[OF assms(1)] same_but_kubelet_keeps(7)[OF assms(3)])

subsection \<open>The install target of a disk\<close>

text \<open>A selector that says the same as an expression.\<close>

definition selects_like :: "'b config_lib \<Rightarrow> cel_expression \<Rightarrow> cel_expression \<Rightarrow> bool" where
  "selects_like B actual expected \<longleftrightarrow> actual = expected \<or> equivalentSelectors B actual expected = Inr True"

lemma diskExpression_first:
  "diskExpression B d = Inr x \<Longrightarrow> \<exists>s ss. DiskSelectorsFor d = s # ss \<and> cb_parse_cel B (dsel_expression s) = Some x"
  by (auto simp: diskExpression_def split: list.splits option.splits)

lemma EnsureInstallDisk_ok:
  assumes law: "install_patch_law B" and ok: "EnsureInstallDisk B c d = Inr c'"
  shows "\<exists>p s x. cb_load B c' = Some p \<and> cv_install p = Some s \<and> \<not> un_wipe s \<and> diskExpression B d = Inr x \<and> selects_like B (un_selector s) x"
proof (cases "HasInstallDiskConfiguration B c")
  case (Inl e)
  with ok show ?thesis by (simp add: EnsureInstallDisk_def)
next
  case (Inr configured)
  show ?thesis
  proof (cases configured)
    case True
    with ok Inr show ?thesis
      by (auto simp: EnsureInstallDisk_def validateInstallDiskConfiguration_def selects_like_def split: if_splits option.splits sum.splits)
  next
    case False
    with ok Inr obtain v patch r q where r: "SelectDisk [d] = Inr v" "unattendedInstallPatch B v = Inr patch"
      "cb_apply_install B c patch = Some r" "cb_load B r = Some q" "cv_encoded q = Some c'"
      by (auto simp: EnsureInstallDisk_def split: if_splits option.splits sum.splits)
    from SelectDisk_ok(1)[OF r(1)] have v: "v = d" by (auto split: if_splits)
    from r(3-5) law obtain p where "cb_load B c' = Some p" "cv_install p = Some patch" unfolding install_patch_law_def by blast
    with r(2) v show ?thesis by (auto simp: unattendedInstallPatch_def selects_like_def split: sum.splits)
  qed
qed

text \<open>The first selector of the disk that \<open>SelectDisk\<close> chose matches no other disk, when every disk has a path and a size.\<close>

lemma first_selector_alone:
  assumes "SelectDisk disks = Inr d" "\<forall>c \<in> set disks. \<not> blank (di_devicePath c) \<and> di_sizeBytes c \<noteq> 0" "DiskSelectorsFor d = s # ss" "c \<in> set disks"
  shows "dsel_matches s c \<longleftrightarrow> c = d"
proof -
  have s: "s \<in> set (DiskSelectorsFor d)" by (simp add: assms(3))
  have one: "filter installable disks = [d]" by (rule SelectDisk_ok(1)[OF assms(1)])
  then have d: "d \<in> set disks" "\<not> di_readOnly d" by (auto simp: filter_eq_Cons_iff installable_def)
  have "c \<in> set (filter installable disks) \<longleftrightarrow> \<not> di_readOnly c" using assms(2,4) by (auto simp: installable_def)
  with one have "c = d \<longleftrightarrow> \<not> di_readOnly c" by simp
  with selectors_match[OF s] d show ?thesis by blast
qed

end
