(* ===== verification/ConfigurationChange.thy ===== *)
theory ConfigurationChange
  imports ConfigurationBuilder
begin

section \<open>The classification of a configuration change\<close>

text \<open>
  \<open>adapter/talos/configbuilder/classify.go\<close>: what the difference of two complete configurations
  means for the node. The reasons are texts; an empty reason is no objection.
\<close>

subsection \<open>Invariants\<close>

definition invariantConflict :: "'b config_lib \<Rightarrow> config_provider \<Rightarrow> config_provider \<Rightarrow> string" where
  "invariantConflict B active desired =
     (case (cv_machine active, cv_machine desired) of
        (Some am, Some dm) \<Rightarrow>
          if mc_type am \<noteq> mc_type dm then ''The machine role changed; the update is stopped.''
          else if \<not> sameCertificateAndKey (mc_issuingCA am) (mc_issuingCA dm) \<or> mc_token am \<noteq> mc_token dm
          then ''The machine PKI or join token changed; the update is stopped.''
          else (case (cv_cluster active, cv_cluster desired) of
            (Some ac, Some dc) \<Rightarrow>
              if cls_tokenID ac \<noteq> cls_tokenID dc \<or> cls_tokenSecret ac \<noteq> cls_tokenSecret dc \<or>
                 \<not> sameCertificateAndKey (cls_etcdCA ac) (cls_etcdCA dc)
              then ''The cluster identity, token, or etcd PKI changed; the update is stopped.''
              else if \<not> sameKubernetesPKI B active desired then ''The Kubernetes PKI changed; the update is stopped.''
              else (case (cv_k8s_cluster active, cv_k8s_cluster desired) of
                (Some ak, Some dk) \<Rightarrow>
                  if kc_clusterName ak \<noteq> kc_clusterName dk then ''The cluster name changed; the update is stopped.''
                  else if componentImages active \<noteq> componentImages desired
                  then ''A Kubernetes component image changed; the update is stopped.''
                  else if config_providerID active = None \<or> config_providerID desired = None \<or>
                          config_providerID active \<noteq> config_providerID desired
                  then ''The kubelet ProviderID changed; the update is stopped.''
                  else []
              | _ \<Rightarrow> ''The Kubernetes cluster configuration is unavailable; the update is stopped.'')
          | _ \<Rightarrow> ''The machine configuration does not contain a cluster section; the update is stopped.'')
      | _ \<Rightarrow> ''The machine configuration does not contain a machine section; the update is stopped.'')"

subsection \<open>Storage\<close>

definition VolumeConfigKind :: string where "VolumeConfigKind = ''VolumeConfig''"
definition UserVolumeConfigKind :: string where "UserVolumeConfigKind = ''UserVolumeConfig''"
definition RawVolumeConfigKind :: string where "RawVolumeConfigKind = ''RawVolumeConfig''"
definition LVMVolumeGroupConfigKind :: string where "LVMVolumeGroupConfigKind = ''LVMVolumeGroupConfig''"
definition LVMLogicalVolumeConfigKind :: string where "LVMLogicalVolumeConfigKind = ''LVMLogicalVolumeConfig''"

definition storageDocumentKinds :: "string list" where
  "storageDocumentKinds =
     [VolumeConfigKind, UserVolumeConfigKind, RawVolumeConfigKind, LVMVolumeGroupConfigKind, LVMLogicalVolumeConfigKind]"

text \<open>The key of a document in the index, and the index: a later document replaces an earlier one.\<close>

definition document_key :: "config_document \<Rightarrow> string \<Rightarrow> string" where
  "document_key doc name = doc_kind doc @ ''/'' @ name"

fun index_documents :: "string list \<Rightarrow> config_document list \<Rightarrow> (string, config_document) gomap \<Rightarrow> (string, config_document) gomap" where
  "index_documents kinds [] index = index"
| "index_documents kinds (doc # docs) index =
     (case doc_name doc of None \<Rightarrow> index_documents kinds docs index
      | Some name \<Rightarrow>
          if doc_kind doc \<in> set kinds then index_documents kinds docs (AList.update (document_key doc name) doc index)
          else index_documents kinds docs index)"

definition indexNamedDocuments :: "config_provider \<Rightarrow> string list \<Rightarrow> (string, config_document) gomap" where
  "indexNamedDocuments provider kinds = index_documents kinds (cv_documents provider) []"

definition reprovision_text :: "string \<Rightarrow> string \<Rightarrow> string \<Rightarrow> string" where
  "reprovision_text kind name what =
     ''The '' @ kind @ '' '' @ go_quote name @ '' '' @ what @ ''; the Machine must be reprovisioned.''"

definition destructiveVolumeProvisioningChange :: "string \<Rightarrow> string \<Rightarrow> volume_provisioning \<Rightarrow> volume_provisioning \<Rightarrow> string" where
  "destructiveVolumeProvisioningChange kind name active desired =
     (if vp_diskSelector active \<noteq> vp_diskSelector desired then reprovision_text kind name ''disk selector changed''
      else if (case (vp_minSize active, vp_minSize desired) of (Some a, Some d) \<Rightarrow> d < a | _ \<Rightarrow> False)
      then reprovision_text kind name ''minimum size shrank''
      else if (case (vp_maxSize active, vp_maxSize desired) of (Some a, Some d) \<Rightarrow> d < a | _ \<Rightarrow> False)
      then reprovision_text kind name ''maximum size shrank''
      else if (vp_maxSize active = None) \<noteq> (vp_maxSize desired = None)
      then reprovision_text kind name ''size bound changed''
      else [])"

definition destructiveLVMLogicalVolumeChange :: "string \<Rightarrow> lvm_volume \<Rightarrow> lvm_volume \<Rightarrow> string" where
  "destructiveLVMLogicalVolumeChange name active desired =
     (let text = reprovision_text ''LVMLogicalVolumeConfig'' name
      in if lv_group active \<noteq> lv_group desired then text ''volume group changed''
         else if lv_type active \<noteq> lv_type desired then text ''layout type changed''
         else if lv_mirrors active \<noteq> lv_mirrors desired \<or> lv_stripes active \<noteq> lv_stripes desired
         then text ''mirror/stripe layout changed''
         else if lv_minSize desired < lv_minSize active then text ''minimum size shrank''
         else if lv_maxPercent active \<noteq> lv_maxPercent desired then text ''percentage size changed''
         else if lv_maxSize active \<noteq> 0 \<and> lv_maxSize desired \<noteq> 0 \<and> lv_maxSize desired < lv_maxSize active
         then text ''maximum size shrank''
         else [])"

text \<open>\<open>name\<close> is \<open>active.Name()\<close>; the indexed documents have one.\<close>

definition destructiveStorageDocumentChange :: "config_document \<Rightarrow> config_document \<Rightarrow> string" where
  "destructiveStorageDocumentChange active desired =
     (let kind = doc_kind active; name = text_of (doc_name active);
          unknown = (\<lambda>what. ''The '' @ kind @ '' document is not a recognized '' @ what @ ''; the Machine must be reprovisioned.'')
      in if kind \<in> {VolumeConfigKind, UserVolumeConfigKind, RawVolumeConfigKind}
         then (case (doc_body active, doc_body desired) of
                 (ProvisionedVolume a, ProvisionedVolume d) \<Rightarrow> destructiveVolumeProvisioningChange kind name a d
               | _ \<Rightarrow> unknown ''storage document'')
         else if kind = LVMVolumeGroupConfigKind
         then (case (doc_body active, doc_body desired) of
                 (VolumeGroup a, VolumeGroup d) \<Rightarrow>
                   if a \<noteq> d then reprovision_text kind name ''physical volume selector changed'' else []
               | _ \<Rightarrow> unknown ''LVM volume group document'')
         else if kind = LVMLogicalVolumeConfigKind
         then (case (doc_body active, doc_body desired) of
                 (LogicalVolume a, LogicalVolume d) \<Rightarrow> destructiveLVMLogicalVolumeChange name a d
               | _ \<Rightarrow> unknown ''LVM logical volume document'')
         else ''The '' @ kind @ '' storage document kind is not recognized; the Machine must be reprovisioned.'')"

text \<open>The loop over the documents of the active configuration.\<close>

fun storage_scan :: "(string, config_document) gomap \<Rightarrow> (string \<times> config_document) list \<Rightarrow> string" where
  "storage_scan desiredDocs [] = []"
| "storage_scan desiredDocs ((key, activeDoc) # rest) =
     (case map_of desiredDocs key of
        None \<Rightarrow> ''The storage document '' @ go_quote key @ '' was removed; the Machine must be reprovisioned.''
      | Some desiredDoc \<Rightarrow>
          (let reason = destructiveStorageDocumentChange activeDoc desiredDoc
           in if reason \<noteq> [] then reason else storage_scan desiredDocs rest))"

definition destructiveStorageChange :: "'b config_lib \<Rightarrow> config_provider \<Rightarrow> config_provider \<Rightarrow> string" where
  "destructiveStorageChange B active desired =
     storage_scan (indexNamedDocuments desired storageDocumentKinds)
       (cb_map_order B (indexNamedDocuments active storageDocumentKinds))"

definition destructiveChange :: "'b config_lib \<Rightarrow> config_provider \<Rightarrow> config_provider \<Rightarrow> string" where
  "destructiveChange B active desired =
     (let storage = destructiveStorageChange B active desired
      in case (cv_install active, cv_install desired) of
           (Some a, Some d) \<Rightarrow>
             if cx_string (un_selector a) \<noteq> cx_string (un_selector d)
             then ''The install disk selection changed; the Machine must be reprovisioned.''
             else if un_wipe a \<noteq> un_wipe d then ''The install wipe setting changed; the Machine must be reprovisioned.''
             else storage
         | (None, None) \<Rightarrow> storage
         | _ \<Rightarrow> ''The install configuration was added or removed; the Machine must be reprovisioned.'')"

subsection \<open>The classification\<close>

definition normalizedInstallerVersion :: string where "normalizedInstallerVersion = ''v0.0.0''"
definition normalizedInstallerSchematic :: string where "normalizedInstallerSchematic = ''normalized''"

definition normalizeInstallerImage :: "'b config_lib \<Rightarrow> string \<Rightarrow> string option" where
  "normalizeInstallerImage B configuration =
     SetInstallerImage (builder_talos B) configuration normalizedInstallerVersion normalizedInstallerSchematic"

text \<open>The comparison of the two loaded configurations, whose digests differ. \<open>None\<close> is a panic:
  \<open>invariantConflict\<close> has found both cluster configurations, so it does not happen.\<close>

definition classify_loaded :: "'b config_lib \<Rightarrow> config_provider \<Rightarrow> config_provider \<Rightarrow> (ChangeClass \<times> string) option" where
  "classify_loaded B active desired =
     (let conflict = invariantConflict B active desired; destructive = destructiveChange B active desired
      in if conflict \<noteq> [] then Some (ChangeInvariantConflict, conflict)
         else if destructive \<noteq> [] then Some (ChangeReprovisionRequired, destructive)
         else (case (cv_k8s_cluster active, cv_k8s_cluster desired) of
                 (Some ak, Some dk) \<Rightarrow>
                   if \<not> sameEndpoint B (kc_endpoint ak) (kc_endpoint dk)
                   then Some (ChangeControlPlaneEndpoint,
                     ''The control-plane endpoint changed without changing cluster identity or node data.'')
                   else Some (ChangeUpdatable, ''The machine configuration difference preserves node data and identity.'')
               | _ \<Rightarrow> None))"

definition ClassifyConfigurationChange :: "'b config_lib \<Rightarrow> string \<Rightarrow> string \<Rightarrow> (ChangeClass \<times> string) option" where
  "ClassifyConfigurationChange B active0 desired0 =
     (case (normalizeInstallerImage B active0, normalizeInstallerImage B desired0) of
        (Some active, Some desired) \<Rightarrow>
          (case (cb_load B active, cb_load B desired) of
             (Some activeProvider, Some desiredProvider) \<Rightarrow>
               (case (DigestEffectiveConfiguration B active, DigestEffectiveConfiguration B desired) of
                  (Inr activeDigest, Inr desiredDigest) \<Rightarrow>
                    if activeDigest = desiredDigest then Some (ChangeNone, [])
                    else classify_loaded B activeProvider desiredProvider
                | _ \<Rightarrow> None)
           | _ \<Rightarrow> None)
      | _ \<Rightarrow> None)"

subsection \<open>What each class means\<close>

lemma invariantConflict_iff:
  "invariantConflict B p q = [] \<longleftrightarrow>
     same_identity B p q \<and> machine_role_of p = machine_role_of q \<and>
     cluster_name_of p \<noteq> None \<and> cluster_name_of p = cluster_name_of q \<and>
     config_providerID p \<noteq> None \<and> config_providerID p = config_providerID q"
proof (cases "cv_machine p = None \<or> cv_machine q = None \<or> cv_cluster p = None \<or> cv_cluster q = None \<or>
    cv_k8s_cluster p = None \<or> cv_k8s_cluster q = None")
  case True
  then have "invariantConflict B p q \<noteq> []" by (auto simp: invariantConflict_def split: option.split)
  with True show ?thesis by (auto simp: same_identity_def cluster_name_of_def)
next
  case False
  then obtain m m' c c' k k' where "cv_machine p = Some m" "cv_machine q = Some m'" "cv_cluster p = Some c" "cv_cluster q = Some c'"
    "cv_k8s_cluster p = Some k" "cv_k8s_cluster q = Some k'" by auto
  then show ?thesis by (auto simp: invariantConflict_def same_identity_def machine_role_of_def cluster_name_of_def)
qed

text \<open>A storage document that a later one keeps the data of.\<close>

definition size_kept :: "nat option \<Rightarrow> nat option \<Rightarrow> bool" where
  "size_kept a d \<longleftrightarrow> a = None \<or> d = None \<or> the a \<le> the d"

fun data_kept :: "document_body \<Rightarrow> document_body \<Rightarrow> bool" where
  "data_kept (ProvisionedVolume a) (ProvisionedVolume d) \<longleftrightarrow>
     vp_diskSelector a = vp_diskSelector d \<and> size_kept (vp_minSize a) (vp_minSize d) \<and>
     size_kept (vp_maxSize a) (vp_maxSize d) \<and> (vp_maxSize a = None \<longleftrightarrow> vp_maxSize d = None)"
| "data_kept (VolumeGroup a) (VolumeGroup d) \<longleftrightarrow> a = d"
| "data_kept (LogicalVolume a) (LogicalVolume d) \<longleftrightarrow>
     lv_group a = lv_group d \<and> lv_type a = lv_type d \<and> lv_mirrors a = lv_mirrors d \<and> lv_stripes a = lv_stripes d \<and>
     lv_minSize a \<le> lv_minSize d \<and> lv_maxPercent a = lv_maxPercent d \<and>
     (lv_maxSize a = 0 \<or> lv_maxSize d = 0 \<or> lv_maxSize a \<le> lv_maxSize d)"
| "data_kept _ _ \<longleftrightarrow> False"

lemma destructiveVolume_iff:
  "destructiveVolumeProvisioningChange k n a d = [] \<longleftrightarrow> data_kept (ProvisionedVolume a) (ProvisionedVolume d)"
  by (auto simp: destructiveVolumeProvisioningChange_def size_kept_def reprovision_text_def not_less split: option.splits)

lemma destructiveLVM_iff:
  "destructiveLVMLogicalVolumeChange n a d = [] \<longleftrightarrow> data_kept (LogicalVolume a) (LogicalVolume d)"
  by (auto simp: destructiveLVMLogicalVolumeChange_def reprovision_text_def Let_def not_less)

lemma destructiveDocument_kept:
  "destructiveStorageDocumentChange a d = [] \<Longrightarrow> data_kept (doc_body a) (doc_body d)"
  by (auto simp: destructiveStorageDocumentChange_def Let_def destructiveVolume_iff destructiveLVM_iff reprovision_text_def
      simp del: data_kept.simps split: if_splits document_body.splits) auto

lemma storage_scan_iff:
  "storage_scan ds xs = [] \<longleftrightarrow>
     (\<forall>(k, a) \<in> set xs. \<exists>d. map_of ds k = Some d \<and> destructiveStorageDocumentChange a d = [])"
  by (induction ds xs rule: storage_scan.induct) (auto simp: Let_def split: option.splits)

lemma index_documents_distinct: "distinct (map fst index) \<Longrightarrow> distinct (map fst (index_documents kinds docs index))"
  by (induction kinds docs index rule: index_documents.induct) (auto simp: distinct_update split: option.splits)

lemma destructiveStorage_kept:
  assumes "map_order_law B" "destructiveStorageChange B p q = []" "map_of (indexNamedDocuments p storageDocumentKinds) k = Some a"
  shows "\<exists>d. map_of (indexNamedDocuments q storageDocumentKinds) k = Some d \<and> data_kept (doc_body a) (doc_body d)"
proof -
  from assms(3) have "(k, a) \<in> set (cb_map_order B (indexNamedDocuments p storageDocumentKinds))"
    using assms(1) by (auto simp: map_order_law_def dest: map_of_SomeD)
  with assms(2) obtain d where "map_of (indexNamedDocuments q storageDocumentKinds) k = Some d" "destructiveStorageDocumentChange a d = []"
    by (auto simp: destructiveStorageChange_def storage_scan_iff dest!: bspec)
  then show ?thesis by (auto dest: destructiveDocument_kept)
qed

text \<open>The class does not depend on the order in which Go ranges over the map.\<close>

lemma destructiveStorage_order:
  assumes "map_order_law B" "map_order_law (B\<lparr>cb_map_order := f\<rparr>)"
  shows "destructiveStorageChange B p q = [] \<longleftrightarrow> destructiveStorageChange (B\<lparr>cb_map_order := f\<rparr>) p q = []"
  using assms by (simp add: destructiveStorageChange_def storage_scan_iff map_order_law_def)

definition install_kept :: "config_provider \<Rightarrow> config_provider \<Rightarrow> bool" where
  "install_kept p q \<longleftrightarrow>
     (case (cv_install p, cv_install q) of
        (Some a, Some d) \<Rightarrow> cx_string (un_selector a) = cx_string (un_selector d) \<and> un_wipe a = un_wipe d
      | (None, None) \<Rightarrow> True | _ \<Rightarrow> False)"

lemma destructiveChange_iff:
  "destructiveChange B p q = [] \<longleftrightarrow> install_kept p q \<and> destructiveStorageChange B p q = []"
  by (auto simp: destructiveChange_def install_kept_def Let_def split: option.splits)

subsection \<open>Edits before the comparison\<close>

lemma builder_talos_simps [simp]:
  "tl_patch (builder_talos B) = tl_patch (cb_talos B)" "tl_load (builder_talos B) c = map_option talos_view (cb_load B c)"
  "tl_semver_valid (builder_talos B) = tl_semver_valid (cb_talos B)"
  by (simp_all add: builder_talos_def)

lemma builder_SetProviderID:
  assumes "config_edit_law B" "SetProviderID (builder_talos B) c pid = Inr c'"
  obtains p q where "cb_load B c = Some p" "cb_load B c' = Some q" "same_but_kubelet p q"
    "config_providerID q = Some (trim_space pid)" "map_option fst (cv_kubelet q) = map_option fst (cv_kubelet p)"
proof -
  from assms(2) obtain v img vs where v: "tl_load (builder_talos B) c = Some v" "tp_kubelet v = Some (img, vs)"
    "tl_patch (cb_talos B) c (PatchKubeletProviderID img (trim_space pid)) = Some c'"
    by (elim SetProviderID_ok) auto
  then obtain p where p: "cb_load B c = Some p" "cv_kubelet p = Some (img, vs)" by (auto simp: talos_view_def)
  with v(3) assms(1) obtain q where "cb_load B c' = Some q" "same_but_kubelet p q" "cv_kubelet q = Some (img, [trim_space pid])"
    unfolding config_edit_law_def by blast
  with p that show thesis by (auto simp: config_providerID_def)
qed

lemma normalized_loads:
  assumes "config_edit_law B" "normalizeInstallerImage B c = Some c'"
  obtains p q where "cb_load B c = Some p" "cb_load B c' = Some q" "same_but_kubelet p q" "cv_kubelet q = cv_kubelet p" "cv_install p \<noteq> None"
proof -
  from assms(2) obtain img p where "tl_patch (cb_talos B) c (PatchInstallerImage img) = Some c'" "cb_load B c = Some p" "cv_install p \<noteq> None"
    by (auto simp: normalizeInstallerImage_def SetInstallerImage_def talos_view_def split: if_splits option.splits)
  with assms(1) that show thesis unfolding config_edit_law_def by blast
qed

lemma same_but_kubelet_view:
  assumes "same_but_kubelet p q" "cv_kubelet q = cv_kubelet p"
  shows "invariantConflict B q r = invariantConflict B p r" "invariantConflict B r q = invariantConflict B r p"
    "destructiveChange B q r = destructiveChange B p r" "destructiveChange B r q = destructiveChange B r p"
    "config_providerID q = config_providerID p"
proof -
  note k = same_but_kubelet_keeps(1-5)[OF assms(1)] same_but_kubelet_keeps(6,7)[OF assms(1), of B r]
  have i: "componentImages q = componentImages p" by (rule same_but_kubelet_keeps(8)[OF assms(1)]) (simp add: assms(2))
  show v: "config_providerID q = config_providerID p" by (simp add: config_providerID_def assms(2))
  show "invariantConflict B q r = invariantConflict B p r" "invariantConflict B r q = invariantConflict B r p"
    by (simp_all only: invariantConflict_def k i v)
  have d: "indexNamedDocuments q ks = indexNamedDocuments p ks" for ks by (simp only: indexNamedDocuments_def k)
  show "destructiveChange B q r = destructiveChange B p r" "destructiveChange B r q = destructiveChange B r p"
    by (simp_all only: destructiveChange_def destructiveStorageChange_def d k)
qed

text \<open>The class is decided on the configurations as they are; without an install target there is none.\<close>

lemma ClassifyConfigurationChange_cases:
  assumes law: "config_edit_law B" and c: "ClassifyConfigurationChange B active desired = Some (cls, reason)"
  obtains p q where "cb_load B active = Some p" "cb_load B desired = Some q" "cv_install p \<noteq> None" "cv_install q \<noteq> None"
    "cls = ChangeNone \<and> reason = [] \<or> classify_loaded B p q = Some (cls, reason)"
proof -
  from c obtain a d where n: "normalizeInstallerImage B active = Some a" "normalizeInstallerImage B desired = Some d"
    by (auto simp: ClassifyConfigurationChange_def split: option.splits)
  from normalized_loads[OF law n(1)] obtain p p' where p: "cb_load B active = Some p" "cb_load B a = Some p'"
    "same_but_kubelet p p'" "cv_kubelet p' = cv_kubelet p" "cv_install p \<noteq> None" by metis
  from normalized_loads[OF law n(2)] obtain q q' where q: "cb_load B desired = Some q" "cb_load B d = Some q'"
    "same_but_kubelet q q'" "cv_kubelet q' = cv_kubelet q" "cv_install q \<noteq> None" by metis
  have "classify_loaded B p' q' = classify_loaded B p q"
    by (simp only: classify_loaded_def same_but_kubelet_view[OF p(3,4)] same_but_kubelet_view[OF q(3,4)]
        same_but_kubelet_keeps(4)[OF p(3)] same_but_kubelet_keeps(4)[OF q(3)])
  with c n p q that show thesis
    by (auto simp: ClassifyConfigurationChange_def split: sum.splits if_splits)
qed

lemma classify_loaded_keeps:
  assumes "classify_loaded B p q = Some (cls, reason)" "cls = ChangeUpdatable \<or> cls = ChangeControlPlaneEndpoint"
  shows "invariantConflict B p q = []" "destructiveChange B p q = []"
  using assms by (auto simp: classify_loaded_def Let_def split: if_splits option.splits)

end
