(* ===== verification/BootstrapReconciler.thy ===== *)
theory BootstrapReconciler
  imports ConfigurationChange BundleData ControlPlaneEnv HostReconciler
begin

section \<open>The TartBootstrapConfig reconciler\<close>

text \<open>
  \<open>controller/tartbootstrapconfig/reconciler.go\<close>: the machine configuration of a machine is
  generated once its host is claimed and its inventory known, and kept in an immutable Secret
  whose name carries the digest. The renderer is the configuration builder; what a pass does is
  a trace of \<open>bc_event\<close>s, what it sees is the record \<open>bc_env\<close>, arbitrary functions of that trace.
  The reads of a pass come before its first event; each is a function of the trace.
\<close>

subsection \<open>The environment\<close>

datatype bc_event = BootstrapStatusPatch TartBootstrapConfig | BootstrapSecretCreate Secret

record bc_env =
  be_now :: "bc_event list \<Rightarrow> time"
  be_get_config :: "bc_event list \<Rightarrow> string \<Rightarrow> string \<Rightarrow> api_error + TartBootstrapConfig"
  be_get_secret :: "bc_event list \<Rightarrow> string \<Rightarrow> string \<Rightarrow> api_error + Secret"
  be_get_capi_machine :: "bc_event list \<Rightarrow> string \<Rightarrow> string \<Rightarrow> api_error + capi_machine"
  be_list_capi_machines :: "bc_event list \<Rightarrow> string \<Rightarrow> api_error + capi_machine list"
  be_get_cluster :: "bc_event list \<Rightarrow> string \<Rightarrow> string \<Rightarrow> api_error + capi_cluster"
  be_get_tart_cluster :: "bc_event list \<Rightarrow> string \<Rightarrow> string \<Rightarrow> api_error + TartCluster"
  be_get_tart_machine :: "bc_event list \<Rightarrow> string \<Rightarrow> string \<Rightarrow> api_error + TartMachine"
  be_get_host :: "bc_event list \<Rightarrow> string \<Rightarrow> api_error + TartHost"
  be_list_hosts :: "bc_event list \<Rightarrow> api_error + TartHost list"
  be_list_configs :: "bc_event list \<Rightarrow> api_error + TartBootstrapConfig list"
  be_write :: "bc_event list \<Rightarrow> bc_event \<Rightarrow> api_error option"
  be_bundles :: bundle_lib
  be_builder :: "full_bundle config_lib"
  be_endpoint_valid :: "string \<Rightarrow> int \<Rightarrow> bool"        \<comment> \<open>\<open>APIEndpoint.IsValid\<close>\<close>
  be_endpoint_string :: "string \<Rightarrow> int \<Rightarrow> string"      \<comment> \<open>\<open>APIEndpoint.String\<close>\<close>

datatype bc_error =
    BeApi api_error | BeCapi capi_error | BeOwner OwnershipFailure
  | errBootstrapContextUnavailable | errBootstrapIdentityConflict | errBootstrapContextPending
  | errBootstrapBindingMismatch | errBootstrapInventoryPending | errBootstrapDiskUnavailable
  | errBootstrapHostUnavailable
  | BeSecret secret_error | BeBuild build_error | BeProviderID config_error

type_synonym 'a bc = "(bc_event, 'a) io"
type_synonym bc_result = "duration \<times> bc_error option"

definition bc_call :: "bc_env \<Rightarrow> bc_event \<Rightarrow> api_error option bc" where
  "bc_call E e = call e (\<lambda>tr. be_write E tr e)"

lemma emits_bc_call [emit_rules]: "e \<in> S \<Longrightarrow> emits (bc_call E e) S"
  by (simp add: bc_call_def emits_call)

lemma run_bc_call [simp]: "run_state (bc_call E e) tr = (be_write E tr e, tr @ [e])"
  by (simp add: bc_call_def)

definition TartBootstrapConfigReadyCondition :: string where "TartBootstrapConfigReadyCondition = ''Ready''"

text \<open>A \<open>Get\<close> whose not-found error becomes one of the reconciler's own.\<close>

definition found_or :: "bc_error \<Rightarrow> api_error + 'a \<Rightarrow> bc_error + 'a" where
  "found_or missing r = (case r of Inr x \<Rightarrow> Inr x | Inl e \<Rightarrow> Inl (if e = ApiNotFound then missing else BeApi e))"

subsection \<open>The context of the machine\<close>

definition machine_of_config :: "k8s_lib \<Rightarrow> bc_env \<Rightarrow> bc_event list \<Rightarrow> TartBootstrapConfig \<Rightarrow> bc_error + capi_machine" where
  "machine_of_config L E tr config =
     (case FindCAPIMachineForBootstrap L (be_get_capi_machine E tr (mt_namespace (bc_meta config)))
             (be_list_capi_machines E tr (mt_namespace (bc_meta config))) (bc_meta config) of
        Inl e \<Rightarrow> Inl (BeCapi e) | Inr m \<Rightarrow> Inr m)"

definition not_a_tart_machine :: "contract_ref \<Rightarrow> bool" where
  "not_a_tart_machine ref \<longleftrightarrow> cr_apiGroup ref \<noteq> infra_group \<or> cr_kind ref \<noteq> TartMachineKind \<or> cr_name ref = []"

definition usable_disks :: "DiskInventory list \<Rightarrow> DiskIdentity list" where
  "usable_disks disks = map disk_identity (filter (\<lambda>d. \<not> sint (disk_sizeBytes d) < 1) disks)"

definition host_disks :: "bc_env \<Rightarrow> bc_event list \<Rightarrow> TartHost \<Rightarrow> bc_error + string \<times> DiskIdentity list" where
  "host_disks E tr host =
     (case be_list_hosts E tr of Inl e \<Rightarrow> Inl (BeApi e)
      | Inr allHosts \<Rightarrow>
          if HasIdentityConflictForAny allHosts then Inl errBootstrapIdentityConflict
          else (case hst_inventory (h_status host) of None \<Rightarrow> Inl errBootstrapInventoryPending
          | Some inventory \<Rightarrow>
              if length (inv_disks inventory) = 0 then Inl errBootstrapDiskUnavailable
              else if length (usable_disks (inv_disks inventory)) = 0 then Inl errBootstrapDiskUnavailable
              else Inr (h_name host, usable_disks (inv_disks inventory))))"

definition claimed_by :: "TartMachine \<Rightarrow> TartHost \<Rightarrow> bool" where
  "claimed_by providerMachine host \<longleftrightarrow>
     (case hs_consumerRef (h_spec host) of None \<Rightarrow> False
      | Some consumer \<Rightarrow>
          ref_apiVersion consumer = infra_group_version \<and> ref_kind consumer = TartMachineKind \<and>
          ref_namespace consumer = mt_namespace (m_meta providerMachine) \<and> ref_name consumer = mt_name (m_meta providerMachine) \<and>
          ref_uid consumer = mt_uid (m_meta providerMachine))"

definition hostAndDisksForMachine ::
  "k8s_lib \<Rightarrow> bc_env \<Rightarrow> bc_event list \<Rightarrow> capi_machine \<Rightarrow> bc_error + string \<times> DiskIdentity list" where
  "hostAndDisksForMachine L E tr machine =
     (let ref = cm_infrastructureRef machine
      in if not_a_tart_machine ref then Inl errBootstrapContextPending
         else case found_or errBootstrapContextPending (be_get_tart_machine E tr (mt_namespace (cm_meta machine)) (cr_name ref)) of
           Inl e \<Rightarrow> Inl e
         | Inr providerMachine \<Rightarrow>
             (case ValidateProviderOwner (m_meta providerMachine) (cm_meta machine) (lib_capi_group_version L) CAPIMachineKind of
                Some e \<Rightarrow> Inl (BeOwner e)
              | None \<Rightarrow>
                  (case mst_hostRef (m_status providerMachine) of None \<Rightarrow> Inl errBootstrapContextPending
                   | Some hostRef \<Rightarrow>
                       if hostRef = [] then Inl errBootstrapContextPending
                       else (case found_or errBootstrapHostUnavailable (be_get_host E tr hostRef) of
                          Inl e \<Rightarrow> Inl e
                        | Inr host \<Rightarrow>
                            if \<not> claimed_by providerMachine host then Inl errBootstrapBindingMismatch
                            else host_disks E tr host))))"

text \<open>The bundle of the active generation, and the endpoint and version of the cluster.\<close>

definition active_bundle :: "k8s_lib \<Rightarrow> bc_env \<Rightarrow> bc_event list \<Rightarrow> TartCluster \<Rightarrow> bc_error + full_bundle" where
  "active_bundle L E tr providerCluster =
     (let m = tc_meta providerCluster; clusterID = cs_clusterID (tc_spec providerCluster);
          generation = cst_activeSecretGeneration (tc_status providerCluster)
      in case BundleName L (mt_name m) clusterID generation of
           Inl _ \<Rightarrow> Inl errBootstrapContextUnavailable
         | Inr bundleName \<Rightarrow>
             (case found_or errBootstrapContextUnavailable (be_get_secret E tr (mt_namespace m) bundleName) of
                Inl e \<Rightarrow> Inl e
              | Inr bundleSecret \<Rightarrow>
                  (case ValidateBundleSecretContract L (Some bundleSecret) (mt_namespace m) (mt_name m) clusterID generation
                          BundleStateActive (mt_uid m) of
                     Some _ \<Rightarrow> Inl errBootstrapContextUnavailable
                   | None \<Rightarrow>
                       (case DecodeBundleData (bl_unmarshal (be_bundles E)) (bl_valid (be_bundles E)) (sec_data bundleSecret) clusterID of
                          None \<Rightarrow> Inl errBootstrapContextUnavailable | Some b \<Rightarrow> Inr b))))"

definition config_cluster ::
  "bc_env \<Rightarrow> bc_event list \<Rightarrow> TartBootstrapConfig \<Rightarrow> capi_machine \<Rightarrow> bc_error + capi_cluster \<times> TartCluster" where
  "config_cluster E tr config clusterMachine =
     (case found_or errBootstrapContextUnavailable (be_get_cluster E tr (mt_namespace (bc_meta config)) (cm_clusterName clusterMachine)) of
        Inl e \<Rightarrow> Inl e
      | Inr cluster \<Rightarrow>
          (let ref = cl_infrastructureRef cluster
           in if cr_apiGroup ref \<noteq> infra_group \<or> cr_kind ref \<noteq> TartClusterKind \<or> cr_name ref = []
              then Inl errBootstrapContextUnavailable
              else (case found_or errBootstrapContextUnavailable (be_get_tart_cluster E tr (mt_namespace (cl_meta cluster)) (cr_name ref)) of
                 Inl e \<Rightarrow> Inl e
               | Inr providerCluster \<Rightarrow>
                   if ClusterID_IsZero (cs_clusterID (tc_spec providerCluster)) \<or> cst_activeSecretGeneration (tc_status providerCluster) < 1
                   then Inl errBootstrapContextUnavailable
                   else if \<not> be_endpoint_valid E (cl_endpoint_host cluster) (cl_endpoint_port cluster) \<or> cm_version clusterMachine = []
                   then Inl errBootstrapContextUnavailable
                   else Inr (cluster, providerCluster))))"

text \<open>A disk that cannot be chosen leaves the install target to the patches.\<close>

definition machineConfigurationContext ::
  "k8s_lib \<Rightarrow> bc_env \<Rightarrow> bc_event list \<Rightarrow> TartBootstrapConfig \<Rightarrow> bc_error + full_bundle MachineConfigurationContext" where
  "machineConfigurationContext L E tr config =
     (case machine_of_config L E tr config of Inl e \<Rightarrow> Inl e
      | Inr clusterMachine \<Rightarrow>
          (case config_cluster E tr config clusterMachine of Inl e \<Rightarrow> Inl e
           | Inr (cluster, providerCluster) \<Rightarrow>
               (case active_bundle L E tr providerCluster of Inl e \<Rightarrow> Inl e
                | Inr secrets \<Rightarrow>
                    (case hostAndDisksForMachine L E tr clusterMachine of Inl e \<Rightarrow> Inl e
                     | Inr (hostName, disks) \<Rightarrow>
                         Inr \<lparr>mcc_clusterName = mt_name (cl_meta cluster),
                              mcc_controlPlaneEndpoint = be_endpoint_string E (cl_endpoint_host cluster) (cl_endpoint_port cluster),
                              mcc_kubernetesVersion = cm_version clusterMachine,
                              mcc_machineRole = (if map_of (mt_labels (cm_meta clusterMachine)) (lib_control_plane_label L) \<noteq> None
                                then MachineRoleControlPlane else MachineRoleWorker),
                              mcc_secretsBundle = Some secrets,
                              mcc_installDisk = (case SelectDisk disks of Inl _ \<Rightarrow> None | Inr d \<Rightarrow> Some d),
                              mcc_hostname = hostName\<rparr>))))"

definition providerIDForBootstrapMachine ::
  "k8s_lib \<Rightarrow> bc_env \<Rightarrow> bc_event list \<Rightarrow> TartBootstrapConfig \<Rightarrow> bc_error + string" where
  "providerIDForBootstrapMachine L E tr config =
     (case machine_of_config L E tr config of Inl e \<Rightarrow> Inl e
      | Inr machine \<Rightarrow>
          (let ref = cm_infrastructureRef machine
           in if not_a_tart_machine ref then Inl errBootstrapContextPending
              else case found_or errBootstrapContextPending (be_get_tart_machine E tr (mt_namespace (cm_meta machine)) (cr_name ref)) of
                Inl e \<Rightarrow> Inl e
              | Inr providerMachine \<Rightarrow>
                  if ProviderID_IsZero (ms_providerID (m_spec providerMachine)) then Inl errBootstrapContextPending
                  else Inr (ProviderID_String (ms_providerID (m_spec providerMachine)))))"

subsection \<open>The configuration\<close>

definition configurationFromPatches ::
  "k8s_lib \<Rightarrow> bc_env \<Rightarrow> bc_event list \<Rightarrow> TartBootstrapConfig \<Rightarrow> string \<Rightarrow> bc_error + string" where
  "configurationFromPatches L E tr config patches =
     (case machineConfigurationContext L E tr config of Inl e \<Rightarrow> Inl e
      | Inr configurationContext \<Rightarrow>
          (case RenderFromPatches (be_builder E) configurationContext patches of Inl e \<Rightarrow> Inl (BeBuild e)
           | Inr rendered \<Rightarrow>
               (case providerIDForBootstrapMachine L E tr config of Inl e \<Rightarrow> Inl e
                | Inr pid \<Rightarrow>
                    (case SetProviderID (builder_talos (be_builder E)) rendered pid of
                       Inl e \<Rightarrow> Inl (BeProviderID e) | Inr c \<Rightarrow> Inr c))))"

definition bootstrap_configuration ::
  "k8s_lib \<Rightarrow> bc_env \<Rightarrow> bc_event list \<Rightarrow> TartBootstrapConfig \<Rightarrow> Secret option \<Rightarrow> bc_error + string" where
  "bootstrap_configuration L E tr config input =
     (case input of None \<Rightarrow> configurationFromPatches L E tr config []
      | Some secret \<Rightarrow>
          (case ValidateConfigSecret (Some secret) of Some e \<Rightarrow> Inl (BeSecret e)
           | None \<Rightarrow> configurationFromPatches L E tr config (map_get (sec_data secret) ConfigurationPatchesKey)))"

text \<open>The referenced patches: a report, an error, or the Secret when there is a reference.\<close>

datatype 'a reported = Report string string | Failed bc_error | Got 'a

definition configurationInput :: "bc_env \<Rightarrow> bc_event list \<Rightarrow> TartBootstrapConfig \<Rightarrow> Secret option reported" where
  "configurationInput E tr config =
     (case bcs_configPatchesSecretRef (bc_spec config) of None \<Rightarrow> Got None
      | Some name \<Rightarrow>
          if name = [] then Report ''ConfigurationSecretUnavailable'' ''The configuration Secret reference has no name.''
          else (case be_get_secret E tr (mt_namespace (bc_meta config)) name of
                  Inr input \<Rightarrow> Got (Some input)
                | Inl ApiNotFound \<Rightarrow> Report ''ConfigurationSecretUnavailable''
                    ''The referenced immutable configuration Secret is not available.''
                | Inl e \<Rightarrow> Failed (BeApi e)))"

subsection \<open>Reports\<close>

definition set_config_ready ::
  "k8s_lib \<Rightarrow> time \<Rightarrow> condition_status \<Rightarrow> string \<Rightarrow> string \<Rightarrow> TartBootstrapConfig \<Rightarrow> TartBootstrapConfig" where
  "set_config_ready L now st reason message config =
     config\<lparr>bc_status := (bc_status config)\<lparr>
       bcst_conditions := SetCondition L now (bcst_conditions (bc_status config)) TartBootstrapConfigReadyCondition st reason message
         (mt_generation (bc_meta config)),
       bcst_observedGeneration := mt_generation (bc_meta config)\<rparr>\<rparr>"

definition report_config :: "k8s_lib \<Rightarrow> bc_env \<Rightarrow> TartBootstrapConfig \<Rightarrow> string \<Rightarrow> string \<Rightarrow> bc_result bc" where
  "report_config L E config reason message = do {
     now \<leftarrow> query (be_now E);
     err \<leftarrow> bc_call E (BootstrapStatusPatch (set_config_ready L now ConditionFalse reason message config));
     State_Monad.return (0, map_option BeApi err)
   }"

text \<open>The third component: recognized.\<close>

definition classifyConfigurationError :: "bc_error \<Rightarrow> string \<times> string \<times> bool" where
  "classifyConfigurationError e =
     (if e = errBootstrapIdentityConflict
      then (ReasonIdentityConflict, ''The Host inventory contains duplicated stable identity; configuration generation is stopped.'', True)
      else if e = BeBuild BuildConflict
      then (''ConfigurationConflict'', ''The rendered Talos machine configuration conflicts with a provider-owned invariant.'', True)
      else if e = BeProviderID ErrProviderIDConflict
      then (''ConfigurationConflict'',
        ''The rendered Talos machine configuration contains a ProviderID that conflicts with the allocated Host.'', True)
      else if e = BeBuild (BuildDisk ErrDiskSelectionAmbiguous) \<or> e = BeBuild BuildInstallInvalid
      then (''InstallDiskUnavailable'', ''The immutable configuration does not identify one safe Talos install disk.'', True)
      else (''ConfigurationInvalid'',
        ''The referenced configuration Secret does not contain a complete valid Talos machine configuration.'', False))"

definition reportConfigurationError :: "k8s_lib \<Rightarrow> bc_env \<Rightarrow> TartBootstrapConfig \<Rightarrow> bc_error \<Rightarrow> bc_result bc" where
  "reportConfigurationError L E config e =
     (if e = BeCapi ErrCAPIMachineUnavailable \<or> e = errBootstrapContextPending \<or> e = errBootstrapInventoryPending \<or>
         e = errBootstrapContextUnavailable
      then do {
        (_, err) \<leftarrow> report_config L E config ''ClusterContextPending'' ''Bootstrap configuration is waiting for required observed state.'';
        State_Monad.return (case err of Some x \<Rightarrow> (0, Some x) | None \<Rightarrow> (15 * second, None))
      }
      else if e = errBootstrapBindingMismatch \<or> e = errBootstrapHostUnavailable
      then report_config L E config ''HostBindingMismatch''
             ''The TartHost binding does not match the CAPI/TartMachine identity; configuration generation is stopped.''
      else if e = BeBuild (BuildDisk ErrDiskSelectionUnavailable) \<or> e = BeBuild BuildInstallUnavailable \<or> e = errBootstrapDiskUnavailable
      then report_config L E config ''InstallDiskUnavailable''
             ''No writable disk with a safe stable identity is available for Talos installation.''
      else if e = BeBuild (BuildDisk ErrDiskSelectionAmbiguous)
      then report_config L E config ''InstallDiskAmbiguous''
             ''Multiple writable disks are available but no explicit install disk policy is configured; installation is stopped.''
      else (case classifyConfigurationError e of (reason, message, recognized) \<Rightarrow>
              if \<not> recognized then State_Monad.return (0, Some e) else report_config L E config reason message))"

subsection \<open>The Secret\<close>

text \<open>Go cuts strings at bytes.\<close>

definition bootstrapSecretName :: "string \<Rightarrow> string \<Rightarrow> string" where
  "bootstrapSecretName configName digest0 =
     (let digest = (if length digest0 \<ge> 10 then take 10 digest0 else digest0); name = configName @ ''-'' @ digest
      in if length name > 253 then take (nat (max (253 - int (length digest) - 1) 1)) configName @ ''-'' @ digest else name)"

text \<open>The Secret, found or created, or what ends the pass.\<close>

datatype secret_outcome = SecretReport string string | SecretEnds bc_result | SecretReady Secret

definition ensureBootstrapSecret ::
  "bc_env \<Rightarrow> TartBootstrapConfig \<Rightarrow> Secret \<Rightarrow> string \<Rightarrow> string \<Rightarrow> string \<Rightarrow> secret_outcome bc" where
  "ensureBootstrapSecret E config expected clusterName secretName completeConfiguration = do {
     found \<leftarrow> query (\<lambda>tr. be_get_secret E tr (mt_namespace (bc_meta config)) secretName);
     (case found of
        Inl ApiNotFound \<Rightarrow> do {
          err \<leftarrow> bc_call E (BootstrapSecretCreate expected);
          State_Monad.return
            (case err of None \<Rightarrow> SecretReady expected
             | Some e \<Rightarrow> if e = ApiAlreadyExists then SecretEnds (1, None) else SecretEnds (0, Some (BeApi e)))
        }
      | Inl e \<Rightarrow> State_Monad.return (SecretEnds (0, Some (BeApi e)))
      | Inr actual \<Rightarrow>
          State_Monad.return
            (if \<not> IsContractSecret (Some actual) clusterName (mt_uid (bc_meta config))
             then SecretReport ''BootstrapSecretInvalid'' ''The existing Bootstrap Secret does not satisfy the CAPI contract.''
             else if map_get (sec_data actual) BootstrapSecretKey \<noteq> completeConfiguration
             then SecretReport ''BootstrapSecretDigestMismatch''
                    ''The immutable Bootstrap Secret does not match its configuration digest.''
             else SecretReady actual))
   }"

definition markReady :: "k8s_lib \<Rightarrow> bc_env \<Rightarrow> TartBootstrapConfig \<Rightarrow> Secret \<Rightarrow> string \<Rightarrow> bc_result bc" where
  "markReady L E config secret digest = do {
     now \<leftarrow> query (be_now E);
     let ready = set_config_ready L now ConditionTrue ''DataSecretCreated'' ''The immutable Bootstrap Secret is available.''
       (config\<lparr>bc_status := (bc_status config)\<lparr>bcst_dataSecretCreated := Some True, bcst_dataSecretName := sec_name secret,
          bcst_configurationDigest := digest\<rparr>\<rparr>);
     err \<leftarrow> bc_call E (BootstrapStatusPatch ready);
     State_Monad.return (0, map_option BeApi err)
   }"

subsection \<open>The pass\<close>

definition config_owner :: "TartBootstrapConfig \<Rightarrow> owner_reference" where
  "config_owner config =
     \<lparr>own_apiVersion = bootstrap_group_version, own_kind = TartBootstrapConfigKind, own_name = mt_name (bc_meta config),
      own_uid = mt_uid (bc_meta config), own_controller = None\<rparr>"

definition keep_configuration :: "k8s_lib \<Rightarrow> bc_env \<Rightarrow> TartBootstrapConfig \<Rightarrow> string \<Rightarrow> string \<Rightarrow> bc_result bc" where
  "keep_configuration L E config completeConfiguration digest =
     (let m = bc_meta config; clusterName = map_get (mt_labels m) ClusterNameLabel; secretName = bootstrapSecretName (mt_name m) digest
      in if clusterName = []
         then report_config L E config ''ClusterNameUnavailable''
                ''The cluster.x-k8s.io/cluster-name label is required to create the Bootstrap Secret.''
         else case BuildBootstrapSecret (mt_namespace m) secretName clusterName (config_owner config) completeConfiguration of
           Inl _ \<Rightarrow> report_config L E config ''BootstrapSecretInvalid''
                     ''The Bootstrap Secret owner or metadata cannot satisfy the CAPI contract.''
         | Inr expected \<Rightarrow> do {
             outcome \<leftarrow> ensureBootstrapSecret E config expected clusterName secretName completeConfiguration;
             (case outcome of
                SecretReport reason message \<Rightarrow> report_config L E config reason message
              | SecretEnds result \<Rightarrow> State_Monad.return result
              | SecretReady actual \<Rightarrow> markReady L E config actual digest)
           })"

definition render_and_keep :: "k8s_lib \<Rightarrow> bc_env \<Rightarrow> TartBootstrapConfig \<Rightarrow> Secret option \<Rightarrow> bc_result bc" where
  "render_and_keep L E config input = do {
     rendered \<leftarrow> query (\<lambda>tr. bootstrap_configuration L E tr config input);
     (case rendered of Inl e \<Rightarrow> reportConfigurationError L E config e
      | Inr completeConfiguration \<Rightarrow>
          (case DigestEffectiveConfiguration (be_builder E) completeConfiguration of
             Inl _ \<Rightarrow> report_config L E config ''ConfigurationInvalid'' ''The rendered Talos machine configuration is not valid for boot.''
           | Inr digest \<Rightarrow> keep_configuration L E config completeConfiguration digest))
   }"

definition Reconcile_TartBootstrapConfig :: "k8s_lib \<Rightarrow> bc_env \<Rightarrow> string \<Rightarrow> string \<Rightarrow> bc_result bc" where
  "Reconcile_TartBootstrapConfig L E namespace name = do {
     found \<leftarrow> query (\<lambda>tr. be_get_config E tr namespace name);
     (case found of
        Inl ApiNotFound \<Rightarrow> State_Monad.return (0, None)
      | Inl e \<Rightarrow> State_Monad.return (0, Some (BeApi e))
      | Inr config \<Rightarrow>
          if IsPaused L (bc_meta config) then State_Monad.return (0, None)
          else do {
            input \<leftarrow> query (\<lambda>tr. configurationInput E tr config);
            (case input of
               Report reason message \<Rightarrow> report_config L E config reason message
             | Failed e \<Rightarrow> State_Monad.return (0, Some e)
             | Got secret \<Rightarrow> render_and_keep L E config secret)
          })
   }"

subsection \<open>The watches\<close>

definition config_patches_index :: "TartBootstrapConfig \<Rightarrow> string list" where
  "config_patches_index config = (case bcs_configPatchesSecretRef (bc_spec config) of None \<Rightarrow> [] | Some n \<Rightarrow> [n])"

definition enqueueAllBootstrapConfigs :: "bc_env \<Rightarrow> (string \<times> string) list bc" where
  "enqueueAllBootstrapConfigs E = do {
     listed \<leftarrow> query (be_list_configs E);
     State_Monad.return
       (case listed of Inl _ \<Rightarrow> []
        | Inr configs \<Rightarrow> map (\<lambda>c. (mt_namespace (bc_meta c), mt_name (bc_meta c))) configs)
   }"

text \<open>The configurations of the namespace of a Secret whose index has its name.\<close>

definition configs_of_secret :: "bc_env \<Rightarrow> Secret \<Rightarrow> (string \<times> string) list bc" where
  "configs_of_secret E secret = do {
     listed \<leftarrow> query (be_list_configs E);
     State_Monad.return
       (case listed of Inl _ \<Rightarrow> []
        | Inr configs \<Rightarrow> map (\<lambda>c. (mt_namespace (bc_meta c), mt_name (bc_meta c)))
            (filter (\<lambda>c. mt_namespace (bc_meta c) = sec_namespace secret \<and> sec_name secret \<in> set (config_patches_index c)) configs))
   }"

subsection \<open>What a configuration was made from\<close>

text \<open>The machine of a configuration, its provider machine and the host it has claimed, at a trace.\<close>

definition claimed_host_of ::
  "k8s_lib \<Rightarrow> bc_env \<Rightarrow> bc_event list \<Rightarrow> TartBootstrapConfig \<Rightarrow> TartMachine \<Rightarrow> TartHost \<Rightarrow> bool" where
  "claimed_host_of L E tr config pm host \<longleftrightarrow>
     (\<exists>m hosts. machine_of_config L E tr config = Inr m \<and>
        be_get_tart_machine E tr (mt_namespace (cm_meta m)) (cr_name (cm_infrastructureRef m)) = Inr pm \<and>
        \<not> ProviderID_IsZero (ms_providerID (m_spec pm)) \<and>
        (\<exists>r. mst_hostRef (m_status pm) = Some r \<and> be_get_host E tr r = Inr host) \<and> claimed_by pm host \<and>
        hst_inventory (h_status host) \<noteq> None \<and> be_list_hosts E tr = Inr hosts \<and> \<not> HasIdentityConflictForAny hosts)"

lemma found_or_ok [simp]: "found_or e r = Inr x \<longleftrightarrow> r = Inr x"
  by (auto simp: found_or_def split: sum.splits)

text \<open>The patches of the user: those of the referenced Secret, which satisfies its contract.\<close>

definition patches_of :: "bc_env \<Rightarrow> bc_event list \<Rightarrow> TartBootstrapConfig \<Rightarrow> string \<Rightarrow> bool" where
  "patches_of E tr config patches \<longleftrightarrow>
     (case bcs_configPatchesSecretRef (bc_spec config) of None \<Rightarrow> patches = []
      | Some name \<Rightarrow> (\<exists>s. name \<noteq> [] \<and> be_get_secret E tr (mt_namespace (bc_meta config)) name = Inr s \<and>
          ValidateConfigSecret (Some s) = None \<and> patches = map_get (sec_data s) ConfigurationPatchesKey))"

text \<open>What a configuration for a host is rendered from.\<close>

definition context_of_host ::
  "k8s_lib \<Rightarrow> bc_env \<Rightarrow> bc_event list \<Rightarrow> TartBootstrapConfig \<Rightarrow> TartHost \<Rightarrow> full_bundle MachineConfigurationContext \<Rightarrow> bool" where
  "context_of_host L E tr config host ctx \<longleftrightarrow>
     (\<exists>m cluster tart secrets inventory. machine_of_config L E tr config = Inr m \<and> config_cluster E tr config m = Inr (cluster, tart) \<and>
        active_bundle L E tr tart = Inr secrets \<and> hst_inventory (h_status host) = Some inventory \<and>
        mcc_clusterName ctx = mt_name (cl_meta cluster) \<and>
        mcc_controlPlaneEndpoint ctx = be_endpoint_string E (cl_endpoint_host cluster) (cl_endpoint_port cluster) \<and>
        mcc_kubernetesVersion ctx = cm_version m \<and>
        mcc_machineRole ctx = (if map_of (mt_labels (cm_meta m)) (lib_control_plane_label L) = None
          then MachineRoleWorker else MachineRoleControlPlane) \<and>
        mcc_secretsBundle ctx = Some secrets \<and> mcc_hostname ctx = h_name host \<and>
        (\<forall>d. mcc_installDisk ctx = Some d \<longleftrightarrow> SelectDisk (usable_disks (inv_disks inventory)) = Inr d))"

lemma configurationInput_patches:
  assumes "configurationInput E tr config = Got input" "bootstrap_configuration L E tr config input = Inr c"
  shows "\<exists>patches. patches_of E tr config patches \<and> configurationFromPatches L E tr config patches = Inr c"
  using assms
  by (auto simp: configurationInput_def bootstrap_configuration_def patches_of_def split: option.splits sum.splits if_splits api_error.splits)

lemma bootstrap_configuration_ok:
  assumes "configurationInput E tr config = Got input" "bootstrap_configuration L E tr config input = Inr c"
  obtains ctx patches rendered pm host where
    "claimed_host_of L E tr config pm host" "context_of_host L E tr config host ctx" "patches_of E tr config patches"
    "RenderFromPatches (be_builder E) ctx patches = Inr rendered"
    "SetProviderID (builder_talos (be_builder E)) rendered (ProviderID_String (ms_providerID (m_spec pm))) = Inr c"
proof -
  from configurationInput_patches[OF assms] obtain patches where
    f: "patches_of E tr config patches" "configurationFromPatches L E tr config patches = Inr c" by blast
  from f(2) obtain ctx rendered pid where r: "machineConfigurationContext L E tr config = Inr ctx"
    "RenderFromPatches (be_builder E) ctx patches = Inr rendered" "providerIDForBootstrapMachine L E tr config = Inr pid"
    "SetProviderID (builder_talos (be_builder E)) rendered pid = Inr c"
    by (auto simp: configurationFromPatches_def split: sum.splits)
  from r(1) obtain m cluster tart secrets hostName disks where m: "machine_of_config L E tr config = Inr m"
    "config_cluster E tr config m = Inr (cluster, tart)" "active_bundle L E tr tart = Inr secrets"
    "hostAndDisksForMachine L E tr m = Inr (hostName, disks)"
    and ctx: "ctx = \<lparr>mcc_clusterName = mt_name (cl_meta cluster),
        mcc_controlPlaneEndpoint = be_endpoint_string E (cl_endpoint_host cluster) (cl_endpoint_port cluster),
        mcc_kubernetesVersion = cm_version m,
        mcc_machineRole = (if map_of (mt_labels (cm_meta m)) (lib_control_plane_label L) \<noteq> None
          then MachineRoleControlPlane else MachineRoleWorker),
        mcc_secretsBundle = Some secrets, mcc_installDisk = (case SelectDisk disks of Inl _ \<Rightarrow> None | Inr d \<Rightarrow> Some d),
        mcc_hostname = hostName\<rparr>"
    by (auto simp: machineConfigurationContext_def split: sum.splits prod.splits)
  from r(3) m(1) obtain pm where pm: "be_get_tart_machine E tr (mt_namespace (cm_meta m)) (cr_name (cm_infrastructureRef m)) = Inr pm"
    "\<not> ProviderID_IsZero (ms_providerID (m_spec pm))" "pid = ProviderID_String (ms_providerID (m_spec pm))"
    by (auto simp: providerIDForBootstrapMachine_def Let_def split: sum.splits if_splits)
  from m(4) pm(1) obtain ref host where h: "mst_hostRef (m_status pm) = Some ref" "be_get_host E tr ref = Inr host" "claimed_by pm host"
    "host_disks E tr host = Inr (hostName, disks)"
    by (auto simp: hostAndDisksForMachine_def Let_def split: sum.splits if_splits option.splits)
  from h(4) obtain hosts inventory where i: "be_list_hosts E tr = Inr hosts" "\<not> HasIdentityConflictForAny hosts"
    "hst_inventory (h_status host) = Some inventory" "hostName = h_name host" "disks = usable_disks (inv_disks inventory)"
    by (auto simp: host_disks_def split: sum.splits if_splits option.splits)
  have "claimed_host_of L E tr config pm host" using m(1) pm(1,2) h(1-3) i by (auto simp: claimed_host_of_def)
  moreover have "context_of_host L E tr config host ctx"
    unfolding context_of_host_def
    by (intro exI[of _ m] exI[of _ cluster] exI[of _ tart] exI[of _ secrets] exI[of _ inventory])
       (use m i in \<open>auto simp: ctx split: sum.splits\<close>)
  ultimately show thesis using that f(1) r(2,4) pm(3) by blast
qed

subsection \<open>What a pass does\<close>

lemma run_report_config:
  "run_state (report_config L E config reason message) tr =
     (let e = BootstrapStatusPatch (set_config_ready L (be_now E tr) ConditionFalse reason message config)
      in ((0, map_option BeApi (be_write E tr e)), tr @ [e]))"
  by (simp add: report_config_def Let_def)

definition config_is_ready :: "k8s_lib \<Rightarrow> TartBootstrapConfig \<Rightarrow> bool" where
  "config_is_ready L c \<longleftrightarrow> (\<exists>r. lib_find_condition L (bcst_conditions (bc_status c)) TartBootstrapConfigReadyCondition = Some r \<and>
     cond_status r = ConditionTrue)"

lemma set_config_ready_status:
  "conditions_law L \<Longrightarrow> config_is_ready L (set_config_ready L now st r m c) \<longleftrightarrow> st = ConditionTrue"
  by (auto simp: config_is_ready_def set_config_ready_def find_SetCondition)

lemma set_config_ready_keeps [simp]:
  "bc_meta (set_config_ready L now st r m c) = bc_meta c" "bc_spec (set_config_ready L now st r m c) = bc_spec c"
  "bcst_dataSecretName (bc_status (set_config_ready L now st r m c)) = bcst_dataSecretName (bc_status c)"
  "bcst_configurationDigest (bc_status (set_config_ready L now st r m c)) = bcst_configurationDigest (bc_status c)"
  "bcst_dataSecretCreated (bc_status (set_config_ready L now st r m c)) = bcst_dataSecretCreated (bc_status c)"
  by (simp_all add: set_config_ready_def)

text \<open>A Secret that the machine's reconciler accepts as the one of the configuration, with this text.\<close>

definition config_secret :: "bc_env \<Rightarrow> TartBootstrapConfig \<Rightarrow> string \<Rightarrow> Secret \<Rightarrow> bool" where
  "config_secret E config c s \<longleftrightarrow>
     IsContractSecret (Some s) (map_get (mt_labels (bc_meta config)) ClusterNameLabel) (mt_uid (bc_meta config)) \<and>
     map_get (sec_data s) BootstrapSecretKey = c"

text \<open>The Secret that a pass creates for a configuration: named after the digest.\<close>

definition new_secret :: "TartBootstrapConfig \<Rightarrow> string \<Rightarrow> string \<Rightarrow> Secret \<Rightarrow> bool" where
  "new_secret config c digest s \<longleftrightarrow>
     BuildBootstrapSecret (mt_namespace (bc_meta config)) (bootstrapSecretName (mt_name (bc_meta config)) digest)
       (map_get (mt_labels (bc_meta config)) ClusterNameLabel) (config_owner config) c = Inr s"

definition ready_status :: "k8s_lib \<Rightarrow> TartBootstrapConfig \<Rightarrow> string \<Rightarrow> Secret \<Rightarrow> TartBootstrapConfig \<Rightarrow> bool" where
  "ready_status L config digest s config' \<longleftrightarrow>
     config_is_ready L config' \<and> bc_meta config' = bc_meta config \<and> bc_spec config' = bc_spec config \<and>
     bcst_dataSecretCreated (bc_status config') = Some True \<and> bcst_dataSecretName (bc_status config') = sec_name s \<and>
     bcst_configurationDigest (bc_status config') = digest"

definition only_reported :: "k8s_lib \<Rightarrow> TartBootstrapConfig \<Rightarrow> bc_event list \<Rightarrow> bool" where
  "only_reported L config new \<longleftrightarrow>
     new = [] \<or> (\<exists>config'. new = [BootstrapStatusPatch config'] \<and> \<not> config_is_ready L config' \<and> bc_meta config' = bc_meta config \<and>
       bc_spec config' = bc_spec config \<and> bcst_dataSecretName (bc_status config') = bcst_dataSecretName (bc_status config))"

lemma reported_report:
  "conditions_law L \<Longrightarrow> run_state (report_config L E config reason message) tr = (r, tr @ new) \<Longrightarrow> only_reported L config new"
  by (auto simp: run_report_config Let_def only_reported_def set_config_ready_status)

lemma reported_error:
  assumes law: "conditions_law L" and run: "run_state (reportConfigurationError L E config e) tr = (r, tr @ new)"
  shows "only_reported L config new"
  using run
  by (auto simp: reportConfigurationError_def run_report_config Let_def only_reported_def set_config_ready_status[OF law]
      split: if_splits prod.splits)

text \<open>What is kept of a rendered configuration: nothing, a report, or the Secret and the status that names it.\<close>

lemma keep_configuration_run:
  assumes law: "conditions_law L" and run: "run_state (keep_configuration L E config c digest) tr = (r, tr @ new)"
  shows "only_reported L config new \<or>
    (\<exists>s. config_secret E config c s \<and>
       (new_secret config c digest s \<and> new = [BootstrapSecretCreate s] \<or>
        (\<exists>config'. ready_status L config digest s config' \<and>
           (new_secret config c digest s \<and> new = [BootstrapSecretCreate s, BootstrapStatusPatch config'] \<and> be_write E tr (BootstrapSecretCreate s) = None \<or>
            new = [BootstrapStatusPatch config'] \<and>
              be_get_secret E tr (mt_namespace (bc_meta config)) (bootstrapSecretName (mt_name (bc_meta config)) digest) = Inr s))))"
proof -
  let ?m = "bc_meta config" and ?cl = "map_get (mt_labels (bc_meta config)) ClusterNameLabel"
  let ?n = "bootstrapSecretName (mt_name (bc_meta config)) digest"
  have ready: "\<exists>config'. run_state (markReady L E config s digest) t = (fst (run_state (markReady L E config s digest) t), t @ [BootstrapStatusPatch config']) \<and>
      ready_status L config digest s config'" for s t
    by (auto simp: markReady_def Let_def ready_status_def set_config_ready_status[OF law])
  show ?thesis
  proof (cases "?cl = []")
    case True
    with run reported_report[OF law] show ?thesis by (auto simp: keep_configuration_def)
  next
    case False
    show ?thesis
    proof (cases "BuildBootstrapSecret (mt_namespace ?m) ?n ?cl (config_owner config) c")
      case (Inl e)
      with run False reported_report[OF law] show ?thesis by (auto simp: keep_configuration_def Let_def)
    next
      case built: (Inr expected)
      have good: "config_secret E config c expected"
        using BuildBootstrapSecret_ok[OF built] by (simp add: config_secret_def config_owner_def)
      have made: "new_secret config c digest expected" using built by (simp add: new_secret_def)
      show ?thesis
      proof (cases "be_get_secret E tr (mt_namespace ?m) ?n")
        case missing: (Inl e)
        show ?thesis
        proof (cases "e = ApiNotFound")
          case True
          with run False built missing good made ready[of expected "tr @ [BootstrapSecretCreate expected]"] show ?thesis
            by (auto simp: keep_configuration_def Let_def ensureBootstrapSecret_def split: option.splits if_splits)
        next
          case other: False
          with run False built missing show ?thesis
            by (cases e) (auto simp: keep_configuration_def Let_def ensureBootstrapSecret_def only_reported_def)
        qed
      next
        case found: (Inr s)
        show ?thesis
        proof (cases "config_secret E config c s")
          case True
          with run False built found ready[of s tr] show ?thesis
            by (auto simp: keep_configuration_def Let_def ensureBootstrapSecret_def config_secret_def)
        next
          case bad: False
          with run False built found show ?thesis
            by (auto simp: keep_configuration_def Let_def ensureBootstrapSecret_def config_secret_def dest: reported_report[OF law] split: if_splits)
        qed
      qed
    qed
  qed
qed

text \<open>A pass that does more than report has rendered a configuration.\<close>

definition rendered_configuration :: "k8s_lib \<Rightarrow> bc_env \<Rightarrow> bc_event list \<Rightarrow> TartBootstrapConfig \<Rightarrow> string \<Rightarrow> string \<Rightarrow> bool" where
  "rendered_configuration L E tr config c digest \<longleftrightarrow>
     (\<exists>input. configurationInput E tr config = Got input \<and> bootstrap_configuration L E tr config input = Inr c) \<and>
     DigestEffectiveConfiguration (be_builder E) c = Inr digest"

lemma Reconcile_config_run:
  assumes law: "conditions_law L" and read: "be_get_config E tr ns n = Inr config"
    and run: "run_state (Reconcile_TartBootstrapConfig L E ns n) tr = (r, tr @ new)"
  shows "only_reported L config new \<or>
    (\<exists>c digest. rendered_configuration L E tr config c digest \<and> run_state (keep_configuration L E config c digest) tr = (r, tr @ new))"
proof (cases "IsPaused L (bc_meta config)")
  case True
  with run read show ?thesis by (simp add: Reconcile_TartBootstrapConfig_def only_reported_def)
next
  case False
  show ?thesis
  proof (cases "configurationInput E tr config")
    case (Report reason message)
    with run read False show ?thesis by (auto simp: Reconcile_TartBootstrapConfig_def dest: reported_report[OF law])
  next
    case (Failed e)
    with run read False show ?thesis by (simp add: Reconcile_TartBootstrapConfig_def only_reported_def)
  next
    case (Got input)
    with run read False have step: "run_state (render_and_keep L E config input) tr = (r, tr @ new)"
      by (simp add: Reconcile_TartBootstrapConfig_def)
    with Got show ?thesis
      by (auto simp: render_and_keep_def rendered_configuration_def dest: reported_error[OF law] reported_report[OF law] split: sum.splits)
  qed
qed

lemma Reconcile_config_missing:
  "\<forall>config. be_get_config E tr ns n \<noteq> Inr config \<Longrightarrow> run_state (Reconcile_TartBootstrapConfig L E ns n) tr = (r, tr @ new) \<Longrightarrow> new = []"
  by (auto simp: Reconcile_TartBootstrapConfig_def split: sum.splits api_error.splits)

end
