(* ===== verification/BootstrapProperties.thy ===== *)
theory BootstrapProperties
  imports BootstrapReconciler ClusterProperties HostProperties ControlPlaneSamples
begin

section \<open>Properties of the configuration builder and of the TartBootstrapConfig reconciler\<close>

text \<open>
  What a generated configuration has whatever the user patches, which configuration changes are
  applied in place, and how a configuration gets from the TartBootstrapConfig reconciler to the
  TartMachine reconciler.
\<close>

subsection \<open>Text that is not blank\<close>

lemma strip_keeps_graphic:
  assumes "graphic c" "c \<in> set s" "ws = ws_runes \<or> ws = map rev ws_runes"
  shows "c \<in> set (strip ws s)"
  using assms
proof (induction ws s rule: strip.induct)
  case (1 ws s)
  show ?case
  proof (cases "lead ws s = 0")
    case True
    with "1.prems" show ?thesis by (simp add: strip_id)
  next
    case False
    then obtain w where w: "w \<in> set ws" "has_prefix s w" "lead ws s = length w"
      by (auto simp: lead_def find_Some_iff split: option.splits) (metis nth_mem)
    have "c \<notin> set w" using w(1) "1.prems"(1,3) by (auto simp: ws_runes_def graphic_def)
    with w "1.prems"(2) have "c \<in> set (drop (lead ws s) s)" by (auto simp: has_prefix_iff)
    with False "1.IH" "1.prems" show ?thesis by (metis strip.simps)
  qed
qed

lemma graphic_nonblank: "graphic c \<Longrightarrow> c \<in> set s \<Longrightarrow> \<not> blank s"
proof -
  assume c: "graphic c" "c \<in> set s"
  then have "c \<in> set (rev (trim_left s))" by (simp add: trim_left_def strip_keeps_graphic)
  then have "c \<in> set (strip (map rev ws_runes) (rev (trim_left s)))" using c(1) by (simp add: strip_keeps_graphic)
  then have "c \<in> set (trim_space s)" by (simp add: trim_space_def trim_right_def)
  then show "\<not> blank s" by force
qed

subsection \<open>A sample library\<close>

text \<open>A configuration is its provider ID behind a letter: with the letter \<open>k\<close> its EPHEMERAL volume has at least
  10 bytes, with \<open>s\<close> 5; the generator's output has no provider ID.\<close>

definition sample_install :: install_section where
  "sample_install = \<lparr>un_selector = \<lparr>cx_zero = False, cx_valid = True, cx_text = Some ''t'', cx_string = ''s''\<rparr>, un_wipe = False\<rparr>"

definition sample_url :: go_url where
  "sample_url = \<lparr>url_scheme = ''https'', url_host = ''ep:6443'', url_has_user = False, url_path = [], url_rawPath = [],
     url_rawQuery = [], url_fragment = []\<rparr>"

definition sample_volume :: "nat \<Rightarrow> config_document" where
  "sample_volume n = \<lparr>doc_kind = ''VolumeConfig'', doc_name = Some ''EPHEMERAL'',
     doc_body = ProvisionedVolume \<lparr>vp_diskSelector = None, vp_minSize = Some n, vp_maxSize = None\<rparr>\<rparr>"

definition sample_provider :: "nat \<Rightarrow> string list \<Rightarrow> config_provider" where
  "sample_provider n ids =
     \<lparr>cv_complete = True, cv_encoded = Some ''e'', cv_redacted = Some (CHR ''r'' # replicate n (CHR ''x'')), cv_valid = True,
      cv_install = Some sample_install, cv_has_kubelet = True, cv_kubelet = Some (''kubelet'', ids),
      cv_machine = Some \<lparr>mc_type = MachineRoleWorker, mc_issuingCA = None, mc_token = ''m''\<rparr>,
      cv_cluster = Some \<lparr>cls_tokenID = ''i'', cls_tokenSecret = ''s'', cls_etcdCA = None\<rparr>,
      cv_k8s_cluster = Some \<lparr>kc_clusterName = ''c1'', kc_endpoint = Some sample_url\<rparr>,
      cv_api_ca = None, cv_aggregator_ca = None, cv_service_account = None, cv_api_server = None, cv_controller_manager = None,
      cv_scheduler = None, cv_proxy = None, cv_documents = [sample_volume n]\<rparr>"

definition sample_config_talos :: talos_lib where
  "sample_config_talos = sample_talos\<lparr>tl_patch := \<lambda>c p. case p of PatchInstallerImage _ \<Rightarrow> Some c
     | PatchKubeletProviderID img pid \<Rightarrow> if img = ''kubelet'' \<and> pid \<noteq> [] \<and> hd c \<noteq> CHR ''s'' then Some (CHR ''k'' # pid) else None\<rparr>"

definition sample_builder :: "full_bundle config_lib" where
  "sample_builder =
     \<lparr>cb_load = (\<lambda>c. if c = ''e'' then Some (sample_provider 10 []) else if c = [] then None
        else if hd c = CHR ''k'' then Some (sample_provider 10 [tl c])
        else if hd c = CHR ''s'' then Some (sample_provider 5 [tl c]) else None),
      cb_generate = (\<lambda>_ _ _ _ _. Some (sample_provider 10 [])),
      cb_load_patch = (\<lambda>_. True), cb_apply = (\<lambda>_ _. True), cb_patched = (\<lambda>b _. Some b), cb_apply_install = (\<lambda>_ _. None),
      cb_parse_cel = (\<lambda>_. Some (un_selector sample_install)), cb_yaml_stream = (\<lambda>_. ([], True)), cb_yaml_encode = (\<lambda>_. Some ''e''),
      cb_url_parse = (\<lambda>_. Some sample_url), cb_url_string = (\<lambda>_. ''https://ep:6443''),
      cb_pem_decode = (\<lambda>_. None), cb_parse_certificate = (\<lambda>_. None), cb_map_order = (\<lambda>xs. xs), cb_talos = sample_config_talos\<rparr>"

lemma sample_builder_laws: "config_edit_law sample_builder" "install_patch_law sample_builder" "map_order_law sample_builder"
  by (auto simp: config_edit_law_def install_patch_law_def map_order_law_def sample_builder_def sample_config_talos_def
      sample_provider_def same_but_kubelet_def split: if_splits)

definition sample_context :: "full_bundle MachineConfigurationContext" where
  "sample_context =
     \<lparr>mcc_clusterName = ''c1'', mcc_controlPlaneEndpoint = ''ep:6443'', mcc_kubernetesVersion = ''v1.35.0'',
      mcc_machineRole = MachineRoleWorker, mcc_secretsBundle = Some (sample_full_bundle ''1''), mcc_installDisk = Some (sample_disk ''S1'' False),
      mcc_hostname = ''h1''\<rparr>"

lemma sample_builder_fields [simp]:
  "cb_load sample_builder ''e'' = Some (sample_provider 10 [])" "cb_load sample_builder (CHR ''k'' # p) = Some (sample_provider 10 [p])"
  "cb_load sample_builder (CHR ''s'' # p) = Some (sample_provider 5 [p])"
  "cb_generate sample_builder n e v b r = Some (sample_provider 10 [])" "cb_parse_cel sample_builder x = Some (un_selector sample_install)"
  "cb_url_string sample_builder u = ''https://ep:6443''" "cb_patched sample_builder c ps = Some c" "cb_talos sample_builder = sample_config_talos"
  by (simp_all add: sample_builder_def)

lemma sample_provider_fields [simp]:
  "cv_complete (sample_provider n ids)" "cv_encoded (sample_provider n ids) = Some ''e''" "cv_valid (sample_provider n ids)"
  "cv_install (sample_provider n ids) = Some sample_install" "cv_kubelet (sample_provider n ids) = Some (''kubelet'', ids)"
  "cv_redacted (sample_provider n ids) = Some (CHR ''r'' # replicate n (CHR ''x''))" "cv_has_kubelet (sample_provider n ids)"
  by (simp_all add: sample_provider_def)

lemma sample_endpoint: "canonicalEndpoint sample_builder s = (if blank s then Inl BuildContextIncomplete else Inr ''https://ep:6443'')"
  by (simp add: canonicalEndpoint_def sample_builder_def sample_url_def Let_def)

lemma sample_blanks: "\<not> blank ''c1''" "\<not> blank ''ep:6443''" "\<not> blank ''https://ep:6443''" "\<not> blank ''e''" "\<not> blank ''h1''" "\<not> blank ''/dev/sda''"
  "trim_v (trim_space ''v1.35.0'') \<noteq> []"
  by code_simp+

lemma sample_same_identity: "same_identity sample_builder (sample_provider n is) (sample_provider k js)"
  by (auto simp: same_identity_def sample_provider_def sameCertificateAndKey_def componentImages_def
      sameKubernetesPKI_def sameK8sAPIServerCAConfig_def sameK8sAggregatorCAConfig_def same_k8s_ca_def sameK8sServiceAccountConfig_def)

lemma sample_generated:
  assumes "\<forall>p \<in> set patches. \<not> blank p"
  shows "GenerateMachineConfiguration sample_builder (sample_context\<lparr>mcc_hostname := host\<rparr>) patches = Inr ''e''"
proof -
  let ?i = "sample_context\<lparr>mcc_hostname := host\<rparr>"
  have "patch_fault (map (\<lambda>p. \<lparr>cpat_layer = LayerUserRawPatch, cpat_content = p\<rparr>) patches) = None"
    using assms by (auto simp: patch_fault_iff)
  then obtain ordered where o: "OrderPatches (map (\<lambda>p. \<lparr>cpat_layer = LayerUserRawPatch, cpat_content = p\<rparr>) patches) = Inr ordered"
    by (simp add: OrderPatches_def)
  have "\<exists>applied. apply_patches sample_builder b as ps = Some applied" for b as ps
    by (induction ps arbitrary: as) (auto simp: sample_builder_def)
  then obtain applied where a: "apply_patches sample_builder ''e'' [] ordered = Some applied" by blast
  have r: "RenderEffectiveConfiguration sample_builder ''e'' patches = Inr ''e''"
    using sample_blanks o a by (simp add: RenderEffectiveConfiguration_def)
  have b: "generated_base sample_builder ?i (sample_provider 10 []) = Inr ''e''"
  proof -
    have "replaceDocumentByKind sample_builder c k d = Some ''e''" for c k d
      by (simp add: replaceDocumentByKind_def decodeConfigurationDocuments_def encodeConfigurationDocuments_def sample_builder_def)
    then show ?thesis by (simp add: generated_base_def)
  qed
  have x: "diskExpression sample_builder (sample_disk ''S1'' False) = Inr (un_selector sample_install)"
    by (simp add: diskExpression_def DiskSelectorsFor_def split: list.split)
  have "validateInstallDiskConfiguration sample_builder (sample_provider 10 []) (sample_disk ''S1'' False) = None"
    unfolding validateInstallDiskConfiguration_def x equivalentSelectors_def
    using sample_blanks by (simp add: sample_disk_def validateInstallSelector_def) (simp add: sample_install_def)
  then have e: "EnsureInstallDisk sample_builder ''e'' (sample_disk ''S1'' False) = Inr ''e''"
    using sample_blanks by (simp add: EnsureInstallDisk_def HasInstallDiskConfiguration_def validateInstallSelector_def)
       (simp add: sample_install_def)
  have "validateProviderOwnedConfiguration sample_builder (sample_provider 10 []) (sample_provider 10 []) ''c1'' ''https://ep:6443'' MachineRoleWorker"
    using sample_blanks sample_endpoint sample_same_identity
    by (auto simp: validateProviderOwned_iff machine_role_of_def cluster_name_of_def sample_provider_def)
  then have c: "check_rendered sample_builder ?i (sample_provider 10 []) ''https://ep:6443'' MachineRoleWorker ''e'' = Inr ''e''"
    using sample_blanks
    by (simp add: check_rendered_def ValidateMachineConfiguration_def validateClientConfiguration_def sample_context_def)
  show ?thesis
    using sample_blanks r b e c
    by (simp add: GenerateMachineConfiguration_def secretsBundle_def machineType_def Let_def generate_with_def sample_endpoint sample_context_def)
qed

lemma sample_generated_context: "\<forall>p \<in> set patches. \<not> blank p \<Longrightarrow> GenerateMachineConfiguration sample_builder sample_context patches = Inr ''e''"
  using sample_generated[of patches "mcc_hostname sample_context"] by simp

lemma sample_provider_id:
  assumes "\<not> blank pid"
  shows "SetProviderID (builder_talos sample_builder) ''e'' pid = Inr (CHR ''k'' # trim_space pid)"
  using assms sample_blanks by (simp add: SetProviderID_def Let_def talos_view_def sample_config_talos_def)

subsection \<open>Generated configurations\<close>

lemma generated_parts:
  assumes "GenerateMachineConfiguration B input patches = Inr c"
  shows "\<exists>b endpoint base p k u. mcc_secretsBundle input = Some b \<and> canonicalEndpoint B (mcc_controlPlaneEndpoint input) = Inr endpoint \<and>
    cb_generate B (mcc_clusterName input) endpoint (trim_v (trim_space (mcc_kubernetesVersion input))) b (mcc_machineRole input) = Some base \<and>
    cb_load B c = Some p \<and> cv_valid p \<and> same_identity B base p \<and> machine_role_of p = Some (mcc_machineRole input) \<and>
    cv_k8s_cluster p = Some k \<and> kc_clusterName k = mcc_clusterName input \<and> kc_endpoint k = Some u \<and>
    canonicalEndpoint B (cb_url_string B u) = Inr endpoint"
proof (rule GenerateMachineConfiguration_ok[OF assms])
  fix b endpoint base p
  assume g: "mcc_secretsBundle input = Some b" "canonicalEndpoint B (mcc_controlPlaneEndpoint input) = Inr endpoint"
    "cb_generate B (mcc_clusterName input) endpoint (trim_v (trim_space (mcc_kubernetesVersion input))) b (mcc_machineRole input) = Some base"
    "cb_load B c = Some p" "cv_valid p"
    and "validateProviderOwnedConfiguration B base p (mcc_clusterName input) endpoint (mcc_machineRole input)"
  then have "same_identity B base p \<and> machine_role_of p = Some (mcc_machineRole input) \<and>
      (\<exists>k u. cv_k8s_cluster p = Some k \<and> kc_clusterName k = mcc_clusterName input \<and> kc_endpoint k = Some u \<and>
        canonicalEndpoint B (cb_url_string B u) = Inr endpoint)"
    by (auto simp: validateProviderOwned_iff cluster_name_of_def)
  with g show ?thesis by blast
qed

text \<open>C21. Whatever patches the user gives, a generated configuration can be loaded and is valid, and its machine role,
  cluster name and endpoint are those of the context, its PKI, tokens and component images those of the
  configuration the Talos library generated from the cluster's secrets.\<close>

theorem generated_configuration_keeps_provider_parts:
  assumes "GenerateMachineConfiguration B input patches = Inr c"
  shows "\<exists>b endpoint base p k u. mcc_secretsBundle input = Some b \<and> canonicalEndpoint B (mcc_controlPlaneEndpoint input) = Inr endpoint \<and>
    cb_generate B (mcc_clusterName input) endpoint (trim_v (trim_space (mcc_kubernetesVersion input))) b (mcc_machineRole input) = Some base \<and>
    cb_load B c = Some p \<and> cv_valid p \<and> same_identity B base p \<and> machine_role_of p = Some (mcc_machineRole input) \<and>
    cv_k8s_cluster p = Some k \<and> kc_clusterName k = mcc_clusterName input \<and> kc_endpoint k = Some u \<and>
    canonicalEndpoint B (cb_url_string B u) = Inr endpoint"
  by (rule generated_parts[OF assms])

theorem generated_configuration_keeps_provider_parts_witness:
  "\<exists>c base p. GenerateMachineConfiguration sample_builder sample_context [''patch''] = Inr c \<and>
     cb_load sample_builder c = Some p \<and> same_identity sample_builder base p \<and> machine_role_of p = Some MachineRoleWorker"
proof -
  have "\<not> blank ''patch''" by code_simp
  then have g: "GenerateMachineConfiguration sample_builder sample_context [''patch''] = Inr ''e''" by (simp add: sample_generated_context)
  from generated_configuration_keeps_provider_parts[OF g] g show ?thesis by (auto simp: sample_context_def)
qed

text \<open>C28. Two configurations that were generated for the same cluster, role, version and secrets and got the same
  provider ID are never classified as a conflict of provider-owned parts, however their patches, install disks
  and hostnames differ: a change of the patches can be refused as destructive, but not as a conflict.\<close>

theorem user_patches_never_conflict:
  assumes law: "config_edit_law B"
    and gen: "GenerateMachineConfiguration B i ps = Inr r" "GenerateMachineConfiguration B j qs = Inr s"
    and same: "mcc_clusterName i = mcc_clusterName j" "mcc_controlPlaneEndpoint i = mcc_controlPlaneEndpoint j"
      "mcc_kubernetesVersion i = mcc_kubernetesVersion j" "mcc_machineRole i = mcc_machineRole j" "mcc_secretsBundle i = mcc_secretsBundle j"
    and ids: "SetProviderID (builder_talos B) r pid = Inr a" "SetProviderID (builder_talos B) s pid = Inr d"
    and cls: "ClassifyConfigurationChange B a d = Some (cls, reason)"
  shows "cls \<noteq> ChangeInvariantConflict"
proof -
  from generated_parts[OF gen(1)] obtain base p where
    p: "cb_load B r = Some p" "same_identity B base p" "machine_role_of p = Some (mcc_machineRole i)" "cluster_name_of p = Some (mcc_clusterName i)"
    and base: "\<exists>b e. mcc_secretsBundle i = Some b \<and> canonicalEndpoint B (mcc_controlPlaneEndpoint i) = Inr e \<and>
      cb_generate B (mcc_clusterName i) e (trim_v (trim_space (mcc_kubernetesVersion i))) b (mcc_machineRole i) = Some base"
    by (auto simp: cluster_name_of_def)
  from generated_parts[OF gen(2)] base obtain q where
    q: "cb_load B s = Some q" "same_identity B base q" "machine_role_of q = Some (mcc_machineRole i)" "cluster_name_of q = Some (mcc_clusterName i)"
    by (auto simp: cluster_name_of_def same)
  from builder_SetProviderID[OF law ids(1)] p(1) obtain p' where p': "cb_load B a = Some p'" "same_but_kubelet p p'"
    "config_providerID p' = Some (trim_space pid)" "map_option fst (cv_kubelet p') = map_option fst (cv_kubelet p)" by auto
  from builder_SetProviderID[OF law ids(2)] q(1) obtain q' where q': "cb_load B d = Some q'" "same_but_kubelet q q'"
    "config_providerID q' = Some (trim_space pid)" "map_option fst (cv_kubelet q') = map_option fst (cv_kubelet q)" by auto
  have "same_identity B p q" using p(2) q(2) same_identity_equiv by blast
  then have "invariantConflict B p' q' = []"
    using p q p'(3) q'(3) same_identity_edited[OF p'(2,4) q'(2,4), of B]
      same_but_kubelet_keeps(2,4)[OF p'(2)] same_but_kubelet_keeps(2,4)[OF q'(2)]
    by (auto simp: invariantConflict_iff machine_role_of_def cluster_name_of_def)
  moreover obtain p2 q2 where "cb_load B a = Some p2" "cb_load B d = Some q2"
    "cls = ChangeNone \<and> reason = [] \<or> classify_loaded B p2 q2 = Some (cls, reason)"
    by (rule ClassifyConfigurationChange_cases[OF law cls]) blast
  ultimately show ?thesis using p'(1) q'(1) by (auto simp: classify_loaded_def Let_def split: if_splits option.splits)
qed

lemma sample_digest: "cb_load sample_builder c = Some (sample_provider n ids) \<Longrightarrow> \<not> blank c \<Longrightarrow> \<exists>d. DigestEffectiveConfiguration sample_builder c = Inr d"
proof -
  assume l: "cb_load sample_builder c = Some (sample_provider n ids)" "\<not> blank c"
  have "\<not> blank (CHR ''r'' # s)" for s by (rule graphic_nonblank[of "CHR ''r''"]) (simp_all add: graphic_def)
  then show ?thesis
    using l sample_blanks by (simp add: DigestEffectiveConfiguration_def ComputeDigest_def)
qed

lemma sample_normalized: "\<not> blank c \<Longrightarrow> cb_load sample_builder c = Some (sample_provider n ids) \<Longrightarrow> normalizeInstallerImage sample_builder c = Some c"
proof -
  have "\<exists>img. InstallerImage (builder_talos sample_builder) normalizedInstallerVersion normalizedInstallerSchematic = Some img"
  proof -
    have "trim_space ''v0.0.0'' = ''v0.0.0''" "trim_space ''normalized'' = ''normalized''" by code_simp+
    moreover have "list_all schematic_character ''normalized''" by code_simp
    ultimately show ?thesis
      by (simp add: InstallerImage_def normalizedInstallerVersion_def normalizedInstallerSchematic_def sample_config_talos_def sample_talos_def)
  qed
  then show "\<not> blank c \<Longrightarrow> cb_load sample_builder c = Some (sample_provider n ids) \<Longrightarrow> normalizeInstallerImage sample_builder c = Some c"
    by (auto simp: normalizeInstallerImage_def SetInstallerImage_def talos_view_def) (simp add: sample_config_talos_def)
qed

lemma sample_classified:
  assumes "cb_load sample_builder a = Some (sample_provider n is)" "\<not> blank a" "cb_load sample_builder d = Some (sample_provider k js)" "\<not> blank d"
  shows "\<exists>cls reason. ClassifyConfigurationChange sample_builder a d = Some (cls, reason)"
proof -
  have "\<exists>cls reason. classify_loaded sample_builder (sample_provider n is) (sample_provider k js) = Some (cls, reason)"
    by (simp add: classify_loaded_def Let_def) (simp add: sample_provider_def)
  moreover obtain x y where "DigestEffectiveConfiguration sample_builder a = Inr x" "DigestEffectiveConfiguration sample_builder d = Inr y"
    using sample_digest assms by blast
  ultimately show ?thesis
    using assms by (simp add: ClassifyConfigurationChange_def sample_normalized)
qed

theorem user_patches_never_conflict_witness:
  "\<exists>cls reason. ClassifyConfigurationChange sample_builder ''ktart://h'' ''ktart://h'' = Some (cls, reason) \<and> cls \<noteq> ChangeInvariantConflict"
proof -
  have n: "\<not> blank ''patch''" "\<not> blank ''tart://h''" "trim_space ''tart://h'' = ''tart://h''" by code_simp+
  then have g: "GenerateMachineConfiguration sample_builder sample_context [''patch''] = Inr ''e''"
    "GenerateMachineConfiguration sample_builder sample_context [] = Inr ''e''" by (simp_all add: sample_generated_context)
  from n have i: "SetProviderID (builder_talos sample_builder) ''e'' ''tart://h'' = Inr ''ktart://h''"
    using sample_provider_id[of "''tart://h''"] by simp
  have "\<not> blank ''ktart://h''" by code_simp
  then obtain cls reason where "ClassifyConfigurationChange sample_builder ''ktart://h'' ''ktart://h'' = Some (cls, reason)"
    using sample_classified[of "''ktart://h''" 10 "[''tart://h'']" "''ktart://h''" 10 "[''tart://h'']"] by auto
  with user_patches_never_conflict[OF sample_builder_laws(1) g refl refl refl refl refl i i] show ?thesis by blast
qed

text \<open>What an update in place keeps.\<close>

definition change_preserves :: "'b config_lib \<Rightarrow> config_provider \<Rightarrow> config_provider \<Rightarrow> bool" where
  "change_preserves B p q \<longleftrightarrow>
     same_identity B p q \<and> machine_role_of p = machine_role_of q \<and> cluster_name_of p = cluster_name_of q \<and>
     config_providerID p = config_providerID q \<and> install_kept p q \<and>
     (\<forall>k a. map_of (indexNamedDocuments p storageDocumentKinds) k = Some a \<longrightarrow>
        (\<exists>d. map_of (indexNamedDocuments q storageDocumentKinds) k = Some d \<and> data_kept (doc_body a) (doc_body d)))"

text \<open>C20. A change gets no apply mode, whatever the strategy, when the desired configuration changes the identity of
  the node (PKI, tokens, machine role, cluster name, component images, provider ID), changes the install target, or
  does not keep a storage document of the active one: it is missing, has another disk selector or LVM layout, or a
  size that shrinks. (Storage that is added or grows and another endpoint do get a mode.)\<close>

theorem destructive_change_never_applied:
  assumes laws: "config_edit_law B" "map_order_law B"
    and load: "cb_load B active = Some p" "cb_load B desired = Some q" and not: "\<not> change_preserves B p q"
    and dec: "Evaluate (ClassifyConfigurationChange B) strategy active desired = Inr decision"
  shows "dec_applyMode decision = ApplyModeUnset"
proof (rule ccontr)
  assume applied: "dec_applyMode decision \<noteq> ApplyModeUnset"
  from dec obtain cls reason where c: "ClassifyConfigurationChange B active desired = Some (cls, reason)"
    "Decide cls reason strategy = Inr decision"
    by (auto simp: Evaluate_def split: option.splits)
  with applied have cls: "cls = ChangeUpdatable \<or> cls = ChangeControlPlaneEndpoint"
    using Decide_applies_iff[of cls reason strategy "dec_applyMode decision"] by auto
  obtain p2 q2 where "cb_load B active = Some p2" "cb_load B desired = Some q2"
    "cls = ChangeNone \<and> reason = [] \<or> classify_loaded B p2 q2 = Some (cls, reason)"
    by (rule ClassifyConfigurationChange_cases[OF laws(1) c(1)]) blast
  with load cls have "classify_loaded B p q = Some (cls, reason)" by auto
  from classify_loaded_keeps[OF this cls] have "change_preserves B p q"
    by (auto simp: change_preserves_def invariantConflict_iff destructiveChange_iff dest: destructiveStorage_kept[OF laws(2)])
  with not show False ..
qed

theorem destructive_change_never_applied_witness:
  "\<exists>decision. Evaluate (ClassifyConfigurationChange sample_builder) ConfigurationApplyStrategyStagedReboot ''kx'' ''sx'' = Inr decision \<and>
     dec_applyMode decision = ApplyModeUnset"
proof -
  have b: "\<not> blank ''kx''" "\<not> blank ''sx''" by code_simp+
  have not: "\<not> change_preserves sample_builder (sample_provider 10 [''x'']) (sample_provider 5 [''x''])"
    by (simp add: change_preserves_def sample_provider_def indexNamedDocuments_def sample_volume_def storageDocumentKinds_def
        VolumeConfigKind_def document_key_def size_kept_def)
  from b obtain cls reason where c: "ClassifyConfigurationChange sample_builder ''kx'' ''sx'' = Some (cls, reason)"
    using sample_classified[of "''kx''" 10 "[''x'']" "''sx''" 5 "[''x'']"] by auto
  then have "\<not> (\<exists>s. cls = ChangeClassOther s)"
    by (auto simp: ClassifyConfigurationChange_def classify_loaded_def Let_def split: option.splits sum.splits if_splits)
  with c obtain decision where "Evaluate (ClassifyConfigurationChange sample_builder) ConfigurationApplyStrategyStagedReboot ''kx'' ''sx'' = Inr decision"
    by (cases cls) (auto simp: Evaluate_def Decide_def ResolveApplyMode_def)
  with destructive_change_never_applied[OF sample_builder_laws(1,3) _ _ not this] show ?thesis by auto
qed

text \<open>The clauses that say which disk to install on, each with its CEL text and its meaning: writable,
  of the size of the chosen disk, and with its first stable name.\<close>

datatype disk_clause =
    ClauseWritable | ClauseSize "64 word" | ClauseWwid string | ClauseSerial string | ClauseBusPath string
  | ClauseModel string | ClauseRotational bool

fun clause_text :: "disk_clause \<Rightarrow> string" where
  "clause_text ClauseWritable = ''!disk.readonly''"
| "clause_text (ClauseSize n) = ''disk.size == '' @ format_uint (unat n) @ ''u''"
| "clause_text (ClauseWwid s) = ''disk.wwid == '' @ go_quote s"
| "clause_text (ClauseSerial s) = ''disk.serial == '' @ go_quote s"
| "clause_text (ClauseBusPath s) = ''disk.bus_path == '' @ go_quote s"
| "clause_text (ClauseModel s) = ''disk.model == '' @ go_quote s"
| "clause_text (ClauseRotational b) = (if b then ''disk.rotational'' else ''!disk.rotational'')"

fun clause_holds :: "disk_clause \<Rightarrow> DiskIdentity \<Rightarrow> bool" where
  "clause_holds ClauseWritable d \<longleftrightarrow> \<not> di_readOnly d"
| "clause_holds (ClauseSize n) d \<longleftrightarrow> di_sizeBytes d = n"
| "clause_holds (ClauseWwid s) d \<longleftrightarrow> di_wwid d = s"
| "clause_holds (ClauseSerial s) d \<longleftrightarrow> di_serial d = s"
| "clause_holds (ClauseBusPath s) d \<longleftrightarrow> di_busPath d = s"
| "clause_holds (ClauseModel s) d \<longleftrightarrow> di_model d = s"
| "clause_holds (ClauseRotational b) d \<longleftrightarrow> di_rotational d = b"

definition identifying_clauses :: "DiskIdentity \<Rightarrow> disk_clause list" where
  "identifying_clauses d =
     (let model = (if blank (di_model d) then [] else [ClauseModel (di_model d)])
      in [ClauseWritable, ClauseSize (di_sizeBytes d)] @
         (if \<not> blank (di_wwid d) then [ClauseWwid (di_wwid d)]
          else if \<not> blank (di_serial d) then ClauseSerial (di_serial d) # model
          else if \<not> blank (di_busPath d) then ClauseBusPath (di_busPath d) # model
          else model @ [ClauseRotational (di_rotational d)]))"

lemma first_selector_clauses:
  assumes "DiskSelectorsFor d = s # ss"
  shows "dsel_expression s = join '' && '' (map clause_text (identifying_clauses d)) \<and>
    (dsel_matches s y \<longleftrightarrow> (\<forall>c \<in> set (identifying_clauses d). clause_holds c y))"
  using assms
  by (auto simp: DiskSelectorsFor_def wwid_selectors_def serial_selectors_def bus_path_selectors_def general_selector_def mk_selector_def
      with_model_def base_matches_def base_expression_def identifying_clauses_def Let_def split: if_splits)

text \<open>C26. When a disk was selected, the generated configuration installs on it: its install target does not wipe and
  its selector is, or says the same as, the conjunction of the clauses \<open>writable\<close>, the disk's size and its first
  stable name (WWID, else serial number, else bus path, the latter two with the model; else model and kind).
  Of the disks of the host only the selected one satisfies all these clauses, when all of them have a path and a size.\<close>

theorem install_target_is_selected_disk:
  assumes law: "install_patch_law B" and gen: "GenerateMachineConfiguration B input patches = Inr c"
    and disk: "mcc_installDisk input = Some d" "SelectDisk disks = Inr d"
      "\<forall>x \<in> set disks. \<not> blank (di_devicePath x) \<and> di_sizeBytes x \<noteq> 0"
  shows "\<exists>p s x. cb_load B c = Some p \<and> cv_install p = Some s \<and> \<not> un_wipe s \<and>
    cb_parse_cel B (join '' && '' (map clause_text (identifying_clauses d))) = Some x \<and> selects_like B (un_selector s) x \<and>
    {y \<in> set disks. \<forall>cl \<in> set (identifying_clauses d). clause_holds cl y} = {d}"
proof (rule GenerateMachineConfiguration_ok[OF gen])
  fix endpoint base
  assume "generate_with B input base endpoint (mcc_machineRole input) patches = Inr c"
  then obtain configuration where "EnsureInstallDisk B configuration d = Inr c"
    by (auto simp: generate_with_def disk(1) check_rendered_def split: sum.splits option.splits if_splits)
  from EnsureInstallDisk_ok[OF law this] obtain p s x where s: "cb_load B c = Some p" "cv_install p = Some s" "\<not> un_wipe s"
    "diskExpression B d = Inr x" "selects_like B (un_selector s) x" by blast
  from diskExpression_first[OF s(4)] obtain sel ss where sel: "DiskSelectorsFor d = sel # ss" "cb_parse_cel B (dsel_expression sel) = Some x" by blast
  note clauses = first_selector_clauses[OF sel(1)]
  have "d \<in> set disks" using SelectDisk_ok(1)[OF disk(2)] by (auto simp: filter_eq_Cons_iff)
  with first_selector_alone[OF disk(2,3) sel(1)] clauses
  have "{y \<in> set disks. \<forall>cl \<in> set (identifying_clauses d). clause_holds cl y} = {d}" by auto
  with s sel(2) clauses show ?thesis by auto
qed

theorem install_target_is_selected_disk_witness:
  "\<exists>c p s. GenerateMachineConfiguration sample_builder sample_context [] = Inr c \<and> cb_load sample_builder c = Some p \<and>
     cv_install p = Some s \<and> \<not> un_wipe s"
proof -
  have g: "GenerateMachineConfiguration sample_builder sample_context [] = Inr ''e''" by (simp add: sample_generated_context)
  have d: "mcc_installDisk sample_context = Some (sample_disk ''S1'' False)" by (simp add: sample_context_def)
  have "\<not> blank ''/dev/sda''" "\<not> blank ''S1''" by code_simp+
  then have s: "SelectDisk [sample_disk ''S1'' False, sample_disk ''S2'' True] = Inr (sample_disk ''S1'' False)"
    "\<forall>x \<in> set [sample_disk ''S1'' False, sample_disk ''S2'' True]. \<not> blank (di_devicePath x) \<and> di_sizeBytes x \<noteq> 0"
    by (simp_all add: SelectDisk_def installable_def sample_disk_def UniqueDiskSelector_def DiskSelectorsFor_def serial_selectors_def
        wwid_selectors_def bus_path_selectors_def mk_selector_def with_model_def base_matches_def)
  from install_target_is_selected_disk[OF sample_builder_laws(2) g d s] g show ?thesis by auto
qed

subsection \<open>Bootstrap Secrets\<close>

lemma found_or_found [simp]: "found_or e (Inr x) = Inr x"
  by (simp add: found_or_def)

text \<open>C19. A pass that creates a bootstrap Secret, or reports a configuration as ready, has rendered it for the host that
  the machine's TartMachine claims (with the claim's UID, a known inventory, no identity conflict among the hosts):
  it is what the builder renders from the user's patches for the cluster, version and role of the Cluster API machine,
  the active secret bundle of the cluster, the name of that host and the disk selected from its inventory, with the
  provider ID of that TartMachine. A created Secret is immutable and lies in the namespace of the TartBootstrapConfig
  under the name that carries the digest of the configuration; a Secret that is kept was found under that name and is
  one the TartMachine reconciler accepts; the status names it only when it exists.\<close>

theorem bootstrap_secret_only_for_claimed_host:
  assumes laws: "conditions_law L" "config_edit_law (be_builder E)" and read: "be_get_config E tr ns n = Inr config"
    and run: "run_state (Reconcile_TartBootstrapConfig L E ns n) tr = (r, tr @ new)"
    and event: "BootstrapSecretCreate s \<in> set new \<or> BootstrapStatusPatch c \<in> set new \<and> config_is_ready L c"
  shows "\<exists>pm host ctx patches rendered configuration q digest secret config'. claimed_host_of L E tr config pm host \<and>
    context_of_host L E tr config host ctx \<and> patches_of E tr config patches \<and>
    RenderFromPatches (be_builder E) ctx patches = Inr rendered \<and>
    SetProviderID (builder_talos (be_builder E)) rendered (ProviderID_String (ms_providerID (m_spec pm))) = Inr configuration \<and>
    cb_load (be_builder E) configuration = Some q \<and>
    config_providerID q = Some (trim_space (ProviderID_String (ms_providerID (m_spec pm)))) \<and>
    DigestEffectiveConfiguration (be_builder E) configuration = Inr digest \<and> config_secret E config configuration secret \<and>
    ready_status L config digest secret config' \<and>
    ((new = [BootstrapSecretCreate secret] \<or>
      new = [BootstrapSecretCreate secret, BootstrapStatusPatch config'] \<and> be_write E tr (BootstrapSecretCreate secret) = None) \<and>
       sec_name secret = bootstrapSecretName (mt_name (bc_meta config)) digest \<and>
       sec_namespace secret = mt_namespace (bc_meta config) \<and> sec_immutable secret = Some True \<or>
     new = [BootstrapStatusPatch config'] \<and>
       be_get_secret E tr (mt_namespace (bc_meta config)) (bootstrapSecretName (mt_name (bc_meta config)) digest) = Inr secret)"
proof -
  have more: "\<not> only_reported L config new" using event by (auto simp: only_reported_def)
  with Reconcile_config_run[OF laws(1) read run] obtain k digest input where
    k: "configurationInput E tr config = Got input" "bootstrap_configuration L E tr config input = Inr k"
    "DigestEffectiveConfiguration (be_builder E) k = Inr digest"
    "run_state (keep_configuration L E config k digest) tr = (r, tr @ new)"
    by (auto simp: rendered_configuration_def)
  obtain ctx patches rendered pm host where h: "claimed_host_of L E tr config pm host" "context_of_host L E tr config host ctx"
    "patches_of E tr config patches" "RenderFromPatches (be_builder E) ctx patches = Inr rendered"
    "SetProviderID (builder_talos (be_builder E)) rendered (ProviderID_String (ms_providerID (m_spec pm))) = Inr k"
    by (rule bootstrap_configuration_ok[OF k(1,2)])
  obtain q where q: "cb_load (be_builder E) k = Some q" "config_providerID q = Some (trim_space (ProviderID_String (ms_providerID (m_spec pm))))"
    by (rule builder_SetProviderID[OF laws(2) h(5)])
  have ready: "\<exists>c'. ready_status L config digest x c'" for x
    using set_config_ready_status[OF laws(1)] unfolding ready_status_def
    by (intro exI[of _ "set_config_ready L 0 ConditionTrue [] [] (config\<lparr>bc_status := (bc_status config)\<lparr>bcst_dataSecretCreated := Some True,
          bcst_dataSecretName := sec_name x, bcst_configurationDigest := digest\<rparr>\<rparr>)"]) simp
  from keep_configuration_run[OF laws(1) k(4)] more obtain x where x: "config_secret E config k x"
    "new_secret config k digest x \<and> new = [BootstrapSecretCreate x] \<or>
        (\<exists>config'. ready_status L config digest x config' \<and>
           (new_secret config k digest x \<and> new = [BootstrapSecretCreate x, BootstrapStatusPatch config'] \<and>
              be_write E tr (BootstrapSecretCreate x) = None \<or>
            new = [BootstrapStatusPatch config'] \<and>
              be_get_secret E tr (mt_namespace (bc_meta config)) (bootstrapSecretName (mt_name (bc_meta config)) digest) = Inr x))"
    by blast
  have fields: "new_secret config k digest x \<Longrightarrow> sec_name x = bootstrapSecretName (mt_name (bc_meta config)) digest \<and>
      sec_namespace x = mt_namespace (bc_meta config) \<and> sec_immutable x = Some True"
    by (auto simp: new_secret_def BuildBootstrapSecret_def split: if_splits)
  show ?thesis
    by (rule exI[of _ pm], rule exI[of _ host], rule exI[of _ ctx], rule exI[of _ patches], rule exI[of _ rendered], rule exI[of _ k])
       (use h q k(3) x ready[of x] fields in blast)
qed

text \<open>A world in which the configuration \<open>b1\<close> of the machine \<open>m1\<close> can be rendered: its TartMachine has claimed \<open>h1\<close>.\<close>

definition sample_boot_config :: TartBootstrapConfig where
  "sample_boot_config =
     sample_bootstrap_config\<lparr>bc_meta := (sample_meta ''b1'')\<lparr>mt_namespace := ''default'', mt_labels := [(ClusterNameLabel, ''c1'')]\<rparr>,
       bc_spec := (bc_spec sample_bootstrap_config)\<lparr>bcs_configPatchesSecretRef := None\<rparr>\<rparr>"

definition sample_boot_machine :: TartMachine where
  "sample_boot_machine =
     sample_machine\<lparr>m_meta := (m_meta sample_machine)\<lparr>mt_owners := [\<lparr>own_apiVersion = ''cluster.x-k8s.io/v1beta2'',
         own_kind = CAPIMachineKind, own_name = ''m1'', own_uid = ''uid-m1'', own_controller = Some True\<rparr>]\<rparr>,
       m_status := (m_status sample_machine)\<lparr>mst_hostRef := Some ''h1''\<rparr>\<rparr>"

definition sample_boot_host :: TartHost where
  "sample_boot_host =
     (sample_host ''h1'' 5)\<lparr>h_spec := (sample_spec 5)\<lparr>hs_consumerRef := Some (machine_consumer sample_machine)\<rparr>,
       h_status := sample_host_status\<lparr>hst_inventory := Some \<lparr>inv_bootID = [], inv_systemUUID = [], inv_architecture = [],
         inv_disks = [\<lparr>disk_sizeBytes = 100, disk_devicePath = ''/dev/sda'', disk_model = [], disk_serial = ''S1'', disk_wwid = [],
           disk_busPath = [], disk_transport = [], disk_rotational = False, disk_readOnly = False, disk_symlinks = [], disk_stableSelector = []\<rparr>],
         inv_networkInterfaces = []\<rparr>\<rparr>\<rparr>"

definition sample_boot_world :: bc_env where
  "sample_boot_world =
     \<lparr>be_now = (\<lambda>_. 1000), be_get_config = (\<lambda>_ _ _. Inr sample_boot_config),
      be_get_secret = (\<lambda>_ _ n. if take 2 n = ''b1'' then Inl ApiNotFound else Inr sample_bundle_secret),
      be_get_capi_machine = (\<lambda>_ _ _. Inr sample_capi), be_list_capi_machines = (\<lambda>_ _. Inr [sample_capi]),
      be_get_cluster = (\<lambda>_ _ _. Inr sample_cluster), be_get_tart_cluster = (\<lambda>_ _ _. Inr sample_tart),
      be_get_tart_machine = (\<lambda>_ _ _. Inr sample_boot_machine), be_get_host = (\<lambda>_ _. Inr sample_boot_host),
      be_list_hosts = (\<lambda>_. Inr [sample_boot_host]), be_list_configs = (\<lambda>_. Inr [sample_boot_config]), be_write = (\<lambda>_ _. None),
      be_bundles = sample_bundles, be_builder = sample_builder,
      be_endpoint_valid = (\<lambda>_ _. True), be_endpoint_string = (\<lambda>_ _. ''ep:6443'')\<rparr>"

lemma sample_boot_fields [simp]:
  "be_builder sample_boot_world = sample_builder" "be_get_config sample_boot_world tr ns n = Inr sample_boot_config"
  "mt_name (bc_meta sample_boot_config) = ''b1''" "mt_namespace (bc_meta sample_boot_config) = ''default''"
  "mt_labels (bc_meta sample_boot_config) = [(ClusterNameLabel, ''c1'')]" "mt_uid (bc_meta sample_boot_config) = ''uid-b1''"
  "bcs_configPatchesSecretRef (bc_spec sample_boot_config) = None" "be_write sample_boot_world tr e = None"
  "be_get_cluster sample_boot_world tr ns n = Inr sample_cluster" "be_get_tart_cluster sample_boot_world tr ns n = Inr sample_tart"
  "be_get_tart_machine sample_boot_world tr ns n = Inr sample_boot_machine" "be_get_host sample_boot_world tr n = Inr sample_boot_host"
  "be_list_hosts sample_boot_world tr = Inr [sample_boot_host]" "be_bundles sample_boot_world = sample_bundles"
  "be_list_capi_machines sample_boot_world tr ns = Inr [sample_capi]" "be_endpoint_valid sample_boot_world h p"
  "be_endpoint_string sample_boot_world h p = ''ep:6443''"
  "take 2 n \<noteq> ''b1'' \<Longrightarrow> be_get_secret sample_boot_world tr ns n = Inr sample_bundle_secret"
  by (simp_all add: sample_boot_world_def sample_boot_config_def sample_meta_def)

lemma sample_boot_bundle: "active_bundle sample_lib sample_boot_world tr sample_tart = Inr (sample_full_bundle ''1'')"
proof -
  obtain n where n: "BundleName sample_lib ''t1'' sample_cluster_id 1 = Inr n" "take 2 n \<noteq> ''b1''"
    by (simp add: BundleName_def sample_cluster_id_nonzero sample_lib_def Let_def)
  then show ?thesis
    using sample_bundle_valid sample_cluster_id_nonzero
    by (simp add: active_bundle_def Let_def sample_tart_def sample_bundle_data sample_meta_def DecodeBundleData_def BundleDataKey_def)
      (simp add: sample_bundles_def sample_full_bundle_def)
qed

lemma sample_boot_machine_found: "machine_of_config sample_lib sample_boot_world tr sample_boot_config = Inr sample_capi"
  by (simp add: machine_of_config_def FindCAPIMachineForBootstrap_def findCAPIMachine_def sample_boot_config_def Let_def
      sample_meta_def refers_to_bootstrap_def sample_capi_def)

lemma sample_boot_disks:
  "hostAndDisksForMachine sample_lib sample_boot_world tr sample_capi = Inr (''h1'', [sample_disk ''S1'' False])"
proof -
  have "ValidateProviderOwner (m_meta sample_boot_machine) (cm_meta sample_capi) (lib_capi_group_version sample_lib) CAPIMachineKind = None"
    by code_simp
  moreover have "claimed_by sample_boot_machine sample_boot_host" by code_simp
  moreover have "\<not> HasIdentityConflictForAny [sample_boot_host]" by code_simp
  moreover have "mst_hostRef (m_status sample_boot_machine) = Some ''h1''" by (simp add: sample_boot_machine_def)
  moreover have "\<not> not_a_tart_machine (cm_infrastructureRef sample_capi)" by code_simp
  moreover obtain i where "hst_inventory (h_status sample_boot_host) = Some i" "inv_disks i \<noteq> []"
    "usable_disks (inv_disks i) = [sample_disk ''S1'' False]"
    by (simp add: sample_boot_host_def usable_disks_def disk_identity_def sample_disk_def)
  moreover have "h_name sample_boot_host = ''h1''" by (simp add: sample_boot_host_def sample_host_def sample_meta_def)
  ultimately show ?thesis by (simp add: hostAndDisksForMachine_def host_disks_def Let_def)
qed

lemma sample_boot_rendered:
  "bootstrap_configuration sample_lib sample_boot_world tr sample_boot_config None = Inr (CHR ''k'' # ''tart://h'')"
proof -
  have "\<not> blank ''/dev/sda''" "\<not> blank ''S1''" by code_simp+
  then have d: "SelectDisk [sample_disk ''S1'' False] = Inr (sample_disk ''S1'' False)"
    by (simp add: SelectDisk_def installable_def sample_disk_def UniqueDiskSelector_def DiskSelectorsFor_def serial_selectors_def
        wwid_selectors_def bus_path_selectors_def mk_selector_def with_model_def base_matches_def)
  have c: "config_cluster sample_boot_world tr sample_boot_config sample_capi = Inr (sample_cluster, sample_tart)"
    using sample_cluster_id_nonzero
    by (simp add: config_cluster_def Let_def sample_cluster_def sample_tart_def sample_capi_def)
  have x: "machineConfigurationContext sample_lib sample_boot_world tr sample_boot_config = Inr sample_context"
    by (simp add: machineConfigurationContext_def sample_boot_machine_found sample_boot_disks c sample_boot_bundle d)
       (simp add: sample_context_def sample_cluster_def sample_capi_def sample_meta_def sample_lib_def k8s_reference_def)
  have p: "providerIDForBootstrapMachine sample_lib sample_boot_world tr sample_boot_config = Inr ''tart://h''"
    by (simp add: providerIDForBootstrapMachine_def sample_boot_machine_found Let_def)
       (simp add: sample_boot_machine_def sample_machine_def sample_capi_def not_a_tart_machine_def, code_simp)
  have t: "\<not> blank ''tart://h''" "trim_space ''tart://h'' = ''tart://h''" by code_simp+
  have "RenderFromPatches sample_builder sample_context [] = Inr ''e''"
    by (simp add: RenderFromPatches_def sample_generated_context)
  with x p t sample_provider_id[OF t(1)] show ?thesis
    by (simp add: bootstrap_configuration_def configurationFromPatches_def)
qed

text \<open>What the pass asks for.\<close>

lemma sample_boot_pass:
  "\<exists>s c. run_state (Reconcile_TartBootstrapConfig sample_lib sample_boot_world ''default'' ''b1'') [] =
     ((0, None), [] @ [BootstrapSecretCreate s, BootstrapStatusPatch c])"
proof -
  let ?c = "CHR ''k'' # ''tart://h''"
  have nb: "\<not> blank ?c" by code_simp
  obtain d where d: "DigestEffectiveConfiguration sample_builder ?c = Inr d" using sample_digest[OF _ nb] by auto
  have name: "take 2 (bootstrapSecretName ''b1'' d) = ''b1''" "bootstrapSecretName ''b1'' d \<noteq> []"
    by (auto simp: bootstrapSecretName_def Let_def)
  then have missing: "be_get_secret sample_boot_world tr ns (bootstrapSecretName ''b1'' d) = Inl ApiNotFound" for tr ns
    by (simp add: sample_boot_world_def)
  obtain x where x: "BuildBootstrapSecret ''default'' (bootstrapSecretName ''b1'' d) ''c1'' (config_owner sample_boot_config) ?c = Inr x"
    using nb name(2) by (simp add: BuildBootstrapSecret_def config_owner_def bootstrap_group_version_def TartBootstrapConfigKind_def)
  have p: "\<not> IsPaused sample_lib (bc_meta sample_boot_config)" by code_simp
  have i: "configurationInput sample_boot_world tr sample_boot_config = Got None" for tr by (simp add: configurationInput_def)
  have "run_state (keep_configuration sample_lib sample_boot_world sample_boot_config ?c d) [] =
      ((0, None), [BootstrapSecretCreate x, BootstrapStatusPatch (set_config_ready sample_lib 1000 ConditionTrue ''DataSecretCreated'' ''The immutable Bootstrap Secret is available.''
        (sample_boot_config\<lparr>bc_status := (bc_status sample_boot_config)\<lparr>bcst_dataSecretCreated := Some True, bcst_dataSecretName := sec_name x,
          bcst_configurationDigest := d\<rparr>\<rparr>))])"
    using x missing by (simp add: keep_configuration_def Let_def ensureBootstrapSecret_def markReady_def) (simp add: sample_boot_world_def)
  then show ?thesis using p d sample_boot_rendered by (simp add: Reconcile_TartBootstrapConfig_def i render_and_keep_def)
qed

theorem bootstrap_secret_only_for_claimed_host_witness:
  "\<exists>pm host configuration secret. claimed_host_of sample_lib sample_boot_world [] sample_boot_config pm host \<and>
     config_secret sample_boot_world sample_boot_config configuration secret"
proof -
  obtain s c where run: "run_state (Reconcile_TartBootstrapConfig sample_lib sample_boot_world ''default'' ''b1'') [] =
     ((0, None), [] @ [BootstrapSecretCreate s, BootstrapStatusPatch c])" using sample_boot_pass by blast
  have laws: "conditions_law sample_lib" "config_edit_law (be_builder sample_boot_world)"
    "be_get_config sample_boot_world [] ''default'' ''b1'' = Inr sample_boot_config"
    using sample_conditions_law sample_builder_laws(1) by simp_all
  from bootstrap_secret_only_for_claimed_host[OF laws run, of s] show ?thesis by auto
qed

subsection \<open>The hand-off to the TartMachine reconciler\<close>

text \<open>C27. Once the bootstrap Secret is kept and the status names it, the TartMachine reconciler of the same provider ID
  works with the text that was rendered: what it gets is the outcome of setting the provider ID again, which is
  never a conflict, and a configuration it gets differs from the rendered one in the kubelet's part at most, with
  the same provider ID.\<close>

theorem machine_gets_rendered_configuration:
  assumes law: "config_edit_law B" and lib: "te_talos T = builder_talos B"
    and made: "SetProviderID (builder_talos B) rendered (ProviderID_String (ms_providerID (m_spec machine))) = Inr c" "\<not> blank c"
    and kept: "config_secret E config c s" "ready_status L config digest s config'" "\<not> blank (sec_name s)"
    and sees: "fst (run_state (find_capi_machine L T machine) tr) = Inr m"
      "cm_configRef m = \<lparr>cr_apiGroup = bootstrap_group, cr_kind = TartBootstrapConfigKind, cr_name = n\<rparr>" "n \<noteq> []"
      "te_get_bootstrap_config T tr (mt_namespace (m_meta machine)) n = Inr config'"
      "te_get_secret T tr (mt_namespace (m_meta machine)) (sec_name s) = Inr s"
    and pid: "\<not> ProviderID_IsZero (ms_providerID (m_spec machine))"
  shows "run_state (BootstrapConfiguration L T machine) tr =
       (case SetProviderID (te_talos T) c (ProviderID_String (ms_providerID (m_spec machine))) of
          Inl _ \<Rightarrow> Inl (BootOther ReconBootstrapConfiguration) | Inr c' \<Rightarrow> Inr c', tr) \<and>
     SetProviderID (te_talos T) c (ProviderID_String (ms_providerID (m_spec machine))) \<noteq> Inl ErrProviderIDConflict \<and>
     (\<forall>c'. run_state (BootstrapConfiguration L T machine) tr = (Inr c', tr) \<longrightarrow>
        (\<exists>p q. cb_load B c = Some p \<and> cb_load B c' = Some q \<and> same_but_kubelet p q \<and>
           config_providerID q = config_providerID p \<and> config_providerID q = Some (trim_space (ProviderID_String (ms_providerID (m_spec machine))))))"
proof -
  let ?id = "ProviderID_String (ms_providerID (m_spec machine))"
  obtain p0 p where p: "cb_load B c = Some p" "config_providerID p = Some (trim_space ?id)"
    by (rule builder_SetProviderID[OF law made(1)])
  have status: "bcst_dataSecretName (bc_status config') = sec_name s" "bc_meta config' = bc_meta config"
    using kept(2) by (simp_all add: ready_status_def)
  have secret: "IsContractSecret (Some s) (map_get (mt_labels (bc_meta config)) ClusterNameLabel) (mt_uid (bc_meta config))"
    "map_get (sec_data s) BootstrapSecretKey = c"
    using kept(1) by (simp_all add: config_secret_def)
  moreover have "c \<noteq> []" using made(2) by auto
  ultimately have data: "map_of (sec_data s) BootstrapSecretKey = Some c"
    by (auto simp: map_get_def split: option.splits)
  have read: "run_state (find_capi_machine L T machine) tr = (Inr m, tr)" using sees(1) by (simp add: find_capi_machine_def)
  have run: "run_state (BootstrapConfiguration L T machine) tr =
      (case SetProviderID (te_talos T) c ?id of Inl _ \<Rightarrow> Inl (BootOther ReconBootstrapConfiguration) | Inr c' \<Rightarrow> Inr c', tr)"
    using status secret data made(2) kept(3) sees(2-5) pid
    by (simp add: BootstrapConfiguration_def read Let_def split: sum.split)
  have "SetProviderID (builder_talos B) c ?id \<noteq> Inl ErrProviderIDConflict"
    using p by (auto simp: SetProviderID_def Let_def talos_view_def config_providerID_def split: option.splits if_splits list.splits)
  moreover have "\<exists>p q. cb_load B c = Some p \<and> cb_load B c' = Some q \<and> same_but_kubelet p q \<and> config_providerID q = config_providerID p \<and>
      config_providerID q = Some (trim_space ?id)"
    if "SetProviderID (builder_talos B) c ?id = Inr c'" for c'
    by (rule builder_SetProviderID[OF law that]) (use p in auto)
  ultimately show ?thesis
    using run by (cases "SetProviderID (builder_talos B) c ?id") (auto simp: lib)
qed

definition sample_boot_secret :: Secret where
  "sample_boot_secret = sample_kc_secret\<lparr>sec_name := ''data'', sec_data := [(BootstrapSecretKey, CHR ''k'' # ''tart://h'')]\<rparr>"

definition sample_boot_ready :: TartBootstrapConfig where
  "sample_boot_ready = set_config_ready sample_lib 1000 ConditionTrue [] []
     (sample_boot_config\<lparr>bc_status := (bc_status sample_boot_config)\<lparr>bcst_dataSecretCreated := Some True, bcst_dataSecretName := ''data'',
        bcst_configurationDigest := ''d''\<rparr>\<rparr>)"

definition sample_boot_tm :: tm_env where
  "sample_boot_tm = sample_tm\<lparr>te_talos := builder_talos sample_builder, te_get_bootstrap_config := \<lambda>_ _ _. Inr sample_boot_ready,
     te_get_secret := \<lambda>_ _ _. Inr sample_boot_secret\<rparr>"

theorem machine_gets_rendered_configuration_witness:
  "run_state (BootstrapConfiguration sample_lib sample_boot_tm sample_machine) [] =
     (case SetProviderID (te_talos sample_boot_tm) (CHR ''k'' # ''tart://h'') ''tart://h'' of
        Inl _ \<Rightarrow> Inl (BootOther ReconBootstrapConfiguration) | Inr c' \<Rightarrow> Inr c', [])"
proof -
  let ?c = "CHR ''k'' # ''tart://h''" and ?id = "ProviderID_String (ms_providerID (m_spec sample_machine))"
  have b: "\<not> blank ?c" "\<not> blank ''data''" "\<not> blank ''tart://h''" "trim_space ''tart://h'' = ''tart://h''" by code_simp+
  have id: "?id = ''tart://h''" "\<not> ProviderID_IsZero (ms_providerID (m_spec sample_machine))" by code_simp+
  have made: "SetProviderID (builder_talos sample_builder) ''e'' ?id = Inr ?c" using sample_provider_id[OF b(3)] b(4) id(1) by simp
  have kept: "config_secret sample_boot_world sample_boot_config ?c sample_boot_secret"
    by (simp add: config_secret_def sample_boot_secret_def sample_kc_secret_def IsContractSecret_def immutable_def)
  have ready: "ready_status sample_lib sample_boot_config ''d'' sample_boot_secret sample_boot_ready"
    using set_config_ready_status[OF sample_conditions_law]
    by (simp add: ready_status_def sample_boot_ready_def sample_boot_secret_def)
  have name: "\<not> blank (sec_name sample_boot_secret)" using b(2) by (simp add: sample_boot_secret_def)
  have found: "fst (run_state (find_capi_machine sample_lib sample_boot_tm sample_machine) []) = Inr sample_capi"
    by (simp add: find_capi_machine_def FindCAPIMachineForInfrastructure_def findCAPIMachine_def sample_boot_tm_def sample_tm_def
        sample_machine_def sample_capi_def sample_meta_def refers_to_infrastructure_def)
  have config: "cm_configRef sample_capi = \<lparr>cr_apiGroup = bootstrap_group, cr_kind = TartBootstrapConfigKind, cr_name = ''b1''\<rparr>"
    by (simp add: sample_capi_def)
  have lib: "te_talos sample_boot_tm = builder_talos sample_builder" by (simp add: sample_boot_tm_def)
  have sees: "te_get_bootstrap_config sample_boot_tm [] (mt_namespace (m_meta sample_machine)) ''b1'' = Inr sample_boot_ready"
    "te_get_secret sample_boot_tm [] (mt_namespace (m_meta sample_machine)) (sec_name sample_boot_secret) = Inr sample_boot_secret"
    by (simp_all add: sample_boot_tm_def)
  from machine_gets_rendered_configuration[OF sample_builder_laws(1) lib made b(1) kept ready name found config _ sees id(2)]
  show ?thesis by (simp add: id(1))
qed

text \<open>A referenced patches Secret that breaks its contract (not immutable, or without patches) is never reported:
  the pass ends with the error and writes nothing, so the configuration keeps whatever condition it had.\<close>

theorem broken_patches_secret_not_reported:
  assumes "be_get_config E tr ns n = Inr config" "\<not> IsPaused L (bc_meta config)"
    "bcs_configPatchesSecretRef (bc_spec config) = Some name" "name \<noteq> []"
    "be_get_secret E tr (mt_namespace (bc_meta config)) name = Inr s" "ValidateConfigSecret (Some s) = Some e"
  shows "run_state (Reconcile_TartBootstrapConfig L E ns n) tr = ((0, Some (BeSecret e)), tr)"
  using assms
  by (simp add: Reconcile_TartBootstrapConfig_def configurationInput_def render_and_keep_def bootstrap_configuration_def
      reportConfigurationError_def classifyConfigurationError_def)

theorem broken_patches_secret_not_reported_witness:
  "run_state (Reconcile_TartBootstrapConfig sample_lib (sample_boot_world\<lparr>be_get_config := \<lambda>_ _ _. Inr sample_bootstrap_config,
       be_get_secret := \<lambda>_ _ _. Inr zero_secret\<rparr>) [] ''b1'') [] = ((0, Some (BeSecret ErrConfigSecretNotImmutable)), [])"
proof (rule broken_patches_secret_not_reported)
  show "be_get_config (sample_boot_world\<lparr>be_get_config := \<lambda>_ _ _. Inr sample_bootstrap_config, be_get_secret := \<lambda>_ _ _. Inr zero_secret\<rparr>) [] [] ''b1'' =
    Inr sample_bootstrap_config" by simp
  show "\<not> IsPaused sample_lib (bc_meta sample_bootstrap_config)" by code_simp
  show "bcs_configPatchesSecretRef (bc_spec sample_bootstrap_config) = Some ''patches''" by (simp add: sample_bootstrap_config_def)
  show "ValidateConfigSecret (Some zero_secret) = Some ErrConfigSecretNotImmutable" by (simp add: ValidateConfigSecret_def zero_secret_def)
qed simp_all

end
