(* ===== verification/UpdatePlan.thy ===== *)
theory UpdatePlan
  imports Complex_Main "HOL-Library.Finite_Map" "HOL-Library.Sublist" UpdateEngine
begin

section \<open>Which updates are planned in place\<close>

text \<open>
  The hooks \<open>CanUpdateMachine\<close> and \<open>CanUpdateMachineSet\<close> of \<open>controller/runtimeextension\<close>
  (\<open>handlers.go\<close>, \<open>patch.go\<close>): they compare the JSON of the current and of the desired objects and
  answer with patches when nothing but the fields that can be changed in place differs.
  A JSON value is the one \<open>encoding/json/v2\<close> decodes into an \<open>any\<close>; a number is a finite float,
  kept as the rational it is, as \<open>reflect.DeepEqual\<close> compares them with \<open>==\<close>. All errors lead to
  the same answer; they are kept apart as the code's messages are.
\<close>

subsection \<open>JSON values and paths\<close>

datatype json =
    JNull | JBool bool | JNumber rat | JString string | JArray "json list" | JObject "(string, json) fmap"

type_synonym json_object = "(string, json) fmap"

datatype plan_error =
    PathParentNotObject | SpecMissing | SpecNotObject | UnsupportedDifference | PresenceChanged
  | UnexpectedAPIVersion | UnexpectedKind | StrategyNotString | StrategyUnknown
  | ObjectUndecodable | ObjectNull | ObjectUnencodable | NotATartMachine
  | InfrastructureTemplateMissing | ImageMissing | ImageUndecodable | ImageInvalid | SpecUnencodable | SpecNull

primrec cloneJSONValue :: "json \<Rightarrow> json" where
  "cloneJSONValue JNull = JNull"
| "cloneJSONValue (JBool b) = JBool b"
| "cloneJSONValue (JNumber q) = JNumber q"
| "cloneJSONValue (JString s) = JString s"
| "cloneJSONValue (JArray vs) = JArray (map cloneJSONValue vs)"
| "cloneJSONValue (JObject m) = JObject (fmmap cloneJSONValue m)"

definition cloneMap :: "json_object \<Rightarrow> json_object" where
  "cloneMap m = fmmap cloneJSONValue m"

text \<open>A path that is missing is \<open>Inr None\<close>.\<close>

fun readPath :: "json \<Rightarrow> string list \<Rightarrow> plan_error + json option" where
  "readPath current [] = Inr (Some current)"
| "readPath current (part # path) =
     (case current of
        JObject m \<Rightarrow> (case fmlookup m part of None \<Rightarrow> Inr None | Some v \<Rightarrow> readPath v path)
      | _ \<Rightarrow> Inl PathParentNotObject)"

text \<open>The paths of the code are not empty. The map is returned; after an error nobody uses it.\<close>

fun writePath :: "json_object \<Rightarrow> string list \<Rightarrow> json \<Rightarrow> plan_error + json_object" where
  "writePath obj [] v = Inr obj"
| "writePath obj [part] v = Inr (fmupd part (cloneJSONValue v) obj)"
| "writePath obj (part # path) v =
     (case fmlookup obj part of
        None \<Rightarrow> map_sum id (\<lambda>nested. fmupd part (JObject nested) obj) (writePath fmempty path v)
      | Some (JObject nested) \<Rightarrow> map_sum id (\<lambda>nested'. fmupd part (JObject nested') obj) (writePath nested path v)
      | Some _ \<Rightarrow> Inl PathParentNotObject)"

fun deletePath :: "json_object \<Rightarrow> string list \<Rightarrow> plan_error + json_object" where
  "deletePath obj [] = Inr obj"
| "deletePath obj [part] = Inr (fmdrop part obj)"
| "deletePath obj (part # path) =
     (case fmlookup obj part of
        None \<Rightarrow> Inr obj
      | Some (JObject nested) \<Rightarrow> map_sum id (\<lambda>nested'. fmupd part (JObject nested') obj) (deletePath nested path)
      | Some _ \<Rightarrow> Inl PathParentNotObject)"

definition copyOrDeletePath :: "json_object \<Rightarrow> json_object \<Rightarrow> string list \<Rightarrow> plan_error + json_object" where
  "copyOrDeletePath current desired path =
     (case readPath (JObject desired) path of Inl e \<Rightarrow> Inl e
      | Inr (Some v) \<Rightarrow> writePath current path v
      | Inr None \<Rightarrow> deletePath current path)"

fun copy_paths :: "json_object \<Rightarrow> json_object \<Rightarrow> string list list \<Rightarrow> plan_error + json_object" where
  "copy_paths normalized desired [] = Inr normalized"
| "copy_paths normalized desired (path # paths) =
     (case copyOrDeletePath normalized desired path of Inl e \<Rightarrow> Inl e
      | Inr normalized' \<Rightarrow> copy_paths normalized' desired paths)"

text \<open>\<open>runtimehooksv1.Patch\<close>: \<open>None\<close> is the empty one, otherwise it is a JSON patch of one \<open>replace\<close>.
  Its text can always be encoded, as the value was decoded from JSON.\<close>

record json_patch =
  jp_path :: string
  jp_value :: json_object

type_synonym Patch = "json_patch option"

definition planSpecPatch :: "json_object \<Rightarrow> json_object \<Rightarrow> string list list \<Rightarrow> string \<Rightarrow> plan_error + Patch" where
  "planSpecPatch current desired allowedPaths patchPath =
     (if current = desired then Inr None
      else case copy_paths (cloneMap current) desired allowedPaths of Inl e \<Rightarrow> Inl e
      | Inr normalized \<Rightarrow>
          if normalized \<noteq> desired then Inl UnsupportedDifference
          else Inr (Some \<lparr>jp_path = patchPath, jp_value = desired\<rparr>))"

definition requiredMap :: "json_object \<Rightarrow> string list \<Rightarrow> plan_error + json_object" where
  "requiredMap obj path =
     (case readPath (JObject obj) path of Inl e \<Rightarrow> Inl e
      | Inr None \<Rightarrow> Inl SpecMissing
      | Inr (Some (JObject m)) \<Rightarrow> Inr m
      | Inr (Some _) \<Rightarrow> Inl SpecNotObject)"

subsection \<open>The objects of a request\<close>

text \<open>\<open>runtime.RawExtension\<close>: the bytes, and what encoding the object gives when there is one.\<close>

record raw_extension =
  re_raw :: string
  re_object :: "string option option"

text \<open>\<open>hl_json\<close> parses a JSON text; \<open>hl_tart_machine\<close> decodes a TartMachine with its API version and kind, of a
  document that has none of them two empty strings; \<open>hl_spec\<close> is the JSON of the spec of a CAPI Machine.\<close>

record 'm hook_lib =
  hl_json :: "string \<Rightarrow> json option"
  hl_tart_machine :: "string \<Rightarrow> (string \<times> string \<times> TartMachine) option"
  hl_spec :: "'m \<Rightarrow> json option"
  hl_talos :: talos_lib

definition rawBytes :: "raw_extension \<Rightarrow> plan_error + string" where
  "rawBytes raw =
     (if length (re_raw raw) > 0 then Inr (re_raw raw)
      else case re_object raw of None \<Rightarrow> Inr []
      | Some None \<Rightarrow> Inl ObjectUnencodable
      | Some (Some data) \<Rightarrow> Inr data)"

definition decodeRawObject :: "'m hook_lib \<Rightarrow> raw_extension \<Rightarrow> plan_error + json_object option" where
  "decodeRawObject H raw =
     (case rawBytes raw of Inl e \<Rightarrow> Inl e
      | Inr data \<Rightarrow>
          if length data = 0 then Inr None
          else (case hl_json H data of
                  Some (JObject m) \<Rightarrow> Inr (Some m)
                | Some JNull \<Rightarrow> Inl ObjectNull
                | _ \<Rightarrow> Inl ObjectUndecodable))"

definition marshalMap :: "'m hook_lib \<Rightarrow> 'm \<Rightarrow> plan_error + json_object" where
  "marshalMap H spec =
     (case hl_spec H spec of
        Some (JObject m) \<Rightarrow> Inr m
      | Some JNull \<Rightarrow> Inl SpecNull
      | _ \<Rightarrow> Inl SpecUnencodable)"

definition decodeTartMachine :: "'m hook_lib \<Rightarrow> raw_extension \<Rightarrow> plan_error + TartMachine" where
  "decodeTartMachine H raw =
     (case rawBytes raw of Inl e \<Rightarrow> Inl e
      | Inr data \<Rightarrow>
          (case hl_tart_machine H data of None \<Rightarrow> Inl ObjectUndecodable
           | Some (apiVersion, kind, machine) \<Rightarrow>
               if apiVersion \<noteq> infra_group_version \<or> kind \<noteq> TartMachineKind then Inl NotATartMachine else Inr machine))"

definition validateRawObjectIdentity :: "json_object \<Rightarrow> string \<Rightarrow> string \<Rightarrow> plan_error option" where
  "validateRawObjectIdentity object expectedAPIVersion expectedKind =
     (if fmlookup object ''apiVersion'' \<noteq> Some (JString expectedAPIVersion) then Some UnexpectedAPIVersion
      else if fmlookup object ''kind'' \<noteq> Some (JString expectedKind) then Some UnexpectedKind
      else None)"

text \<open>Both \<open>planRawObjectPatch\<close> and \<open>planRawTemplatePatch\<close>, which differ in the path of the spec.\<close>

definition plan_raw_patch ::
  "'m hook_lib \<Rightarrow> string list \<Rightarrow> string \<Rightarrow> raw_extension \<Rightarrow> raw_extension \<Rightarrow> string \<Rightarrow> string \<Rightarrow> string list list \<Rightarrow> plan_error + Patch" where
  "plan_raw_patch H specPath patchPath currentRaw desiredRaw expectedAPIVersion expectedKind allowedPaths =
     (case decodeRawObject H currentRaw of Inl e \<Rightarrow> Inl e
      | Inr current \<Rightarrow>
          (case decodeRawObject H desiredRaw of Inl e \<Rightarrow> Inl e
           | Inr desired \<Rightarrow>
               (case (current, desired) of
                  (None, None) \<Rightarrow> Inr None
                | (Some c, Some d) \<Rightarrow>
                    (case validateRawObjectIdentity c expectedAPIVersion expectedKind of Some e \<Rightarrow> Inl e
                     | None \<Rightarrow>
                         (case validateRawObjectIdentity d expectedAPIVersion expectedKind of Some e \<Rightarrow> Inl e
                          | None \<Rightarrow>
                              (case requiredMap c specPath of Inl e \<Rightarrow> Inl e
                               | Inr currentSpec \<Rightarrow>
                                   (case requiredMap d specPath of Inl e \<Rightarrow> Inl e
                                    | Inr desiredSpec \<Rightarrow> planSpecPatch currentSpec desiredSpec allowedPaths patchPath))))
                | _ \<Rightarrow> Inl PresenceChanged)))"

definition planRawObjectPatch :: "'m hook_lib \<Rightarrow> raw_extension \<Rightarrow> raw_extension \<Rightarrow> string \<Rightarrow> string \<Rightarrow> string list list \<Rightarrow> plan_error + Patch" where
  "planRawObjectPatch H = plan_raw_patch H [''spec''] ''/spec''"

definition planRawTemplatePatch :: "'m hook_lib \<Rightarrow> raw_extension \<Rightarrow> raw_extension \<Rightarrow> string \<Rightarrow> string \<Rightarrow> string list list \<Rightarrow> plan_error + Patch" where
  "planRawTemplatePatch H = plan_raw_patch H [''spec'', ''template'', ''spec''] ''/spec/template/spec''"

subsection \<open>The policy\<close>

definition machineUpdatableSpecPaths :: "string list list" where
  "machineUpdatableSpecPaths = [[''version'']]"

definition infrastructure_paths :: "string list list" where
  "infrastructure_paths = [[''image'', ''version''], [''image'', ''schematicID'']]"

definition bootstrapUpdatableSpecPaths :: "string list list" where
  "bootstrapUpdatableSpecPaths = [[''configPatchesSecretRef''], [''updatePolicy'']]"

definition validateDesiredBootstrapStrategy :: "'m hook_lib \<Rightarrow> raw_extension \<Rightarrow> string list \<Rightarrow> plan_error option" where
  "validateDesiredBootstrapStrategy H desiredRaw specPath =
     (case decodeRawObject H desiredRaw of Inl e \<Rightarrow> Some e
      | Inr None \<Rightarrow> None
      | Inr (Some object) \<Rightarrow>
          (case requiredMap object specPath of Inl e \<Rightarrow> Some e
           | Inr spec \<Rightarrow>
               (case readPath (JObject spec) [''updatePolicy'', ''configuration''] of Inl e \<Rightarrow> Some e
                | Inr None \<Rightarrow> None
                | Inr (Some (JString policy)) \<Rightarrow>
                    if policy = ''StagedReboot'' \<or> policy = ''ApplyOnly'' then None else Some StrategyUnknown
                | Inr (Some _) \<Rightarrow> Some StrategyNotString)))"

definition planBootstrapConfigPatch :: "'m hook_lib \<Rightarrow> raw_extension \<Rightarrow> raw_extension \<Rightarrow> plan_error + Patch" where
  "planBootstrapConfigPatch H currentRaw desiredRaw =
     (case validateDesiredBootstrapStrategy H desiredRaw [''spec''] of Some e \<Rightarrow> Inl e
      | None \<Rightarrow> planRawObjectPatch H currentRaw desiredRaw bootstrap_group_version TartBootstrapConfigKind bootstrapUpdatableSpecPaths)"

definition planBootstrapConfigTemplatePatch :: "'m hook_lib \<Rightarrow> raw_extension \<Rightarrow> raw_extension \<Rightarrow> plan_error + Patch" where
  "planBootstrapConfigTemplatePatch H currentRaw desiredRaw =
     (case validateDesiredBootstrapStrategy H desiredRaw [''spec'', ''template'', ''spec''] of Some e \<Rightarrow> Inl e
      | None \<Rightarrow> planRawTemplatePatch H currentRaw desiredRaw bootstrap_group_version ''TartBootstrapConfigTemplate''
                  bootstrapUpdatableSpecPaths)"

text \<open>A value decoded into \<open>TalosImageSpec\<close>: members that are missing or null are empty, unknown ones are ignored.\<close>

definition image_field :: "json_object \<Rightarrow> string \<Rightarrow> string option" where
  "image_field m k =
     (case fmlookup m k of None \<Rightarrow> Some [] | Some JNull \<Rightarrow> Some [] | Some (JString s) \<Rightarrow> Some s | _ \<Rightarrow> None)"

definition image_of_json :: "json \<Rightarrow> TalosImageSpec option" where
  "image_of_json v =
     (case v of
        JNull \<Rightarrow> Some \<lparr>img_version = [], img_schematicID = []\<rparr>
      | JObject m \<Rightarrow>
          (case (image_field m ''version'', image_field m ''schematicID'') of
             (Some ver, Some sch) \<Rightarrow> Some \<lparr>img_version = ver, img_schematicID = sch\<rparr> | _ \<Rightarrow> None)
      | _ \<Rightarrow> None)"

definition validateTemplateImage :: "'m hook_lib \<Rightarrow> raw_extension \<Rightarrow> plan_error option" where
  "validateTemplateImage H raw =
     (case decodeRawObject H raw of Inl e \<Rightarrow> Some e
      | Inr None \<Rightarrow> Some InfrastructureTemplateMissing
      | Inr (Some object) \<Rightarrow>
          (case requiredMap object [''spec'', ''template'', ''spec''] of Inl e \<Rightarrow> Some e
           | Inr spec \<Rightarrow>
               (case readPath (JObject spec) [''image''] of Inl e \<Rightarrow> Some e
                | Inr None \<Rightarrow> Some ImageMissing
                | Inr (Some v) \<Rightarrow>
                    (case image_of_json v of None \<Rightarrow> Some ImageUndecodable
                     | Some img \<Rightarrow>
                         if InstallerImage (hl_talos H) (img_version img) (img_schematicID img) = None then Some ImageInvalid else None))))"

subsection \<open>The hooks\<close>

record 'm CanUpdateRequest =
  cr_currentMachine :: 'm
  cr_desiredMachine :: 'm
  cr_currentInfrastructure :: raw_extension
  cr_desiredInfrastructure :: raw_extension
  cr_currentBootstrap :: raw_extension
  cr_desiredBootstrap :: raw_extension

definition plan_three ::
  "plan_error + Patch \<Rightarrow> plan_error + Patch \<Rightarrow> plan_error + Patch \<Rightarrow> plan_error + Patch \<times> Patch \<times> Patch" where
  "plan_three machine infrastructure bootstrap =
     (case machine of Inl e \<Rightarrow> Inl e
      | Inr m \<Rightarrow> (case infrastructure of Inl e \<Rightarrow> Inl e
        | Inr i \<Rightarrow> (case bootstrap of Inl e \<Rightarrow> Inl e | Inr b \<Rightarrow> Inr (m, i, b))))"

definition plan_spec :: "'m hook_lib \<Rightarrow> 'm CanUpdateRequest \<Rightarrow> string \<Rightarrow> plan_error + Patch" where
  "plan_spec H req patchPath =
     (case marshalMap H (cr_currentMachine req) of Inl e \<Rightarrow> Inl e
      | Inr current \<Rightarrow>
          (case marshalMap H (cr_desiredMachine req) of Inl e \<Rightarrow> Inl e
           | Inr desired \<Rightarrow> planSpecPatch current desired machineUpdatableSpecPaths patchPath))"

definition planMachineUpdate :: "'m hook_lib \<Rightarrow> 'm CanUpdateRequest \<Rightarrow> plan_error + Patch \<times> Patch \<times> Patch" where
  "planMachineUpdate H req =
     (case decodeTartMachine H (cr_desiredInfrastructure req) of Inl e \<Rightarrow> Inl e
      | Inr desired \<Rightarrow>
          (let img = ms_image (m_spec desired)
           in if InstallerImage (hl_talos H) (img_version img) (img_schematicID img) = None then Inl ImageInvalid
              else plan_three (plan_spec H req ''/spec'')
                (planRawObjectPatch H (cr_currentInfrastructure req) (cr_desiredInfrastructure req) infra_group_version TartMachineKind
                   infrastructure_paths)
                (planBootstrapConfigPatch H (cr_currentBootstrap req) (cr_desiredBootstrap req))))"

definition planMachineSetUpdate :: "'m hook_lib \<Rightarrow> 'm CanUpdateRequest \<Rightarrow> plan_error + Patch \<times> Patch \<times> Patch" where
  "planMachineSetUpdate H req =
     (case validateTemplateImage H (cr_desiredInfrastructure req) of Some e \<Rightarrow> Inl e
      | None \<Rightarrow>
          plan_three (plan_spec H req ''/spec/template/spec'')
            (planRawTemplatePatch H (cr_currentInfrastructure req) (cr_desiredInfrastructure req) infra_group_version ''TartMachineTemplate''
               infrastructure_paths)
            (planBootstrapConfigTemplatePatch H (cr_currentBootstrap req) (cr_desiredBootstrap req)))"

record CanUpdateResponse =
  cu_success :: bool
  cu_message :: string
  cu_machinePatch :: Patch
  cu_infrastructurePatch :: Patch
  cu_bootstrapPatch :: Patch

definition unsafeUpdateMessage :: string where
  "unsafeUpdateMessage = ''The requested in-place update contains an unsupported or unsafe difference; no patch was returned.''"

text \<open>\<open>canUpdateMachine\<close> and \<open>canUpdateMachineSet\<close>, which differ in the plan and in the message; a request may be nil.\<close>

definition can_update_response :: "string \<Rightarrow> plan_error + Patch \<times> Patch \<times> Patch \<Rightarrow> CanUpdateResponse" where
  "can_update_response message plan =
     (case plan of
        Inl _ \<Rightarrow> \<lparr>cu_success = False, cu_message = unsafeUpdateMessage, cu_machinePatch = None, cu_infrastructurePatch = None,
                  cu_bootstrapPatch = None\<rparr>
      | Inr (m, i, b) \<Rightarrow> \<lparr>cu_success = True, cu_message = message, cu_machinePatch = m, cu_infrastructurePatch = i, cu_bootstrapPatch = b\<rparr>)"

definition canUpdateMachine :: "'m hook_lib \<Rightarrow> 'm CanUpdateRequest option \<Rightarrow> CanUpdateResponse" where
  "canUpdateMachine H req =
     can_update_response ''The requested Talos image update is covered by a complete in-place patch.''
       (case req of None \<Rightarrow> Inl ObjectNull | Some r \<Rightarrow> planMachineUpdate H r)"

definition canUpdateMachineSet :: "'m hook_lib \<Rightarrow> 'm CanUpdateRequest option \<Rightarrow> CanUpdateResponse" where
  "canUpdateMachineSet H req =
     can_update_response ''The requested Talos image update is covered by a complete in-place template patch.''
       (case req of None \<Rightarrow> Inl ObjectNull | Some r \<Rightarrow> planMachineSetUpdate H r)"

subsection \<open>What a copied path changes\<close>

text \<open>A copy shares nothing with the original, which as a value it is.\<close>

lemma cloneJSONValue_id [simp]: "cloneJSONValue v = v"
proof (induction v)
  case (JArray vs)
  then show ?case by (simp add: map_idI)
next
  case (JObject m)
  then have "fmmap cloneJSONValue m = fmmap id m" by (intro fmap.map_cong0) auto
  then show ?case by (simp add: fmap.map_id)
qed simp_all

lemma cloneMap_id [simp]: "cloneMap m = m"
proof -
  have "cloneJSONValue = id" by auto
  then show ?thesis by (simp add: cloneMap_def fmap.map_id)
qed

text \<open>What is found under a path, when every parent is an object.\<close>

fun json_at :: "json \<Rightarrow> string list \<Rightarrow> json option" where
  "json_at v [] = Some v"
| "json_at v (part # path) =
     (case v of JObject m \<Rightarrow> (case fmlookup m part of None \<Rightarrow> None | Some w \<Rightarrow> json_at w path) | _ \<Rightarrow> None)"

lemma readPath_at: "readPath v p = Inr r \<Longrightarrow> json_at v p = r"
  by (induction v p rule: readPath.induct) (auto split: json.splits option.splits)

abbreviation (input) unrelated :: "string list \<Rightarrow> string list \<Rightarrow> bool" where
  "unrelated p q \<equiv> \<not> prefix p q \<and> \<not> prefix q p"

lemma map_sum_Inr: "map_sum f g x = Inr y \<longleftrightarrow> (\<exists>z. x = Inr z \<and> y = g z)"
  by (cases x) auto

lemma writePath_other: "writePath m p v = Inr m' \<Longrightarrow> unrelated p q \<Longrightarrow> json_at (JObject m') q = json_at (JObject m) q"
proof (induction m p v arbitrary: m' q rule: writePath.induct)
  case (2 m part v)
  then show ?case by (cases q) auto
next
  case (3 m part p2 path v)
  from "3.prems"(2) obtain r qs where q: "q = r # qs" by (cases q) auto
  show ?case
  proof (cases "r = part")
    case False
    with "3.prems"(1) q show ?thesis by (auto simp: map_sum_Inr split: option.splits json.splits sum.splits)
  next
    case True
    with "3.prems"(2) q have un: "unrelated (p2 # path) qs" "qs \<noteq> []" by auto
    show ?thesis
    proof (cases "fmlookup m part")
      case None
      with "3.prems"(1) obtain n where n: "writePath fmempty (p2 # path) v = Inr n" "m' = fmupd part (JObject n) m"
        by (cases "writePath fmempty (p2 # path) v") auto
      from "3.IH"(1)[OF None n(1) un(1)] un(2) have "json_at (JObject n) qs = None" by (cases qs) auto
      with n(2) q True None show ?thesis by simp
    next
      case (Some w)
      with "3.prems"(1) obtain k n where n: "w = JObject k" "writePath k (p2 # path) v = Inr n" "m' = fmupd part (JObject n) m"
        by (cases w) (auto simp: map_sum_Inr)
      from "3.IH"(2)[OF Some n(1,2) un(1)] n q True Some show ?thesis by simp
    qed
  qed
qed simp

lemma deletePath_other: "deletePath m p = Inr m' \<Longrightarrow> unrelated p q \<Longrightarrow> json_at (JObject m') q = json_at (JObject m) q"
proof (induction m p arbitrary: m' q rule: deletePath.induct)
  case (2 m part)
  then show ?case by (cases q) auto
next
  case (3 m part p2 path)
  from "3.prems"(2) obtain r qs where q: "q = r # qs" by (cases q) auto
  show ?case
  proof (cases "r = part \<and> fmlookup m part \<noteq> None")
    case False
    with "3.prems"(1) q show ?thesis by (auto simp: map_sum_Inr split: option.splits json.splits sum.splits)
  next
    case True
    with "3.prems"(2) q have un: "unrelated (p2 # path) qs" by auto
    from True obtain w where w: "fmlookup m part = Some w" by blast
    with "3.prems"(1) obtain k n where n: "w = JObject k" "deletePath k (p2 # path) = Inr n" "m' = fmupd part (JObject n) m"
      by (cases w) (auto simp: map_sum_Inr)
    from "3.IH"[OF w n(1,2) un] n q True w show ?thesis by simp
  qed
qed simp

lemma copy_paths_other:
  "copy_paths n d ps = Inr n' \<Longrightarrow> (\<And>p. p \<in> set ps \<Longrightarrow> unrelated p q) \<Longrightarrow> json_at (JObject n') q = json_at (JObject n) q"
proof (induction ps arbitrary: n)
  case (Cons p ps)
  from Cons.prems(1) obtain k where k: "copyOrDeletePath n d p = Inr k" "copy_paths k d ps = Inr n'"
    by (auto split: sum.splits)
  from k(1) Cons.prems(2)[of p] have "json_at (JObject k) q = json_at (JObject n) q"
    by (auto simp: copyOrDeletePath_def writePath_other deletePath_other split: sum.splits option.splits)
  with Cons.IH[OF k(2)] Cons.prems(2) show ?case by simp
qed simp

text \<open>A patch is complete when applying it gives the desired object, and it is within the allowed paths when the objects
  have the same value under every other path.\<close>

definition covers :: "string list list \<Rightarrow> string \<Rightarrow> json_object \<Rightarrow> json_object \<Rightarrow> Patch \<Rightarrow> bool" where
  "covers allowed at_path c d patch \<longleftrightarrow>
     (case patch of None \<Rightarrow> c = d | Some p \<Rightarrow> c \<noteq> d \<and> jp_path p = at_path \<and> jp_value p = d) \<and>
     (\<forall>q. (\<forall>p \<in> set allowed. unrelated p q) \<longrightarrow> json_at (JObject c) q = json_at (JObject d) q)"

lemma planSpecPatch_covers: "planSpecPatch c d allowed at_path = Inr patch \<Longrightarrow> covers allowed at_path c d patch"
  by (auto simp: planSpecPatch_def covers_def copy_paths_other split: if_splits sum.splits)

text \<open>Nothing else is refused: of fields at the top of a spec.\<close>

lemma copy_fields:
  "\<exists>n'. copy_paths n d (map (\<lambda>k. [k]) ks) = Inr n' \<and>
     (\<forall>k. fmlookup n' k = (if k \<in> set ks then fmlookup d k else fmlookup n k))"
proof (induction ks arbitrary: n)
  case (Cons k ks)
  have "\<exists>m. copyOrDeletePath n d [k] = Inr m \<and> (\<forall>j. fmlookup m j = (if j = k then fmlookup d k else fmlookup n j))"
    by (cases "fmlookup d k") (simp_all add: copyOrDeletePath_def)
  then obtain m where m: "copyOrDeletePath n d [k] = Inr m" "\<And>j. fmlookup m j = (if j = k then fmlookup d k else fmlookup n j)" by blast
  from Cons.IH[of m] m show ?case by auto
qed simp

lemma planSpecPatch_fields:
  "planSpecPatch c d (map (\<lambda>k. [k]) ks) at_path \<in> range Inr \<longleftrightarrow> (\<forall>k. k \<notin> set ks \<longrightarrow> fmlookup c k = fmlookup d k)"
proof -
  obtain n where n: "copy_paths c d (map (\<lambda>k. [k]) ks) = Inr n"
    "\<And>k. fmlookup n k = (if k \<in> set ks then fmlookup d k else fmlookup c k)"
    using copy_fields by blast
  have "n = d \<longleftrightarrow> (\<forall>k. k \<notin> set ks \<longrightarrow> fmlookup c k = fmlookup d k)"
  proof -
    have "n = d \<longleftrightarrow> (\<forall>k. fmlookup n k = fmlookup d k)" by (auto intro: fmap_ext)
    then show ?thesis by (simp add: n(2))
  qed
  then show ?thesis by (auto simp: planSpecPatch_def n(1))
qed

lemma all_split: "(\<forall>k. P k) \<longleftrightarrow> P a \<and> (\<forall>k. k \<noteq> a \<longrightarrow> P k)"
  by metis

text \<open>And of the image: when both specs have one, they may differ in its version and schematic, and nowhere else.\<close>

lemma planSpecPatch_image:
  assumes img: "fmlookup c ''image'' = Some (JObject ci)" "fmlookup d ''image'' = Some (JObject di)"
  shows "planSpecPatch c d infrastructure_paths at_path \<in> range Inr \<longleftrightarrow>
    (\<forall>k. k \<noteq> ''image'' \<longrightarrow> fmlookup c k = fmlookup d k) \<and>
    (\<forall>k. k \<notin> {''version'', ''schematicID''} \<longrightarrow> fmlookup ci k = fmlookup di k)"
proof -
  have field: "\<exists>m mi. copyOrDeletePath n d [''image'', k] = Inr m \<and> fmlookup m ''image'' = Some (JObject mi) \<and>
      (\<forall>j. fmlookup mi j = (if j = k then fmlookup di k else fmlookup ni j)) \<and> (\<forall>j. j \<noteq> ''image'' \<longrightarrow> fmlookup m j = fmlookup n j)"
    if "fmlookup n ''image'' = Some (JObject ni)" for n ni k
    using that img(2) by (cases "fmlookup di k") (auto simp: copyOrDeletePath_def)
  obtain m mi where m: "copyOrDeletePath c d [''image'', ''version''] = Inr m" "fmlookup m ''image'' = Some (JObject mi)"
    "\<And>j. fmlookup mi j = (if j = ''version'' then fmlookup di ''version'' else fmlookup ci j)" "\<And>j. j \<noteq> ''image'' \<Longrightarrow> fmlookup m j = fmlookup c j"
    using field[OF img(1), of "''version''"] by blast
  obtain n ni where n: "copyOrDeletePath m d [''image'', ''schematicID''] = Inr n" "fmlookup n ''image'' = Some (JObject ni)"
    "\<And>j. fmlookup ni j = (if j = ''schematicID'' then fmlookup di ''schematicID'' else fmlookup mi j)" "\<And>j. j \<noteq> ''image'' \<Longrightarrow> fmlookup n j = fmlookup m j"
    using field[OF m(2), of "''schematicID''"] by blast
  have ni: "ni = di \<longleftrightarrow> (\<forall>k. k \<notin> {''version'', ''schematicID''} \<longrightarrow> fmlookup ci k = fmlookup di k)"
  proof -
    have "ni = di \<longleftrightarrow> (\<forall>k. fmlookup ni k = fmlookup di k)" by (auto intro: fmap_ext)
    then show ?thesis by (simp add: n(3) m(3)) metis
  qed
  have "n = d \<longleftrightarrow> (\<forall>k. fmlookup n k = fmlookup d k)" by (auto intro: fmap_ext)
  also have "\<dots> \<longleftrightarrow> fmlookup n ''image'' = fmlookup d ''image'' \<and> (\<forall>k. k \<noteq> ''image'' \<longrightarrow> fmlookup n k = fmlookup d k)" by (rule all_split)
  also have "\<dots> \<longleftrightarrow> ni = di \<and> (\<forall>k. k \<noteq> ''image'' \<longrightarrow> fmlookup c k = fmlookup d k)"
    by (simp add: n(2,4) m(4) img(2))
  finally have "n = d \<longleftrightarrow> ni = di \<and> (\<forall>k. k \<noteq> ''image'' \<longrightarrow> fmlookup c k = fmlookup d k)" .
  moreover have "planSpecPatch c d infrastructure_paths at_path \<in> range Inr \<longleftrightarrow> c = d \<or> n = d"
    by (auto simp: planSpecPatch_def infrastructure_paths_def m(1) n(1))
  moreover have "ci = di" if "c = d" using img that by simp
  ultimately show ?thesis using ni by auto
qed

lemma raw_patch_cases:
  assumes "plan_raw_patch H specPath patchPath cur des v k allowed = Inr patch"
  obtains (absent) "decodeRawObject H cur = Inr None" "decodeRawObject H des = Inr None" "patch = None"
  | (present) co des_o c d where "decodeRawObject H cur = Inr (Some co)" "decodeRawObject H des = Inr (Some des_o)"
      "requiredMap co specPath = Inr c" "requiredMap des_o specPath = Inr d" "covers allowed patchPath c d patch"
  using assms
  by (auto simp: plan_raw_patch_def split: sum.splits option.splits dest: planSpecPatch_covers)

subsection \<open>What an accepted update promises\<close>

text \<open>The patch of a raw object covers its spec, or there is no object and no patch.\<close>

definition raw_covered :: "'m hook_lib \<Rightarrow> string list \<Rightarrow> string list list \<Rightarrow> string \<Rightarrow> raw_extension \<Rightarrow> raw_extension \<Rightarrow> Patch \<Rightarrow> bool" where
  "raw_covered H specPath allowed at_path cur des patch \<longleftrightarrow>
     decodeRawObject H cur = Inr None \<and> decodeRawObject H des = Inr None \<and> patch = None \<or>
     (\<exists>co de c d. decodeRawObject H cur = Inr (Some co) \<and> decodeRawObject H des = Inr (Some de) \<and>
        requiredMap co specPath = Inr c \<and> requiredMap de specPath = Inr d \<and> covers allowed at_path c d patch)"

lemma raw_patch_covered: "plan_raw_patch H specPath patchPath cur des v k allowed = Inr patch \<Longrightarrow> raw_covered H specPath allowed patchPath cur des patch"
  by (erule raw_patch_cases) (auto simp: raw_covered_def)

lemma plan_spec_covers:
  "plan_spec H req at_path = Inr patch \<Longrightarrow> \<exists>c d. marshalMap H (cr_currentMachine req) = Inr c \<and> marshalMap H (cr_desiredMachine req) = Inr d \<and>
     covers machineUpdatableSpecPaths at_path c d patch"
  by (auto simp: plan_spec_def dest: planSpecPatch_covers split: sum.splits)

lemma can_update_response_success:
  "cu_success (can_update_response m plan) \<longleftrightarrow>
     plan = Inr (cu_machinePatch (can_update_response m plan), cu_infrastructurePatch (can_update_response m plan),
       cu_bootstrapPatch (can_update_response m plan))"
  by (auto simp: can_update_response_def split: sum.split)

text \<open>\<open>CanUpdateMachine\<close> accepts only when each of its three patches makes the current object the desired one, none of them
  changes anything but the Kubernetes version, the image, and the configuration patches and update policy, and the
  desired image is one that can be installed.\<close>

theorem accepted_update_is_covered:
  assumes "cu_success (canUpdateMachine H (Some req))"
  shows "let resp = canUpdateMachine H (Some req)
    in (\<exists>c d. marshalMap H (cr_currentMachine req) = Inr c \<and> marshalMap H (cr_desiredMachine req) = Inr d \<and>
          covers [[''version'']] ''/spec'' c d (cu_machinePatch resp)) \<and>
       raw_covered H [''spec''] [[''image'', ''version''], [''image'', ''schematicID'']] ''/spec''
         (cr_currentInfrastructure req) (cr_desiredInfrastructure req) (cu_infrastructurePatch resp) \<and>
       raw_covered H [''spec''] [[''configPatchesSecretRef''], [''updatePolicy'']] ''/spec''
         (cr_currentBootstrap req) (cr_desiredBootstrap req) (cu_bootstrapPatch resp) \<and>
       (\<exists>desired. decodeTartMachine H (cr_desiredInfrastructure req) = Inr desired \<and>
          InstallerImage (hl_talos H) (img_version (ms_image (m_spec desired))) (img_schematicID (ms_image (m_spec desired))) \<noteq> None)"
proof -
  let ?r = "canUpdateMachine H (Some req)"
  from assms have "planMachineUpdate H req = Inr (cu_machinePatch ?r, cu_infrastructurePatch ?r, cu_bootstrapPatch ?r)"
    by (simp add: canUpdateMachine_def can_update_response_success)
  then obtain desired where d: "decodeTartMachine H (cr_desiredInfrastructure req) = Inr desired"
    "InstallerImage (hl_talos H) (img_version (ms_image (m_spec desired))) (img_schematicID (ms_image (m_spec desired))) \<noteq> None"
    and m: "plan_spec H req ''/spec'' = Inr (cu_machinePatch ?r)"
    and i: "planRawObjectPatch H (cr_currentInfrastructure req) (cr_desiredInfrastructure req) infra_group_version TartMachineKind
        infrastructure_paths = Inr (cu_infrastructurePatch ?r)"
    and b: "planBootstrapConfigPatch H (cr_currentBootstrap req) (cr_desiredBootstrap req) = Inr (cu_bootstrapPatch ?r)"
    by (auto simp: planMachineUpdate_def plan_three_def Let_def split: sum.splits if_splits)
  from b have b': "planRawObjectPatch H (cr_currentBootstrap req) (cr_desiredBootstrap req) bootstrap_group_version TartBootstrapConfigKind
      bootstrapUpdatableSpecPaths = Inr (cu_bootstrapPatch ?r)"
    by (simp add: planBootstrapConfigPatch_def split: option.splits)
  show ?thesis
    using d plan_spec_covers[OF m] i[unfolded planRawObjectPatch_def, THEN raw_patch_covered] b'[unfolded planRawObjectPatch_def, THEN raw_patch_covered]
    by (simp add: Let_def machineUpdatableSpecPaths_def infrastructure_paths_def bootstrapUpdatableSpecPaths_def)
qed

end
