(* ===== verification/UpdateHook.thy ===== *)
theory UpdateHook
  imports UpdatePlan MachineConfiguration
begin

section \<open>The UpdateMachine hook\<close>

text \<open>
  \<open>controller/runtimeextension/update.go\<close> up to line 240: the hook with which Cluster API asks for the in-place
  update of one machine. It is called again until it reports success without a retry. Its trace and its world are
  those of the TartMachine reconciler; whether closing the Talos connection succeeds is the parameter \<open>C\<close>. The
  configuration and image updates themselves are those of \<open>UpdateEngine\<close>.
\<close>

subsection \<open>Requests and responses\<close>

record UpdateMachineRequest =
  um_desiredMachine :: capi_machine
  um_desiredInfrastructure :: raw_extension

record UpdateMachineResponse =
  ur_success :: bool
  ur_message :: string
  ur_retryAfterSeconds :: int

record MachineUpdatePreparation =
  mp_desired :: TartMachine
  mp_provider :: TartMachine
  mp_endpoint :: string
  mp_configuration :: string
  mp_image :: string
  mp_strategy :: ConfigurationApplyStrategy

text \<open>An error of the preparation, or an \<open>updateRetryError\<close> with its message.\<close>

datatype prepare_error = PrepareFailed | PrepareRetry string

definition updateRetryAfterSeconds :: int where "updateRetryAfterSeconds = 30"

definition setUpdateRetry :: "string \<Rightarrow> UpdateMachineResponse" where
  "setUpdateRetry message = \<lparr>ur_success = True, ur_message = message, ur_retryAfterSeconds = updateRetryAfterSeconds\<rparr>"

definition update_failure :: "string \<Rightarrow> UpdateMachineResponse" where
  "update_failure message = \<lparr>ur_success = False, ur_message = message, ur_retryAfterSeconds = 0\<rparr>"

definition returnUpdateCloseError :: UpdateMachineResponse where
  "returnUpdateCloseError = update_failure ''The Talos API connection could not be closed safely; the in-place update is stopped.''"

subsection \<open>The preparation\<close>

definition bootstrapUpdateStrategy :: "TartBootstrapConfig \<Rightarrow> ConfigurationApplyStrategy" where
  "bootstrapUpdateStrategy config = EffectiveConfigurationApplyStrategy (bc_spec config)"

definition desired_image :: "'m hook_lib \<Rightarrow> tm_env \<Rightarrow> UpdateMachineRequest \<Rightarrow> (TartMachine \<times> string) option" where
  "desired_image H E req =
     (case decodeTartMachine H (um_desiredInfrastructure req) of Inl _ \<Rightarrow> None
      | Inr desired \<Rightarrow>
          (let img = ms_image (m_spec desired)
           in if img_version img = [] \<or> img_schematicID img = [] then None
              else map_option (\<lambda>installer. (desired, installer)) (InstallerImage (te_talos E) (img_version img) (img_schematicID img))))"

text \<open>The host of the machine and its endpoint, when the objects belong together.\<close>

definition update_target ::
  "k8s_lib \<Rightarrow> tm_env \<Rightarrow> tm_event list \<Rightarrow> capi_machine \<Rightarrow> TartMachine \<Rightarrow> prepare_error + TartMachine \<times> TartHost \<times> string" where
  "update_target L E tr machine desired =
     (let ref = cm_infrastructureRef machine; ns = mt_namespace (cm_meta machine)
      in if cr_apiGroup ref \<noteq> infra_group \<or> cr_kind ref \<noteq> TartMachineKind \<or> cr_name ref = [] then Inl PrepareFailed
         else case te_get_tart_machine E tr ns (cr_name ref) of
           Inl e \<Rightarrow> Inl (PrepareRetry (if e = ApiNotFound
             then ''The TartMachine is not available while the in-place update is being prepared.''
             else ''The TartMachine could not be observed while the in-place update is being prepared.''))
         | Inr provider \<Rightarrow>
             if \<not> validateUpdateProviderOwner L provider machine then Inl PrepareFailed
             else if ms_hostRef (m_spec provider) \<noteq> ms_hostRef (m_spec desired) \<or>
                     ms_hostSelector (m_spec provider) \<noteq> ms_hostSelector (m_spec desired) \<or>
                     ms_providerID (m_spec provider) \<noteq> ms_providerID (m_spec desired)
             then Inl (PrepareRetry ''The live TartMachine identity differs from the update request; waiting for the desired object to settle.'')
             else (case mst_hostRef (m_status provider) of
                     None \<Rightarrow> Inl (PrepareRetry ''The TartMachine has no observed Host binding yet.'')
                   | Some hostName \<Rightarrow>
                       if hostName = [] then Inl (PrepareRetry ''The TartMachine has no observed Host binding yet.'')
                       else (case te_get_host E tr hostName of
                          Inl e \<Rightarrow> Inl (PrepareRetry (if e = ApiNotFound
                            then ''The allocated TartHost is not available while the in-place update is being prepared.''
                            else ''The allocated TartHost could not be observed while the in-place update is being prepared.''))
                        | Inr host \<Rightarrow>
                            if (case hs_consumerRef (h_spec host) of None \<Rightarrow> True
                                | Some c \<Rightarrow> ref_uid c \<noteq> mt_uid (m_meta provider))
                            then Inl PrepareFailed
                            else if HostTalosEndpoint host = []
                            then Inl (PrepareRetry ''The allocated TartHost has no reachable Talos endpoint yet.'')
                            else Inr (provider, host, HostTalosEndpoint host))))"

definition prepareMachineUpdate ::
  "'m hook_lib \<Rightarrow> k8s_lib \<Rightarrow> tm_env \<Rightarrow> UpdateMachineRequest \<Rightarrow> (prepare_error + MachineUpdatePreparation) tm" where
  "prepareMachineUpdate H L E req =
     (case desired_image H E req of None \<Rightarrow> State_Monad.return (Inl PrepareFailed)
      | Some (desired, installer) \<Rightarrow> do {
          target \<leftarrow> query (\<lambda>tr. update_target L E tr (um_desiredMachine req) desired);
          (case target of Inl e \<Rightarrow> State_Monad.return (Inl e)
           | Inr (provider, host, endpoint) \<Rightarrow> do {
               boot \<leftarrow> bootstrapConfigurationWithPolicy E (um_desiredMachine req);
               State_Monad.return
                 (case boot of
                    Inl errUpdateBootstrapUnavailable \<Rightarrow>
                      Inl (PrepareRetry ''The immutable Bootstrap Secret is not available while the in-place update is being prepared.'')
                  | Inl errUpdateBootstrapContractInvalid \<Rightarrow> Inl PrepareFailed
                  | Inl (UpdateBootstrapApi _) \<Rightarrow>
                      Inl (PrepareRetry ''The immutable Bootstrap Secret could not be observed while the in-place update is being prepared.'')
                  | Inr (config, configuration) \<Rightarrow>
                      if ProviderID_IsZero (ms_providerID (m_spec provider))
                      then Inl (PrepareRetry ''The TartMachine ProviderID is not available while the in-place update is being prepared.'')
                      else (case SetProviderID (te_talos E) configuration (ProviderID_String (ms_providerID (m_spec provider))) of
                              Inl _ \<Rightarrow> Inl PrepareFailed
                            | Inr c \<Rightarrow> Inr \<lparr>mp_desired = desired, mp_provider = provider, mp_endpoint = endpoint,
                                mp_configuration = c, mp_image = installer, mp_strategy = bootstrapUpdateStrategy config\<rparr>))
             })
        })"

subsection \<open>The update\<close>

definition machineWasPreviouslyUpToDate :: "k8s_lib \<Rightarrow> TartMachine \<Rightarrow> bool" where
  "machineWasPreviouslyUpToDate L machine \<longleftrightarrow>
     (case lib_find_condition L (mst_conditions (m_status machine)) TartMachineTalosUpToDateCondition of
        None \<Rightarrow> False | Some c \<Rightarrow> cond_status c = ConditionTrue)"

text \<open>\<open>MachineConfigurationUpdate\<close>, as for the reconciler but without a gate for the endpoint; \<open>auth\<close> is that of \<open>node\<close>.\<close>

definition MachineConfigurationUpdate :: "k8s_lib \<Rightarrow> tm_env \<Rightarrow> capi_machine \<Rightarrow> MachineUpdatePreparation \<Rightarrow> talos_auth \<Rightarrow> configurationUpdate" where
  "MachineConfigurationUpdate L E machine prep auth =
     (let providerID = ProviderID_String (ms_providerID (m_spec (mp_provider prep)))
      in \<lparr>cu_endpoint = mp_endpoint prep, cu_auth = auth, cu_strategy = mp_strategy prep, cu_desired = mp_configuration prep,
          cu_rebootGate = Some (restart_gate L E machine providerID (mp_endpoint prep) auth
            ''The control-plane etcd quorum could not be proven safe for a Talos restart; waiting before the machine configuration reboot.''),
          cu_nodeReady = Some (nodeReadyForMachine E machine providerID),
          cu_endpointGate = None, cu_rebootTimeout = 0, cu_rebootInterval = 0\<rparr>)"

text \<open>\<open>closeAuthenticatedForUpdate\<close>, then the rest.\<close>

definition closing :: "(tm_event list \<Rightarrow> bool) \<Rightarrow> UpdateMachineResponse tm \<Rightarrow> UpdateMachineResponse tm" where
  "closing C m = do { closed \<leftarrow> query C; if closed then m else State_Monad.return returnUpdateCloseError }"

definition rolled_back :: "k8s_lib \<Rightarrow> MachineUpdatePreparation \<Rightarrow> string \<Rightarrow> string \<Rightarrow> bool" where
  "rolled_back L prep version schematicID \<longleftrightarrow>
     (let img = ms_image (m_spec (mp_desired prep)); st = m_status (mp_provider prep)
      in mst_talosVersion st = img_version img \<and> mst_talosSchematicID st = img_schematicID img \<and>
         (version \<noteq> img_version img \<or> schematicID \<noteq> img_schematicID img) \<and> machineWasPreviouslyUpToDate L (mp_provider prep))"

text \<open>The node runs the desired image (lines 181 to 205).\<close>

definition update_configuration ::
  "(tm_event list \<Rightarrow> bool) \<Rightarrow> k8s_lib \<Rightarrow> tm_env \<Rightarrow> capi_machine \<Rightarrow> MachineUpdatePreparation \<Rightarrow> talos_auth \<Rightarrow> UpdateMachineResponse tm" where
  "update_configuration C L E machine prep auth = do {
     outcome \<leftarrow> ApplyConfigurationUpdate E (MachineConfigurationUpdate L E machine prep auth);
     closing C
       (if out_failure outcome \<noteq> [] then State_Monad.return (update_failure (out_failure outcome))
        else if out_retry outcome \<noteq> [] then State_Monad.return (setUpdateRetry (out_retry outcome))
        else do {
          (converged, retryMessage) \<leftarrow> nodeKubernetesVersionConverged E machine
            (ProviderID_String (ms_providerID (m_spec (mp_provider prep)))) (cm_version machine);
          State_Monad.return
            (if \<not> converged then setUpdateRetry retryMessage
             else \<lparr>ur_success = True,
                   ur_message = ''The Talos node is running the desired image, machine configuration, and Kubernetes version.'',
                   ur_retryAfterSeconds = 0\<rparr>)
        })
   }"

text \<open>It runs another one (lines 206 to 223).\<close>

definition update_image ::
  "(tm_event list \<Rightarrow> bool) \<Rightarrow> k8s_lib \<Rightarrow> tm_env \<Rightarrow> capi_machine \<Rightarrow> MachineUpdatePreparation \<Rightarrow> talos_auth \<Rightarrow> string \<Rightarrow> UpdateMachineResponse tm" where
  "update_image C L E machine prep auth version =
     (if \<not> ValidateUpgrade (te_talos E) version (img_version (ms_image (m_spec (mp_desired prep))))
      then closing C (State_Monad.return (update_failure ''The requested Talos version transition is not supported; the in-place update is stopped.''))
      else do {
        outcome \<leftarrow> PerformImageUpgrade L E machine (ProviderID_String (ms_providerID (m_spec (mp_provider prep)))) (mp_image prep)
          (mp_endpoint prep) auth;
        closing C (State_Monad.return
          (if out_failure outcome \<noteq> [] then update_failure (out_failure outcome) else setUpdateRetry (out_retry outcome)))
      })"

definition updateMachineAtTalos ::
  "(tm_event list \<Rightarrow> bool) \<Rightarrow> k8s_lib \<Rightarrow> tm_env \<Rightarrow> capi_machine \<Rightarrow> MachineUpdatePreparation \<Rightarrow> UpdateMachineResponse tm" where
  "updateMachineAtTalos C L E machine prep =
     (let endpoint = mp_endpoint prep; auth = AuthConfiguration (mp_configuration prep); img = ms_image (m_spec (mp_desired prep))
      in do {
        err \<leftarrow> dial E endpoint auth;
        (if err \<noteq> None
         then State_Monad.return (setUpdateRetry ''The authenticated Talos API is not reachable while the in-place update is being prepared.'')
         else do {
           version \<leftarrow> rpc_text E endpoint auth RpcVersion;
           (case version of
              Inl _ \<Rightarrow> closing C (State_Monad.return
                (setUpdateRetry ''The Talos version could not be observed while the in-place update is being prepared.''))
            | Inr v \<Rightarrow> do {
                schematic \<leftarrow> rpc_text E endpoint auth RpcSchematic;
                (case schematic of
                   Inl _ \<Rightarrow> closing C (State_Monad.return
                     (setUpdateRetry ''The Talos schematic identity could not be observed while the in-place update is being prepared.''))
                 | Inr s \<Rightarrow>
                     if rolled_back L prep v s
                     then closing C (State_Monad.return (update_failure
                       ''The Talos node rolled back after reaching the desired image; automatic recovery is stopped until the image transition is reviewed.''))
                     else if v = img_version img \<and> s = img_schematicID img then update_configuration C L E machine prep auth
                     else update_image C L E machine prep auth v)
              })
         })
      })"

text \<open>\<open>updateMachineWithClient\<close>; \<open>None\<close> stands for a nil request. The server is never made without a client.\<close>

definition updateMachineWithClient ::
  "'m hook_lib \<Rightarrow> (tm_event list \<Rightarrow> bool) \<Rightarrow> k8s_lib \<Rightarrow> tm_env \<Rightarrow> UpdateMachineRequest option \<Rightarrow> UpdateMachineResponse tm" where
  "updateMachineWithClient H C L E request =
     (case request of None \<Rightarrow> State_Monad.return (update_failure unsafeUpdateMessage)
      | Some req \<Rightarrow> do {
          preparation \<leftarrow> prepareMachineUpdate H L E req;
          (case preparation of
             Inl (PrepareRetry message) \<Rightarrow> State_Monad.return (setUpdateRetry message)
           | Inl PrepareFailed \<Rightarrow> State_Monad.return (update_failure unsafeUpdateMessage)
           | Inr prep \<Rightarrow> updateMachineAtTalos C L E (um_desiredMachine req) prep)
        })"

subsection \<open>What was prepared\<close>

definition prepared :: "'m hook_lib \<Rightarrow> k8s_lib \<Rightarrow> tm_env \<Rightarrow> tm_event list \<Rightarrow> UpdateMachineRequest \<Rightarrow> MachineUpdatePreparation \<Rightarrow> TartHost \<Rightarrow> bool" where
  "prepared H L E tr req prep host \<longleftrightarrow>
     (let machine = um_desiredMachine req; provider = mp_provider prep; img = ms_image (m_spec (mp_desired prep))
      in decodeTartMachine H (um_desiredInfrastructure req) = Inr (mp_desired prep) \<and>
         InstallerImage (te_talos E) (img_version img) (img_schematicID img) = Some (mp_image prep) \<and>
         te_get_tart_machine E tr (mt_namespace (cm_meta machine)) (cr_name (cm_infrastructureRef machine)) = Inr provider \<and>
         validateUpdateProviderOwner L provider machine \<and>
         (\<exists>r. mst_hostRef (m_status provider) = Some r \<and> te_get_host E tr r = Inr host) \<and>
         (\<exists>c. hs_consumerRef (h_spec host) = Some c \<and> ref_uid c = mt_uid (m_meta provider)) \<and>
         mp_endpoint prep = HostTalosEndpoint host \<and> mp_endpoint prep \<noteq> [] \<and> \<not> ProviderID_IsZero (ms_providerID (m_spec provider)) \<and>
         (\<exists>kept. SetProviderID (te_talos E) kept (ProviderID_String (ms_providerID (m_spec provider))) = Inr (mp_configuration prep)))"

lemma update_target_ok:
  "update_target L E tr machine desired = Inr (provider, host, endpoint) \<Longrightarrow>
     te_get_tart_machine E tr (mt_namespace (cm_meta machine)) (cr_name (cm_infrastructureRef machine)) = Inr provider \<and>
     validateUpdateProviderOwner L provider machine \<and>
     (\<exists>r. mst_hostRef (m_status provider) = Some r \<and> te_get_host E tr r = Inr host) \<and>
     (\<exists>c. hs_consumerRef (h_spec host) = Some c \<and> ref_uid c = mt_uid (m_meta provider)) \<and>
     endpoint = HostTalosEndpoint host \<and> endpoint \<noteq> []"
  by (auto simp: update_target_def Let_def split: if_splits sum.splits option.splits)

lemma bootstrap_reads: "\<exists>r. run_state (bootstrapConfigurationWithPolicy E machine) tr = (r, tr)"
  by (auto simp: bootstrapConfigurationWithPolicy_def Let_def split: sum.split)

lemma prepareMachineUpdate_run:
  "\<exists>r. run_state (prepareMachineUpdate H L E req) tr = (r, tr) \<and> (\<forall>prep. r = Inr prep \<longrightarrow> (\<exists>host. prepared H L E tr req prep host))"
proof (cases "desired_image H E req")
  case None
  then show ?thesis by (simp add: prepareMachineUpdate_def)
next
  case (Some di)
  obtain desired installer where di: "di = (desired, installer)" by fastforce
  with Some have img: "decodeTartMachine H (um_desiredInfrastructure req) = Inr desired"
    "InstallerImage (te_talos E) (img_version (ms_image (m_spec desired))) (img_schematicID (ms_image (m_spec desired))) = Some installer"
    by (auto simp: desired_image_def Let_def split: sum.splits if_splits)
  show ?thesis
  proof (cases "update_target L E tr (um_desiredMachine req) desired")
    case (Inl e)
    with Some di show ?thesis by (simp add: prepareMachineUpdate_def)
  next
    case (Inr t)
    obtain provider host endpoint where t: "t = (provider, host, endpoint)" by (cases t) auto
    obtain b where b: "run_state (bootstrapConfigurationWithPolicy E (um_desiredMachine req)) tr = (b, tr)" using bootstrap_reads by blast
    from update_target_ok[OF Inr[unfolded t]] img show ?thesis
      using Some di Inr t b
      by (auto simp: prepareMachineUpdate_def prepared_def Let_def split: sum.splits update_bootstrap_error.splits)
  qed
qed

lemma hook_run:
  assumes run: "run_state (updateMachineWithClient H C L E (Some req)) tr = (resp, tr')"
  obtains (refused) "tr' = tr" "\<not> ur_success resp \<or> ur_retryAfterSeconds resp = 30"
  | (talos) prep host where "prepared H L E tr req prep host"
      "run_state (updateMachineAtTalos C L E (um_desiredMachine req) prep) tr = (resp, tr')"
proof -
  obtain r where r: "run_state (prepareMachineUpdate H L E req) tr = (r, tr)" "\<forall>prep. r = Inr prep \<longrightarrow> (\<exists>host. prepared H L E tr req prep host)"
    using prepareMachineUpdate_run by blast
  with run refused talos show thesis
    by (cases r) (auto simp: updateMachineWithClient_def setUpdateRetry_def update_failure_def updateRetryAfterSeconds_def split: prepare_error.splits)
qed

lemma closing_run: "run_state (closing C (State_Monad.return x)) tr = (if C tr then x else returnUpdateCloseError, tr)"
  by (simp add: closing_def)

text \<open>The answers the hook got before it acted.\<close>

definition observed_node :: "tm_env \<Rightarrow> tm_event list \<Rightarrow> MachineUpdatePreparation \<Rightarrow> string \<Rightarrow> string \<Rightarrow> tm_event list \<Rightarrow> bool" where
  "observed_node E tr prep v s seen \<longleftrightarrow>
     (let ep = mp_endpoint prep; au = AuthConfiguration (mp_configuration prep)
      in te_dial E tr (Dial ep au) = None \<and> te_text E (tr @ [Dial ep au]) (Rpc ep au RpcVersion) = Inr v \<and>
         te_text E (tr @ [Dial ep au, Rpc ep au RpcVersion]) (Rpc ep au RpcSchematic) = Inr s \<and>
         seen = [Dial ep au, Rpc ep au RpcVersion, Rpc ep au RpcSchematic])"

lemma at_talos_run:
  assumes run: "run_state (updateMachineAtTalos C L E machine prep) tr = (resp, tr')"
  obtains (unobserved) new where "tr' = tr @ new" "set new \<subseteq> gate_events" "\<not> ur_success resp \<or> ur_retryAfterSeconds resp = 30"
  | (observed) v s seen where "observed_node E tr prep v s seen" "\<not> rolled_back L prep v s"
      "v = img_version (ms_image (m_spec (mp_desired prep)))" "s = img_schematicID (ms_image (m_spec (mp_desired prep)))"
      "run_state (update_configuration C L E machine prep (AuthConfiguration (mp_configuration prep))) (tr @ seen) = (resp, tr')"
  | (other) v s seen where "observed_node E tr prep v s seen" "\<not> rolled_back L prep v s"
      "v \<noteq> img_version (ms_image (m_spec (mp_desired prep))) \<or> s \<noteq> img_schematicID (ms_image (m_spec (mp_desired prep)))"
      "run_state (update_image C L E machine prep (AuthConfiguration (mp_configuration prep)) v) (tr @ seen) = (resp, tr')"
proof -
  let ?ep = "mp_endpoint prep" and ?au = "AuthConfiguration (mp_configuration prep)"
  let ?d = "Dial ?ep ?au" and ?v = "Rpc ?ep ?au RpcVersion" and ?s = "Rpc ?ep ?au RpcSchematic"
  have ev: "?d \<in> gate_events" "?v \<in> gate_events" "?s \<in> gate_events" by (simp_all add: gate_events_def drain_events_def)
  note simps = updateMachineAtTalos_def Let_def dial_def rpc_text_def closing_run setUpdateRetry_def update_failure_def
    updateRetryAfterSeconds_def returnUpdateCloseError_def
  show thesis
  proof (cases "te_dial E tr ?d")
    case (Some e)
    with run ev show thesis by (intro unobserved[of "[?d]"]) (auto simp: simps)
  next
    case dialled: None
    show thesis
    proof (cases "te_text E (tr @ [?d]) ?v")
      case (Inl e)
      with run dialled ev show thesis by (intro unobserved[of "[?d, ?v]"]) (auto simp: simps split: if_splits)
    next
      case v: (Inr v)
      show thesis
      proof (cases "te_text E (tr @ [?d, ?v]) ?s")
        case (Inl e)
        with run dialled v ev show thesis by (intro unobserved[of "[?d, ?v, ?s]"]) (auto simp: simps split: if_splits)
      next
        case s: (Inr s)
        have seen: "observed_node E tr prep v s [?d, ?v, ?s]" using dialled v s by (simp add: observed_node_def)
        show thesis
        proof (cases "rolled_back L prep v s")
          case True
          with run dialled v s ev show thesis by (intro unobserved[of "[?d, ?v, ?s]"]) (auto simp: simps split: if_splits)
        next
          case False
          with run dialled v s observed[OF seen False] other[OF seen False] show thesis by (auto simp: simps split: if_splits)
        qed
      qed
    qed
  qed
qed

end
