(* ===== verification/UpdateProperties.thy ===== *)
theory UpdateProperties
  imports UpdateHook Samples
begin

section \<open>Properties of the runtime extension\<close>

text \<open>
  What \<open>CanUpdateMachine\<close> accepts, and what \<open>UpdateMachine\<close> does to a node and when it says that it is done.
\<close>

subsection \<open>The events of the hook\<close>

abbreviation prep_auth :: "MachineUpdatePreparation \<Rightarrow> talos_auth" where
  "prep_auth prep \<equiv> AuthConfiguration (mp_configuration prep)"

abbreviation prep_id :: "MachineUpdatePreparation \<Rightarrow> string" where
  "prep_id prep \<equiv> ProviderID_String (ms_providerID (m_spec (mp_provider prep)))"

lemma configuration_update:
  "ApplyConfigurationUpdate E (MachineConfigurationUpdate L E machine prep auth) =
     PerformConfigurationUpdate L E machine (prep_id prep) (mp_configuration prep) (mp_strategy prep) (mp_endpoint prep) auth None"
  by (simp add: PerformConfigurationUpdate_def MachineConfigurationUpdate_def Let_def)

lemma converged_reads: "\<exists>r. run_state (nodeKubernetesVersionConverged E machine p v) tr = (r, tr)"
  by (auto simp: nodeKubernetesVersionConverged_def workloadClientForMachine_def findNodeByProviderID_def split: sum.splits)


text \<open>The configuration update and what follows it.\<close>

lemma update_configuration_run:
  assumes "run_state (update_configuration C L E machine prep auth) tr = (resp, tr')"
  obtains outcome where
    "run_state (PerformConfigurationUpdate L E machine (prep_id prep) (mp_configuration prep) (mp_strategy prep) (mp_endpoint prep) auth None) tr =
       (outcome, tr')"
    "ur_success resp \<Longrightarrow> ur_retryAfterSeconds resp = 0 \<Longrightarrow> out_failure outcome = [] \<and> out_retry outcome = [] \<and>
       (\<exists>m. run_state (nodeKubernetesVersionConverged E machine (prep_id prep) (cm_version machine)) tr' = ((True, m), tr'))"
proof -
  obtain outcome t1 where o: "run_state (PerformConfigurationUpdate L E machine (prep_id prep) (mp_configuration prep) (mp_strategy prep)
      (mp_endpoint prep) auth None) tr = (outcome, t1)" by fastforce
  obtain c m where c: "run_state (nodeKubernetesVersionConverged E machine (prep_id prep) (cm_version machine)) t1 = ((c, m), t1)"
    using converged_reads by (metis prod.exhaust)
  have "tr' = t1 \<and> (ur_success resp \<longrightarrow> ur_retryAfterSeconds resp = 0 \<longrightarrow> out_failure outcome = [] \<and> out_retry outcome = [] \<and> c)"
    using assms o c
    by (auto simp: update_configuration_def configuration_update closing_def setUpdateRetry_def update_failure_def updateRetryAfterSeconds_def
        returnUpdateCloseError_def split: if_splits)
  with that o c show thesis by auto
qed

lemma update_image_run:
  assumes run: "run_state (update_image C L E machine prep auth v) tr = (resp, tr')"
  shows "(\<not> ur_success resp \<or> ur_retryAfterSeconds resp = 30) \<and>
    (tr' = tr \<or> ValidateUpgrade (te_talos E) v (img_version (ms_image (m_spec (mp_desired prep)))) \<and>
      (\<exists>outcome. run_state (PerformImageUpgrade L E machine (prep_id prep) (mp_image prep) (mp_endpoint prep) auth) tr = (outcome, tr')))"
proof -
  obtain outcome t1 where o: "run_state (PerformImageUpgrade L E machine (prep_id prep) (mp_image prep) (mp_endpoint prep) auth) tr = (outcome, t1)"
    by fastforce
  with run show ?thesis
    by (auto simp: update_image_def closing_run setUpdateRetry_def update_failure_def updateRetryAfterSeconds_def returnUpdateCloseError_def
        split: if_splits)
qed

text \<open>The hook requests an image upgrade only of the host that is claimed by the TartMachine the Cluster API machine
  owns, with the configuration that carries its provider ID, when Talos answered there with another version or
  schematic than the desired one, the transition is supported, the node had not just fallen back from the desired image,
  and the restart gate (etcd quorum, drain) passed right before; it is the last thing the hook does.\<close>

theorem hook_upgrade_justified:
  assumes run: "run_state (updateMachineWithClient H C L E (Some req)) tr = (resp, tr @ new)"
    and up: "Rpc ep au (RpcUpgrade i) \<in> set new"
  shows "\<exists>prep host v s seen gate. prepared H L E tr req prep host \<and> observed_node E tr prep v s seen \<and> \<not> rolled_back L prep v s \<and>
    (v \<noteq> img_version (ms_image (m_spec (mp_desired prep))) \<or> s \<noteq> img_schematicID (ms_image (m_spec (mp_desired prep)))) \<and>
    ValidateUpgrade (te_talos E) v (img_version (ms_image (m_spec (mp_desired prep)))) \<and>
    restart_safe L E (um_desiredMachine req) (prep_id prep) ep au (tr @ seen) gate \<and>
    ep = mp_endpoint prep \<and> au = prep_auth prep \<and> i = mp_image prep \<and> new = seen @ gate @ [Rpc ep au (RpcUpgrade i)]"
  using run
proof (cases rule: hook_run)
  case refused
  with up show ?thesis by simp
next
  case (talos prep host)
  from talos(2) show ?thesis
  proof (cases rule: at_talos_run)
    case (unobserved n)
    with up show ?thesis by auto
  next
    case (observed v s seen)
    obtain outcome where o: "run_state (PerformConfigurationUpdate L E (um_desiredMachine req) (prep_id prep) (mp_configuration prep)
        (mp_strategy prep) (mp_endpoint prep) (prep_auth prep) None) (tr @ seen) = (outcome, tr @ new)"
      using update_configuration_run[OF observed(5)] by blast
    have "emits (PerformConfigurationUpdate L E (um_desiredMachine req) (prep_id prep) (mp_configuration prep)
        (mp_strategy prep) (mp_endpoint prep) (prep_auth prep) None) (- {Rpc ep au (RpcUpgrade i)})"
      by (rule emits_PerformConfigurationUpdate) (auto simp: run_gate_def emits_return drain_events_def)
    from emitsD[OF this o] observed(1) up show ?thesis by (auto simp: observed_node_def Let_def)
  next
    case (other v s seen)
    from update_image_run[OF other(4)] up other(1) obtain outcome where u: "ValidateUpgrade (te_talos E) v (img_version (ms_image (m_spec (mp_desired prep))))"
      "run_state (PerformImageUpgrade L E (um_desiredMachine req) (prep_id prep) (mp_image prep) (mp_endpoint prep) (prep_auth prep)) (tr @ seen) =
        (outcome, tr @ new)"
      by (auto simp: observed_node_def Let_def)
    have "emits (PerformImageUpgrade L E (um_desiredMachine req) (prep_id prep) (mp_image prep) (mp_endpoint prep) (prep_auth prep))
        (insert (Rpc (mp_endpoint prep) (prep_auth prep) (RpcUpgrade (mp_image prep))) gate_events)"
      unfolding PerformImageUpgrade_def by (intro emit_rules emits_mono[OF drains_restart_gate]) (use drain_gate in auto)
    from emitsD[OF this u(2)] up other(1) obtain rest where rest: "new = seen @ rest" "Rpc ep au (RpcUpgrade i) \<in> set rest"
      and same: "ep = mp_endpoint prep" "au = prep_auth prep" "i = mp_image prep"
      by (auto simp: observed_node_def Let_def)
    from upgrade_only_when_safe[OF u(2)[unfolded rest(1) append_assoc[symmetric]] rest(2)] obtain gate where
      g: "rest = gate @ [Rpc (mp_endpoint prep) (prep_auth prep) (RpcUpgrade (mp_image prep))]"
      "restart_safe L E (um_desiredMachine req) (prep_id prep) (mp_endpoint prep) (prep_auth prep) (tr @ seen) gate" by blast
    with talos(1) other(1,2,3) u(1) rest(1) same show ?thesis by blast
  qed
qed

subsection \<open>Answers\<close>

text \<open>Every answer of \<open>m\<close> satisfies \<open>P\<close>, whatever the world; a gate that refuses says why, and an update that neither
  fails nor asks for a retry is done.\<close>

definition answers :: "('e, 'a) io \<Rightarrow> ('a \<Rightarrow> bool) \<Rightarrow> bool" where
  "answers m P \<longleftrightarrow> (\<forall>tr. P (fst (run_state m tr)))"

lemma answers_return: "P x \<Longrightarrow> answers (State_Monad.return x) P"
  by (simp add: answers_def)

lemma answers_bind: "(\<And>x. answers (k x) P) \<Longrightarrow> answers (m \<bind> k) P"
  by (simp add: answers_def split: prod.split)

lemma answers_if: "(b \<Longrightarrow> answers m P) \<Longrightarrow> (\<not> b \<Longrightarrow> answers n P) \<Longrightarrow> answers (if b then m else n) P"
  by simp

lemma answers_prod: "(\<And>a b. x = (a, b) \<Longrightarrow> answers (f a b) P) \<Longrightarrow> answers (case x of (a, b) \<Rightarrow> f a b) P"
  by (cases x) simp

lemma answers_sum: "(\<And>a. answers (f a) P) \<Longrightarrow> (\<And>b. answers (g b) P) \<Longrightarrow> answers (case x of Inl a \<Rightarrow> f a | Inr b \<Rightarrow> g b) P"
  by (cases x) simp_all


lemmas answer_rules = answers_return answers_bind answers_if answers_prod answers_sum

abbreviation explained :: "bool \<times> string \<Rightarrow> bool" where
  "explained r \<equiv> fst r \<or> snd r \<noteq> []"




lemma nodeReady_explained: "answers (nodeReadyForMachine E machine p) explained"
  unfolding nodeReadyForMachine_def recover_node_def by (intro answer_rules) (auto split: sum.splits if_splits)





subsection \<open>A node that is up to date\<close>








end
