(* ===== verification/Spec2Isabelle.thy ===== *)
theory Spec2Isabelle
  imports Quorum CATrust MachineProvisioning ClusterProperties HostProperties BootstrapProperties UpdateProperties
begin

text \<open>
  This is a model of \<open>cluster-api-provider-tart\<close>, a Cluster API provider that runs Talos Linux on
  bare-metal hosts: a \<open>TartMachine\<close> claims a \<open>TartHost\<close>, Talos is installed on it with the machine
  configuration of a \<open>TartBootstrapConfig\<close>, upgraded and reconfigured in place, and when the
  machine is deleted the host is shut down, retained and, after an explicit approval, reset and
  used again.

  \<^bold>\<open>Programs with effects.\<close> What a reconciler does to the world is a trace of events; what it
  sees of it is a record of functions (\<open>tm_env\<close> for the TartMachine reconciler, \<open>host_env\<close> for the
  host repository) that take the trace so far and the request, and are otherwise arbitrary: they
  stand for the API server, the Talos nodes, the power controllers and the clock. An operation
  is a \<open>State_Monad\<close> program over the trace (\<open>Prelude\<close>). Theorems about \<open>run_state m tr = (r, tr @ new)\<close>
  therefore speak of every world and of every moment. A pointer the code mutates is returned.
  Code outside the repository is a parameter: \<open>k8s_lib\<close> (conditions, finalizers, selectors),
  \<open>talos_lib\<close> (loading and patching of configurations, version rules) and the parsers in \<open>tm_env\<close>;
  what is relied on is a named hypothesis (\<open>conditions_law\<close>, \<open>talos_patch_law\<close>, \<open>versioned\<close>,
  \<open>update_returns_host\<close>), and \<open>Samples\<close> gives an instance of each.

  \<^bold>\<open>Values.\<close> \<open>GoStrings\<close> (whitespace, numbers, quoting of the Go library), \<open>Sha256\<close>, \<open>Addresses\<close> (host and
  port); \<open>Identifiers\<close>: \<open>domain/host\<close>, \<open>domain/cluster\<close>, \<open>domain/network/mac_address.go\<close> and their text and
  JSON forms, with the round trips proved once in the locale \<open>text_codec\<close>. \<open>ApiTypes\<close>: the custom
  resources of \<open>api/\<close> as records.

  \<^bold>\<open>Hosts.\<close> \<open>HostClaims\<close>: eligibility, selection, claim decisions and identity conflicts of
  \<open>usecase/host\<close>. \<open>HostRepository\<close>: the two compare-and-swap loops of
  \<open>adapter/kubernetes/tarthostrepository.go\<close>, both instances of the locale \<open>cas_loop\<close>.
  \<open>ClaimProtocol\<close> composes any number of such clients with a versioned server.

  \<^bold>\<open>Secrets and quorum.\<close> \<open>SecretContracts\<close> and \<open>Recovery\<close>: the Secrets of \<open>domain/controlplane/bundle.go\<close>,
  \<open>usecase/bootstrap\<close> and \<open>usecase/recovery\<close>, what is built against what is accepted. \<open>Quorum\<close> and
  \<open>CATrust\<close>: \<open>domain/controlplane/quorum.go\<close> and \<open>rotation.go\<close> against majorities and trust.

  \<^bold>\<open>The TartMachine reconciler\<close> (\<open>controller/tartmachine\<close>). \<open>MachineEnv\<close>: events, environment, reports.
  \<open>MachineBinding\<close>: \<open>domain/machine\<close> and \<open>usecase/machine\<close>. \<open>MachineDeletion\<close>: \<open>deletion.go\<close>.
  \<open>MachineReprovision\<close>: \<open>reprovision.go\<close>. \<open>MachineConfiguration\<close> and \<open>EndpointLease\<close>: \<open>configuration_update.go\<close>.
  \<open>MachineTalos\<close>: \<open>talos_reconcile.go\<close>. \<open>MachineProvisioning\<close>: \<open>provisioning.go\<close>, \<open>reconciler.go\<close>.
  \<open>TalosConfig\<close>: \<open>adapter/talos/configmutate.go\<close>; \<open>UpdatePolicy\<close>: \<open>domain/update\<close>, \<open>usecase/update\<close>;
  \<open>Drain\<close>, \<open>UpdateGate\<close>, \<open>UpdateEngine\<close>: the drain, the etcd quorum gate and the in-place updates of
  \<open>controller/runtimeextension\<close>.

  \<^bold>\<open>The TartControlPlane reconciler\<close> (\<open>controller/tartcontrolplane\<close>). \<open>ControlPlaneEnv\<close>: its objects,
  events (\<open>cp_event\<close>) and world (\<open>cp_env\<close>), which serves the reads it shares with the TartMachine
  reconciler through \<open>ce_tm\<close>. \<open>EtcdRemoval\<close>: \<open>etcd.go\<close>, the scale-down. \<open>ControlPlaneBootstrap\<close>:
  \<open>bootstrap.go\<close>. \<open>KubernetesUpgrade\<close>: \<open>kubernetesupgrade.go\<close>, its decision, lease and run. \<open>CARotation\<close>:
  \<open>carotation.go\<close> with the CA edits of \<open>adapter/talos/configmutate.go\<close>, over the parameter \<open>ca_lib\<close>.
  \<open>ControlPlaneMachines\<close>: \<open>machines.go\<close>, with the JSON text (\<open>GoJson\<close>) and the SHA-256 that its template
  digests are made of. \<open>ControlPlane\<close>: \<open>status.go\<close> and \<open>reconciler.go\<close>, a whole pass.
  \<open>ControlPlaneSamples\<close> has objects and a world for it, up to a pass that upgrades the cluster, and
  \<open>ControlPlaneProperties\<close> what is proved of it. An upgrade is one request to Talos; the goroutine
  that renews its lease is modelled as one of its rounds.

  \<^bold>\<open>The TartCluster reconciler and its Secrets.\<close> \<open>BundleData\<close>: \<open>adapter/talos/certbuilder/bundle.go\<close>, the data of
  a bundle Secret and its rotation, over the parameter \<open>bundle_lib\<close>; \<open>bundle_yaml_law\<close> says that the library
  reads back what it wrote. \<open>ClusterReconciler\<close>: \<open>controller/tartcluster/reconciler.go\<close>, a whole pass over
  \<open>cl_env\<close> with the events \<open>cl_event\<close>. \<open>RecoveryCollection\<close>: \<open>controller/talosrecovery\<close>. \<open>ClusterProperties\<close>:
  what a pass may write, what a ready cluster has, what happens to a generation across lost and stale statuses,
  and when a recovery Secret goes.

  \<^bold>\<open>The TartHost reconciler\<close> (\<open>controller/tarthost/reconciler.go\<close>). \<open>HostReconciler\<close>: discovery, power-on
  budget, boot history and deletion over \<open>th_env\<close>. \<open>DiskSelector\<close>: \<open>domain/bootstrap\<close>, the selectors of disks, the
  order of patches, digests and roles. \<open>HostProperties\<close>: what is proved of both.

  \<^bold>\<open>Machine configurations\<close> (\<open>adapter/talos/configbuilder\<close>). \<open>ConfigurationDocuments\<close>: what the builder reads of a
  configuration (\<open>config_provider\<close>), and the comparisons of PKI, endpoints and images. \<open>ConfigurationBuilder\<close>:
  \<open>builder.go\<close>, the generator with its checks, the patches, the install target and the digest.
  \<open>ConfigurationChange\<close>: \<open>classify.go\<close>. The Talos library is the parameter \<open>config_lib\<close>, the \<open>talos_lib\<close> of the
  other theories is \<open>builder_talos\<close> of it; relied on are \<open>config_edit_law\<close> (an edit of the provider ID or of the
  installer image leaves the rest as it was), \<open>install_patch_law\<close> (what is loaded after the install target was
  patched in has that target) and \<open>map_order_law\<close> (Go's iteration over a map visits its entries).
  \<open>BootstrapReconciler\<close>: \<open>controller/tartbootstrapconfig/reconciler.go\<close> with \<open>usecase/bootstrap\<close>, over \<open>bc_env\<close>.
  \<open>BootstrapProperties\<close>: what a generated configuration keeps whatever the patches, which changes are never applied
  in place, on which disk a machine is installed, for which host a Secret is made, and that the TartMachine
  reconciler works with what was rendered.

  \<^bold>\<open>The runtime extension\<close> (\<open>controller/runtimeextension\<close>), with which Cluster API plans and makes in-place
  updates itself. \<open>UpdatePlan\<close>: \<open>handlers.go\<close> and \<open>patch.go\<close>, the answers of \<open>CanUpdateMachine\<close> and
  \<open>CanUpdateMachineSet\<close>, computed on JSON values, against \<open>covers\<close>: the patch makes the current spec the desired one
  and nothing outside the allowed paths differs; the JSON library is the parameter \<open>hook_lib\<close>. \<open>UpdateHook\<close>:
  \<open>update.go\<close>, the \<open>UpdateMachine\<close> hook over the world of the TartMachine reconciler, on top of \<open>UpdateGate\<close> and
  \<open>UpdateEngine\<close>. \<open>UpdateProperties\<close>: when the hook upgrades a node, and what its success means.

  \<^bold>\<open>Bounds.\<close> A claim makes \<open>claimAttempts\<close> = 3 attempts as in the code. The two polling loops take a
  number of rounds that their deadline cannot exceed: \<open>drainPolls\<close> (45 seconds at half a second) and
  the reboot observation (90 seconds at 5); the deadline itself is part of the environment, which
  may end a loop earlier. Every other loop is structural.

  \<^bold>\<open>Not modelled.\<close> Time limits of single calls, closing of connections, logging; the wire protocols
  (Talos gRPC, Redfish, Intel AMT, wake-on-LAN, DHCP, TFTP, HTTP boot); what the Talos machinery
  library does to configuration documents; the endpoint value objects; process start and
  wiring; generated code. The registration of the hooks (\<open>server.go\<close>, \<open>catalog.go\<close>) is wiring.
\<close>

section \<open>Properties\<close>

text \<open>C1. A host has at most one owner. Whatever the interleaving of claims, retentions,
  reads of any age and other writers, the committed ownership changes alternate: a host is
  only ever taken while it has no consumer, only its consumer releases it, and the consumer
  the host shows is the one that took it last.\<close>

theorem claim_exclusive:
  assumes "initial w0" and "cas_reach L w0 w"
  shows "owner_after (hs_consumerRef (h_spec (server w0))) (ledger w) =
     Some (hs_consumerRef (h_spec (server w)))"
  using assms by (simp add: ledger_reach)

theorem claim_exclusive_witness:
  "\<exists>w. cas_reach k8s_reference \<lparr>server = sample_host ''h1'' 5, copies = Map.empty, ledger = []\<rparr> w \<and>
     owner_after None (ledger w) = Some (Some (sample_consumer ''u1''))"
proof -
  define h where "h = sample_host ''h1'' 5"
  define req where "req = sample_request ''u1''"
  define w0 where "w0 = \<lparr>server = h, copies = Map.empty, ledger = []\<rparr>"
  define w1 where "w1 = w0\<lparr>copies := (copies w0)(0 \<mapsto> server w0)\<rparr>"
  define s where "s = next_version (set_consumer (req_consumer req) h)"
  define w2 where "w2 = w1\<lparr>server := s, copies := (copies w1)(0 \<mapsto> s), ledger := ledger w1 @ [Took (req_consumer req)]\<rparr>"
  have "claim_verdict k8s_reference req h = Inr ClaimApply"
    by (simp add: h_def req_def claim_verdict_apply ValidConsumerReference_def ValidateClaimCandidate_ok
        HostID_IsZero_def uuid_nil_def MatchesForFailureDomain_def sample_defs)
  moreover have "copies w1 0 = Some h" "rv h = rv (server w1)" by (simp_all add: w1_def w0_def)
  ultimately have s2: "cas_step k8s_reference w1 w2" unfolding w2_def by (metis cas_step.claim s_def)
  have "cas_step k8s_reference w0 w1" unfolding w1_def by (rule cas_step.read)
  with s2 have r: "cas_reach k8s_reference w0 w2" by (meson cas_reach.intros)
  have "initial w0" "hs_consumerRef (h_spec (server w0)) = None"
    by (simp_all add: initial_def w0_def h_def sample_defs)
  moreover have "hs_consumerRef (h_spec (server w2)) = Some (sample_consumer ''u1'')"
    by (simp add: w2_def s_def req_def sample_request_def)
  ultimately have "owner_after None (ledger w2) = Some (Some (sample_consumer ''u1''))"
    using claim_exclusive[OF _ r] by simp
  with r show ?thesis unfolding w0_def h_def by blast
qed

text \<open>C2. A machine's reconciliation asks a node in maintenance mode for an installation only at the
  endpoint of the host the machine claimed, once the node has shown that host's MAC address,
  never for a machine whose installation was observed before, with the configuration
  prepared for the desired image and the host's provider ID, and only while the host shows
  the recovery identity with which the installation can be reset.\<close>

theorem install_verified:
  assumes "run_state (reconcileTalos L E ns machine selected configuration) tr = (r, tr @ new)"
    and "Rpc a AuthNone (RpcApply md c) \<in> set new"
  shows "a = HostTalosEndpoint selected \<and> md = ApplyNoReboot \<and> \<not> IsProvisioned machine \<and>
     prepare_configuration E machine configuration = Inr c \<and>
     (\<exists>pre inv rest. te_inventory E (tr @ pre @ [Dial a AuthNone]) (Rpc a AuthNone RpcInventory) = Inr inv \<and>
        HasMAC inv (hs_macAddress (h_spec selected)) \<and>
        host_binding (hst_currentTalosIdentityRef (h_status selected)) pre \<noteq> None \<and> set rest \<subseteq> status_events \<and>
        new = pre @ [Dial a AuthNone, Rpc a AuthNone RpcInventory, Rpc a AuthNone (RpcApply ApplyNoReboot c)] @ rest)"
  using reconcileTalos_installs[OF assms] by metis

theorem install_verified_witness:
  "let new = snd (run_state (reconcileTalos k8s_reference sample_maintenance ''ns'' sample_machine sample_bound_host ''cfg'') [])
   in Rpc ''10.0.0.1'' AuthNone (RpcApply ApplyNoReboot ''cfg:tart://h'') \<in> set new \<and>
      prepare_configuration sample_maintenance sample_machine ''cfg'' = Inr ''cfg:tart://h''"
proof -
  let ?m = "reconcileTalos k8s_reference sample_maintenance ''ns'' sample_machine sample_bound_host ''cfg''"
  have e: "Rpc ''10.0.0.1'' AuthNone (RpcApply ApplyNoReboot ''cfg:tart://h'') \<in> set (snd (run_state ?m []))"
    by code_simp
  from install_verified[OF from_start e] e show ?thesis by (simp only: Let_def)
qed



text \<open>C5. A Talos installation is reset only through the recovery identity the host is bound to, only
  when the reuse of the host was approved, and only after the node at the other end of that
  connection showed the cluster ID of the binding and the MAC address and system UUID of
  the host.\<close>

theorem reset_only_of_the_approved_installation:
  assumes "run_state (reconcileReprovision L E ns machine selected endpoint) tr = ((r, h'), tr @ new)"
    and "Rpc ep auth RpcReset \<in> set new"
  shows "\<exists>m. ep = endpoint \<and> auth = AuthRecovery m \<and> reset_authorised L E ns selected endpoint m tr \<and>
     (\<exists>rest. new = reset_requests endpoint m @ Rpc endpoint (AuthRecovery m) RpcReset # rest \<and>
        set rest \<subseteq> range MachineStatusPatch)"
  using assms by (rule reset_only_authorised)

theorem reset_only_of_the_approved_installation_witness:
  "\<exists>r h' new. run_state (reconcileReprovision sample_lib sample_recovery ''ns'' sample_machine
       (sample_reuse_host (Some sample_old_identity)) ''10.0.0.1'') [] = ((r, h'), [] @ new) \<and>
     reset_authorised sample_lib sample_recovery ''ns'' (sample_reuse_host (Some sample_old_identity)) ''10.0.0.1'' sample_material []"
proof -
  let ?h = "sample_reuse_host (Some sample_old_identity)"
  have "\<exists>r rest. run_state (reconcileReprovision sample_lib sample_recovery ''ns'' sample_machine ?h ''10.0.0.1'') [] =
     (r, [] @ reset_requests ''10.0.0.1'' sample_material @ Rpc ''10.0.0.1'' (AuthRecovery sample_material) RpcReset # rest)"
  proof (rule installed_node_reset[OF sample_installed sample_reuse_approved])
    show "hst_currentTalosIdentityRef (h_status ?h) = Some sample_old_identity" by (simp add: sample_reuse_host_def)
    show "tid_clusterID sample_old_identity = mat_clusterID sample_material"
      by (simp add: sample_old_identity_def sample_material_def)
    show "run_state (recoveryMaterial sample_lib sample_recovery ''ns'' sample_old_identity) [] = (Some sample_material, [])"
      by (rule sample_material_read) (simp_all add: sample_old_identity_def sample_recovery_name)
    show "trim_space ''10.0.0.1'' = ''10.0.0.1''" by code_simp
  qed (use sample_cluster_id_nonzero sample_not_blank in \<open>simp_all add: sample_reuse_host_def sample_defs MAC_IsZero_def sample_material_def\<close>)
  then obtain r h' rest where run: "run_state (reconcileReprovision sample_lib sample_recovery ''ns'' sample_machine ?h ''10.0.0.1'') [] =
     ((r, h'), [] @ reset_requests ''10.0.0.1'' sample_material @ Rpc ''10.0.0.1'' (AuthRecovery sample_material) RpcReset # rest)"
    by (metis prod.exhaust)
  have "Rpc ''10.0.0.1'' (AuthRecovery sample_material) RpcReset \<in>
     set (reset_requests ''10.0.0.1'' sample_material @ Rpc ''10.0.0.1'' (AuthRecovery sample_material) RpcReset # rest)" by simp
  from reset_only_of_the_approved_installation[OF run this] run show ?thesis by blast
qed

text \<open>C24. The binding of a host to its recovery identity is removed only after the same host (by
  its MAC address) answered without authentication, that is in maintenance mode.\<close>

theorem unbinding_only_in_maintenance:
  assumes "run_state (reconcileReprovision L E ns machine selected endpoint) tr = ((r, h'), tr @ new)"
    and "HostStatusPatch k \<in> set new"
  shows "\<exists>pre i. new = pre @ [Dial endpoint AuthNone, Rpc endpoint AuthNone RpcInventory, HostStatusPatch k] \<and>
     te_inventory E (tr @ pre @ [Dial endpoint AuthNone]) (Rpc endpoint AuthNone RpcInventory) = Inr i \<and>
     HasMAC i (hs_macAddress (h_spec selected)) \<and> k = bind_identity None selected \<and> h' = k"
  using assms by (rule unbound_only_in_maintenance)

theorem unbinding_only_in_maintenance_witness:
  "let E = sample_recovery\<lparr>te_dial := \<lambda>_ e. case e of Dial _ (AuthRecovery _) \<Rightarrow> Some DialFailed | _ \<Rightarrow> None\<rparr>;
       h = sample_reuse_host (Some sample_old_identity);
       k = bind_identity None h;
       new = [Dial ''10.0.0.1'' (AuthRecovery sample_material), Dial ''10.0.0.1'' AuthNone, Rpc ''10.0.0.1'' AuthNone RpcInventory, HostStatusPatch k]
   in run_state (reconcileReprovision sample_lib E ''ns'' sample_machine h ''10.0.0.1'') [] = ((None, k), [] @ new) \<and>
      (\<exists>pre i. new = pre @ [Dial ''10.0.0.1'' AuthNone, Rpc ''10.0.0.1'' AuthNone RpcInventory, HostStatusPatch k] \<and>
         HasMAC i (hs_macAddress (h_spec h)))"
proof -
  define E where "E = sample_recovery\<lparr>te_dial := \<lambda>_ e. case e of Dial _ (AuthRecovery _) \<Rightarrow> Some DialFailed | _ \<Rightarrow> None\<rparr>"
  define h where "h = sample_reuse_host (Some sample_old_identity)"
  define k where "k = bind_identity None h"
  define new where "new = [Dial ''10.0.0.1'' (AuthRecovery sample_material), Dial ''10.0.0.1'' AuthNone, Rpc ''10.0.0.1'' AuthNone RpcInventory, HostStatusPatch k]"
  have m: "run_state (recoveryMaterial sample_lib E ''ns'' sample_old_identity) [] = (Some sample_material, [])"
    by (simp add: run_recoveryMaterial E_def sample_recovery_def sample_old_identity_def sample_recovery_name sample_recovery_decoded)
  have mac: "HasMAC sample_inventory (hs_macAddress (h_spec h))"
    by (simp add: h_def sample_reuse_host_def sample_defs HasMAC_def MAC_IsZero_def sample_inventory_def)
  have dialled: "te_dial E [] (Dial ''10.0.0.1'' (AuthRecovery sample_material)) = Some DialFailed"
    "te_dial E t (Dial ''10.0.0.1'' AuthNone) = None" "te_inventory E t e = Inr sample_inventory" "te_write E t e = None" for t e
    by (simp_all add: E_def sample_recovery_def sample_tm_def)
  have ap: "ReprovisionApproved (h_spec h)" unfolding h_def by (rule sample_reuse_approved)
  have b: "hst_currentTalosIdentityRef (h_status h) = Some sample_old_identity" by (simp add: h_def sample_reuse_host_def)
  have run: "run_state (reconcileReprovision sample_lib E ''ns'' sample_machine h ''10.0.0.1'') [] = ((None, k), [] @ new)"
    using ap by (simp add: reconcileReprovision_def b m dial_def dialled
        confirmReprovisionCompleted_def rpc_inventory_def api_write_def mac Let_def new_def k_def)
  have "HostStatusPatch k \<in> set new" by (simp add: new_def)
  from unbinding_only_in_maintenance[OF run this] run show ?thesis
    unfolding Let_def E_def[symmetric] h_def[symmetric] k_def[symmetric] new_def[symmetric] by blast
qed

text \<open>The approval of a reuse outlives it: after the reset, the confirmation of maintenance mode
  and the installation of the new cluster, the host is bound to the recovery identity of the
  new installation, its approval is still there, and the next reconciliation that reaches
  the node through that identity resets the installation it has just made.\<close>

theorem new_installation_is_reset_again:
  assumes "run_state (ensureTalosIdentityBinding L E ns machine h) tr = ((False, h'), tr')"
    and "hst_currentTalosIdentityRef (h_status h) = None" and "ReprovisionApproved (h_spec h)"
    and "hst_currentTalosIdentityRef (h_status h') = Some identity"
    and "run_state (recoveryMaterial L E ns identity) tr2 = (Some m, tr2)"
    and "installed_node E tr2 h' endpoint m"
    and "\<not> MAC_IsZero (hs_macAddress (h_spec h))" "\<not> blank endpoint" "trim_space endpoint = endpoint"
  shows "\<exists>r rest. run_state (reconcileReprovision L E ns machine h' endpoint) tr2 =
     (r, tr2 @ reset_requests endpoint m @ Rpc endpoint (AuthRecovery m) RpcReset # rest)"
  using assms by (rule rebound_host_reset)

theorem new_installation_is_reset_again_witness:
  "\<exists>h' tr' r rest. run_state (ensureTalosIdentityBinding sample_lib sample_recovery ''ns'' sample_machine (sample_reuse_host None)) [] =
       ((False, h'), tr') \<and>
     run_state (reconcileReprovision sample_lib sample_recovery ''ns'' sample_machine h' ''10.0.0.1'') [] =
       (r, [] @ reset_requests ''10.0.0.1'' sample_material @ Rpc ''10.0.0.1'' (AuthRecovery sample_material) RpcReset # rest)"
proof -
  let ?i = "\<lparr>tid_clusterID = sample_cluster_id, tid_recoverySecretRef = sec_name sample_recovery_secret, tid_boundAt = 1001\<rparr>"
  have bun: "run_state (activeSecretsBundle sample_lib sample_recovery sample_machine) [] =
      (Some \<lparr>tb_clusterID = Some (ClusterID_String sample_cluster_id), tb_os = Some sample_ca, tb_k8s = None, tb_aggregator = None\<rparr>, [])"
    using sample_bundle_valid
    by (simp add: activeSecretsBundle_def find_capi_machine_def FindCAPIMachineForInfrastructure_def findCAPIMachine_def
        sample_machine_def sample_recovery_def sample_tm_def sample_capi_def refers_to_infrastructure_def sample_cluster_def
        sample_tart_def sample_defs sample_lib_def k8s_reference_def BundleName_def sample_cluster_id_nonzero
        TartMachineKind_def infra_group_def TartClusterKind_def DecodeBundleData_def BundleDataKey_def sample_bundle_data Let_def)
  have mat: "MaterialFromBundle (Some \<lparr>tb_clusterID = Some (ClusterID_String sample_cluster_id), tb_os = Some sample_ca, tb_k8s = None, tb_aggregator = None\<rparr>) = Inr sample_material"
    using sample_cluster_id_nonzero
    by (auto simp: MaterialFromBundle_def sample_ca_def sample_material_def dest: arg_cong[of _ _ length]
        split: sum.splits) (simp_all add: ClusterID_String_def)
  have answers: "te_write sample_recovery t e = None" "te_now sample_recovery t = 1000 + int (length t)" for t e
    by (simp_all add: sample_recovery_def sample_tm_def)
  have cid: "mat_clusterID sample_material = sample_cluster_id" by (simp add: sample_material_def)
  have bind: "run_state (ensureTalosIdentityBinding sample_lib sample_recovery ''ns'' sample_machine (sample_reuse_host None)) [] =
     ((False, sample_reuse_host (Some ?i)), [SecretCreate sample_recovery_secret, HostStatusPatch (sample_reuse_host (Some ?i))])"
    by (simp add: ensureTalosIdentityBinding_def bun mat sample_recovery_built shouldRebindTalosIdentity_def sample_reuse_host_def
        bind_identity_def api_write_def answers cid Let_def)
  have "\<exists>r rest. run_state (reconcileReprovision sample_lib sample_recovery ''ns'' sample_machine (sample_reuse_host (Some ?i)) ''10.0.0.1'') [] =
     (r, [] @ reset_requests ''10.0.0.1'' sample_material @ Rpc ''10.0.0.1'' (AuthRecovery sample_material) RpcReset # rest)"
  proof (rule new_installation_is_reset_again[OF bind])
    show "run_state (recoveryMaterial sample_lib sample_recovery ''ns'' ?i) [] = (Some sample_material, [])"
      by (rule sample_material_read) (simp_all add: sample_recovery_name)
    show "installed_node sample_recovery [] (sample_reuse_host (Some ?i)) ''10.0.0.1'' sample_material" by (rule sample_installed)
    show "ReprovisionApproved (h_spec (sample_reuse_host None))" by (rule sample_reuse_approved)
    show "trim_space ''10.0.0.1'' = ''10.0.0.1''" by code_simp
  qed (use sample_not_blank in \<open>simp_all add: sample_reuse_host_def sample_defs MAC_IsZero_def\<close>)
  with bind show ?thesis by blast
qed

text \<open>C9. A deleted machine gives its host back only when the drain of the CAPI Machine is complete,
  a shutdown request is recorded as the reason of \<open>Ready\<close>, that condition changed its status
  at least thirty seconds ago (which may be before the request, see \<open>shutdown_wait_measured\<close>),
  and the host was observed to be off or, without a power observer, confirmed off and
  silent; the host then has no consumer and remembers the machine. The same reconciler
  records a request that was not recorded yet only right after Talos, or the power backend,
  accepted it.\<close>

theorem host_released_only_when_stopped:
  assumes "run_state (reconcileDeletion L E machine) tr = (r, tr @ new)"
  shows "(\<forall>k. HostRepo (HostUpdate k) \<in> set new \<longrightarrow>
     (\<exists>selected seen rest ready. new = seen @ rest \<and> set seen \<subseteq> observing \<and> drained L E tr machine \<and>
        run_state (findClaimedHost E machine) tr = (Inr (Some selected), tr) \<and>
        lib_find_condition L (mst_conditions (m_status machine)) TartMachineReadyCondition = Some ready \<and>
        cond_reason ready = ShutdownRequestedReason \<and> cond_lastTransitionTime ready \<noteq> 0 \<and>
        30 * second \<le> te_now E tr - cond_lastTransitionTime ready \<and>
        stop_evidence E selected machine tr seen) \<and>
     hs_consumerRef (h_spec k) = None \<and>
     (\<exists>p. hs_previousConsumerRef (h_spec k) = Some p \<and> prev_uid p = mt_uid (m_meta machine))) \<and>
    (\<forall>m. conditions_law L \<longrightarrow> MachineStatusPatch m \<in> set new \<longrightarrow> HasShutdownRequest L m \<longrightarrow> \<not> HasShutdownRequest L machine \<longrightarrow>
      (\<exists>before e. new = before @ [e, MachineStatusPatch m] \<and> shutdown_accepted E (tr @ before) e))"
proof (intro conjI allI impI, goal_cases)
  case (1 k)
  from release_only_when_stopped[OF assms this] show ?case unfolding may_release_def ShutdownRequestSettled_iff by blast
next
  case (2 k)
  from release_only_when_stopped[OF assms this] show ?case by blast
next
  case (3 k)
  from release_only_when_stopped[OF assms this] show ?case by blast
next
  case (4 m)
  then show ?case using request_recorded_when_accepted[OF _ assms] by blast
qed

theorem host_released_only_when_stopped_witness:
  "HostRepo (HostUpdate sample_released_host) \<in> set (snd (run_state (reconcileDeletion k8s_reference sample_deletion sample_stopping) [])) \<and>
   (\<exists>selected seen. stop_evidence sample_deletion selected sample_stopping [] seen)"
proof -
  have e: "HostRepo (HostUpdate sample_released_host) \<in> set (snd (run_state (reconcileDeletion k8s_reference sample_deletion sample_stopping) []))"
    by code_simp
  from host_released_only_when_stopped[OF from_start] e show ?thesis by blast
qed

text \<open>C10. The finalizer of a machine is removed only after the drain, and only when the machine has
  no host or its host was retained with the machine's UID.\<close>

theorem finalizer_removed_only_after_retention:
  assumes "run_state (reconcileDeletion L E machine) tr = (r, tr @ new)" and "MachinePatch m \<in> set new"
  shows "drained L E tr machine \<and>
    (run_state (findClaimedHost E machine) tr = (Inr None, tr) \<or>
     (\<exists>selected seen p h htr. may_release L E tr machine selected seen \<and>
        run_state (RetainHost (repo_env E (tr @ seen)) (Some selected) (machine_consumer machine) p) [] = ((None, h), htr) \<and>
        prev_uid p = mt_uid (m_meta machine) \<and> new = seen @ map HostRepo htr @ [MachinePatch m]))"
  using assms by (rule finalizer_only_after_retention)

theorem finalizer_removed_only_after_retention_witness:
  "MachinePatch (sample_stopping\<lparr>m_meta := (m_meta sample_stopping)\<lparr>mt_finalizers := []\<rparr>\<rparr>) \<in>
     set (snd (run_state (reconcileDeletion k8s_reference sample_deletion sample_stopping) [])) \<and>
   drained k8s_reference sample_deletion [] sample_stopping"
proof -
  have e: "MachinePatch (sample_stopping\<lparr>m_meta := (m_meta sample_stopping)\<lparr>mt_finalizers := []\<rparr>\<rparr>) \<in>
      set (snd (run_state (reconcileDeletion k8s_reference sample_deletion sample_stopping) []))"
    by code_simp
  from finalizer_removed_only_after_retention[OF from_start e] e show ?thesis by blast
qed

text \<open>Before the CAPI Machine has finished its drain and volume detachment a deletion changes
  nothing but the status of the machine: no shutdown, no power request, no release.\<close>

theorem deletion_waits_for_the_drain:
  assumes "\<not> drained L E tr machine"
  shows "set (new_events (reconcileDeletion L E machine) tr) \<subseteq> range MachineStatusPatch"
  using assms by (rule reconcileDeletion_undrained)

theorem deletion_waits_for_the_drain_witness:
  "\<not> drained k8s_reference sample_tm [] sample_stopping \<and>
   set (new_events (reconcileDeletion k8s_reference sample_tm sample_stopping) []) \<subseteq> range MachineStatusPatch"
proof -
  have "FindCAPIMachineForInfrastructure k8s_reference (te_get_capi_machine sample_tm [] ''default'')
      (te_list_capi_machines sample_tm [] ''default'') (m_meta sample_stopping) = Inr sample_capi"
    by code_simp
  moreover have "mt_namespace (m_meta sample_stopping) = ''default''" "\<not> DeletionDrainComplete k8s_reference (Some sample_capi)"
    by code_simp+
  ultimately have "\<not> drained k8s_reference sample_tm [] sample_stopping" by (simp add: drained_def)
  then show ?thesis using deletion_waits_for_the_drain by blast
qed

text \<open>C23. An in-place configuration update reboots a node only when its strategy asks for a reboot,
  after the etcd quorum and the drain allowed the restart, and with the boot time and the
  staged configuration in place right before.\<close>

theorem configuration_reboot_gated:
  assumes "run_state (PerformConfigurationUpdate L E machine p desired strategy ep au g) tr = (r, tr @ new)"
    and "quiet_gate g" and "Rpc ep' au' RpcReboot \<in> set new"
  shows "strategy \<noteq> ConfigurationApplyStrategyApplyOnly \<and>
    (\<exists>pre gate post. restart_safe L E machine p ep au (tr @ pre) gate \<and>
       new = pre @ gate @ [Rpc ep au RpcBootTime, Rpc ep au (RpcApply ApplyStaged desired), Rpc ep au RpcReboot] @ post)"
  using assms by (rule machine_reboot_safe)

theorem configuration_reboot_gated_witness:
  "Rpc ''ep'' AuthNone RpcReboot \<in> set (snd (run_state (PerformConfigurationUpdate k8s_reference sample_tm sample_capi ''tart://h'' ''new''
     ConfigurationApplyStrategyStagedReboot ''ep'' AuthNone None) [])) \<and>
   (\<exists>pre gate. restart_safe k8s_reference sample_tm sample_capi ''tart://h'' ''ep'' AuthNone pre gate)"
proof -
  have e: "Rpc ''ep'' AuthNone RpcReboot \<in> set (snd (run_state (PerformConfigurationUpdate k8s_reference sample_tm sample_capi ''tart://h'' ''new''
     ConfigurationApplyStrategyStagedReboot ''ep'' AuthNone None) []))" by code_simp
  from configuration_reboot_gated[OF from_start _ e] e show ?thesis by (auto simp: quiet_gate_def)
qed

text \<open>C8. A control-plane node is declared safe to restart only when no control-plane machine of
  the cluster is deleted or being updated, the etcd member list has distinct voting members,
  each other machine was seen to be one of them, healthy, with a member ID of its own, and
  the machines account for all members, of which there are one or at least three.\<close>

theorem control_plane_restart_proved_safe:
  assumes "run_state (controlPlaneUpgradeSafe L E target endpoint auth) tr = (True, tr')"
  shows "\<exists>machines members tid ids.
     te_list_capi_machines E tr (mt_namespace (cm_meta target)) = Inr machines \<and>
     (\<forall>m \<in> set (cluster_peers L target machines). mt_deletionTimestamp (cm_meta m) = None) \<and>
     te_etcd_members E tr (Rpc endpoint auth RpcEtcdMembers) = Inr members \<and>
     (\<forall>m \<in> set members. em_id m \<noteq> 0 \<and> \<not> em_learner m) \<and>
     distinct (map em_id members) \<and> set (map em_id members) = set (tid # ids) \<and> distinct (tid # ids) \<and>
     list_all2 (\<lambda>m i. peer_idle L m \<and> seen_healthy L E m i)
       (filter (\<lambda>m. mt_uid (cm_meta m) \<noteq> mt_uid (cm_meta target)) (cluster_peers L target machines)) ids \<and>
     (length members = 1 \<or> 3 \<le> length members)"
  using assms by (rule controlPlaneUpgradeSafe_proves)

theorem control_plane_restart_proved_safe_witness:
  "run_state (controlPlaneUpgradeSafe k8s_reference (sample_tm\<lparr>te_list_capi_machines := \<lambda>_ _. Inr [sample_control_plane]\<rparr>)
     sample_control_plane ''ep'' AuthNone) [] =
     (True, [Rpc ''ep'' AuthNone RpcEtcdMembers, Rpc ''ep'' AuthNone RpcEtcdStatus]) \<and>
   mt_deletionTimestamp (cm_meta sample_control_plane) = None"
proof -
  let ?E = "sample_tm\<lparr>te_list_capi_machines := \<lambda>_ _. Inr [sample_control_plane]\<rparr>"
  have t: "fst (run_state (controlPlaneUpgradeSafe k8s_reference ?E sample_control_plane ''ep'' AuthNone) []) = True"
    "snd (run_state (controlPlaneUpgradeSafe k8s_reference ?E sample_control_plane ''ep'' AuthNone) []) =
       [Rpc ''ep'' AuthNone RpcEtcdMembers, Rpc ''ep'' AuthNone RpcEtcdStatus]"
    by code_simp+
  have "sample_control_plane \<in> set (cluster_peers k8s_reference sample_control_plane [sample_control_plane])" by code_simp
  moreover have "te_list_capi_machines ?E [] ns = Inr [sample_control_plane]" for ns by simp
  ultimately have "mt_deletionTimestamp (cm_meta sample_control_plane) = None"
    using control_plane_restart_proved_safe[OF outcome[OF t(1)]] by (metis sum.inject(2))
  with t show ?thesis by (simp add: prod_eq_iff)
qed

text \<open>The drain step of a restart answers yes only when there is no workload cluster or no such
  node in it, or when the node was cordoned and every pod on it was settled: evicted and
  gone, exempt, or left because the disruption policy of the cluster allows downtime.\<close>

theorem restart_waits_for_the_drain:
  assumes "run_state (enforceDrainPolicy L E machine providerID) tr = ((True, msg), tr')"
  shows "tr' = tr \<and> nothing_to_drain E tr machine providerID \<or>
     (\<exists>new. tr' = tr @ new \<and> node_drained L E tr new machine providerID)"
  using assms by (rule enforceDrainPolicy_proceeds)

theorem restart_waits_for_the_drain_witness:
  "\<exists>new. run_state (enforceDrainPolicy k8s_reference sample_workload sample_capi ''tart://h'') [] = ((True, []), [] @ new) \<and>
     PodEvict ''kubeconfig'' ''apps'' ''web'' \<in> set new \<and>
     node_drained k8s_reference sample_workload [] new sample_capi ''tart://h''"
proof -
  let ?m = "enforceDrainPolicy k8s_reference sample_workload sample_capi ''tart://h''"
  have kubeconfig: "run_state (workloadClientForMachine sample_workload sample_capi) t = (Inr ''kubeconfig'', t)"
    "run_state (findNodeByProviderID sample_workload ''kubeconfig'' ''tart://h'') t = (Inr sample_node, t)" for t
    by (simp_all add: workloadClientForMachine_def findNodeByProviderID_def sample_workload_def sample_tm_def sample_capi_def sample_defs sample_node_def)
  have w: "te_list_pods sample_workload t k n = Inr [sample_pod]" "te_write sample_workload t (NodeUpdate k nd) = None"
    "te_write sample_workload t (PodEvict a b c) = None" "te_write sample_workload t (PodGet a b c) = Some ApiNotFound" for t k n nd a b c
    by (simp_all add: sample_workload_def)
  have ev: "podRequiresEviction k8s_reference sample_pod"
    by (simp add: podRequiresEviction_def sample_pod_def k8s_reference_def)
  have pod: "pd_namespace sample_pod = ''apps''" "pd_name sample_pod = ''web''" by (simp_all add: sample_pod_def)
  have "run_state (wait_pending (Suc n) sample_workload k [(a, b)]) t = (None, t @ [PodGet k a b])" for n k a b t
    by (simp add: api_write_def w)
  from this[of 90] have waited: "run_state (waitForEvictedPods sample_workload k [(a, b)]) t = (None, t @ [PodGet k a b])" for k a b t
    by (simp add: waitForEvictedPods_def drainPolls_def)
  have t: "fst (run_state ?m []) = (True, [])" "PodEvict ''kubeconfig'' ''apps'' ''web'' \<in> set (snd (run_state ?m []))"
    using ev pod by (simp_all add: enforceDrainPolicy_def kubeconfig cordonNode_def drainNode_def waited api_write_def w Let_def)
  then show ?thesis using restart_waits_for_the_drain[OF outcome[OF t(1)]] ev
    by (intro exI[of _ "snd (run_state ?m [])"]) (auto simp: prod_eq_iff nothing_to_drain_def kubeconfig)
qed

text \<open>A node whose pods are all terminating already counts as drained: the second attempt
  after a drain timed out restarts it while its pods are still running.\<close>

theorem terminating_pods_do_not_delay_the_restart:
  assumes "te_list_pods E tr k nodeName = Inr ps" "\<forall>pod \<in> set ps. pd_deleting pod"
  shows "run_state (drainNode L E k nodeName) tr = (Inr \<lparr>evictedAll = True, pdbBlockedOnly = False\<rparr>, tr)"
  using assms by (rule terminating_pods_skipped)

theorem terminating_pods_do_not_delay_the_restart_witness:
  "run_state (drainNode k8s_reference (sample_tm\<lparr>te_list_pods := \<lambda>_ _ _. Inr [sample_pod\<lparr>pd_deleting := True\<rparr>]\<rparr>) ''k'' ''n'') [] =
     (Inr \<lparr>evictedAll = True, pdbBlockedOnly = False\<rparr>, [])"
  by (rule terminating_pods_do_not_delay_the_restart[of _ _ _ _ "[sample_pod\<lparr>pd_deleting := True\<rparr>]"]) simp_all

text \<open>C34. A change of the control-plane endpoint is let through to a control-plane machine only when
  it was itself observed among the cluster's control planes and every one of them with a
  lesser name is Ready, has the new endpoint in its status and its configuration up to date;
  and to a worker only when there is a control plane and all of them are so.\<close>

theorem endpoint_change_in_order:
  assumes "run_state (endpointUpdateGate L E machine endpoint) tr = ((True, msg), tr')"
  shows "tr' = tr \<and> (\<exists>machines. te_list_capi_machines E tr (mt_namespace (cm_meta machine)) = Inr machines \<and>
     (if isControlPlaneMachineForEndpoint L machine
      then \<exists>target \<in> set machines. endpoint_peer L machine target \<and> mt_uid (cm_meta target) = mt_uid (cm_meta machine) \<and>
             (\<forall>m \<in> set machines. endpoint_peer L machine m \<and> mt_name (cm_meta m) < mt_name (cm_meta target) \<longrightarrow>
                converged_on L E tr endpoint m)
      else (\<exists>m \<in> set machines. endpoint_peer L machine m) \<and>
           (\<forall>m \<in> set machines. endpoint_peer L machine m \<longrightarrow> converged_on L E tr endpoint m)))"
  using assms by (rule endpointUpdateGate_order)

theorem endpoint_change_in_order_witness:
  "let E = sample_tm\<lparr>te_list_capi_machines := \<lambda>_ _. Inr [sample_second_control_plane, sample_control_plane],
         te_get_tart_machine := \<lambda>_ _ _. Inr sample_converged\<rparr>
   in run_state (endpointUpdateGate k8s_reference E sample_second_control_plane ''new'') [] = ((True, []), []) \<and>
      mt_name (cm_meta sample_control_plane) < mt_name (cm_meta sample_second_control_plane) \<and>
      converged_on k8s_reference E [] ''new'' sample_control_plane"
proof -
  define E where "E = sample_tm\<lparr>te_list_capi_machines := \<lambda>_ _. Inr [sample_second_control_plane, sample_control_plane],
         te_get_tart_machine := \<lambda>_ _ _. Inr sample_converged\<rparr>"
  have t: "fst (run_state (endpointUpdateGate k8s_reference E sample_second_control_plane ''new'') []) = (True, [])"
    unfolding E_def by code_simp
  have cs: "isControlPlaneMachineForEndpoint k8s_reference sample_second_control_plane"
    "mt_uid (cm_meta sample_control_plane) \<noteq> mt_uid (cm_meta sample_second_control_plane)"
    "endpoint_peer k8s_reference sample_second_control_plane sample_control_plane"
    "mt_name (cm_meta sample_control_plane) < mt_name (cm_meta sample_second_control_plane)" by code_simp+
  have "te_list_capi_machines E [] ns = Inr [sample_second_control_plane, sample_control_plane]" for ns by (simp add: E_def)
  with endpoint_change_in_order[OF outcome[OF t]] cs have
    "converged_on k8s_reference E [] ''new'' sample_control_plane"
    "snd (run_state (endpointUpdateGate k8s_reference E sample_second_control_plane ''new'') []) = []"
    by auto
  with t cs(4) show ?thesis unfolding Let_def E_def[symmetric] by (simp add: prod_eq_iff)
qed

text \<open>The lease of the endpoint, once held, keeps every other machine of the cluster from
  taking it for fifteen minutes after the last renewal.\<close>

theorem endpoint_lease_excludes:
  assumes "te_get_lease E tr (mt_namespace (cm_meta machine)) (endpointLeaseName (cm_clusterName machine)) = Inr (held_lease lease uid t)"
    and "uid \<noteq> []" "uid \<noteq> mt_uid (cm_meta machine)" "te_now E tr \<le> t + 900 * second"
    and "mt_uid (cm_meta machine) \<noteq> []" "cm_clusterName machine \<noteq> []"
  shows "run_state (acquireEndpointLease E machine) tr = (Inr False, tr)"
  using acquire_taken[OF assms(1)] held_lease_taken assms(2-6) by blast

theorem endpoint_lease_excludes_witness:
  "run_state (acquireEndpointLease (sample_tm\<lparr>te_get_lease := \<lambda>_ _ _. Inr (held_lease sample_lease ''other'' 0)\<rparr>) sample_capi) [] = (Inr False, [])"
  by (rule endpoint_lease_excludes[of _ _ _ sample_lease "''other''" 0])
     (simp_all add: sample_tm_def sample_capi_def sample_defs second_def)

text \<open>The pass of the reconciler that finds the desired configuration active on the node, which
  is the pass that completes a change of the endpoint after a reboot, never touches the
  lease: the other machines wait for its expiry.\<close>

theorem converged_pass_keeps_the_lease:
  "emits (configuration_converged L E machine ep au desired) (- lease_events)"
  by (rule converged_keeps_lease)

text \<open>Once a configuration carries a provider ID, setting the same one again meets no
  conflict and any other one is refused as a conflict.\<close>

theorem provider_id_is_sticky:
  assumes "talos_patch_law T" and "SetProviderID T c pid = Inr c'"
  shows "SetProviderID T c' pid \<noteq> Inl ErrProviderIDConflict \<and>
    (\<forall>other. \<not> blank other \<longrightarrow> trim_space other \<noteq> trim_space pid \<longrightarrow> SetProviderID T c' other = Inl ErrProviderIDConflict)"
  using assms by (rule SetProviderID_stays)

theorem provider_id_is_sticky_witness:
  "SetProviderID sample_talos ''cfg'' ''tart://h'' = Inr ''cfg:tart://h'' \<and>
   SetProviderID sample_talos ''cfg:tart://h'' ''tart://i'' = Inl ErrProviderIDConflict"
proof -
  have c: "SetProviderID sample_talos ''cfg'' ''tart://h'' = Inr ''cfg:tart://h''"
    "\<not> blank ''tart://i''" "trim_space ''tart://i'' \<noteq> trim_space ''tart://h''" by code_simp+
  with provider_id_is_sticky[OF sample_talos_law c(1)] show ?thesis by blast
qed

text \<open>A change is applied in place exactly when its class allows it and the strategy of the
  bootstrap configuration is one of the two that exist (staged with a reboot is the
  default); every other change is refused or replaces the machine.\<close>

theorem change_applied_iff:
  "(\<exists>d. Decide c reason strategy = Inr d \<and> dec_applyMode d = mode) \<and> mode \<noteq> ApplyModeUnset \<longleftrightarrow>
     c \<in> {ChangeUpdatable, ChangeControlPlaneEndpoint} \<and>
     (mode = ApplyModeApplyOnly \<and> strategy = ConfigurationApplyStrategyApplyOnly \<or>
      mode = ApplyModeStagedReboot \<and>
        strategy \<in> {ConfigurationApplyStrategyStagedReboot, ConfigurationApplyStrategyOther []})"
  by (rule Decide_applies_iff)

text \<open>The arithmetic that admits the removal of an etcd member decides what quorum means: there
  is another member, the healthy members are a majority now, and without the target they
  are a majority of the remaining members.\<close>

theorem removal_keeps_quorum:
  assumes "finite members" "healthy \<subseteq> members" "target \<in> members"
  shows "CanRemoveMember (observe members healthy target) \<longleftrightarrow>
     1 < card members \<and> majority healthy members \<and> majority (healthy - {target}) (members - {target})"
  using assms by (rule CanRemoveMember_iff)

theorem removal_keeps_quorum_witness:
  "CanRemoveMember (observe {1, 2, 3} {1, 2} (3 :: nat)) \<and> majority ({1, 2} - {3}) ({1, 2, 3} - {3 :: nat})"
proof -
  have "CanRemoveMember (observe {1, 2, 3} {1, 2} (3 :: nat))" by (simp add: observe_def CanRemoveMember_def quorumSize_def)
  with removal_keeps_quorum[of "{1, 2, 3}" "{1, 2}" "3 :: nat"] show ?thesis by simp
qed

text \<open>The arithmetic that admits a temporary disruption of an etcd member: the member is healthy,
  and it is the only one or the other healthy members are a majority of all.\<close>

theorem disruption_keeps_quorum:
  assumes "finite members" "healthy \<subseteq> members" "target \<in> members"
  shows "CanTemporarilyDisruptMember (observe members healthy target) \<longleftrightarrow>
     target \<in> healthy \<and> (members = {target} \<or> majority (healthy - {target}) members)"
  using assms by (rule CanTemporarilyDisruptMember_iff)

theorem disruption_keeps_quorum_witness:
  "CanTemporarilyDisruptMember (observe {1, 2, 3} {1, 2, 3} (3 :: nat)) \<and> majority ({1, 2, 3} - {3}) {1, 2, 3 :: nat}"
proof -
  have "CanTemporarilyDisruptMember (observe {1, 2, 3} {1, 2, 3} (3 :: nat))"
    by (simp add: observe_def CanTemporarilyDisruptMember_def quorumSize_def)
  moreover have "{1, 2, 3} \<noteq> {3 :: nat}" by (metis insertI1 insert_iff n_not_Suc_n numeral_eq_iff one_eq_numeral_iff semiring_norm(85) singletonD)
  ultimately show ?thesis using disruption_keeps_quorum[of "{1, 2, 3}" "{1, 2, 3}" "3 :: nat"] by simp
qed

text \<open>Two nodes of a CA rotation whose observed stages are at most one apart trust each other's
  issuing certificate.\<close>

theorem rotation_stages_trust_each_other:
  assumes "pem_crt a \<noteq> pem_crt p"
    and "caStage (Some i) acc (Some a) (Some p) = s" "s \<noteq> CATrustStageUnknown"
    and "caStage (Some j) bcc (Some a) (Some p) = t" "t \<noteq> CATrustStageUnknown"
    and "stage_index s \<le> Suc (stage_index t)" "stage_index t \<le> Suc (stage_index s)"
  shows "pem_crt j \<in> trusted_crts (Some i) acc \<and> pem_crt i \<in> trusted_crts (Some j) bcc"
  using assms by (rule adjacent_trust)

theorem rotation_stages_trust_each_other_witness:
  "let a = \<lparr>pem_crt = ''a'', pem_key = ''ka''\<rparr>; p = \<lparr>pem_crt = ''p'', pem_key = ''kp''\<rparr>
   in caStage (Some a) [Some ''p''] (Some a) (Some p) = CATrustStageDualTrust \<and>
      caStage (Some p) [Some ''a''] (Some a) (Some p) = CATrustStageCutover \<and>
      pem_crt p \<in> trusted_crts (Some a) [Some ''p'']"
proof -
  let ?a = "\<lparr>pem_crt = ''a'', pem_key = ''ka''\<rparr>" and ?p = "\<lparr>pem_crt = ''p'', pem_key = ''kp''\<rparr>"
  have s: "caStage (Some ?a) [Some ''p''] (Some ?a) (Some ?p) = CATrustStageDualTrust"
    "caStage (Some ?p) [Some ''a''] (Some ?a) (Some ?p) = CATrustStageCutover" by code_simp+
  from rotation_stages_trust_each_other[OF _ s(1) _ s(2)] s show ?thesis by (simp add: Let_def)
qed

text \<open>The Secret built for a generation of a cluster's secrets satisfies the contract that every
  reader checks, with the data it was given, and a Secret satisfies the contract of one
  cluster, generation and state only.\<close>

theorem bundle_contract:
  assumes "buildBundleSecret L namespace clusterName clusterID generation state owner data = Inr s"
  shows "ValidateBundleSecretContract L (Some s) namespace clusterName clusterID generation state (own_uid owner) = None \<and>
     sec_data s = data \<and>
     (\<forall>ns' c' i' g' st' u'. ValidateBundleSecretContract L (Some s) ns' c' i' g' st' u' = None \<longrightarrow>
        ns' = namespace \<and> c' = clusterName \<and> i' = clusterID \<and> g' = generation \<and> st' = state)"
  using buildBundleSecret_ok[OF assms] bundle_identity by metis

theorem bundle_contract_witness:
  "ValidateBundleSecretContract sample_lib (Some sample_bundle_secret) ''default'' ''t1'' sample_cluster_id 1 BundleStateActive ''tu'' = None \<and>
   ValidateBundleSecretContract sample_lib (Some sample_bundle_secret) ''default'' ''t1'' sample_cluster_id 2 BundleStateActive ''tu'' \<noteq> None"
proof (intro conjI notI)
  show "ValidateBundleSecretContract sample_lib (Some sample_bundle_secret) ''default'' ''t1'' sample_cluster_id 1 BundleStateActive ''tu'' = None"
    by (rule sample_bundle_valid)
  assume "ValidateBundleSecretContract sample_lib (Some sample_bundle_secret) ''default'' ''t1'' sample_cluster_id 2 BundleStateActive ''tu'' = None"
  then have "2 = (1 :: int)" using bundle_contract[OF sample_bundle_built[unfolded BuildActiveSecret_def]] by blast
  then show False by simp
qed

text \<open>The recovery Secret built from the material of a cluster decodes to that material again,
  for a reader that expects this cluster or none.\<close>

theorem recovery_secret_round_trip:
  assumes "BuildRecoverySecret L namespace m = Inr s" and "mat_ca m = Some ca" and "\<not> blank (pem_key ca)"
    and "ClusterID_IsZero expected \<or> expected = mat_clusterID m"
  shows "DecodeSecret L (Some s) expected = Inr \<lparr>mat_clusterID = mat_clusterID m, mat_ca = Some \<lparr>pem_crt = pem_crt ca, pem_key = pem_key ca\<rparr>\<rparr>"
  using assms by (rule decode_built)

theorem recovery_secret_round_trip_witness:
  "DecodeSecret sample_lib (Some sample_recovery_secret) sample_cluster_id = Inr sample_material"
  using recovery_secret_round_trip[OF sample_recovery_built, of sample_ca sample_cluster_id]
  by (simp add: sample_material_def sample_ca_def sample_not_blank)

text \<open>A recovery Secret is collected exactly when it is one, names its cluster, is not being
  deleted, is older than the grace period (or has no creation time), and no host refers to
  it.\<close>

theorem recovery_secret_collected_iff:
  "ShouldDelete (Some s) hosts now grace \<longleftrightarrow>
     IsRecoverySecret (Some s) \<and> sec_deletionTimestamp s = None \<and>
     \<not> blank (map_get (sec_labels s) ClusterIDLabel) \<and>
     (sec_creationTimestamp s = 0 \<or> max 0 grace \<le> time_sub now (sec_creationTimestamp s)) \<and>
     (\<forall>h \<in> set hosts. \<not> IsReferencedBy h (sec_name s))"
  by (rule ShouldDelete_iff)

theorem recovery_secret_collected_iff_witness:
  "let s = zero_secret\<lparr>sec_name := ''s'', sec_labels := [(SecretTypeLabel, SecretTypeRecovery), (ClusterIDLabel, ''c'')], sec_creationTimestamp := 1\<rparr>
   in \<not> ShouldDelete (Some s) [sample_bound_host] (60 * minute) CreationGracePeriod \<and>
      ShouldDelete (Some s) [sample_host ''h1'' 5] (60 * minute) CreationGracePeriod"
proof -
  let ?s = "zero_secret\<lparr>sec_name := ''s'', sec_labels := [(SecretTypeLabel, SecretTypeRecovery), (ClusterIDLabel, ''c'')], sec_creationTimestamp := 1\<rparr>"
  have r: "IsReferencedBy sample_bound_host (sec_name ?s)" by code_simp
  have f: "\<not> IsReferencedBy (sample_host ''h1'' 5) (sec_name ?s)" "IsRecoverySecret (Some ?s)" "sec_deletionTimestamp ?s = None"
    "\<not> blank (map_get (sec_labels ?s) ClusterIDLabel)" "max 0 CreationGracePeriod \<le> time_sub (60 * minute) (sec_creationTimestamp ?s)"
    by code_simp+
  have "\<not> ShouldDelete (Some ?s) [sample_bound_host] (60 * minute) CreationGracePeriod"
    using recovery_secret_collected_iff[of ?s "[sample_bound_host]"] r by (metis list.set_intros(1))
  moreover have "ShouldDelete (Some ?s) [sample_host ''h1'' 5] (60 * minute) CreationGracePeriod"
    using recovery_secret_collected_iff[of ?s "[sample_host ''h1'' 5]"] f by (metis empty_iff empty_set set_ConsD)
  ultimately show ?thesis unfolding Let_def by (rule conjI)
qed

text \<open>A node passes for the target of a reset exactly when it shows the cluster the host is bound
  to, the endpoint asked, the MAC address of the host and, where the host's is known, its
  system UUID.\<close>

theorem reset_target_verified_iff:
  "VerifyResetTarget expected observed = None \<longleftrightarrow>
     \<not> ClusterID_IsZero (exp_clusterID expected) \<and> obsd_clusterID observed = exp_clusterID expected \<and>
     \<not> blank (exp_endpoint expected) \<and> exp_endpoint expected = trim_space (obsd_endpoint observed) \<and>
     \<not> MAC_IsZero (exp_macAddress expected) \<and> exp_macAddress expected \<in> set (obsd_macAddresses observed) \<and>
     (normalizedUUID (exp_systemUUID expected) \<noteq> [] \<longrightarrow>
        normalizedUUID (obsd_systemUUID observed) = normalizedUUID (exp_systemUUID expected))"
  by (rule VerifyResetTarget_iff)

theorem reset_target_verified_iff_witness:
  "let e = ExpectedIdentityForHost (Some sample_bound_host) sample_cluster_id ''10.0.0.1'';
       o1 = \<lparr>obsd_clusterID = sample_cluster_id, obsd_macAddresses = [\<lparr>mac_value = 1, mac_set = True\<rparr>], obsd_systemUUID = [],
             obsd_endpoint = ''10.0.0.1''\<rparr>
   in VerifyResetTarget e o1 = None \<and> obsd_clusterID o1 = exp_clusterID e"
proof -
  let ?e = "ExpectedIdentityForHost (Some sample_bound_host) sample_cluster_id ''10.0.0.1''"
  let ?o = "\<lparr>obsd_clusterID = sample_cluster_id, obsd_macAddresses = [\<lparr>mac_value = 1, mac_set = True\<rparr>], obsd_systemUUID = [],
             obsd_endpoint = ''10.0.0.1''\<rparr>"
  have v: "VerifyResetTarget ?e ?o = None" by code_simp
  then have "obsd_clusterID ?o = exp_clusterID ?e" using reset_target_verified_iff[of ?e ?o] by blast
  with v show ?thesis by (simp only: Let_def)
qed

text \<open>The host found for a machine is the only one that names the machine as its consumer, and
  no host is found only when none does.\<close>

theorem claimed_host_is_unique:
  assumes "FindClaimedHost hosts u = Inr r" "\<forall>h \<in> set hosts. h_name h \<noteq> []" "inj_on h_name (set hosts)"
  shows "case r of None \<Rightarrow> \<forall>h \<in> set hosts. \<not> IsBoundTo (consumer_uid h) u
     | Some h \<Rightarrow> h \<in> set hosts \<and> IsBoundTo (consumer_uid h) u \<and>
         (\<forall>k \<in> set hosts. IsBoundTo (consumer_uid k) u \<longrightarrow> k = h)"
  using assms by (rule FindClaimedHost_ok)

theorem claimed_host_is_unique_witness:
  "FindClaimedHost [sample_host ''h2'' 6, sample_bound_host] ''u1'' = Inr (Some sample_bound_host) \<and>
   IsBoundTo (consumer_uid sample_bound_host) ''u1'' \<and> \<not> IsBoundTo (consumer_uid (sample_host ''h2'' 6)) ''u1''"
proof -
  have f: "FindClaimedHost [sample_host ''h2'' 6, sample_bound_host] ''u1'' = Inr (Some sample_bound_host)" by code_simp
  have n: "h_name (sample_host ''h2'' 6) = ''h2''" "h_name sample_bound_host = ''h1''"
    by (simp_all add: sample_bound_host_def sample_defs)
  have "h_name (sample_host ''h2'' 6) \<noteq> h_name sample_bound_host" using n by simp
  then have "sample_host ''h2'' 6 \<noteq> sample_bound_host" by metis
  with claimed_host_is_unique[OF f] n f show ?thesis by (auto simp: inj_on_def)
qed

text \<open>The wait after a shutdown request is measured from when the machine stopped being ready,
  which is the request only if the machine was ready or had no such condition until then: for
  a machine that was not ready before, the wait may be over when the request is sent.\<close>

theorem shutdown_wait_measured:
  assumes "conditions_law L" and "run_state (shutdown_requested L E machine msg) tr = (r, tr @ [MachineStatusPatch m])"
  shows "HasShutdownRequest L m \<and>
    (ShutdownRequestSettled L now m shutdownConfirmationDelay \<longleftrightarrow>
       wait_starts L machine (te_now E tr) \<noteq> 0 \<and> shutdownConfirmationDelay \<le> now - wait_starts L machine (te_now E tr))"
  using assms by (rule shutdown_requested_settled)

theorem shutdown_wait_measured_witness:
  "\<exists>m. snd (run_state (shutdown_requested k8s_reference sample_deletion sample_stopping []) []) = [MachineStatusPatch m] \<and>
     ShutdownRequestSettled k8s_reference (te_now sample_deletion []) m shutdownConfirmationDelay"
proof -
  have "\<exists>m. run_state (shutdown_requested k8s_reference sample_deletion sample_stopping []) [] =
      ((30 * second, None), [] @ [MachineStatusPatch m])"
    by (simp add: shutdown_requested_def reportAndRequeue_def report_def api_write_def sample_deletion_def sample_tm_def
        shutdownConfirmationRequeue_def Let_def)
  then obtain m where r: "run_state (shutdown_requested k8s_reference sample_deletion sample_stopping []) [] =
      ((30 * second, None), [] @ [MachineStatusPatch m])" by blast
  have w: "wait_starts k8s_reference sample_stopping t = 1" for t
    by (simp add: wait_starts_def k8s_reference_def ref_find_condition_def sample_stopping_def sample_condition_def TartMachineReadyCondition_def)
  have "shutdownConfirmationDelay \<le> te_now sample_deletion [] - 1"
    by (simp add: shutdownConfirmationDelay_def sample_deletion_def second_def)
  with shutdown_wait_measured[OF k8s_reference_conditions r] w r show ?thesis by auto
qed

text \<open>The automatic choice of a host does not depend on the order of the hosts, and does not
  change when other hosts disappear.\<close>

theorem selection_stable:
  assumes "SelectFreshForFailureDomainWithRendezvous L hosts selector fd uid = Some h"
    and "set hosts' \<subseteq> set hosts" "h \<in> set hosts'" "inj_on h_name (set hosts)"
  shows "SelectFreshForFailureDomainWithRendezvous L hosts' selector fd uid = Some h"
proof -
  let ?le = "if uid = [] then name_le else score_le uid"
  let ?c = "filter (fresh_candidate L selector fd) hosts" and ?c' = "filter (fresh_candidate L selector fd) hosts'"
  have total: "?le x y \<or> ?le y x" for x y
    using name_le_total score_le_total by (cases "uid = []") auto
  have trans: "?le x y \<Longrightarrow> ?le y z \<Longrightarrow> ?le x z" for x y z
    by (cases "uid = []") (auto intro: name_le_trans score_le_trans)
  have anti: "?le x y \<Longrightarrow> ?le y x \<Longrightarrow> h_name x = h_name y" for x y
    by (cases "uid = []") (auto dest: name_le_antisym score_le_antisym)
  have least: "?le (hd (sort_by ?le xs)) y" if "y \<in> set xs" for xs y
    by (rule hd_sort_by_le) (rule total, erule (1) trans, rule that)
  from assms(1) have h: "h = hd (sort_by ?le ?c)" "?c \<noteq> []"
    by (auto simp: SelectFreshForFailureDomainWithRendezvous_def Let_def split: if_splits)
  then have "h \<in> set ?c" using hd_sort_by_in by metis
  with assms(3) have h': "h \<in> set ?c'" by simp
  let ?k = "hd (sort_by ?le ?c')"
  have "?c' \<noteq> []" using h' by (metis empty_iff empty_set)
  then have k: "?k \<in> set ?c'" by (rule hd_sort_by_in)
  with assms(2) have "?k \<in> set ?c" by auto
  then have "?le h ?k" using least[of ?k ?c] h(1) by simp
  moreover have "?le ?k h" using least[OF h'] .
  ultimately have "h_name h = h_name ?k" by (rule anti)
  moreover have "?k \<in> set hosts" "h \<in> set hosts" using k assms(2,3) by auto
  ultimately have "?k = h" using inj_onD[OF assms(4)] by metis
  with \<open>?c' \<noteq> []\<close> show ?thesis
    by (cases "uid = []") (simp_all only: SelectFreshForFailureDomainWithRendezvous_def Let_def if_True if_False refl)
qed

theorem selection_stable_witness:
  "SelectFreshForFailureDomainWithRendezvous k8s_reference [sample_host ''h1'' 5] None ''zone-a'' ''u1'' = Some (sample_host ''h1'' 5)"
proof -
  let ?h = "sample_host ''h1'' 5" and ?k = "(sample_host ''h2'' 6)\<lparr>h_spec := (sample_spec 6)\<lparr>hs_consumerRef := Some (sample_consumer ''u2'')\<rparr>\<rparr>"
  have s: "SelectFreshForFailureDomainWithRendezvous k8s_reference [?k, ?h] None ''zone-a'' ''u1'' = Some ?h"
    by (simp add: SelectFreshForFailureDomainWithRendezvous_def fresh_candidate_def MatchesForFailureDomain_def sample_defs
        HostID_IsZero_def uuid_nil_def Let_def)
  have "inj_on h_name (set [?k, ?h])" by (simp add: sample_defs)
  with selection_stable[OF s, of "[?h]"] show ?thesis by simp
qed

text \<open>While two hosts share an identity, or one host lists the same disk twice, no machine
  at all is reconciled further than a report on its status.\<close>

theorem identity_conflict_stops_every_machine:
  assumes "te_list_hosts E tr = Inr hosts" and "h \<in> set hosts" and "disks_within_conflict h \<or> HasIdentityConflict h hosts"
    and "run_state (reconcileProvisioning L E ns machine) tr = (r, tr @ new)"
  shows "set new \<subseteq> range MachineStatusPatch"
proof -
  have "HasIdentityConflictForAny hosts" using assms(2,3) HasIdentityConflictForAny_iff by blast
  with assms(1,4) have "only (range MachineStatusPatch) tr (tr @ new)"
    by (auto simp: reconcileProvisioning_def reconcileProvisioningHost_def
        dest!: only_emits[OF emits_reportAndRequeue[OF order_refl]] split: prod.splits)
  then show ?thesis by (auto simp: only_def)
qed

theorem identity_conflict_stops_every_machine_witness:
  "let d = \<lparr>disk_sizeBytes = 1, disk_devicePath = ''/dev/sda'', disk_model = [], disk_serial = ''S1'', disk_wwid = [], disk_busPath = [],
         disk_transport = [], disk_rotational = False, disk_readOnly = False, disk_symlinks = [], disk_stableSelector = []\<rparr>;
       h = (sample_host ''h1'' 5)\<lparr>h_status := sample_host_status\<lparr>hst_inventory := Some
         \<lparr>inv_bootID = [], inv_systemUUID = [], inv_architecture = [], inv_disks = [d, d], inv_networkInterfaces = []\<rparr>\<rparr>\<rparr>;
       E = sample_tm\<lparr>te_list_hosts := \<lambda>_. Inr [h]\<rparr>
   in disks_within_conflict h \<and> \<not> HasIdentityConflict h [h] \<and>
      set (snd (run_state (reconcileProvisioning k8s_reference E ''ns'' sample_machine) [])) \<subseteq> range MachineStatusPatch"
proof -
  define d where "d = \<lparr>disk_sizeBytes = 1, disk_devicePath = ''/dev/sda'', disk_model = [], disk_serial = ''S1'', disk_wwid = [], disk_busPath = [],
         disk_transport = [], disk_rotational = False, disk_readOnly = False, disk_symlinks = [], disk_stableSelector = []\<rparr>"
  define h where "h = (sample_host ''h1'' 5)\<lparr>h_status := sample_host_status\<lparr>hst_inventory := Some
         \<lparr>inv_bootID = [], inv_systemUUID = [], inv_architecture = [], inv_disks = [d, d], inv_networkInterfaces = []\<rparr>\<rparr>\<rparr>"
  define E where "E = sample_tm\<lparr>te_list_hosts := \<lambda>_. Inr [h]\<rparr>"
  have c: "disks_within_conflict h" "\<not> HasIdentityConflict h [h]" unfolding h_def d_def by code_simp+
  have "te_list_hosts E [] = Inr [h]" by (simp add: E_def)
  from identity_conflict_stops_every_machine[OF this _ _ from_start] c
  show ?thesis unfolding Let_def d_def[symmetric] h_def[symmetric] E_def[symmetric] by simp
qed

text \<open>What the JSON methods of a host ID, cluster ID, MAC address or provider ID write, they
  read back as the same value.\<close>

theorem identifier_json_round_trip:
  assumes "mac_wf a" and "provider_id_wf p"
  shows "HostID_UnmarshalJSON (HostID_MarshalJSON i) = Inr i \<and> ClusterID_UnmarshalJSON (ClusterID_MarshalJSON c) = Inr c \<and>
     MAC_UnmarshalJSON (MAC_MarshalJSON a) = Inr a \<and> ProviderID_UnmarshalJSON (ProviderID_MarshalJSON p) = Inr p"
  using host_id.json_round_trip[of i] cluster_id.json_round_trip[of c] mac_address.json_round_trip[OF assms(1)]
    provider_id.json_round_trip[OF assms(2)]
  by (simp add: HostID_UnmarshalJSON_def HostID_MarshalJSON_def ClusterID_UnmarshalJSON_def ClusterID_MarshalJSON_def
      MAC_UnmarshalJSON_def MAC_MarshalJSON_def ProviderID_UnmarshalJSON_def ProviderID_MarshalJSON_def
      HostID_MarshalText_def ClusterID_MarshalText_def MAC_MarshalText_def ProviderID_MarshalText_def)

theorem identifier_json_round_trip_witness:
  "MAC_UnmarshalJSON (MAC_MarshalJSON \<lparr>mac_value = 1, mac_set = True\<rparr>) = Inr \<lparr>mac_value = 1, mac_set = True\<rparr> \<and>
   ProviderID_UnmarshalJSON (ProviderID_MarshalJSON (ProviderID [])) = Inr (ProviderID [])"
  using identifier_json_round_trip[of "\<lparr>mac_value = 1, mac_set = True\<rparr>" "ProviderID []"]
  by (simp add: mac_wf_def provider_id_wf_def ProviderID_IsZero_def)

text \<open>A provider ID names one host: it parses back to itself, and two hosts never have the
  same one.\<close>

theorem provider_id_names_one_host:
  assumes "NewProviderID i = Inr p"
  shows "ParseProviderID (ProviderID_String p) = Inr p \<and> (\<forall>j. NewProviderID j = Inr p \<longrightarrow> j = i)"
  using ParseProviderID_New[OF assms] NewProviderID_inj[OF assms] by metis

theorem provider_id_names_one_host_witness:
  "\<exists>p. NewProviderID (HostID 5) = Inr p \<and> ParseProviderID (ProviderID_String p) = Inr p"
proof -
  have "\<exists>p. NewProviderID (HostID 5) = Inr p" by (simp add: NewProviderID_def HostID_IsZero_def uuid_nil_def)
  then show ?thesis using provider_id_names_one_host by blast
qed

text \<open>The provider ID that reaches a TartMachine or its CAPI Machine is that of a host which, as
  the API server answered, has this machine as its consumer; a provider ID that the
  TartMachine already has is never replaced.\<close>

theorem provider_id_only_after_the_claim:
  assumes "update_returns_host E"
    and "run_state (reconcileProvisioningHost L E machine) tr = (r, tr @ new)"
    and "CapiMachinePatch k \<in> set new \<or> MachinePatch m \<in> set new"
  shows "\<exists>h p. hs_consumerRef (h_spec h) = Some (machine_consumer machine) \<and> published_for machine h p new"
  using assms by (rule provider_id_published)

theorem provider_id_only_after_the_claim_witness:
  "let machine = sample_machine\<lparr>m_spec := (m_spec sample_machine)\<lparr>ms_providerID := ProviderID []\<rparr>\<rparr>;
       new = snd (run_state (reconcileProvisioningHost k8s_reference sample_tm machine) [])
   in HostRepo (HostUpdate (set_consumer (machine_consumer machine) (sample_host ''h1'' 5))) \<in> set new \<and>
      (\<exists>h p. hs_consumerRef (h_spec h) = Some (machine_consumer machine) \<and> published_for machine h p new)"
proof -
  let ?machine = "sample_machine\<lparr>m_spec := (m_spec sample_machine)\<lparr>ms_providerID := ProviderID []\<rparr>\<rparr>"
  let ?new = "snd (run_state (reconcileProvisioningHost k8s_reference sample_tm ?machine) [])"
  let ?k = "sample_capi\<lparr>cm_providerID := provider_prefix @ HostID_String (HostID 5)\<rparr>"
  have e: "CapiMachinePatch ?k \<in> set ?new" by code_simp
  have h: "HostRepo (HostUpdate (set_consumer (machine_consumer ?machine) (sample_host ''h1'' 5))) \<in> set ?new" by code_simp
  have "update_returns_host sample_tm" by (simp add: update_returns_host_def sample_tm_def)
  from provider_id_only_after_the_claim[OF this from_start disjI1, OF e] h
  show ?thesis unfolding Let_def by blast
qed

text \<open>A host is selected for a machine only when it is the machine's already, or when it is free
  (and, if it was retained, approved for reuse and referred to by name) and fits the failure
  domain and the selector; selecting changes nothing.\<close>

theorem selected_host_is_eligible:
  assumes "run_state (observedOrSelectedHost L E machine hosts) tr = (Inr (Some h), tr')"
  shows "tr' = tr \<and> (\<exists>capiMachine. run_state (find_capi_machine L E machine) tr = (Inr capiMachine, tr) \<and>
     (owned_by (mt_uid (m_meta machine)) h \<or>
      mst_hostRef (m_status machine) = None \<and>
      MatchesForFailureDomain L (mt_labels (h_meta h)) (h_spec h) (ms_hostSelector (m_spec machine)) (cm_failureDomain capiMachine) \<and>
      (Classify (h_spec h) = Available \<or> Classify (h_spec h) = Reusable \<and> ms_hostRef (m_spec machine) \<noteq> None)))"
  using assms by (rule selected_host)

theorem selected_host_is_eligible_witness:
  "run_state (observedOrSelectedHost k8s_reference sample_tm sample_machine [sample_host ''h1'' 5]) [] = (Inr (Some (sample_host ''h1'' 5)), []) \<and>
   Classify (h_spec (sample_host ''h1'' 5)) = Available"
proof -
  have s: "fst (run_state (observedOrSelectedHost k8s_reference sample_tm sample_machine [sample_host ''h1'' 5]) []) = Inr (Some (sample_host ''h1'' 5))"
    by code_simp
  from selected_host_is_eligible[OF outcome[OF s]] s show ?thesis by (simp add: prod_eq_iff sample_defs)
qed

text \<open>The reconciler does nothing to a paused machine, and to a machine without its finalizer it
  does nothing but add it: no host is claimed that no deletion would give back.\<close>

theorem finalizer_before_everything:
  assumes "run_state (Reconcile_TartMachine L E ns namespace name) tr = (r, tr @ new)" and "new \<noteq> []"
  shows "\<exists>machine. te_get_tart_machine E tr namespace name = Inr machine \<and> \<not> IsPaused L (m_meta machine) \<and>
     (lib_contains_finalizer L (mt_finalizers (m_meta machine)) tartMachineFinalizer \<or>
      mt_deletionTimestamp (m_meta machine) = None \<and>
      new = [MachinePatch (machine\<lparr>m_meta := (m_meta machine)\<lparr>mt_finalizers :=
        lib_add_finalizer L (mt_finalizers (m_meta machine)) tartMachineFinalizer\<rparr>\<rparr>)])"
  using assms by (rule Reconcile_gate)

theorem finalizer_before_everything_witness:
  "let machine = sample_machine\<lparr>m_meta := (m_meta sample_machine)\<lparr>mt_finalizers := []\<rparr>\<rparr>;
       E = sample_tm\<lparr>te_get_tart_machine := \<lambda>_ _ _. Inr machine\<rparr>
   in snd (run_state (Reconcile_TartMachine k8s_reference E ''ns'' ''default'' ''m1'') []) = [MachinePatch sample_machine]"
proof -
  define machine where "machine = sample_machine\<lparr>m_meta := (m_meta sample_machine)\<lparr>mt_finalizers := []\<rparr>\<rparr>"
  define E where "E = sample_tm\<lparr>te_get_tart_machine := \<lambda>_ _ _. Inr machine\<rparr>"
  let ?new = "snd (run_state (Reconcile_TartMachine k8s_reference E ''ns'' ''default'' ''m1'') [])"
  have n: "?new \<noteq> []" unfolding E_def machine_def by code_simp
  have "machine\<lparr>m_meta := (m_meta machine)\<lparr>mt_finalizers := lib_add_finalizer k8s_reference (mt_finalizers (m_meta machine)) tartMachineFinalizer\<rparr>\<rparr> = sample_machine"
    "\<not> lib_contains_finalizer k8s_reference (mt_finalizers (m_meta machine)) tartMachineFinalizer"
    by (simp_all add: machine_def k8s_reference_def sample_machine_def sample_defs)
  moreover have "te_get_tart_machine E [] ''default'' ''m1'' = Inr machine" by (simp add: E_def)
  ultimately have "?new = [MachinePatch sample_machine]" using finalizer_before_everything[OF from_start n] by auto
  then show ?thesis unfolding Let_def machine_def[symmetric] E_def[symmetric] .
qed

text \<open>A Secret of configuration patches that several bootstrap configurations share wakes the
  machines of the first of them only.\<close>

theorem shared_patches_wake_one_configuration:
  assumes "uses_secret s c1" and "mt_name (bc_meta c1) \<noteq> mt_name (bc_meta c2)" and "uses_secret s c2"
    and "machines (mt_namespace (bc_meta c1)) = Inr ms" "m \<in> set ms" "refers_to_bootstrap (mt_name (bc_meta c2)) m"
    and "\<forall>m' \<in> set ms. cr_name (cm_infrastructureRef m') = cr_name (cm_infrastructureRef m) \<longrightarrow> m' = m"
  shows "(mt_namespace (bc_meta c1), cr_name (cm_infrastructureRef m)) \<notin>
     set (enqueueMachinesForBootstrapSecret machines (\<lambda>_. Inr (c1 # c2 # rest)) namespace s)"
  using assms by (rule shared_secret_wakes_one)

theorem shared_patches_wake_one_configuration_witness:
  "let c2 = sample_bootstrap_config\<lparr>bc_meta := (bc_meta sample_bootstrap_config)\<lparr>mt_name := ''b2''\<rparr>\<rparr>;
       m2 = sample_capi\<lparr>cm_configRef := \<lparr>cr_apiGroup = bootstrap_group, cr_kind = TartBootstrapConfigKind, cr_name = ''b2''\<rparr>\<rparr>
   in uses_secret ''patches'' c2 \<and> refers_to_bootstrap ''b2'' m2 \<and>
      ([], ''m1'') \<notin> set (enqueueMachinesForBootstrapSecret (\<lambda>_. Inr [m2]) (\<lambda>_. Inr [sample_bootstrap_config, c2]) [] ''patches'')"
proof -
  define c2 where "c2 = sample_bootstrap_config\<lparr>bc_meta := (bc_meta sample_bootstrap_config)\<lparr>mt_name := ''b2''\<rparr>\<rparr>"
  define m2 where "m2 = sample_capi\<lparr>cm_configRef := \<lparr>cr_apiGroup = bootstrap_group, cr_kind = TartBootstrapConfigKind, cr_name = ''b2''\<rparr>\<rparr>"
  have u: "uses_secret ''patches'' sample_bootstrap_config" "uses_secret ''patches'' c2" "refers_to_bootstrap ''b2'' m2"
    by (simp_all add: c2_def m2_def uses_secret_def sample_bootstrap_config_def refers_to_bootstrap_def)
  have n: "mt_namespace (bc_meta sample_bootstrap_config) = []" "mt_name (bc_meta sample_bootstrap_config) = ''b1''"
    "mt_name (bc_meta c2) = ''b2''" "cr_name (cm_infrastructureRef m2) = ''m1''"
    by (simp_all add: c2_def m2_def sample_bootstrap_config_def sample_defs sample_capi_def)
  have "(mt_namespace (bc_meta sample_bootstrap_config), cr_name (cm_infrastructureRef m2)) \<notin>
     set (enqueueMachinesForBootstrapSecret (\<lambda>_. Inr [m2]) (\<lambda>_. Inr (sample_bootstrap_config # c2 # [])) [] ''patches'')"
    by (rule shared_patches_wake_one_configuration) (use u n in auto)
  with u n show ?thesis unfolding Let_def c2_def[symmetric] m2_def[symmetric] by simp
qed

text \<open>C40. A claim tries at most three updates, each of a copy it read and judged free for the
  machine, and reports exhaustion only after three conflicts.\<close>

theorem claim_attempts_bounded:
  assumes "run_state (ClaimHostWithRequest L H (Some h) req) tr = ((err, h'), tr')"
  shows "\<exists>new. tr' = tr @ new \<and> length (filter is_update new) \<le> 3 \<and>
    (err = Some ConflictExhausted \<longrightarrow> length (filter is_update new) = 3) \<and>
    (\<forall>k. HostUpdate k \<in> set new \<longrightarrow>
       (\<exists>j. hs_consumerRef (h_spec j) = None \<and> k = set_consumer (req_consumer req) j))"
proof (cases "h_name h = []")
  case True
  with assms show ?thesis by (auto simp: ClaimHostWithRequest_def)
next
  case False
  let ?q = "if HostID_IsZero (req_expectedHostID req) then req\<lparr>req_expectedHostID := hs_hostID (h_spec h)\<rparr> else req"
  from assms False obtain h2 where run: "run_state (claim_loop L H ?q claimAttempts h) tr = ((err, h2), tr')"
    by (auto simp: ClaimHostWithRequest_def Let_def split: prod.splits)
  from claim.loop_emits[OF this] obtain new where new: "tr' = tr @ new" "length (filter is_update new) \<le> claimAttempts"
    "\<forall>k. HostUpdate k \<in> set new \<longrightarrow> (\<exists>j. claim_verdict L ?q j = Inr ClaimApply \<and> k = set_consumer (req_consumer ?q) j)" by blast
  have free: "hs_consumerRef (h_spec j) = None" if "claim_verdict L ?q j = Inr ClaimApply" for j
    using that ValidateClaimCandidate_unclaimed unfolding claim_verdict_apply by blast
  have "length (filter is_update new) = 3" if "err = Some ConflictExhausted"
    using claim.loop_exhausted[OF run[unfolded that]] new(1) by (auto simp: claimAttempts_def)
  moreover have "req_consumer ?q = req_consumer req" by simp
  then have "\<forall>k. HostUpdate k \<in> set new \<longrightarrow> (\<exists>j. hs_consumerRef (h_spec j) = None \<and> k = set_consumer (req_consumer req) j)"
    using new(3) free by metis
  ultimately show ?thesis using new(1,2) by (intro exI[of _ new]) (simp add: claimAttempts_def)
qed

theorem claim_attempts_bounded_witness:
  "let H = \<lparr>he_update = \<lambda>_ _. Inl ApiConflict, he_get = \<lambda>_ n. Inr (sample_host n 5)\<rparr>
   in fst (fst (run_state (ClaimHostWithRequest k8s_reference H (Some (sample_host ''h1'' 5)) (sample_request ''u1'')) [])) = Some ConflictExhausted \<and>
      length (filter is_update (snd (run_state (ClaimHostWithRequest k8s_reference H (Some (sample_host ''h1'' 5)) (sample_request ''u1'')) []))) = 3"
proof -
  let ?H = "\<lparr>he_update = \<lambda>_ _. Inl ApiConflict, he_get = \<lambda>_ n. Inr (sample_host n 5)\<rparr>"
  let ?m = "ClaimHostWithRequest k8s_reference ?H (Some (sample_host ''h1'' 5)) (sample_request ''u1'')"
  have e: "fst (fst (run_state ?m [])) = Some ConflictExhausted" by code_simp
  from claim_attempts_bounded[OF outcome2[OF e]] e show ?thesis by (simp only: Let_def append_Nil) blast
qed

end
